(* ===== verification/Prelude.thy ===== *)
theory Prelude
  imports Complex_Main "HOL-Library.AList" "HOL-Library.Sublist"
begin

text \<open>
  Generic library of the development: ASCII/Latin-1 strings with the string
  methods the code calls, JavaScript \<open>Map\<close> objects as association lists in
  insertion order, and the interfaces (locales) that several components share:
  a keyed store, a system whose operations keep an invariant, and a
  tenant-partitioned listing.

  A string is a list of 8-bit characters, one per UTF-16 code unit below 256;
  instants are integers, in milliseconds since the epoch.
\<close>

type_synonym ms = int

section \<open>Strings\<close>

text \<open>White space as removed by \<open>String.prototype.trim\<close>, below code unit 256.\<close>

definition is_ws :: "char \<Rightarrow> bool" where
  "is_ws c \<longleftrightarrow> of_char c \<in> {9, 10, 11, 12, 13, 32, 160 :: nat}"

definition str_trim :: "string \<Rightarrow> string" where
  "str_trim s = rev (dropWhile is_ws (rev (dropWhile is_ws s)))"

text \<open>\<open>toLowerCase\<close> on one code unit below 256: ASCII and the Latin-1 letters.\<close>

definition char_lower :: "char \<Rightarrow> char" where
  "char_lower c =
     (let n = of_char c :: nat
      in if (65 \<le> n \<and> n \<le> 90) \<or> (192 \<le> n \<and> n \<le> 222 \<and> n \<noteq> 215)
         then char_of (n + 32) else c)"

definition str_lower :: "string \<Rightarrow> string" where
  "str_lower s = map char_lower s"

text \<open>\<open>toUpperCase\<close>, on ASCII letters.\<close>

definition char_upper :: "char \<Rightarrow> char" where
  "char_upper c =
     (let n = of_char c :: nat in if 97 \<le> n \<and> n \<le> 122 then char_of (n - 32) else c)"

definition str_upper :: "string \<Rightarrow> string" where
  "str_upper s = map char_upper s"

fun str_includes :: "string \<Rightarrow> string \<Rightarrow> bool" where
  "str_includes pat [] = (pat = [])"
| "str_includes pat (c # s) = (prefix pat (c # s) \<or> str_includes pat s)"

fun split_on :: "char \<Rightarrow> string \<Rightarrow> string list" where
  "split_on d [] = [[]]"
| "split_on d (c # s) =
     (if c = d then [] # split_on d s
      else case split_on d s of [] \<Rightarrow> [[c]] | p # ps \<Rightarrow> (c # p) # ps)"

fun join_with :: "string \<Rightarrow> string list \<Rightarrow> string" where
  "join_with sep [] = []"
| "join_with sep [x] = x"
| "join_with sep (x # y # xs) = x @ sep @ join_with sep (y # xs)"

fun nat_str :: "nat \<Rightarrow> string" where
  "nat_str n = (if n < 10 then [char_of (48 + n)]
                else nat_str (n div 10) @ [char_of (48 + n mod 10)])"

declare nat_str.simps [simp del]

text \<open>\<open>String(n)\<close> of an integral number.\<close>

definition int_str :: "int \<Rightarrow> string" where
  "int_str i = (if i < 0 then CHR ''-'' # nat_str (nat (- i)) else nat_str (nat i))"

lemma split_on_nonempty [simp]: "split_on d s \<noteq> []"
  by (induction s) (auto split: list.splits)

lemma split_on_char_free: "d \<notin> set s \<Longrightarrow> split_on d s = [s]"
  by (induction s) auto

lemma split_on_append:
  "d \<notin> set x \<Longrightarrow> split_on d (x @ d # s) = x # split_on d s"
  by (induction x) auto

lemma split_on_parts_free: "p \<in> set (split_on d s) \<Longrightarrow> d \<notin> set p"
  by (induction s arbitrary: p) (auto split: list.splits if_splits)

lemma str_trim_empty [simp]: "str_trim [] = []"
  by (simp add: str_trim_def)

lemma dropWhile_idem_on: "dropWhile P (dropWhile P xs) = dropWhile P xs"
  by (induction xs) auto

lemma nat_str_nonempty [simp]: "nat_str n \<noteq> []"
  by (subst nat_str.simps) simp

lemma nat_str_digits: "c \<in> set (nat_str n) \<Longrightarrow> 48 \<le> (of_char c :: nat) \<and> (of_char c :: nat) \<le> 57"
proof (induction n arbitrary: c rule: nat_str.induct)
  case (1 n)
  show ?case
  proof (cases "n < 10")
    case True
    with "1.prems" show ?thesis by (subst (asm) nat_str.simps) auto
  next
    case False
    with "1.prems" "1.IH" show ?thesis
      by (subst (asm) nat_str.simps) auto
  qed
qed

text \<open>A decimal numeral determines the number it prints.\<close>

fun str_val :: "string \<Rightarrow> nat" where
  "str_val s = foldl (\<lambda>a c. 10 * a + (of_char c - 48)) 0 s"

lemma str_val_nat_str: "str_val (nat_str n) = n"
proof (induction n rule: nat_str.induct)
  case (1 n)
  show ?case
  proof (cases "n < 10")
    case True
    then show ?thesis by (subst nat_str.simps) simp
  next
    case False
    with "1.IH" have "str_val (nat_str (n div 10)) = n div 10" by simp
    with False show ?thesis by (subst nat_str.simps) simp
  qed
qed

lemma nat_str_inject [simp]: "nat_str m = nat_str n \<longleftrightarrow> m = n"
  by (metis str_val_nat_str)

section \<open>JavaScript Map objects\<close>

text \<open>
  A \<open>Map\<close> iterates in insertion order and \<open>set\<close> on a present key keeps its
  place, as \<open>AList.update\<close> does; \<open>delete\<close> is \<open>AList.delete\<close>.
\<close>

type_synonym ('k, 'v) jmap = "('k \<times> 'v) list"

abbreviation jm_get :: "('k, 'v) jmap \<Rightarrow> 'k \<Rightarrow> 'v option" where
  "jm_get \<equiv> map_of"

abbreviation jm_set :: "'k \<Rightarrow> 'v \<Rightarrow> ('k, 'v) jmap \<Rightarrow> ('k, 'v) jmap" where
  "jm_set \<equiv> AList.update"

abbreviation jm_del :: "'k \<Rightarrow> ('k, 'v) jmap \<Rightarrow> ('k, 'v) jmap" where
  "jm_del \<equiv> AList.delete"

definition jm_has :: "('k, 'v) jmap \<Rightarrow> 'k \<Rightarrow> bool" where
  "jm_has m k \<longleftrightarrow> map_of m k \<noteq> None"

definition jm_vals :: "('k, 'v) jmap \<Rightarrow> 'v list" where
  "jm_vals m = map snd m"

definition jm_wf :: "('k, 'v) jmap \<Rightarrow> bool" where
  "jm_wf m \<longleftrightarrow> distinct (map fst m)"

lemma jm_get_set: "jm_get (jm_set k v m) k' = (if k' = k then Some v else jm_get m k')"
  by (simp add: update_conv')

lemma jm_get_del: "jm_get (jm_del k m) k' = (if k' = k then None else jm_get m k')"
  by (simp add: delete_conv')

lemma jm_wf_empty [simp, intro]: "jm_wf []"
  by (simp add: jm_wf_def)

lemma jm_wf_set [simp, intro]: "jm_wf m \<Longrightarrow> jm_wf (jm_set k v m)"
  by (simp add: jm_wf_def distinct_update)

lemma jm_wf_del [simp, intro]: "jm_wf m \<Longrightarrow> jm_wf (jm_del k m)"
  by (simp add: jm_wf_def distinct_delete)

lemma jm_vals_get: "jm_wf m \<Longrightarrow> v \<in> set (jm_vals m) \<longleftrightarrow> (\<exists>k. jm_get m k = Some v)"
  by (auto simp: jm_wf_def jm_vals_def image_iff) (metis map_of_SomeD snd_conv)

lemma jm_set_new: "jm_get m k = None \<Longrightarrow> jm_set k v m = m @ [(k, v)]"
  by (induction m) (auto split: if_splits)

lemma jm_length_set: "length (jm_set k v m) = (if jm_has m k then length m else Suc (length m))"
  by (induction m) (auto simp: jm_has_def)

section \<open>Shared interfaces\<close>

text \<open>A keyed store: what a client may rely on after an insert or a removal.\<close>

locale keyed_store =
  fixes get :: "'m \<Rightarrow> 'k \<Rightarrow> 'v option"
    and put :: "'k \<Rightarrow> 'v \<Rightarrow> 'm \<Rightarrow> 'm"
    and del :: "'k \<Rightarrow> 'm \<Rightarrow> 'm"
  assumes get_put: "get (put k v m) k' = (if k' = k then Some v else get m k')"
    and get_del: "get (del k m) k' = (if k' = k then None else get m k')"
begin

lemma get_put_same: "get (put k v m) k = Some v"
  by (simp add: get_put)

lemma get_put_other: "k' \<noteq> k \<Longrightarrow> get (put k v m) k' = get m k'"
  by (simp add: get_put)

lemma get_del_put: "get (del k (put k v m)) k' = get (del k m) k'"
  by (simp add: get_put get_del)

text \<open>A family of entries that satisfy a per-key predicate is closed under a good insert.\<close>

lemma put_keeps_all:
  assumes "\<And>k' v'. get m k' = Some v' \<Longrightarrow> P k' v'" and "P k v"
    and "get (put k v m) k' = Some v'"
  shows "P k' v'"
  using assms by (auto simp: get_put split: if_splits)

lemma del_keeps_all:
  assumes "\<And>k' v'. get m k' = Some v' \<Longrightarrow> P k' v'"
    and "get (del k m) k' = Some v'"
  shows "P k' v'"
  using assms by (auto simp: get_del split: if_splits)

end

interpretation jm: keyed_store map_of AList.update AList.delete
  by unfold_locales (rule jm_get_set, rule jm_get_del)

text \<open>A system whose every operation keeps an invariant keeps it along any run.\<close>

locale invariant_system =
  fixes step :: "'s \<Rightarrow> 'e \<Rightarrow> 's"
    and ok :: "'e \<Rightarrow> bool"
    and inv :: "'s \<Rightarrow> bool"
  assumes step_inv: "inv s \<Longrightarrow> ok e \<Longrightarrow> inv (step s e)"
begin

lemma run_inv: "inv s \<Longrightarrow> list_all ok es \<Longrightarrow> inv (foldl step s es)"
  by (induction es arbitrary: s) (auto intro: step_inv)

lemma run_prefix_inv: "inv s \<Longrightarrow> list_all ok es \<Longrightarrow> prefix ds es \<Longrightarrow> inv (foldl step s ds)"
  by (auto simp: prefix_def intro: run_inv)

end

text \<open>
  A monotone record of facts: an observation, once defined, never changes along
  a run of the admitted operations (append-only logs, terminal states).
\<close>

locale stable_system =
  fixes step :: "'s \<Rightarrow> 'e \<Rightarrow> 's"
    and ok :: "'e \<Rightarrow> bool"
    and obs :: "'s \<Rightarrow> 'o option"
  assumes step_stable: "obs s = Some x \<Longrightarrow> ok e \<Longrightarrow> obs (step s e) = Some x"
begin

lemma run_stable: "obs s = Some x \<Longrightarrow> list_all ok es \<Longrightarrow> obs (foldl step s es) = Some x"
  by (induction es arbitrary: s) (auto intro: step_stable)

lemma run_never_other:
  "obs s = Some x \<Longrightarrow> list_all ok es \<Longrightarrow> obs (foldl step s es) = Some y \<Longrightarrow> y = x"
  using run_stable by fastforce

end

section \<open>Tenants\<close>

text \<open>
  Every store resolves an optional tenant id the same way:
  \<open>tenantId && tenantId.trim().length > 0 ? tenantId : "default"\<close>.
\<close>

definition resolve_tenant :: "string option \<Rightarrow> string" where
  "resolve_tenant t = (case t of None \<Rightarrow> ''default''
     | Some s \<Rightarrow> if str_trim s \<noteq> [] then s else ''default'')"

text \<open>
  A tenant-partitioned listing: the listing for a tenant is the part of the
  whole listing whose owner resolves to that tenant.
\<close>

locale tenant_partition =
  fixes all :: "'s \<Rightarrow> 'r list"
    and for_tenant :: "'s \<Rightarrow> string \<Rightarrow> 'r list"
    and owner :: "'r \<Rightarrow> string option"
  assumes for_tenant_eq:
    "t \<noteq> [] \<Longrightarrow> for_tenant s t = filter (\<lambda>r. resolve_tenant (owner r) = resolve_tenant (Some t)) (all s)"
begin

lemma visible_owned:
  "t \<noteq> [] \<Longrightarrow> r \<in> set (for_tenant s t) \<Longrightarrow> resolve_tenant (owner r) = resolve_tenant (Some t)"
  by (simp add: for_tenant_eq)

lemma disjoint_tenants:
  "t \<noteq> [] \<Longrightarrow> u \<noteq> [] \<Longrightarrow> resolve_tenant (Some t) \<noteq> resolve_tenant (Some u) \<Longrightarrow>
   set (for_tenant s t) \<inter> set (for_tenant s u) = {}"
  by (auto simp: for_tenant_eq)

lemma owner_sees: "t \<noteq> [] \<Longrightarrow> r \<in> set (all s) \<Longrightarrow> resolve_tenant (owner r) = resolve_tenant (Some t) \<Longrightarrow>
   r \<in> set (for_tenant s t)"
  by (simp add: for_tenant_eq)

end

section \<open>Lists as bounded logs\<close>

text \<open>\<open>xs.splice(0, xs.length - n)\<close> when \<open>xs.length > n\<close>: keep the newest \<open>n\<close>.\<close>

definition keep_last :: "nat \<Rightarrow> 'a list \<Rightarrow> 'a list" where
  "keep_last n xs = (if length xs \<le> n then xs else drop (length xs - n) xs)"

lemma keep_last_length [simp]: "length (keep_last n xs) = min n (length xs)"
  by (simp add: keep_last_def)

lemma keep_last_suffix: "suffix (keep_last n xs) xs"
  by (simp add: keep_last_def suffix_drop)

lemma set_keep_last: "set (keep_last n xs) \<subseteq> set xs"
  by (meson keep_last_suffix set_mono_suffix)

lemma keep_last_small: "length xs \<le> n \<Longrightarrow> keep_last n xs = xs"
  by (simp add: keep_last_def)

lemma keep_last_snoc: "0 < n \<Longrightarrow> keep_last n (xs @ [x]) = keep_last (n - 1) xs @ [x]"
  by (auto simp: keep_last_def Suc_diff_le)

end
