(* ===== verification/JsValues.thy ===== *)
theory JsValues
  imports Prelude
begin

text \<open>
  JavaScript values as the code handles them: the data behind \<open>unknown\<close> and
  \<open>Record<string, unknown>\<close>. Numbers are exact rationals with the two
  infinities and NaN (the code compares numbers from requests and never rounds
  one where a property here depends on it). An object lists its own enumerable
  keys in order; reading a key of \<open>Object.prototype\<close> yields an opaque
  function value, as \<open>obj["toString"]\<close> does. Two object values are never
  \<open>===\<close> here: the model compares values from a request with values from a
  policy document or a descriptor, which share no object.
\<close>

datatype jsnum = NaN | NegInf | PosInf | Fin rat

fun num_lt :: "jsnum \<Rightarrow> jsnum \<Rightarrow> bool" where
  "num_lt NaN _ = False"
| "num_lt _ NaN = False"
| "num_lt (Fin x) (Fin y) = (x < y)"
| "num_lt NegInf y = (y \<noteq> NegInf)"
| "num_lt PosInf _ = False"
| "num_lt (Fin x) PosInf = True"
| "num_lt (Fin x) NegInf = False"

definition num_eq :: "jsnum \<Rightarrow> jsnum \<Rightarrow> bool" where
  "num_eq a b \<longleftrightarrow> a \<noteq> NaN \<and> a = b"

definition num_le :: "jsnum \<Rightarrow> jsnum \<Rightarrow> bool" where
  "num_le a b \<longleftrightarrow> num_lt a b \<or> num_eq a b"

datatype jsval =
    JUndef
  | JNull
  | JBool bool
  | JNum jsnum
  | JStr string
  | JFun string
  | JArr "jsval list"
  | JObj "(string \<times> jsval) list"

abbreviation jint :: "int \<Rightarrow> jsval" where
  "jint i \<equiv> JNum (Fin (of_int i))"

text \<open>An optional property: absent and \<open>undefined\<close> read the same.\<close>

definition jopt :: "('a \<Rightarrow> jsval) \<Rightarrow> 'a option \<Rightarrow> jsval" where
  "jopt f x = (case x of None \<Rightarrow> JUndef | Some y \<Rightarrow> f y)"

fun js_truthy :: "jsval \<Rightarrow> bool" where
  "js_truthy JUndef = False"
| "js_truthy JNull = False"
| "js_truthy (JBool b) = b"
| "js_truthy (JNum n) = (n \<noteq> NaN \<and> n \<noteq> Fin 0)"
| "js_truthy (JStr s) = (s \<noteq> [])"
| "js_truthy (JFun _) = True"
| "js_truthy (JArr _) = True"
| "js_truthy (JObj _) = True"

text \<open>\<open>===\<close>, and the \<open>SameValueZero\<close> comparison of \<open>Array.prototype.includes\<close>.\<close>

fun strict_eq :: "jsval \<Rightarrow> jsval \<Rightarrow> bool" where
  "strict_eq JUndef JUndef = True"
| "strict_eq JNull JNull = True"
| "strict_eq (JBool a) (JBool b) = (a = b)"
| "strict_eq (JNum a) (JNum b) = num_eq a b"
| "strict_eq (JStr a) (JStr b) = (a = b)"
| "strict_eq (JFun a) (JFun b) = (a = b)"
| "strict_eq _ _ = False"

definition same_value_zero :: "jsval \<Rightarrow> jsval \<Rightarrow> bool" where
  "same_value_zero a b \<longleftrightarrow> strict_eq a b \<or> (a = JNum NaN \<and> b = JNum NaN)"

definition js_includes :: "jsval list \<Rightarrow> jsval \<Rightarrow> bool" where
  "js_includes xs v \<longleftrightarrow> (\<exists>x \<in> set xs. same_value_zero x v)"

fun is_num :: "jsval \<Rightarrow> bool" where
  "is_num (JNum _) = True" | "is_num _ = False"

fun is_str :: "jsval \<Rightarrow> bool" where
  "is_str (JStr _) = True" | "is_str _ = False"

text \<open>\<open>v && typeof v === "object" && !Array.isArray(v)\<close>.\<close>

fun is_plain_obj :: "jsval \<Rightarrow> bool" where
  "is_plain_obj (JObj _) = True" | "is_plain_obj _ = False"

definition nullish :: "jsval \<Rightarrow> bool" where
  "nullish v \<longleftrightarrow> v = JUndef \<or> v = JNull"

text \<open>\<open>a ?? b\<close>.\<close>

definition js_coalesce :: "jsval \<Rightarrow> jsval \<Rightarrow> jsval" where
  "js_coalesce a b = (if nullish a then b else a)"

text \<open>The functions every object inherits from \<open>Object.prototype\<close>.\<close>

definition inherited_names :: "string list" where
  "inherited_names = [''constructor'', ''toString'', ''valueOf'', ''hasOwnProperty'',
     ''isPrototypeOf'', ''propertyIsEnumerable'', ''toLocaleString'']"

definition inherited_member :: "string \<Rightarrow> jsval" where
  "inherited_member k = (if k \<in> set inherited_names then JFun k else JUndef)"

text \<open>\<open>obj[k]\<close> on an object or an array (own elements, \<open>length\<close>, inherited functions).\<close>

definition obj_get :: "(string \<times> jsval) list \<Rightarrow> string \<Rightarrow> jsval" where
  "obj_get kvs k = (case map_of kvs k of Some v \<Rightarrow> v | None \<Rightarrow> inherited_member k)"

definition arr_get :: "jsval list \<Rightarrow> string \<Rightarrow> jsval" where
  "arr_get xs k =
     (if k = ''length'' then jint (int (length xs))
      else case map_of (zip (map nat_str [0..<length xs]) xs) k of
             Some v \<Rightarrow> v | None \<Rightarrow> inherited_member k)"

text \<open>Spread and literal assembly: later keys overwrite earlier ones in place.\<close>

definition obj_merge :: "(string \<times> jsval) list \<Rightarrow> (string \<times> jsval) list \<Rightarrow> (string \<times> jsval) list" where
  "obj_merge a b = foldl (\<lambda>m (k, v). jm_set k v m) a b"

lemma num_lt_irrefl [simp]: "\<not> num_lt a a"
  by (cases a) auto

lemma num_lt_trans: "num_lt a b \<Longrightarrow> num_lt b c \<Longrightarrow> num_lt a c"
  by (cases a; cases b; cases c) auto

lemma num_lt_asym: "num_lt a b \<Longrightarrow> \<not> num_lt b a"
  by (cases a; cases b) auto

lemma num_total: "a \<noteq> NaN \<Longrightarrow> b \<noteq> NaN \<Longrightarrow> num_lt a b \<or> num_eq a b \<or> num_lt b a"
  by (cases a; cases b) (auto simp: num_eq_def)

lemma strict_eq_same_kind: "strict_eq a b \<Longrightarrow> a = b"
  by (cases a; cases b) (auto simp: num_eq_def)

lemma strict_eq_str [simp]: "strict_eq v (JStr s) \<longleftrightarrow> v = JStr s"
  by (cases v) auto

lemma obj_merge_get:
  "map_of (obj_merge a b) k = (case map_of (rev b) k of Some v \<Rightarrow> Some v | None \<Rightarrow> map_of a k)"
proof -
  have "map_of (foldl (\<lambda>m (k, v). jm_set k v m) a b) k =
     (case map_of (rev b) k of Some v \<Rightarrow> Some v | None \<Rightarrow> map_of a k)"
  proof (induction b arbitrary: a)
    case Nil
    then show ?case by simp
  next
    case (Cons p b)
    then show ?case
      by (cases p) (auto simp: jm_get_set map_add_def split: option.splits)
  qed
  then show ?thesis by (simp add: obj_merge_def)
qed

lemma obj_merge_nil [simp]: "obj_merge a [] = a"
  by (simp add: obj_merge_def)

end
