(* ===== verification/ProtocolTypes.thy ===== *)
theory ProtocolTypes
  imports JsValues
begin

text \<open>
  The data of the protocol, as \<open>src/src/protocol/map-types.ts\<close> and
  \<open>src/src/core/types.ts\<close> declare it: string unions as datatypes, interfaces as
  records (an optional property is an option). Field names carry a prefix per
  record, since Isabelle's record selectors share one name space. An ISO
  timestamp that the code writes with \<open>new Date().toISOString()\<close> is the instant
  it denotes.
\<close>

section \<open>Core types (core/types.ts)\<close>

datatype risk_level = Low | Medium | High | Critical

datatype policy_action = Allow | Deny | RequireApproval

datatype execution_status = Ok | Error

datatype receipt_action = Executed | Denied | ApprovalRequired

datatype core_requester_type = RUser | RService

datatype environment = Development | Staging | Production

record requester =
  rq_type :: core_requester_type
  rq_id :: string
  rq_tenant_id :: "string option"

record intent_constraints =
  ic_environment :: jsval
  ic_timeout_ms :: jsval
  ic_max_amount :: jsval
  ic_resource_id :: jsval

record intent_metadata =
  im_intent_id :: string
  im_request_id :: "string option"
  im_webhook_url :: "string option"

record intent =
  it_capability :: string
  it_input :: "(string \<times> jsval) list"
  it_requester :: requester
  it_constraints :: "intent_constraints option"
  it_metadata :: "intent_metadata option"
  it_risk_class :: "string option"

record policy_decision =
  pd_action :: policy_action
  pd_reason :: string
  pd_matched_rule :: "string option"

record execution_result =
  er_intent_id :: string
  er_capability :: string
  er_status :: execution_status
  er_output :: "(string \<times> jsval) list"
  er_summary :: string

record core_receipt =
  cr_receipt_id :: string
  cr_intent_id :: string
  cr_capability :: string
  cr_action :: receipt_action
  cr_timestamp :: ms
  cr_status :: execution_status
  cr_signature :: "string option"

text \<open>What an executor returns: an execution result or a core receipt.\<close>

datatype core_outcome = Result execution_result | Receipt core_receipt

text \<open>
  \<open>PolicyCondition\<close>. A comparison object is its list of (operator, (path, value))
  entries, as the index signature of \<open>ComparisonCondition\<close> allows several; its
  keys are none of the names that mark the other members of the union.
\<close>

datatype policy_condition =
    Always
  | Never
  | Comparison "(string \<times> string \<times> jsval) list"
  | And "policy_condition list"
  | Or "policy_condition list"
  | Not policy_condition
  | FieldRef string

record policy_rule =
  pr_id :: string
  pr_capability :: string
  pr_condition :: policy_condition
  pr_action :: policy_action

record policy_document =
  pol_rules :: "policy_rule list"
  pol_default_action :: "policy_action option"

record validation_result =
  vr_valid :: bool
  vr_errors :: "(string \<times> string) list"

section \<open>Protocol types (protocol/map-types.ts)\<close>

datatype execution_mode = MRead | MAnalyze | MPropose | MCommit | MMonitor | MBatch

datatype visibility_mode =
  VFull | VSummary | VStructuredOnly | VReceiptOnly | VRedacted | VDebug

datatype delivery_mode = Sync | Async

datatype task_status =
  Accepted | Proposed | AwaitingApproval | TDenied | Running | Completed | Failed | Revoked

datatype auth_scheme = NoAuth | Bearer | Mtls | SignedRequest | OAuth2

datatype requester_type = User | Service | Agent

record requester_identity =
  ri_type :: requester_type
  ri_id :: string
  ri_tenant_id :: "string option"

record task_constraints =
  tc_common :: jsval
  tc_domain :: jsval
  tc_rest :: "(string \<times> jsval) list"

record agent_extension =
  ax_uri :: string
  ax_description :: "string option"
  ax_required :: "bool option"
  ax_params :: "(string \<times> jsval) list option"

datatype registry_status = RegActive | RegDeprecated | RegDisabled

datatype compatibility = BackwardCompatible | ForwardCompatible | BreakingChange

record translation_target =
  tt_from :: string
  tt_to :: string

record capability_descriptor =
  cd_name :: string
  cd_execution_mode :: execution_mode
  cd_request_schema_ref :: string
  cd_response_schema_ref :: string
  cd_constraint_schema_ref :: "string option"
  cd_approval_required_by_default :: "bool option"
  cd_auth_schemes :: "auth_scheme list option"
  cd_required_auth_scheme :: "auth_scheme option"
  cd_schema_version :: "string option"
  cd_supported_schema_versions :: "string list option"
  cd_preferred_schema_version :: "string option"
  cd_translation_targets :: "translation_target list option"
  cd_compatibility :: "compatibility option"
  cd_status :: "registry_status option"

record agent_descriptor =
  ad_agent_id :: string
  ad_organization :: string
  ad_version :: string
  ad_domain :: string
  ad_capabilities :: "string list"
  ad_risk_level :: risk_level
  ad_input_schema_ref :: string
  ad_output_schema_ref :: string
  ad_execution_modes :: "execution_mode list"
  ad_approval_requirements :: "string list option"
  ad_visibility_modes :: "visibility_mode list"
  ad_policy_hooks :: "string list option"
  ad_display_name :: "string option"
  ad_provider_url :: "string option"
  ad_documentation_url :: "string option"
  ad_auth_schemes :: "auth_scheme list option"
  ad_capability_descriptors :: "capability_descriptor list option"
  ad_transport_bindings :: "string list option"
  ad_tags :: "string list option"
  ad_registry_status :: "registry_status option"
  ad_description :: "string option"
  ad_signature :: "string option"
  ad_key_id :: "string option"
  ad_signature_alg :: "string option"
  ad_extensions :: "agent_extension list option"

record delegation_token =
  dt_issuer :: string
  dt_subject_agent :: string
  dt_allowed_actions :: "string list"
  dt_resource_scope :: "(string \<times> jsval) list"
  dt_constraints :: "(string \<times> jsval) list"
  dt_approval_reference :: "string option"
  dt_requester_identity :: "requester_identity option"
  dt_signature :: string

record task_envelope =
  te_task_id :: string
  te_order_id :: "string option"
  te_parent_task_id :: "string option"
  te_context_id :: "string option"
  te_requester :: requester_identity
  te_target_agent :: string
  te_intent :: string
  te_constraints :: task_constraints
  te_risk_class :: risk_level
  te_deadline :: "string option"
  te_delegation_token :: string
  te_output_mode :: visibility_mode
  te_metadata :: "(string \<times> jsval) list option"
  te_idempotency_token :: "string option"
  te_extensions :: "string list option"

record negotiation_request =
  nr_schema_version :: "string option"
  nr_delivery_mode :: "delivery_mode option"

record negotiated_side =
  ns_schema_version :: "string option"
  ns_output_mode :: visibility_mode
  ns_delivery_mode :: delivery_mode

record invocation_negotiation =
  in_requested :: negotiated_side
  in_selected :: negotiated_side
  in_schema_translated :: bool

record result_package =
  rp_task_id :: string
  rp_context_id :: "string option"
  rp_status :: task_status
  rp_summary :: "string option"
  rp_structured_output :: "(string \<times> jsval) list"
  rp_receipt_ref :: "string option"
  rp_negotiated_schema_version :: "string option"
  rp_requested_schema_version :: "string option"
  rp_executed_schema_version :: "string option"
  rp_negotiation :: "invocation_negotiation option"
  rp_redactions_applied :: "string list"
  rp_followup_required :: bool
  rp_escalation_reason :: "string option"
  rp_extensions :: "string list option"

record receipt =
  rc_receipt_id :: string
  rc_intent_id :: string
  rc_capability :: string
  rc_action :: receipt_action
  rc_timestamp :: ms
  rc_status :: execution_status
  rc_task_id :: "string option"
  rc_order_id :: "string option"
  rc_tenant_id :: "string option"
  rc_request_id :: "string option"
  rc_agent_id :: string
  rc_resource_touched :: "string option"
  rc_policy_checks :: "string list option"
  rc_approval_used :: "string option"
  rc_result_hash :: "string option"
  rc_requested_schema_version :: "string option"
  rc_executed_schema_version :: "string option"
  rc_negotiation :: "invocation_negotiation option"
  rc_extensions :: "string list option"
  rc_signature :: "string option"

record invoke_result =
  iv_result :: result_package
  iv_receipt :: receipt

record task_record =
  tr_task_id :: string
  tr_context_id :: "string option"
  tr_requester :: requester_identity
  tr_idempotency_key :: "string option"
  tr_capability :: string
  tr_target_agent :: string
  tr_status :: task_status
  tr_result :: "result_package option"
  tr_receipt :: "receipt option"
  tr_updated_at :: ms

record approval_request =
  ar_task_id :: string
  ar_approval_reference :: string
  ar_capability :: string
  ar_envelope :: task_envelope
  ar_requested_schema_version :: "string option"
  ar_negotiation :: "negotiation_request option"

section \<open>The strings of the enumerations\<close>

fun action_str :: "policy_action \<Rightarrow> string" where
  "action_str Allow = ''allow''"
| "action_str Deny = ''deny''"
| "action_str RequireApproval = ''require_approval''"

fun receipt_action_str :: "receipt_action \<Rightarrow> string" where
  "receipt_action_str Executed = ''executed''"
| "receipt_action_str Denied = ''denied''"
| "receipt_action_str ApprovalRequired = ''approval_required''"

fun exec_status_str :: "execution_status \<Rightarrow> string" where
  "exec_status_str Ok = ''ok''"
| "exec_status_str Error = ''error''"

fun risk_str :: "risk_level \<Rightarrow> string" where
  "risk_str Low = ''low''"
| "risk_str Medium = ''medium''"
| "risk_str High = ''high''"
| "risk_str Critical = ''critical''"

fun env_str :: "environment \<Rightarrow> string" where
  "env_str Development = ''development''"
| "env_str Staging = ''staging''"
| "env_str Production = ''production''"

fun core_requester_str :: "core_requester_type \<Rightarrow> string" where
  "core_requester_str RUser = ''user''"
| "core_requester_str RService = ''service''"

fun task_status_str :: "task_status \<Rightarrow> string" where
  "task_status_str Accepted = ''accepted''"
| "task_status_str Proposed = ''proposed''"
| "task_status_str AwaitingApproval = ''awaiting_approval''"
| "task_status_str TDenied = ''denied''"
| "task_status_str Running = ''running''"
| "task_status_str Completed = ''completed''"
| "task_status_str Failed = ''failed''"
| "task_status_str Revoked = ''revoked''"

lemma risk_str_inject [simp]: "risk_str a = risk_str b \<longleftrightarrow> a = b"
  by (cases a; cases b) auto

lemma env_str_inject [simp]: "env_str a = env_str b \<longleftrightarrow> a = b"
  by (cases a; cases b) auto

lemma core_requester_str_inject [simp]: "core_requester_str a = core_requester_str b \<longleftrightarrow> a = b"
  by (cases a; cases b) auto

lemma task_status_str_inject [simp]: "task_status_str a = task_status_str b \<longleftrightarrow> a = b"
  by (cases a; cases b) auto

end
