(* ===== verification/CorePolicy.thy ===== *)
theory CorePolicy
  imports ProtocolTypes
begin

text \<open>
  The policy engine of \<open>src/src/core/policy/index.ts\<close> and the intent
  normalisation of \<open>src/src/core/intent/index.ts\<close>. A policy document is compiled
  (capability matchers, pre-split field paths, condition closures) and the first
  rule that matches decides. The lemmas relate the compiled form to a direct
  reading of the document (\<open>cond_holds\<close>, \<open>cap_matches\<close>).

  A capability pattern whose only special characters are \<open>.\<close> and \<open>*\<close> is run by
  the model itself; one with other characters that are special in a regular
  expression is handed, as the code's source text, to the parameter \<open>re\<close> (the
  engine's \<open>RegExp.test\<close>).
\<close>

type_synonym re_engine = "string \<Rightarrow> string \<Rightarrow> bool"

section \<open>Intents as values\<close>

definition normalize :: "intent \<Rightarrow> intent" where
  "normalize it = it\<lparr>
     it_capability := str_trim (str_lower (it_capability it)),
     it_requester := (it_requester it)\<lparr>
       rq_id := str_trim (rq_id (it_requester it)),
       rq_tenant_id := map_option str_trim (rq_tenant_id (it_requester it))\<rparr>,
     it_risk_class := map_option str_lower (it_risk_class it)\<rparr>"

definition requester_obj :: "requester \<Rightarrow> jsval" where
  "requester_obj r = JObj [(''type'', JStr (core_requester_str (rq_type r))),
     (''id'', JStr (rq_id r)), (''tenant_id'', jopt JStr (rq_tenant_id r))]"

definition constraints_obj :: "intent_constraints \<Rightarrow> jsval" where
  "constraints_obj c = JObj [(''environment'', ic_environment c), (''timeout_ms'', ic_timeout_ms c),
     (''max_amount'', ic_max_amount c), (''resource_id'', ic_resource_id c)]"

definition metadata_obj :: "intent_metadata \<Rightarrow> jsval" where
  "metadata_obj m = JObj [(''intent_id'', JStr (im_intent_id m)),
     (''request_id'', jopt JStr (im_request_id m)), (''webhook_url'', jopt JStr (im_webhook_url m))]"

definition intent_obj :: "intent \<Rightarrow> jsval" where
  "intent_obj it = JObj [(''capability'', JStr (it_capability it)), (''input'', JObj (it_input it)),
     (''requester'', requester_obj (it_requester it)),
     (''constraints'', jopt constraints_obj (it_constraints it)),
     (''metadata'', jopt metadata_obj (it_metadata it)),
     (''risk_class'', jopt JStr (it_risk_class it))]"

section \<open>Conditions\<close>

fun getFieldValueFromParts :: "string list \<Rightarrow> jsval \<Rightarrow> jsval" where
  "getFieldValueFromParts [] cur = cur"
| "getFieldValueFromParts (p # ps) cur =
     (case cur of
        JObj kvs \<Rightarrow> getFieldValueFromParts ps (obj_get kvs p)
      | JArr xs \<Rightarrow> getFieldValueFromParts ps (arr_get xs p)
      | _ \<Rightarrow> JUndef)"

definition num_cmp :: "(jsnum \<Rightarrow> jsnum \<Rightarrow> bool) \<Rightarrow> jsval \<Rightarrow> jsval \<Rightarrow> bool" where
  "num_cmp f a b = (case (a, b) of (JNum x, JNum y) \<Rightarrow> f x y | _ \<Rightarrow> False)"

definition evaluateOp :: "string \<Rightarrow> jsval \<Rightarrow> jsval \<Rightarrow> bool" where
  "evaluateOp op l r =
     (if op = ''eq'' then strict_eq l r
      else if op = ''neq'' then \<not> strict_eq l r
      else if op = ''gt'' then num_cmp (\<lambda>x y. num_lt y x) l r
      else if op = ''gte'' then num_cmp (\<lambda>x y. num_le y x) l r
      else if op = ''lt'' then num_cmp num_lt l r
      else if op = ''lte'' then num_cmp num_le l r
      else if op = ''in'' then (case r of JArr xs \<Rightarrow> js_includes xs l | _ \<Rightarrow> False)
      else False)"

definition comparison_ops :: "string list" where
  "comparison_ops = [''eq'', ''neq'', ''gt'', ''gte'', ''lt'', ''lte'', ''in'']"

text \<open>The closures \<open>compileCondition\<close> returns, by the branch that built them.\<close>

datatype compiled_condition =
    CTrue
  | CFalse
  | CCompare string "string list" jsval
  | CAll "compiled_condition list"
  | CAny "compiled_condition list"
  | CNeg compiled_condition
  | CTruthy "string list"

fun compileCondition :: "policy_condition \<Rightarrow> compiled_condition" where
  "compileCondition Always = CTrue"
| "compileCondition Never = CFalse"
| "compileCondition (Comparison kvs) =
     (case kvs of
        [(op, path, v)] \<Rightarrow>
          (if op \<in> set comparison_ops then CCompare op (split_on CHR ''.'' path) v else CFalse)
      | _ \<Rightarrow> CFalse)"
| "compileCondition (And cs) = CAll (map compileCondition cs)"
| "compileCondition (Or cs) = CAny (map compileCondition cs)"
| "compileCondition (Not c) = CNeg (compileCondition c)"
| "compileCondition (FieldRef path) = CTruthy (split_on CHR ''.'' path)"

fun evaluateCompiledCondition :: "compiled_condition \<Rightarrow> intent \<Rightarrow> bool" where
  "evaluateCompiledCondition CTrue it = True"
| "evaluateCompiledCondition CFalse it = False"
| "evaluateCompiledCondition (CCompare op parts v) it =
     evaluateOp op (getFieldValueFromParts parts (intent_obj it)) v"
| "evaluateCompiledCondition (CAll cs) it = list_all (\<lambda>c. evaluateCompiledCondition c it) cs"
| "evaluateCompiledCondition (CAny cs) it = list_ex (\<lambda>c. evaluateCompiledCondition c it) cs"
| "evaluateCompiledCondition (CNeg c) it = (\<not> evaluateCompiledCondition c it)"
| "evaluateCompiledCondition (CTruthy parts) it =
     js_truthy (getFieldValueFromParts parts (intent_obj it))"

section \<open>Capability matchers\<close>

text \<open>\<open>^...$\<close> around the pattern in which every \<open>*\<close> became \<open>.*\<close>.\<close>

definition line_terminator :: "char \<Rightarrow> bool" where
  "line_terminator c \<longleftrightarrow> of_char c \<in> {10, 13 :: nat}"

fun glob :: "string \<Rightarrow> string \<Rightarrow> bool" where
  "glob [] s = (s = [])"
| "glob (c # p) s =
     (if c = CHR ''*'' then
        glob p s \<or> (case s of [] \<Rightarrow> False | d # t \<Rightarrow> \<not> line_terminator d \<and> glob (c # p) t)
      else (case s of [] \<Rightarrow> False | d # t \<Rightarrow> d = c \<and> glob p t))"

text \<open>\<open>capability.replace(/\./g, "\\.").replace(/\*/g, ".*")\<close>.\<close>

definition glob_source :: "string \<Rightarrow> string" where
  "glob_source cap = concat (map (\<lambda>c. if c = CHR ''.'' then [char_of (92 :: nat), CHR ''.'']
     else if c = CHR ''*'' then ''.*'' else [c]) cap)"

definition plain_glob :: "string \<Rightarrow> bool" where
  "plain_glob cap \<longleftrightarrow> (\<forall>c \<in> set cap. of_char c \<notin> {92, 94, 36, 43, 63, 40, 41, 91, 93, 123, 125, 124 :: nat})"

definition regex_test :: "re_engine \<Rightarrow> string \<Rightarrow> string \<Rightarrow> bool" where
  "regex_test re cap s = (if plain_glob cap then glob cap s else re (glob_source cap) s)"

datatype capability_matcher = MatchAll | MatchExact string | MatchRegex string

definition compileCapabilityMatcher :: "string \<Rightarrow> capability_matcher" where
  "compileCapabilityMatcher cap =
     (if cap = ''*'' then MatchAll
      else if CHR ''*'' \<notin> set cap then MatchExact cap
      else MatchRegex cap)"

fun matchesCapabilityCompiled :: "re_engine \<Rightarrow> string \<Rightarrow> capability_matcher \<Rightarrow> bool" where
  "matchesCapabilityCompiled re cap MatchAll = True"
| "matchesCapabilityCompiled re cap (MatchExact e) = (e = cap)"
| "matchesCapabilityCompiled re cap (MatchRegex p) = regex_test re p cap"

section \<open>Policies\<close>

record compiled_rule =
  kr_id :: string
  kr_action :: policy_action
  kr_matcher :: capability_matcher
  kr_condition :: compiled_condition

record compiled_policy =
  kp_rules :: "compiled_rule list"
  kp_default :: policy_action

definition compileRule :: "policy_rule \<Rightarrow> compiled_rule" where
  "compileRule r = \<lparr>kr_id = pr_id r, kr_action = pr_action r,
     kr_matcher = compileCapabilityMatcher (pr_capability r),
     kr_condition = compileCondition (pr_condition r)\<rparr>"

definition compile_document :: "policy_document \<Rightarrow> compiled_policy" where
  "compile_document p = \<lparr>kp_rules = map compileRule (pol_rules p),
     kp_default = (case pol_default_action p of None \<Rightarrow> Deny | Some a \<Rightarrow> a)\<rparr>"

text \<open>The compilation cache, keyed by the document's object identity.\<close>

type_synonym policy_cache = "(nat, compiled_policy) jmap"

definition compilePolicy :: "policy_cache \<Rightarrow> nat \<Rightarrow> policy_document \<Rightarrow> compiled_policy \<times> policy_cache" where
  "compilePolicy cache ref p =
     (case jm_get cache ref of
        Some cached \<Rightarrow> (cached, cache)
      | None \<Rightarrow> let compiled = compile_document p in (compiled, jm_set ref compiled cache))"

fun first_match :: "re_engine \<Rightarrow> intent \<Rightarrow> compiled_rule list \<Rightarrow> compiled_rule option" where
  "first_match re it [] = None"
| "first_match re it (r # rs) =
     (if \<not> matchesCapabilityCompiled re (it_capability it) (kr_matcher r) then first_match re it rs
      else if evaluateCompiledCondition (kr_condition r) it then Some r
      else first_match re it rs)"

definition evaluateCompiled :: "re_engine \<Rightarrow> intent \<Rightarrow> compiled_policy \<Rightarrow> policy_decision" where
  "evaluateCompiled re it kp =
     (case first_match re it (kp_rules kp) of
        Some r \<Rightarrow> \<lparr>pd_action = kr_action r, pd_reason = ''Rule matched: '' @ kr_id r,
                   pd_matched_rule = Some (kr_id r)\<rparr>
      | None \<Rightarrow> \<lparr>pd_action = kp_default kp,
          pd_reason = (if kp_default kp = Allow then ''Default allow - no rules matched''
                       else ''Default deny - no rules matched''),
          pd_matched_rule = None\<rparr>)"

definition evaluate :: "re_engine \<Rightarrow> intent \<Rightarrow> policy_document \<Rightarrow> policy_decision" where
  "evaluate re it p = evaluateCompiled re it (compile_document p)"

section \<open>Reference reading of a document\<close>

text \<open>What a condition and a capability pattern mean, read off the document itself.\<close>

fun cond_holds :: "policy_condition \<Rightarrow> intent \<Rightarrow> bool" where
  "cond_holds Always it = True"
| "cond_holds Never it = False"
| "cond_holds (Comparison kvs) it =
     (\<exists>op path v. kvs = [(op, path, v)] \<and>
        evaluateOp op (getFieldValueFromParts (split_on CHR ''.'' path) (intent_obj it)) v)"
| "cond_holds (And cs) it = (\<forall>c \<in> set cs. cond_holds c it)"
| "cond_holds (Or cs) it = (\<exists>c \<in> set cs. cond_holds c it)"
| "cond_holds (Not c) it = (\<not> cond_holds c it)"
| "cond_holds (FieldRef path) it =
     js_truthy (getFieldValueFromParts (split_on CHR ''.'' path) (intent_obj it))"

definition cap_matches :: "re_engine \<Rightarrow> string \<Rightarrow> string \<Rightarrow> bool" where
  "cap_matches re pat cap = (if CHR ''*'' \<in> set pat \<and> pat \<noteq> ''*'' then regex_test re pat cap
     else pat = ''*'' \<or> pat = cap)"

definition rule_applies :: "re_engine \<Rightarrow> intent \<Rightarrow> policy_rule \<Rightarrow> bool" where
  "rule_applies re it r \<longleftrightarrow> cap_matches re (pr_capability r) (it_capability it) \<and> cond_holds (pr_condition r) it"

lemma evaluateOp_known: "evaluateOp op l r \<Longrightarrow> op \<in> set comparison_ops"
  by (auto simp: evaluateOp_def comparison_ops_def split: if_splits)

lemma compileCondition_correct: "evaluateCompiledCondition (compileCondition c) it = cond_holds c it"
proof (induction c)
  case (Comparison kvs)
  show ?case
    by (cases kvs) (auto dest: evaluateOp_known split: list.splits if_splits)
next
  case (And cs)
  then show ?case by (simp add: list_all_iff)
next
  case (Or cs)
  then show ?case by (simp add: list_ex_iff)
qed auto

lemma compileCapabilityMatcher_correct:
  "matchesCapabilityCompiled re cap (compileCapabilityMatcher pat) = cap_matches re pat cap"
  by (auto simp: compileCapabilityMatcher_def cap_matches_def)

lemma first_match_find:
  "first_match re it (map compileRule rs) = map_option compileRule (find (rule_applies re it) rs)"
  by (induction rs)
     (auto simp: compileRule_def rule_applies_def compileCondition_correct compileCapabilityMatcher_correct)

lemma evaluate_find:
  "evaluate re it p =
     (case find (rule_applies re it) (pol_rules p) of
        Some r \<Rightarrow> \<lparr>pd_action = pr_action r, pd_reason = ''Rule matched: '' @ pr_id r,
                   pd_matched_rule = Some (pr_id r)\<rparr>
      | None \<Rightarrow>
          (let d = (case pol_default_action p of None \<Rightarrow> Deny | Some a \<Rightarrow> a)
           in \<lparr>pd_action = d,
               pd_reason = (if d = Allow then ''Default allow - no rules matched''
                            else ''Default deny - no rules matched''),
               pd_matched_rule = None\<rparr>))"
  by (auto simp: evaluate_def evaluateCompiled_def compile_document_def first_match_find
        compileRule_def Let_def split: option.splits)

lemma evaluate_no_match:
  "(\<forall>r \<in> set (pol_rules p). \<not> rule_applies re it r) \<Longrightarrow>
   pd_action (evaluate re it p) = (case pol_default_action p of None \<Rightarrow> Deny | Some a \<Rightarrow> a)"
  by (simp add: evaluate_find find_None_iff[THEN iffD2] Let_def split: option.splits)

subsection \<open>Globs\<close>

lemma glob_plain_star: "\<forall>c \<in> set s. \<not> line_terminator c \<Longrightarrow> glob [CHR ''*''] s"
  by (induction s) auto

lemma glob_prefix_star:
  "CHR ''*'' \<notin> set p \<Longrightarrow> \<forall>c \<in> set s. \<not> line_terminator c \<Longrightarrow>
   glob (p @ [CHR ''*'']) s = prefix p s"
proof (induction p arbitrary: s)
  case Nil
  then show ?case by (simp add: glob_plain_star del: glob.simps)
next
  case (Cons c p)
  then show ?case by (cases s) auto
qed

lemma glob_literal: "CHR ''*'' \<notin> set p \<Longrightarrow> glob p s = (p = s)"
proof (induction p arbitrary: s)
  case (Cons c p)
  then show ?case by (cases s) auto
qed auto

lemma glob_self: "glob p p"
proof (induction p)
  case (Cons c p)
  show ?case
  proof (cases "c = CHR ''*''")
    case True
    have "\<not> line_terminator (CHR ''*'')" by (simp add: line_terminator_def)
    moreover have "glob (CHR ''*'' # p) p" using Cons by (cases p) auto
    ultimately show ?thesis using True by auto
  next
    case False
    with Cons show ?thesis by simp
  qed
qed simp

text \<open>Coherence of the cache: what it holds is the compilation of the document at that reference.\<close>

definition cache_coherent :: "(nat \<Rightarrow> policy_document) \<Rightarrow> policy_cache \<Rightarrow> bool" where
  "cache_coherent heap cache \<longleftrightarrow>
     (\<forall>ref kp. jm_get cache ref = Some kp \<longrightarrow> kp = compile_document (heap ref))"

lemma compilePolicy_coherent:
  assumes "cache_coherent heap cache"
  shows "fst (compilePolicy cache ref (heap ref)) = compile_document (heap ref)"
    and "cache_coherent heap (snd (compilePolicy cache ref (heap ref)))"
  using assms
  by (auto simp: cache_coherent_def compilePolicy_def Let_def jm_get_set split: option.splits)

section \<open>Properties\<close>

lemma find_first:
  "find P xs = Some x \<longleftrightarrow> (\<exists>i < length xs. x = xs ! i \<and> P x \<and> (\<forall>j < i. \<not> P (xs ! j)))"
  by (auto simp: find_Some_iff)

text \<open>C3: the decision of the compiled engine is the one a direct reading of the document
  gives: the first rule, in document order, whose pattern matches the capability and whose
  condition holds; when there is none, the default action, which is deny if the document sets none.\<close>

theorem evaluate_first_applicable:
  "(\<exists>i < length (pol_rules p).
      rule_applies re it (pol_rules p ! i) \<and>
      (\<forall>j < i. \<not> rule_applies re it (pol_rules p ! j)) \<and>
      pd_action (evaluate re it p) = pr_action (pol_rules p ! i) \<and>
      pd_matched_rule (evaluate re it p) = Some (pr_id (pol_rules p ! i)))
   \<or> (list_all (\<lambda>r. \<not> rule_applies re it r) (pol_rules p) \<and>
      pd_action (evaluate re it p) = (case pol_default_action p of None \<Rightarrow> Deny | Some a \<Rightarrow> a) \<and>
      pd_matched_rule (evaluate re it p) = None)"
proof (cases "find (rule_applies re it) (pol_rules p)")
  case None
  then have "list_all (\<lambda>r. \<not> rule_applies re it r) (pol_rules p)"
    by (auto simp: find_None_iff list_all_iff)
  with None show ?thesis by (simp add: evaluate_find Let_def)
next
  case (Some r)
  then obtain i where "i < length (pol_rules p)" "r = pol_rules p ! i" "rule_applies re it r"
    "\<forall>j < i. \<not> rule_applies re it (pol_rules p ! j)"
    by (auto simp: find_first)
  with Some show ?thesis by (auto simp: evaluate_find)
qed

definition demo_intent :: intent where
  "demo_intent = \<lparr>it_capability = ''payments.send'', it_input = [(''amount'', jint 500)],
     it_requester = \<lparr>rq_type = RService, rq_id = ''svc'', rq_tenant_id = None\<rparr>,
     it_constraints = None, it_metadata = None, it_risk_class = Some ''low''\<rparr>"

definition demo_policy :: policy_document where
  "demo_policy = \<lparr>pol_rules =
       [\<lparr>pr_id = ''never'', pr_capability = ''*'', pr_condition = Never, pr_action = Allow\<rparr>,
        \<lparr>pr_id = ''pay'', pr_capability = ''payments.*'', pr_condition = Always, pr_action = RequireApproval\<rparr>],
     pol_default_action = None\<rparr>"

lemma demo_glob: "glob ''payments.*'' ''payments.send''"
  by code_simp

theorem evaluate_first_applicable_witness:
  "pd_action (evaluate (\<lambda>_ _. False) demo_intent demo_policy) = RequireApproval"
proof -
  have "\<not> rule_applies (\<lambda>_ _. False) demo_intent (pol_rules demo_policy ! 0)"
    and "rule_applies (\<lambda>_ _. False) demo_intent (pol_rules demo_policy ! 1)"
    by (simp_all add: rule_applies_def demo_policy_def demo_intent_def cap_matches_def regex_test_def
          plain_glob_def demo_glob del: glob.simps)
  then show ?thesis
    using evaluate_first_applicable [of demo_policy "\<lambda>_ _. False" demo_intent]
    by (auto simp: demo_policy_def less_Suc_eq)
qed

text \<open>A capability pattern that ends in a star and has no other special character
  matches exactly the capabilities that start with its prefix.\<close>

theorem prefix_pattern_matches:
  assumes "CHR ''*'' \<notin> set pre" and "plain_glob pre" and "\<forall>c \<in> set cap. \<not> line_terminator c"
  shows "matchesCapabilityCompiled re cap (compileCapabilityMatcher (pre @ [CHR ''*''])) = prefix pre cap"
proof (cases "pre = []")
  case True
  then show ?thesis by (simp add: compileCapabilityMatcher_def)
next
  case False
  have "plain_glob (pre @ [CHR ''*''])" using assms(2) by (simp add: plain_glob_def)
  with False assms show ?thesis
    by (auto simp: compileCapabilityMatcher_def regex_test_def glob_prefix_star simp del: glob.simps)
qed

theorem prefix_pattern_matches_witness:
  "matchesCapabilityCompiled (\<lambda>_ _. False) ''payments.send'' (compileCapabilityMatcher (''payments.'' @ [CHR ''*'']))"
  by (subst prefix_pattern_matches) (simp_all add: plain_glob_def line_terminator_def)

end
