(* ===== verification/CoreExecute.thy ===== *)
theory CoreExecute
  imports CorePolicy
begin

text \<open>
  The two execution paths of the core: the \<open>Executor\<close> class of
  \<open>src/src/core/execution/index.ts\<close> (which uses the compiled policy engine) and the
  free function \<open>execute\<close> of \<open>src/src/core/execute.ts\<close> (which carries its own policy
  evaluator), with the receipt builders of \<open>src/src/core/audit/index.ts\<close>.

  Running an adapter is an effect: every execution function returns the list of
  adapter calls it made beside its result. The schema check of an intent (Ajv,
  a package) is the parameter \<open>vi\<close>; the clock and the random ids are arguments.
\<close>

record exec_context =
  xc_intent_id :: string
  xc_requester :: requester

record adapter =
  xa_validate :: "(string \<times> jsval) list \<Rightarrow> validation_result"
  xa_execute :: "(string \<times> jsval) list \<Rightarrow> exec_context \<Rightarrow> string + execution_result"

record adapter_call =
  ac_capability :: string
  ac_input :: "(string \<times> jsval) list"
  ac_context :: exec_context

datatype exec_error = InvalidIntent "string list" | NoAdapter string
  | InvalidInput "string list" | AdapterThrew string

record exec_env =
  ee_now :: ms
  ee_uuid :: string

type_synonym 'a exec = "adapter_call list \<times> (exec_error + 'a)"

text \<open>\<open>intent.metadata?.intent_id || generateId()\<close>: an empty id is replaced too.\<close>

definition effective_intent_id :: "exec_env \<Rightarrow> intent \<Rightarrow> string" where
  "effective_intent_id ev it =
     (case it_metadata it of None \<Rightarrow> ee_uuid ev
      | Some m \<Rightarrow> if im_intent_id m = [] then ee_uuid ev else im_intent_id m)"

definition generateReceiptId :: "string \<Rightarrow> ms \<Rightarrow> string" where
  "generateReceiptId iid now = ''receipt:'' @ iid @ '':'' @ int_str now"

definition createReceipt :: "string \<Rightarrow> string \<Rightarrow> receipt_action \<Rightarrow> execution_status \<Rightarrow> ms \<Rightarrow> core_receipt" where
  "createReceipt iid cap act st now =
     \<lparr>cr_receipt_id = generateReceiptId iid now, cr_intent_id = iid, cr_capability = cap,
      cr_action = act, cr_timestamp = now, cr_status = st, cr_signature = None\<rparr>"

definition createResult :: "string \<Rightarrow> string \<Rightarrow> execution_status \<Rightarrow> (string \<times> jsval) list \<Rightarrow> string \<Rightarrow> execution_result" where
  "createResult iid cap st out summ =
     \<lparr>er_intent_id = iid, er_capability = cap, er_status = st, er_output = out, er_summary = summ\<rparr>"

section \<open>The Executor class\<close>

record executor =
  ex_policy :: policy_document
  ex_adapters :: "(string, adapter) jmap"
  ex_sign :: "(core_receipt \<Rightarrow> string) option"

definition setPolicy :: "executor \<Rightarrow> policy_document \<Rightarrow> executor" where
  "setPolicy ex p = ex\<lparr>ex_policy := p\<rparr>"

definition buildReceipt :: "executor \<Rightarrow> exec_env \<Rightarrow> intent \<Rightarrow> receipt_action \<Rightarrow> execution_status \<Rightarrow> core_receipt" where
  "buildReceipt ex ev it act st =
     (let iid = effective_intent_id ev it;
          r = \<lparr>cr_receipt_id = ''receipt:'' @ iid @ '':'' @ int_str (ee_now ev), cr_intent_id = iid,
               cr_capability = it_capability it, cr_action = act, cr_timestamp = ee_now ev,
               cr_status = st, cr_signature = None\<rparr>
      in r\<lparr>cr_signature := Some (case ex_sign ex of None \<Rightarrow> [] | Some f \<Rightarrow> f r)\<rparr>)"

definition executeNormalizedIntent :: "(string, adapter) jmap \<Rightarrow> exec_env \<Rightarrow> intent \<Rightarrow> execution_result exec" where
  "executeNormalizedIntent ads ev it =
     (case jm_get ads (it_capability it) of
        None \<Rightarrow> ([], Inl (NoAdapter (it_capability it)))
      | Some ad \<Rightarrow>
          (let v = xa_validate ad (it_input it) in
           if \<not> vr_valid v then ([], Inl (InvalidInput (map snd (vr_errors v))))
           else
             (let ctx = \<lparr>xc_intent_id = effective_intent_id ev it, xc_requester = it_requester it\<rparr>;
                  call = \<lparr>ac_capability = it_capability it, ac_input = it_input it, ac_context = ctx\<rparr>
              in ([call], case xa_execute ad (it_input it) ctx of
                            Inl e \<Rightarrow> Inl (AdapterThrew e) | Inr r \<Rightarrow> Inr r))))"

definition executeIntent :: "re_engine \<Rightarrow> (intent \<Rightarrow> validation_result) \<Rightarrow> executor \<Rightarrow> exec_env \<Rightarrow> intent
    \<Rightarrow> core_outcome exec" where
  "executeIntent re vi ex ev it =
     (let v = vi it in
      if \<not> vr_valid v then ([], Inl (InvalidIntent (map snd (vr_errors v))))
      else
        (let ni = normalize it; d = evaluate re ni (ex_policy ex) in
         case pd_action d of
           Deny \<Rightarrow> ([], Inr (Receipt (buildReceipt ex ev ni Denied Error)))
         | RequireApproval \<Rightarrow> ([], Inr (Receipt (buildReceipt ex ev ni ApprovalRequired Error)))
         | Allow \<Rightarrow> (case executeNormalizedIntent (ex_adapters ex) ev ni of
                       (calls, Inl e) \<Rightarrow> (calls, Inl e)
                     | (calls, Inr r) \<Rightarrow> (calls, Inr (Result r)))))"

definition executeApproved :: "(intent \<Rightarrow> validation_result) \<Rightarrow> executor \<Rightarrow> exec_env \<Rightarrow> intent
    \<Rightarrow> execution_result exec" where
  "executeApproved vi ex ev it =
     (let v = vi it in
      if \<not> vr_valid v then ([], Inl (InvalidIntent (map snd (vr_errors v))))
      else executeNormalizedIntent (ex_adapters ex) ev (normalize it))"

section \<open>The free function execute and its evaluator\<close>

definition matchesCapability :: "re_engine \<Rightarrow> string \<Rightarrow> string \<Rightarrow> bool" where
  "matchesCapability re cap pat =
     (if pat = ''*'' then True
      else if pat = cap then True
      else if CHR ''*'' \<in> set pat then regex_test re pat cap
      else False)"

text \<open>The first operator of the fixed list that the object has decides.\<close>

definition comparison_entry :: "(string \<times> string \<times> jsval) list \<Rightarrow> (string \<times> string \<times> jsval) option" where
  "comparison_entry kvs =
     (case find (\<lambda>op. map_of kvs op \<noteq> None) comparison_ops of
        None \<Rightarrow> None | Some op \<Rightarrow> map_option (Pair op) (map_of kvs op))"

fun evaluateCondition :: "policy_condition \<Rightarrow> intent \<Rightarrow> bool" where
  "evaluateCondition (FieldRef path) it =
     js_truthy (getFieldValueFromParts (split_on CHR ''.'' path) (intent_obj it))"
| "evaluateCondition (And cs) it = list_all (\<lambda>c. evaluateCondition c it) cs"
| "evaluateCondition (Or cs) it = list_ex (\<lambda>c. evaluateCondition c it) cs"
| "evaluateCondition (Not c) it = (\<not> evaluateCondition c it)"
| "evaluateCondition (Comparison kvs) it =
     (case comparison_entry kvs of
        None \<Rightarrow> False
      | Some (op, path, v) \<Rightarrow>
          evaluateOp op (getFieldValueFromParts (split_on CHR ''.'' path) (intent_obj it)) v)"
| "evaluateCondition Always it = False"
| "evaluateCondition Never it = False"

fun evaluatePolicy :: "re_engine \<Rightarrow> intent \<Rightarrow> policy_rule list \<Rightarrow> policy_action \<times> string" where
  "evaluatePolicy re it [] = (Allow, ''Default allow'')"
| "evaluatePolicy re it (r # rs) =
     (if \<not> matchesCapability re (it_capability it) (pr_capability r) then evaluatePolicy re it rs
      else if evaluateCondition (pr_condition r) it then (pr_action r, ''Rule: '' @ pr_id r)
      else evaluatePolicy re it rs)"

definition legacy_receipt :: "exec_env \<Rightarrow> intent \<Rightarrow> receipt_action \<Rightarrow> execution_status \<Rightarrow> core_receipt" where
  "legacy_receipt ev it act st =
     (let iid = effective_intent_id ev it in
      \<lparr>cr_receipt_id = ''receipt:'' @ iid @ '':'' @ int_str (ee_now ev), cr_intent_id = iid,
       cr_capability = it_capability it, cr_action = act, cr_timestamp = ee_now ev,
       cr_status = st, cr_signature = None\<rparr>)"

definition execute :: "re_engine \<Rightarrow> policy_document \<Rightarrow> (string, adapter) jmap option \<Rightarrow> exec_env \<Rightarrow> intent
    \<Rightarrow> core_outcome exec" where
  "execute re p ads ev it =
     (let ni = normalize it in
      case fst (evaluatePolicy re ni (pol_rules p)) of
        Deny \<Rightarrow> ([], Inr (Receipt (legacy_receipt ev ni Denied Error)))
      | RequireApproval \<Rightarrow> ([], Inr (Receipt (legacy_receipt ev ni ApprovalRequired Error)))
      | Allow \<Rightarrow>
          (case Option.bind ads (\<lambda>m. jm_get m (it_capability ni)) of
             None \<Rightarrow> ([], Inr (Receipt (legacy_receipt ev ni Denied Error)))
           | Some ad \<Rightarrow>
               (if \<not> vr_valid (xa_validate ad (it_input ni))
                then ([], Inr (Receipt (legacy_receipt ev ni Denied Error)))
                else
                  (let ctx = \<lparr>xc_intent_id = effective_intent_id ev ni, xc_requester = it_requester ni\<rparr>;
                       call = \<lparr>ac_capability = it_capability ni, ac_input = it_input ni, ac_context = ctx\<rparr>
                   in ([call], case xa_execute ad (it_input ni) ctx of
                                 Inl e \<Rightarrow> Inl (AdapterThrew e) | Inr r \<Rightarrow> Inr (Result r))))))"

section \<open>Lemmas\<close>

lemma executeNormalizedIntent_calls:
  "calls = fst (executeNormalizedIntent ads ev it) \<Longrightarrow> call \<in> set calls \<Longrightarrow>
   ac_capability call = it_capability it \<and> ac_input call = it_input it \<and>
   (\<exists>ad. jm_get ads (it_capability it) = Some ad \<and> vr_valid (xa_validate ad (it_input it)))"
  by (auto simp: executeNormalizedIntent_def Let_def split: option.splits if_splits)

lemma executeNormalizedIntent_at_most_once: "length (fst (executeNormalizedIntent ads ev it)) \<le> 1"
  by (auto simp: executeNormalizedIntent_def Let_def split: option.splits)

lemma executeIntent_calls_allowed:
  "fst (executeIntent re vi ex ev it) \<noteq> [] \<Longrightarrow>
   vr_valid (vi it) \<and> pd_action (evaluate re (normalize it) (ex_policy ex)) = Allow"
  by (auto simp: executeIntent_def Let_def split: if_splits policy_action.splits)

lemma executeIntent_denied:
  "vr_valid (vi it) \<Longrightarrow> pd_action (evaluate re (normalize it) (ex_policy ex)) = Deny \<Longrightarrow>
   executeIntent re vi ex ev it = ([], Inr (Receipt (buildReceipt ex ev (normalize it) Denied Error)))"
  by (simp add: executeIntent_def Let_def)

lemma executeIntent_approval:
  "vr_valid (vi it) \<Longrightarrow> pd_action (evaluate re (normalize it) (ex_policy ex)) = RequireApproval \<Longrightarrow>
   executeIntent re vi ex ev it =
     ([], Inr (Receipt (buildReceipt ex ev (normalize it) ApprovalRequired Error)))"
  by (simp add: executeIntent_def Let_def)

lemma executeIntent_receipt_cases:
  "executeIntent re vi ex ev it = (calls, Inr (Receipt r)) \<Longrightarrow>
   calls = [] \<and> (cr_action r = Denied \<or> cr_action r = ApprovalRequired) \<and> cr_status r = Error"
  by (auto simp: executeIntent_def buildReceipt_def Let_def
        split: if_splits policy_action.splits prod.splits sum.splits)

lemma evaluatePolicy_find:
  "evaluatePolicy re it rs =
     (case find (\<lambda>r. matchesCapability re (it_capability it) (pr_capability r)
                     \<and> evaluateCondition (pr_condition r) it) rs of
        None \<Rightarrow> (Allow, ''Default allow'') | Some r \<Rightarrow> (pr_action r, ''Rule: '' @ pr_id r))"
  by (induction rs) auto

text \<open>The two capability matchers agree on patterns of literals, dots and stars.\<close>

lemma matchers_agree:
  "plain_glob pat \<Longrightarrow>
   matchesCapability re cap pat = matchesCapabilityCompiled re cap (compileCapabilityMatcher pat)"
  by (auto simp: matchesCapability_def compileCapabilityMatcher_def regex_test_def glob_self)

text \<open>The fragment of conditions both evaluators read the same way.\<close>

fun shared_condition :: "policy_condition \<Rightarrow> bool" where
  "shared_condition Always = False"
| "shared_condition Never = True"
| "shared_condition (Comparison kvs) = (length kvs \<le> 1)"
| "shared_condition (And cs) = list_all shared_condition cs"
| "shared_condition (Or cs) = list_all shared_condition cs"
| "shared_condition (Not c) = shared_condition c"
| "shared_condition (FieldRef _) = True"

lemma find_singleton_key:
  "find (\<lambda>op. map_of [(k, x)] op \<noteq> None) ops = (if k \<in> set ops then Some k else None)"
  by (induction ops) auto

lemma evaluateCondition_shared: "shared_condition c \<Longrightarrow> evaluateCondition c it = cond_holds c it"
proof (induction c)
  case (Comparison kvs)
  then show ?case
  proof (cases kvs)
    case Nil
    then show ?thesis by (simp add: comparison_entry_def comparison_ops_def)
  next
    case (Cons e es)
    with Comparison obtain op path v where kvs: "kvs = [(op, path, v)]"
      by (cases e) auto
    show ?thesis
      using evaluateOp_known [of op] find_singleton_key [of op "(path, v)" comparison_ops]
      by (auto simp: kvs comparison_entry_def)
  qed
qed (auto simp: list_all_iff list_ex_iff)

section \<open>Properties\<close>

lemma list_all_find: "list_all P xs \<Longrightarrow> find Q xs = Some x \<Longrightarrow> P x"
  by (induction xs) (auto split: if_splits)

lemma find_cong_on: "(\<And>x. x \<in> set xs \<Longrightarrow> P x = Q x) \<Longrightarrow> find P xs = find Q xs"
  by (induction xs) auto

text \<open>C34: on documents of conditions outside \<open>always\<close> and multi-operator comparisons, and of
  patterns of literals, dots and stars, the evaluator of \<open>execute\<close> and the compiled engine take the
  same decision whenever a rule applies or the document's default is allow.\<close>

theorem evaluators_agree:
  assumes "list_all (\<lambda>r. shared_condition (pr_condition r) \<and> plain_glob (pr_capability r)) (pol_rules p)"
    and "pol_default_action p = Some Allow \<or> list_ex (rule_applies re it) (pol_rules p)"
  shows "fst (evaluatePolicy re it (pol_rules p)) = pd_action (evaluate re it p)"
proof -
  have "find (\<lambda>r. matchesCapability re (it_capability it) (pr_capability r)
                \<and> evaluateCondition (pr_condition r) it) (pol_rules p)
      = find (rule_applies re it) (pol_rules p)"
    using assms(1)
    by (intro find_cong_on)
       (simp add: list_all_iff rule_applies_def matchers_agree compileCapabilityMatcher_correct
          evaluateCondition_shared)
  moreover have "pol_default_action p = Some Allow \<or> find (rule_applies re it) (pol_rules p) \<noteq> None"
    using assms(2) by (auto simp: list_ex_iff find_None_iff)
  ultimately show ?thesis
    by (auto simp: evaluatePolicy_find evaluate_find Let_def split: option.splits)
qed

theorem evaluators_agree_witness:
  "fst (evaluatePolicy (\<lambda>_ _. False) demo_intent
      [\<lparr>pr_id = ''big'', pr_capability = ''payments.*'',
        pr_condition = Comparison [(''gt'', ''input.amount'', jint 100)], pr_action = Deny\<rparr>]) = Deny"
proof -
  let ?p = "\<lparr>pol_rules = [\<lparr>pr_id = ''big'', pr_capability = ''payments.*'',
        pr_condition = Comparison [(''gt'', ''input.amount'', jint 100)], pr_action = Deny\<rparr>],
      pol_default_action = Some Allow\<rparr>"
  have "plain_glob ''payments.*''" by (simp add: plain_glob_def)
  moreover have "rule_applies (\<lambda>_ _. False) demo_intent (pol_rules ?p ! 0)"
    using \<open>plain_glob ''payments.*''\<close>
    by (simp add: rule_applies_def cap_matches_def regex_test_def demo_glob demo_intent_def intent_obj_def
          obj_get_def evaluateOp_def num_cmp_def del: glob.simps)
  ultimately show ?thesis
    using evaluators_agree [of ?p "\<lambda>_ _. False" demo_intent] by (simp add: evaluate_find)
qed

text \<open>The evaluator of \<open>execute\<close> does not know the \<open>always\<close> condition: a document that denies
  every capability unconditionally still lets the adapter of the capability run, and reports its
  result, while the \<open>Executor\<close> with the same document denies.\<close>

theorem execute_ignores_always:
  assumes "jm_get ads (it_capability (normalize it)) = Some ad"
    and "vr_valid (xa_validate ad (it_input it))"
    and "vr_valid (vi it)"
    and "deny_all = \<lparr>pol_rules = [\<lparr>pr_id = ''lockdown'', pr_capability = ''*'',
            pr_condition = Always, pr_action = Deny\<rparr>], pol_default_action = Some Deny\<rparr>"
  shows "length (fst (execute re deny_all (Some ads) ev it)) = 1 \<and>
    fst (executeIntent re vi \<lparr>ex_policy = deny_all, ex_adapters = ads, ex_sign = None\<rparr> ev it) = []"
  using assms
  by (simp_all add: execute_def executeIntent_def Let_def normalize_def evaluate_find rule_applies_def
        cap_matches_def)

definition demo_adapter :: adapter where
  "demo_adapter = \<lparr>xa_validate = (\<lambda>_. \<lparr>vr_valid = True, vr_errors = []\<rparr>),
     xa_execute = (\<lambda>input ctx. Inr (createResult (xc_intent_id ctx) ''payments.send'' Ok input ''sent''))\<rparr>"

theorem execute_ignores_always_witness:
  "length (fst (execute (\<lambda>_ _. False)
      \<lparr>pol_rules = [\<lparr>pr_id = ''lockdown'', pr_capability = ''*'',
            pr_condition = Always, pr_action = Deny\<rparr>], pol_default_action = Some Deny\<rparr>
      (Some [(''payments.send'', demo_adapter)]) \<lparr>ee_now = 0, ee_uuid = ''u''\<rparr> demo_intent)) = 1"
  by (rule conjunct1 [OF execute_ignores_always [where vi = "\<lambda>_. \<lparr>vr_valid = True, vr_errors = []\<rparr>" and ad = demo_adapter]])
     (simp_all add: normalize_def demo_intent_def demo_adapter_def str_trim_def str_lower_def char_lower_def
        is_ws_def)



end
