(* ===== verification/MapAgent.thy ===== *)
theory MapAgent
  imports CoreExecute
begin

text \<open>
  The embedded agent of \<open>src/src/map.ts\<close>: the simple rule language and its
  compilation to a policy document, and the instance returned by \<open>map()\<close> with its
  operations \<open>can\<close>, \<open>run\<close>, \<open>approve\<close>, \<open>setPolicy\<close> and \<open>check\<close>. The instance is a
  state record; \<open>run\<close> and \<open>approve\<close> also return the handler calls they made. The
  file read by a path policy is represented by the document it parses to.
\<close>

section \<open>The rule language\<close>

datatype rule_effect = REffAllow | REffDeny | REffApproval

record simple_rule =
  sr_when :: string
  sr_amount_gt :: "jsnum option"
  sr_amount_gte :: "jsnum option"
  sr_env :: "environment option"
  sr_risk :: "risk_level option"
  sr_requester_type :: "core_requester_type option"
  sr_require :: rule_effect
  sr_description :: "string option"

fun effect_action :: "rule_effect \<Rightarrow> policy_action" where
  "effect_action REffApproval = RequireApproval"
| "effect_action REffDeny = Deny"
| "effect_action REffAllow = Allow"

text \<open>\<open>replace(/\s+/g, "-")\<close>.\<close>

fun hyphenate :: "string \<Rightarrow> string" where
  "hyphenate [] = []"
| "hyphenate [c] = (if is_ws c then ''-'' else [c])"
| "hyphenate (c # d # s) =
     (if is_ws c then (if is_ws d then hyphenate (d # s) else CHR ''-'' # hyphenate (d # s))
      else c # hyphenate (d # s))"

definition simple_conditions :: "simple_rule \<Rightarrow> policy_condition list" where
  "simple_conditions r =
     (case sr_amount_gt r of None \<Rightarrow> [] | Some x \<Rightarrow> [Comparison [(''gt'', ''input.amount'', JNum x)]])
   @ (case sr_amount_gte r of None \<Rightarrow> [] | Some x \<Rightarrow> [Comparison [(''gte'', ''input.amount'', JNum x)]])
   @ (case sr_env r of None \<Rightarrow> [] | Some e \<Rightarrow> [Comparison [(''eq'', ''constraints.environment'', JStr (env_str e))]])
   @ (case sr_risk r of None \<Rightarrow> [] | Some k \<Rightarrow> [Comparison [(''eq'', ''risk_class'', JStr (risk_str k))]])
   @ (case sr_requester_type r of None \<Rightarrow> []
      | Some t \<Rightarrow> [Comparison [(''eq'', ''requester.type'', JStr (core_requester_str t))]])"

definition compileSimpleRule :: "simple_rule \<Rightarrow> nat \<Rightarrow> policy_rule" where
  "compileSimpleRule r i =
     \<lparr>pr_id = (case sr_description r of
                 Some d \<Rightarrow> if d \<noteq> [] then take 40 (hyphenate (str_lower d)) else ''rule-'' @ nat_str i
               | None \<Rightarrow> ''rule-'' @ nat_str i),
      pr_capability = sr_when r,
      pr_condition = (case simple_conditions r of [] \<Rightarrow> Always | [c] \<Rightarrow> c | cs \<Rightarrow> And cs),
      pr_action = effect_action (sr_require r)\<rparr>"

datatype policy_source = SimpleRules "simple_rule list" | FullDocument policy_document
  | PolicyFile policy_document

definition compile_simple_policy :: "simple_rule list \<Rightarrow> policy_action option \<Rightarrow> policy_document" where
  "compile_simple_policy rs dflt =
     (let catchAll = list_ex (\<lambda>r. sr_when r = ''*'' \<and> sr_require r = REffAllow) rs
      in \<lparr>pol_rules = map (\<lambda>(i, r). compileSimpleRule r i) (enumerate 0 rs),
          pol_default_action = Some (case dflt of Some a \<Rightarrow> a
             | None \<Rightarrow> if catchAll then Allow else Deny)\<rparr>)"

section \<open>The instance\<close>

record map_options =
  mo_default_action :: "policy_action option"
  mo_requester :: "requester option"

record map_instance =
  mi_options :: map_options
  mi_policy :: policy_document
  mi_executor :: executor
  mi_pending :: "(string, intent) jmap"

record map_receipt =
  mx_id :: string
  mx_capability :: string
  mx_action :: receipt_action
  mx_timestamp :: ms
  mx_signature :: "string option"

record map_result =
  mr_status :: receipt_action
  mr_output :: "(string \<times> jsval) list option"
  mr_summary :: string
  mr_receipt :: map_receipt
  mr_approval_reference :: "string option"

record run_options =
  ro_requester :: "requester option"
  ro_risk :: "risk_level option"
  ro_environment :: "environment option"

datatype map_error = ExecutionFailed exec_error | NoPendingApproval string

definition initial_policy :: "policy_source option \<Rightarrow> policy_action option \<Rightarrow> policy_document" where
  "initial_policy src dflt =
     (case src of
        None \<Rightarrow> \<lparr>pol_rules = [], pol_default_action = Some (case dflt of Some a \<Rightarrow> a | None \<Rightarrow> Deny)\<rparr>
      | Some (PolicyFile d) \<Rightarrow> (if pol_default_action d = None then d\<lparr>pol_default_action := dflt\<rparr> else d)
      | Some (FullDocument d) \<Rightarrow> d
      | Some (SimpleRules rs) \<Rightarrow> compile_simple_policy rs dflt)"

definition map_agent :: "policy_source option \<Rightarrow> map_options \<Rightarrow> map_instance" where
  "map_agent src opts =
     (let p = initial_policy src (mo_default_action opts)
      in \<lparr>mi_options = opts, mi_policy = p,
          mi_executor = \<lparr>ex_policy = p, ex_adapters = [], ex_sign = None\<rparr>, mi_pending = []\<rparr>)"

definition buildIntent :: "map_instance \<Rightarrow> exec_env \<Rightarrow> string \<Rightarrow> (string \<times> jsval) list \<Rightarrow> run_options \<Rightarrow> intent" where
  "buildIntent inst ev cap input ro =
     \<lparr>it_capability = cap, it_input = input,
      it_requester = (case ro_requester ro of Some r \<Rightarrow> r
         | None \<Rightarrow> (case mo_requester (mi_options inst) of Some r \<Rightarrow> r
            | None \<Rightarrow> \<lparr>rq_type = RService, rq_id = ''default'', rq_tenant_id = None\<rparr>)),
      it_constraints = map_option (\<lambda>e. \<lparr>ic_environment = JStr (env_str e), ic_timeout_ms = JUndef,
         ic_max_amount = JUndef, ic_resource_id = JUndef\<rparr>) (ro_environment ro),
      it_metadata = Some \<lparr>im_intent_id = ee_uuid ev, im_request_id = None, im_webhook_url = None\<rparr>,
      it_risk_class = map_option risk_str (ro_risk ro)\<rparr>"

definition toMapResult :: "exec_env \<Rightarrow> core_outcome \<Rightarrow> intent \<Rightarrow> map_result" where
  "toMapResult ev raw it =
     (case raw of
        Receipt r \<Rightarrow>
          \<lparr>mr_status = cr_action r, mr_output = None,
           mr_summary = (if cr_action r = ApprovalRequired then ''Approval required for '' @ it_capability it
                         else it_capability it @ '' was '' @ receipt_action_str (cr_action r)),
           mr_receipt = \<lparr>mx_id = cr_receipt_id r, mx_capability = cr_capability r, mx_action = cr_action r,
                         mx_timestamp = cr_timestamp r, mx_signature = cr_signature r\<rparr>,
           mr_approval_reference =
             (if cr_action r = ApprovalRequired then Some (''approval:'' @ cr_intent_id r) else None)\<rparr>
      | Result r \<Rightarrow>
          (let act = (if er_status r = Ok then Executed else Denied) in
           \<lparr>mr_status = act, mr_output = Some (er_output r), mr_summary = er_summary r,
            mr_receipt = \<lparr>mx_id = ''receipt:'' @ er_intent_id r @ '':'' @ int_str (ee_now ev),
                          mx_capability = er_capability r, mx_action = act,
                          mx_timestamp = ee_now ev, mx_signature = None\<rparr>,
            mr_approval_reference = None\<rparr>))"

type_synonym handler = "(string \<times> jsval) list \<Rightarrow> exec_context \<Rightarrow> string + (string \<times> jsval) list option"

definition handler_adapter :: "string \<Rightarrow> handler \<Rightarrow> adapter" where
  "handler_adapter cap h =
     \<lparr>xa_validate = (\<lambda>_. \<lparr>vr_valid = True, vr_errors = []\<rparr>),
      xa_execute = (\<lambda>input ctx. case h input ctx of
         Inl e \<Rightarrow> Inl e
       | Inr out \<Rightarrow> Inr \<lparr>er_intent_id = xc_intent_id ctx, er_capability = cap, er_status = Ok,
           er_output = (case out of None \<Rightarrow> [] | Some m \<Rightarrow> m), er_summary = cap @ '' executed''\<rparr>)\<rparr>"

definition can :: "map_instance \<Rightarrow> string \<Rightarrow> handler \<Rightarrow> map_instance" where
  "can inst cap h = inst\<lparr>mi_executor := (mi_executor inst)\<lparr>
     ex_adapters := jm_set cap (handler_adapter cap h) (ex_adapters (mi_executor inst))\<rparr>\<rparr>"

definition run :: "re_engine \<Rightarrow> (intent \<Rightarrow> validation_result) \<Rightarrow> map_instance \<Rightarrow> exec_env \<Rightarrow> string
    \<Rightarrow> (string \<times> jsval) list \<Rightarrow> run_options \<Rightarrow> adapter_call list \<times> (map_error + map_result) \<times> map_instance" where
  "run re vi inst ev cap input ro =
     (let it = buildIntent inst ev cap input ro in
      case executeIntent re vi (mi_executor inst) ev it of
        (calls, Inl e) \<Rightarrow> (calls, Inl (ExecutionFailed e), inst)
      | (calls, Inr raw) \<Rightarrow>
          (let res = toMapResult ev raw it in
           (calls, Inr res,
            (case mr_approval_reference res of
               Some ref \<Rightarrow> if mr_status res = ApprovalRequired
                 then inst\<lparr>mi_pending := jm_set ref it (mi_pending inst)\<rparr> else inst
             | None \<Rightarrow> inst))))"

definition approve :: "(intent \<Rightarrow> validation_result) \<Rightarrow> map_instance \<Rightarrow> exec_env \<Rightarrow> string
    \<Rightarrow> adapter_call list \<times> (map_error + map_result) \<times> map_instance" where
  "approve vi inst ev ref =
     (case jm_get (mi_pending inst) ref of
        None \<Rightarrow> ([], Inl (NoPendingApproval ref), inst)
      | Some it \<Rightarrow>
          (let inst' = inst\<lparr>mi_pending := jm_del ref (mi_pending inst)\<rparr> in
           case executeApproved vi (mi_executor inst) ev it of
             (calls, Inl e) \<Rightarrow> (calls, Inl (ExecutionFailed e), inst')
           | (calls, Inr r) \<Rightarrow> (calls, Inr (toMapResult ev (Result r) it), inst')))"

definition replace_policy :: "map_instance \<Rightarrow> policy_source \<Rightarrow> map_instance" where
  "replace_policy inst src =
     (let p = (case src of PolicyFile d \<Rightarrow> d | FullDocument d \<Rightarrow> d
                | SimpleRules rs \<Rightarrow> compile_simple_policy rs (mo_default_action (mi_options inst)))
      in inst\<lparr>mi_policy := p, mi_executor := setPolicy (mi_executor inst) p\<rparr>)"

definition check :: "re_engine \<Rightarrow> map_instance \<Rightarrow> exec_env \<Rightarrow> string \<Rightarrow> (string \<times> jsval) list \<Rightarrow> run_options
    \<Rightarrow> policy_decision" where
  "check re inst ev cap input ro = evaluate re (buildIntent inst ev cap input ro) (mi_policy inst)"

text \<open>
  What \<open>run\<close> tells the hooks of the options, if they are set: \<open>onDecision\<close> before
  the executor is asked, \<open>onApprovalRequired\<close> when an approval is stored.
\<close>

record decision_event =
  de_capability :: string
  de_action :: policy_action
  de_reason :: string
  de_matched_rule :: "string option"
  de_timestamp :: ms

definition run_decision_event :: "re_engine \<Rightarrow> map_instance \<Rightarrow> exec_env \<Rightarrow> string \<Rightarrow> (string \<times> jsval) list
    \<Rightarrow> run_options \<Rightarrow> decision_event" where
  "run_decision_event re inst ev cap input ro =
     (let d = evaluate re (buildIntent inst ev cap input ro) (mi_policy inst)
      in \<lparr>de_capability = cap, de_action = pd_action d, de_reason = pd_reason d,
          de_matched_rule = pd_matched_rule d, de_timestamp = ee_now ev\<rparr>)"

record approval_notification =
  no_capability :: string
  no_input_summary :: "(string \<times> jsval) list"
  no_reason :: string
  no_approval_reference :: string

definition run_approval_notification :: "string \<Rightarrow> (string \<times> jsval) list \<Rightarrow> map_result \<Rightarrow> approval_notification option" where
  "run_approval_notification cap input res =
     (if mr_status res = ApprovalRequired
      then map_option (\<lambda>ref. \<lparr>no_capability = cap, no_input_summary = input, no_reason = mr_summary res,
             no_approval_reference = ref\<rparr>) (mr_approval_reference res)
      else None)"

section \<open>The instance as a system of operations\<close>

datatype map_op =
    OpCan string handler
  | OpRun exec_env string "(string \<times> jsval) list" run_options
  | OpApprove exec_env string
  | OpSetPolicy policy_source

fun map_step :: "re_engine \<Rightarrow> (intent \<Rightarrow> validation_result) \<Rightarrow> map_instance \<Rightarrow> map_op \<Rightarrow> map_instance" where
  "map_step re vi inst (OpCan cap h) = can inst cap h"
| "map_step re vi inst (OpRun ev cap input ro) = snd (snd (run re vi inst ev cap input ro))"
| "map_step re vi inst (OpApprove ev ref) = snd (snd (approve vi inst ev ref))"
| "map_step re vi inst (OpSetPolicy src) = replace_policy inst src"

text \<open>
  The executor always runs the policy the instance reports, and each pending
  entry is filed under the reference of its own intent.
\<close>

definition map_inv :: "map_instance \<Rightarrow> bool" where
  "map_inv inst \<longleftrightarrow> ex_policy (mi_executor inst) = mi_policy inst \<and> jm_wf (mi_pending inst) \<and>
     (\<forall>ref it. jm_get (mi_pending inst) ref = Some it \<longrightarrow>
        (\<exists>m. it_metadata it = Some m \<and> ref = ''approval:'' @ im_intent_id m))"

lemma effective_id_built: "effective_intent_id ev (normalize (buildIntent inst ev cap input ro)) = ee_uuid ev"
  by (simp add: effective_intent_id_def normalize_def buildIntent_def)

lemma run_pending:
  "mi_pending (snd (snd (run re vi inst ev cap input ro))) =
     (let it = buildIntent inst ev cap input ro in
      if vr_valid (vi it) \<and> pd_action (evaluate re (normalize it) (ex_policy (mi_executor inst))) = RequireApproval
      then jm_set (''approval:'' @ ee_uuid ev) it (mi_pending inst) else mi_pending inst)"
proof -
  let ?it = "buildIntent inst ev cap input ro"
  show ?thesis
    using effective_id_built [of ev inst cap input ro]
    by (auto simp: run_def executeIntent_def toMapResult_def buildReceipt_def Let_def
          split: policy_action.splits prod.splits sum.splits)
qed

lemma run_frame:
  "mi_policy (snd (snd (run re vi inst ev cap input ro))) = mi_policy inst"
  "mi_executor (snd (snd (run re vi inst ev cap input ro))) = mi_executor inst"
  by (auto simp: run_def Let_def split: prod.splits sum.splits option.splits)

lemma approve_frame:
  "mi_policy (snd (snd (approve vi inst ev ref))) = mi_policy inst"
  "mi_executor (snd (snd (approve vi inst ev ref))) = mi_executor inst"
  "mi_pending (snd (snd (approve vi inst ev ref))) = jm_del ref (mi_pending inst)"
  by (auto simp: approve_def Let_def delete_id dom_map_of_conv_image_fst split: prod.splits sum.splits option.splits)
     (metis delete_id domIff dom_map_of_conv_image_fst)+

lemma map_step_inv:
  assumes "map_inv inst"
  shows "map_inv (map_step re vi inst e)"
proof (cases e)
  case (OpRun ev cap input ro)
  then show ?thesis
    using assms
    by (auto simp: map_inv_def run_frame run_pending Let_def jm_get_set buildIntent_def split: if_splits)
next
  case (OpApprove ev ref)
  then show ?thesis
    using assms by (auto simp: map_inv_def approve_frame jm_get_del split: if_splits)
qed (use assms in \<open>auto simp: map_inv_def can_def replace_policy_def setPolicy_def Let_def\<close>)

lemma map_agent_inv: "map_inv (map_agent src opts)"
  by (simp add: map_inv_def map_agent_def Let_def)

interpretation map_sys: invariant_system "map_step re vi" "\<lambda>_. True" map_inv for re vi
  by unfold_locales (rule map_step_inv)

section \<open>What a simple rule means\<close>

definition amount_sat :: "(jsnum \<Rightarrow> bool) \<Rightarrow> intent \<Rightarrow> bool" where
  "amount_sat P it = (case obj_get (it_input it) ''amount'' of JNum n \<Rightarrow> P n | _ \<Rightarrow> False)"

definition env_is :: "environment \<Rightarrow> intent \<Rightarrow> bool" where
  "env_is e it = (case it_constraints it of None \<Rightarrow> False | Some c \<Rightarrow> ic_environment c = JStr (env_str e))"

definition simple_rule_meaning :: "simple_rule \<Rightarrow> intent \<Rightarrow> bool" where
  "simple_rule_meaning r it \<longleftrightarrow>
     (\<forall>x. sr_amount_gt r = Some x \<longrightarrow> amount_sat (\<lambda>n. num_lt x n) it) \<and>
     (\<forall>x. sr_amount_gte r = Some x \<longrightarrow> amount_sat (\<lambda>n. num_le x n) it) \<and>
     (\<forall>e. sr_env r = Some e \<longrightarrow> env_is e it) \<and>
     (\<forall>k. sr_risk r = Some k \<longrightarrow> it_risk_class it = Some (risk_str k)) \<and>
     (\<forall>t. sr_requester_type r = Some t \<longrightarrow> rq_type (it_requester it) = t)"

lemma path_input_amount:
  "getFieldValueFromParts (split_on CHR ''.'' ''input.amount'') (intent_obj it) =
   obj_get (it_input it) ''amount''"
  by (simp add: intent_obj_def obj_get_def)

lemma path_environment:
  "getFieldValueFromParts (split_on CHR ''.'' ''constraints.environment'') (intent_obj it) =
   (case it_constraints it of None \<Rightarrow> JUndef | Some c \<Rightarrow> ic_environment c)"
  by (simp add: intent_obj_def obj_get_def constraints_obj_def jopt_def split: option.splits)

lemma path_risk:
  "getFieldValueFromParts (split_on CHR ''.'' ''risk_class'') (intent_obj it) = jopt JStr (it_risk_class it)"
  by (simp add: intent_obj_def obj_get_def)

lemma path_requester_type:
  "getFieldValueFromParts (split_on CHR ''.'' ''requester.type'') (intent_obj it) =
   JStr (core_requester_str (rq_type (it_requester it)))"
  by (simp add: intent_obj_def obj_get_def requester_obj_def)

lemmas path_simps = path_input_amount path_environment path_risk path_requester_type

lemma compiled_conditions_all:
  "cond_holds (case cs of [] \<Rightarrow> Always | [c] \<Rightarrow> c | ds \<Rightarrow> And ds) it = (\<forall>c \<in> set cs. cond_holds c it)"
  by (auto split: list.splits)

lemma holds_amount_gt:
  "cond_holds (Comparison [(''gt'', ''input.amount'', JNum x)]) it = amount_sat (\<lambda>n. num_lt x n) it"
  unfolding cond_holds.simps
  by (simp add: path_simps evaluateOp_def num_cmp_def amount_sat_def del: split_on.simps split: jsval.splits)

lemma holds_amount_gte:
  "cond_holds (Comparison [(''gte'', ''input.amount'', JNum x)]) it = amount_sat (\<lambda>n. num_le x n) it"
  unfolding cond_holds.simps
  by (simp add: path_simps evaluateOp_def num_cmp_def amount_sat_def del: split_on.simps split: jsval.splits)

lemma holds_env:
  "cond_holds (Comparison [(''eq'', ''constraints.environment'', JStr (env_str e))]) it = env_is e it"
  unfolding cond_holds.simps
  by (simp add: path_simps evaluateOp_def env_is_def del: split_on.simps split: option.splits)

lemma holds_risk:
  "cond_holds (Comparison [(''eq'', ''risk_class'', JStr (risk_str k))]) it =
   (it_risk_class it = Some (risk_str k))"
  unfolding cond_holds.simps
  by (simp add: path_simps evaluateOp_def jopt_def del: split_on.simps split: option.splits)

lemma holds_requester:
  "cond_holds (Comparison [(''eq'', ''requester.type'', JStr (core_requester_str t))]) it =
   (rq_type (it_requester it) = t)"
  unfolding cond_holds.simps
  by (simp add: path_simps evaluateOp_def del: split_on.simps)

lemmas holds_simple = holds_amount_gt holds_amount_gte holds_env holds_risk holds_requester

lemma ball_optional:
  "(\<forall>c \<in> set (case x of None \<Rightarrow> [] | Some y \<Rightarrow> [f y]). P c) = (\<forall>y. x = Some y \<longrightarrow> P (f y))"
  by (cases x) auto

lemma simple_conditions_meaning:
  "(\<forall>c \<in> set (simple_conditions r). cond_holds c it) = simple_rule_meaning r it"
  unfolding simple_conditions_def simple_rule_meaning_def
  by (simp only: set_append ball_Un ball_optional holds_simple)

section \<open>Properties\<close>

lemma compileSimpleRule_applies:
  "rule_applies re it (compileSimpleRule r i) \<longleftrightarrow>
   cap_matches re (sr_when r) (it_capability it) \<and> simple_rule_meaning r it"
  by (simp only: rule_applies_def compileSimpleRule_def policy_rule.simps compiled_conditions_all
        simple_conditions_meaning)

lemma find_compiled:
  "find (rule_applies re it) (map (\<lambda>(i, r). compileSimpleRule r i) (enumerate n rs)) = Some x \<Longrightarrow>
   \<exists>i r. x = compileSimpleRule r i \<and>
     find (\<lambda>r. cap_matches re (sr_when r) (it_capability it) \<and> simple_rule_meaning r it) rs = Some r"
  by (induction rs arbitrary: n) (auto simp: compileSimpleRule_applies split: if_splits)

lemma find_compiled_None:
  "find (rule_applies re it) (map (\<lambda>(i, r). compileSimpleRule r i) (enumerate n rs)) = None \<longleftrightarrow>
   find (\<lambda>r. cap_matches re (sr_when r) (it_capability it) \<and> simple_rule_meaning r it) rs = None"
  by (induction rs arbitrary: n) (auto simp: compileSimpleRule_applies)

text \<open>C33: compiling a list of simple rules keeps its meaning: the decision on an intent is the
  effect of the first rule whose pattern and whose amount, environment, risk and requester tests the
  intent meets; with no such rule it is the given default, else allow when the list has an allowing
  rule for every capability, else deny.\<close>

theorem simple_policy_meaning:
  "pd_action (evaluate re it (compile_simple_policy rs dflt)) =
     (case find (\<lambda>r. cap_matches re (sr_when r) (it_capability it) \<and> simple_rule_meaning r it) rs of
        Some r \<Rightarrow> effect_action (sr_require r)
      | None \<Rightarrow> (case dflt of Some a \<Rightarrow> a
          | None \<Rightarrow> if \<exists>r \<in> set rs. sr_when r = ''*'' \<and> sr_require r = REffAllow then Allow else Deny))"
proof (cases "find (rule_applies re it) (pol_rules (compile_simple_policy rs dflt))")
  case None
  then show ?thesis
    using find_compiled_None [of re it 0 rs]
    by (simp add: evaluate_find compile_simple_policy_def Let_def list_ex_iff split: option.splits)
next
  case (Some x)
  then obtain i r where "x = compileSimpleRule r i"
    "find (\<lambda>r. cap_matches re (sr_when r) (it_capability it) \<and> simple_rule_meaning r it) rs = Some r"
    using find_compiled [of re it 0 rs x] by (auto simp: compile_simple_policy_def Let_def)
  with Some show ?thesis by (simp add: evaluate_find compileSimpleRule_def)
qed

text \<open>An operation history that asked for approval of the intent now pending.\<close>

definition asked :: "re_engine \<Rightarrow> (intent \<Rightarrow> validation_result) \<Rightarrow> map_instance \<Rightarrow> map_op list \<Rightarrow> string \<Rightarrow> intent \<Rightarrow> bool" where
  "asked re vi inst ops ref it \<longleftrightarrow>
     (\<exists>ops1 ops2 ev cap input ro. ops = ops1 @ OpRun ev cap input ro # ops2 \<and>
        (let s = foldl (map_step re vi) inst ops1 in
         it = buildIntent s ev cap input ro \<and> ref = ''approval:'' @ ee_uuid ev \<and> vr_valid (vi it) \<and>
         pd_action (evaluate re (normalize it) (mi_policy s)) = RequireApproval))"

lemma asked_snoc: "asked re vi inst ops ref it \<Longrightarrow> asked re vi inst (ops @ [e]) ref it"
  unfolding asked_def by (metis append_Cons append_assoc)

lemma asked_now:
  assumes "s = foldl (map_step re vi) inst ops" and "it = buildIntent s ev cap input ro"
    and "vr_valid (vi it)" "pd_action (evaluate re (normalize it) (mi_policy s)) = RequireApproval"
  shows "asked re vi inst (ops @ [OpRun ev cap input ro]) (''approval:'' @ ee_uuid ev) it"
  unfolding asked_def using assms by (metis (mono_tags, lifting))

lemma pending_asked:
  "jm_get (mi_pending (foldl (map_step re vi) (map_agent src opts) ops)) ref = Some it \<Longrightarrow>
   asked re vi (map_agent src opts) ops ref it"
proof (induction ops arbitrary: ref it rule: rev_induct)
  case Nil
  then show ?case by (simp add: map_agent_def Let_def)
next
  case (snoc e ops)
  let ?s = "foldl (map_step re vi) (map_agent src opts) ops"
  have inv: "map_inv ?s" by (rule map_sys.run_inv [OF map_agent_inv]) (simp add: list_all_iff)
  show ?case
  proof (cases e)
    case (OpRun ev cap input ro)
    let ?it = "buildIntent ?s ev cap input ro"
    show ?thesis
    proof (cases "jm_get (mi_pending ?s) ref = Some it")
      case True
      then show ?thesis by (intro asked_snoc snoc.IH)
    next
      case False
      then have "it = ?it" "ref = ''approval:'' @ ee_uuid ev" "vr_valid (vi ?it)"
        "pd_action (evaluate re (normalize ?it) (mi_policy ?s)) = RequireApproval"
        using snoc.prems inv
        by (auto simp: OpRun run_pending Let_def jm_get_set map_inv_def split: if_splits)
      then show ?thesis using asked_now [OF refl refl] OpRun by metis
    qed
  qed (use snoc in \<open>auto simp: can_def approve_frame jm_get_del replace_policy_def setPolicy_def Let_def
         split: if_splits intro!: asked_snoc\<close>)
qed

text \<open>C17: whatever the operations on an instance, a handler that \<open>approve\<close> runs was asked for:
  an earlier \<open>run\<close> built that very intent, found it valid and was told to require approval by the
  policy then in force; the call carries the intent's normalised capability and its input.\<close>

theorem approve_runs_only_asked:
  assumes "s = foldl (map_step re vi) (map_agent src opts) ops"
    and "call \<in> set (fst (approve vi s ev ref))"
  shows "\<exists>it. asked re vi (map_agent src opts) ops ref it \<and>
    ac_capability call = it_capability (normalize it) \<and> ac_input call = it_input it"
proof -
  obtain it where it: "jm_get (mi_pending s) ref = Some it"
    using assms(2) by (auto simp: approve_def split: option.splits)
  have "call \<in> set (fst (executeApproved vi (mi_executor s) ev it))"
    using assms(2) it
    by (auto simp: approve_def executeApproved_def Let_def split: prod.splits sum.splits if_splits)
  then have "call \<in> set (fst (executeNormalizedIntent (ex_adapters (mi_executor s)) ev (normalize it)))"
    by (auto simp: executeApproved_def Let_def split: if_splits)
  from executeNormalizedIntent_calls [OF refl this]
  have "ac_capability call = it_capability (normalize it)" "ac_input call = it_input it"
    by (simp_all add: normalize_def)
  with pending_asked it assms(1) show ?thesis by blast
qed

text \<open>An approval reference is good for one use: once \<open>approve\<close> was called with it, whatever
  the handler did, every later \<open>approve\<close> with it is refused until a new \<open>run\<close> files it again.\<close>

theorem approve_one_shot:
  assumes "list_all (\<lambda>e. case e of OpRun ev' cap input ro \<Rightarrow> ref \<noteq> ''approval:'' @ ee_uuid ev' | _ \<Rightarrow> True) ops"
  shows "approve vi (foldl (map_step re vi) (snd (snd (approve vi inst ev ref))) ops) ev2 ref =
    ([], Inl (NoPendingApproval ref), foldl (map_step re vi) (snd (snd (approve vi inst ev ref))) ops)"
proof -
  have "jm_get (mi_pending (foldl (map_step re vi) s ops)) ref = None"
    if "jm_get (mi_pending s) ref = None" for s
    using assms that
  proof (induction ops arbitrary: s)
    case (Cons e ops)
    have "jm_get (mi_pending (map_step re vi s e)) ref = None"
      using Cons.prems
      by (cases e) (auto simp: can_def run_pending approve_frame jm_get_set jm_get_del
            replace_policy_def setPolicy_def Let_def)
    with Cons show ?case by simp
  qed simp
  from this [of "snd (snd (approve vi inst ev ref))"] show ?thesis
    by (simp add: approve_frame jm_get_del approve_def [of vi "foldl _ _ _"])
qed

text \<open>\<open>check\<close> predicts \<open>run\<close> for a request already in normal form: if it answers deny or
  require approval then \<open>run\<close> calls no handler and reports that status, and if \<open>run\<close> calls a
  handler then \<open>check\<close> answered allow.\<close>

theorem check_predicts_run:
  assumes "map_inv inst" and "normalize (buildIntent inst ev cap input ro) = buildIntent inst ev cap input ro"
    and "vr_valid (vi (buildIntent inst ev cap input ro))"
  shows "case pd_action (check re inst ev cap input ro) of
      Deny \<Rightarrow> \<exists>res. run re vi inst ev cap input ro = ([], Inr res, inst) \<and> mr_status res = Denied
    | RequireApproval \<Rightarrow> \<exists>res. fst (snd (run re vi inst ev cap input ro)) = Inr res
        \<and> fst (run re vi inst ev cap input ro) = [] \<and> mr_status res = ApprovalRequired
        \<and> mr_approval_reference res = Some (''approval:'' @ ee_uuid ev)
    | Allow \<Rightarrow> (case jm_get (ex_adapters (mi_executor inst)) cap of
        None \<Rightarrow> run re vi inst ev cap input ro = ([], Inl (ExecutionFailed (NoAdapter cap)), inst)
      | Some ad \<Rightarrow> vr_valid (xa_validate ad input) \<longrightarrow>
          map ac_capability (fst (run re vi inst ev cap input ro)) = [cap])"
proof -
  let ?it = "buildIntent inst ev cap input ro"
  have pol: "ex_policy (mi_executor inst) = mi_policy inst" using assms(1) by (simp add: map_inv_def)
  have eid: "effective_intent_id ev ?it = ee_uuid ev"
    using effective_id_built [of ev inst cap input ro] assms(2) by simp
  have [simp]: "it_capability ?it = cap" "it_input ?it = input" by (simp_all add: buildIntent_def)
  show ?thesis
    using assms(2,3) pol eid
    by (auto simp: check_def run_def executeIntent_def toMapResult_def buildReceipt_def Let_def
          executeNormalizedIntent_def split: policy_action.split option.split prod.splits sum.splits)
qed

text \<open>A concrete history: register a handler, run a request that needs approval.\<close>

definition demo_handler :: handler where
  "demo_handler = (\<lambda>input ctx. Inr (Some input))"

definition demo_env :: exec_env where
  "demo_env = \<lparr>ee_now = 7, ee_uuid = ''u1''\<rparr>"

definition demo_run_options :: run_options where
  "demo_run_options = \<lparr>ro_requester = None, ro_risk = Some High, ro_environment = None\<rparr>"

definition demo_source :: policy_source where
  "demo_source = SimpleRules [\<lparr>sr_when = ''pay'', sr_amount_gt = None, sr_amount_gte = None, sr_env = None,
     sr_risk = Some High, sr_requester_type = None, sr_require = REffApproval, sr_description = None\<rparr>]"

definition demo_ops :: "map_op list" where
  "demo_ops = [OpCan ''pay'' demo_handler, OpRun demo_env ''pay'' [(''amount'', jint 5)] demo_run_options]"

abbreviation all_valid :: "intent \<Rightarrow> validation_result" where
  "all_valid \<equiv> (\<lambda>_. \<lparr>vr_valid = True, vr_errors = []\<rparr>)"

abbreviation no_regex :: re_engine where
  "no_regex \<equiv> (\<lambda>_ _. False)"

definition demo_instance :: map_instance where
  "demo_instance = map_agent (Some demo_source) \<lparr>mo_default_action = None, mo_requester = None\<rparr>"

definition demo_built :: intent where
  "demo_built = buildIntent (can demo_instance ''pay'' demo_handler) demo_env ''pay'' [(''amount'', jint 5)]
     demo_run_options"

lemma demo_built_normal: "normalize demo_built = demo_built"
  by (simp add: demo_built_def demo_instance_def normalize_def buildIntent_def demo_run_options_def map_agent_def
        can_def Let_def str_trim_def str_lower_def char_lower_def is_ws_def)

lemma demo_policy_is: "mi_policy (can demo_instance cap h) =
    compile_simple_policy [\<lparr>sr_when = ''pay'', sr_amount_gt = None, sr_amount_gte = None, sr_env = None,
     sr_risk = Some High, sr_requester_type = None, sr_require = REffApproval, sr_description = None\<rparr>] None"
  by (simp add: demo_instance_def map_agent_def can_def initial_policy_def demo_source_def Let_def)

lemma demo_requires_approval:
  "pd_action (evaluate no_regex demo_built (mi_policy (can demo_instance ''pay'' demo_handler))) = RequireApproval"
proof -
  let ?r = "\<lparr>sr_when = ''pay'', sr_amount_gt = None, sr_amount_gte = None, sr_env = None,
     sr_risk = Some High, sr_requester_type = None, sr_require = REffApproval, sr_description = None\<rparr>"
  have "rule_applies no_regex demo_built (compileSimpleRule ?r 0)"
    by (simp add: compileSimpleRule_applies cap_matches_def simple_rule_meaning_def demo_built_def
          buildIntent_def demo_run_options_def)
  then show ?thesis
    by (simp add: demo_policy_is evaluate_find compile_simple_policy_def Let_def)
       (simp add: compileSimpleRule_def)
qed

lemma demo_inv: "map_inv (can demo_instance cap h)"
  using map_step_inv [OF map_agent_inv, where e = "OpCan cap h"] by (simp add: demo_instance_def)

lemma demo_uuid [simp]: "ee_uuid demo_env = ''u1''"
  by (simp add: demo_env_def)

lemma demo_pending:
  "jm_get (mi_pending (foldl (map_step no_regex all_valid) demo_instance demo_ops)) ''approval:u1'' = Some demo_built"
proof -
  have "ex_policy (mi_executor (can demo_instance ''pay'' demo_handler)) = mi_policy (can demo_instance ''pay'' demo_handler)"
    using demo_inv by (simp add: map_inv_def)
  then show ?thesis
    using demo_requires_approval demo_built_normal
    by (simp add: demo_ops_def run_pending Let_def jm_get_set demo_built_def)
qed

lemma approve_calls:
  assumes "jm_get (mi_pending s) ref = Some it" and "normalize it = it" and "vr_valid (vi it)"
    and "jm_get (ex_adapters (mi_executor s)) (it_capability it) = Some (handler_adapter cap h)"
  shows "map ac_capability (fst (approve vi s ev ref)) = [it_capability it]"
  using assms
  by (simp add: approve_def executeApproved_def executeNormalizedIntent_def Let_def handler_adapter_def
        split: sum.splits)

lemma demo_call:
  "map ac_capability (fst (approve all_valid (foldl (map_step no_regex all_valid) demo_instance demo_ops)
     demo_env ''approval:u1'')) = [''pay'']"
proof -
  let ?s = "foldl (map_step no_regex all_valid) demo_instance demo_ops"
  have cap: "it_capability demo_built = ''pay''"
    by (simp add: demo_built_def buildIntent_def)
  have "ex_adapters (mi_executor ?s) = [(''pay'', handler_adapter ''pay'' demo_handler)]"
    by (simp add: demo_ops_def run_frame can_def demo_instance_def map_agent_def Let_def)
  then have "jm_get (ex_adapters (mi_executor ?s)) (it_capability demo_built) = Some (handler_adapter ''pay'' demo_handler)"
    by (simp add: cap)
  from approve_calls [OF demo_pending demo_built_normal _ this] cap show ?thesis by simp
qed

theorem approve_runs_only_asked_witness:
  "\<exists>it. asked no_regex all_valid demo_instance demo_ops ''approval:u1'' it"
proof -
  let ?s = "foldl (map_step no_regex all_valid) demo_instance demo_ops"
  obtain call where "call \<in> set (fst (approve all_valid ?s demo_env ''approval:u1''))"
    using demo_call by (auto simp: map_eq_Cons_conv)
  then show ?thesis
    using approve_runs_only_asked [of ?s no_regex all_valid "Some demo_source"
        "\<lparr>mo_default_action = None, mo_requester = None\<rparr>" demo_ops, folded demo_instance_def]
    by blast
qed

theorem approve_one_shot_witness:
  "\<exists>s. approve all_valid s demo_env ''approval:u1'' = ([], Inl (NoPendingApproval ''approval:u1''), s)"
  by (rule exI)
     (rule approve_one_shot [where re = no_regex and inst = demo_instance
        and ops = "[OpSetPolicy demo_source, OpCan ''pay'' demo_handler]" and ev = demo_env], simp)

theorem check_predicts_run_witness:
  "fst (run no_regex all_valid (can demo_instance ''pay'' demo_handler) demo_env ''pay'' [(''amount'', jint 5)]
     demo_run_options) = []"
proof -
  have "pd_action (check no_regex (can demo_instance ''pay'' demo_handler) demo_env ''pay'' [(''amount'', jint 5)]
     demo_run_options) = RequireApproval"
    using demo_requires_approval by (simp add: check_def demo_built_def)
  then show ?thesis
    using check_predicts_run [OF demo_inv, of "''pay''" demo_handler demo_env "''pay''" "[(''amount'', jint 5)]"
        demo_run_options all_valid no_regex] demo_built_normal
    by (auto simp: demo_built_def)
qed

text \<open>The decision hook evaluates the request as written, the executor a normalized one: with only
  \<open>pay\<close> allowed, a request for \<open> Pay\<close> is reported as denied, and the adapter for \<open>pay\<close> runs.\<close>

theorem decision_hook_disagrees:
  "\<exists>inst input. de_action (run_decision_event no_regex inst demo_env '' Pay'' input demo_run_options) = Deny \<and>
     map ac_capability (fst (run no_regex all_valid inst demo_env '' Pay'' input demo_run_options)) = [''pay'']"
proof (intro exI conjI)
  let ?allow = "FullDocument \<lparr>pol_rules = [\<lparr>pr_id = ''r'', pr_capability = ''pay'', pr_condition = Always, pr_action = Allow\<rparr>],
     pol_default_action = Some Deny\<rparr>"
  let ?inst = "can (map_agent (Some ?allow) \<lparr>mo_default_action = None, mo_requester = None\<rparr>) ''pay'' demo_handler"
  show "de_action (run_decision_event no_regex ?inst demo_env '' Pay'' [] demo_run_options) = Deny"
    by code_simp
  show "map ac_capability (fst (run no_regex all_valid ?inst demo_env '' Pay'' [] demo_run_options)) = [''pay'']"
    by code_simp
qed

end
