(* ===== verification/Registry.thy ===== *)
theory Registry
  imports ProtocolTypes
begin

text \<open>
  The agent registry of \<open>src/src/control-plane/registry.ts\<close> and the lookup the
  orchestrator does in it. Signing, signature verification, trust domains and the
  descriptor schema are parameters, bundled in \<open>registry_externals\<close>.
\<close>

record registry_externals =
  xr_trust_anchors :: "string list"
  xr_verifyTrustDomain :: "string \<Rightarrow> bool"
  xr_signAgentDescriptor :: "agent_descriptor \<Rightarrow> agent_descriptor"
  xr_validateAgentDescriptor :: "agent_descriptor \<Rightarrow> bool"
  xr_verifyDescriptorSignature :: "agent_descriptor \<Rightarrow> bool"

type_synonym registry = "(string, agent_descriptor) jmap"

datatype registry_error = UntrustedDomain string | InvalidDescriptor | BadDescriptorSignature string

definition present :: "string option \<Rightarrow> bool" where
  "present s \<longleftrightarrow> s \<noteq> None \<and> s \<noteq> Some []"

definition registry_register :: "registry_externals \<Rightarrow> registry \<Rightarrow> agent_descriptor \<Rightarrow> registry \<times> (registry_error + unit)" where
  "registry_register X reg d =
     (if xr_trust_anchors X \<noteq> [] \<and> ad_domain d \<noteq> [] \<and> \<not> xr_verifyTrustDomain X (ad_domain d)
      then (reg, Inl (UntrustedDomain (ad_domain d)))
      else
        (let signed = (if present (ad_signature d) \<and> present (ad_key_id d) \<and> present (ad_signature_alg d)
                       then d else xr_signAgentDescriptor X d)
         in if \<not> xr_validateAgentDescriptor X signed then (reg, Inl InvalidDescriptor)
            else if \<not> xr_verifyDescriptorSignature X signed then (reg, Inl (BadDescriptorSignature (ad_agent_id signed)))
            else (jm_set (ad_agent_id signed) signed reg, Inr ())))"

definition registry_list :: "registry \<Rightarrow> agent_descriptor list" where
  "registry_list reg = jm_vals reg"

definition findByDomain :: "registry \<Rightarrow> string \<Rightarrow> agent_descriptor list" where
  "findByDomain reg d = filter (\<lambda>a. ad_domain a = d) (registry_list reg)"

definition findByCapability :: "registry \<Rightarrow> string \<Rightarrow> agent_descriptor list" where
  "findByCapability reg cap = filter (\<lambda>a. cap \<in> set (ad_capabilities a)) (registry_list reg)"

definition getCapabilityDescriptor :: "registry \<Rightarrow> string \<Rightarrow> string \<Rightarrow> capability_descriptor option" where
  "getCapabilityDescriptor reg aid cap =
     Option.bind (jm_get reg aid) (\<lambda>a. Option.bind (ad_capability_descriptors a) (find (\<lambda>c. cd_name c = cap)))"

text \<open>Every registered descriptor passed its checks and sits under its own id.\<close>

definition registry_ok :: "registry_externals \<Rightarrow> registry \<Rightarrow> bool" where
  "registry_ok X reg \<longleftrightarrow> jm_wf reg \<and> (\<forall>aid d. jm_get reg aid = Some d \<longrightarrow>
     ad_agent_id d = aid \<and> xr_validateAgentDescriptor X d \<and> xr_verifyDescriptorSignature X d)"

lemma register_ok: "registry_ok X reg \<Longrightarrow> registry_ok X (fst (registry_register X reg d))"
  by (auto simp: registry_ok_def registry_register_def Let_def jm_get_set split: if_splits)

interpretation registry_sys: invariant_system "\<lambda>reg d. fst (registry_register X reg d)" "\<lambda>_. True" "registry_ok X" for X
  by unfold_locales (rule register_ok)

lemma findByCapability_registered:
  "jm_wf reg \<Longrightarrow> a \<in> set (findByCapability reg cap) \<longleftrightarrow>
     cap \<in> set (ad_capabilities a) \<and> (\<exists>aid. jm_get reg aid = Some a)"
  by (auto simp: findByCapability_def registry_list_def jm_vals_get)

end
