(* ===== verification/Bridge.thy ===== *)
theory Bridge
  imports CoreExecute
begin

text \<open>
  The bridge from the protocol to the core (\<open>src/src/integration/ecp-bridge.ts\<close>): the
  intent that a task envelope stands for, which policy, schema check and
  adapters all see. \<open>JSON.parse\<close> of the envelope's intent text is the parameter
  \<open>pj\<close> (\<open>None\<close> when it throws).
\<close>

type_synonym json_parser = "string \<Rightarrow> jsval option"

text \<open>\<open>v.k\<close> on a value that is not nullish (no other value has the properties read here).\<close>

definition get_prop :: "jsval \<Rightarrow> string \<Rightarrow> jsval" where
  "get_prop v k = (case v of JObj kvs \<Rightarrow> obj_get kvs k | JArr xs \<Rightarrow> arr_get xs k | _ \<Rightarrow> JUndef)"

text \<open>\<open>x && typeof x === "object" && !Array.isArray(x) ? x : {}\<close>.\<close>

definition plain_or_empty :: "jsval \<Rightarrow> (string \<times> jsval) list" where
  "plain_or_empty v = (case v of JObj kvs \<Rightarrow> kvs | _ \<Rightarrow> [])"

definition str_of :: "jsval \<Rightarrow> string option" where
  "str_of v = (case v of JStr s \<Rightarrow> Some s | _ \<Rightarrow> None)"

definition mapRequesterIdentity :: "requester_identity \<Rightarrow> requester" where
  "mapRequesterIdentity r =
     \<lparr>rq_type = (case ri_type r of User \<Rightarrow> RUser | Service \<Rightarrow> RService | Agent \<Rightarrow> RService),
      rq_id = ri_id r, rq_tenant_id = ri_tenant_id r\<rparr>"

definition mapConstraints :: "task_constraints \<Rightarrow> intent_constraints" where
  "mapConstraints c =
     (let common = (if nullish (tc_common c) then JObj [] else tc_common c) in
      \<lparr>ic_environment = get_prop common ''environment'', ic_timeout_ms = get_prop common ''timeout_ms'',
       ic_max_amount = get_prop common ''max_amount'', ic_resource_id = get_prop common ''resource_id''\<rparr>)"

definition parseIntentPayload :: "json_parser \<Rightarrow> string \<Rightarrow> (string \<times> jsval) list \<times> string option" where
  "parseIntentPayload pj s =
     (if s = [] \<or> str_trim s = [] then ([], None)
      else (case pj s of
              Some (JObj kvs) \<Rightarrow> (kvs, None)
            | _ \<Rightarrow> ([], Some (str_trim s))))"

fun mapRequestedOutputMode :: "visibility_mode \<Rightarrow> string" where
  "mapRequestedOutputMode VStructuredOnly = ''structured''"
| "mapRequestedOutputMode VRedacted = ''structured''"
| "mapRequestedOutputMode VReceiptOnly = ''count_only''"
| "mapRequestedOutputMode VSummary = ''summary''"
| "mapRequestedOutputMode VFull = ''summary''"
| "mapRequestedOutputMode VDebug = ''summary''"

text \<open>\<open>[a-zA-Z0-9_]\<close>, and \<open>summary.replace(/\*\//g, "")\<close> (matches do not overlap).\<close>

definition word_char :: "char \<Rightarrow> bool" where
  "word_char c \<longleftrightarrow> (let n = of_char c :: nat in
     (97 \<le> n \<and> n \<le> 122) \<or> (65 \<le> n \<and> n \<le> 90) \<or> (48 \<le> n \<and> n \<le> 57) \<or> n = 95)"

definition safe_dataset :: "string \<Rightarrow> string" where
  "safe_dataset s = map (\<lambda>c. if word_char c then c else CHR ''_'') s"

fun strip_comment_end :: "string \<Rightarrow> string" where
  "strip_comment_end (a # b # s) =
     (if a = CHR ''*'' \<and> b = CHR ''/'' then strip_comment_end s else a # strip_comment_end (b # s))"
| "strip_comment_end s = s"

definition buildDbReadQuery :: "string \<Rightarrow> string option \<Rightarrow> string option \<Rightarrow> string" where
  "buildDbReadQuery dataset service summary =
     (let base = ''SELECT * FROM '' @ safe_dataset dataset in
      if service \<noteq> None \<and> service \<noteq> Some [] then base @ '' WHERE service = $1''
      else (case summary of
              Some s \<Rightarrow> if s \<noteq> [] then base @ '' /* '' @ strip_comment_end s @ '' */'' else base
            | None \<Rightarrow> base))"

definition payment_input :: "(string \<times> jsval) list \<Rightarrow> (string \<times> jsval) list \<Rightarrow> (string \<times> jsval) list \<Rightarrow> string option
    \<Rightarrow> (string \<times> jsval) list" where
  "payment_input common domain data summary =
     obj_merge (obj_merge domain data)
       [(''amount'', js_coalesce (obj_get data ''amount'') (obj_get common ''max_amount'')),
        (''currency'', js_coalesce (obj_get data ''currency'') (js_coalesce (obj_get common ''currency'')
            (js_coalesce (obj_get common ''currency_code'') (JStr ''USD'')))),
        (''vendor_id'', js_coalesce (obj_get data ''vendor_id'') (js_coalesce (obj_get common ''resource_id'')
            (obj_get domain ''vendor_id''))),
        (''description'', js_coalesce (obj_get data ''description'') (jopt JStr summary))]"

definition nonblank_str :: "jsval \<Rightarrow> string option" where
  "nonblank_str v = (case v of JStr s \<Rightarrow> if str_trim s \<noteq> [] then Some s else None | _ \<Rightarrow> None)"

definition db_read_input :: "(string \<times> jsval) list \<Rightarrow> (string \<times> jsval) list \<Rightarrow> (string \<times> jsval) list \<Rightarrow> string option
    \<Rightarrow> visibility_mode \<Rightarrow> (string \<times> jsval) list" where
  "db_read_input common domain data summary mode =
     (let dataset = (case nonblank_str (obj_get domain ''dataset'') of Some s \<Rightarrow> s | None \<Rightarrow> ''records'');
          service = nonblank_str (obj_get domain ''service'')
      in obj_merge (obj_merge domain data)
        [(''query'', js_coalesce (obj_get data ''query'') (JStr (buildDbReadQuery dataset service summary))),
         (''params'', js_coalesce (obj_get data ''params'')
             (JArr (case service of None \<Rightarrow> [] | Some s \<Rightarrow> [JStr s]))),
         (''limit'', js_coalesce (obj_get data ''limit'')
             (if is_num (obj_get common ''limit'') then obj_get common ''limit'' else jint 25)),
         (''output_mode'', js_coalesce (obj_get data ''output_mode'') (JStr (mapRequestedOutputMode mode))),
         (''environment'', obj_get common ''environment''),
         (''dataset'', JStr dataset),
         (''service'', jopt JStr service)])"

definition mapIntentInput :: "json_parser \<Rightarrow> task_envelope \<Rightarrow> string \<Rightarrow> (string \<times> jsval) list" where
  "mapIntentInput pj env cap =
     (let (data, summary) = parseIntentPayload pj (te_intent env);
          common = plain_or_empty (tc_common (te_constraints env));
          domain = plain_or_empty (tc_domain (te_constraints env))
      in if prefix ''payment.'' cap then payment_input common domain data summary
         else if prefix ''db.read.'' cap then db_read_input common domain data summary (te_output_mode env)
         else obj_merge (obj_merge domain data)
                (case summary of None \<Rightarrow> [] | Some s \<Rightarrow> if s \<noteq> [] then [(''intent'', JStr s)] else []))"

definition metadata_str :: "task_envelope \<Rightarrow> string \<Rightarrow> string option" where
  "metadata_str env k = (case te_metadata env of None \<Rightarrow> None | Some m \<Rightarrow> str_of (obj_get m k))"

definition extractRequestId :: "task_envelope \<Rightarrow> string option" where
  "extractRequestId env = metadata_str env ''request_id''"

definition extractWebhookUrl :: "task_envelope \<Rightarrow> string option" where
  "extractWebhookUrl env = metadata_str env ''webhook_url''"

definition mapEnvelopeToIntent :: "json_parser \<Rightarrow> task_envelope \<Rightarrow> string \<Rightarrow> intent" where
  "mapEnvelopeToIntent pj env cap =
     \<lparr>it_capability = cap, it_input = mapIntentInput pj env cap,
      it_requester = mapRequesterIdentity (te_requester env),
      it_constraints = Some (mapConstraints (te_constraints env)),
      it_metadata = Some \<lparr>im_intent_id = te_task_id env, im_request_id = extractRequestId env,
                          im_webhook_url = extractWebhookUrl env\<rparr>,
      it_risk_class = Some (risk_str (te_risk_class env))\<rparr>"

section \<open>Lemmas\<close>

lemma safe_dataset_word: "c \<in> set (safe_dataset s) \<Longrightarrow> word_char c"
  by (auto simp: safe_dataset_def word_char_def)

lemma merge_last: "k \<in> fst ` set b \<Longrightarrow> distinct (map fst b) \<Longrightarrow> map_of (obj_merge a b) k = map_of b k"
proof -
  assume k: "k \<in> fst ` set b" and d: "distinct (map fst b)"
  have "map_of (rev b) = map_of b" using d by (subst map_of_inject_set) (simp_all add: rev_map [symmetric])
  moreover have "map_of b k \<noteq> None" using k by (simp add: map_of_eq_None_iff)
  ultimately show ?thesis by (auto simp: obj_merge_get)
qed

lemma buildDbReadQuery_shape:
  "\<exists>rest. buildDbReadQuery d sv s = ''SELECT * FROM '' @ safe_dataset d @ rest \<and>
     (\<forall>x. sv = Some x \<longrightarrow> x \<noteq> [] \<longrightarrow> rest = '' WHERE service = $1'')"
proof (cases "sv \<noteq> None \<and> sv \<noteq> Some []")
  case True
  then show ?thesis by (auto simp: buildDbReadQuery_def Let_def)
next
  case False
  then show ?thesis
    by (intro exI [of _ "case s of Some t \<Rightarrow> if t \<noteq> [] then '' /* '' @ strip_comment_end t @ '' */'' else [] | None \<Rightarrow> []"])
       (auto simp: buildDbReadQuery_def Let_def split: option.split)
qed

section \<open>Properties\<close>

text \<open>A database read with no query of its own runs the query the bridge builds, whose table name
  has letters, digits and underscores only; when the domain names a service the query is the fixed
  parametrised one and the service reaches the database as its only parameter.\<close>

theorem db_read_query_shape:
  assumes "prefix ''db.read.'' cap" and "parseIntentPayload pj (te_intent env) = (data, summary)"
    and "nullish (obj_get data ''query'')" and "nullish (obj_get data ''params'')"
  shows "\<exists>table rest. map_of (mapIntentInput pj env cap) ''query'' = Some (JStr (''SELECT * FROM '' @ table @ rest)) \<and>
    list_all word_char table \<and>
    (\<forall>s. nonblank_str (obj_get (plain_or_empty (tc_domain (te_constraints env))) ''service'') = Some s \<longrightarrow>
       rest = '' WHERE service = $1'' \<and> map_of (mapIntentInput pj env cap) ''params'' = Some (JArr [JStr s]))"
proof -
  let ?dom = "plain_or_empty (tc_domain (te_constraints env))"
  let ?ds = "case nonblank_str (obj_get ?dom ''dataset'') of Some s \<Rightarrow> s | None \<Rightarrow> ''records''"
  let ?sv = "nonblank_str (obj_get ?dom ''service'')"
  have "\<not> prefix ''payment.'' cap" using assms(1) by (cases cap) auto
  then have m: "mapIntentInput pj env cap =
      db_read_input (plain_or_empty (tc_common (te_constraints env))) ?dom data summary (te_output_mode env)"
    using assms(1,2) by (simp add: mapIntentInput_def)
  have q: "map_of (mapIntentInput pj env cap) ''query'' = Some (JStr (buildDbReadQuery ?ds ?sv summary))"
    and p: "map_of (mapIntentInput pj env cap) ''params'' = Some (JArr (case ?sv of None \<Rightarrow> [] | Some s \<Rightarrow> [JStr s]))"
    unfolding m db_read_input_def Let_def using assms(3,4)
    by (subst merge_last; simp add: js_coalesce_def)+
  have ne: "?sv = Some s \<Longrightarrow> s \<noteq> []" for s
    by (auto simp: nonblank_str_def split: jsval.splits if_splits)
  obtain rest where rest: "buildDbReadQuery ?ds ?sv summary = ''SELECT * FROM '' @ safe_dataset ?ds @ rest"
    and sv: "\<And>s. ?sv = Some s \<Longrightarrow> rest = '' WHERE service = $1''"
    using buildDbReadQuery_shape [of ?ds ?sv summary] ne by blast
  have "list_all word_char (safe_dataset ?ds)" using safe_dataset_word by (simp add: list_all_iff)
  with q p rest sv show ?thesis by (intro exI [of _ "safe_dataset ?ds"] exI [of _ rest]) simp
qed

definition sample_db_envelope :: "string \<Rightarrow> task_envelope" where
  "sample_db_envelope s = \<lparr>te_task_id = ''t'', te_order_id = None, te_parent_task_id = None, te_context_id = None,
      te_requester = \<lparr>ri_type = User, ri_id = ''alice'', ri_tenant_id = None\<rparr>,
      te_target_agent = ''db'', te_intent = s,
      te_constraints = \<lparr>tc_common = JUndef, tc_domain = JObj [(''dataset'', JStr ''a;b'')], tc_rest = []\<rparr>,
      te_risk_class = Low, te_deadline = None, te_delegation_token = [], te_output_mode = VSummary,
      te_metadata = None, te_idempotency_token = None, te_extensions = None\<rparr>"

theorem db_read_query_shape_witness:
  "\<exists>table rest. map_of (mapIntentInput (\<lambda>_. None) (sample_db_envelope ''all'') ''db.read.orders'') ''query''
     = Some (JStr (''SELECT * FROM '' @ table @ rest)) \<and> list_all word_char table"
proof -
  have "parseIntentPayload (\<lambda>_. None) (te_intent (sample_db_envelope ''all'')) = ([], Some ''all'')"
    by (simp add: parseIntentPayload_def sample_db_envelope_def str_trim_def is_ws_def)
  from db_read_query_shape [OF _ this, of "''db.read.orders''"] show ?thesis
    by (auto simp: obj_get_def inherited_member_def inherited_names_def nullish_def)
qed

text \<open>The comment the bridge puts a request's text into can be closed from inside: removing every
  comment end once leaves a new one, so the text after it is read as SQL.\<close>

theorem sql_comment_escape:
  "map_of (mapIntentInput (\<lambda>_. None) (sample_db_envelope ''**//; DROP TABLE t; --'') ''db.read.orders'') ''query''
     = Some (JStr ''SELECT * FROM a_b /* */; DROP TABLE t; -- */'')"
  by code_simp

end
