(* ===== verification/Samples.thy ===== *)
theory Samples
  imports ProtocolTypes
begin

text \<open>Concrete protocol values at which the theorems of the components are exercised.\<close>

definition sample_requester :: requester_identity where
  "sample_requester = \<lparr>ri_type = User, ri_id = ''alice'', ri_tenant_id = Some ''acme''\<rparr>"

definition sample_result :: "string \<Rightarrow> task_status \<Rightarrow> result_package" where
  "sample_result tid s = \<lparr>rp_task_id = tid, rp_context_id = None, rp_status = s, rp_summary = None,
     rp_structured_output = [], rp_receipt_ref = None, rp_negotiated_schema_version = None, rp_requested_schema_version = None, rp_executed_schema_version = None,
     rp_negotiation = None, rp_redactions_applied = [], rp_followup_required = False,
     rp_escalation_reason = None, rp_extensions = None\<rparr>"

definition sample_receipt :: "string \<Rightarrow> string \<Rightarrow> ms \<Rightarrow> receipt" where
  "sample_receipt rid tid t = \<lparr>rc_receipt_id = rid, rc_intent_id = tid, rc_capability = ''pay'', rc_action = Executed,
      rc_timestamp = t, rc_status = Ok, rc_task_id = Some tid, rc_order_id = None,
      rc_tenant_id = Some ''acme'', rc_request_id = None, rc_agent_id = ''agent'', rc_resource_touched = None,
      rc_policy_checks = None, rc_approval_used = None, rc_result_hash = None,
      rc_requested_schema_version = None, rc_executed_schema_version = None, rc_negotiation = None,
      rc_extensions = None, rc_signature = Some ''sig''\<rparr>"

lemmas sample_simps = sample_requester_def sample_result_def sample_receipt_def

end
