(* ===== verification/TaskStore.thy ===== *)
theory TaskStore
  imports Samples
begin

text \<open>
  The task store of \<open>src/src/control-plane/task-store.ts\<close>: the transition table, the
  map of tasks with its idempotency index, the operations of the class, and its
  two persistence back ends. A store file or database is the data it parses to;
  \<open>JSON.stringify\<close> equality of two values is equality of the values.
  An operation that can throw returns the state it leaves and a sum.
\<close>

section \<open>Transitions\<close>

datatype store_error =
    TerminalTransition
  | InvalidTransition task_status task_status
  | IdempotencyExists string
  | IdempotencyImmutable
  | RequesterImmutable
  | CapabilityImmutable
  | TargetImmutable
  | ResultTaskMismatch
  | ResultStatusMismatch
  | ReceiptTaskMismatch
  | TerminalImmutable
  | TransitionNeedsPayload
  | UniqueConstraint

definition terminal_statuses :: "task_status list" where
  "terminal_statuses = [Completed, Failed, TDenied, Revoked]"

definition isTerminal :: "task_status \<Rightarrow> bool" where
  "isTerminal s \<longleftrightarrow> s \<in> set terminal_statuses"

fun task_transitions :: "task_status \<Rightarrow> task_status list" where
  "task_transitions Accepted = [Proposed, Running, Completed, Failed, TDenied, Revoked]"
| "task_transitions Proposed = [AwaitingApproval, Running, TDenied, Revoked]"
| "task_transitions AwaitingApproval = [Running, Completed, Failed, TDenied, Revoked]"
| "task_transitions Running = [Completed, Failed, Revoked]"
| "task_transitions Completed = []"
| "task_transitions Failed = []"
| "task_transitions TDenied = []"
| "task_transitions Revoked = []"

definition assertValidTransition :: "task_status \<Rightarrow> task_status \<Rightarrow> store_error option" where
  "assertValidTransition cur new =
     (if cur = new then None
      else if isTerminal cur then Some TerminalTransition
      else if new \<notin> set (task_transitions cur) then Some (InvalidTransition cur new)
      else None)"

section \<open>The store\<close>

text \<open>A back end: none, a JSON file (absent before the first write), or the \<open>tasks\<close> table.\<close>

datatype task_backend =
    InMemory
  | TaskFile "task_record list option"
  | TaskDb "(string, task_record) jmap"

record task_store =
  ts_tasks :: "(string, task_record) jmap"
  ts_idempotencyIndex :: "(string, string) jmap"
  ts_backend :: task_backend

record save_params =
  sp_task_id :: string
  sp_context_id :: "string option"
  sp_requester_identity :: requester_identity
  sp_idempotency_key :: "string option"
  sp_capability :: string
  sp_target_agent :: string
  sp_result :: result_package
  sp_receipt :: receipt

text \<open>\<open>Partial<Omit<TaskRecord, "task_id">>\<close>: \<open>None\<close> is a key the caller leaves out.\<close>

record task_updates =
  tu_context_id :: "string option"
  tu_requester_identity :: "requester_identity option"
  tu_idempotency_key :: "string option"
  tu_capability :: "string option"
  tu_target_agent :: "string option"
  tu_status :: "task_status option"
  tu_result :: "result_package option"
  tu_receipt :: "receipt option"

definition truthy_key :: "string option \<Rightarrow> string option" where
  "truthy_key k = (case k of Some [] \<Rightarrow> None | _ \<Rightarrow> k)"

text \<open>One \<open>upsert.run\<close>: a row by \<open>task_id\<close>, refused by the unique index on idempotency keys.
  The table has no column for \<open>context_id\<close>.\<close>

definition upsert_row :: "task_record \<Rightarrow> (string, task_record) jmap \<Rightarrow> (string, task_record) jmap option" where
  "upsert_row r rows =
     (if tr_idempotency_key r \<noteq> None \<and>
         list_ex (\<lambda>(k, r'). k \<noteq> tr_task_id r \<and> tr_idempotency_key r' = tr_idempotency_key r) rows
      then None
      else Some (jm_set (tr_task_id r) (r\<lparr>tr_context_id := None\<rparr>) rows))"

fun upsert_all :: "task_record list \<Rightarrow> (string, task_record) jmap \<Rightarrow> (string, task_record) jmap option" where
  "upsert_all [] rows = Some rows"
| "upsert_all (r # rs) rows =
     (case upsert_row r rows of None \<Rightarrow> None | Some rows' \<Rightarrow> upsert_all rs rows')"

definition task_list :: "task_store \<Rightarrow> task_record list" where
  "task_list st = jm_vals (ts_tasks st)"

text \<open>A failed statement rolls the transaction back and is thrown again.\<close>

definition task_persist :: "task_store \<Rightarrow> task_store \<times> (store_error + unit)" where
  "task_persist st =
     (case ts_backend st of
        InMemory \<Rightarrow> (st, Inr ())
      | TaskFile _ \<Rightarrow> (st\<lparr>ts_backend := TaskFile (Some (task_list st))\<rparr>, Inr ())
      | TaskDb rows \<Rightarrow>
          (case upsert_all (task_list st) rows of
             None \<Rightarrow> (st, Inl UniqueConstraint)
           | Some rows' \<Rightarrow> (st\<lparr>ts_backend := TaskDb rows'\<rparr>, Inr ())))"

definition index_record :: "task_record \<Rightarrow> (string, string) jmap \<Rightarrow> (string, string) jmap" where
  "index_record r idx =
     (case truthy_key (tr_idempotency_key r) of None \<Rightarrow> idx | Some k \<Rightarrow> jm_set k (tr_task_id r) idx)"

definition load_record :: "task_record \<Rightarrow> task_store \<Rightarrow> task_store" where
  "load_record r st = st\<lparr>ts_tasks := jm_set (tr_task_id r) r (ts_tasks st),
     ts_idempotencyIndex := index_record r (ts_idempotencyIndex st)\<rparr>"

definition task_hydrate :: "task_backend \<Rightarrow> task_store" where
  "task_hydrate b =
     (let empty = \<lparr>ts_tasks = [], ts_idempotencyIndex = [], ts_backend = b\<rparr> in
      case b of
        InMemory \<Rightarrow> empty
      | TaskDb rows \<Rightarrow> foldl (\<lambda>st r. load_record r st) empty (jm_vals rows)
      | TaskFile None \<Rightarrow> empty
      | TaskFile (Some rs) \<Rightarrow>
          foldl (\<lambda>st r. if tr_task_id r \<noteq> [] then load_record r st else st) empty rs)"

definition save_conflict :: "task_store \<Rightarrow> save_params \<Rightarrow> store_error option" where
  "save_conflict st p =
     (case Option.bind (jm_get (ts_tasks st) (sp_task_id p))
             (\<lambda>e. assertValidTransition (tr_status e) (rp_status (sp_result p))) of
        Some e \<Rightarrow> Some e
      | None \<Rightarrow>
          (case truthy_key (sp_idempotency_key p) of
             None \<Rightarrow> None
           | Some k \<Rightarrow>
               (case truthy_key (jm_get (ts_idempotencyIndex st) k) of
                  Some t \<Rightarrow> if t \<noteq> sp_task_id p then Some (IdempotencyExists k) else None
                | None \<Rightarrow> None)))"

definition saved_record :: "save_params \<Rightarrow> ms \<Rightarrow> task_record" where
  "saved_record p now =
     \<lparr>tr_task_id = sp_task_id p, tr_context_id = sp_context_id p,
      tr_requester = sp_requester_identity p, tr_idempotency_key = sp_idempotency_key p,
      tr_capability = sp_capability p, tr_target_agent = sp_target_agent p,
      tr_status = rp_status (sp_result p), tr_result = Some (sp_result p),
      tr_receipt = Some (sp_receipt p), tr_updated_at = now\<rparr>"

definition task_save :: "task_store \<Rightarrow> ms \<Rightarrow> save_params \<Rightarrow> task_store \<times> (store_error + task_record)" where
  "task_save st now p =
     (case save_conflict st p of
        Some e \<Rightarrow> (st, Inl e)
      | None \<Rightarrow>
          (let r = saved_record p now;
               st1 = st\<lparr>ts_tasks := jm_set (tr_task_id r) r (ts_tasks st),
                        ts_idempotencyIndex := index_record r (ts_idempotencyIndex st)\<rparr>
           in case task_persist st1 of
                (st2, Inl e) \<Rightarrow> (st2, Inl e)
              | (st2, Inr _) \<Rightarrow> (st2, Inr r)))"

definition applyHistoryLength :: "int option \<Rightarrow> task_record \<Rightarrow> task_record" where
  "applyHistoryLength h r =
     (if h = Some 0 then r\<lparr>tr_result := None, tr_receipt := None\<rparr> else r)"

definition task_get :: "task_store \<Rightarrow> string \<Rightarrow> int option \<Rightarrow> task_record option" where
  "task_get st tid h = map_option (applyHistoryLength h) (jm_get (ts_tasks st) tid)"

definition task_getByTenant :: "task_store \<Rightarrow> string \<Rightarrow> string \<Rightarrow> int option \<Rightarrow> task_record option" where
  "task_getByTenant st tid tenant h =
     (case jm_get (ts_tasks st) tid of
        None \<Rightarrow> None
      | Some r \<Rightarrow>
          if resolve_tenant (ri_tenant_id (tr_requester r)) = resolve_tenant (Some tenant)
          then Some (applyHistoryLength h r) else None)"

definition validateTransition :: "task_record \<Rightarrow> task_status \<Rightarrow> task_updates \<Rightarrow> store_error option" where
  "validateTransition e next u =
     (if tu_idempotency_key u \<noteq> None \<and> tu_idempotency_key u \<noteq> tr_idempotency_key e then Some IdempotencyImmutable
      else if tu_requester_identity u \<noteq> None \<and> tu_requester_identity u \<noteq> Some (tr_requester e) then Some RequesterImmutable
      else if tu_capability u \<noteq> None \<and> tu_capability u \<noteq> Some (tr_capability e) then Some CapabilityImmutable
      else if tu_target_agent u \<noteq> None \<and> tu_target_agent u \<noteq> Some (tr_target_agent e) then Some TargetImmutable
      else if (case tu_result u of None \<Rightarrow> False | Some x \<Rightarrow> rp_task_id x \<noteq> tr_task_id e) then Some ResultTaskMismatch
      else if (case tu_result u of None \<Rightarrow> False | Some x \<Rightarrow> rp_status x \<noteq> next) then Some ResultStatusMismatch
      else if (case tu_receipt u of None \<Rightarrow> False | Some x \<Rightarrow> rc_task_id x \<noteq> Some (tr_task_id e)) then Some ReceiptTaskMismatch
      else if tr_status e = next then
        (if \<not> isTerminal (tr_status e) then None
         else if (tu_result u \<noteq> None \<and> tu_result u \<noteq> tr_result e)
               \<or> (tu_receipt u \<noteq> None \<and> tu_receipt u \<noteq> tr_receipt e) then Some TerminalImmutable
         else None)
      else
        (case assertValidTransition (tr_status e) next of
           Some err \<Rightarrow> Some err
         | None \<Rightarrow> if tu_result u = None \<or> tu_receipt u = None then Some TransitionNeedsPayload else None))"

definition or_else :: "'a option \<Rightarrow> 'a \<Rightarrow> 'a" where
  "or_else x d = (case x of None \<Rightarrow> d | Some y \<Rightarrow> y)"

definition or_option :: "'a option \<Rightarrow> 'a option \<Rightarrow> 'a option" where
  "or_option x d = (case x of None \<Rightarrow> d | Some y \<Rightarrow> Some y)"

definition updated_record :: "task_record \<Rightarrow> task_updates \<Rightarrow> ms \<Rightarrow> task_record" where
  "updated_record e u now = e\<lparr>
     tr_context_id := or_option (tu_context_id u) (tr_context_id e),
     tr_requester := or_else (tu_requester_identity u) (tr_requester e),
     tr_idempotency_key := or_option (tu_idempotency_key u) (tr_idempotency_key e),
     tr_capability := or_else (tu_capability u) (tr_capability e),
     tr_target_agent := or_else (tu_target_agent u) (tr_target_agent e),
     tr_result := or_option (tu_result u) (tr_result e),
     tr_receipt := or_option (tu_receipt u) (tr_receipt e),
     tr_status := or_else (tu_status u) (tr_status e),
     tr_updated_at := now\<rparr>"

definition task_update :: "task_store \<Rightarrow> ms \<Rightarrow> string \<Rightarrow> task_updates
    \<Rightarrow> task_store \<times> (store_error + task_record option)" where
  "task_update st now tid u =
     (case jm_get (ts_tasks st) tid of
        None \<Rightarrow> (st, Inr None)
      | Some e \<Rightarrow>
          (case validateTransition e (or_else (tu_status u) (tr_status e)) u of
             Some err \<Rightarrow> (st, Inl err)
           | None \<Rightarrow>
               (let next = updated_record e u now in
                case task_persist (st\<lparr>ts_tasks := jm_set tid next (ts_tasks st)\<rparr>) of
                  (st2, Inl err) \<Rightarrow> (st2, Inl err)
                | (st2, Inr _) \<Rightarrow> (st2, Inr (Some next)))))"

definition task_delete :: "task_store \<Rightarrow> string \<Rightarrow> task_store \<times> (store_error + bool)" where
  "task_delete st tid =
     (case jm_get (ts_tasks st) tid of
        None \<Rightarrow> (st, Inr False)
      | Some e \<Rightarrow>
          (let st1 = st\<lparr>ts_tasks := jm_del tid (ts_tasks st),
                 ts_idempotencyIndex := (case truthy_key (tr_idempotency_key e) of
                     None \<Rightarrow> ts_idempotencyIndex st
                   | Some k \<Rightarrow> jm_del k (ts_idempotencyIndex st))\<rparr>
           in case task_persist st1 of
                (st2, Inl err) \<Rightarrow> (st2, Inl err)
              | (st2, Inr _) \<Rightarrow> (st2, Inr True)))"

definition task_list_history :: "task_store \<Rightarrow> int option \<Rightarrow> task_record list" where
  "task_list_history st h =
     (case h of None \<Rightarrow> task_list st | Some _ \<Rightarrow> map (applyHistoryLength h) (task_list st))"

definition task_listByTenant :: "task_store \<Rightarrow> int option \<Rightarrow> string \<Rightarrow> task_record list" where
  "task_listByTenant st h tenant =
     filter (\<lambda>r. resolve_tenant (ri_tenant_id (tr_requester r)) = resolve_tenant (Some tenant))
       (task_list_history st h)"

definition findByIdempotencyKey :: "task_store \<Rightarrow> string \<Rightarrow> task_record option" where
  "findByIdempotencyKey st k =
     (case truthy_key (jm_get (ts_idempotencyIndex st) k) of
        None \<Rightarrow> None | Some tid \<Rightarrow> jm_get (ts_tasks st) tid)"

definition task_listReceipts :: "task_store \<Rightarrow> string option \<Rightarrow> receipt list" where
  "task_listReceipts st tenant =
     List.map_filter tr_receipt
       (case truthy_key tenant of None \<Rightarrow> task_list st | Some t \<Rightarrow> task_listByTenant st None t)"

definition task_getReceipt :: "task_store \<Rightarrow> string \<Rightarrow> string option \<Rightarrow> receipt option" where
  "task_getReceipt st rid tenant = find (\<lambda>r. rc_receipt_id r = rid) (task_listReceipts st tenant)"

section \<open>The store as a system of operations\<close>

datatype task_op =
    TSave ms save_params
  | TUpdate ms string task_updates
  | TDelete string
  | TRestart

fun task_step :: "task_store \<Rightarrow> task_op \<Rightarrow> task_store" where
  "task_step st (TSave now p) = fst (task_save st now p)"
| "task_step st (TUpdate now tid u) = fst (task_update st now tid u)"
| "task_step st (TDelete tid) = fst (task_delete st tid)"
| "task_step st TRestart = task_hydrate (ts_backend st)"

section \<open>Invariant\<close>

definition entries_ok :: "(string, task_record) jmap \<Rightarrow> bool" where
  "entries_ok m \<longleftrightarrow> jm_wf m \<and> (\<forall>k r. jm_get m k = Some r \<longrightarrow> tr_task_id r = k \<and> k \<noteq> [])"

definition keys_unique :: "(string, task_record) jmap \<Rightarrow> bool" where
  "keys_unique m \<longleftrightarrow> (\<forall>k r k' r' x. jm_get m k = Some r \<longrightarrow> jm_get m k' = Some r' \<longrightarrow>
     truthy_key (tr_idempotency_key r) = Some x \<longrightarrow> truthy_key (tr_idempotency_key r') = Some x \<longrightarrow> k = k')"

definition idx_ok :: "(string, task_record) jmap \<Rightarrow> (string, string) jmap \<Rightarrow> bool" where
  "idx_ok m idx \<longleftrightarrow> (\<forall>k r x. jm_get m k = Some r \<longrightarrow> truthy_key (tr_idempotency_key r) = Some x \<longrightarrow>
     jm_get idx x = Some k)"

definition by_id :: "task_record list \<Rightarrow> (string, task_record) jmap" where
  "by_id rs = map (\<lambda>r. (tr_task_id r, r)) rs"

fun backend_ok :: "task_backend \<Rightarrow> bool" where
  "backend_ok InMemory = True"
| "backend_ok (TaskFile None) = True"
| "backend_ok (TaskFile (Some rs)) = (entries_ok (by_id rs) \<and> keys_unique (by_id rs))"
| "backend_ok (TaskDb rows) = (entries_ok rows \<and> keys_unique rows)"

definition task_inv :: "task_store \<Rightarrow> bool" where
  "task_inv st \<longleftrightarrow> entries_ok (ts_tasks st) \<and> idx_ok (ts_tasks st) (ts_idempotencyIndex st) \<and>
     backend_ok (ts_backend st)"

fun task_op_ok :: "task_op \<Rightarrow> bool" where
  "task_op_ok (TSave now p) = (sp_task_id p \<noteq> [])"
| "task_op_ok _ = True"

lemma truthy_key_simps [simp]:
  "truthy_key None = None"
  "truthy_key (Some x) = (if x = [] then None else Some x)"
  by (simp add: truthy_key_def) (cases x; simp add: truthy_key_def)

lemma fst_case_result [simp]:
  "fst (case x of (s, Inl e) \<Rightarrow> (s, f e) | (s, Inr y) \<Rightarrow> (s, g y)) = fst x"
  by (cases x; cases "snd x") auto

lemma truthy_key_Some: "truthy_key k = Some x \<longleftrightarrow> k = Some x \<and> x \<noteq> []"
  by (cases k) auto

lemma idx_ok_unique: "idx_ok m idx \<Longrightarrow> keys_unique m"
  unfolding idx_ok_def keys_unique_def by (metis option.inject)

lemma entries_ok_set: "entries_ok m \<Longrightarrow> tr_task_id r \<noteq> [] \<Longrightarrow> entries_ok (jm_set (tr_task_id r) r m)"
  by (auto simp: entries_ok_def jm_get_set split: if_splits)

lemma entries_ok_del: "entries_ok m \<Longrightarrow> entries_ok (jm_del k m)"
  by (auto simp: entries_ok_def jm_get_del split: if_splits)

lemma by_id_vals: "entries_ok m \<Longrightarrow> by_id (jm_vals m) = m"
proof -
  assume m: "entries_ok m"
  have "(tr_task_id (snd e), snd e) = e" if "e \<in> set m" for e
    using m that by (cases e) (auto simp: entries_ok_def jm_wf_def)
  then show ?thesis by (simp add: by_id_def jm_vals_def map_idI)
qed

lemma task_persist_frame:
  "ts_tasks (fst (task_persist st)) = ts_tasks st"
  "ts_idempotencyIndex (fst (task_persist st)) = ts_idempotencyIndex st"
  by (auto simp: task_persist_def split: task_backend.splits option.splits)

lemma upsert_row_ok:
  assumes "upsert_row r rows = Some rows'" and "entries_ok rows" and "keys_unique rows" and "tr_task_id r \<noteq> []"
  shows "entries_ok rows' \<and> keys_unique rows'"
proof -
  let ?r = "r\<lparr>tr_context_id := None\<rparr>"
  have rows': "rows' = jm_set (tr_task_id r) ?r rows"
    using assms(1) by (auto simp: upsert_row_def split: if_splits)
  have nodup: "\<And>k r' x. jm_get rows k = Some r' \<Longrightarrow> k \<noteq> tr_task_id r \<Longrightarrow> tr_idempotency_key r = Some x
      \<Longrightarrow> tr_idempotency_key r' \<noteq> Some x"
    using assms(1)
    by (auto simp: upsert_row_def list_ex_iff split: if_splits dest: map_of_SomeD)
  have "entries_ok rows'"
    using entries_ok_set [of rows ?r] assms by (simp add: rows')
  moreover have "keys_unique rows'"
    unfolding keys_unique_def rows' jm_get_set truthy_key_Some
    using assms(3) nodup
    by (auto simp: keys_unique_def truthy_key_Some split: if_splits)
  ultimately show ?thesis by blast
qed

lemma upsert_all_ok:
  "upsert_all rs rows = Some rows' \<Longrightarrow> entries_ok rows \<Longrightarrow> keys_unique rows \<Longrightarrow>
   (\<And>r. r \<in> set rs \<Longrightarrow> tr_task_id r \<noteq> []) \<Longrightarrow> entries_ok rows' \<and> keys_unique rows'"
proof (induction rs arbitrary: rows)
  case (Cons r rs)
  then obtain rows1 where "upsert_row r rows = Some rows1" "upsert_all rs rows1 = Some rows'"
    by (auto split: option.splits)
  moreover from this have "entries_ok rows1 \<and> keys_unique rows1"
    using upsert_row_ok Cons.prems by (metis list.set_intros(1))
  ultimately show ?case using Cons.IH Cons.prems by simp
qed simp

lemma task_list_ids: "entries_ok (ts_tasks st) \<Longrightarrow> r \<in> set (task_list st) \<Longrightarrow> tr_task_id r \<noteq> []"
  by (auto simp: entries_ok_def task_list_def jm_vals_get)

lemma task_persist_inv:
  assumes "entries_ok (ts_tasks st)" and "idx_ok (ts_tasks st) (ts_idempotencyIndex st)"
    and "backend_ok (ts_backend st)"
  shows "task_inv (fst (task_persist st))"
proof -
  have "backend_ok (ts_backend (fst (task_persist st)))"
    using assms(3)
  proof (cases "ts_backend st")
    case (TaskFile f)
    then show ?thesis
      using assms idx_ok_unique by (simp add: task_persist_def task_list_def by_id_vals)
  next
    case (TaskDb rows)
    then show ?thesis
      using assms upsert_all_ok task_list_ids
      by (fastforce simp: task_persist_def split: option.splits)
  qed (simp add: task_persist_def)
  with assms show ?thesis by (simp add: task_inv_def task_persist_frame)
qed

lemma idx_ok_save:
  assumes "idx_ok m idx"
    and "\<And>k q x. jm_get m k = Some q \<Longrightarrow> truthy_key (tr_idempotency_key q) = Some x \<Longrightarrow>
           truthy_key (tr_idempotency_key r) = Some x \<Longrightarrow> k = tr_task_id r"
  shows "idx_ok (jm_set (tr_task_id r) r m) (index_record r idx)"
  unfolding idx_ok_def
proof (intro allI impI)
  fix k q x
  assume k: "jm_get (jm_set (tr_task_id r) r m) k = Some q" and x: "truthy_key (tr_idempotency_key q) = Some x"
  show "jm_get (index_record r idx) x = Some k"
  proof (cases "k = tr_task_id r")
    case True
    with k x show ?thesis by (simp add: jm_get_set index_record_def)
  next
    case False
    then have m: "jm_get m k = Some q" using k by (simp add: jm_get_set)
    then have "jm_get idx x = Some k" using assms(1) x by (auto simp: idx_ok_def)
    then show ?thesis
      using assms(2) [OF m x] False
      by (auto simp: index_record_def jm_get_set split: option.split)
  qed
qed

lemma save_conflict_None:
  assumes "save_conflict st p = None" and "truthy_key (sp_idempotency_key p) = Some x"
    and "jm_get (ts_idempotencyIndex st) x = Some k" and "k \<noteq> []"
  shows "k = sp_task_id p"
  using assms by (auto simp: save_conflict_def truthy_key_Some split: option.splits if_splits)

lemma task_save_inv:
  assumes "task_inv st" and "sp_task_id p \<noteq> []"
  shows "task_inv (fst (task_save st now p))"
proof (cases "save_conflict st p")
  case None
  let ?r = "saved_record p now"
  let ?st = "st\<lparr>ts_tasks := jm_set (tr_task_id ?r) ?r (ts_tasks st),
                ts_idempotencyIndex := index_record ?r (ts_idempotencyIndex st)\<rparr>"
  have id: "tr_task_id ?r = sp_task_id p" and key: "tr_idempotency_key ?r = sp_idempotency_key p"
    by (simp_all add: saved_record_def)
  have "idx_ok (jm_set (tr_task_id ?r) ?r (ts_tasks st)) (index_record ?r (ts_idempotencyIndex st))"
  proof (rule idx_ok_save)
    fix k q x
    assume k: "jm_get (ts_tasks st) k = Some q" "truthy_key (tr_idempotency_key q) = Some x"
      "truthy_key (tr_idempotency_key ?r) = Some x"
    then have "jm_get (ts_idempotencyIndex st) x = Some k" "k \<noteq> []"
      using assms(1) by (auto simp: task_inv_def idx_ok_def entries_ok_def)
    with save_conflict_None [OF None] k(3) show "k = tr_task_id ?r" by (simp add: id key)
  qed (use assms in \<open>simp add: task_inv_def\<close>)
  then have "idx_ok (ts_tasks ?st) (ts_idempotencyIndex ?st)" by simp
  moreover have "entries_ok (ts_tasks ?st)"
    using assms entries_ok_set [of "ts_tasks st" ?r] by (simp add: task_inv_def id)
  ultimately have "task_inv (fst (task_persist ?st))"
    using assms by (intro task_persist_inv) (simp_all add: task_inv_def)
  then show ?thesis using None by (simp add: task_save_def Let_def)
qed (use assms in \<open>simp add: task_save_def\<close>)

lemma updated_frame:
  assumes "validateTransition e nx u = None"
  shows "tr_idempotency_key (updated_record e u now) = tr_idempotency_key e"
    and "tr_requester (updated_record e u now) = tr_requester e"
    and "tr_capability (updated_record e u now) = tr_capability e"
    and "tr_target_agent (updated_record e u now) = tr_target_agent e"
    and "tr_task_id (updated_record e u now) = tr_task_id e"
  using assms
  by (auto simp: validateTransition_def updated_record_def or_option_def or_else_def
        split: if_splits option.splits)

lemma task_update_inv:
  assumes "task_inv st"
  shows "task_inv (fst (task_update st now tid u))"
proof (cases "jm_get (ts_tasks st) tid")
  case (Some e)
  show ?thesis
  proof (cases "validateTransition e (or_else (tu_status u) (tr_status e)) u")
    case None
    let ?r = "updated_record e u now"
    let ?st = "st\<lparr>ts_tasks := jm_set tid ?r (ts_tasks st)\<rparr>"
    note fr = updated_frame [OF None, of now]
    have tid: "tr_task_id e = tid" "tid \<noteq> []" using assms Some by (auto simp: task_inv_def entries_ok_def)
    have "entries_ok (ts_tasks ?st)"
      using entries_ok_set [of "ts_tasks st" ?r] assms tid by (simp add: fr task_inv_def)
    moreover have "idx_ok (ts_tasks ?st) (ts_idempotencyIndex ?st)"
      using assms Some by (auto simp: task_inv_def idx_ok_def jm_get_set fr)
    ultimately have "task_inv (fst (task_persist ?st))"
      using assms by (intro task_persist_inv) (simp_all add: task_inv_def)
    then show ?thesis using Some None by (simp add: task_update_def Let_def)
  qed (use assms Some in \<open>simp add: task_update_def\<close>)
qed (use assms in \<open>simp add: task_update_def\<close>)

lemma task_delete_inv:
  assumes "task_inv st"
  shows "task_inv (fst (task_delete st tid))"
proof (cases "jm_get (ts_tasks st) tid")
  case (Some e)
  let ?st = "st\<lparr>ts_tasks := jm_del tid (ts_tasks st),
     ts_idempotencyIndex := (case truthy_key (tr_idempotency_key e) of
       None \<Rightarrow> ts_idempotencyIndex st | Some k \<Rightarrow> jm_del k (ts_idempotencyIndex st))\<rparr>"
  have "keys_unique (ts_tasks st)" using assms idx_ok_unique by (auto simp: task_inv_def)
  then have "idx_ok (ts_tasks ?st) (ts_idempotencyIndex ?st)"
    using assms Some
    by (auto simp: task_inv_def idx_ok_def keys_unique_def jm_get_del split: option.splits)
  then have "task_inv (fst (task_persist ?st))"
    using assms by (intro task_persist_inv) (simp_all add: task_inv_def entries_ok_del)
  then show ?thesis using Some by (simp add: task_delete_def Let_def)
qed (use assms in \<open>simp add: task_delete_def\<close>)

section \<open>Restart\<close>

lemma load_all:
  assumes "entries_ok m" and "keys_unique m"
    and "st0 = \<lparr>ts_tasks = [], ts_idempotencyIndex = [], ts_backend = b\<rparr>"
  shows "ts_tasks (foldl (\<lambda>st r. load_record r st) st0 (jm_vals m)) = m \<and>
    idx_ok m (ts_idempotencyIndex (foldl (\<lambda>st r. load_record r st) st0 (jm_vals m))) \<and>
    ts_backend (foldl (\<lambda>st r. load_record r st) st0 (jm_vals m)) = b"
  using assms(1,2)
proof (induction m rule: rev_induct)
  case Nil
  then show ?case by (simp add: assms(3) jm_vals_def idx_ok_def)
next
  case (snoc e m)
  obtain k r where e: "e = (k, r)" by (cases e)
  have fresh: "jm_get m k = None"
    using snoc.prems by (auto simp: e entries_ok_def jm_wf_def map_of_eq_None_iff)
  have get: "jm_get (m @ [e]) k' = (if k' = k then Some r else jm_get m k')" for k'
    using fresh by (simp add: e map_add_def split: option.split)
  have kid: "tr_task_id r = k"
    using snoc.prems(1) get by (auto simp: entries_ok_def)
  have sub: "jm_get (m @ [e]) k' = Some q" if "jm_get m k' = Some q" for k' q
    using get fresh that by auto
  have "jm_wf m" using snoc.prems(1) by (simp add: entries_ok_def jm_wf_def)
  then have m: "entries_ok m" "keys_unique m"
    using snoc.prems sub unfolding entries_ok_def keys_unique_def by blast+
  let ?s = "foldl (\<lambda>st r. load_record r st) st0 (jm_vals m)"
  have IH: "ts_tasks ?s = m" "idx_ok m (ts_idempotencyIndex ?s)" "ts_backend ?s = b"
    using snoc.IH m by auto
  have "idx_ok (jm_set (tr_task_id r) r m) (index_record r (ts_idempotencyIndex ?s))"
  proof (rule idx_ok_save [OF IH(2)])
    fix k' q x
    assume k': "jm_get m k' = Some q" "truthy_key (tr_idempotency_key q) = Some x"
      "truthy_key (tr_idempotency_key r) = Some x"
    then have "jm_get (m @ [e]) k' = Some q" using get fresh by auto
    moreover have "jm_get (m @ [e]) k = Some r" by (subst get) simp
    ultimately show "k' = tr_task_id r"
      using snoc.prems(2) k'(2,3) unfolding keys_unique_def kid by blast
  qed
  then show ?case
    using IH by (simp add: jm_vals_def e load_record_def kid jm_set_new [OF fresh])
qed

lemma hydrate_file:
  assumes "entries_ok (by_id rs)" and "keys_unique (by_id rs)"
  shows "ts_tasks (task_hydrate (TaskFile (Some rs))) = by_id rs \<and>
    idx_ok (by_id rs) (ts_idempotencyIndex (task_hydrate (TaskFile (Some rs)))) \<and>
    ts_backend (task_hydrate (TaskFile (Some rs))) = TaskFile (Some rs)"
proof -
  have ne: "tr_task_id r \<noteq> []" if "r \<in> set rs" for r
  proof -
    have "(tr_task_id r, r) \<in> set (by_id rs)" using that by (simp add: by_id_def)
    moreover have "distinct (map fst (by_id rs))" using assms(1) by (simp add: entries_ok_def jm_wf_def)
    ultimately have "jm_get (by_id rs) (tr_task_id r) = Some r" by (rule map_of_is_SomeI [rotated])
    then show ?thesis using assms(1) unfolding entries_ok_def by blast
  qed
  have "foldl (\<lambda>st r. if tr_task_id r \<noteq> [] then load_record r st else st) st0 rs
      = foldl (\<lambda>st r. load_record r st) st0 rs" for st0
    by (rule foldl_cong) (use ne in auto)
  moreover have "jm_vals (by_id rs) = rs"
    by (simp add: jm_vals_def by_id_def comp_def)
  ultimately show ?thesis
    using load_all [OF assms refl, of "TaskFile (Some rs)"] by (simp add: task_hydrate_def Let_def)
qed

lemma task_hydrate_inv: "backend_ok b \<Longrightarrow> task_inv (task_hydrate b)"
proof (cases b)
  case (TaskFile f)
  assume "backend_ok b"
  with TaskFile show ?thesis
    using hydrate_file
    by (cases f) (auto simp: task_inv_def, simp_all add: task_hydrate_def entries_ok_def idx_ok_def)
next
  case (TaskDb rows)
  assume "backend_ok b"
  with TaskDb show ?thesis
    using load_all [OF _ _ refl, of rows "TaskDb rows"] by (simp add: task_inv_def task_hydrate_def)
qed (simp add: task_hydrate_def task_inv_def entries_ok_def idx_ok_def)

lemma task_step_inv:
  assumes "task_inv st" and "task_op_ok e"
  shows "task_inv (task_step st e)"
proof (cases e)
  case TRestart
  with assms show ?thesis by (simp add: task_hydrate_inv task_inv_def [of st])
qed (use assms in \<open>simp_all add: task_save_inv task_update_inv task_delete_inv\<close>)

interpretation task_sys: invariant_system task_step task_op_ok task_inv
  by unfold_locales (rule task_step_inv)

interpretation task_tenants: tenant_partition "\<lambda>st. task_list_history st h" "\<lambda>st. task_listByTenant st h"
  "\<lambda>r. ri_tenant_id (tr_requester r)" for h
  by unfold_locales (simp add: task_listByTenant_def)

section \<open>Status along a run\<close>

fun no_delete :: "task_op \<Rightarrow> bool" where
  "no_delete (TSave _ _) = True"
| "no_delete (TUpdate _ _ _) = True"
| "no_delete _ = False"

definition status_of :: "string \<Rightarrow> task_store \<Rightarrow> task_status option" where
  "status_of tid st = map_option tr_status (jm_get (ts_tasks st) tid)"

definition transition_rel :: "(task_status \<times> task_status) set" where
  "transition_rel = {(a, b). b \<in> set (task_transitions a)}"

lemma assertValid_None: "assertValidTransition a b = None \<Longrightarrow> a = b \<or> (a, b) \<in> transition_rel"
  by (auto simp: assertValidTransition_def transition_rel_def split: if_splits)

lemma status_step:
  assumes "no_delete e" and "status_of tid st = Some a"
  shows "\<exists>b. status_of tid (task_step st e) = Some b \<and> (a = b \<or> (a, b) \<in> transition_rel)"
proof (cases e)
  case (TSave now p)
  show ?thesis
  proof (cases "save_conflict st p")
    case None
    have "sp_task_id p = tid \<Longrightarrow> assertValidTransition a (rp_status (sp_result p)) = None"
      using None assms(2) by (auto simp: save_conflict_def status_of_def split: option.splits)
    then show ?thesis
      using assms(2) None assertValid_None
      by (auto simp: TSave status_of_def task_save_def Let_def task_persist_frame jm_get_set saved_record_def)
  qed (use assms in \<open>simp add: TSave task_save_def\<close>)
next
  case (TUpdate now t u)
  show ?thesis
  proof (cases "jm_get (ts_tasks st) t")
    case (Some r)
    show ?thesis
    proof (cases "validateTransition r (or_else (tu_status u) (tr_status r)) u")
      case None
      then have "tr_status r = or_else (tu_status u) (tr_status r)
          \<or> (tr_status r, or_else (tu_status u) (tr_status r)) \<in> transition_rel"
        using assertValid_None by (auto simp: validateTransition_def split: if_splits option.splits)
      then show ?thesis
        using assms(2) Some None
        by (auto simp: TUpdate status_of_def task_update_def Let_def task_persist_frame jm_get_set updated_record_def)
    qed (use assms Some in \<open>simp add: TUpdate task_update_def\<close>)
  qed (use assms in \<open>simp add: TUpdate task_update_def\<close>)
qed (use assms in auto)

lemma status_run:
  "list_all no_delete es \<Longrightarrow> status_of tid st = Some a \<Longrightarrow>
   \<exists>b. status_of tid (foldl task_step st es) = Some b \<and> (a, b) \<in> transition_rel\<^sup>*"
proof (induction es arbitrary: st a)
  case (Cons e es)
  then obtain b where "status_of tid (task_step st e) = Some b" "a = b \<or> (a, b) \<in> transition_rel"
    using status_step by fastforce
  moreover from this Cons obtain c where "status_of tid (foldl task_step (task_step st e) es) = Some c"
    "(b, c) \<in> transition_rel\<^sup>*"
    by fastforce
  ultimately show ?case by (auto intro: converse_rtrancl_into_rtrancl)
qed simp

text \<open>A status change climbs this order.\<close>

fun status_rank :: "task_status \<Rightarrow> nat" where
  "status_rank Accepted = 0"
| "status_rank Proposed = 1"
| "status_rank AwaitingApproval = 2"
| "status_rank Running = 3"
| "status_rank _ = 4"

lemma transition_climbs: "(a, b) \<in> transition_rel \<Longrightarrow> status_rank a < status_rank b"
  by (cases a) (auto simp: transition_rel_def)

lemma transitions_climb: "(a, b) \<in> transition_rel\<^sup>* \<Longrightarrow> a = b \<or> status_rank a < status_rank b"
  by (induction rule: rtrancl_induct) (auto dest: transition_climbs)

definition terminal_status :: "string \<Rightarrow> task_store \<Rightarrow> task_status option" where
  "terminal_status tid st = (case status_of tid st of
     Some s \<Rightarrow> if isTerminal s then Some s else None | None \<Rightarrow> None)"

lemma terminal_no_transition: "isTerminal a \<Longrightarrow> (a, b) \<notin> transition_rel"
  by (cases a) (auto simp: isTerminal_def terminal_statuses_def transition_rel_def)

interpretation task_terminal: stable_system task_step no_delete "terminal_status tid" for tid
proof unfold_locales
  fix st e s
  assume "terminal_status tid st = Some s" and ok: "no_delete e"
  then have "status_of tid st = Some s" "isTerminal s"
    by (auto simp: terminal_status_def split: option.splits if_splits)
  then show "terminal_status tid (task_step st e) = Some s"
    using status_step [OF ok] terminal_no_transition by (fastforce simp: terminal_status_def)
qed

text \<open>Under \<open>update\<close> alone the result and the receipt of a terminal task are fixed too.\<close>

fun is_update :: "task_op \<Rightarrow> bool" where
  "is_update (TUpdate _ _ _) = True"
| "is_update _ = False"

definition terminal_payload :: "string \<Rightarrow> task_store \<Rightarrow> (task_status \<times> result_package option \<times> receipt option) option" where
  "terminal_payload tid st = (case jm_get (ts_tasks st) tid of
     Some r \<Rightarrow> if isTerminal (tr_status r) then Some (tr_status r, tr_result r, tr_receipt r) else None
   | None \<Rightarrow> None)"

lemma terminal_update:
  assumes "isTerminal (tr_status e)" and "validateTransition e (or_else (tu_status u) (tr_status e)) u = None"
  shows "tr_status (updated_record e u now) = tr_status e \<and> tr_result (updated_record e u now) = tr_result e \<and>
    tr_receipt (updated_record e u now) = tr_receipt e"
proof -
  have "tr_status e = or_else (tu_status u) (tr_status e)"
    using assms by (auto simp: validateTransition_def assertValidTransition_def split: if_splits option.splits)
  moreover from this have "tu_result u = None \<or> tu_result u = tr_result e" "tu_receipt u = None \<or> tu_receipt u = tr_receipt e"
    using assms by (auto simp: validateTransition_def split: if_splits)
  ultimately show ?thesis by (auto simp: updated_record_def or_option_def split: option.splits)
qed

interpretation task_payload: stable_system task_step is_update "terminal_payload tid" for tid
proof unfold_locales
  fix st e x
  assume x: "terminal_payload tid st = Some x" and "is_update e"
  then obtain now t u where e: "e = TUpdate now t u" by (cases e) auto
  from x obtain r where r: "jm_get (ts_tasks st) tid = Some r" "isTerminal (tr_status r)"
    "x = (tr_status r, tr_result r, tr_receipt r)"
    by (auto simp: terminal_payload_def split: option.splits if_splits)
  show "terminal_payload tid (task_step st e) = Some x"
    using r x terminal_update [OF r(2), of u now]
    by (auto simp: e task_update_def Let_def terminal_payload_def task_persist_frame jm_get_set split: option.splits)
qed

section \<open>Properties\<close>

definition empty_store :: "task_backend \<Rightarrow> task_store" where
  "empty_store b = \<lparr>ts_tasks = [], ts_idempotencyIndex = [], ts_backend = b\<rparr>"

definition sample_save :: "string \<Rightarrow> string option \<Rightarrow> task_status \<Rightarrow> save_params" where
  "sample_save tid key s = \<lparr>sp_task_id = tid, sp_context_id = None, sp_requester_identity = sample_requester,
     sp_idempotency_key = key, sp_capability = ''pay'', sp_target_agent = ''agent'',
     sp_result = sample_result tid s, sp_receipt = sample_receipt (''r-'' @ tid) tid 0\<rparr>"

definition sample_update :: "string \<Rightarrow> task_status \<Rightarrow> task_updates" where
  "sample_update tid s = \<lparr>tu_context_id = None, tu_requester_identity = None, tu_idempotency_key = None,
     tu_capability = None, tu_target_agent = None, tu_status = Some s,
     tu_result = Some (sample_result tid s), tu_receipt = Some (sample_receipt (''u-'' @ tid) tid 1)\<rparr>"

lemmas task_eval = task_save_def task_update_def task_delete_def save_conflict_def saved_record_def
  task_persist_def empty_store_def sample_save_def sample_update_def sample_simps validateTransition_def
  assertValidTransition_def isTerminal_def terminal_statuses_def updated_record_def or_else_def or_option_def
  index_record_def task_list_def jm_vals_def Let_def

lemma task_store_empty_inv: "backend_ok b \<Longrightarrow> task_inv (empty_store b)"
  by (simp add: task_inv_def empty_store_def entries_ok_def idx_ok_def)

text \<open>C2: a task in a terminal status keeps it through every sequence of saves and updates,
  rejected ones included; through updates alone its result and receipt are fixed as well.\<close>

theorem terminal_tasks_immutable:
  assumes "jm_get (ts_tasks st) tid = Some r" and "isTerminal (tr_status r)" and "list_all no_delete es"
  shows "\<exists>r'. jm_get (ts_tasks (foldl task_step st es)) tid = Some r' \<and> tr_status r' = tr_status r \<and>
    (list_all is_update es \<longrightarrow> tr_result r' = tr_result r \<and> tr_receipt r' = tr_receipt r)"
proof -
  have "terminal_status tid (foldl task_step st es) = Some (tr_status r)"
    using assms by (intro task_terminal.run_stable) (simp_all add: terminal_status_def status_of_def)
  then obtain r' where r': "jm_get (ts_tasks (foldl task_step st es)) tid = Some r'" "tr_status r' = tr_status r"
    by (auto simp: terminal_status_def status_of_def split: option.splits if_splits)
  moreover have "tr_result r' = tr_result r \<and> tr_receipt r' = tr_receipt r" if "list_all is_update es"
    using task_payload.run_stable [OF _ that, of tid st "(tr_status r, tr_result r, tr_receipt r)"] assms r'
    by (simp add: terminal_payload_def)
  ultimately show ?thesis by blast
qed

theorem terminal_tasks_immutable_witness:
  "\<exists>r'. jm_get (ts_tasks (foldl task_step (fst (task_save (empty_store InMemory) 0 (sample_save ''t'' None Revoked)))
      [TSave 1 (sample_save ''t'' None Completed), TUpdate 2 ''t'' (sample_update ''t'' Running)])) ''t'' = Some r'
     \<and> tr_status r' = Revoked"
proof -
  let ?st = "fst (task_save (empty_store InMemory) 0 (sample_save ''t'' None Revoked))"
  let ?r = "saved_record (sample_save ''t'' None Revoked) 0"
  have "jm_get (ts_tasks ?st) ''t'' = Some ?r" "isTerminal (tr_status ?r)" "tr_status ?r = Revoked"
    by (simp_all add: task_eval)
  with terminal_tasks_immutable [of ?st "''t''" ?r "[TSave 1 (sample_save ''t'' None Completed),
      TUpdate 2 ''t'' (sample_update ''t'' Running)]"]
  show ?thesis by (simp del: foldl_Cons)
qed



text \<open>listings and lookups for a tenant show exactly the records whose requester belongs to
  it, whatever history length is asked for; two tenants never see a common record.\<close>

theorem tasks_tenant_isolated:
  assumes "t \<noteq> []" and "u \<noteq> []" and "resolve_tenant (Some t) \<noteq> resolve_tenant (Some u)"
  shows "set (task_listByTenant st h t) \<inter> set (task_listByTenant st h u) = {} \<and>
    (task_getByTenant st tid t h \<noteq> None \<longrightarrow> task_getByTenant st tid u h = None) \<and>
    (\<forall>r \<in> set (task_listByTenant st h t). resolve_tenant (ri_tenant_id (tr_requester r)) = resolve_tenant (Some t)) \<and>
    (\<forall>r. task_get st tid h = Some r \<longrightarrow> task_getByTenant st tid t h =
        (if resolve_tenant (ri_tenant_id (tr_requester r)) = resolve_tenant (Some t) then Some r else None))"
  using assms task_tenants.disjoint_tenants [OF assms, where s = st]
    task_tenants.visible_owned [OF assms(1), where s = st]
  by (auto simp: task_getByTenant_def task_get_def applyHistoryLength_def split: option.splits if_splits)

theorem tasks_tenant_isolated_witness:
  "set (task_listByTenant (fst (task_save (empty_store InMemory) 0 (sample_save ''t'' None Accepted))) None ''acme'') \<inter>
   set (task_listByTenant (fst (task_save (empty_store InMemory) 0 (sample_save ''t'' None Accepted))) None ''other'') = {}"
  by (rule conjunct1 [OF tasks_tenant_isolated]) (simp_all add: resolve_tenant_def str_trim_def is_ws_def)

text \<open>C25: over any history of saves (of non-empty task ids), updates, deletions and restarts from a
  sound back end, a non-empty idempotency key belongs to at most one stored task, and looking it up
  finds that task.\<close>

theorem idempotency_key_unique:
  assumes "backend_ok b" and "list_all task_op_ok es" and "st = foldl task_step (task_hydrate b) es"
    and "jm_get (ts_tasks st) k = Some r" and "tr_idempotency_key r = Some x" and "x \<noteq> []"
  shows "findByIdempotencyKey st x = Some r \<and>
    (\<forall>k' r'. jm_get (ts_tasks st) k' = Some r' \<longrightarrow> tr_idempotency_key r' = Some x \<longrightarrow> k' = k)"
proof -
  have inv: "task_inv st"
    unfolding assms(3) by (rule task_sys.run_inv [OF task_hydrate_inv [OF assms(1)] assms(2)])
  then have "jm_get (ts_idempotencyIndex st) x = Some k" "k \<noteq> []"
    using assms(4-6) by (auto simp: task_inv_def idx_ok_def entries_ok_def)
  moreover have "keys_unique (ts_tasks st)" using inv idx_ok_unique by (auto simp: task_inv_def)
  ultimately show ?thesis
    using assms(4-6) by (auto simp: findByIdempotencyKey_def keys_unique_def)
qed

theorem idempotency_key_unique_witness:
  "\<exists>r. findByIdempotencyKey (foldl task_step (task_hydrate InMemory)
      [TSave 0 (sample_save ''t'' (Some ''k'') Accepted), TSave 1 (sample_save ''s'' (Some ''k'') Accepted)]) ''k'' = Some r
     \<and> tr_task_id r = ''t''"
proof -
  let ?es = "[TSave 0 (sample_save ''t'' (Some ''k'') Accepted), TSave 1 (sample_save ''s'' (Some ''k'') Accepted)]"
  let ?r = "saved_record (sample_save ''t'' (Some ''k'') Accepted) 0"
  have "jm_get (ts_tasks (foldl task_step (task_hydrate InMemory) ?es)) ''t'' = Some ?r"
    by (simp add: task_eval task_hydrate_def)
  moreover have "list_all task_op_ok ?es" "tr_idempotency_key ?r = Some ''k''" "tr_task_id ?r = ''t''"
    by (simp_all add: sample_save_def saved_record_def)
  ultimately show ?thesis
    using idempotency_key_unique [of InMemory ?es _ "''t''" ?r "''k''"] by auto
qed

text \<open>with a file back end, a restart after an operation that wrote the file brings back every
  task record as it was, and lookups by idempotency key with them.\<close>

theorem file_restart_roundtrip:
  assumes "task_inv st" and "ts_backend st = TaskFile f" and "sp_task_id p \<noteq> []"
    and "task_save st now p = (st', Inr r)"
  shows "ts_tasks (task_hydrate (ts_backend st')) = ts_tasks st' \<and>
    (\<forall>x k r. jm_get (ts_tasks st') k = Some r \<longrightarrow> tr_idempotency_key r = Some x \<longrightarrow> x \<noteq> [] \<longrightarrow>
       findByIdempotencyKey (task_hydrate (ts_backend st')) x = Some r)"
proof -
  have st': "task_inv st'" using task_save_inv [OF assms(1,3), of now] assms(4) by simp
  then have ok: "entries_ok (ts_tasks st')" "keys_unique (ts_tasks st')"
    using idx_ok_unique by (auto simp: task_inv_def)
  have bk: "ts_backend st' = TaskFile (Some (task_list st'))"
    using assms(2,4)
    by (auto simp: task_save_def Let_def task_persist_def task_list_def split: option.splits)
  have byid: "by_id (task_list st') = ts_tasks st'"
    using by_id_vals ok by (simp add: task_list_def)
  have "ts_tasks (task_hydrate (ts_backend st')) = ts_tasks st'"
    and "idx_ok (ts_tasks st') (ts_idempotencyIndex (task_hydrate (ts_backend st')))"
    using hydrate_file [of "task_list st'"] ok by (simp_all add: bk byid)
  with ok show ?thesis
    by (auto simp: findByIdempotencyKey_def idx_ok_def entries_ok_def)
qed

theorem file_restart_roundtrip_witness:
  "\<exists>st' :: task_store. ts_tasks st' \<noteq> [] \<and> ts_tasks (task_hydrate (ts_backend st')) = ts_tasks st'"
proof -
  let ?p = "sample_save ''t'' (Some ''k'') Accepted"
  obtain st r where st: "task_save (empty_store (TaskFile None)) 0 ?p = (st, Inr r)" "ts_tasks st \<noteq> []"
    by (simp add: task_eval)
  have "sp_task_id ?p \<noteq> []" "ts_backend (empty_store (TaskFile None)) = TaskFile None"
    by (simp_all add: sample_save_def empty_store_def)
  from file_restart_roundtrip [OF task_store_empty_inv this(2) this(1) st(1)]
  have "ts_tasks (task_hydrate (ts_backend st)) = ts_tasks st" by simp
  with st(2) show ?thesis by blast
qed

text \<open>With the database back end a deletion is not durable: the row stays in the table, so
  the task that \<open>delete\<close> reported gone is back, without its context id, after a restart.\<close>

theorem db_delete_not_durable:
  assumes "task_save (empty_store (TaskDb [])) now p = (st1, Inr r)" and "sp_task_id p \<noteq> []"
    and "task_delete st1 (sp_task_id p) = (st2, Inr True)"
  shows "task_get st2 (sp_task_id p) None = None \<and>
    task_get (task_hydrate (ts_backend st2)) (sp_task_id p) None =
      Some ((saved_record p now)\<lparr>tr_context_id := None\<rparr>)"
  using assms
  by (auto simp: task_save_def empty_store_def save_conflict_def task_persist_def task_list_def jm_vals_def Let_def
      upsert_row_def task_delete_def task_get_def applyHistoryLength_def task_hydrate_def load_record_def
      saved_record_def split: option.splits if_splits)

theorem db_delete_not_durable_witness:
  "\<exists>st2. task_get st2 ''t'' None = None \<and> task_get (task_hydrate (ts_backend st2)) ''t'' None \<noteq> None"
proof -
  let ?p = "sample_save ''t'' None Accepted"
  let ?st1 = "fst (task_save (empty_store (TaskDb [])) 0 ?p)"
  let ?st2 = "fst (task_delete ?st1 ''t'')"
  have p: "sp_task_id ?p = ''t''" by (simp add: sample_save_def)
  have "task_save (empty_store (TaskDb [])) 0 ?p = (?st1, Inr (saved_record ?p 0))"
    and "task_delete ?st1 ''t'' = (?st2, Inr True)"
    by (simp_all add: task_eval upsert_row_def)
  then show ?thesis
    using db_delete_not_durable [of 0 ?p ?st1 "saved_record ?p 0" ?st2] p by auto
qed

end
