(* ===== verification/ReceiptStore.thy ===== *)
theory ReceiptStore
  imports Samples "HOL-Library.Product_Lexorder" "HOL-Library.List_Lexorder" "HOL-Library.Char_ord"
begin

text \<open>
  The receipt store of \<open>src/src/control-plane/receipt-store.ts\<close>: an append-only map of
  receipts with its insertion order, tenant-scoped reads, the integrity report
  and the two back ends. As in the task store, a file or a table is the data it
  parses to, and equal \<open>JSON.stringify\<close> texts are equal values. The
  \<open>timestamp\<close> column sorts as the instants do (ISO texts of four-digit years).
\<close>

datatype receipt_backend =
    RcMemory
  | RcFile "receipt list option"
  | RcDb "(string, receipt) jmap"

record receipt_store =
  rs_receipts :: "(string, receipt) jmap"
  rs_order :: "string list"
  rs_backend :: receipt_backend

datatype receipt_store_error = ReceiptConflict string

definition rc_nonempty :: "string option \<Rightarrow> string option" where
  "rc_nonempty t = (case t of None \<Rightarrow> None | Some s \<Rightarrow> if s = [] then None else Some s)"

definition receipt_list_all :: "receipt_store \<Rightarrow> receipt list" where
  "receipt_list_all st = List.map_filter (jm_get (rs_receipts st)) (rs_order st)"

definition receipt_list :: "receipt_store \<Rightarrow> string option \<Rightarrow> receipt list" where
  "receipt_list st tenant =
     (case rc_nonempty tenant of
        None \<Rightarrow> receipt_list_all st
      | Some t \<Rightarrow> filter (\<lambda>r. resolve_tenant (rc_tenant_id r) = resolve_tenant (Some t)) (receipt_list_all st))"

definition receipt_listByTenant :: "receipt_store \<Rightarrow> string \<Rightarrow> receipt list" where
  "receipt_listByTenant st t = receipt_list st (Some t)"

text \<open>The database keeps a row it already has (\<open>INSERT OR IGNORE\<close>) and is given the newest receipt only.\<close>

definition receipt_persist :: "receipt_store \<Rightarrow> receipt_store" where
  "receipt_persist st =
     (case rs_backend st of
        RcMemory \<Rightarrow> st
      | RcFile _ \<Rightarrow> st\<lparr>rs_backend := RcFile (Some (receipt_list_all st))\<rparr>
      | RcDb rows \<Rightarrow>
          (case rs_order st of
             [] \<Rightarrow> st
           | _ \<Rightarrow>
             (let newest = last (rs_order st) in
              if newest = [] then st
              else case jm_get (rs_receipts st) newest of
                     None \<Rightarrow> st
                   | Some r \<Rightarrow> if jm_has rows (rc_receipt_id r) then st
                               else st\<lparr>rs_backend := RcDb (rows @ [(rc_receipt_id r, r)])\<rparr>)))"

definition receipt_append :: "receipt_store \<Rightarrow> receipt \<Rightarrow> receipt_store \<times> (receipt_store_error + unit)" where
  "receipt_append st r =
     (case jm_get (rs_receipts st) (rc_receipt_id r) of
        Some e \<Rightarrow> if e \<noteq> r then (st, Inl (ReceiptConflict (rc_receipt_id r))) else (st, Inr ())
      | None \<Rightarrow>
          (receipt_persist (st\<lparr>rs_receipts := jm_set (rc_receipt_id r) r (rs_receipts st),
                              rs_order := rs_order st @ [rc_receipt_id r]\<rparr>), Inr ()))"

definition receipt_get :: "receipt_store \<Rightarrow> string \<Rightarrow> string option \<Rightarrow> receipt option" where
  "receipt_get st rid tenant =
     (case jm_get (rs_receipts st) rid of
        None \<Rightarrow> None
      | Some r \<Rightarrow>
          (case rc_nonempty tenant of
             None \<Rightarrow> Some r
           | Some t \<Rightarrow> if resolve_tenant (rc_tenant_id r) \<noteq> resolve_tenant (Some t) then None else Some r))"

definition load_receipt :: "string \<times> receipt \<Rightarrow> receipt_store \<Rightarrow> receipt_store" where
  "load_receipt e st = st\<lparr>rs_receipts := jm_set (fst e) (snd e) (rs_receipts st), rs_order := rs_order st @ [fst e]\<rparr>"

definition receipt_hydrate :: "receipt_backend \<Rightarrow> receipt_store" where
  "receipt_hydrate b =
     (let empty = \<lparr>rs_receipts = [], rs_order = [], rs_backend = b\<rparr> in
      case b of
        RcMemory \<Rightarrow> empty
      | RcDb rows \<Rightarrow> foldl (\<lambda>st e. load_receipt e st) empty (sort_key (\<lambda>(k, r). (rc_timestamp r, k)) rows)
      | RcFile None \<Rightarrow> empty
      | RcFile (Some rs) \<Rightarrow>
          foldl (\<lambda>st r. if rc_receipt_id r \<noteq> [] \<and> \<not> jm_has (rs_receipts st) (rc_receipt_id r)
                        then load_receipt (rc_receipt_id r, r) st else st) empty rs)"

datatype receipt_fault =
    MissingReceiptId nat
  | MissingSignature string
  | MissingTaskId string
  | OutOfOrder string string

text \<open>The checks on the receipt at index \<open>i\<close>; \<open>p\<close> is the receipt before it.\<close>

definition receipt_faults :: "nat \<Rightarrow> receipt option \<Rightarrow> receipt \<Rightarrow> receipt_fault list" where
  "receipt_faults i p r =
     (if rc_receipt_id r = [] then [MissingReceiptId i]
      else (if rc_nonempty (rc_signature r) = None then [MissingSignature (rc_receipt_id r)] else [])
         @ (if rc_nonempty (rc_task_id r) = None then [MissingTaskId (rc_receipt_id r)] else [])
         @ (case p of None \<Rightarrow> []
            | Some q \<Rightarrow> if rc_timestamp r < rc_timestamp q
                        then [OutOfOrder (rc_receipt_id r) (rc_receipt_id q)] else []))"

fun receipts_faults :: "nat \<Rightarrow> receipt option \<Rightarrow> receipt list \<Rightarrow> receipt_fault list" where
  "receipts_faults i p [] = []"
| "receipts_faults i p (r # rs) = receipt_faults i p r @ receipts_faults (Suc i) (Some r) rs"

record integrity_report =
  ir_valid :: bool
  ir_total :: nat
  ir_errors :: "receipt_fault list"

definition verifyReceiptIntegrity :: "receipt_store \<Rightarrow> integrity_report" where
  "verifyReceiptIntegrity st =
     (let rs = receipt_list st None; errors = receipts_faults 0 None rs
      in \<lparr>ir_valid = (errors = []), ir_total = length rs, ir_errors = errors\<rparr>)"

section \<open>Invariant\<close>

datatype receipt_op = RAppend receipt | RRestart

fun receipt_step :: "receipt_store \<Rightarrow> receipt_op \<Rightarrow> receipt_store" where
  "receipt_step st (RAppend r) = fst (receipt_append st r)"
| "receipt_step st RRestart = receipt_hydrate (rs_backend st)"

fun is_append :: "receipt_op \<Rightarrow> bool" where
  "is_append (RAppend _) = True"
| "is_append RRestart = False"

text \<open>The order lists each stored id once, and a receipt is stored under its own id.\<close>

definition receipts_ok :: "receipt_store \<Rightarrow> bool" where
  "receipts_ok st \<longleftrightarrow> rs_order st = map fst (rs_receipts st) \<and> distinct (map fst (rs_receipts st)) \<and>
     (\<forall>(k, r) \<in> set (rs_receipts st). rc_receipt_id r = k)"

lemma rc_nonempty_simps [simp]:
  "rc_nonempty None = None"
  "t \<noteq> [] \<Longrightarrow> rc_nonempty (Some t) = Some t"
  "rc_nonempty (Some []) = None"
  by (simp_all add: rc_nonempty_def)

lemma receipt_persist_frame [simp]:
  "rs_receipts (receipt_persist st) = rs_receipts st"
  "rs_order (receipt_persist st) = rs_order st"
  by (auto simp: receipt_persist_def Let_def split: receipt_backend.splits list.splits option.splits)

lemma map_filter_all: "distinct (map fst m) \<Longrightarrow> List.map_filter (jm_get m) (map fst m) = map snd m"
proof -
  assume d: "distinct (map fst m)"
  have "List.map_filter (jm_get m) (map fst m') = map snd m'" if "set m' \<subseteq> set m" for m'
    using that
  proof (induction m')
    case (Cons e m')
    then have "jm_get m (fst e) = Some (snd e)" using d by simp
    with Cons show ?case by (simp add: List.map_filter_simps)
  qed (simp add: List.map_filter_simps)
  then show ?thesis by simp
qed

lemma receipt_list_vals: "receipts_ok st \<Longrightarrow> receipt_list_all st = map snd (rs_receipts st)"
  by (metis map_filter_all receipts_ok_def receipt_list_all_def)

lemma receipt_append_cases:
  "receipt_append st r =
     (case jm_get (rs_receipts st) (rc_receipt_id r) of
        Some e \<Rightarrow> (st, if e = r then Inr () else Inl (ReceiptConflict (rc_receipt_id r)))
      | None \<Rightarrow> (receipt_persist (load_receipt (rc_receipt_id r, r) st), Inr ()))"
  by (auto simp: receipt_append_def load_receipt_def split: option.split)

lemma load_fresh:
  "receipts_ok st \<Longrightarrow> jm_get (rs_receipts st) k = None \<Longrightarrow> rc_receipt_id r = k \<Longrightarrow>
   receipts_ok (load_receipt (k, r) st) \<and> rs_receipts (load_receipt (k, r) st) = rs_receipts st @ [(k, r)]"
  by (auto simp: receipts_ok_def load_receipt_def jm_set_new map_of_eq_None_iff)

lemma append_fresh:
  assumes "receipts_ok st" and "jm_get (rs_receipts st) (rc_receipt_id r) = None"
  shows "receipts_ok (fst (receipt_append st r)) \<and>
    rs_receipts (fst (receipt_append st r)) = rs_receipts st @ [(rc_receipt_id r, r)]"
proof -
  have "receipts_ok (receipt_persist s) = receipts_ok s" for s by (simp add: receipts_ok_def)
  then show ?thesis using load_fresh [OF assms refl] assms by (simp add: receipt_append_cases)
qed

lemma append_ok: "receipts_ok st \<Longrightarrow> receipts_ok (fst (receipt_append st r))"
  using append_fresh by (cases "jm_get (rs_receipts st) (rc_receipt_id r)") (auto simp: receipt_append_cases)

interpretation receipt_sys: invariant_system receipt_step is_append receipts_ok
proof unfold_locales
  fix st :: receipt_store and e
  assume "receipts_ok st" "is_append e"
  then show "receipts_ok (receipt_step st e)" by (cases e) (simp_all add: append_ok)
qed

interpretation receipt_tenants: tenant_partition receipt_list_all receipt_listByTenant rc_tenant_id
  by unfold_locales (simp add: receipt_listByTenant_def receipt_list_def)

interpretation receipt_log: stable_system receipt_step is_append "\<lambda>st. jm_get (rs_receipts st) rid" for rid
proof unfold_locales
  fix st :: receipt_store and e r
  assume "jm_get (rs_receipts st) rid = Some r" "is_append e"
  then show "jm_get (rs_receipts (receipt_step st e)) rid = Some r"
    by (cases e) (auto simp: receipt_append_def jm_get_set split: option.split)
qed

lemma append_prefix:
  assumes "receipts_ok st"
  shows "prefix (receipt_list_all st) (receipt_list_all (fst (receipt_append st r)))"
proof (cases "jm_get (rs_receipts st) (rc_receipt_id r)")
  case None
  with append_fresh [OF assms] show ?thesis
    by (simp add: receipt_list_vals assms)
qed (simp add: receipt_append_cases)

lemma run_prefix:
  "receipts_ok st \<Longrightarrow> list_all is_append es \<Longrightarrow>
   prefix (receipt_list_all st) (receipt_list_all (foldl receipt_step st es))"
proof (induction es arbitrary: st)
  case (Cons e es)
  then obtain r where e: "e = RAppend r" by (cases e) auto
  have "receipts_ok (receipt_step st e)" using Cons.prems by (simp add: e append_ok)
  with Cons have "prefix (receipt_list_all (receipt_step st e)) (receipt_list_all (foldl receipt_step (receipt_step st e) es))"
    by simp
  moreover have "prefix (receipt_list_all st) (receipt_list_all (receipt_step st e))"
    using append_prefix Cons.prems by (simp add: e)
  ultimately show ?case by (metis foldl_Cons prefix_order.order_trans)
qed simp

text \<open>Chronological order of adjacent receipts is order of all.\<close>

lemma no_faults:
  "receipts_faults i p rs = [] \<longleftrightarrow>
   (\<forall>r \<in> set rs. rc_receipt_id r \<noteq> [] \<and> rc_nonempty (rc_signature r) \<noteq> None \<and> rc_nonempty (rc_task_id r) \<noteq> None)
   \<and> sorted (map rc_timestamp (case p of None \<Rightarrow> rs | Some q \<Rightarrow> q # rs))"
proof (induction i p rs rule: receipts_faults.induct)
  case (1 i p)
  then show ?case by (cases p) auto
next
  case (2 i p r rs)
  then show ?case
    by (cases p) (auto simp: receipt_faults_def sorted2 simp del: sorted_wrt.simps(2))
qed

section \<open>Restart\<close>

lemma load_all_receipts:
  "receipts_ok (foldl (\<lambda>st e. load_receipt e st) st es) \<and>
   rs_receipts (foldl (\<lambda>st e. load_receipt e st) st es) = rs_receipts st @ es"
  if "receipts_ok st" and "distinct (map fst (rs_receipts st @ es))"
    and "\<forall>(k, r) \<in> set es. rc_receipt_id r = k"
  using that
proof (induction es arbitrary: st)
  case (Cons e es)
  obtain k r where e: "e = (k, r)" by (cases e)
  have "jm_get (rs_receipts st) k = None"
    using Cons.prems(2) by (auto simp: e map_of_eq_None_iff)
  then have "receipts_ok (load_receipt e st)" "rs_receipts (load_receipt e st) = rs_receipts st @ [e]"
    using load_fresh [OF Cons.prems(1)] Cons.prems(3) by (auto simp: e)
  then show ?case using Cons by simp
qed simp

lemma hydrate_rows:
  assumes "distinct (map fst rows)" and "\<forall>(k, r) \<in> set rows. rc_receipt_id r = k"
  shows "receipts_ok (receipt_hydrate (RcDb rows)) \<and>
    receipt_list_all (receipt_hydrate (RcDb rows)) = map snd (sort_key (\<lambda>(k, r). (rc_timestamp r, k)) rows)"
proof -
  let ?rows = "sort_key (\<lambda>(k, r). (rc_timestamp r, k)) rows"
  let ?e = "\<lparr>rs_receipts = [], rs_order = [], rs_backend = RcDb rows\<rparr>"
  have "distinct (map fst ?rows)" using assms(1) by (simp add: distinct_map)
  then have "receipts_ok (foldl (\<lambda>st e. load_receipt e st) ?e ?rows) \<and>
     rs_receipts (foldl (\<lambda>st e. load_receipt e st) ?e ?rows) = ?rows"
    using load_all_receipts [of ?e ?rows] assms(2) by (simp add: receipts_ok_def)
  then show ?thesis by (simp add: receipt_hydrate_def receipt_list_vals)
qed

lemma hydrate_receipt_file:
  assumes "distinct (map rc_receipt_id rs)" and "[] \<notin> set (map rc_receipt_id rs)"
  shows "receipt_list_all (receipt_hydrate (RcFile (Some rs))) = rs"
proof -
  let ?f = "\<lambda>st r. if rc_receipt_id r \<noteq> [] \<and> \<not> jm_has (rs_receipts st) (rc_receipt_id r)
                        then load_receipt (rc_receipt_id r, r) st else st"
  have "receipts_ok (foldl ?f \<lparr>rs_receipts = [], rs_order = [], rs_backend = b\<rparr> rs) \<and>
      rs_receipts (foldl ?f \<lparr>rs_receipts = [], rs_order = [], rs_backend = b\<rparr> rs) = map (\<lambda>r. (rc_receipt_id r, r)) rs" for b
    using assms
  proof (induction rs rule: rev_induct)
    case Nil
    then show ?case by (simp add: receipts_ok_def)
  next
    case (snoc r rs)
    let ?s = "foldl ?f \<lparr>rs_receipts = [], rs_order = [], rs_backend = b\<rparr> rs"
    have IH: "receipts_ok ?s" "rs_receipts ?s = map (\<lambda>r. (rc_receipt_id r, r)) rs" using snoc by auto
    then have new: "jm_get (rs_receipts ?s) (rc_receipt_id r) = None"
      using snoc.prems(1) by (auto simp: map_of_eq_None_iff)
    from load_fresh [OF IH(1) new refl] show ?case
      using snoc.prems(2) IH(2) new by (auto simp: jm_has_def)
  qed
  then show ?thesis by (simp add: receipt_hydrate_def receipt_list_vals comp_def)
qed

lemma sorted_fst: "sorted (ps :: (int \<times> string) list) \<Longrightarrow> sorted (map fst ps)"
  by (induction ps) (auto simp: less_eq_prod_def less_le)

lemma find_filter_vals:
  "jm_wf m \<Longrightarrow> \<forall>(k, r) \<in> set m. rc_receipt_id r = k \<Longrightarrow>
   find (\<lambda>r. rc_receipt_id r = rid) (filter P (map snd m)) =
   (case jm_get m rid of None \<Rightarrow> None | Some r \<Rightarrow> if P r then Some r else None)"
proof (induction m)
  case (Cons e m)
  obtain k r where e: "e = (k, r)" by (cases e)
  have k: "rc_receipt_id r = k" and wf: "jm_wf m" "\<forall>(k, r) \<in> set m. rc_receipt_id r = k" "jm_get m k = None"
    using Cons.prems by (simp_all add: e jm_wf_def map_of_eq_None_iff)
  show ?case
    using Cons.IH [OF wf(1,2)] wf(3) by (cases "rid = k") (simp_all add: e k)
qed simp

lemma get_is_listed:
  assumes "receipts_ok st" and "t \<noteq> []"
  shows "receipt_get st rid (Some t) = find (\<lambda>r. rc_receipt_id r = rid) (receipt_listByTenant st t)"
proof -
  have "jm_wf (rs_receipts st)" "\<forall>(k, r) \<in> set (rs_receipts st). rc_receipt_id r = k"
    using assms(1) by (simp_all add: receipts_ok_def jm_wf_def)
  from find_filter_vals [OF this] show ?thesis
    using assms
    by (simp add: receipt_listByTenant_def receipt_list_def receipt_list_vals receipt_get_def split: option.split)
qed

section \<open>Properties\<close>

definition empty_receipts :: "receipt_backend \<Rightarrow> receipt_store" where
  "empty_receipts b = \<lparr>rs_receipts = [], rs_order = [], rs_backend = b\<rparr>"

lemma empty_receipts_ok: "receipts_ok (empty_receipts b)"
  by (simp add: receipts_ok_def empty_receipts_def)

text \<open>C4: the log only grows: after any sequence of appends the earlier listing is a prefix of the
  later one and every stored receipt reads the same; an append of a different receipt under a stored
  id is refused and changes nothing.\<close>

theorem receipts_append_only:
  assumes "receipts_ok st" and "list_all is_append es"
  shows "prefix (receipt_list st None) (receipt_list (foldl receipt_step st es) None) \<and>
    (\<forall>rid r. receipt_get st rid None = Some r \<longrightarrow> receipt_get (foldl receipt_step st es) rid None = Some r) \<and>
    (\<forall>r r'. receipt_get st (rc_receipt_id r) None = Some r' \<longrightarrow> r' \<noteq> r \<longrightarrow>
       receipt_append st r = (st, Inl (ReceiptConflict (rc_receipt_id r))))"
proof -
  have "jm_get (rs_receipts (foldl receipt_step st es)) rid = Some r"
    if "jm_get (rs_receipts st) rid = Some r" for rid r
    using receipt_log.run_stable [OF that assms(2)] .
  then show ?thesis
    using run_prefix [OF assms]
    by (auto simp: receipt_list_def receipt_get_def receipt_append_def split: option.split)
qed

theorem receipts_append_only_witness:
  "prefix [sample_receipt ''a'' ''t'' 1]
     (receipt_list (foldl receipt_step (fst (receipt_append (empty_receipts RcMemory) (sample_receipt ''a'' ''t'' 1)))
        [RAppend (sample_receipt ''b'' ''t'' 2), RAppend (sample_receipt ''a'' ''s'' 3)]) None)"
proof -
  let ?st = "fst (receipt_append (empty_receipts RcMemory) (sample_receipt ''a'' ''t'' 1))"
  have "receipts_ok ?st" by (intro append_ok empty_receipts_ok)
  moreover have "receipt_list ?st None = [sample_receipt ''a'' ''t'' 1]"
    by (simp add: receipt_append_def empty_receipts_def receipt_list_def receipt_list_all_def
          List.map_filter_simps sample_receipt_def)
  ultimately show ?thesis
    using receipts_append_only [of ?st "[RAppend (sample_receipt ''b'' ''t'' 2), RAppend (sample_receipt ''a'' ''s'' 3)]"]
    by simp
qed

text \<open>Reads for a non-empty tenant are partitioned: a listing holds exactly that tenant's receipts,
  in log order, two tenants share none, and \<open>get\<close> finds a receipt for a tenant exactly when the
  listing shows it; a read with no tenant or the empty one sees every receipt.\<close>

theorem receipts_tenant_isolated:
  assumes "receipts_ok st" and "t \<noteq> []" and "u \<noteq> []" and "resolve_tenant (Some t) \<noteq> resolve_tenant (Some u)"
  shows "set (receipt_listByTenant st t) \<inter> set (receipt_listByTenant st u) = {} \<and>
    (\<forall>r \<in> set (receipt_listByTenant st t). resolve_tenant (rc_tenant_id r) = resolve_tenant (Some t)) \<and>
    (\<forall>rid. receipt_get st rid (Some t) = find (\<lambda>r. rc_receipt_id r = rid) (receipt_listByTenant st t)) \<and>
    receipt_list st (Some []) = receipt_list st None"
  using receipt_tenants.disjoint_tenants [OF assms(2-4), of st]
    receipt_tenants.visible_owned [OF assms(2), of _ st] get_is_listed [OF assms(1,2)]
  by (simp add: receipt_list_def)

theorem receipts_tenant_isolated_witness:
  "set (receipt_listByTenant (fst (receipt_append (empty_receipts RcMemory) (sample_receipt ''a'' ''t'' 1))) ''acme'') \<inter>
   set (receipt_listByTenant (fst (receipt_append (empty_receipts RcMemory) (sample_receipt ''a'' ''t'' 1))) ''evil'') = {}"
  by (rule conjunct1 [OF receipts_tenant_isolated])
     (simp_all add: append_ok empty_receipts_ok resolve_tenant_def str_trim_def is_ws_def)

text \<open>The integrity report is valid exactly when every receipt has an id, a signature and a task
  id and the whole log is in chronological order.\<close>

theorem integrity_report_exact:
  "ir_valid (verifyReceiptIntegrity st) \<longleftrightarrow>
     sorted (map rc_timestamp (receipt_list st None)) \<and>
     list_all (\<lambda>r. rc_receipt_id r \<noteq> [] \<and> rc_nonempty (rc_signature r) \<noteq> None \<and> rc_nonempty (rc_task_id r) \<noteq> None)
       (receipt_list st None)"
  by (auto simp: verifyReceiptIntegrity_def Let_def no_faults list_all_iff)

text \<open>A restart on a database of consistent rows reads every receipt back, in chronological
  order whatever the order they were appended in; a restart on a written file keeps the log as it was.\<close>

theorem receipts_restart:
  assumes "distinct (map fst rows)" and "\<forall>(k, r) \<in> set rows. rc_receipt_id r = k"
    and "distinct (map rc_receipt_id rs)" and "[] \<notin> set (map rc_receipt_id rs)"
  shows "set (receipt_list (receipt_hydrate (RcDb rows)) None) = snd ` set rows \<and>
    sorted (map rc_timestamp (receipt_list (receipt_hydrate (RcDb rows)) None)) \<and>
    receipt_list (receipt_hydrate (RcFile (Some rs))) None = rs"
proof -
  let ?k = "\<lambda>(k, r). (rc_timestamp r, k)"
  have "sorted (map ?k (sort_key ?k rows))" by (rule sorted_sort_key)
  then have "sorted (map rc_timestamp (map snd (sort_key ?k rows)))"
    using sorted_fst by (fastforce simp: comp_def case_prod_unfold)
  then show ?thesis
    using hydrate_rows [OF assms(1,2)] hydrate_receipt_file [OF assms(3,4)] by (simp add: receipt_list_def)
qed

theorem receipts_restart_witness:
  "receipt_list (receipt_hydrate (RcFile (Some [sample_receipt ''a'' ''t'' 2, sample_receipt ''b'' ''t'' 1]))) None
     = [sample_receipt ''a'' ''t'' 2, sample_receipt ''b'' ''t'' 1]"
  using receipts_restart [of "[(''a'', sample_receipt ''a'' ''t'' 2), (''b'', sample_receipt ''b'' ''t'' 1)]"
      "[sample_receipt ''a'' ''t'' 2, sample_receipt ''b'' ''t'' 1]"]
  by (simp add: sample_receipt_def)

end
