(* ===== verification/AsyncQueue.thy ===== *)
theory AsyncQueue
  imports Prelude "HOL-Library.Word" "HOL-Library.Multiset"
begin

text \<open>
  The in-process job queue of \<open>src/src/control-plane/async-queue.ts\<close>. The state
  holds the fields of the class and what the event loop holds for it: the jobs
  whose \<open>run()\<close> is awaited (\<open>q_active\<close>), the armed retry timers with their delays
  (\<open>q_timers\<close>), the scheduled microtasks (\<open>q_kicks\<close>) and the records \<open>onDeadLetter\<close>
  callbacks were called with (\<open>q_notified\<close>). An event of the loop (a call, a
  microtask, a settled promise, a timer) is one step.

  \<open>finishJob\<close>, \<open>maybeRunJobs\<close> and \<open>startJob\<close> call each other; \<open>run_calls\<close> is their
  mutual recursion with the call stack made explicit. Settings are integers, the
  jitter a rational; the random word and the clock are arguments, and whether a
  dead-letter callback returns is part of the event.
\<close>

section \<open>Data\<close>

record dead_letter =
  dl_task_id :: string
  dl_tenant_id :: "string option"
  dl_attempts :: int
  dl_error :: string
  dl_timestamp :: ms

record quarantined_job =
  qn_jobId :: string
  qn_taskId :: string
  qn_tenantId :: "string option"
  qn_reason :: string
  qn_quarantinedAt :: ms

datatype outbox_event = TaskCompleted | TaskFailed | TaskDeadLettered | WebhookCallback

datatype outbox_payload = CompletedPayload string "string option" | DeadLetterPayload dead_letter

record outbox_message =
  ob_id :: string
  ob_task_id :: string
  ob_event_type :: outbox_event
  ob_payload :: outbox_payload
  ob_created_at :: ms
  ob_delivered :: bool
  ob_delivery_attempts :: nat

record queue_job =
  qj_taskId :: string
  qj_tenantId :: "string option"
  qj_attempt :: int
  qj_idempotencyToken :: "string option"

record queue_options =
  qo_maxAttempts :: "int option"
  qo_retryDelayMs :: "int option"
  qo_maxRetryDelayMs :: "int option"
  qo_retryJitterRatio :: "rat option"
  qo_maxConcurrent :: "int option"
  qo_maxConcurrentPerTenant :: "int option"
  qo_maxQueueDepth :: "int option"
  qo_maxDeadLetters :: "int option"

record queue_config =
  qc_maxAttempts :: int
  qc_retryDelayMs :: int
  qc_maxRetryDelayMs :: int
  qc_retryJitterRatio :: rat
  qc_maxConcurrent :: nat
  qc_maxConcurrentPerTenant :: "nat option"
  qc_maxQueueDepth :: nat
  qc_maxDeadLetters :: nat

record task_queue =
  q_config :: queue_config
  q_queue :: "queue_job list"
  q_deadLetters :: "dead_letter list"
  q_leasedJobs :: "(string, ms) jmap"
  q_quarantinedJobs :: "quarantined_job list"
  q_outbox :: "outbox_message list"
  q_completedEffects :: "string list"
  q_deadLetterCallbacks :: "(string, queue_job) jmap"
  q_processing :: bool
  q_inflight :: nat
  q_inflightByTenant :: "(string, nat) jmap"
  q_pendingRetry :: int
  q_tenantQuota :: "(string, nat) jmap"
  q_running :: bool
  q_active :: "queue_job list"
  q_timers :: "(queue_job \<times> string \<times> int) list"
  q_notified :: "dead_letter list"
  q_kicks :: nat

definition lease_timeout_ms :: ms where "lease_timeout_ms = 30000"

definition default_tenant_quota :: nat where "default_tenant_quota = 10"

section \<open>Construction\<close>

text \<open>A finite ratio is clamped to the unit interval (an infinite or NaN one becomes 0).\<close>

definition clampJitterRatio :: "rat \<Rightarrow> rat" where
  "clampJitterRatio v = (if v < 0 then 0 else if v > 1 then 1 else v)"

definition at_least_one :: "int option \<Rightarrow> int \<Rightarrow> int" where
  "at_least_one v d = max 1 (case v of None \<Rightarrow> d | Some x \<Rightarrow> x)"

definition queue_settings :: "queue_options \<Rightarrow> queue_config" where
  "queue_settings opts =
     (let delay = at_least_one (qo_retryDelayMs opts) 50 in
      \<lparr>qc_maxAttempts = at_least_one (qo_maxAttempts opts) 3,
       qc_retryDelayMs = delay,
       qc_maxRetryDelayMs = max delay (case qo_maxRetryDelayMs opts of None \<Rightarrow> 5000 | Some x \<Rightarrow> x),
       qc_retryJitterRatio = clampJitterRatio (case qo_retryJitterRatio opts of None \<Rightarrow> 1/5 | Some x \<Rightarrow> x),
       qc_maxConcurrent = nat (at_least_one (qo_maxConcurrent opts) 4),
       qc_maxConcurrentPerTenant = map_option (\<lambda>x. nat (max 1 x)) (qo_maxConcurrentPerTenant opts),
       qc_maxQueueDepth = nat (at_least_one (qo_maxQueueDepth opts) 1000),
       qc_maxDeadLetters = nat (at_least_one (qo_maxDeadLetters opts) 500)\<rparr>)"

text \<open>\<open>persisted\<close>: the records the dead-letter file parses to, empty when there is none.\<close>

definition new_queue :: "queue_options \<Rightarrow> dead_letter list \<Rightarrow> task_queue" where
  "new_queue opts persisted =
     (let c = queue_settings opts in
      \<lparr>q_config = c, q_queue = [], q_deadLetters = keep_last (qc_maxDeadLetters c) persisted,
       q_leasedJobs = [], q_quarantinedJobs = [], q_outbox = [], q_completedEffects = [],
       q_deadLetterCallbacks = [], q_processing = False, q_inflight = 0, q_inflightByTenant = [],
       q_pendingRetry = 0, q_tenantQuota = [], q_running = True, q_active = [], q_timers = [], q_notified = [],
       q_kicks = 0\<rparr>)"

section \<open>Running jobs\<close>

definition resolveTenantKey :: "string option \<Rightarrow> string" where
  "resolveTenantKey t = resolve_tenant t"

definition job_key :: "queue_job \<Rightarrow> string" where
  "job_key j = resolveTenantKey (qj_tenantId j)"

definition effect_id :: "queue_job \<Rightarrow> string" where
  "effect_id j = (case qj_idempotencyToken j of Some t \<Rightarrow> t | None \<Rightarrow> ''effect:'' @ qj_taskId j)"

definition tenant_inflight :: "task_queue \<Rightarrow> string \<Rightarrow> nat" where
  "tenant_inflight s k = (case jm_get (q_inflightByTenant s) k of None \<Rightarrow> 0 | Some n \<Rightarrow> n)"

definition tenant_max :: "task_queue \<Rightarrow> string \<Rightarrow> nat" where
  "tenant_max s k =
     (case jm_get (q_tenantQuota s) k of
        Some n \<Rightarrow> n
      | None \<Rightarrow> (case qc_maxConcurrentPerTenant (q_config s) of Some n \<Rightarrow> n | None \<Rightarrow> default_tenant_quota))"

fun first_index :: "('a \<Rightarrow> bool) \<Rightarrow> 'a list \<Rightarrow> nat option" where
  "first_index P [] = None"
| "first_index P (x # xs) = (if P x then Some 0 else map_option Suc (first_index P xs))"

definition runnable :: "task_queue \<Rightarrow> queue_job \<Rightarrow> bool" where
  "runnable s j \<longleftrightarrow> \<not> tenant_inflight s (job_key j) \<ge> tenant_max s (job_key j)"

definition findRunnableJobIndex :: "task_queue \<Rightarrow> nat option" where
  "findRunnableJobIndex s = first_index (runnable s) (q_queue s)"

text \<open>The counters \<open>finishJob\<close> changes before it calls \<open>maybeRunJobs\<close>.\<close>

definition finish_counts :: "string \<Rightarrow> string \<Rightarrow> task_queue \<Rightarrow> task_queue" where
  "finish_counts key tid s =
     s\<lparr>q_inflight := q_inflight s - 1,
       q_inflightByTenant :=
         (if tenant_inflight s key \<le> 1 then jm_del key (q_inflightByTenant s)
          else jm_set key (tenant_inflight s key - 1) (q_inflightByTenant s)),
       q_leasedJobs := (if tid \<noteq> [] then jm_del tid (q_leasedJobs s) else q_leasedJobs s)\<rparr>"

definition expired_leases :: "ms \<Rightarrow> task_queue \<Rightarrow> string list" where
  "expired_leases now s = map fst (filter (\<lambda>(t, since). now - since > lease_timeout_ms) (q_leasedJobs s))"

definition release_lease :: "string \<Rightarrow> task_queue \<Rightarrow> task_queue" where
  "release_lease t s = s\<lparr>q_leasedJobs := jm_del t (q_leasedJobs s), q_inflight := q_inflight s - 1\<rparr>"

definition reapExpiredLeases :: "ms \<Rightarrow> task_queue \<Rightarrow> task_queue" where
  "reapExpiredLeases now s =
     (let expired = expired_leases now s;
          s1 = foldl (\<lambda>st t. release_lease t st) s expired
      in if expired \<noteq> [] \<and> q_queue s1 = [] \<and> q_inflight s1 = 0 then s1\<lparr>q_processing := False\<rparr> else s1)"

text \<open>The end of the loop in \<open>maybeRunJobs\<close>.\<close>

definition loop_exit :: "task_queue \<Rightarrow> task_queue" where
  "loop_exit s = (if q_queue s = [] \<and> q_inflight s = 0 then s\<lparr>q_processing := False\<rparr> else s)"

definition drop_index :: "nat \<Rightarrow> 'a list \<Rightarrow> 'a list" where
  "drop_index i xs = take i xs @ drop (Suc i) xs"

text \<open>\<open>startJob\<close> up to its guard: the counters and the lease.\<close>

definition begin_job :: "ms \<Rightarrow> queue_job \<Rightarrow> task_queue \<Rightarrow> task_queue" where
  "begin_job now j s =
     s\<lparr>q_inflight := q_inflight s + 1,
       q_inflightByTenant := jm_set (job_key j) (tenant_inflight s (job_key j) + 1) (q_inflightByTenant s),
       q_leasedJobs := jm_set (qj_taskId j) now (q_leasedJobs s)\<rparr>"

definition markEffectComplete :: "string \<Rightarrow> task_queue \<Rightarrow> task_queue \<times> bool" where
  "markEffectComplete e s =
     (if e \<in> set (q_completedEffects s) then (s, False)
      else (s\<lparr>q_completedEffects := q_completedEffects s @ [e]\<rparr>, True))"

text \<open>\<open>job.run()\<close> was called and its promise is awaited.\<close>

definition await_job :: "queue_job \<Rightarrow> task_queue \<Rightarrow> task_queue" where
  "await_job j s = s\<lparr>q_active := q_active s @ [j]\<rparr>"

datatype call = MaybeRunJobs | RunLoop | FinishJob string string

fun call_weight :: "call \<Rightarrow> nat" where
  "call_weight RunLoop = 1"
| "call_weight MaybeRunJobs = 2"
| "call_weight (FinishJob _ _) = 3"

lemma first_index_bound: "first_index P xs = Some i \<Longrightarrow> i < length xs \<and> P (xs ! i)"
  by (induction xs arbitrary: i) (auto split: if_splits)

lemma first_index_least: "first_index P xs = Some i \<Longrightarrow> j < i \<Longrightarrow> \<not> P (xs ! j)"
proof (induction xs arbitrary: i j)
  case (Cons x xs)
  then show ?case by (cases j) (auto split: if_splits)
qed simp

lemma first_index_None: "first_index P xs = None \<longleftrightarrow> (\<forall>x \<in> set xs. \<not> P x)"
  by (induction xs) auto

lemma drop_index_length: "i < length xs \<Longrightarrow> length (drop_index i xs) = length xs - 1"
  by (simp add: drop_index_def)

lemma finish_counts_queue [simp]: "q_queue (finish_counts key tid s) = q_queue s"
  by (simp add: finish_counts_def)

lemma reap_fold_queue:
  "q_queue (foldl (\<lambda>st t. release_lease t st) s ts) = q_queue s"
  by (induction ts arbitrary: s) (auto simp: release_lease_def)

lemma reap_queue [simp]: "q_queue (reapExpiredLeases now s) = q_queue s"
  by (simp add: reapExpiredLeases_def Let_def reap_fold_queue)

lemma loop_exit_queue [simp]: "q_queue (loop_exit s) = q_queue s"
  by (simp add: loop_exit_def)

function run_calls :: "ms \<Rightarrow> task_queue \<Rightarrow> call list \<Rightarrow> task_queue" where
  "run_calls now s [] = s"
| "run_calls now s (FinishJob key tid # cs) = run_calls now (finish_counts key tid s) (MaybeRunJobs # cs)"
| "run_calls now s (MaybeRunJobs # cs) = run_calls now (reapExpiredLeases now s) (RunLoop # cs)"
| "run_calls now s (RunLoop # cs) =
     (if q_inflight s < qc_maxConcurrent (q_config s) then
        (case findRunnableJobIndex s of
           None \<Rightarrow> run_calls now (loop_exit s) cs
         | Some i \<Rightarrow>
             (let j = q_queue s ! i;
                  s1 = begin_job now j (s\<lparr>q_queue := drop_index i (q_queue s)\<rparr>)
              in case markEffectComplete (effect_id j) s1 of
                   (s2, False) \<Rightarrow>
                     run_calls now s2 (FinishJob (job_key j) (qj_taskId j) # FinishJob (job_key j) (qj_taskId j) # RunLoop # cs)
                 | (s2, True) \<Rightarrow> run_calls now (await_job j s2) (RunLoop # cs)))
      else run_calls now (loop_exit s) cs)"
  by pat_completeness auto
termination
  by (relation "measures [\<lambda>(now, s, cs). length (q_queue s), \<lambda>(now, s, cs). sum_list (map call_weight cs)]")
     (auto simp: findRunnableJobIndex_def begin_job_def markEffectComplete_def await_job_def drop_index_length
       dest: first_index_bound split: if_splits)

definition maybeRunJobs :: "ms \<Rightarrow> task_queue \<Rightarrow> task_queue" where
  "maybeRunJobs now s = run_calls now s [MaybeRunJobs]"

definition finishJob :: "ms \<Rightarrow> string \<Rightarrow> string \<Rightarrow> task_queue \<Rightarrow> task_queue" where
  "finishJob now key tid s = run_calls now s [FinishJob key tid]"

definition startJob :: "ms \<Rightarrow> queue_job \<Rightarrow> task_queue \<Rightarrow> task_queue" where
  "startJob now j s =
     (case markEffectComplete (effect_id j) (begin_job now j s) of
        (s2, False) \<Rightarrow> finishJob now (job_key j) (qj_taskId j) (finishJob now (job_key j) (qj_taskId j) s2)
      | (s2, True) \<Rightarrow> await_job j s2)"

definition kickoff :: "task_queue \<Rightarrow> task_queue" where
  "kickoff s = (if q_processing s then s else s\<lparr>q_processing := True, q_kicks := q_kicks s + 1\<rparr>)"

record enqueue_params =
  eq_taskId :: string
  eq_tenantId :: "string option"
  eq_idempotencyToken :: "string option"

definition enqueue :: "enqueue_params \<Rightarrow> task_queue \<Rightarrow> task_queue \<times> bool" where
  "enqueue p s =
     (if length (q_queue s) \<ge> qc_maxQueueDepth (q_config s) then (s, False)
      else (kickoff (s\<lparr>q_queue := q_queue s @ [\<lparr>qj_taskId = eq_taskId p, qj_tenantId = eq_tenantId p,
              qj_attempt = 1, qj_idempotencyToken = eq_idempotencyToken p\<rparr>]\<rparr>), True))"

section \<open>Settling a job\<close>

definition jitterDelta :: "rat \<Rightarrow> 32 word \<Rightarrow> rat" where
  "jitterDelta ratio u = (rat_of_nat (unat u) / 2 ^ 32 - 1 / 2) * 2 * ratio"

definition math_round :: "rat \<Rightarrow> int" where
  "math_round x = \<lfloor>x + 1 / 2\<rfloor>"

definition retry_delay :: "queue_config \<Rightarrow> int \<Rightarrow> 32 word \<Rightarrow> int" where
  "retry_delay c attempt u =
     (let base = min (qc_maxRetryDelayMs c) (qc_retryDelayMs c * 2 ^ nat (attempt - 1))
      in max 1 (math_round (rat_of_int base * (1 + jitterDelta (qc_retryJitterRatio c) u))))"

definition quarantineJob :: "ms \<Rightarrow> string \<Rightarrow> string \<Rightarrow> string option \<Rightarrow> task_queue \<Rightarrow> task_queue" where
  "quarantineJob now tid reason tenant s =
     s\<lparr>q_quarantinedJobs := q_quarantinedJobs s @ [\<lparr>qn_jobId = tid @ ''-'' @ int_str now, qn_taskId = tid,
        qn_tenantId = tenant, qn_reason = reason, qn_quarantinedAt = now\<rparr>]\<rparr>"

definition add_dead_letter :: "dead_letter \<Rightarrow> task_queue \<Rightarrow> task_queue" where
  "add_dead_letter d s =
     s\<lparr>q_deadLetters := keep_last (qc_maxDeadLetters (q_config s)) (q_deadLetters s @ [d])\<rparr>"

definition notify_dead_letter :: "dead_letter \<Rightarrow> task_queue \<Rightarrow> task_queue" where
  "notify_dead_letter d s = s\<lparr>q_notified := q_notified s @ [d]\<rparr>"

definition push_outbox :: "outbox_message \<Rightarrow> task_queue \<Rightarrow> task_queue" where
  "push_outbox m s = s\<lparr>q_outbox := q_outbox s @ [m]\<rparr>"

text \<open>The promise of \<open>job.run()\<close> is fulfilled.\<close>

definition job_fulfilled :: "ms \<Rightarrow> string \<Rightarrow> nat \<Rightarrow> task_queue \<Rightarrow> task_queue" where
  "job_fulfilled now uuid i s =
     (if i \<ge> length (q_active s) then s
      else
        (let j = q_active s ! i;
             s1 = s\<lparr>q_active := drop_index i (q_active s)\<rparr>;
             m = \<lparr>ob_id = uuid, ob_task_id = qj_taskId j, ob_event_type = TaskCompleted,
                  ob_payload = CompletedPayload (qj_taskId j) (qj_tenantId j), ob_created_at = now,
                  ob_delivered = False, ob_delivery_attempts = 0\<rparr>
         in finishJob now (job_key j) (qj_taskId j) (push_outbox m s1)))"

text \<open>
  The promise is rejected with \<open>msg\<close>: below the attempt limit the guard is
  cleared, the slot released and a retry timer armed; at the limit the job is
  dead-lettered and quarantined. \<open>cb_ok\<close> tells whether \<open>onDeadLetter\<close> returned.
\<close>

definition arm_retry :: "queue_job \<Rightarrow> string \<Rightarrow> 32 word \<Rightarrow> task_queue \<Rightarrow> task_queue" where
  "arm_retry j msg u s =
     s\<lparr>q_pendingRetry := q_pendingRetry s + 1,
       q_timers := q_timers s @ [(j, msg, retry_delay (q_config s) (qj_attempt j) u)]\<rparr>"

definition dead_letter_job :: "ms \<Rightarrow> string \<Rightarrow> string \<Rightarrow> bool \<Rightarrow> queue_job \<Rightarrow> task_queue \<Rightarrow> task_queue" where
  "dead_letter_job now uuid msg cb_ok j s =
     (let d = \<lparr>dl_task_id = qj_taskId j, dl_tenant_id = qj_tenantId j, dl_attempts = qj_attempt j,
               dl_error = msg, dl_timestamp = now\<rparr>;
          reason = ''Exceeded max attempts ('' @ int_str (qj_attempt j) @ ''/'' @
                   int_str (qc_maxAttempts (q_config s)) @ ''): '' @ msg;
          s1 = notify_dead_letter d (quarantineJob now (qj_taskId j) reason (qj_tenantId j) (add_dead_letter d s));
          m = \<lparr>ob_id = uuid, ob_task_id = qj_taskId j, ob_event_type = TaskDeadLettered,
               ob_payload = DeadLetterPayload d, ob_created_at = now, ob_delivered = True, ob_delivery_attempts = 1\<rparr>
      in if cb_ok
         then (push_outbox m s1)\<lparr>q_deadLetterCallbacks := jm_set uuid j (q_deadLetterCallbacks s1)\<rparr>
         else s1)"

definition job_rejected :: "ms \<Rightarrow> string \<Rightarrow> string \<Rightarrow> 32 word \<Rightarrow> bool \<Rightarrow> nat \<Rightarrow> task_queue \<Rightarrow> task_queue" where
  "job_rejected now uuid msg u cb_ok i s =
     (if i \<ge> length (q_active s) then s
      else
        (let j = q_active s ! i;
             s1 = s\<lparr>q_active := drop_index i (q_active s)\<rparr>
         in if qj_attempt j < qc_maxAttempts (q_config s)
            then arm_retry j msg u
                   (finishJob now (job_key j) (qj_taskId j)
                     (s1\<lparr>q_completedEffects := removeAll (effect_id j) (q_completedEffects s1)\<rparr>))
            else finishJob now (job_key j) (qj_taskId j) (dead_letter_job now uuid msg cb_ok j s1)))"

text \<open>
  The callback of a retry timer. When the queue is full and \<open>onDeadLetter\<close>
  throws, the quarantine is skipped.
\<close>

definition retry_due :: "ms \<Rightarrow> bool \<Rightarrow> nat \<Rightarrow> task_queue \<Rightarrow> task_queue" where
  "retry_due now cb_ok i s =
     (if i \<ge> length (q_timers s) then s
      else
        (let (j, msg, _) = q_timers s ! i;
             s1 = s\<lparr>q_timers := drop_index i (q_timers s)\<rparr>
         in if \<not> q_running s then s1
            else
              (let s2 = s1\<lparr>q_pendingRetry := q_pendingRetry s1 - 1\<rparr> in
               if length (q_queue s2) \<ge> qc_maxQueueDepth (q_config s2)
               then
                 (let d = \<lparr>dl_task_id = qj_taskId j, dl_tenant_id = qj_tenantId j, dl_attempts = qj_attempt j + 1,
                           dl_error = ''Queue capacity reached while retrying job.'', dl_timestamp = now\<rparr>;
                      s3 = notify_dead_letter d (add_dead_letter d s2)
                  in if cb_ok then quarantineJob now (qj_taskId j) (''Queue full during retry: '' @ msg) (qj_tenantId j) s3
                     else s3)
               else kickoff (s2\<lparr>q_queue := q_queue s2 @ [j\<lparr>qj_attempt := qj_attempt j + 1\<rparr>]\<rparr>))))"

section \<open>The other operations\<close>

definition setTenantQuota :: "string \<Rightarrow> int \<Rightarrow> task_queue \<Rightarrow> task_queue" where
  "setTenantQuota t quota s =
     s\<lparr>q_tenantQuota := jm_set (resolveTenantKey (Some t)) (nat (max 1 quota)) (q_tenantQuota s)\<rparr>"

definition stop_queue :: "task_queue \<Rightarrow> task_queue" where
  "stop_queue s = s\<lparr>q_running := False\<rparr>"

definition hasCapacity :: "task_queue \<Rightarrow> bool" where
  "hasCapacity s \<longleftrightarrow> int (q_inflight s + length (q_queue s)) + q_pendingRetry s
     < int (qc_maxConcurrent (q_config s) + qc_maxQueueDepth (q_config s))"

definition listDeadLettersByTenant :: "string \<Rightarrow> task_queue \<Rightarrow> dead_letter list" where
  "listDeadLettersByTenant t s = filter (\<lambda>d. dl_tenant_id d = Some t) (q_deadLetters s)"

definition listQuarantinedJobsByTenant :: "string \<Rightarrow> task_queue \<Rightarrow> quarantined_job list" where
  "listQuarantinedJobsByTenant t s = filter (\<lambda>q. qn_tenantId q = Some t) (q_quarantinedJobs s)"

definition getTenantStats :: "task_queue \<Rightarrow> (string \<times> nat \<times> nat \<times> nat) list" where
  "getTenantStats s =
     map (\<lambda>t. (t, tenant_max s t, tenant_inflight s t, length (filter (\<lambda>j. job_key j = t) (q_queue s))))
       (rev (remdups (rev (map job_key (q_queue s) @ map fst (q_inflightByTenant s) @ map fst (q_tenantQuota s)))))"

record queue_stats =
  qs_queue_depth :: nat
  qs_processing :: bool
  qs_inflight :: nat
  qs_max_concurrent :: nat
  qs_max_concurrent_per_tenant :: "nat option"
  qs_max_queue_depth :: nat
  qs_dead_letter_count :: nat
  qs_oldest_dead_letter_age_ms :: "int option"
  qs_pending_retry :: int

definition getStats :: "ms \<Rightarrow> task_queue \<Rightarrow> queue_stats" where
  "getStats now s =
     \<lparr>qs_queue_depth = length (q_queue s),
      qs_processing = (q_processing s \<or> q_inflight s > 0 \<or> length (q_queue s) > 0 \<or> q_pendingRetry s > 0),
      qs_inflight = q_inflight s, qs_max_concurrent = qc_maxConcurrent (q_config s),
      qs_max_concurrent_per_tenant = qc_maxConcurrentPerTenant (q_config s),
      qs_max_queue_depth = qc_maxQueueDepth (q_config s),
      qs_dead_letter_count = length (q_deadLetters s),
      qs_oldest_dead_letter_age_ms =
        (case q_deadLetters s of [] \<Rightarrow> None | d # _ \<Rightarrow> Some (max 0 (now - dl_timestamp d))),
      qs_pending_retry = q_pendingRetry s\<rparr>"

text \<open>One cycle of \<open>processOutbox\<close>; \<open>cb\<close> tells which callbacks (by message id) return.\<close>

definition deliver_message :: "(string \<Rightarrow> bool) \<Rightarrow> (string, queue_job) jmap \<Rightarrow> outbox_message
    \<Rightarrow> outbox_message \<times> (string, queue_job) jmap" where
  "deliver_message cb cbs m =
     (if ob_delivered m then (m, cbs)
      else
        (let m1 = m\<lparr>ob_delivery_attempts := ob_delivery_attempts m + 1\<rparr> in
         if ob_event_type m = TaskDeadLettered \<and> jm_has cbs (ob_id m)
         then if cb (ob_id m) then (m1\<lparr>ob_delivered := True\<rparr>, jm_del (ob_id m) cbs) else (m1, cbs)
         else (m1\<lparr>ob_delivered := True\<rparr>, cbs)))"

fun deliver_all :: "(string \<Rightarrow> bool) \<Rightarrow> (string, queue_job) jmap \<Rightarrow> outbox_message list
    \<Rightarrow> outbox_message list \<times> (string, queue_job) jmap" where
  "deliver_all cb cbs [] = ([], cbs)"
| "deliver_all cb cbs (m # ms) =
     (let (m', cbs') = deliver_message cb cbs m; (ms', cbs'') = deliver_all cb cbs' ms in (m' # ms', cbs''))"

definition processOutbox :: "(string \<Rightarrow> bool) \<Rightarrow> task_queue \<Rightarrow> task_queue" where
  "processOutbox cb s =
     (let (ms', cbs) = deliver_all cb (q_deadLetterCallbacks s) (q_outbox s)
      in s\<lparr>q_outbox := ms', q_deadLetterCallbacks := cbs\<rparr>)"

fun mark_first :: "string \<Rightarrow> outbox_message list \<Rightarrow> outbox_message list" where
  "mark_first i [] = []"
| "mark_first i (m # ms) = (if ob_id m = i then m\<lparr>ob_delivered := True\<rparr> # ms else m # mark_first i ms)"

definition markDelivered :: "string \<Rightarrow> task_queue \<Rightarrow> task_queue" where
  "markDelivered i s = s\<lparr>q_outbox := mark_first i (q_outbox s)\<rparr>"

section \<open>Events\<close>

datatype queue_event =
    QEnqueue enqueue_params
  | QMicrotask ms
  | QFulfilled ms string nat
  | QRejected ms string string "32 word" bool nat
  | QRetryDue ms bool nat
  | QSetQuota string int
  | QOutbox "string \<Rightarrow> bool"
  | QDelivered string
  | QStop

fun queue_step :: "task_queue \<Rightarrow> queue_event \<Rightarrow> task_queue" where
  "queue_step s (QEnqueue p) = fst (enqueue p s)"
| "queue_step s (QMicrotask now) =
     (if q_kicks s = 0 then s else maybeRunJobs now (s\<lparr>q_kicks := q_kicks s - 1\<rparr>))"
| "queue_step s (QFulfilled now uuid i) = job_fulfilled now uuid i s"
| "queue_step s (QRejected now uuid msg u cb_ok i) = job_rejected now uuid msg u cb_ok i s"
| "queue_step s (QRetryDue now cb_ok i) = retry_due now cb_ok i s"
| "queue_step s (QSetQuota t q) = setTenantQuota t q s"
| "queue_step s (QOutbox cb) = processOutbox cb s"
| "queue_step s (QDelivered i) = markDelivered i s"
| "queue_step s QStop = stop_queue s"

section \<open>The calls as the code writes them\<close>

declare run_calls.simps(4) [simp del]

text \<open>The state in which the loop starts the runnable job at index \<open>i\<close>.\<close>

definition started :: "ms \<Rightarrow> task_queue \<Rightarrow> nat \<Rightarrow> task_queue" where
  "started now s i = begin_job now (q_queue s ! i) (s\<lparr>q_queue := drop_index i (q_queue s)\<rparr>)"

definition launched :: "ms \<Rightarrow> task_queue \<Rightarrow> nat \<Rightarrow> task_queue" where
  "launched now s i = await_job (q_queue s ! i)
     ((started now s i)\<lparr>q_completedEffects := q_completedEffects s @ [effect_id (q_queue s ! i)]\<rparr>)"

definition can_start :: "task_queue \<Rightarrow> nat \<Rightarrow> bool" where
  "can_start s i \<longleftrightarrow> q_inflight s < qc_maxConcurrent (q_config s) \<and> findRunnableJobIndex s = Some i"

definition loop_ends :: "task_queue \<Rightarrow> bool" where
  "loop_ends s \<longleftrightarrow> \<not> q_inflight s < qc_maxConcurrent (q_config s) \<or> findRunnableJobIndex s = None"

abbreviation finish_of :: "queue_job \<Rightarrow> call" where
  "finish_of j \<equiv> FinishJob (job_key j) (qj_taskId j)"

lemma begin_completed [simp]: "q_completedEffects (begin_job now j s) = q_completedEffects s"
  by (simp add: begin_job_def)

lemma can_start_bound: "can_start s i \<Longrightarrow> i < length (q_queue s) \<and> runnable s (q_queue s ! i)"
  using first_index_bound by (auto simp: can_start_def findRunnableJobIndex_def)

lemma run_loop_ends: "loop_ends s \<Longrightarrow> run_calls now s (RunLoop # cs) = run_calls now (loop_exit s) cs"
  by (auto simp: loop_ends_def run_calls.simps(4))

lemma run_loop_dup:
  "can_start s i \<Longrightarrow> effect_id (q_queue s ! i) \<in> set (q_completedEffects s) \<Longrightarrow>
   run_calls now s (RunLoop # cs) =
   run_calls now (started now s i) (finish_of (q_queue s ! i) # finish_of (q_queue s ! i) # RunLoop # cs)"
  by (subst run_calls.simps(4)) (simp add: can_start_def Let_def markEffectComplete_def started_def)

lemma run_loop_new:
  "can_start s i \<Longrightarrow> effect_id (q_queue s ! i) \<notin> set (q_completedEffects s) \<Longrightarrow>
   run_calls now s (RunLoop # cs) = run_calls now (launched now s i) (RunLoop # cs)"
  by (subst run_calls.simps(4)) (simp add: can_start_def Let_def markEffectComplete_def started_def launched_def)

lemma loop_cases: obtains "loop_ends s"
  | i where "can_start s i" "effect_id (q_queue s ! i) \<in> set (q_completedEffects s)"
  | i where "can_start s i" "effect_id (q_queue s ! i) \<notin> set (q_completedEffects s)"
  by (cases "findRunnableJobIndex s") (auto simp: loop_ends_def can_start_def)

lemma run_calls_rule [case_names Nil Finish Maybe Ends Dup New]:
  assumes "\<And>s. P s []"
    and "\<And>s key tid cs. P (finish_counts key tid s) (MaybeRunJobs # cs) \<Longrightarrow> P s (FinishJob key tid # cs)"
    and "\<And>s cs. P (reapExpiredLeases now s) (RunLoop # cs) \<Longrightarrow> P s (MaybeRunJobs # cs)"
    and "\<And>s cs. loop_ends s \<Longrightarrow> P (loop_exit s) cs \<Longrightarrow> P s (RunLoop # cs)"
    and "\<And>s i cs. can_start s i \<Longrightarrow> effect_id (q_queue s ! i) \<in> set (q_completedEffects s) \<Longrightarrow>
       P (started now s i) (finish_of (q_queue s ! i) # finish_of (q_queue s ! i) # RunLoop # cs) \<Longrightarrow>
       P s (RunLoop # cs)"
    and "\<And>s i cs. can_start s i \<Longrightarrow> effect_id (q_queue s ! i) \<notin> set (q_completedEffects s) \<Longrightarrow>
       P (launched now s i) (RunLoop # cs) \<Longrightarrow> P s (RunLoop # cs)"
  shows "P s cs"
proof (induction now' \<equiv> now s cs rule: run_calls.induct)
  case (4 s cs)
  consider "loop_ends s"
    | i where "can_start s i" "effect_id (q_queue s ! i) \<in> set (q_completedEffects s)"
    | i where "can_start s i" "effect_id (q_queue s ! i) \<notin> set (q_completedEffects s)"
    by (rule loop_cases)
  then show ?case
  proof cases
    case 1
    then have "P (loop_exit s) cs" using 4 by (auto simp: loop_ends_def)
    with 1 show ?thesis using assms(4) by blast
  next
    case (2 i)
    then have "P (started now s i) (finish_of (q_queue s ! i) # finish_of (q_queue s ! i) # RunLoop # cs)"
      using "4.hyps"(3) [of i "q_queue s ! i" "started now s i" "started now s i" False]
      by (simp add: can_start_def Let_def markEffectComplete_def started_def)
    with 2 show ?thesis using assms(5) by blast
  next
    case (3 i)
    then have "P (launched now s i) (RunLoop # cs)"
      using "4.hyps"(2) [of i "q_queue s ! i" "started now s i"
          "(started now s i)\<lparr>q_completedEffects := q_completedEffects s @ [effect_id (q_queue s ! i)]\<rparr>" True]
      by (simp add: can_start_def Let_def markEffectComplete_def started_def launched_def)
    with 3 show ?thesis using assms(6) by blast
  qed
qed (use assms(1-3) in blast)+

lemma run_calls_append: "run_calls now s (cs @ ds) = run_calls now (run_calls now s cs) ds"
  by (induction s cs rule: run_calls_rule [of _ now])
     (simp_all add: run_loop_ends run_loop_dup run_loop_new)

lemma finishJob_eq: "finishJob now key tid s = maybeRunJobs now (finish_counts key tid s)"
  by (simp add: finishJob_def maybeRunJobs_def)

lemma maybeRunJobs_eq: "maybeRunJobs now s = run_calls now (reapExpiredLeases now s) [RunLoop]"
  by (simp add: maybeRunJobs_def)

lemma run_calls_finish: "run_calls now s (FinishJob a b # cs) = run_calls now (finishJob now a b s) cs"
  using run_calls_append [of now s "[FinishJob a b]" cs] by (simp add: finishJob_def)

lemma run_loop_eq:
  "run_calls now s [RunLoop] =
     (if q_inflight s < qc_maxConcurrent (q_config s) then
        (case findRunnableJobIndex s of
           None \<Rightarrow> loop_exit s
         | Some i \<Rightarrow> run_calls now (startJob now (q_queue s ! i) (s\<lparr>q_queue := drop_index i (q_queue s)\<rparr>)) [RunLoop])
      else loop_exit s)"
  by (subst run_calls.simps(4))
     (simp add: startJob_def Let_def run_calls_finish markEffectComplete_def
        del: run_calls.simps(2) run_calls.simps(3) split: option.split)

section \<open>Preservation along the calls\<close>

lemma run_calls_preserves:
  assumes "P s"
    and "\<And>s key tid. P s \<Longrightarrow> P (finish_counts key tid s)"
    and "\<And>s. P s \<Longrightarrow> P (reapExpiredLeases now s)"
    and "\<And>s. P s \<Longrightarrow> P (loop_exit s)"
    and "\<And>s i. P s \<Longrightarrow> can_start s i \<Longrightarrow> P (started now s i)"
    and "\<And>s i. P s \<Longrightarrow> can_start s i \<Longrightarrow> P (launched now s i)"
  shows "P (run_calls now s cs)"
  using assms(1)
proof (induction s cs rule: run_calls_rule [of _ now])
  case (Ends s cs)
  then show ?case using assms(4) by (simp add: run_loop_ends)
next
  case (Dup s i cs)
  moreover from Dup have "P (started now s i)" using assms(5) by blast
  ultimately show ?case using run_loop_dup by simp
next
  case (New s i cs)
  moreover from New have "P (launched now s i)" using assms(6) by blast
  ultimately show ?case using run_loop_new by simp
qed (use assms(2,3) in simp_all)

section \<open>Bounds\<close>

definition attempt_ok :: "queue_config \<Rightarrow> queue_job \<Rightarrow> bool" where
  "attempt_ok c j \<longleftrightarrow> 1 \<le> qj_attempt j \<and> qj_attempt j \<le> qc_maxAttempts c"

definition queue_bounds :: "task_queue \<Rightarrow> bool" where
  "queue_bounds s \<longleftrightarrow>
     length (q_queue s) \<le> qc_maxQueueDepth (q_config s) \<and>
     length (q_deadLetters s) \<le> qc_maxDeadLetters (q_config s) \<and>
     q_inflight s \<le> qc_maxConcurrent (q_config s) \<and>
     1 \<le> qc_maxAttempts (q_config s) \<and>
     list_all (attempt_ok (q_config s)) (q_queue s) \<and> list_all (attempt_ok (q_config s)) (q_active s) \<and>
     list_all (\<lambda>(j, _, _). 1 \<le> qj_attempt j \<and> qj_attempt j < qc_maxAttempts (q_config s)) (q_timers s) \<and>
     list_all (\<lambda>d. 1 \<le> dl_attempts d \<and> dl_attempts d \<le> qc_maxAttempts (q_config s)) (q_notified s)"

text \<open>The fields the calls leave alone.\<close>

definition frame_of :: "task_queue \<Rightarrow> queue_config \<times> dead_letter list \<times> quarantined_job list \<times> outbox_message list
    \<times> (queue_job \<times> string \<times> int) list \<times> dead_letter list \<times> bool \<times> int" where
  "frame_of s = (q_config s, q_deadLetters s, q_quarantinedJobs s, q_outbox s, q_timers s, q_notified s,
     q_running s, q_pendingRetry s)"

lemma release_fold_frame:
  "frame_of (foldl (\<lambda>st t. release_lease t st) s ts) = frame_of s \<and>
   q_active (foldl (\<lambda>st t. release_lease t st) s ts) = q_active s \<and>
   q_completedEffects (foldl (\<lambda>st t. release_lease t st) s ts) = q_completedEffects s \<and>
   q_inflight (foldl (\<lambda>st t. release_lease t st) s ts) \<le> q_inflight s"
proof (induction ts arbitrary: s)
  case (Cons t ts)
  have "frame_of (release_lease t s) = frame_of s" "q_active (release_lease t s) = q_active s"
    "q_completedEffects (release_lease t s) = q_completedEffects s" "q_inflight (release_lease t s) \<le> q_inflight s"
    by (simp_all add: release_lease_def frame_of_def)
  with Cons.IH [of "release_lease t s"] show ?case by simp
qed simp

lemma reap_frame:
  "frame_of (reapExpiredLeases now s) = frame_of s"
  "q_active (reapExpiredLeases now s) = q_active s"
  "q_completedEffects (reapExpiredLeases now s) = q_completedEffects s"
  "q_inflight (reapExpiredLeases now s) \<le> q_inflight s"
  using release_fold_frame [of s "expired_leases now s"]
  by (auto simp: reapExpiredLeases_def Let_def frame_of_def)

lemma step_frames [simp]:
  "frame_of (finish_counts key tid s) = frame_of s"
  "frame_of (loop_exit s) = frame_of s"
  "frame_of (started now s i) = frame_of s"
  "frame_of (launched now s i) = frame_of s"
  by (simp_all add: frame_of_def finish_counts_def loop_exit_def started_def launched_def begin_job_def await_job_def)

lemma run_calls_frame: "frame_of (run_calls now s cs) = frame_of s"
  by (rule run_calls_preserves [where P = "\<lambda>x. frame_of x = frame_of s"]) (simp_all add: reap_frame)

lemma list_all_drop_index: "list_all P xs \<Longrightarrow> list_all P (drop_index i xs)"
  by (auto simp: drop_index_def list_all_iff dest: in_set_takeD in_set_dropD)

lemma run_calls_bounds: "queue_bounds s \<Longrightarrow> queue_bounds (run_calls now s cs)"
proof (rule run_calls_preserves [where P = queue_bounds])
  fix s
  assume b: "queue_bounds s"
  show "queue_bounds (reapExpiredLeases now s)"
    using b reap_frame [of now s] by (simp add: queue_bounds_def frame_of_def attempt_ok_def)
  show "queue_bounds (finish_counts key tid s)" for key tid
    using b by (auto simp: queue_bounds_def finish_counts_def attempt_ok_def)
  show "queue_bounds (loop_exit s)"
    using b by (auto simp: queue_bounds_def loop_exit_def attempt_ok_def)
  fix i
  assume "can_start s i"
  then have i: "i < length (q_queue s)" "q_inflight s < qc_maxConcurrent (q_config s)"
    using can_start_bound by (auto simp: can_start_def)
  show "queue_bounds (started now s i)"
    using b i by (auto simp: queue_bounds_def started_def begin_job_def attempt_ok_def drop_index_length list_all_drop_index)
  have "attempt_ok (q_config s) (q_queue s ! i)" using b i by (simp add: queue_bounds_def list_all_length)
  then show "queue_bounds (launched now s i)"
    using b i by (auto simp: queue_bounds_def launched_def started_def begin_job_def await_job_def
        drop_index_length list_all_drop_index)
qed

lemma deliver_all_frame: "frame_of (processOutbox cb s) = (case frame_of s of (a, b, c, d, e) \<Rightarrow>
    (a, b, c, fst (deliver_all cb (q_deadLetterCallbacks s) (q_outbox s)), e))"
  by (simp add: processOutbox_def frame_of_def case_prod_unfold Let_def)

lemma queue_step_bounds:
  assumes "queue_bounds s"
  shows "queue_bounds (queue_step s e)"
proof (cases e)
  case (QEnqueue p)
  then show ?thesis
    using assms by (auto simp: enqueue_def kickoff_def queue_bounds_def attempt_ok_def)
next
  case (QMicrotask now)
  have "queue_bounds (s\<lparr>q_kicks := q_kicks s - 1\<rparr>)" using assms by (simp add: queue_bounds_def attempt_ok_def)
  then show ?thesis using assms QMicrotask by (simp add: maybeRunJobs_def run_calls_bounds del: run_calls.simps)
next
  case (QFulfilled now uuid i)
  have "queue_bounds (push_outbox m (s\<lparr>q_active := drop_index i (q_active s)\<rparr>))" for m
    using assms by (auto simp: queue_bounds_def push_outbox_def attempt_ok_def list_all_drop_index)
  then show ?thesis
    using assms QFulfilled by (simp add: job_fulfilled_def Let_def finishJob_def run_calls_bounds del: run_calls.simps)
next
  case (QRejected now uuid msg u cb_ok i)
  show ?thesis
  proof (cases "i < length (q_active s)")
    case True
    let ?j = "q_active s ! i"
    have j: "attempt_ok (q_config s) ?j" using assms True by (simp add: queue_bounds_def list_all_length)
    have drop: "queue_bounds (s\<lparr>q_active := drop_index i (q_active s)\<rparr>)"
      using assms by (auto simp: queue_bounds_def attempt_ok_def list_all_drop_index)
    have retry: "queue_bounds (arm_retry ?j msg u x)" if "queue_bounds x" "frame_of x = frame_of s"
      "qj_attempt ?j < qc_maxAttempts (q_config s)" for x
      using that j by (auto simp: queue_bounds_def arm_retry_def frame_of_def attempt_ok_def)
    have dead: "queue_bounds (dead_letter_job now uuid msg cb_ok ?j (s\<lparr>q_active := drop_index i (q_active s)\<rparr>))"
      using drop j by (auto simp: queue_bounds_def dead_letter_job_def Let_def push_outbox_def notify_dead_letter_def
          quarantineJob_def add_dead_letter_def attempt_ok_def)
    let ?s2 = "s\<lparr>q_active := drop_index i (q_active s),
         q_completedEffects := removeAll (effect_id ?j) (q_completedEffects s)\<rparr>"
    have "queue_bounds ?s2" "frame_of ?s2 = frame_of s"
      using drop by (simp_all add: queue_bounds_def attempt_ok_def frame_of_def)
    then have "queue_bounds (finishJob now (job_key ?j) (qj_taskId ?j) ?s2)"
      "frame_of (finishJob now (job_key ?j) (qj_taskId ?j) ?s2) = frame_of s"
      by (simp_all add: finishJob_def run_calls_bounds run_calls_frame del: run_calls.simps)
    with retry dead show ?thesis
      using True QRejected by (simp add: job_rejected_def Let_def finishJob_def run_calls_bounds del: run_calls.simps)
  qed (use assms QRejected in \<open>simp add: job_rejected_def\<close>)
next
  case (QRetryDue now cb_ok i)
  show ?thesis
  proof (cases "i < length (q_timers s)")
    case True
    obtain j msg d where j: "q_timers s ! i = (j, msg, d)" by (cases "q_timers s ! i")
    have "1 \<le> qj_attempt j" "qj_attempt j < qc_maxAttempts (q_config s)"
      using assms True j by (auto simp: queue_bounds_def list_all_length)
    then show ?thesis
      using assms True
      by (auto simp: QRetryDue retry_due_def j Let_def queue_bounds_def attempt_ok_def kickoff_def
          notify_dead_letter_def quarantineJob_def add_dead_letter_def list_all_drop_index)
  qed (use assms QRetryDue in \<open>simp add: retry_due_def\<close>)
next
  case (QOutbox cb)
  then show ?thesis
    using assms by (simp add: processOutbox_def queue_bounds_def attempt_ok_def case_prod_unfold Let_def)
qed (use assms in \<open>auto simp: queue_bounds_def attempt_ok_def setTenantQuota_def markDelivered_def stop_queue_def\<close>)

lemma new_queue_bounds: "queue_bounds (new_queue opts persisted)"
  by (simp add: queue_bounds_def new_queue_def Let_def queue_settings_def at_least_one_def)

interpretation queue_sys: invariant_system queue_step "\<lambda>_. True" queue_bounds
  by unfold_locales (rule queue_step_bounds)

section \<open>Accounting without re-delivery\<close>

text \<open>
  The jobs that wait (queue, timers, and \<open>ex\<close>, those held by a running settle
  step), and the invariant that ties the counters to the running jobs and to the
  \<open>FinishJob\<close> calls still on the stack.
\<close>

definition waiting :: "queue_job list \<Rightarrow> task_queue \<Rightarrow> queue_job list" where
  "waiting ex s = ex @ q_queue s @ map fst (q_timers s)"

fun finishes_of :: "string \<Rightarrow> call \<Rightarrow> bool" where
  "finishes_of t (FinishJob k _) = (k = t)"
| "finishes_of t _ = False"

fun is_finish :: "call \<Rightarrow> bool" where
  "is_finish (FinishJob _ _) = True"
| "is_finish _ = False"

definition tenant_count :: "task_queue \<Rightarrow> call list \<Rightarrow> string \<Rightarrow> nat" where
  "tenant_count s cs t = length (filter (\<lambda>j. job_key j = t) (q_active s)) + length (filter (finishes_of t) cs)"

definition accounting :: "queue_job list \<Rightarrow> task_queue \<Rightarrow> call list \<Rightarrow> bool" where
  "accounting ex s cs \<longleftrightarrow>
     q_inflight s = length (q_active s) + length (filter is_finish cs) \<and>
     (\<forall>t. jm_get (q_inflightByTenant s) t = (if tenant_count s cs t = 0 then None else Some (tenant_count s cs t))) \<and>
     (\<forall>t. tenant_inflight s t \<le> tenant_max s t) \<and>
     distinct (map effect_id (waiting ex s @ q_active s)) \<and>
     effect_id ` set (waiting ex s) \<inter> set (q_completedEffects s) = {}"

definition leases_fresh :: "ms \<Rightarrow> task_queue \<Rightarrow> bool" where
  "leases_fresh now s \<longleftrightarrow> (\<forall>(t, since) \<in> set (q_leasedJobs s). now - since \<le> lease_timeout_ms)"

lemma set_jm_del: "set (jm_del k m) \<subseteq> set m"
  by (induction m) auto

lemma set_jm_set: "set (jm_set k v m) \<subseteq> insert (k, v) (set m)"
  by (induction m) auto

lemma reap_fresh: "leases_fresh now s \<Longrightarrow> reapExpiredLeases now s = s"
proof -
  assume "leases_fresh now s"
  then have "filter (\<lambda>(t, since). now - since > lease_timeout_ms) (q_leasedJobs s) = []"
    by (auto simp: leases_fresh_def filter_empty_conv)
  then show ?thesis by (simp add: reapExpiredLeases_def expired_leases_def)
qed

lemma fresh_finish: "leases_fresh now s \<Longrightarrow> leases_fresh now (finish_counts k t s)"
  using set_jm_del by (fastforce simp: leases_fresh_def finish_counts_def)

lemma fresh_launched: "leases_fresh now s \<Longrightarrow> leases_fresh now (launched now s i)"
  using set_jm_set
  by (fastforce simp: leases_fresh_def launched_def started_def begin_job_def await_job_def lease_timeout_ms_def)

lemma mset_drop_index: "i < length xs \<Longrightarrow> add_mset (xs ! i) (mset (drop_index i xs)) = mset xs"
proof -
  assume i: "i < length xs"
  have "xs = take i xs @ xs ! i # drop (Suc i) xs" using i by (rule id_take_nth_drop)
  then have "mset xs = mset (take i xs) + add_mset (xs ! i) (mset (drop (Suc i) xs))"
    by (metis mset.simps(2) mset_append)
  then show ?thesis by (simp add: drop_index_def)
qed

lemma distinct_map_mset: "mset xs = mset ys \<Longrightarrow> distinct (map f xs) = distinct (map f ys)"
  by (metis mset_eq_imp_distinct_iff mset_map)

lemma tenant_max_frame: "q_config s' = q_config s \<Longrightarrow> q_tenantQuota s' = q_tenantQuota s \<Longrightarrow> tenant_max s' = tenant_max s"
  by (simp add: tenant_max_def fun_eq_iff cong: option.case_cong)

lemma accounting_finish:
  assumes "accounting ex s (FinishJob key tid # cs)"
  shows "accounting ex (finish_counts key tid s) (MaybeRunJobs # cs)"
proof -
  let ?s = "finish_counts key tid s"
  have cnt: "tenant_count s (FinishJob key tid # cs) t =
      tenant_count ?s (MaybeRunJobs # cs) t + (if t = key then 1 else 0)" for t
    by (simp add: tenant_count_def finish_counts_def)
  have get: "jm_get (q_inflightByTenant s) t =
     (if tenant_count s (FinishJob key tid # cs) t = 0 then None else Some (tenant_count s (FinishJob key tid # cs) t))" for t
    using assms by (simp add: accounting_def)
  have new: "jm_get (q_inflightByTenant ?s) t =
     (if tenant_count ?s (MaybeRunJobs # cs) t = 0 then None else Some (tenant_count ?s (MaybeRunJobs # cs) t))" for t
  proof (cases "t = key")
    case True
    then have inf: "tenant_inflight s key = tenant_count ?s (MaybeRunJobs # cs) key + 1"
      using get [of key] cnt [of key] by (simp add: tenant_inflight_def)
    have "jm_get (q_inflightByTenant ?s) key =
        (if tenant_inflight s key \<le> 1 then None else Some (tenant_inflight s key - 1))"
      by (simp add: finish_counts_def jm_get_set jm_get_del del: One_nat_def)
    then show ?thesis by (simp add: True inf)
  next
    case False
    then have "jm_get (q_inflightByTenant ?s) t = jm_get (q_inflightByTenant s) t"
      by (simp add: finish_counts_def jm_get_set jm_get_del)
    then show ?thesis using get [of t] cnt [of t] False by simp
  qed
  have "tenant_inflight ?s t \<le> tenant_inflight s t" for t
    using get [of t] new [of t] cnt [of t] by (auto simp: tenant_inflight_def)
  moreover have "tenant_max ?s = tenant_max s" by (rule tenant_max_frame) (simp_all add: finish_counts_def)
  ultimately have "tenant_inflight ?s t \<le> tenant_max ?s t" for t
    using assms by (metis accounting_def order_trans)
  then show ?thesis
    using assms new by (simp add: accounting_def) (simp add: finish_counts_def waiting_def)
qed

lemma accounting_launched:
  assumes "accounting ex s (RunLoop # cs)" and "can_start s i"
  shows "accounting ex (launched now s i) (RunLoop # cs)"
proof -
  let ?j = "q_queue s ! i" and ?s = "launched now s i"
  have i: "i < length (q_queue s)" and run: "tenant_inflight s (job_key ?j) < tenant_max s (job_key ?j)"
    using can_start_bound [OF assms(2)] by (auto simp: runnable_def)
  have f: "q_queue ?s = drop_index i (q_queue s)" "q_active ?s = q_active s @ [?j]" "q_timers ?s = q_timers s"
    "q_completedEffects ?s = q_completedEffects s @ [effect_id ?j]" "q_inflight ?s = q_inflight s + 1"
    "q_inflightByTenant ?s = jm_set (job_key ?j) (tenant_inflight s (job_key ?j) + 1) (q_inflightByTenant s)"
    by (simp_all add: launched_def started_def begin_job_def await_job_def tenant_inflight_def)
  have tm: "tenant_max ?s = tenant_max s"
    by (rule tenant_max_frame) (simp_all add: launched_def started_def begin_job_def await_job_def)
  have cnt: "tenant_count ?s (RunLoop # cs) t = tenant_count s (RunLoop # cs) t + (if t = job_key ?j then 1 else 0)" for t
    by (simp add: tenant_count_def f)
  have get: "jm_get (q_inflightByTenant s) t =
     (if tenant_count s (RunLoop # cs) t = 0 then None else Some (tenant_count s (RunLoop # cs) t))" for t
    using assms by (simp add: accounting_def)
  have inf: "tenant_inflight s t = tenant_count s (RunLoop # cs) t" for t
    using get [of t] by (simp add: tenant_inflight_def)
  have new: "jm_get (q_inflightByTenant ?s) t =
     (if tenant_count ?s (RunLoop # cs) t = 0 then None else Some (tenant_count ?s (RunLoop # cs) t))" for t
    using get [of t] by (auto simp: f jm_get_set cnt inf)
  have inf': "tenant_inflight ?s t = tenant_count ?s (RunLoop # cs) t" for t
    using new [of t] by (simp add: tenant_inflight_def)
  have le: "tenant_inflight s t \<le> tenant_max s t" for t using assms(1) by (simp add: accounting_def)
  have lim: "tenant_inflight ?s t \<le> tenant_max ?s t" for t
    using run le [of t] by (auto simp: inf' tm cnt inf)
  have bag: "mset (waiting ex ?s @ q_active ?s) = mset (waiting ex s @ q_active s)"
    using mset_drop_index [OF i] by (simp add: waiting_def f)
  have d: "distinct (map effect_id (waiting ex s @ q_active s))" using assms(1) by (simp add: accounting_def)
  then have d': "distinct (map effect_id (waiting ex ?s @ q_active ?s))"
    by (simp only: distinct_map_mset [OF bag])
  have sub: "set (waiting ex ?s) \<subseteq> set (waiting ex s)"
    by (auto simp: waiting_def f drop_index_def dest: in_set_takeD in_set_dropD)
  have "effect_id ?j \<notin> effect_id ` set (waiting ex ?s)" using d' by (auto simp: f)
  moreover have "effect_id ` set (waiting ex ?s) \<inter> set (q_completedEffects s) = {}"
    using assms(1) sub by (fastforce simp: accounting_def)
  ultimately have "effect_id ` set (waiting ex ?s) \<inter> set (q_completedEffects ?s) = {}"
    by (auto simp: f)
  then show ?thesis
    using assms(1) new lim d' by (simp add: accounting_def f)
qed

lemma run_calls_accounting:
  "accounting ex s cs \<Longrightarrow> leases_fresh now s \<Longrightarrow> accounting ex (run_calls now s cs) []"
proof (induction s cs rule: run_calls_rule [of _ now])
  case (Finish s key tid cs)
  then show ?case using accounting_finish fresh_finish by simp
next
  case (Maybe s cs)
  then show ?case by (simp add: reap_fresh) (simp add: accounting_def tenant_count_def)
next
  case (Ends s cs)
  have "accounting ex (s\<lparr>q_processing := b\<rparr>) cs = accounting ex s (RunLoop # cs)" for b
    by (simp add: accounting_def tenant_count_def waiting_def tenant_inflight_def tenant_max_def
          cong: option.case_cong)
  from this [of False] this [of "q_processing s"] have "accounting ex (loop_exit s) cs"
    using Ends.prems(1) by (simp add: loop_exit_def)
  moreover have "leases_fresh now (loop_exit s)"
    using Ends.prems(2) by (simp add: leases_fresh_def loop_exit_def)
  ultimately show ?case using Ends by (simp add: run_loop_ends)
next
  case (Dup s i cs)
  then have "q_queue s ! i \<in> set (waiting ex s)"
    using can_start_bound by (auto simp: waiting_def)
  with Dup show ?case by (auto simp: accounting_def)
next
  case (New s i cs)
  then show ?case using accounting_launched fresh_launched by (simp add: run_loop_new)
qed simp

text \<open>
  Events under which the counters are exact: a new job brings an effect id that
  was not used before, no lease is older than the timeout when jobs are started,
  and quotas stay put.
\<close>

definition fresh_effect :: "task_queue \<Rightarrow> string \<Rightarrow> bool" where
  "fresh_effect s e \<longleftrightarrow> e \<notin> set (q_completedEffects s) \<and> e \<notin> effect_id ` set (waiting [] s @ q_active s)"

fun regular_event :: "task_queue \<Rightarrow> queue_event \<Rightarrow> bool" where
  "regular_event s (QEnqueue p) = fresh_effect s
     (effect_id \<lparr>qj_taskId = eq_taskId p, qj_tenantId = eq_tenantId p, qj_attempt = 1,
                qj_idempotencyToken = eq_idempotencyToken p\<rparr>)"
| "regular_event s (QMicrotask now) = leases_fresh now s"
| "regular_event s (QFulfilled now uuid i) = leases_fresh now s"
| "regular_event s (QRejected now uuid msg u cb_ok i) = leases_fresh now s"
| "regular_event s (QSetQuota t q) = False"
| "regular_event s _ = True"

inductive regular_run :: "task_queue \<Rightarrow> task_queue \<Rightarrow> bool" for s where
  regular_refl: "regular_run s s"
| regular_step: "regular_run s t \<Longrightarrow> regular_event t e \<Longrightarrow> regular_run s (queue_step t e)"

inductive_cases regular_runE: "regular_run s t"

lemma accounting_cong:
  "q_inflight s' = q_inflight s \<Longrightarrow> q_active s' = q_active s \<Longrightarrow> q_inflightByTenant s' = q_inflightByTenant s \<Longrightarrow>
   q_config s' = q_config s \<Longrightarrow> q_tenantQuota s' = q_tenantQuota s \<Longrightarrow> q_queue s' = q_queue s \<Longrightarrow>
   q_timers s' = q_timers s \<Longrightarrow> q_completedEffects s' = q_completedEffects s \<Longrightarrow>
   accounting ex s' cs = accounting ex s cs"
  using tenant_max_frame [of s' s]
  by (simp add: accounting_def tenant_count_def waiting_def tenant_inflight_def)

lemma effect_id_attempt [simp]: "effect_id (j\<lparr>qj_attempt := a\<rparr>) = effect_id j"
  by (simp add: effect_id_def cong: option.case_cong)

lemma length_filter_mset: "mset xs = mset ys \<Longrightarrow> length (filter P xs) = length (filter P ys)"
  by (metis mset_filter size_mset)

text \<open>Taking a running job off the list is matched by the \<open>FinishJob\<close> call to come.\<close>

lemma accounting_settle:
  assumes "accounting [] s []" and "i < length (q_active s)"
  shows "accounting [] (s\<lparr>q_active := drop_index i (q_active s)\<rparr>) [finish_of (q_active s ! i)]"
    and "accounting [q_active s ! i] (s\<lparr>q_active := drop_index i (q_active s),
           q_completedEffects := removeAll (effect_id (q_active s ! i)) (q_completedEffects s)\<rparr>) [finish_of (q_active s ! i)]"
proof -
  let ?j = "q_active s ! i" and ?a = "drop_index i (q_active s)"
  have bag: "mset (q_active s) = mset (?j # ?a)" using mset_drop_index [OF assms(2)] by simp
  have cnt: "length (filter (\<lambda>j. job_key j = t) (q_active s)) =
      length (filter (\<lambda>j. job_key j = t) ?a) + (if t = job_key ?j then 1 else 0)" for t
    using length_filter_mset [OF bag, of "\<lambda>j. job_key j = t"] by simp
  have d: "distinct (map effect_id (waiting [] s @ q_active s))" using assms(1) by (simp add: accounting_def)
  have "mset (waiting [] s @ q_active s) = mset (waiting [] s @ ?j # ?a)" using bag by simp
  from distinct_map_mset [OF this, of effect_id] d
  have d1: "distinct (map effect_id (waiting [] s @ ?j # ?a))" by (simp only:)
  have len: "length (q_active s) = Suc (length ?a)" using assms(2) by (simp add: drop_index_length)
  let ?s1 = "s\<lparr>q_active := ?a\<rparr>"
  have tc1: "tenant_count ?s1 [finish_of ?j] t = tenant_count s [] t" for t
    using cnt [of t] by (simp add: tenant_count_def)
  have w1: "waiting [] ?s1 = waiting [] s" by (simp add: waiting_def)
  have "distinct (map effect_id (waiting [] ?s1 @ q_active ?s1))" using d1 by (auto simp: w1)
  moreover have "tenant_inflight ?s1 = tenant_inflight s" by (simp add: tenant_inflight_def fun_eq_iff)
  ultimately show "accounting [] ?s1 [finish_of ?j]"
    using assms(1) tenant_max_frame [of ?s1 s] len
    by (simp add: accounting_def tc1 w1)
  let ?s = "s\<lparr>q_active := ?a, q_completedEffects := removeAll (effect_id ?j) (q_completedEffects s)\<rparr>"
  have w: "waiting [?j] ?s = ?j # waiting [] s" by (simp add: waiting_def)
  have tc: "tenant_count ?s [finish_of ?j] t = tenant_count s [] t" for t
    using cnt [of t] by (simp add: tenant_count_def)
  have "distinct (map effect_id (waiting [?j] ?s @ q_active ?s))"
    using d1 by (auto simp: w)
  moreover have "effect_id ` set (waiting [?j] ?s) \<inter> set (q_completedEffects ?s) = {}"
    using assms(1) by (auto simp: w accounting_def)
  moreover have "tenant_inflight ?s = tenant_inflight s" by (simp add: tenant_inflight_def fun_eq_iff)
  ultimately show "accounting [?j] ?s [finish_of ?j]"
    using assms(1) tenant_max_frame [of ?s s] len
    by (simp add: accounting_def tc)
qed

lemma leases_fresh_cong: "q_leasedJobs s' = q_leasedJobs s \<Longrightarrow> leases_fresh now s' = leases_fresh now s"
  by (simp add: leases_fresh_def)

lemma finishJob_accounting:
  "accounting ex s [FinishJob k t] \<Longrightarrow> leases_fresh now s \<Longrightarrow> accounting ex (finishJob now k t s) []"
  using run_calls_accounting [of ex s "[FinishJob k t]" now] by (simp add: finishJob_def del: run_calls.simps)

lemma accounting_add_waiting:
  assumes "accounting ex s []" and "q_queue s' @ map fst (q_timers s') = q_queue s @ js @ map fst (q_timers s) @ ks"
    and "mset (map effect_id (ex' @ js @ ks)) = mset (map effect_id ex)"
    and "q_inflight s' = q_inflight s" "q_active s' = q_active s" "q_inflightByTenant s' = q_inflightByTenant s"
    "q_config s' = q_config s" "q_tenantQuota s' = q_tenantQuota s" "q_completedEffects s' = q_completedEffects s"
  shows "accounting ex' s' []"
proof -
  have bag: "mset (map effect_id (waiting ex' s')) = mset (map effect_id (waiting ex s))"
    using assms(3) by (simp add: waiting_def assms(2))
  then have "mset (map effect_id (waiting ex' s' @ q_active s')) = mset (map effect_id (waiting ex s @ q_active s))"
    by (simp add: assms(5))
  then have "distinct (map effect_id (waiting ex' s' @ q_active s'))"
    using assms(1) mset_eq_imp_distinct_iff unfolding accounting_def by blast
  moreover have "effect_id ` set (waiting ex' s') = effect_id ` set (waiting ex s)"
    using arg_cong [OF bag, of set_mset] by (simp only: set_mset_mset list.set_map)
  moreover have "tenant_max s' = tenant_max s" by (rule tenant_max_frame) (fact assms(7), fact assms(8))
  moreover have "tenant_inflight s' = tenant_inflight s" "tenant_count s' [] = tenant_count s []"
    by (simp_all add: tenant_inflight_def tenant_count_def fun_eq_iff assms(4-6))
  ultimately show ?thesis using assms by (simp add: accounting_def)
qed

lemma accounting_drop_ex:
  assumes "accounting ex s []"
  shows "accounting [] s []"
proof -
  have "set (waiting [] s) \<subseteq> set (waiting ex s)" by (auto simp: waiting_def)
  moreover have "distinct (map effect_id (waiting [] s @ q_active s))"
    using assms by (simp add: accounting_def waiting_def image_Un Int_Un_distrib2)
  ultimately show ?thesis using assms unfolding accounting_def by blast
qed

lemma accounting_fresh_ex:
  "accounting [] s [] \<Longrightarrow> fresh_effect s (effect_id j) \<Longrightarrow> accounting [j] s []"
  by (auto simp: accounting_def waiting_def fresh_effect_def)

lemma accounting_take_timer:
  assumes "accounting [] s []" and "i < length (q_timers s)"
  shows "accounting [fst (q_timers s ! i)] (s\<lparr>q_timers := drop_index i (q_timers s)\<rparr>) []"
proof -
  have "mset (q_timers s) = mset (q_timers s ! i # drop_index i (q_timers s))"
    using mset_drop_index [OF assms(2)] by simp
  then have t: "mset (map fst (q_timers s)) = mset (fst (q_timers s ! i) # map fst (drop_index i (q_timers s)))"
    by (metis list.simps(9) mset_map)
  let ?s = "s\<lparr>q_timers := drop_index i (q_timers s)\<rparr>"
  have bag: "mset (waiting [fst (q_timers s ! i)] ?s) = mset (waiting [] s)"
    using t by (simp add: waiting_def)
  then have "mset (waiting [fst (q_timers s ! i)] ?s @ q_active ?s) = mset (waiting [] s @ q_active s)" by simp
  then have "distinct (map effect_id (waiting [fst (q_timers s ! i)] ?s @ q_active ?s))"
    using assms(1) distinct_map_mset by (metis accounting_def)
  moreover have "set (waiting [fst (q_timers s ! i)] ?s) = set (waiting [] s)" using bag by (metis set_mset_mset)
  moreover have "tenant_inflight ?s = tenant_inflight s" "tenant_max ?s = tenant_max s" "tenant_count ?s [] = tenant_count s []"
    using tenant_max_frame [of ?s s] by (simp_all add: tenant_inflight_def tenant_count_def fun_eq_iff)
  ultimately show ?thesis using assms(1) by (simp add: accounting_def)
qed

lemma regular_step_accounting:
  assumes "accounting [] s []" and "regular_event s e"
  shows "accounting [] (queue_step s e) []"
proof (cases e)
  case (QEnqueue p)
  let ?j = "\<lparr>qj_taskId = eq_taskId p, qj_tenantId = eq_tenantId p, qj_attempt = 1,
     qj_idempotencyToken = eq_idempotencyToken p\<rparr>"
  have "accounting [?j] s []" using assms QEnqueue by (intro accounting_fresh_ex) simp_all
  then have "accounting [] (kickoff (s\<lparr>q_queue := q_queue s @ [?j]\<rparr>)) []"
    by (rule accounting_add_waiting [where js = "[?j]" and ks = "[]"]) (simp_all add: kickoff_def)
  then show ?thesis using assms QEnqueue by (simp add: enqueue_def)
next
  case (QMicrotask now)
  let ?s = "s\<lparr>q_kicks := q_kicks s - 1\<rparr>"
  have "accounting [] ?s [MaybeRunJobs]"
    using assms(1) accounting_cong [of ?s s "[]" "[]"] by (simp add: accounting_def tenant_count_def)
  then have "accounting [] (maybeRunJobs now ?s) []"
    using run_calls_accounting [of "[]" ?s "[MaybeRunJobs]" now] assms(2) leases_fresh_cong [of ?s s now]
    by (simp add: QMicrotask maybeRunJobs_def del: run_calls.simps)
  then show ?thesis using assms QMicrotask by simp
next
  case (QFulfilled now uuid i)
  show ?thesis
  proof (cases "i < length (q_active s)")
    case True
    let ?s = "s\<lparr>q_active := drop_index i (q_active s)\<rparr>"
    have "accounting [] (push_outbox m ?s) [finish_of (q_active s ! i)]" "leases_fresh now (push_outbox m ?s)" for m
      using accounting_settle(1) [OF assms(1) True] accounting_cong [of "push_outbox m ?s" ?s "[]"] assms(2)
        leases_fresh_cong [of "push_outbox m ?s" s now]
      by (simp_all add: push_outbox_def QFulfilled)
    then show ?thesis using True by (simp add: QFulfilled job_fulfilled_def Let_def finishJob_accounting)
  qed (use assms QFulfilled in \<open>simp add: job_fulfilled_def\<close>)
next
  case (QRejected now uuid msg u cb_ok i)
  show ?thesis
  proof (cases "i < length (q_active s)")
    case True
    let ?j = "q_active s ! i"
    let ?s1 = "s\<lparr>q_active := drop_index i (q_active s)\<rparr>"
    let ?s2 = "s\<lparr>q_active := drop_index i (q_active s),
         q_completedEffects := removeAll (effect_id ?j) (q_completedEffects s)\<rparr>"
    have "leases_fresh now ?s2" using assms(2) leases_fresh_cong [of ?s2 s now] by (simp add: QRejected)
    then have "accounting [?j] (finishJob now (job_key ?j) (qj_taskId ?j) ?s2) []"
      by (intro finishJob_accounting accounting_settle(2) assms(1) True)
    then have retry: "accounting [] (arm_retry ?j msg u (finishJob now (job_key ?j) (qj_taskId ?j) ?s2)) []"
      by (rule accounting_add_waiting [where js = "[]" and ks = "[?j]"]) (simp_all add: arm_retry_def)
    let ?d = "dead_letter_job now uuid msg cb_ok ?j ?s1"
    have "accounting [] ?d [finish_of ?j]" "leases_fresh now ?d"
      using accounting_settle(1) [OF assms(1) True] accounting_cong [of ?d ?s1 "[]"] assms(2) leases_fresh_cong [of ?d s now]
      by (simp_all add: QRejected dead_letter_job_def Let_def push_outbox_def notify_dead_letter_def
          quarantineJob_def add_dead_letter_def)
    then have "accounting [] (finishJob now (job_key ?j) (qj_taskId ?j) ?d) []"
      by (intro finishJob_accounting)
    with retry show ?thesis using True by (simp add: QRejected job_rejected_def Let_def)
  qed (use assms QRejected in \<open>simp add: job_rejected_def\<close>)
next
  case (QRetryDue now cb_ok i)
  show ?thesis
  proof (cases "i < length (q_timers s)")
    case True
    obtain j msg d where j: "q_timers s ! i = (j, msg, d)" by (cases "q_timers s ! i")
    let ?s1 = "s\<lparr>q_timers := drop_index i (q_timers s)\<rparr>"
    have ex: "accounting [j] ?s1 []" using accounting_take_timer [OF assms(1) True] j by simp
    then have none: "accounting [] ?s1 []" by (rule accounting_drop_ex)
    let ?s2 = "?s1\<lparr>q_pendingRetry := q_pendingRetry ?s1 - 1\<rparr>"
    have "accounting [] (kickoff (?s2\<lparr>q_queue := q_queue ?s2 @ [j\<lparr>qj_attempt := qj_attempt j + 1\<rparr>]\<rparr>)) []"
      by (rule accounting_add_waiting [OF ex, where js = "[j\<lparr>qj_attempt := qj_attempt j + 1\<rparr>]" and ks = "[]"])
         (simp_all add: kickoff_def)
    moreover have "accounting [] (notify_dead_letter d' (add_dead_letter d' ?s2)) []"
      "accounting [] (quarantineJob now t r k (notify_dead_letter d' (add_dead_letter d' ?s2))) []" for d' t r k
      using none accounting_cong [of "notify_dead_letter d' (add_dead_letter d' ?s2)" ?s1 "[]" "[]"]
        accounting_cong [of "quarantineJob now t r k (notify_dead_letter d' (add_dead_letter d' ?s2))" ?s1 "[]" "[]"]
      by (simp_all add: notify_dead_letter_def add_dead_letter_def quarantineJob_def)
    ultimately show ?thesis using True none by (simp add: QRetryDue retry_due_def j Let_def)
  qed (use assms QRetryDue in \<open>simp add: retry_due_def\<close>)
next
  case (QOutbox cb)
  then show ?thesis
    using assms(1) accounting_cong [of "processOutbox cb s" s "[]" "[]"]
    by (simp add: processOutbox_def case_prod_unfold Let_def)
next
  case (QDelivered i)
  then show ?thesis using assms(1) accounting_cong [of "markDelivered i s" s "[]" "[]"] by (simp add: markDelivered_def)
next
  case QStop
  then show ?thesis using assms(1) accounting_cong [of "stop_queue s" s "[]" "[]"] by (simp add: stop_queue_def)
qed (use assms in simp)

lemma new_queue_accounting: "accounting [] (new_queue opts persisted) []"
  by (simp add: accounting_def new_queue_def Let_def waiting_def tenant_count_def tenant_inflight_def)

lemma regular_run_accounting: "regular_run s t \<Longrightarrow> accounting [] s [] \<Longrightarrow> accounting [] t []"
  by (induction rule: regular_run.induct) (auto intro: regular_step_accounting)

lemma regular_run_bounds: "regular_run s t \<Longrightarrow> queue_bounds s \<Longrightarrow> queue_bounds t"
  by (induction rule: regular_run.induct) (auto intro: queue_step_bounds)

section \<open>Properties\<close>

text \<open>C27: whatever the calls and events, the queue never exceeds its depth, the dead-letter list its
  cap, the in-flight counter the concurrency limit, and a job's attempt number the attempt limit.\<close>

theorem queue_bounded:
  "let s = foldl queue_step (new_queue opts persisted) es; c = queue_settings opts in
    length (q_queue s) \<le> qc_maxQueueDepth c \<and> length (q_deadLetters s) \<le> qc_maxDeadLetters c \<and>
    q_inflight s \<le> qc_maxConcurrent c \<and>
    list_all (attempt_ok c) (q_queue s @ q_active s @ map fst (q_timers s)) \<and>
    list_all (\<lambda>d. dl_attempts d \<le> qc_maxAttempts c) (q_notified s)"
proof -
  have conf: "q_config (queue_step s e) = q_config s" for s e
  proof -
    have run: "q_config (run_calls now x cs) = q_config x" for now x cs
      using run_calls_frame [of now x cs] by (simp add: frame_of_def)
    show ?thesis
      by (cases e) (auto simp: enqueue_def kickoff_def maybeRunJobs_def finishJob_def job_fulfilled_def
          job_rejected_def retry_due_def Let_def run push_outbox_def arm_retry_def dead_letter_job_def
          notify_dead_letter_def quarantineJob_def add_dead_letter_def setTenantQuota_def processOutbox_def
          markDelivered_def stop_queue_def split: prod.splits simp del: run_calls.simps)
  qed
  have "q_config (foldl queue_step s es) = q_config s" for s
    by (induction es arbitrary: s) (simp_all add: conf)
  then have c: "q_config (foldl queue_step (new_queue opts persisted) es) = queue_settings opts"
    by (simp add: new_queue_def Let_def)
  have "queue_bounds (foldl queue_step (new_queue opts persisted) es)"
    by (rule queue_sys.run_inv [OF new_queue_bounds]) (simp add: list_all_iff)
  then show ?thesis
    by (auto simp: queue_bounds_def c Let_def list_all_iff attempt_ok_def)
qed

text \<open>C11: as long as no job is delivered again under a used effect id, no lease outlives its timeout
  and quotas are not changed, the in-flight counter is the number of jobs really running, at most the
  concurrency limit; each tenant runs at most its quota; and no effect runs twice at a time.\<close>

theorem concurrency_exact:
  assumes "regular_run (new_queue opts persisted) s"
  shows "length (q_active s) = q_inflight s \<and> length (q_active s) \<le> qc_maxConcurrent (q_config s) \<and>
    (\<forall>t. length (filter (\<lambda>j. job_key j = t) (q_active s)) \<le> tenant_max s t) \<and>
    distinct (map effect_id (q_active s)) \<and>
    effect_id ` set (q_queue s) \<inter> set (q_completedEffects s) = {}"
proof -
  have acc: "accounting [] s []" by (rule regular_run_accounting [OF assms new_queue_accounting])
  have "queue_bounds s" by (rule regular_run_bounds [OF assms new_queue_bounds])
  moreover have "tenant_inflight s t = tenant_count s [] t" for t
    using acc by (simp add: accounting_def tenant_inflight_def)
  ultimately show ?thesis
    using acc by (auto simp: accounting_def queue_bounds_def tenant_count_def waiting_def)
qed

definition sample_options :: "queue_options" where
  "sample_options = \<lparr>qo_maxAttempts = Some 2, qo_retryDelayMs = None, qo_maxRetryDelayMs = None,
     qo_retryJitterRatio = Some 0, qo_maxConcurrent = Some 2, qo_maxConcurrentPerTenant = None,
     qo_maxQueueDepth = None, qo_maxDeadLetters = None\<rparr>"

definition sample_job :: "string \<Rightarrow> enqueue_params" where
  "sample_job t = \<lparr>eq_taskId = t, eq_tenantId = None, eq_idempotencyToken = None\<rparr>"

definition sample_retry :: "string \<Rightarrow> string \<Rightarrow> enqueue_params" where
  "sample_retry t k = \<lparr>eq_taskId = t, eq_tenantId = None, eq_idempotencyToken = Some k\<rparr>"

theorem concurrency_exact_witness:
  "\<exists>s. regular_run (new_queue sample_options []) s \<and> q_queue s \<noteq> [] \<and> length (q_active s) = q_inflight s"
proof -
  have "regular_run (new_queue sample_options []) (queue_step (new_queue sample_options []) (QEnqueue (sample_job ''a'')))"
    by (rule regular_step [OF regular_refl]) (simp add: fresh_effect_def new_queue_def Let_def waiting_def)
  then show ?thesis
    using concurrency_exact
    by (intro exI conjI) (auto simp: enqueue_def kickoff_def new_queue_def Let_def sample_options_def queue_settings_def at_least_one_def)
qed

text \<open>A job delivered again under the effect id of a running one is skipped but releases its slot
  twice, so the queue then runs more jobs than \<open>maxConcurrent\<close>: here three at a limit of two.\<close>

theorem redelivery_overcommits:
  "let s = foldl queue_step (new_queue sample_options [])
       [QEnqueue (sample_retry ''a'' ''k''), QEnqueue (sample_retry ''b'' ''k''), QEnqueue (sample_job ''c''),
        QEnqueue (sample_job ''d''), QMicrotask 0]
   in length (q_active s) = 3 \<and> qc_maxConcurrent (q_config s) = 2"
  by code_simp

lemma run_calls_saturated: "cs \<noteq> [] \<Longrightarrow> loop_ends (run_calls now s cs)"
proof (induction s cs rule: run_calls_rule [of _ now])
  case (Ends s cs)
  have "loop_ends (loop_exit s)"
  proof -
    have "runnable (s\<lparr>q_processing := b\<rparr>) = runnable s" for b
      using tenant_max_frame [of "s\<lparr>q_processing := b\<rparr>" s]
      by (simp add: runnable_def tenant_inflight_def fun_eq_iff)
    then show ?thesis using Ends.hyps(1) by (simp add: loop_exit_def loop_ends_def findRunnableJobIndex_def)
  qed
  then show ?case using Ends by (cases cs) (simp_all add: run_loop_ends)
qed (simp_all add: run_loop_dup run_loop_new)


lemma jitter_range:
  assumes "0 \<le> r" and "r \<le> 1"
  shows "- r \<le> jitterDelta r u \<and> jitterDelta r u \<le> r"
proof -
  have "unat u < 2 ^ 32" using unsigned_less [of u] by simp
  then obtain k where k: "unat u = k" "k \<le> 2 ^ 32" by simp
  have "0 \<le> rat_of_nat k" by (rule of_nat_0_le_iff)
  moreover have "rat_of_nat k \<le> 2 ^ 32" using k(2) by (metis of_nat_le_iff of_nat_numeral of_nat_power)
  ultimately have x: "0 \<le> rat_of_nat k / 2 ^ 32" "rat_of_nat k / 2 ^ 32 \<le> 1" by simp_all
  define y where "y = (rat_of_nat k / 2 ^ 32 - 1 / 2) * 2"
  have y: "-1 \<le> y" "y \<le> 1" using x by (simp_all add: y_def)
  have "y * r \<le> 1 * r" "-1 * r \<le> y * r" using y assms(1) by (intro mult_right_mono; simp)+
  then show ?thesis unfolding jitterDelta_def k(1) y_def by simp
qed

text \<open>The delay before a retry is between one millisecond and twice the configured maximum, and
  without jitter it is exactly the doubling back-off capped at the maximum.\<close>

theorem retry_delay_range:
  "let c = queue_settings opts; d = retry_delay c attempt u in
     1 \<le> d \<and> d \<le> 2 * qc_maxRetryDelayMs c \<and>
     (qo_retryJitterRatio opts = Some 0 \<longrightarrow>
        d = min (qc_maxRetryDelayMs c) (qc_retryDelayMs c * 2 ^ nat (attempt - 1)))"
proof -
  let ?c = "queue_settings opts"
  let ?b = "min (qc_maxRetryDelayMs ?c) (qc_retryDelayMs ?c * 2 ^ nat (attempt - 1))"
  let ?m = "1 + jitterDelta (qc_retryJitterRatio ?c) u"
  have r: "0 \<le> qc_retryJitterRatio ?c" "qc_retryJitterRatio ?c \<le> 1"
    by (simp_all add: queue_settings_def Let_def clampJitterRatio_def)
  have mx: "1 \<le> qc_maxRetryDelayMs ?c" and dl: "1 \<le> qc_retryDelayMs ?c"
    by (simp_all add: queue_settings_def Let_def at_least_one_def le_max_iff_disj)
  have "1 \<le> qc_retryDelayMs ?c * 2 ^ nat (attempt - 1)"
    using dl by (smt (verit) mult_le_cancel_left1 one_le_power)
  then have b: "1 \<le> ?b" "?b \<le> qc_maxRetryDelayMs ?c" using mx by simp_all
  have m: "?m \<le> 2" using jitter_range [OF r, of u] r by linarith
  have "rat_of_int ?b * ?m \<le> rat_of_int ?b * 2" using b(1) m by (intro mult_left_mono) simp_all
  also have "\<dots> \<le> rat_of_int (2 * qc_maxRetryDelayMs ?c)" using b(2) by (simp add: of_int_le_iff [symmetric] del: of_int_le_iff)
  finally have "math_round (rat_of_int ?b * ?m) \<le> 2 * qc_maxRetryDelayMs ?c"
    unfolding math_round_def by linarith
  moreover have "math_round (rat_of_int ?b * ?m) = ?b" if "qo_retryJitterRatio opts = Some 0"
  proof -
    have "qc_retryJitterRatio ?c = 0" using that by (simp add: queue_settings_def Let_def clampJitterRatio_def)
    then show ?thesis by (simp add: jitterDelta_def math_round_def floor_unique)
  qed
  ultimately show ?thesis using b mx by (simp add: retry_delay_def Let_def)
qed

theorem retry_delay_range_witness:
  "retry_delay (queue_settings sample_options) 3 7 = 200"
  using retry_delay_range [of sample_options 3 7]
  by (simp add: Let_def sample_options_def queue_settings_def at_least_one_def)

end
