(* ===== verification/Orchestrator.thy ===== *)
theory Orchestrator
  imports Registry Bridge TaskStore ReceiptStore AsyncQueue
begin

text \<open>
  The orchestrator runtime of \<open>src/src/control-plane/orchestrator.ts\<close>: dispatch,
  approval, cancellation and asynchronous execution of tasks over the registry,
  the policy engine, the executor, the task and receipt stores and the queue.

  An operation maps the runtime's state to a new state and an error or a value
  (\<open>orch\<close>). One that awaits an execution is two operations, before and after the
  await, so that others can run in between; their composition is the call with
  nothing in between. The schema checks, \<open>JSON.parse\<close>, the receipt signature and
  the regular-expression engine are the parameters \<open>externals\<close>; the clock and
  the random ids an operation draws come from \<open>orch_env\<close>. Adapter calls, webhook
  and approval notifications are logged in the state in the order they are made.
\<close>

record externals =
  xe_regex :: re_engine
  xe_json :: json_parser
  xe_validEnvelope :: "task_envelope \<Rightarrow> bool"
  xe_validResult :: "result_package \<Rightarrow> bool"
  xe_validIntent :: "intent \<Rightarrow> validation_result"
  xe_signReceipt :: "receipt \<Rightarrow> string"
  xe_approvalWebhook :: "string option"

record orch_env =
  oe_now :: ms
  oe_uuid :: "nat \<Rightarrow> string"

record webhook_note =
  wn_url :: string
  wn_task_id :: string
  wn_order_id :: "string option"
  wn_timestamp :: ms
  wn_status :: string
  wn_summary :: "string option"
  wn_structured_output :: "(string \<times> jsval) list option"

record approval_note =
  an_task_id :: string
  an_capability :: string
  an_target_agent :: string
  an_reason :: string
  an_requester :: requester_identity
  an_risk_class :: risk_level
  an_input_summary :: jsval
  an_approval_reference :: string
  an_webhook_url :: "string option"

record orch_decision =
  od_action :: policy_action
  od_reason :: string
  od_policy_checks :: "string list"

text \<open>What the closures of an enqueued job capture.\<close>

record async_job =
  aj_intent :: intent
  aj_envelope :: task_envelope
  aj_capability :: string
  aj_context_id :: string
  aj_descriptor :: agent_descriptor
  aj_decision :: orch_decision
  aj_negotiation :: invocation_negotiation

record orchestrator =
  o_registry :: registry
  o_policy :: policy_document
  o_executor :: executor
  o_tasks :: task_store
  o_receipts :: receipt_store
  o_queue :: task_queue
  o_jobs :: "(string, async_job) jmap"
  o_calls :: "adapter_call list"
  o_webhooks :: "webhook_note list"
  o_approvals :: "approval_note list"

datatype orch_error =
    InvalidEnvelope
  | NoAgentFound string
  | AgentDisabled string
  | CapabilityUnsupported string
  | CapabilityDisabled string
  | ExtensionRequired string
  | IdempotencyConflict string
  | TaskIdConflict string
  | UnsupportedOutputMode
  | UnsupportedSchemaVersion string
  | DeniedByPolicy string
  | InvalidResultPackage
  | InvalidCoreIntent "string list"
  | QueueCapacityExceeded
  | TaskStoreError store_error
  | ReceiptStoreError receipt_store_error
  | ExecutionError exec_error
  | WaitTimedOut string
  | ApprovalTaskIdMismatch
  | ApprovalTaskNotFound string
  | NotAwaitingApproval string
  | ApprovalCapabilityMismatch
  | ApprovalTargetMismatch
  | InvalidApprovalReference
  | TaskNotFound string
  | NotCancellable task_status
  | NotifierThrew

type_synonym 'a orch = "orchestrator \<Rightarrow> orchestrator \<times> (orch_error + 'a)"

definition o_return :: "'a \<Rightarrow> 'a orch" where
  "o_return x = (\<lambda>s. (s, Inr x))"

definition o_throw :: "orch_error \<Rightarrow> 'a orch" where
  "o_throw e = (\<lambda>s. (s, Inl e))"

definition o_bind :: "'a orch \<Rightarrow> ('a \<Rightarrow> 'b orch) \<Rightarrow> 'b orch" where
  "o_bind m f = (\<lambda>s. case m s of (o1, Inl e) \<Rightarrow> (o1, Inl e) | (o1, Inr x) \<Rightarrow> f x o1)"

definition o_guard :: "bool \<Rightarrow> orch_error \<Rightarrow> unit orch" where
  "o_guard b e = (if b then o_return () else o_throw e)"

definition o_modify :: "(orchestrator \<Rightarrow> orchestrator) \<Rightarrow> unit orch" where
  "o_modify f = (\<lambda>s. (f s, Inr ()))"

definition o_get :: "(orchestrator \<Rightarrow> 'a) \<Rightarrow> 'a orch" where
  "o_get f = (\<lambda>s. (s, Inr (f s)))"

section \<open>Stores, calls and notifications\<close>

definition o_save :: "ms \<Rightarrow> save_params \<Rightarrow> unit orch" where
  "o_save now p = (\<lambda>s. case task_save (o_tasks s) now p of
     (ts, Inl e) \<Rightarrow> (s\<lparr>o_tasks := ts\<rparr>, Inl (TaskStoreError e))
   | (ts, Inr _) \<Rightarrow> (s\<lparr>o_tasks := ts\<rparr>, Inr ()))"

definition status_update :: "result_package \<Rightarrow> receipt \<Rightarrow> task_status \<Rightarrow> task_updates" where
  "status_update res rc s =
     \<lparr>tu_context_id = None, tu_requester_identity = None, tu_idempotency_key = None, tu_capability = None,
      tu_target_agent = None, tu_status = Some s, tu_result = Some res, tu_receipt = Some rc\<rparr>"

definition o_update :: "ms \<Rightarrow> string \<Rightarrow> task_updates \<Rightarrow> unit orch" where
  "o_update now tid u = (\<lambda>s. case task_update (o_tasks s) now tid u of
     (ts, Inl e) \<Rightarrow> (s\<lparr>o_tasks := ts\<rparr>, Inl (TaskStoreError e))
   | (ts, Inr _) \<Rightarrow> (s\<lparr>o_tasks := ts\<rparr>, Inr ()))"

definition o_append :: "receipt \<Rightarrow> unit orch" where
  "o_append r = (\<lambda>s. case receipt_append (o_receipts s) r of
     (rs, Inl e) \<Rightarrow> (s\<lparr>o_receipts := rs\<rparr>, Inl (ReceiptStoreError e))
   | (rs, Inr _) \<Rightarrow> (s\<lparr>o_receipts := rs\<rparr>, Inr ()))"

text \<open>\<open>notifyWebhook\<close>: only for a non-blank string URL in the envelope's metadata.\<close>

definition notifyWebhook :: "orch_env \<Rightarrow> task_envelope \<Rightarrow> string \<Rightarrow> string option \<Rightarrow> (string \<times> jsval) list option \<Rightarrow> unit orch" where
  "notifyWebhook ev env status summary out =
     (case metadata_str env ''webhook_url'' of
        None \<Rightarrow> o_return ()
      | Some url \<Rightarrow>
          if str_trim url = [] then o_return ()
          else o_modify (\<lambda>s. s\<lparr>o_webhooks := o_webhooks s @ [\<lparr>wn_url = url, wn_task_id = te_task_id env,
                 wn_order_id = te_order_id env, wn_timestamp = oe_now ev, wn_status = status, wn_summary = summary, wn_structured_output = out\<rparr>]\<rparr>))"

text \<open>The note handed to the approval notifier. With a webhook to call (the note's own, else the configured one) the
  notifier first lists the members of the summary, which throws when the intent text is the JSON value \<open>null\<close>.\<close>

definition approval_webhook :: "string option \<Rightarrow> approval_note \<Rightarrow> string option" where
  "approval_webhook fallback n =
     (case (case an_webhook_url n of Some u \<Rightarrow> Some u | None \<Rightarrow> fallback) of Some [] \<Rightarrow> None | u \<Rightarrow> u)"

definition o_notify_approval :: "externals \<Rightarrow> approval_note \<Rightarrow> unit orch" where
  "o_notify_approval X n =
     (if approval_webhook (xe_approvalWebhook X) n \<noteq> None \<and> nullish (an_input_summary n) then o_throw NotifierThrew
      else o_modify (\<lambda>s. s\<lparr>o_approvals := o_approvals s @ [n]\<rparr>))"

section \<open>Resolution\<close>

definition resolveDescriptor :: "registry \<Rightarrow> string \<Rightarrow> string \<Rightarrow> orch_error + agent_descriptor" where
  "resolveDescriptor reg target cap =
     (case jm_get reg target of
        None \<Rightarrow> Inl (NoAgentFound target)
      | Some d \<Rightarrow>
          if ad_registry_status d = Some RegDisabled then Inl (AgentDisabled target)
          else if cap \<notin> set (ad_capabilities d) then Inl (CapabilityUnsupported cap)
          else (case getCapabilityDescriptor reg target cap of
                  Some c \<Rightarrow> if cd_status c = Some RegDisabled then Inl (CapabilityDisabled cap) else Inr d
                | None \<Rightarrow> Inr d))"

definition missing_extension :: "agent_descriptor \<Rightarrow> task_envelope \<Rightarrow> agent_extension option" where
  "missing_extension d env =
     (case ad_extensions d of
        None \<Rightarrow> None
      | Some exts \<Rightarrow> find (\<lambda>e. ax_required e = Some True \<and> ax_uri e \<notin> set (case te_extensions env of None \<Rightarrow> [] | Some xs \<Rightarrow> xs)) exts)"

definition resolveIdempotencyKey :: "task_envelope \<Rightarrow> string option" where
  "resolveIdempotencyKey env =
     (case metadata_str env ''idempotency_key'' of
        Some k \<Rightarrow> if str_trim k \<noteq> [] then Some k else None | None \<Rightarrow> None)"

definition same_identity :: "task_record \<Rightarrow> task_envelope \<Rightarrow> string \<Rightarrow> agent_descriptor \<Rightarrow> bool" where
  "same_identity r env cap d \<longleftrightarrow>
     ri_type (tr_requester r) = ri_type (te_requester env) \<and>
     ri_id (tr_requester r) = ri_id (te_requester env) \<and>
     resolve_tenant (ri_tenant_id (tr_requester r)) = resolve_tenant (ri_tenant_id (te_requester env)) \<and>
     tr_capability r = cap \<and> tr_target_agent r = ad_agent_id d"

definition negotiateSchemaVersion :: "capability_descriptor option \<Rightarrow> string option
    \<Rightarrow> orch_error + (string option \<times> string option \<times> bool)" where
  "negotiateSchemaVersion cd req =
     (case cd of
        None \<Rightarrow> Inr (req, req, False)
      | Some c \<Rightarrow>
          (let supported = (case cd_supported_schema_versions c of None \<Rightarrow> [] | Some vs \<Rightarrow> vs);
               preferred = (case cd_preferred_schema_version c of Some v \<Rightarrow> Some v | None \<Rightarrow> cd_schema_version c)
           in case truthy_key req of
                None \<Rightarrow> Inr (preferred, preferred, False)
              | Some v \<Rightarrow>
                  (case find (\<lambda>t. tt_from t = v) (case cd_translation_targets c of None \<Rightarrow> [] | Some ts \<Rightarrow> ts) of
                     Some t \<Rightarrow> Inr (Some v, Some (tt_to t), True)
                   | None \<Rightarrow>
                       if supported = [] \<or> v \<in> set supported then Inr (Some v, Some v, False)
                       else Inl (UnsupportedSchemaVersion v))))"

definition metadata_async :: "task_envelope \<Rightarrow> bool" where
  "metadata_async env \<longleftrightarrow> (case te_metadata env of None \<Rightarrow> False | Some m \<Rightarrow> obj_get m ''async'' = JBool True)"

definition negotiateInvocation :: "agent_descriptor \<Rightarrow> capability_descriptor option \<Rightarrow> task_envelope
    \<Rightarrow> string option \<Rightarrow> negotiation_request option \<Rightarrow> orch_error + invocation_negotiation" where
  "negotiateInvocation d cd env rv nr =
     (if te_output_mode env \<notin> set (ad_visibility_modes d) then Inl UnsupportedOutputMode
      else
        (let asked = (case Option.bind nr nr_schema_version of Some v \<Rightarrow> Some v | None \<Rightarrow> rv);
             mode = (if metadata_async env \<or> Option.bind nr nr_delivery_mode = Some Async then Async else Sync)
         in case negotiateSchemaVersion cd asked of
              Inl e \<Rightarrow> Inl e
            | Inr (requested, executed, translated) \<Rightarrow>
                Inr \<lparr>in_requested = \<lparr>ns_schema_version = requested, ns_output_mode = te_output_mode env, ns_delivery_mode = mode\<rparr>,
                     in_selected = \<lparr>ns_schema_version = executed, ns_output_mode = te_output_mode env, ns_delivery_mode = mode\<rparr>,
                     in_schema_translated = translated\<rparr>))"

definition o_evaluatePolicy :: "externals \<Rightarrow> policy_document \<Rightarrow> task_envelope \<Rightarrow> string \<Rightarrow> orch_decision" where
  "o_evaluatePolicy X p env cap =
     (let d = evaluate (xe_regex X) (normalize (mapEnvelopeToIntent (xe_json X) env cap)) p
      in \<lparr>od_action = pd_action d, od_reason = pd_reason d,
          od_policy_checks = (case truthy_key (pd_matched_rule d) of
             Some r \<Rightarrow> [''Rule: '' @ r]
           | None \<Rightarrow> [if pd_action d = Allow then ''Default allow'' else ''Default deny''])\<rparr>)"

section \<open>Receipts and results\<close>

definition receipt_action_of :: "string \<Rightarrow> receipt_action" where
  "receipt_action_of taken =
     (if str_includes ''approval_required'' taken then ApprovalRequired
      else if str_includes ''denied'' taken \<or> str_includes ''cancelled'' taken then Denied
      else Executed)"

definition buildUnsignedReceipt :: "orch_env \<Rightarrow> nat \<Rightarrow> task_envelope \<Rightarrow> agent_descriptor \<Rightarrow> string \<Rightarrow> string
    \<Rightarrow> orch_decision \<Rightarrow> receipt" where
  "buildUnsignedReceipt ev n env d cap taken dec =
     (let act = receipt_action_of taken in
      \<lparr>rc_receipt_id = ''receipt:'' @ te_task_id env @ '':'' @ int_str (oe_now ev) @ '':'' @ oe_uuid ev n,
      rc_intent_id = te_task_id env, rc_capability = cap, rc_action = act, rc_timestamp = oe_now ev,
      rc_status = (if act = Executed then Ok else Error), rc_task_id = Some (te_task_id env),
      rc_order_id = None, rc_tenant_id = Some (resolve_tenant (ri_tenant_id (te_requester env))),
      rc_request_id = metadata_str env ''request_id'', rc_agent_id = ad_agent_id d,
      rc_resource_touched = Some (ad_domain d), rc_policy_checks = Some (od_policy_checks dec),
      rc_approval_used = None, rc_result_hash = Some (''sha256:'' @ te_task_id env @ '':'' @ taken),
      rc_requested_schema_version = None, rc_executed_schema_version = None, rc_negotiation = None,
      rc_extensions = None, rc_signature = None\<rparr>)"

definition sign_with :: "externals \<Rightarrow> receipt \<Rightarrow> receipt" where
  "sign_with X r = r\<lparr>rc_signature := Some (xe_signReceipt X r)\<rparr>"

definition default_redactions :: "string list" where
  "default_redactions = [''credentials'', ''internal_reasoning'']"

text \<open>The result packages \<open>dispatch\<close> assembles; they differ in status, text, output and follow-up.\<close>

definition dispatch_result :: "task_envelope \<Rightarrow> string \<Rightarrow> invocation_negotiation \<Rightarrow> task_status \<Rightarrow> string
    \<Rightarrow> (string \<times> jsval) list \<Rightarrow> bool \<Rightarrow> string option \<Rightarrow> result_package" where
  "dispatch_result env ctx neg status summary out followup reason =
     \<lparr>rp_task_id = te_task_id env, rp_context_id = Some ctx, rp_status = status, rp_summary = Some summary,
      rp_structured_output = out, rp_receipt_ref = None,
      rp_negotiated_schema_version = ns_schema_version (in_selected neg),
      rp_requested_schema_version = ns_schema_version (in_requested neg),
      rp_executed_schema_version = ns_schema_version (in_selected neg), rp_negotiation = Some neg,
      rp_redactions_applied = default_redactions, rp_followup_required = followup,
      rp_escalation_reason = reason, rp_extensions = te_extensions env\<rparr>"

definition target_output :: "string \<Rightarrow> agent_descriptor \<Rightarrow> (string \<times> jsval) list" where
  "target_output cap d = [(''capability'', JStr cap), (''target_agent'', JStr (ad_agent_id d))]"

definition enrichStructuredOutput :: "(string \<times> jsval) list \<Rightarrow> task_envelope \<Rightarrow> (string \<times> jsval) list" where
  "enrichStructuredOutput out env =
     (let common = plain_or_empty (tc_common (te_constraints env));
          domain = plain_or_empty (tc_domain (te_constraints env));
          keep = (\<lambda>k v. if v \<noteq> JUndef then [(k, v)] else [])
      in obj_merge out (keep ''environment'' (obj_get common ''environment'')
           @ keep ''dataset'' (obj_get domain ''dataset'') @ keep ''service'' (obj_get domain ''service'')))"

definition execution_receipt :: "task_envelope \<Rightarrow> string \<Rightarrow> invocation_negotiation \<Rightarrow> string \<Rightarrow> receipt_action
    \<Rightarrow> execution_status \<Rightarrow> ms \<Rightarrow> string \<Rightarrow> receipt" where
  "execution_receipt env cap neg rid act st time tag =
     \<lparr>rc_receipt_id = rid, rc_intent_id = te_task_id env, rc_capability = cap, rc_action = act,
      rc_timestamp = time, rc_status = st, rc_task_id = Some (te_task_id env), rc_order_id = None,
      rc_tenant_id = ri_tenant_id (te_requester env), rc_request_id = metadata_str env ''request_id'',
      rc_agent_id = te_target_agent env, rc_resource_touched = Some (te_target_agent env),
      rc_policy_checks = Some [''core_executed''], rc_approval_used = None,
      rc_result_hash = Some (''sha256:'' @ te_task_id env @ '':'' @ tag),
      rc_requested_schema_version = ns_schema_version (in_requested neg),
      rc_executed_schema_version = ns_schema_version (in_selected neg), rc_negotiation = Some neg,
      rc_extensions = None, rc_signature = None\<rparr>"

definition execution_package :: "task_envelope \<Rightarrow> invocation_negotiation \<Rightarrow> string option \<Rightarrow> task_status \<Rightarrow> string
    \<Rightarrow> (string \<times> jsval) list \<Rightarrow> bool \<Rightarrow> result_package" where
  "execution_package env neg ctx status summary out followup =
     \<lparr>rp_task_id = te_task_id env, rp_context_id = ctx, rp_status = status, rp_summary = Some summary,
      rp_structured_output = out, rp_receipt_ref = None,
      rp_negotiated_schema_version = ns_schema_version (in_selected neg),
      rp_requested_schema_version = ns_schema_version (in_requested neg),
      rp_executed_schema_version = ns_schema_version (in_selected neg), rp_negotiation = Some neg,
      rp_redactions_applied = default_redactions, rp_followup_required = followup,
      rp_escalation_reason = None, rp_extensions = None\<rparr>"

definition normalizeCoreResult :: "externals \<Rightarrow> orch_env \<Rightarrow> core_outcome \<Rightarrow> task_envelope \<Rightarrow> string
    \<Rightarrow> invocation_negotiation \<Rightarrow> invoke_result" where
  "normalizeCoreResult X ev raw env cap neg =
     (case raw of
        Receipt r \<Rightarrow>
          (let status = (case cr_action r of ApprovalRequired \<Rightarrow> AwaitingApproval | Executed \<Rightarrow> Completed | Denied \<Rightarrow> TDenied)
           in \<lparr>iv_result = execution_package env neg (te_context_id env) status
                 (''Execution '' @ receipt_action_str (cr_action r) @ '': '' @ exec_status_str (cr_status r))
                 [(''capability'', JStr cap)] (cr_action r = ApprovalRequired),
               iv_receipt = sign_with X (execution_receipt env cap neg (cr_receipt_id r @ '':'' @ oe_uuid ev 3)
                 (cr_action r) (cr_status r) (cr_timestamp r) (receipt_action_str (cr_action r)))\<rparr>)
      | Result r \<Rightarrow>
          (let status = (if er_status r = Ok then Completed else Failed)
           in \<lparr>iv_result = execution_package env neg
                 (case te_context_id env of Some c \<Rightarrow> Some c | None \<Rightarrow> Some (er_intent_id r)) status (er_summary r)
                 (enrichStructuredOutput (er_output r) env) False,
               iv_receipt = sign_with X (execution_receipt env cap neg
                 (''receipt:'' @ te_task_id env @ '':'' @ int_str (oe_now ev) @ '':'' @ oe_uuid ev 3)
                 (if status = Completed then Executed else Denied) (er_status r) (oe_now ev) (task_status_str status))\<rparr>))"

section \<open>Dispatch\<close>

text \<open>
  How \<open>dispatch\<close> goes on after its first, synchronous part: it has returned, it
  waits for a stored result, or it awaits an execution whose adapter was called
  and whose outcome is the value carried along.
\<close>

datatype dispatch_next =
    Finished invoke_result
  | WaitStored string
  | AwaitExecution "exec_error + execution_result" invocation_negotiation

definition stored_outcome :: "task_record \<Rightarrow> dispatch_next option" where
  "stored_outcome r =
     (case (tr_result r, tr_receipt r) of
        (Some res, Some rc) \<Rightarrow>
          Some (if tr_status r = Accepted then WaitStored (tr_task_id r)
                else Finished \<lparr>iv_result = res, iv_receipt = rc\<rparr>)
      | _ \<Rightarrow> None)"

definition task_save_params :: "task_envelope \<Rightarrow> string \<Rightarrow> string option \<Rightarrow> string \<Rightarrow> agent_descriptor \<Rightarrow> result_package
    \<Rightarrow> receipt \<Rightarrow> save_params" where
  "task_save_params env ctx key cap d res rc =
     \<lparr>sp_task_id = te_task_id env, sp_context_id = Some ctx, sp_requester_identity = te_requester env,
      sp_idempotency_key = key, sp_capability = cap, sp_target_agent = ad_agent_id d,
      sp_result = res, sp_receipt = rc\<rparr>"

text \<open>The checks against stored tasks: by idempotency key, then by task id.\<close>

definition dispatch_replay :: "task_envelope \<Rightarrow> string \<Rightarrow> agent_descriptor \<Rightarrow> orchestrator
    \<Rightarrow> orch_error + dispatch_next option" where
  "dispatch_replay env cap d s =
     (let by_id = (case task_get (o_tasks s) (te_task_id env) None of
                     None \<Rightarrow> Inr None
                   | Some r \<Rightarrow> if \<not> same_identity r env cap d then Inl (TaskIdConflict (te_task_id env))
                              else Inr (stored_outcome r))
      in case resolveIdempotencyKey env of
           None \<Rightarrow> by_id
         | Some k \<Rightarrow>
             (case findByIdempotencyKey (o_tasks s) k of
                None \<Rightarrow> by_id
              | Some r \<Rightarrow> if \<not> same_identity r env cap d then Inl (IdempotencyConflict k)
                          else (case stored_outcome r of Some nx \<Rightarrow> Inr (Some nx) | None \<Rightarrow> by_id)))"

definition dispatch_for_approval :: "externals \<Rightarrow> orch_env \<Rightarrow> task_envelope \<Rightarrow> string \<Rightarrow> agent_descriptor \<Rightarrow> string
    \<Rightarrow> invocation_negotiation \<Rightarrow> orch_decision \<Rightarrow> dispatch_next orch" where
  "dispatch_for_approval X ev env cap d ctx neg dec =
     (let ref = ''approval:'' @ te_task_id env;
          res = dispatch_result env ctx neg AwaitingApproval
                  (od_reason dec @ '' - task will require approval before execution.'')
                  (target_output cap d @ [(''approval_reference'', JStr ref)]) True (Some (od_reason dec));
          rc = sign_with X (buildUnsignedReceipt ev 1 env d cap (cap @ ''.approval_required'') dec)
      in o_bind (o_guard (xe_validResult X res) InvalidResultPackage) (\<lambda>_.
         o_bind (o_save (oe_now ev) (task_save_params env ctx (resolveIdempotencyKey env) cap d res rc)) (\<lambda>_.
         o_bind (o_append rc) (\<lambda>_.
         o_bind (o_notify_approval X \<lparr>an_task_id = te_task_id env, an_capability = cap, an_target_agent = ad_agent_id d,
             an_reason = od_reason dec, an_requester = te_requester env, an_risk_class = te_risk_class env,
             an_input_summary = (case xe_json X (te_intent env) of Some v \<Rightarrow> v | None \<Rightarrow> JObj []),
             an_approval_reference = ref,
             an_webhook_url = metadata_str env ''webhook_url''\<rparr>) (\<lambda>_.
         o_return (Finished \<lparr>iv_result = res, iv_receipt = rc\<rparr>))))))"

text \<open>The queue counts a job's closures by its task id.\<close>

definition o_enqueue :: "string \<Rightarrow> enqueue_params \<Rightarrow> async_job \<Rightarrow> bool orch" where
  "o_enqueue tid p j = (\<lambda>s. case enqueue p (o_queue s) of (q, ok) \<Rightarrow>
     (s\<lparr>o_queue := q, o_jobs := (if ok then jm_set tid j (o_jobs s) else o_jobs s)\<rparr>, Inr ok))"

definition dispatch_async :: "externals \<Rightarrow> orch_env \<Rightarrow> task_envelope \<Rightarrow> string \<Rightarrow> agent_descriptor \<Rightarrow> string
    \<Rightarrow> invocation_negotiation \<Rightarrow> orch_decision \<Rightarrow> intent \<Rightarrow> dispatch_next orch" where
  "dispatch_async X ev env cap d ctx neg dec it =
     (let res = dispatch_result env ctx neg Running ''Task accepted and running asynchronously.''
                  (target_output cap d @ [(''poll_path'', JStr (''/tasks/'' @ te_task_id env))]) True None;
          rc = sign_with X (buildUnsignedReceipt ev 1 env d cap (cap @ ''.running'') dec);
          job = \<lparr>aj_intent = it, aj_envelope = env, aj_capability = cap, aj_context_id = ctx, aj_descriptor = d,
                 aj_decision = dec, aj_negotiation = neg\<rparr>
      in o_bind (o_get (hasCapacity \<circ> o_queue)) (\<lambda>room.
         o_bind (o_guard room QueueCapacityExceeded) (\<lambda>_.
         o_bind (o_save (oe_now ev) (task_save_params env ctx (resolveIdempotencyKey env) cap d res rc)) (\<lambda>_.
         o_bind (o_append rc) (\<lambda>_.
         o_bind (o_enqueue (te_task_id env) \<lparr>eq_taskId = te_task_id env,
             eq_tenantId = Some (resolve_tenant (ri_tenant_id (te_requester env))),
             eq_idempotencyToken = te_idempotency_token env\<rparr> job) (\<lambda>accepted.
         if accepted then o_return (Finished \<lparr>iv_result = res, iv_receipt = rc\<rparr>)
         else o_bind (\<lambda>s. case task_delete (o_tasks s) (te_task_id env) of
                  (ts, Inl e) \<Rightarrow> (s\<lparr>o_tasks := ts\<rparr>, Inl (TaskStoreError e))
                | (ts, Inr _) \<Rightarrow> (s\<lparr>o_tasks := ts\<rparr>, Inr ())) (\<lambda>_. o_throw QueueCapacityExceeded)))))))"

definition o_log_calls :: "adapter_call list \<Rightarrow> unit orch" where
  "o_log_calls cs = o_modify (\<lambda>s. s\<lparr>o_calls := o_calls s @ cs\<rparr>)"

definition core_env :: "orch_env \<Rightarrow> exec_env" where
  "core_env ev = \<lparr>ee_now = oe_now ev, ee_uuid = oe_uuid ev 2\<rparr>"

definition call_executeApproved :: "externals \<Rightarrow> orch_env \<Rightarrow> intent \<Rightarrow> (exec_error + execution_result) orch" where
  "call_executeApproved X ev it =
     o_bind (o_get (\<lambda>s. executeApproved (xe_validIntent X) (o_executor s) (core_env ev) it)) (\<lambda>(calls, out).
     o_bind (o_log_calls calls) (\<lambda>_. o_return out))"

definition dispatch_sync :: "externals \<Rightarrow> orch_env \<Rightarrow> task_envelope \<Rightarrow> string \<Rightarrow> agent_descriptor \<Rightarrow> string
    \<Rightarrow> invocation_negotiation \<Rightarrow> orch_decision \<Rightarrow> intent \<Rightarrow> dispatch_next orch" where
  "dispatch_sync X ev env cap d ctx neg dec it =
     (let res = dispatch_result env ctx neg Accepted ''Task accepted for synchronous execution.''
                  (target_output cap d) False None;
          rc = sign_with X (buildUnsignedReceipt ev 1 env d cap (cap @ ''.accepted'') dec)
      in o_bind (o_save (oe_now ev) (task_save_params env ctx (resolveIdempotencyKey env) cap d res rc)) (\<lambda>_.
         o_bind (call_executeApproved X ev it) (\<lambda>out.
         o_return (AwaitExecution out neg))))"

definition o_lift :: "(orchestrator \<Rightarrow> orch_error + 'a) \<Rightarrow> 'a orch" where
  "o_lift f = (\<lambda>s. (s, f s))"

text \<open>A new task: negotiation, policy decision and the branch it selects.\<close>

definition dispatch_new :: "externals \<Rightarrow> orch_env \<Rightarrow> task_envelope \<Rightarrow> string \<Rightarrow> string option
    \<Rightarrow> negotiation_request option \<Rightarrow> agent_descriptor \<Rightarrow> capability_descriptor option \<Rightarrow> string \<Rightarrow> dispatch_next orch" where
  "dispatch_new X ev env cap rv nr d cd ctx =
     o_bind (o_lift (\<lambda>s. negotiateInvocation d cd env rv nr)) (\<lambda>neg.
     o_bind (o_get (\<lambda>s. o_evaluatePolicy X (o_policy s) env cap)) (\<lambda>dec.
     case od_action dec of
       Deny \<Rightarrow> o_bind (notifyWebhook ev env ''denied'' (Some (od_reason dec)) None) (\<lambda>_. o_throw (DeniedByPolicy (od_reason dec)))
     | RequireApproval \<Rightarrow> dispatch_for_approval X ev env cap d ctx neg dec
     | Allow \<Rightarrow>
         (let it = mapEnvelopeToIntent (xe_json X) env cap; v = xe_validIntent X it in
          o_bind (o_guard (vr_valid v) (InvalidCoreIntent (map snd (vr_errors v)))) (\<lambda>_.
          if ns_delivery_mode (in_selected neg) = Async \<or> metadata_async env
          then dispatch_async X ev env cap d ctx neg dec it
          else dispatch_sync X ev env cap d ctx neg dec it))))"

text \<open>\<open>dispatch\<close> up to its first await.\<close>

definition dispatch_begin :: "externals \<Rightarrow> orch_env \<Rightarrow> task_envelope \<Rightarrow> string \<Rightarrow> string option
    \<Rightarrow> negotiation_request option \<Rightarrow> dispatch_next orch" where
  "dispatch_begin X ev env cap rv nr =
     o_bind (o_guard (xe_validEnvelope X env) InvalidEnvelope) (\<lambda>_.
     o_bind (o_lift (\<lambda>s. resolveDescriptor (o_registry s) (te_target_agent env) cap)) (\<lambda>d.
     o_bind (o_get (\<lambda>s. getCapabilityDescriptor (o_registry s) (te_target_agent env) cap)) (\<lambda>cd.
     let ctx = (case te_context_id env of Some c \<Rightarrow> c | None \<Rightarrow> oe_uuid ev 0) in
     o_bind (case missing_extension d env of Some e \<Rightarrow> o_throw (ExtensionRequired (ax_uri e)) | None \<Rightarrow> o_return ()) (\<lambda>_.
     o_bind (o_lift (dispatch_replay env cap d)) (\<lambda>replay.
     case replay of
       Some nx \<Rightarrow> o_return nx
     | None \<Rightarrow> dispatch_new X ev env cap rv nr d cd ctx)))))"

text \<open>What follows an awaited execution, in \<open>dispatch\<close> and (with the approval reference) in \<open>approve\<close>.\<close>

definition finish_execution :: "externals \<Rightarrow> orch_env \<Rightarrow> task_envelope \<Rightarrow> string \<Rightarrow> invocation_negotiation
    \<Rightarrow> string option \<Rightarrow> exec_error + execution_result \<Rightarrow> invoke_result orch" where
  "finish_execution X ev env cap neg approval out =
     (case out of
        Inl e \<Rightarrow> o_throw (ExecutionError e)
      | Inr r \<Rightarrow>
          (let n = normalizeCoreResult X ev (Result r) env cap neg;
               n' = (case approval of None \<Rightarrow> n
                     | Some ref \<Rightarrow> n\<lparr>iv_receipt := (iv_receipt n)\<lparr>rc_approval_used := Some ref\<rparr>\<rparr>);
               res = iv_result n'
           in o_bind (o_update (oe_now ev) (te_task_id env) (status_update res (iv_receipt n') (rp_status res))) (\<lambda>_.
              o_bind (o_append (iv_receipt n')) (\<lambda>_.
              o_bind (notifyWebhook ev env (task_status_str (rp_status res)) (rp_summary res) (Some (rp_structured_output res))) (\<lambda>_.
              o_return n')))))"

text \<open>\<open>waitForStoredResult\<close>: the store as it is at each of at most 200 attempts.\<close>

definition poll_stored :: "string \<Rightarrow> task_store \<Rightarrow> invoke_result option" where
  "poll_stored tid st =
     (case task_get st tid None of
        None \<Rightarrow> None
      | Some r \<Rightarrow> (case (tr_result r, tr_receipt r) of
          (Some res, Some rc) \<Rightarrow> if tr_status r \<noteq> Accepted then Some \<lparr>iv_result = res, iv_receipt = rc\<rparr> else None
        | _ \<Rightarrow> None))"

fun wait_attempts :: "nat \<Rightarrow> string \<Rightarrow> (nat \<Rightarrow> task_store) \<Rightarrow> orch_error + invoke_result" where
  "wait_attempts 0 tid seen = Inl (WaitTimedOut tid)"
| "wait_attempts (Suc n) tid seen =
     (case poll_stored tid (seen 0) of Some r \<Rightarrow> Inr r | None \<Rightarrow> wait_attempts n tid (\<lambda>i. seen (Suc i)))"

definition waitForStoredResult :: "string \<Rightarrow> (nat \<Rightarrow> task_store) \<Rightarrow> orch_error + invoke_result" where
  "waitForStoredResult tid seen = wait_attempts 200 tid seen"

text \<open>The whole of \<open>dispatch\<close> when nothing else runs in between.\<close>

definition dispatch :: "externals \<Rightarrow> orch_env \<Rightarrow> task_envelope \<Rightarrow> string \<Rightarrow> string option
    \<Rightarrow> negotiation_request option \<Rightarrow> invoke_result orch" where
  "dispatch X ev env cap rv nr =
     o_bind (dispatch_begin X ev env cap rv nr) (\<lambda>nx.
       case nx of
         Finished r \<Rightarrow> o_return r
       | WaitStored tid \<Rightarrow> o_lift (\<lambda>s. waitForStoredResult tid (\<lambda>_. o_tasks s))
       | AwaitExecution out neg \<Rightarrow> finish_execution X ev env cap neg None out)"

section \<open>Approval, cancellation, policy\<close>

text \<open>\<open>String(task.result?.structured_output?.approval_reference ?? "")\<close>; the store only holds strings there.\<close>

definition expected_reference :: "task_record \<Rightarrow> string" where
  "expected_reference r =
     (case tr_result r of None \<Rightarrow> []
      | Some res \<Rightarrow> (case str_of (obj_get (rp_structured_output res) ''approval_reference'') of Some x \<Rightarrow> x | None \<Rightarrow> []))"

definition approval_checks :: "approval_request \<Rightarrow> agent_descriptor \<Rightarrow> orchestrator \<Rightarrow> orch_error + unit" where
  "approval_checks req d s =
     (case task_get (o_tasks s) (ar_task_id req) None of
        None \<Rightarrow> Inl (ApprovalTaskNotFound (ar_task_id req))
      | Some r \<Rightarrow>
          if tr_status r \<noteq> AwaitingApproval then Inl (NotAwaitingApproval (ar_task_id req))
          else if tr_capability r \<noteq> ar_capability req then Inl ApprovalCapabilityMismatch
          else if tr_target_agent r \<noteq> ad_agent_id d then Inl ApprovalTargetMismatch
          else if expected_reference r = [] \<or> expected_reference r \<noteq> ar_approval_reference req
               then Inl InvalidApprovalReference
          else Inr ())"

definition approve_begin :: "externals \<Rightarrow> orch_env \<Rightarrow> approval_request
    \<Rightarrow> ((exec_error + execution_result) \<times> invocation_negotiation) orch" where
  "approve_begin X ev req =
     (let env = ar_envelope req; cap = ar_capability req in
      o_bind (o_guard (xe_validEnvelope X env) InvalidEnvelope) (\<lambda>_.
      o_bind (o_guard (ar_task_id req = te_task_id env) ApprovalTaskIdMismatch) (\<lambda>_.
      o_bind (o_lift (\<lambda>s. resolveDescriptor (o_registry s) (te_target_agent env) cap)) (\<lambda>d.
      o_bind (o_get (\<lambda>s. getCapabilityDescriptor (o_registry s) (te_target_agent env) cap)) (\<lambda>cd.
      o_bind (o_lift (\<lambda>s. negotiateInvocation d cd env (ar_requested_schema_version req) (ar_negotiation req))) (\<lambda>neg.
      o_bind (o_lift (approval_checks req d)) (\<lambda>_.
      o_bind (call_executeApproved X ev (mapEnvelopeToIntent (xe_json X) env cap)) (\<lambda>out.
      o_return (out, neg)))))))))"

definition approve_task :: "externals \<Rightarrow> orch_env \<Rightarrow> approval_request \<Rightarrow> invoke_result orch" where
  "approve_task X ev req =
     o_bind (approve_begin X ev req) (\<lambda>(out, neg).
       finish_execution X ev (ar_envelope req) (ar_capability req) neg (Some (ar_approval_reference req)) out)"

definition cancellable :: "task_status list" where
  "cancellable = [Accepted, Proposed, AwaitingApproval, Running]"

definition cancel_result :: "string \<Rightarrow> task_record \<Rightarrow> result_package" where
  "cancel_result tid r =
     \<lparr>rp_task_id = tid, rp_context_id = None, rp_status = Revoked,
      rp_summary = Some ''Task was cancelled by the requester.'',
      rp_structured_output = [(''target_agent'', JStr (tr_target_agent r)), (''capability'', JStr (tr_capability r)),
         (''previous_status'', JStr (task_status_str (tr_status r)))],
      rp_receipt_ref = None,
      rp_negotiated_schema_version = Option.bind (tr_result r) rp_negotiated_schema_version,
      rp_requested_schema_version = Option.bind (tr_result r) rp_requested_schema_version,
      rp_executed_schema_version = Option.bind (tr_result r) rp_executed_schema_version,
      rp_negotiation = None, rp_redactions_applied = [''internal_reasoning''], rp_followup_required = False,
      rp_escalation_reason = None, rp_extensions = None\<rparr>"

definition cancel_receipt :: "orch_env \<Rightarrow> string \<Rightarrow> task_record \<Rightarrow> receipt" where
  "cancel_receipt ev tid r =
     \<lparr>rc_receipt_id = ''receipt:'' @ tid @ '':cancel'', rc_intent_id = tid, rc_capability = tr_capability r,
      rc_action = Denied, rc_timestamp = oe_now ev, rc_status = Error, rc_task_id = Some tid,
      rc_order_id = None, rc_tenant_id = Some (resolve_tenant (ri_tenant_id (tr_requester r))),
      rc_request_id = Option.bind (tr_receipt r) rc_request_id, rc_agent_id = tr_target_agent r,
      rc_resource_touched = Some (tr_target_agent r), rc_policy_checks = Some [''cancellation_requested''],
      rc_approval_used = None, rc_result_hash = Some (''sha256:'' @ tid @ '':cancel''),
      rc_requested_schema_version = None, rc_executed_schema_version = None, rc_negotiation = None,
      rc_extensions = None, rc_signature = None\<rparr>"

definition cancelTask :: "externals \<Rightarrow> orch_env \<Rightarrow> string \<Rightarrow> string option \<Rightarrow> invoke_result orch" where
  "cancelTask X ev tid tenant =
     o_bind (o_get (\<lambda>s. case truthy_key tenant of
         Some t \<Rightarrow> task_getByTenant (o_tasks s) tid t None
       | None \<Rightarrow> task_get (o_tasks s) tid None)) (\<lambda>found.
     case found of
       None \<Rightarrow> o_throw (TaskNotFound tid)
     | Some r \<Rightarrow>
         if tr_status r \<notin> set cancellable then o_throw (NotCancellable (tr_status r))
         else
           (let res = cancel_result tid r; rc = sign_with X (cancel_receipt ev tid r)
            in o_bind (o_update (oe_now ev) tid (status_update res rc Revoked)) (\<lambda>_.
               o_return \<lparr>iv_result = res, iv_receipt = rc\<rparr>)))"

definition o_setPolicy :: "policy_document \<Rightarrow> orchestrator \<Rightarrow> orchestrator" where
  "o_setPolicy p s = s\<lparr>o_policy := p, o_executor := setPolicy (o_executor s) p\<rparr>"

section \<open>Asynchronous execution\<close>

text \<open>The \<open>run\<close> closure of an enqueued job, with the outcome of the executor's own policy check.\<close>

definition run_async_job :: "externals \<Rightarrow> orch_env \<Rightarrow> async_job \<Rightarrow> unit orch" where
  "run_async_job X ev j =
     o_bind (o_get (\<lambda>s. executeIntent (xe_regex X) (xe_validIntent X) (o_executor s) (core_env ev) (aj_intent j)))
       (\<lambda>(calls, out).
     o_bind (o_log_calls calls) (\<lambda>_.
     case out of
       Inl e \<Rightarrow> o_throw (ExecutionError e)
     | Inr raw \<Rightarrow>
         (let n = normalizeCoreResult X ev raw (aj_envelope j) (aj_capability j) (aj_negotiation j);
              res = iv_result n
          in o_bind (o_update (oe_now ev) (te_task_id (aj_envelope j)) (status_update res (iv_receipt n) (rp_status res))) (\<lambda>_.
             o_bind (o_append (iv_receipt n)) (\<lambda>_.
             notifyWebhook ev (aj_envelope j) (task_status_str (rp_status res)) (rp_summary res)
               (Some (rp_structured_output res)))))))"

text \<open>The \<open>onDeadLetter\<close> closure.\<close>

definition on_dead_letter :: "externals \<Rightarrow> orch_env \<Rightarrow> async_job \<Rightarrow> string \<Rightarrow> unit orch" where
  "on_dead_letter X ev j err =
     (let env = aj_envelope j; cap = aj_capability j;
          res = \<lparr>rp_task_id = te_task_id env, rp_context_id = Some (aj_context_id j), rp_status = Failed,
      rp_summary = Some err, rp_structured_output = target_output cap (aj_descriptor j),
      rp_receipt_ref = None, rp_negotiated_schema_version = None, rp_requested_schema_version = None,
      rp_executed_schema_version = None, rp_negotiation = Some (aj_negotiation j),
      rp_redactions_applied = default_redactions, rp_followup_required = False, rp_escalation_reason = None,
      rp_extensions = te_extensions env\<rparr>;
          rc = sign_with X (buildUnsignedReceipt ev 4 env (aj_descriptor j) cap (cap @ ''.dead_lettered'') (aj_decision j))
      in o_bind (o_update (oe_now ev) (te_task_id env) (status_update res rc Failed)) (\<lambda>_.
         o_bind (o_get (\<lambda>s. Option.bind (task_get (o_tasks s) (te_task_id env) None) tr_receipt)) (\<lambda>stored.
         case stored of
           None \<Rightarrow> o_return ()
         | Some r \<Rightarrow> o_bind (o_append r) (\<lambda>_. notifyWebhook ev env ''failed'' (Some err) None))))"

text \<open>
  \<open>error.message\<close> of what \<open>run\<close> can throw: the executor's errors, the updates of a
  task that moved on meanwhile (\<open>st\<close> is the status the update asked for; the arrow
  of the message is written \<open>->\<close>), a database or a receipt conflict. Its updates
  carry neither identity fields nor foreign ids, so no other store error arises.
\<close>

fun orch_error_msg :: "string \<Rightarrow> task_status \<Rightarrow> orch_error \<Rightarrow> string" where
  "orch_error_msg tid st (ExecutionError (InvalidIntent es)) = ''Invalid intent: '' @ join_with '', '' es"
| "orch_error_msg tid st (ExecutionError (NoAdapter c)) = ''No adapter for capability: '' @ c"
| "orch_error_msg tid st (ExecutionError (InvalidInput es)) = ''Invalid input: '' @ join_with '', '' es"
| "orch_error_msg tid st (ExecutionError (AdapterThrew e)) = e"
| "orch_error_msg tid st (TaskStoreError TerminalTransition) = ''Terminal task state transition is not allowed.''"
| "orch_error_msg tid st (TaskStoreError (InvalidTransition a b)) =
     ''Invalid task state transition: '' @ task_status_str a @ '' -> '' @ task_status_str b @ ''.''"
| "orch_error_msg tid st (TaskStoreError TerminalImmutable) =
     ''Terminal task state is immutable for task '' @ tid @ '' ('' @ task_status_str st @ '').''"
| "orch_error_msg tid st (TaskStoreError UniqueConstraint) = ''UNIQUE constraint failed: tasks.idempotency_key''"
| "orch_error_msg tid st (ReceiptStoreError (ReceiptConflict r)) = ''Receipt conflict for immutable receipt id: '' @ r"
| "orch_error_msg tid st _ = ''Async queue job failed.''"

text \<open>
  The promise of the \<open>i\<close>-th running job settles: its closure ran to the end or
  threw, and the queue goes on. The dead-letter closure is called by the queue
  when the attempt was the last one.
\<close>

definition settle_job :: "externals \<Rightarrow> orch_env \<Rightarrow> 32 word \<Rightarrow> nat \<Rightarrow> orchestrator \<Rightarrow> orchestrator" where
  "settle_job X ev u i s =
     (if i \<ge> length (q_active (o_queue s)) then s
      else
        (let q = q_active (o_queue s) ! i in
         case jm_get (o_jobs s) (qj_taskId q) of
           None \<Rightarrow> s
         | Some j \<Rightarrow>
             (case run_async_job X ev j s of
                (s1, Inr _) \<Rightarrow> s1\<lparr>o_queue := job_fulfilled (oe_now ev) (oe_uuid ev 5) i (o_queue s1)\<rparr>
              | (s1, Inl e) \<Rightarrow>
                  (let st = (case jm_get (ts_tasks (o_tasks s1)) (qj_taskId q) of Some r \<Rightarrow> tr_status r | None \<Rightarrow> Failed);
                       msg = orch_error_msg (qj_taskId q) st e in
                   if qj_attempt q < qc_maxAttempts (q_config (o_queue s1))
                   then s1\<lparr>o_queue := job_rejected (oe_now ev) (oe_uuid ev 5) msg u True i (o_queue s1)\<rparr>
                   else case on_dead_letter X ev j msg s1 of
                          (s2, out) \<Rightarrow>
                            s2\<lparr>o_queue := job_rejected (oe_now ev) (oe_uuid ev 5) msg u (case out of Inr _ \<Rightarrow> True | Inl _ \<Rightarrow> False)
                                 i (o_queue s2)\<rparr>))))"

text \<open>A retry timer fires; a full queue calls the dead-letter closure.\<close>

definition retry_job :: "externals \<Rightarrow> orch_env \<Rightarrow> nat \<Rightarrow> orchestrator \<Rightarrow> orchestrator" where
  "retry_job X ev i s =
     (if i \<ge> length (q_timers (o_queue s)) then s
      else
        (let (q, _, _) = q_timers (o_queue s) ! i;
             full = (length (q_queue (o_queue s)) \<ge> qc_maxQueueDepth (q_config (o_queue s))) in
         case jm_get (o_jobs s) (qj_taskId q) of
           None \<Rightarrow> s
         | Some j \<Rightarrow>
             if q_running (o_queue s) \<and> full
             then (case on_dead_letter X ev j ''Queue capacity reached while retrying job.'' s of
                     (s1, out) \<Rightarrow> s1\<lparr>o_queue := retry_due (oe_now ev) (case out of Inr _ \<Rightarrow> True | Inl _ \<Rightarrow> False) i (o_queue s1)\<rparr>)
             else s\<lparr>o_queue := retry_due (oe_now ev) True i (o_queue s)\<rparr>))"

definition queue_tick :: "ms \<Rightarrow> orchestrator \<Rightarrow> orchestrator" where
  "queue_tick now s = s\<lparr>o_queue := queue_step (o_queue s) (QMicrotask now)\<rparr>"

section \<open>The runtime as a system\<close>

text \<open>
  Every operation, with the awaiting ones split; \<open>OFinish\<close> resumes an execution
  that was started earlier (the continuation holds what it captured).
\<close>

datatype orch_op =
    ODispatch orch_env task_envelope string "string option" "negotiation_request option"
  | OApprove orch_env approval_request
  | OFinish orch_env task_envelope string invocation_negotiation "string option" "exec_error + execution_result"
  | OCancel orch_env string "string option"
  | OSetPolicy policy_document
  | OTick ms
  | OSettle orch_env "32 word" nat
  | ORetry orch_env nat

fun orch_step :: "externals \<Rightarrow> orchestrator \<Rightarrow> orch_op \<Rightarrow> orchestrator" where
  "orch_step X s (ODispatch ev env cap rv nr) = fst (dispatch_begin X ev env cap rv nr s)"
| "orch_step X s (OApprove ev req) = fst (approve_begin X ev req s)"
| "orch_step X s (OFinish ev env cap neg ref out) = fst (finish_execution X ev env cap neg ref out s)"
| "orch_step X s (OCancel ev tid tenant) = fst (cancelTask X ev tid tenant s)"
| "orch_step X s (OSetPolicy p) = o_setPolicy p s"
| "orch_step X s (OTick now) = queue_tick now s"
| "orch_step X s (OSettle ev u i) = settle_job X ev u i s"
| "orch_step X s (ORetry ev i) = retry_job X ev i s"

end
