(* ===== verification/OrchestratorProofs.thy ===== *)
theory OrchestratorProofs
  imports Orchestrator
begin

text \<open>
  The theorems on the orchestrator. Operations are related to their effect by
  \<open>o_rel R s m\<close>: the state \<open>m\<close> leaves when run at \<open>s\<close> stands in the preorder \<open>R\<close> to
  \<open>s\<close>. Two preorders carry the results: \<open>keeps_records\<close> (terminal tasks stay as
  they are, the receipt log grows) and \<open>calls_only P\<close> (every adapter call made
  satisfies \<open>P\<close>).
\<close>

section \<open>Operations and preorders\<close>

definition o_rel :: "(orchestrator \<Rightarrow> orchestrator \<Rightarrow> bool) \<Rightarrow> orchestrator \<Rightarrow> 'a orch \<Rightarrow> bool" where
  "o_rel R s m \<longleftrightarrow> R s (fst (m s))"

text \<open>What a proof about operations needs of a relation between states.\<close>

locale state_preorder =
  fixes R :: "orchestrator \<Rightarrow> orchestrator \<Rightarrow> bool"
  assumes R_refl: "R s s"
    and R_trans: "R s t \<Longrightarrow> R t u \<Longrightarrow> R s u"
begin

lemma rel_return: "o_rel R s (o_return x)"
  by (simp add: o_rel_def o_return_def R_refl)

lemma rel_throw: "o_rel R s (o_throw e)"
  by (simp add: o_rel_def o_throw_def R_refl)

lemma rel_guard: "o_rel R s (o_guard b e)"
  by (simp add: o_guard_def rel_return rel_throw)

lemma rel_get: "o_rel R s (o_get f)"
  by (simp add: o_rel_def o_get_def R_refl)

lemma rel_lift: "o_rel R s (o_lift f)"
  by (simp add: o_rel_def o_lift_def R_refl)

lemma rel_modify: "R s (f s) \<Longrightarrow> o_rel R s (o_modify f)"
  by (simp add: o_rel_def o_modify_def)

lemma rel_bind:
  "o_rel R s m \<Longrightarrow> (\<And>s1 x. m s = (s1, Inr x) \<Longrightarrow> o_rel R s1 (f x)) \<Longrightarrow> o_rel R s (o_bind m f)"
  by (cases "m s"; cases "snd (m s)") (auto simp: o_rel_def o_bind_def intro: R_trans)

lemmas rel_pure = rel_return rel_throw rel_guard rel_get rel_lift

end

lemma guard_ok: "o_guard b e s = (s1, Inr x) \<longleftrightarrow> b \<and> s1 = s"
  by (auto simp: o_guard_def o_return_def o_throw_def)

lemma get_ok: "o_get f s = (s1, Inr x) \<longleftrightarrow> s1 = s \<and> x = f s"
  by (auto simp: o_get_def)

lemma lift_ok: "o_lift f s = (s1, Inr x) \<longleftrightarrow> s1 = s \<and> f s = Inr x"
  by (auto simp: o_lift_def)

lemma return_ok: "o_return y s = (s1, Inr x) \<longleftrightarrow> s1 = s \<and> x = y"
  by (auto simp: o_return_def)

lemma throw_ok: "o_throw e s = (s1, Inr x) \<longleftrightarrow> False"
  by (auto simp: o_throw_def)

lemma bind_ok: "o_bind m f s = (s2, Inr y) \<longleftrightarrow> (\<exists>s1 x. m s = (s1, Inr x) \<and> f x s1 = (s2, Inr y))"
  by (auto simp: o_bind_def split: prod.splits sum.splits)

lemmas orch_ok = guard_ok get_ok lift_ok return_ok throw_ok bind_ok

section \<open>Adapter calls\<close>

definition calls_only :: "(adapter_call \<Rightarrow> bool) \<Rightarrow> orchestrator \<Rightarrow> orchestrator \<Rightarrow> bool" where
  "calls_only P s s' \<longleftrightarrow> (\<exists>cs. o_calls s' = o_calls s @ cs \<and> list_all P cs)"

interpretation calls: state_preorder "calls_only P" for P
proof
  show "calls_only P s s" for s by (simp add: calls_only_def)
  show "calls_only P s u" if "calls_only P s t" "calls_only P t u" for s t u
    using that by (auto simp: calls_only_def)
qed

lemma calls_same: "o_calls s' = o_calls s \<Longrightarrow> calls_only P s s'"
  by (simp add: calls_only_def)

lemma calls_prims:
  "o_rel (calls_only P) s (o_save now p)"
  "o_rel (calls_only P) s (o_update now tid u)"
  "o_rel (calls_only P) s (o_append r)"
  "o_rel (calls_only P) s (o_notify_approval X n)"
  "o_rel (calls_only P) s (o_enqueue tid q j)"
  "o_rel (calls_only P) s (notifyWebhook ev env st sm out)"
  by (auto simp: o_rel_def o_save_def o_update_def o_append_def o_notify_approval_def o_throw_def o_modify_def o_enqueue_def
      notifyWebhook_def o_return_def intro!: calls_same split: prod.splits sum.splits option.splits)

lemma call_executeApproved_calls:
  assumes "\<And>c. ac_capability c = it_capability (normalize it) \<Longrightarrow> ac_input c = it_input it \<Longrightarrow>
      vr_valid (xe_validIntent X it) \<Longrightarrow> P c"
  shows "o_rel (calls_only P) s (call_executeApproved X ev it)"
proof -
  let ?r = "executeApproved (xe_validIntent X) (o_executor s) (core_env ev) it"
  have "list_all P (fst ?r)"
  proof (cases "vr_valid (xe_validIntent X it)")
    case True
    then have "fst ?r = fst (executeNormalizedIntent (ex_adapters (o_executor s)) (core_env ev) (normalize it))"
      by (simp add: executeApproved_def Let_def)
    from executeNormalizedIntent_calls [OF this] show ?thesis
      using assms True by (auto simp: list_all_iff normalize_def)
  qed (simp add: executeApproved_def Let_def)
  then show ?thesis
    by (auto simp: o_rel_def call_executeApproved_def o_bind_def o_get_def o_log_calls_def o_modify_def o_return_def
        calls_only_def split: prod.split)
qed

lemma dispatch_sync_calls:
  assumes "\<And>c. ac_capability c = it_capability (normalize it) \<Longrightarrow> ac_input c = it_input it \<Longrightarrow> P c"
  shows "o_rel (calls_only P) s (dispatch_sync X ev env cap d ctx neg dec it)"
  unfolding dispatch_sync_def Let_def
  by (intro calls.rel_bind calls_prims call_executeApproved_calls calls.rel_pure) (use assms in auto)

lemma dispatch_async_calls: "o_rel (calls_only P) s (dispatch_async X ev env cap d ctx neg dec it)"
  unfolding dispatch_async_def Let_def
  by (intro calls.rel_bind calls_prims calls.rel_pure)
     (auto intro!: calls.rel_bind calls.rel_pure calls_prims simp: o_rel_def o_return_def o_bind_def o_throw_def
        intro: calls_same split: prod.splits sum.splits)

lemma dispatch_for_approval_calls: "o_rel (calls_only P) s (dispatch_for_approval X ev env cap d ctx neg dec)"
  unfolding dispatch_for_approval_def Let_def
  by (intro calls.rel_bind calls_prims calls.rel_pure)

text \<open>What justifies an adapter call of \<open>dispatch\<close>.\<close>

definition allowed_by_policy :: "externals \<Rightarrow> policy_document \<Rightarrow> task_envelope \<Rightarrow> string \<Rightarrow> adapter_call \<Rightarrow> bool" where
  "allowed_by_policy X p env cap c \<longleftrightarrow>
     pd_action (evaluate (xe_regex X) (normalize (mapEnvelopeToIntent (xe_json X) env cap)) p) = Allow \<and>
     ac_capability c = it_capability (normalize (mapEnvelopeToIntent (xe_json X) env cap)) \<and>
     ac_input c = it_input (mapEnvelopeToIntent (xe_json X) env cap)"

lemma dispatch_new_calls:
  assumes "\<And>c. allowed_by_policy X (o_policy s) env cap c \<Longrightarrow> P c"
  shows "o_rel (calls_only P) s (dispatch_new X ev env cap rv nr d cd ctx)"
  unfolding dispatch_new_def
proof (intro calls.rel_bind calls.rel_pure)
  fix s1 neg s2 dec
  assume "o_lift (\<lambda>s. negotiateInvocation d cd env rv nr) s = (s1, Inr neg)"
    and "o_get (\<lambda>s. o_evaluatePolicy X (o_policy s) env cap) s1 = (s2, Inr dec)"
  then have dec: "dec = o_evaluatePolicy X (o_policy s) env cap" by (simp add: orch_ok)
  let ?it = "mapEnvelopeToIntent (xe_json X) env cap"
  show "o_rel (calls_only P) s2 (case od_action dec of
       Deny \<Rightarrow> o_bind (notifyWebhook ev env ''denied'' (Some (od_reason dec)) None) (\<lambda>_. o_throw (DeniedByPolicy (od_reason dec)))
     | RequireApproval \<Rightarrow> dispatch_for_approval X ev env cap d ctx neg dec
     | Allow \<Rightarrow>
         (let it = ?it; v = xe_validIntent X it in
          o_bind (o_guard (vr_valid v) (InvalidCoreIntent (map snd (vr_errors v)))) (\<lambda>_.
          if ns_delivery_mode (in_selected neg) = Async \<or> metadata_async env
          then dispatch_async X ev env cap d ctx neg dec it
          else dispatch_sync X ev env cap d ctx neg dec it)))"
  proof (cases "od_action dec")
    case Allow
    then have "\<And>c. ac_capability c = it_capability (normalize ?it) \<Longrightarrow> ac_input c = it_input ?it \<Longrightarrow> P c"
      using assms by (simp add: allowed_by_policy_def dec o_evaluatePolicy_def Let_def)
    then show ?thesis
      by (simp add: Allow Let_def)
         (intro calls.rel_bind calls.rel_pure impI conjI dispatch_async_calls dispatch_sync_calls; simp)
  qed (auto intro!: calls.rel_bind calls_prims calls.rel_pure dispatch_for_approval_calls)
qed

context state_preorder begin

text \<open>The checks before \<open>dispatch_new\<close> leave the state alone.\<close>

lemma rel_dispatch_begin:
  assumes "\<And>d cd ctx. xe_validEnvelope X env \<Longrightarrow> resolveDescriptor (o_registry s) (te_target_agent env) cap = Inr d \<Longrightarrow>
     dispatch_replay env cap d s = Inr None \<Longrightarrow> o_rel R s (dispatch_new X ev env cap rv nr d cd ctx)"
  shows "o_rel R s (dispatch_begin X ev env cap rv nr)"
  unfolding dispatch_begin_def Let_def
proof (intro rel_bind rel_pure)
  fix s1 s2 s3 s4 s5 x d cd y replay
  assume "o_guard (xe_validEnvelope X env) InvalidEnvelope s = (s1, Inr x)"
    and "o_lift (\<lambda>s. resolveDescriptor (o_registry s) (te_target_agent env) cap) s1 = (s2, Inr d)"
    and "o_get (\<lambda>s. getCapabilityDescriptor (o_registry s) (te_target_agent env) cap) s2 = (s3, Inr cd)"
  then have s: "s3 = s" "xe_validEnvelope X env" "resolveDescriptor (o_registry s) (te_target_agent env) cap = Inr d"
    by (simp_all add: orch_ok)
  show "o_rel R s3 (case missing_extension d env of Some e \<Rightarrow> o_throw (ExtensionRequired (ax_uri e)) | None \<Rightarrow> o_return ())"
    by (auto intro: rel_pure split: option.split)
  assume "(case missing_extension d env of Some e \<Rightarrow> o_throw (ExtensionRequired (ax_uri e)) | None \<Rightarrow> o_return ()) s3 = (s4, Inr y)"
    and "o_lift (dispatch_replay env cap d) s4 = (s5, Inr replay)"
  then have r: "s5 = s" "dispatch_replay env cap d s = Inr replay"
    using s by (auto simp: orch_ok split: option.splits)
  show "o_rel R s5 (case replay of Some nx \<Rightarrow> o_return nx
     | None \<Rightarrow> dispatch_new X ev env cap rv nr d cd (case te_context_id env of Some c \<Rightarrow> c | None \<Rightarrow> oe_uuid ev 0))"
    using assms s r by (cases replay) (simp_all add: rel_pure)
qed

end

text \<open>What justifies an adapter call of \<open>approve\<close>: the stored task the request names.\<close>

definition approval_valid :: "approval_request \<Rightarrow> orchestrator \<Rightarrow> bool" where
  "approval_valid req s \<longleftrightarrow>
     (\<exists>r. jm_get (ts_tasks (o_tasks s)) (ar_task_id req) = Some r \<and> tr_status r = AwaitingApproval \<and>
        tr_capability r = ar_capability req \<and> expected_reference r = ar_approval_reference req \<and>
        ar_approval_reference req \<noteq> [])"

lemma approval_checks_ok: "approval_checks req d s = Inr x \<Longrightarrow> approval_valid req s"
  by (auto simp: approval_checks_def approval_valid_def task_get_def applyHistoryLength_def split: option.splits if_splits)

lemma approve_begin_calls:
  assumes "\<And>c. approval_valid req s \<Longrightarrow>
      ac_capability c = it_capability (normalize (mapEnvelopeToIntent (xe_json X) (ar_envelope req) (ar_capability req))) \<Longrightarrow>
      ac_input c = it_input (mapEnvelopeToIntent (xe_json X) (ar_envelope req) (ar_capability req)) \<Longrightarrow> P c"
  shows "o_rel (calls_only P) s (approve_begin X ev req)"
  unfolding approve_begin_def Let_def
proof (intro calls.rel_bind calls.rel_pure call_executeApproved_calls)
  fix s1 s2 s3 s4 s5 s6 x1 x2 d cd neg x3 and c :: adapter_call
  assume "o_guard (xe_validEnvelope X (ar_envelope req)) InvalidEnvelope s = (s1, Inr x1)"
    and "o_guard (ar_task_id req = te_task_id (ar_envelope req)) ApprovalTaskIdMismatch s1 = (s2, Inr x2)"
    and "o_lift (\<lambda>s. resolveDescriptor (o_registry s) (te_target_agent (ar_envelope req)) (ar_capability req)) s2 = (s3, Inr d)"
    and "o_get (\<lambda>s. getCapabilityDescriptor (o_registry s) (te_target_agent (ar_envelope req)) (ar_capability req)) s3 = (s4, Inr cd)"
    and "o_lift (\<lambda>s. negotiateInvocation d cd (ar_envelope req) (ar_requested_schema_version req) (ar_negotiation req)) s4 = (s5, Inr neg)"
    and "o_lift (approval_checks req d) s5 = (s6, Inr x3)"
  then have "approval_valid req s" by (auto simp: orch_ok dest: approval_checks_ok)
  moreover assume "ac_capability c = it_capability (normalize (mapEnvelopeToIntent (xe_json X) (ar_envelope req) (ar_capability req)))"
    and "ac_input c = it_input (mapEnvelopeToIntent (xe_json X) (ar_envelope req) (ar_capability req))"
  ultimately show "P c" using assms by blast
qed

lemma finish_execution_calls: "o_rel (calls_only P) s (finish_execution X ev env cap neg ref out)"
  unfolding finish_execution_def Let_def
  by (auto split: sum.split intro!: calls.rel_bind calls_prims calls.rel_pure)

lemma cancelTask_calls: "o_rel (calls_only P) s (cancelTask X ev tid tenant)"
  unfolding cancelTask_def Let_def
  by (intro calls.rel_bind calls.rel_pure) (auto split: option.split intro!: calls.rel_bind calls_prims calls.rel_pure)

definition allowed_by_executor :: "externals \<Rightarrow> orchestrator \<Rightarrow> async_job \<Rightarrow> adapter_call \<Rightarrow> bool" where
  "allowed_by_executor X s j c \<longleftrightarrow>
     pd_action (evaluate (xe_regex X) (normalize (aj_intent j)) (ex_policy (o_executor s))) = Allow \<and>
     ac_capability c = it_capability (normalize (aj_intent j)) \<and> ac_input c = it_input (aj_intent j)"

lemma run_async_job_calls: "o_rel (calls_only (allowed_by_executor X s j)) s (run_async_job X ev j)"
  unfolding run_async_job_def
proof (intro calls.rel_bind calls.rel_pure)
  fix s1 res
  assume g: "o_get (\<lambda>s. executeIntent (xe_regex X) (xe_validIntent X) (o_executor s) (core_env ev) (aj_intent j)) s = (s1, Inr res)"
  obtain cs out where res: "res = (cs, out)" by (cases res)
  have s1: "s1 = s" and e: "executeIntent (xe_regex X) (xe_validIntent X) (o_executor s) (core_env ev) (aj_intent j) = (cs, out)"
    using g by (simp_all add: orch_ok res)
  have "list_all (allowed_by_executor X s j) cs"
  proof (cases "cs = []")
    case False
    then have a: "vr_valid (xe_validIntent X (aj_intent j))"
      "pd_action (evaluate (xe_regex X) (normalize (aj_intent j)) (ex_policy (o_executor s))) = Allow"
      using executeIntent_calls_allowed [of "xe_regex X" "xe_validIntent X" "o_executor s" "core_env ev" "aj_intent j"] e by auto
    then have "cs = fst (executeNormalizedIntent (ex_adapters (o_executor s)) (core_env ev) (normalize (aj_intent j)))"
      using e by (auto simp: executeIntent_def Let_def split: prod.splits sum.splits)
    from executeNormalizedIntent_calls [OF this] a show ?thesis
      by (auto simp: list_all_iff allowed_by_executor_def normalize_def)
  qed simp
  then have "o_rel (calls_only (allowed_by_executor X s j)) s1 (o_log_calls cs)"
    by (auto simp: o_rel_def o_log_calls_def o_modify_def calls_only_def)
  then show "o_rel (calls_only (allowed_by_executor X s j)) s1 (case res of (calls, out) \<Rightarrow>
       o_bind (o_log_calls calls) (\<lambda>_.
       case out of Inl e \<Rightarrow> o_throw (ExecutionError e)
       | Inr raw \<Rightarrow>
         (let n = normalizeCoreResult X ev raw (aj_envelope j) (aj_capability j) (aj_negotiation j); res = iv_result n
          in o_bind (o_update (oe_now ev) (te_task_id (aj_envelope j)) (status_update res (iv_receipt n) (rp_status res))) (\<lambda>_.
             o_bind (o_append (iv_receipt n)) (\<lambda>_.
             notifyWebhook ev (aj_envelope j) (task_status_str (rp_status res)) (rp_summary res)
               (Some (rp_structured_output res)))))))"
    unfolding res prod.case Let_def
    by (intro calls.rel_bind) (auto split: sum.split intro!: calls.rel_bind calls_prims calls.rel_pure)
qed

lemma on_dead_letter_calls: "o_rel (calls_only P) s (on_dead_letter X ev j err)"
  unfolding on_dead_letter_def Let_def
  by (intro calls.rel_bind calls_prims calls.rel_pure)
     (auto split: option.split intro!: calls.rel_bind calls_prims calls.rel_pure)

text \<open>The justification of an adapter call by the operation that makes it.\<close>

fun justified :: "externals \<Rightarrow> orchestrator \<Rightarrow> orch_op \<Rightarrow> adapter_call \<Rightarrow> bool" where
  "justified X s (ODispatch ev env cap rv nr) c = allowed_by_policy X (o_policy s) env cap c"
| "justified X s (OApprove ev req) c =
     (approval_valid req s \<and>
      ac_capability c = it_capability (normalize (mapEnvelopeToIntent (xe_json X) (ar_envelope req) (ar_capability req))) \<and>
      ac_input c = it_input (mapEnvelopeToIntent (xe_json X) (ar_envelope req) (ar_capability req)))"
| "justified X s (OSettle ev u i) c =
     (i < length (q_active (o_queue s)) \<and>
      (\<exists>j. jm_get (o_jobs s) (qj_taskId (q_active (o_queue s) ! i)) = Some j \<and> allowed_by_executor X s j c))"
| "justified X s _ c = False"

lemma settle_job_calls: "calls_only (justified X s (OSettle ev u i)) s (settle_job X ev u i s)"
proof (cases "i < length (q_active (o_queue s))")
  case True
  let ?q = "q_active (o_queue s) ! i"
  show ?thesis
  proof (cases "jm_get (o_jobs s) (qj_taskId ?q)")
    case (Some j)
    have imp: "allowed_by_executor X s j c \<Longrightarrow> justified X s (OSettle ev u i) c" for c
      using True Some by simp
    have run: "calls_only (justified X s (OSettle ev u i)) s (fst (run_async_job X ev j s))"
      using run_async_job_calls [of X s j ev] imp by (auto simp: o_rel_def calls_only_def list_all_iff)
    have dead: "calls_only P s1 (fst (on_dead_letter X ev j m s1))" for P s1 m
      using on_dead_letter_calls [of P s1] by (simp add: o_rel_def)
    show ?thesis
    proof (cases "run_async_job X ev j s")
      case (Pair s1 r)
      then have s1: "calls_only (justified X s (OSettle ev u i)) s s1" using run by simp
      have q: "calls_only (justified X s (OSettle ev u i)) s (s2\<lparr>o_queue := x\<rparr>)"
        if "calls_only (justified X s (OSettle ev u i)) s1 s2" for s2 x
        using calls.R_trans [OF s1 that] by (simp add: calls_only_def)
      show ?thesis
        using True Some q calls.R_refl dead [of "justified X s (OSettle ev u i)" s1]
        by (auto simp: settle_job_def Let_def Pair case_prod_unfold split: sum.split)
    qed
  qed (use True in \<open>simp add: settle_job_def Let_def calls.R_refl\<close>)
qed (simp add: settle_job_def calls.R_refl)

lemma retry_job_calls: "calls_only P s (retry_job X ev i s)"
  using on_dead_letter_calls [of P s X ev]
  by (auto simp: retry_job_def Let_def o_rel_def calls_only_def case_prod_unfold split: option.split)

lemma orch_step_calls: "calls_only (justified X s e) s (orch_step X s e)"
proof (cases e)
  case (ODispatch ev env cap rv nr)
  have "o_rel (calls_only (justified X s e)) s (dispatch_begin X ev env cap rv nr)"
    by (intro calls.rel_dispatch_begin dispatch_new_calls) (simp add: ODispatch)
  then show ?thesis by (simp add: ODispatch o_rel_def)
next
  case (OApprove ev req)
  have "o_rel (calls_only (justified X s e)) s (approve_begin X ev req)"
    by (intro approve_begin_calls) (simp add: OApprove)
  then show ?thesis by (simp add: OApprove o_rel_def)
next
  case (OSettle ev u i)
  then show ?thesis using settle_job_calls by simp
qed (use finish_execution_calls cancelTask_calls retry_job_calls in
      \<open>auto simp: o_rel_def o_setPolicy_def queue_tick_def calls_only_def\<close>)

section \<open>Records\<close>

definition tasks_complete :: "task_store \<Rightarrow> bool" where
  "tasks_complete st \<longleftrightarrow> (\<forall>k r. jm_get (ts_tasks st) k = Some r \<longrightarrow>
     tr_result r \<noteq> None \<and> tr_receipt r \<noteq> None \<and> tr_task_id r = k)"

definition records_ok :: "orchestrator \<Rightarrow> bool" where
  "records_ok s \<longleftrightarrow> tasks_complete (o_tasks s) \<and> receipts_ok (o_receipts s)"

definition keeps_records :: "orchestrator \<Rightarrow> orchestrator \<Rightarrow> bool" where
  "keeps_records s s' \<longleftrightarrow> (records_ok s \<longrightarrow> records_ok s' \<and>
     (\<forall>tid x. terminal_payload tid (o_tasks s) = Some x \<longrightarrow> terminal_payload tid (o_tasks s') = Some x) \<and>
     prefix (receipt_list_all (o_receipts s)) (receipt_list_all (o_receipts s')))"

interpretation recs: state_preorder keeps_records
proof
  show "keeps_records s u" if "keeps_records s t" "keeps_records t u" for s t u
    using that prefix_order.order_trans unfolding keeps_records_def by blast
qed (simp add: keeps_records_def)

lemma keeps_same: "o_tasks s' = o_tasks s \<Longrightarrow> o_receipts s' = o_receipts s \<Longrightarrow> keeps_records s s'"
  by (simp add: keeps_records_def records_ok_def)

lemma recs_prims:
  "o_rel keeps_records s (o_notify_approval X n)"
  "o_rel keeps_records s (o_enqueue tid q j)"
  "o_rel keeps_records s (notifyWebhook ev env st sm out)"
  "o_rel keeps_records s (o_log_calls cs)"
  by (auto simp: o_rel_def o_notify_approval_def o_throw_def o_modify_def o_enqueue_def notifyWebhook_def o_return_def o_log_calls_def
      intro!: keeps_same split: prod.splits option.splits)

lemma recs_append: "o_rel keeps_records s (o_append r)"
proof -
  obtain rs res where a: "receipt_append (o_receipts s) r = (rs, res)" by fastforce
  have "keeps_records s (s\<lparr>o_receipts := rs\<rparr>)"
    using append_ok [of "o_receipts s" r] append_prefix [of "o_receipts s" r] a
    by (simp add: keeps_records_def records_ok_def)
  then show ?thesis by (auto simp: o_rel_def o_append_def a split: sum.split)
qed

lemma updated_complete:
  assumes "tasks_complete st"
  shows "tasks_complete (fst (task_update st now tid (status_update res rc x)))"
proof (cases "jm_get (ts_tasks st) tid")
  case (Some e)
  have "tr_task_id (updated_record e (status_update res rc x) now) = tid"
    using assms Some by (simp add: updated_record_def tasks_complete_def)
  then show ?thesis
    using assms Some
    by (auto simp: task_update_def Let_def tasks_complete_def task_persist_frame jm_get_set updated_record_def
        status_update_def or_option_def split: option.split)
qed (use assms in \<open>simp add: task_update_def\<close>)

lemma recs_update: "o_rel keeps_records s (o_update now tid (status_update res rc x))"
proof -
  let ?u = "status_update res rc x"
  have "keeps_records s (s\<lparr>o_tasks := fst (task_update (o_tasks s) now tid ?u)\<rparr>)"
    using updated_complete [of "o_tasks s" now tid res rc x]
      task_payload.step_stable [of _ "o_tasks s" _ "TUpdate now tid ?u"]
    by (simp add: keeps_records_def records_ok_def)
  then show ?thesis
    by (cases "task_update (o_tasks s) now tid ?u"; cases "snd (task_update (o_tasks s) now tid ?u)")
       (auto simp: o_rel_def o_update_def)
qed

lemma save_new:
  assumes "jm_get (ts_tasks st) (sp_task_id p) = None"
  shows "ts_tasks (fst (task_save st now p)) = ts_tasks st \<or>
    ts_tasks (fst (task_save st now p)) = jm_set (sp_task_id p) (saved_record p now) (ts_tasks st)"
  by (auto simp: task_save_def Let_def task_persist_frame saved_record_def split: option.split)

lemma recs_save:
  assumes "records_ok s \<Longrightarrow> jm_get (ts_tasks (o_tasks s)) (sp_task_id p) = None"
  shows "o_rel keeps_records s (o_save now p)"
proof -
  let ?st = "fst (task_save (o_tasks s) now p)"
  have "keeps_records s (s\<lparr>o_tasks := ?st\<rparr>)"
    unfolding keeps_records_def
  proof
    assume ok: "records_ok s"
    from save_new [OF assms [OF ok], of now]
    show "records_ok (s\<lparr>o_tasks := ?st\<rparr>) \<and>
      (\<forall>tid x. terminal_payload tid (o_tasks s) = Some x \<longrightarrow> terminal_payload tid (o_tasks (s\<lparr>o_tasks := ?st\<rparr>)) = Some x) \<and>
      prefix (receipt_list_all (o_receipts s)) (receipt_list_all (o_receipts (s\<lparr>o_tasks := ?st\<rparr>)))"
    proof
      assume "ts_tasks ?st = ts_tasks (o_tasks s)"
      then show ?thesis using ok by (simp add: records_ok_def tasks_complete_def terminal_payload_def)
    next
      assume new: "ts_tasks ?st = jm_set (sp_task_id p) (saved_record p now) (ts_tasks (o_tasks s))"
      then have "tasks_complete ?st"
        using ok by (auto simp: records_ok_def tasks_complete_def jm_get_set saved_record_def)
      moreover have "terminal_payload tid ?st = Some x" if "terminal_payload tid (o_tasks s) = Some x" for tid x
        using that new assms [OF ok] by (auto simp: terminal_payload_def jm_get_set split: option.splits)
      ultimately show ?thesis using ok by (simp add: records_ok_def)
    qed
  qed
  then show ?thesis
    by (cases "task_save (o_tasks s) now p"; cases "snd (task_save (o_tasks s) now p)") (auto simp: o_rel_def o_save_def)
qed

lemma save_ok_get:
  assumes "o_save now p s = (s1, Inr x)"
  shows "\<exists>r. jm_get (ts_tasks (o_tasks s1)) (sp_task_id p) = Some r \<and> tr_status r = rp_status (sp_result p)"
proof -
  have "save_conflict (o_tasks s) p = None" and "o_tasks s1 = fst (task_save (o_tasks s) now p)"
    using assms by (auto simp: o_save_def task_save_def split: prod.splits sum.splits option.splits)
  then show ?thesis
    by (simp add: task_save_def Let_def task_persist_frame jm_get_set saved_record_def)
qed

lemma recs_delete:
  assumes "\<exists>r. jm_get (ts_tasks (o_tasks s)) tid = Some r \<and> \<not> isTerminal (tr_status r)"
  shows "o_rel keeps_records s (\<lambda>s. case task_delete (o_tasks s) tid of
      (ts, Inl e) \<Rightarrow> (s\<lparr>o_tasks := ts\<rparr>, Inl (TaskStoreError e)) | (ts, Inr _) \<Rightarrow> (s\<lparr>o_tasks := ts\<rparr>, Inr ()))"
proof -
  have "ts_tasks (fst (task_delete (o_tasks s) tid)) = jm_del tid (ts_tasks (o_tasks s))"
    using assms by (auto simp: task_delete_def Let_def task_persist_frame)
  then have "keeps_records s (s\<lparr>o_tasks := fst (task_delete (o_tasks s) tid)\<rparr>)"
    using assms
    by (auto simp: keeps_records_def records_ok_def tasks_complete_def terminal_payload_def jm_get_del split: if_splits)
  then show ?thesis
    by (cases "task_delete (o_tasks s) tid"; cases "snd (task_delete (o_tasks s) tid)") (auto simp: o_rel_def)
qed

lemma append_tasks: "o_append r s = (s1, x) \<Longrightarrow> o_tasks s1 = o_tasks s"
  by (auto simp: o_append_def split: prod.splits sum.splits)

lemma enqueue_tasks: "o_enqueue t p j s = (s1, x) \<Longrightarrow> o_tasks s1 = o_tasks s"
  by (auto simp: o_enqueue_def split: prod.splits)

lemma dispatch_async_recs:
  assumes "records_ok s \<Longrightarrow> jm_get (ts_tasks (o_tasks s)) (te_task_id env) = None"
  shows "o_rel keeps_records s (dispatch_async X ev env cap d ctx neg dec it)"
  unfolding dispatch_async_def Let_def
proof (intro recs.rel_bind recs.rel_pure recs_append recs_prims recs_save)
  fix s1 room s2 y s3 z s4 w s5 accepted
  assume g: "o_get (hasCapacity \<circ> o_queue) s = (s1, Inr room)" "o_guard room QueueCapacityExceeded s1 = (s2, Inr y)"
  then have s2: "s2 = s" by (simp add: orch_ok)
  show "records_ok s2 \<Longrightarrow> jm_get (ts_tasks (o_tasks s2)) (sp_task_id (task_save_params env ctx (resolveIdempotencyKey env) cap d r q)) = None" for r q
    using assms by (simp add: s2 task_save_params_def)
  assume sv: "o_save (oe_now ev) (task_save_params env ctx (resolveIdempotencyKey env) cap d
      (dispatch_result env ctx neg Running ''Task accepted and running asynchronously.''
         (target_output cap d @ [(''poll_path'', JStr (''/tasks/'' @ te_task_id env))]) True None)
      (sign_with X (buildUnsignedReceipt ev 1 env d cap (cap @ ''.running'') dec))) s2 = (s3, Inr z)"
    and ap: "o_append (sign_with X (buildUnsignedReceipt ev 1 env d cap (cap @ ''.running'') dec)) s3 = (s4, Inr w)"
    and en: "o_enqueue (te_task_id env) \<lparr>eq_taskId = te_task_id env,
             eq_tenantId = Some (resolve_tenant (ri_tenant_id (te_requester env))),
             eq_idempotencyToken = te_idempotency_token env\<rparr>
          \<lparr>aj_intent = it, aj_envelope = env, aj_capability = cap, aj_context_id = ctx, aj_descriptor = d,
                 aj_decision = dec, aj_negotiation = neg\<rparr> s4 = (s5, Inr accepted)"
  have "\<exists>r. jm_get (ts_tasks (o_tasks s5)) (te_task_id env) = Some r \<and> \<not> isTerminal (tr_status r)"
    using save_ok_get [OF sv] append_tasks [OF ap] enqueue_tasks [OF en]
    by (auto simp: task_save_params_def dispatch_result_def isTerminal_def terminal_statuses_def)
  then show "o_rel keeps_records s5 (if accepted then o_return (Finished \<lparr>iv_result = r, iv_receipt = q\<rparr>)
         else o_bind (\<lambda>s. case task_delete (o_tasks s) (te_task_id env) of
                  (ts, Inl e) \<Rightarrow> (s\<lparr>o_tasks := ts\<rparr>, Inl (TaskStoreError e))
                | (ts, Inr _) \<Rightarrow> (s\<lparr>o_tasks := ts\<rparr>, Inr ())) (\<lambda>_. o_throw QueueCapacityExceeded))" for r q
    by (auto intro!: recs.rel_pure recs.rel_bind recs_delete)
qed

lemma call_recs: "o_rel keeps_records s (call_executeApproved X ev it)"
  unfolding call_executeApproved_def by (intro recs.rel_bind recs.rel_pure) (auto intro!: recs.rel_bind recs_prims recs.rel_pure split: prod.split)

lemma dispatch_sync_recs:
  assumes "records_ok s \<Longrightarrow> jm_get (ts_tasks (o_tasks s)) (te_task_id env) = None"
  shows "o_rel keeps_records s (dispatch_sync X ev env cap d ctx neg dec it)"
  unfolding dispatch_sync_def Let_def
  by (intro recs.rel_bind recs_save call_recs recs.rel_pure) (use assms in \<open>simp add: task_save_params_def\<close>)

lemma dispatch_for_approval_recs:
  assumes "records_ok s \<Longrightarrow> jm_get (ts_tasks (o_tasks s)) (te_task_id env) = None"
  shows "o_rel keeps_records s (dispatch_for_approval X ev env cap d ctx neg dec)"
  unfolding dispatch_for_approval_def Let_def
  by (intro recs.rel_bind recs_save recs_append recs_prims recs.rel_pure)
     (use assms in \<open>simp add: task_save_params_def orch_ok\<close>)

lemma dispatch_new_recs:
  assumes "records_ok s \<Longrightarrow> jm_get (ts_tasks (o_tasks s)) (te_task_id env) = None"
  shows "o_rel keeps_records s (dispatch_new X ev env cap rv nr d cd ctx)"
  unfolding dispatch_new_def Let_def
proof (intro recs.rel_bind recs.rel_pure)
  fix s1 neg s2 dec
  assume "o_lift (\<lambda>s. negotiateInvocation d cd env rv nr) s = (s1, Inr neg)"
    and "o_get (\<lambda>s. o_evaluatePolicy X (o_policy s) env cap) s1 = (s2, Inr dec)"
  then have s2: "s2 = s" by (simp add: orch_ok)
  show "o_rel keeps_records s2 (case od_action dec of
       Allow \<Rightarrow> o_bind (o_guard (vr_valid (xe_validIntent X (mapEnvelopeToIntent (xe_json X) env cap)))
                (InvalidCoreIntent (map snd (vr_errors (xe_validIntent X (mapEnvelopeToIntent (xe_json X) env cap)))))) (\<lambda>_.
          if ns_delivery_mode (in_selected neg) = Async \<or> metadata_async env
          then dispatch_async X ev env cap d ctx neg dec (mapEnvelopeToIntent (xe_json X) env cap)
          else dispatch_sync X ev env cap d ctx neg dec (mapEnvelopeToIntent (xe_json X) env cap))
     | Deny \<Rightarrow> o_bind (notifyWebhook ev env ''denied'' (Some (od_reason dec)) None) (\<lambda>_. o_throw (DeniedByPolicy (od_reason dec)))
     | RequireApproval \<Rightarrow> dispatch_for_approval X ev env cap d ctx neg dec)"
  proof (cases "od_action dec")
    case Allow
    show ?thesis
      unfolding Allow policy_action.case
      by (intro recs.rel_bind recs.rel_pure)
         (use assms s2 in \<open>auto simp: orch_ok intro!: dispatch_async_recs dispatch_sync_recs\<close>)
  qed (auto intro!: recs.rel_bind recs_prims recs.rel_pure dispatch_for_approval_recs simp: s2 assms)
qed

lemma stored_complete:
  "tasks_complete st \<Longrightarrow> jm_get (ts_tasks st) k = Some r \<Longrightarrow> stored_outcome r \<noteq> None"
  by (fastforce simp: tasks_complete_def stored_outcome_def)

lemma replay_fresh:
  assumes "records_ok s" and "dispatch_replay env cap d s = Inr None"
  shows "jm_get (ts_tasks (o_tasks s)) (te_task_id env) = None"
proof (rule ccontr)
  assume "jm_get (ts_tasks (o_tasks s)) (te_task_id env) \<noteq> None"
  then obtain r where "jm_get (ts_tasks (o_tasks s)) (te_task_id env) = Some r" by blast
  moreover from this have "stored_outcome r \<noteq> None" using assms(1) stored_complete by (auto simp: records_ok_def)
  ultimately show False
    using assms(2)
    by (auto simp: dispatch_replay_def Let_def task_get_def applyHistoryLength_def split: option.splits if_splits)
qed

lemma finish_execution_recs: "o_rel keeps_records s (finish_execution X ev env cap neg ref out)"
  unfolding finish_execution_def Let_def
  by (auto split: sum.split intro!: recs.rel_bind recs_update recs_append recs_prims recs.rel_pure)

lemma approve_begin_recs: "o_rel keeps_records s (approve_begin X ev req)"
  unfolding approve_begin_def Let_def by (intro recs.rel_bind recs.rel_pure call_recs)

lemma cancelTask_recs: "o_rel keeps_records s (cancelTask X ev tid tenant)"
  unfolding cancelTask_def Let_def
  by (intro recs.rel_bind recs.rel_pure) (auto split: option.split intro!: recs.rel_bind recs_update recs.rel_pure)

lemma run_async_job_recs: "o_rel keeps_records s (run_async_job X ev j)"
  unfolding run_async_job_def Let_def
  by (intro recs.rel_bind recs.rel_pure)
     (auto split: prod.split sum.split intro!: recs.rel_bind recs_update recs_append recs_prims recs.rel_pure)

lemma on_dead_letter_recs: "o_rel keeps_records s (on_dead_letter X ev j err)"
  unfolding on_dead_letter_def Let_def
  by (intro recs.rel_bind recs_update recs.rel_pure)
     (auto split: option.split intro!: recs.rel_bind recs_append recs_prims recs.rel_pure)

lemma keeps_queue: "keeps_records s t \<Longrightarrow> keeps_records s (t\<lparr>o_queue := q\<rparr>)"
  by (simp add: keeps_records_def records_ok_def)

lemma settle_job_recs: "keeps_records s (settle_job X ev u i s)"
proof (cases "run_async_job X ev (the (jm_get (o_jobs s) (qj_taskId (q_active (o_queue s) ! i)))) s")
  case (Pair s1 r)
  let ?j = "the (jm_get (o_jobs s) (qj_taskId (q_active (o_queue s) ! i)))"
  have s1: "keeps_records s s1" using run_async_job_recs [of s X ev ?j] by (simp add: o_rel_def Pair)
  have "keeps_records s (fst (on_dead_letter X ev ?j m s1))" for m
    using recs.R_trans [OF s1] on_dead_letter_recs [of s1 X ev ?j m] by (simp add: o_rel_def)
  with s1 Pair show ?thesis
    by (auto simp: settle_job_def Let_def case_prod_unfold intro: keeps_queue recs.R_refl split: option.split sum.split)
qed

lemma retry_job_recs: "keeps_records s (retry_job X ev i s)"
  using on_dead_letter_recs [of s X ev]
  by (auto simp: retry_job_def Let_def o_rel_def case_prod_unfold intro: keeps_queue recs.R_refl split: option.split)

lemma orch_step_recs: "keeps_records s (orch_step X s e)"
proof (cases e)
  case (ODispatch ev env cap rv nr)
  have "o_rel keeps_records s (dispatch_begin X ev env cap rv nr)"
    by (intro recs.rel_dispatch_begin dispatch_new_recs replay_fresh)
  then show ?thesis by (simp add: ODispatch o_rel_def)
qed (use approve_begin_recs finish_execution_recs cancelTask_recs settle_job_recs retry_job_recs in
      \<open>auto simp: o_rel_def o_setPolicy_def queue_tick_def intro: keeps_same\<close>)

lemma orch_run_recs: "keeps_records s (foldl (orch_step X) s es)"
proof (induction es arbitrary: s)
  case (Cons e es)
  then show ?case using recs.R_trans [OF orch_step_recs [of s X e]] by simp
qed (simp add: recs.R_refl)

section \<open>A sample runtime\<close>

definition sample_X :: externals where
  "sample_X = \<lparr>xe_regex = (\<lambda>_ _. False), xe_json = (\<lambda>_. None), xe_validEnvelope = (\<lambda>_. True),
     xe_validResult = (\<lambda>_. True), xe_validIntent = (\<lambda>_. \<lparr>vr_valid = True, vr_errors = []\<rparr>),
     xe_signReceipt = rc_receipt_id, xe_approvalWebhook = None\<rparr>"

definition sample_ev :: "ms \<Rightarrow> orch_env" where
  "sample_ev t = \<lparr>oe_now = t, oe_uuid = (\<lambda>n. nat_str n)\<rparr>"

definition sample_agent :: agent_descriptor where
  "sample_agent = \<lparr>ad_agent_id = ''agent'', ad_organization = ''acme'', ad_version = ''1.0.0'', ad_domain = ''demo'',
      ad_capabilities = [''pay''], ad_risk_level = Low, ad_input_schema_ref = ''in'',
      ad_output_schema_ref = ''out'', ad_execution_modes = [MCommit], ad_approval_requirements = None,
      ad_visibility_modes = [VSummary], ad_policy_hooks = None, ad_display_name = None,
      ad_provider_url = None, ad_documentation_url = None, ad_auth_schemes = None,
      ad_capability_descriptors = None, ad_transport_bindings = None, ad_tags = None,
      ad_registry_status = None, ad_description = None, ad_signature = None, ad_key_id = None,
      ad_signature_alg = None, ad_extensions = None\<rparr>"

definition sample_policy :: "policy_action \<Rightarrow> policy_document" where
  "sample_policy a = \<lparr>pol_rules = [], pol_default_action = Some a\<rparr>"

definition echo_adapter :: adapter where
  "echo_adapter = \<lparr>xa_validate = (\<lambda>_. \<lparr>vr_valid = True, vr_errors = []\<rparr>),
     xa_execute = (\<lambda>input ctx. Inr (createResult (xc_intent_id ctx) ''pay'' Ok input ''done''))\<rparr>"

definition sample_runtime :: "policy_action \<Rightarrow> orchestrator" where
  "sample_runtime a = \<lparr>o_registry = [(''agent'', sample_agent)], o_policy = sample_policy a,
     o_executor = \<lparr>ex_policy = sample_policy a, ex_adapters = [(''pay'', echo_adapter)], ex_sign = None\<rparr>,
     o_tasks = empty_store InMemory, o_receipts = empty_receipts RcMemory,
     o_queue = new_queue sample_options [], o_jobs = [], o_calls = [], o_webhooks = [], o_approvals = []\<rparr>"

definition sample_envelope :: "string \<Rightarrow> string \<Rightarrow> bool \<Rightarrow> task_envelope" where
  "sample_envelope tid text async = \<lparr>te_task_id = tid, te_order_id = None, te_parent_task_id = None, te_context_id = None,
      te_requester = sample_requester, te_target_agent = ''agent'', te_intent = text,
      te_constraints = \<lparr>tc_common = JUndef, tc_domain = JUndef, tc_rest = []\<rparr>,
      te_risk_class = Low, te_deadline = None, te_delegation_token = [], te_output_mode = VSummary,
      te_metadata = Some [(''async'', JBool async)], te_idempotency_token = None, te_extensions = None\<rparr>"

lemma sample_runtime_ok: "records_ok (sample_runtime a)"
  by (simp add: records_ok_def sample_runtime_def tasks_complete_def empty_store_def empty_receipts_ok)

section \<open>Properties\<close>


text \<open>C5: whatever sequence of dispatches, approvals, completions, cancellations, queue events and policy
  swaps follows, a task in a terminal status keeps its status, result and receipt, and the receipt log
  keeps every receipt at its place.\<close>

theorem runtime_records_stable:
  assumes "records_ok s"
  shows "records_ok (foldl (orch_step X) s es) \<and>
    (\<forall>tid r. jm_get (ts_tasks (o_tasks s)) tid = Some r \<and> isTerminal (tr_status r) \<longrightarrow>
       (\<exists>r'. jm_get (ts_tasks (o_tasks (foldl (orch_step X) s es))) tid = Some r' \<and>
          tr_status r' = tr_status r \<and> tr_result r' = tr_result r \<and> tr_receipt r' = tr_receipt r)) \<and>
    prefix (receipt_list (o_receipts s) None) (receipt_list (o_receipts (foldl (orch_step X) s es)) None)"
proof -
  have k: "records_ok (foldl (orch_step X) s es)"
    "\<And>tid x. terminal_payload tid (o_tasks s) = Some x \<Longrightarrow>
       terminal_payload tid (o_tasks (foldl (orch_step X) s es)) = Some x"
    "prefix (receipt_list_all (o_receipts s)) (receipt_list_all (o_receipts (foldl (orch_step X) s es)))"
    using orch_run_recs [of s X es] assms by (auto simp: keeps_records_def)
  have "\<exists>r'. jm_get (ts_tasks (o_tasks (foldl (orch_step X) s es))) tid = Some r' \<and>
          tr_status r' = tr_status r \<and> tr_result r' = tr_result r \<and> tr_receipt r' = tr_receipt r"
    if "jm_get (ts_tasks (o_tasks s)) tid = Some r" "isTerminal (tr_status r)" for tid r
    using k(2) [of tid "(tr_status r, tr_result r, tr_receipt r)"] that
    by (auto simp: terminal_payload_def split: option.splits if_splits)
  with k(1,3) show ?thesis by (auto simp: receipt_list_def)
qed

theorem runtime_records_stable_witness:
  "records_ok (foldl (orch_step sample_X) (sample_runtime Allow)
     [ODispatch (sample_ev 1) (sample_envelope ''t'' ''hello'' True) ''pay'' None None, OTick 2, OCancel (sample_ev 3) ''t'' None])"
  by (rule conjunct1 [OF runtime_records_stable [OF sample_runtime_ok]])


definition dispatched :: "policy_action \<Rightarrow> bool \<Rightarrow> orchestrator" where
  "dispatched a async = fst (dispatch sample_X (sample_ev 1) (sample_envelope ''t'' ''hello'' async) ''pay'' None None (sample_runtime a))"


end
