(* ===== verification/TaskControl.thy ===== *)
theory TaskControl
  imports OrchestratorProofs
begin

text \<open>
  Approval, cancellation and dead letters of the orchestrator: what each leaves
  in the stores, and where the runtime lets two operations on one task meet.
\<close>

section \<open>Updates that succeed and updates that are refused\<close>

lemma update_ok:
  assumes "o_update now tid u s = (s1, Inr x)"
    and "jm_get (ts_tasks (o_tasks s)) tid = Some e"
  shows "jm_get (ts_tasks (o_tasks s1)) tid = Some (updated_record e u now) \<and>
    validateTransition e (or_else (tu_status u) (tr_status e)) u = None \<and>
    o_receipts s1 = o_receipts s"
proof -
  have "ts_tasks x1 = ts_tasks st" if "task_persist st = (x1, y)" for st x1 y
    using task_persist_frame(1) [of st] that by simp
  with assms show ?thesis
    by (auto simp: o_update_def task_update_def Let_def jm_get_set split: prod.splits sum.splits option.splits)
qed

lemma update_refused:
  assumes "jm_get (ts_tasks (o_tasks s)) tid = Some e"
    and "isTerminal (tr_status e)" and "tr_status e \<noteq> st"
  shows "\<exists>err. o_update now tid (status_update res rc st) s = (s, Inl (TaskStoreError err))"
proof -
  have "validateTransition e st (status_update res rc st) \<noteq> None"
    using assms by (auto simp: validateTransition_def assertValidTransition_def split: option.splits)
  then show ?thesis
    using assms
    by (auto simp: o_update_def task_update_def status_update_def or_else_def split: option.split)
qed

lemma status_update_record:
  "tr_status (updated_record e (status_update res rc st) now) = st \<and>
   tr_result (updated_record e (status_update res rc st) now) = Some res \<and>
   tr_receipt (updated_record e (status_update res rc st) now) = Some rc"
  by (simp add: updated_record_def status_update_def or_else_def or_option_def)

lemma append_ok_stored:
  assumes "o_append r s = (s1, Inr x)"
  shows "receipt_get (o_receipts s1) (rc_receipt_id r) None = Some r \<and> o_tasks s1 = o_tasks s"
  using assms
  by (auto simp: o_append_def receipt_append_cases receipt_get_def load_receipt_def jm_get_set
      split: prod.splits sum.splits option.splits if_splits)

lemma bind_get: "o_bind (o_get f) g s = g (f s) s"
  by (simp add: o_bind_def o_get_def)

lemma bind_log: "o_bind (o_log_calls cs) g s = g () (s\<lparr>o_calls := o_calls s @ cs\<rparr>)"
  by (simp add: o_bind_def o_log_calls_def o_modify_def)

lemma notify_frame:
  "notifyWebhook ev env st sm out s = (s1, Inr x) \<Longrightarrow> o_tasks s1 = o_tasks s \<and> o_receipts s1 = o_receipts s"
  by (auto simp: notifyWebhook_def o_modify_def o_return_def split: option.splits if_splits)

lemma result_status:
  "rp_status (iv_result (normalizeCoreResult X ev (Result r) env cap neg)) = (if er_status r = Ok then Completed else Failed)"
  by (simp add: normalizeCoreResult_def Let_def execution_package_def)

lemma outcome_not_revoked:
  "rp_status (iv_result (normalizeCoreResult X ev raw env cap neg)) \<noteq> Revoked"
  by (cases raw) (auto simp: normalizeCoreResult_def Let_def execution_package_def split: receipt_action.split)

text \<open>A finished execution has stored its outcome and logged its receipt.\<close>

lemma finish_ok:
  assumes "finish_execution X ev env cap neg ap out s = (s1, Inr iv)"
    and "jm_get (ts_tasks (o_tasks s)) (te_task_id env) = Some e"
  shows "\<exists>r. out = Inr r \<and> rp_status (iv_result iv) = (if er_status r = Ok then Completed else Failed) \<and>
    (\<forall>ref. ap = Some ref \<longrightarrow> rc_approval_used (iv_receipt iv) = Some ref) \<and>
    (\<exists>e'. jm_get (ts_tasks (o_tasks s1)) (te_task_id env) = Some e' \<and> tr_status e' = rp_status (iv_result iv) \<and>
       tr_result e' = Some (iv_result iv) \<and> tr_receipt e' = Some (iv_receipt iv)) \<and>
    receipt_get (o_receipts s1) (rc_receipt_id (iv_receipt iv)) None = Some (iv_receipt iv)"
proof -
  from assms(1) obtain r where r: "out = Inr r"
    by (cases out) (auto simp: finish_execution_def o_throw_def)
  define n where "n = normalizeCoreResult X ev (Result r) env cap neg"
  define n' where "n' = (case ap of None \<Rightarrow> n | Some ref \<Rightarrow> n\<lparr>iv_receipt := (iv_receipt n)\<lparr>rc_approval_used := Some ref\<rparr>\<rparr>)"
  from assms(1) obtain s2 s3 x y z where
    u: "o_update (oe_now ev) (te_task_id env)
          (status_update (iv_result n') (iv_receipt n') (rp_status (iv_result n'))) s = (s2, Inr x)"
    and a: "o_append (iv_receipt n') s2 = (s3, Inr y)"
    and w: "notifyWebhook ev env (task_status_str (rp_status (iv_result n'))) (rp_summary (iv_result n'))
          (Some (rp_structured_output (iv_result n'))) s3 = (s1, Inr z)"
    and iv: "iv = n'"
    unfolding finish_execution_def r sum.case Let_def n_def [symmetric] n'_def [symmetric]
    by (auto simp: orch_ok)
  have "rp_status (iv_result n') = (if er_status r = Ok then Completed else Failed)"
    by (simp add: n'_def n_def result_status split: option.split)
  then show ?thesis
    using r update_ok [OF u assms(2)] append_ok_stored [OF a] notify_frame [OF w] status_update_record
    by (simp add: iv) (auto simp: n'_def)
qed


lemma approve_begin_ok:
  "approve_begin X ev req s = (s1, Inr (out, neg)) \<longleftrightarrow>
     (\<exists>d. xe_validEnvelope X (ar_envelope req) \<and> ar_task_id req = te_task_id (ar_envelope req) \<and>
        resolveDescriptor (o_registry s) (te_target_agent (ar_envelope req)) (ar_capability req) = Inr d \<and>
        negotiateInvocation d (getCapabilityDescriptor (o_registry s) (te_target_agent (ar_envelope req)) (ar_capability req))
          (ar_envelope req) (ar_requested_schema_version req) (ar_negotiation req) = Inr neg \<and>
        approval_checks req d s = Inr () \<and>
        (let x = executeApproved (xe_validIntent X) (o_executor s) (core_env ev)
                   (mapEnvelopeToIntent (xe_json X) (ar_envelope req) (ar_capability req))
         in s1 = s\<lparr>o_calls := o_calls s @ fst x\<rparr> \<and> out = snd x))"
  by (auto simp: approve_begin_def Let_def orch_ok call_executeApproved_def o_log_calls_def o_modify_def
      split: prod.splits)

lemma approval_checks_frame:
  "approval_checks req d (s\<lparr>o_calls := cs\<rparr>) = approval_checks req d s"
  "approval_checks (req\<lparr>ar_envelope := env\<rparr>) d s = approval_checks req d s"
  by (simp_all add: approval_checks_def cong: option.case_cong if_cong)

lemma approve_begin_refused: "approve_begin X ev req s = (s1, Inl e) \<Longrightarrow> s1 = s"
  by (auto simp: approve_begin_def Let_def o_bind_def o_guard_def o_return_def o_throw_def o_lift_def o_get_def
      call_executeApproved_def o_log_calls_def o_modify_def split: prod.splits sum.splits if_splits)

lemma approve_begin_not_valid: "\<not> approval_valid req s \<Longrightarrow> \<exists>e. approve_begin X ev req s = (s, Inl e)"
  by (cases "approve_begin X ev req s"; cases "snd (approve_begin X ev req s)")
     (auto simp: approve_begin_ok dest: approval_checks_ok approve_begin_refused)

section \<open>Properties\<close>

text \<open>C15: an approval that succeeds was for a task awaiting approval under that reference, ends the task
  completed or failed with the returned result and receipt, logs a receipt that names the approval, and
  uses it up: approving again is refused and changes nothing.\<close>

theorem approval_consumed:
  assumes "approve_task X ev req s = (s1, Inr iv)"
  shows "approval_valid req s \<and>
    (\<exists>e. jm_get (ts_tasks (o_tasks s1)) (ar_task_id req) = Some e \<and> tr_status e \<in> {Completed, Failed} \<and>
       tr_result e = Some (iv_result iv) \<and> tr_receipt e = Some (iv_receipt iv)) \<and>
    receipt_get (o_receipts s1) (rc_receipt_id (iv_receipt iv)) None = Some (iv_receipt iv) \<and>
    rc_approval_used (iv_receipt iv) = Some (ar_approval_reference req) \<and>
    (\<exists>err. approve_task X ev2 req s1 = (s1, Inl err))"
proof -
  from assms obtain s0 out neg where b: "approve_begin X ev req s = (s0, Inr (out, neg))"
    and f: "finish_execution X ev (ar_envelope req) (ar_capability req) neg (Some (ar_approval_reference req)) out s0 = (s1, Inr iv)"
    by (auto simp: approve_task_def orch_ok)
  from b have v: "approval_valid req s" and t: "te_task_id (ar_envelope req) = ar_task_id req" and s0: "o_tasks s0 = o_tasks s"
    by (auto simp: approve_begin_ok Let_def dest: approval_checks_ok)
  then obtain e where "jm_get (ts_tasks (o_tasks s0)) (te_task_id (ar_envelope req)) = Some e"
    by (auto simp: approval_valid_def)
  from finish_ok [OF f this] obtain e' where e':
    "jm_get (ts_tasks (o_tasks s1)) (ar_task_id req) = Some e'" "tr_status e' \<in> {Completed, Failed}"
    "tr_result e' = Some (iv_result iv)" "tr_receipt e' = Some (iv_receipt iv)"
    "receipt_get (o_receipts s1) (rc_receipt_id (iv_receipt iv)) None = Some (iv_receipt iv)"
    "rc_approval_used (iv_receipt iv) = Some (ar_approval_reference req)"
    by (auto simp: t)
  have "\<not> approval_valid req s1" using e'(1,2) by (auto simp: approval_valid_def)
  from approve_begin_not_valid [OF this] have "\<exists>err. approve_begin X ev2 req s1 = (s1, Inl err)" .
  then have "\<exists>err. approve_task X ev2 req s1 = (s1, Inl err)" by (auto simp: approve_task_def o_bind_def)
  with v e' show ?thesis by blast
qed

definition sample_approval :: "string \<Rightarrow> approval_request" where
  "sample_approval text = \<lparr>ar_task_id = ''t'', ar_approval_reference = ''approval:t'', ar_capability = ''pay'',
     ar_envelope = sample_envelope ''t'' text False, ar_requested_schema_version = None, ar_negotiation = None\<rparr>"

theorem approval_consumed_witness:
  "\<exists>err. approve_task sample_X (sample_ev 3) (sample_approval ''hello'')
      (fst (approve_task sample_X (sample_ev 2) (sample_approval ''hello'') (dispatched RequireApproval False))) =
    (fst (approve_task sample_X (sample_ev 2) (sample_approval ''hello'') (dispatched RequireApproval False)), Inl err)"
proof -
  let ?a = "approve_task sample_X (sample_ev 2) (sample_approval ''hello'') (dispatched RequireApproval False)"
  have "\<not> isl (snd ?a)" by code_simp
  then obtain iv where "?a = (fst ?a, Inr iv)" by (cases ?a; cases "snd ?a") auto
  from approval_consumed [OF this] show ?thesis by blast
qed

text \<open>what was reviewed does not bind what runs, and an approval is exclusive only once its execution has
  ended: after \<open>approve\<close> has called the adapter and awaits it, the same approval with any valid envelope
  that agrees on task, agent, output mode and metadata passes every check too, and calls the adapter
  again with the intent of that envelope, the task still awaiting approval.\<close>

theorem approval_not_exclusive:
  assumes "approve_begin X ev req s = (s1, Inr (out, neg))" and "xe_validEnvelope X env"
    and "te_task_id env = ar_task_id req" and "te_target_agent env = te_target_agent (ar_envelope req)"
    and "te_output_mode env = te_output_mode (ar_envelope req)" and "te_metadata env = te_metadata (ar_envelope req)"
  shows "o_tasks s1 = o_tasks s \<and>
    (let again = executeApproved (xe_validIntent X) (o_executor s) (core_env ev2)
                   (mapEnvelopeToIntent (xe_json X) env (ar_capability req))
     in approve_begin X ev2 (req\<lparr>ar_envelope := env\<rparr>) s1 = (s1\<lparr>o_calls := o_calls s1 @ fst again\<rparr>, Inr (snd again, neg)))"
proof -
  have "negotiateInvocation d c env rv nr = negotiateInvocation d c (ar_envelope req) rv nr" for d c rv nr
    using assms(5,6) by (simp only: negotiateInvocation_def metadata_async_def)
  then show ?thesis
    using assms unfolding approve_begin_ok Let_def
    by (auto simp: approve_begin_ok Let_def approval_checks_frame)
qed

theorem approval_not_exclusive_witness:
  "map ac_input (o_calls (fst (approve_begin sample_X (sample_ev 3) (sample_approval ''pay Eve'')
      (fst (approve_begin sample_X (sample_ev 2) (sample_approval ''pay Bob'') (dispatched RequireApproval False))))))
    = [it_input (mapEnvelopeToIntent (xe_json sample_X) (sample_envelope ''t'' ''pay Bob'' False) ''pay''),
       it_input (mapEnvelopeToIntent (xe_json sample_X) (sample_envelope ''t'' ''pay Eve'' False) ''pay'')]"
proof -
  let ?a = "approve_begin sample_X (sample_ev 2) (sample_approval ''pay Bob'') (dispatched RequireApproval False)"
  have "\<not> isl (snd ?a)" by code_simp
  then obtain out neg where a: "?a = (fst ?a, Inr (out, neg))" by (cases ?a; cases "snd ?a") auto
  have req: "sample_approval ''pay Eve'' = (sample_approval ''pay Bob'')\<lparr>ar_envelope := sample_envelope ''t'' ''pay Eve'' False\<rparr>"
    by (simp add: sample_approval_def)
  have first: "map ac_input (o_calls (fst ?a)) =
      [it_input (mapEnvelopeToIntent (xe_json sample_X) (sample_envelope ''t'' ''pay Bob'' False) ''pay'')]"
    by code_simp
  have second: "map ac_input (fst (executeApproved (xe_validIntent sample_X) (o_executor (dispatched RequireApproval False))
      (core_env (sample_ev 3)) (mapEnvelopeToIntent (xe_json sample_X) (sample_envelope ''t'' ''pay Eve'' False) ''pay''))) =
      [it_input (mapEnvelopeToIntent (xe_json sample_X) (sample_envelope ''t'' ''pay Eve'' False) ''pay'')]"
    by code_simp
  show ?thesis
    using approval_not_exclusive [OF a, of "sample_envelope ''t'' ''pay Eve'' False" "sample_ev 3"] first second
    by (simp add: req Let_def) (simp add: sample_approval_def sample_envelope_def sample_X_def)
qed

text \<open>C16: a cancellation that succeeds was of a task not yet finished, leaves it revoked with the returned
  receipt, and wins over an execution in flight: whatever the adapter returns, storing its outcome is
  refused and changes nothing. The cancellation receipt itself never reaches the receipt log.\<close>

theorem cancel_wins:
  assumes "cancelTask X ev tid tenant s = (s1, Inr iv)" and "te_task_id env = tid"
  shows "(\<exists>r. jm_get (ts_tasks (o_tasks s)) tid = Some r \<and> tr_status r \<in> {Accepted, Proposed, AwaitingApproval, Running}) \<and>
    (\<exists>r. jm_get (ts_tasks (o_tasks s1)) tid = Some r \<and> tr_status r = Revoked \<and> tr_receipt r = Some (iv_receipt iv)) \<and>
    (\<exists>err. finish_execution X ev2 env cap neg ap out s1 = (s1, Inl err)) \<and>
    o_receipts s1 = o_receipts s"
proof -
  from assms(1) obtain r x where r: "jm_get (ts_tasks (o_tasks s)) tid = Some r"
      "tr_status r \<in> {Accepted, Proposed, AwaitingApproval, Running}"
    and u: "o_update (oe_now ev) tid (status_update (iv_result iv) (iv_receipt iv) Revoked) s = (s1, Inr x)"
    by (auto simp: cancelTask_def orch_ok Let_def cancellable_def task_get_def task_getByTenant_def applyHistoryLength_def
        split: option.splits if_splits)
  from update_ok [OF u r(1)] obtain r' where r': "jm_get (ts_tasks (o_tasks s1)) tid = Some r'" "tr_status r' = Revoked"
      "tr_receipt r' = Some (iv_receipt iv)" "o_receipts s1 = o_receipts s"
    using status_update_record by auto
  have "\<exists>err. finish_execution X ev2 env cap neg ap out s1 = (s1, Inl err)"
  proof (cases out)
    case (Inr x)
    define n where "n = normalizeCoreResult X ev2 (Result x) env cap neg"
    define n' where "n' = (case ap of None \<Rightarrow> n | Some ref \<Rightarrow> n\<lparr>iv_receipt := (iv_receipt n)\<lparr>rc_approval_used := Some ref\<rparr>\<rparr>)"
    have "rp_status (iv_result n') \<noteq> Revoked"
      by (simp add: n'_def n_def result_status split: option.split)
    then obtain err where "o_update (oe_now ev2) tid (status_update (iv_result n') (iv_receipt n') (rp_status (iv_result n'))) s1
        = (s1, Inl (TaskStoreError err))"
      using update_refused [OF r'(1)] r'(2) by (fastforce simp: isTerminal_def terminal_statuses_def)
    then show ?thesis
      unfolding finish_execution_def Inr sum.case Let_def n_def [symmetric] n'_def [symmetric]
      by (simp add: o_bind_def assms(2))
  qed (simp add: finish_execution_def o_throw_def)
  with r r' show ?thesis by blast
qed

theorem cancel_wins_witness:
  "\<forall>neg out. \<exists>err. finish_execution sample_X (sample_ev 3) (sample_envelope ''t'' ''hello'' True) ''pay'' neg None out
      (fst (cancelTask sample_X (sample_ev 2) ''t'' None (dispatched Allow True))) =
    (fst (cancelTask sample_X (sample_ev 2) ''t'' None (dispatched Allow True)), Inl err)"
proof -
  let ?a = "cancelTask sample_X (sample_ev 2) ''t'' None (dispatched Allow True)"
  have "\<not> isl (snd ?a)" by code_simp
  then obtain iv where a: "?a = (fst ?a, Inr iv)" by (cases ?a; cases "snd ?a") auto
  have "te_task_id (sample_envelope ''t'' ''hello'' True) = ''t''" by (simp add: sample_envelope_def)
  from cancel_wins [OF a this] show ?thesis by blast
qed

text \<open>Cancelling a queued task does not stop it: when its job runs, the executor calls the adapter of the
  revoked task as if nothing had happened; only the outcome is refused, so that the queue sees a failure
  and retries.\<close>

theorem cancelled_job_still_runs:
  assumes "jm_get (ts_tasks (o_tasks s)) (te_task_id (aj_envelope j)) = Some r" and "tr_status r = Revoked"
  shows "\<exists>err. run_async_job X ev j s =
    (s\<lparr>o_calls := o_calls s @ fst (executeIntent (xe_regex X) (xe_validIntent X) (o_executor s) (core_env ev) (aj_intent j))\<rparr>,
     Inl err)"
proof -
  obtain cs out where e: "executeIntent (xe_regex X) (xe_validIntent X) (o_executor s) (core_env ev) (aj_intent j) = (cs, out)"
    by fastforce
  let ?s = "s\<lparr>o_calls := o_calls s @ cs\<rparr>"
  have run: "run_async_job X ev j s = (case out of
      Inl e \<Rightarrow> o_throw (ExecutionError e)
    | Inr raw \<Rightarrow>
        (let n = normalizeCoreResult X ev raw (aj_envelope j) (aj_capability j) (aj_negotiation j); res = iv_result n
         in o_bind (o_update (oe_now ev) (te_task_id (aj_envelope j)) (status_update res (iv_receipt n) (rp_status res))) (\<lambda>_.
            o_bind (o_append (iv_receipt n)) (\<lambda>_.
            notifyWebhook ev (aj_envelope j) (task_status_str (rp_status res)) (rp_summary res)
              (Some (rp_structured_output res)))))) ?s"
    unfolding run_async_job_def bind_get e prod.case bind_log ..
  show ?thesis
  proof (cases out)
    case (Inr raw)
    define n where "n = normalizeCoreResult X ev raw (aj_envelope j) (aj_capability j) (aj_negotiation j)"
    have "jm_get (ts_tasks (o_tasks ?s)) (te_task_id (aj_envelope j)) = Some r" using assms(1) by simp
    from update_refused [OF this, of "rp_status (iv_result n)" "oe_now ev" "iv_result n" "iv_receipt n"] assms(2)
    obtain err where "o_update (oe_now ev) (te_task_id (aj_envelope j))
        (status_update (iv_result n) (iv_receipt n) (rp_status (iv_result n))) ?s = (?s, Inl (TaskStoreError err))"
      using outcome_not_revoked unfolding n_def by (fastforce simp: isTerminal_def terminal_statuses_def)
    then show ?thesis unfolding run by (simp add: Inr e Let_def n_def [symmetric] o_bind_def)
  qed (simp add: run e o_throw_def)
qed

definition cancelled_runtime :: orchestrator where
  "cancelled_runtime = fst (cancelTask sample_X (sample_ev 2) ''t'' None (dispatched Allow True))"

theorem cancelled_job_still_runs_witness:
  "(case jm_get (o_jobs cancelled_runtime) ''t'' of None \<Rightarrow> False
    | Some j \<Rightarrow> length (o_calls (fst (run_async_job sample_X (sample_ev 3) j cancelled_runtime))) = 1)"
proof -
  let ?j = "the (jm_get (o_jobs cancelled_runtime) ''t'')"
  let ?r = "the (jm_get (ts_tasks (o_tasks cancelled_runtime)) ''t'')"
  have facts: "case Some cancelled_runtime of None \<Rightarrow> False | Some s \<Rightarrow>
      (case (jm_get (o_jobs s) ''t'', jm_get (ts_tasks (o_tasks s)) ''t'') of
         (Some j, Some r) \<Rightarrow> te_task_id (aj_envelope j) = ''t'' \<and> tr_status r = Revoked \<and>
           length (o_calls s @ fst (executeIntent (xe_regex sample_X) (xe_validIntent sample_X) (o_executor s)
             (core_env (sample_ev 3)) (aj_intent j))) = 1
       | _ \<Rightarrow> False)"
    by code_simp
  then have j: "jm_get (o_jobs cancelled_runtime) ''t'' \<noteq> None" "te_task_id (aj_envelope ?j) = ''t''"
    and r: "jm_get (ts_tasks (o_tasks cancelled_runtime)) ''t'' \<noteq> None" "tr_status ?r = Revoked"
    and one: "length (o_calls cancelled_runtime @ fst (executeIntent (xe_regex sample_X) (xe_validIntent sample_X)
        (o_executor cancelled_runtime) (core_env (sample_ev 3)) (aj_intent ?j))) = 1"
    by (auto split: option.splits)
  from r(1) j(2) have "jm_get (ts_tasks (o_tasks cancelled_runtime)) (te_task_id (aj_envelope ?j)) = Some ?r" by auto
  from cancelled_job_still_runs [OF this r(2), of sample_X "sample_ev 3"] one j(1) show ?thesis
    by (auto split: option.split)
qed

text \<open>A job given up leaves its task failed with the last error as summary, but, unless the capability's
  name happens to say otherwise, the receipt stored and logged for it says executed and ok.\<close>

theorem dead_letter_receipt_says_ok:
  assumes "on_dead_letter X ev j err s = (s1, Inr ())"
    and "jm_get (ts_tasks (o_tasks s)) (te_task_id (aj_envelope j)) = Some e"
    and "receipt_action_of (aj_capability j @ ''.dead_lettered'') = Executed"
  shows "\<exists>r rc. jm_get (ts_tasks (o_tasks s1)) (te_task_id (aj_envelope j)) = Some r \<and> tr_status r = Failed \<and>
    Option.bind (tr_result r) rp_summary = Some err \<and> tr_receipt r = Some rc \<and>
    receipt_get (o_receipts s1) (rc_receipt_id rc) None = Some rc \<and> rc_action rc = Executed \<and> rc_status rc = Ok"
proof -
  define rc where "rc = sign_with X (buildUnsignedReceipt ev 4 (aj_envelope j) (aj_descriptor j) (aj_capability j)
    (aj_capability j @ ''.dead_lettered'') (aj_decision j))"
  have rc: "rc_action rc = Executed" "rc_status rc = Ok"
    by (simp_all add: rc_def sign_with_def buildUnsignedReceipt_def assms(3))
  from assms(1) obtain res s2 x where
    u: "o_update (oe_now ev) (te_task_id (aj_envelope j)) (status_update res rc Failed) s = (s2, Inr x)"
    and err: "rp_summary res = Some err"
    and k: "(case Option.bind (task_get (o_tasks s2) (te_task_id (aj_envelope j)) None) tr_receipt of
           None \<Rightarrow> o_return ()
         | Some r \<Rightarrow> o_bind (o_append r) (\<lambda>_. notifyWebhook ev (aj_envelope j) ''failed'' (Some err) None)) s2 = (s1, Inr ())"
    unfolding on_dead_letter_def Let_def rc_def [symmetric] by (auto simp: orch_ok)
  from update_ok [OF u assms(2)] status_update_record obtain r where
    r: "jm_get (ts_tasks (o_tasks s2)) (te_task_id (aj_envelope j)) = Some r" "tr_status r = Failed"
      "tr_result r = Some res" "tr_receipt r = Some rc" by auto
  from k obtain s3 where a: "o_append rc s2 = (s3, Inr ())"
    and w: "notifyWebhook ev (aj_envelope j) ''failed'' (Some err) None s3 = (s1, Inr ())"
    by (auto simp: task_get_def applyHistoryLength_def r orch_ok)
  show ?thesis using append_ok_stored [OF a] notify_frame [OF w] r rc err by auto
qed

theorem dead_letter_receipt_says_ok_witness:
  "(case jm_get (o_jobs (dispatched Allow True)) ''t'' of None \<Rightarrow> False
    | Some j \<Rightarrow> \<exists>r rc. jm_get (ts_tasks (o_tasks (fst (on_dead_letter sample_X (sample_ev 2) j ''boom'' (dispatched Allow True))))) ''t''
        = Some r \<and> tr_status r = Failed \<and> tr_receipt r = Some rc \<and> rc_action rc = Executed \<and> rc_status rc = Ok)"
proof -
  let ?j = "the (jm_get (o_jobs (dispatched Allow True)) ''t'')"
  let ?a = "on_dead_letter sample_X (sample_ev 2) ?j ''boom'' (dispatched Allow True)"
  have facts: "case Some (dispatched Allow True) of None \<Rightarrow> False | Some s \<Rightarrow>
      (case (jm_get (o_jobs s) ''t'', jm_get (ts_tasks (o_tasks s)) ''t'') of
         (Some j, Some r) \<Rightarrow> \<not> isl (snd (on_dead_letter sample_X (sample_ev 2) j ''boom'' s)) \<and>
           te_task_id (aj_envelope j) = ''t'' \<and> receipt_action_of (aj_capability j @ ''.dead_lettered'') = Executed
       | _ \<Rightarrow> False)"
    by code_simp
  then have ok: "\<not> isl (snd ?a)" "jm_get (o_jobs (dispatched Allow True)) ''t'' \<noteq> None" "te_task_id (aj_envelope ?j) = ''t''"
    "jm_get (ts_tasks (o_tasks (dispatched Allow True))) ''t'' \<noteq> None"
    "receipt_action_of (aj_capability ?j @ ''.dead_lettered'') = Executed"
    by (auto split: option.splits)
  from ok(1) have "?a = (fst ?a, Inr ())" by (cases ?a; cases "snd ?a") auto
  moreover obtain e where "jm_get (ts_tasks (o_tasks (dispatched Allow True))) (te_task_id (aj_envelope ?j)) = Some e"
    using ok(3,4) by auto
  ultimately show ?thesis
    using dead_letter_receipt_says_ok [of sample_X "sample_ev 2" ?j "''boom''" "dispatched Allow True" "fst ?a" e] ok(2,3,5)
    by (auto split: option.split)
qed

end
