(* ===== verification/Canonical.thy ===== *)
theory Canonical
  imports JsValues "HOL-Library.List_Lexorder" "HOL-Library.Char_ord" "HOL-Library.Multiset"
begin

text \<open>
  The text formats of the signing layer: JSON string quoting, the canonical
  serialization of \<open>serializeJcs\<close> in \<open>src/src/security/signing.ts\<close>, what
  \<open>JSON.parse(JSON.stringify(v))\<close> keeps of a value, and \<open>base64url\<close> over the
  UTF-8 bytes of a string. A byte is a number below 256.
\<close>

section \<open>Numbers and strings\<close>

definition pad_left :: "nat \<Rightarrow> string \<Rightarrow> string" where
  "pad_left n s = replicate (n - length s) (CHR ''0'') @ s"

text \<open>\<open>x.toFixed(f)\<close> for \<open>|x|\<close> below \<open>10^21\<close> (halves are rounded away from zero).\<close>

definition toFixed :: "nat \<Rightarrow> rat \<Rightarrow> string" where
  "toFixed f x =
     (let n = nat \<lfloor>\<bar>x\<bar> * 10 ^ f + 1 / 2\<rfloor>;
          s = nat_str (n div 10 ^ f) @ (if f = 0 then [] else CHR ''.'' # pad_left f (nat_str (n mod 10 ^ f)))
      in if x < 0 then CHR ''-'' # s else s)"

definition strip_zeros :: "string \<Rightarrow> string" where
  "strip_zeros s =
     (let t = rev (dropWhile (\<lambda>c. c = CHR ''0'') (rev s))
      in if t \<noteq> [] \<and> last t = CHR ''.'' then butlast t else t)"

text \<open>Numbers from \<open>10^21\<close> on print as \<open>Number::toString\<close> does, the parameter \<open>big\<close>.\<close>

fun serializeJcsNumber :: "(rat \<Rightarrow> string) \<Rightarrow> jsnum \<Rightarrow> string" where
  "serializeJcsNumber big (Fin x) =
     (if x = 0 then ''0''
      else if of_int \<lfloor>x\<rfloor> = x \<and> \<bar>x\<bar> < 10 ^ 21 then int_str \<lfloor>x\<rfloor>
      else if \<bar>x\<bar> \<ge> 10 ^ 21 then big x
      else strip_zeros (toFixed 15 x))"
| "serializeJcsNumber big _ = ''null''"

definition hex_digit :: "nat \<Rightarrow> char" where
  "hex_digit n = (if n < 10 then char_of (48 + n) else char_of (87 + n))"

definition json_escape :: "char \<Rightarrow> string" where
  "json_escape c =
     (let n = of_char c :: nat in
      if n = 34 \<or> n = 92 then [CHR 0x5C, c]
      else if n = 8 then [CHR 0x5C, CHR ''b'']
      else if n = 9 then [CHR 0x5C, CHR ''t'']
      else if n = 10 then [CHR 0x5C, CHR ''n'']
      else if n = 12 then [CHR 0x5C, CHR ''f'']
      else if n = 13 then [CHR 0x5C, CHR ''r'']
      else if n < 32 then [CHR 0x5C, CHR ''u'', CHR ''0'', CHR ''0'', hex_digit (n div 16), hex_digit (n mod 16)]
      else [c])"

definition json_quote :: "string \<Rightarrow> string" where
  "json_quote s = [CHR 0x22] @ concat (map json_escape s) @ [CHR 0x22]"

section \<open>Canonical serialization\<close>

text \<open>
  \<open>None\<close> is \<open>undefined\<close>, which \<open>join\<close> prints as nothing and a template as its
  name. \<open>Object.keys(value).sort()\<close> compares code units, as the order on strings.
\<close>

definition opt_text :: "string \<Rightarrow> string option \<Rightarrow> string" where
  "opt_text d x = (case x of None \<Rightarrow> d | Some s \<Rightarrow> s)"

definition jcs_member :: "string \<times> string option \<Rightarrow> string" where
  "jcs_member e = json_quote (fst e) @ '':'' @ opt_text ''undefined'' (snd e)"

lemma size_member [termination_simp]:
  "(a, b) \<in> set kvs \<Longrightarrow> size b < Suc (size_list (\<lambda>x. Suc (size (snd x))) kvs)"
  by (induction kvs) auto

fun serializeJcs :: "(rat \<Rightarrow> string) \<Rightarrow> jsval \<Rightarrow> string option" where
  "serializeJcs big JNull = Some ''null''"
| "serializeJcs big (JBool b) = Some (if b then ''true'' else ''false'')"
| "serializeJcs big (JNum n) = Some (serializeJcsNumber big n)"
| "serializeJcs big (JStr s) = Some (json_quote s)"
| "serializeJcs big (JArr xs) =
     Some (''['' @ join_with '','' (map (\<lambda>x. opt_text [] (serializeJcs big x)) xs) @ '']'')"
| "serializeJcs big (JObj kvs) =
     Some (''{'' @ join_with '','' (map jcs_member
       (sort_key fst (map (\<lambda>e. (fst e, serializeJcs big (snd e))) kvs))) @ ''}'')"
| "serializeJcs big JUndef = None"
| "serializeJcs big (JFun f) = None"

definition stableStringify :: "(rat \<Rightarrow> string) \<Rightarrow> jsval \<Rightarrow> string" where
  "stableStringify big v = opt_text ''undefined'' (serializeJcs big v)"

text \<open>What \<open>JSON.parse(JSON.stringify(v))\<close> keeps; \<open>None\<close> when there is nothing to print.\<close>

fun json_kept :: "jsval \<Rightarrow> jsval option" where
  "json_kept JNull = Some JNull"
| "json_kept (JBool b) = Some (JBool b)"
| "json_kept (JNum n) = Some (case n of Fin x \<Rightarrow> JNum n | _ \<Rightarrow> JNull)"
| "json_kept (JStr s) = Some (JStr s)"
| "json_kept (JArr xs) = Some (JArr (map (\<lambda>x. case json_kept x of None \<Rightarrow> JNull | Some y \<Rightarrow> y) xs))"
| "json_kept (JObj kvs) =
     Some (JObj (concat (map (\<lambda>e. case json_kept (snd e) of None \<Rightarrow> [] | Some v \<Rightarrow> [(fst e, v)]) kvs)))"
| "json_kept JUndef = None"
| "json_kept (JFun f) = None"

text \<open>\<open>canonicalize(JSON.stringify(v))\<close> of an object.\<close>

definition canonicalize :: "(rat \<Rightarrow> string) \<Rightarrow> jsval \<Rightarrow> string" where
  "canonicalize big v = (case json_kept v of None \<Rightarrow> ''undefined'' | Some w \<Rightarrow> stableStringify big w)"

section \<open>Bytes and base64url\<close>

definition utf8 :: "string \<Rightarrow> nat list" where
  "utf8 s = concat (map (\<lambda>c. let n = of_char c in if n < 128 then [n] else [192 + n div 64, 128 + n mod 64]) s)"

fun sextets :: "nat list \<Rightarrow> nat list" where
  "sextets [] = []"
| "sextets [a] = [a div 4, a mod 4 * 16]"
| "sextets [a, b] = [a div 4, a mod 4 * 16 + b div 16, b mod 16 * 4]"
| "sextets (a # b # c # r) = a div 4 # (a mod 4 * 16 + b div 16) # (b mod 16 * 4 + c div 64) # c mod 64 # sextets r"

fun octets :: "nat list \<Rightarrow> nat list" where
  "octets (x # y # z # w # r) = (x * 4 + y div 16) # (y mod 16 * 16 + z div 4) # (z mod 4 * 64 + w) # octets r"
| "octets [x, y, z] = [x * 4 + y div 16, y mod 16 * 16 + z div 4]"
| "octets [x, y] = [x * 4 + y div 16]"
| "octets _ = []"

definition b64_char :: "nat \<Rightarrow> char" where
  "b64_char n =
     (if n < 26 then char_of (65 + n) else if n < 52 then char_of (71 + n) else if n < 62 then char_of (n - 4)
      else if n = 62 then CHR ''-'' else CHR ''_'')"

text \<open>Decoding knows both alphabets and skips every other character.\<close>

definition b64_val :: "char \<Rightarrow> nat option" where
  "b64_val c =
     (let n = of_char c :: nat in
      if 65 \<le> n \<and> n \<le> 90 then Some (n - 65) else if 97 \<le> n \<and> n \<le> 122 then Some (n - 71)
      else if 48 \<le> n \<and> n \<le> 57 then Some (n + 4) else if n = 45 \<or> n = 43 then Some 62
      else if n = 95 \<or> n = 47 then Some 63 else None)"

definition b64_encode :: "nat list \<Rightarrow> string" where
  "b64_encode bs = map b64_char (sextets bs)"

definition b64_decode :: "string \<Rightarrow> nat list" where
  "b64_decode s = octets (List.map_filter b64_val s)"

definition base64url :: "string \<Rightarrow> string" where
  "base64url s = b64_encode (utf8 s)"

section \<open>Facts on the formats\<close>

lemma octets_sextets: "list_all (\<lambda>b. b < 256) bs \<Longrightarrow> octets (sextets bs) = bs"
  by (induction bs rule: sextets.induct) auto

lemma sextets_range: "list_all (\<lambda>b. b < 256) bs \<Longrightarrow> list_all (\<lambda>x. x < 64) (sextets bs)"
  by (induction bs rule: sextets.induct) auto

lemma b64_val_char: "n < 64 \<Longrightarrow> b64_val (b64_char n) = Some n"
  by (auto simp: b64_val_def b64_char_def Let_def)

lemma b64_val_chars: "list_all (\<lambda>x. x < 64) xs \<Longrightarrow> List.map_filter b64_val (map b64_char xs) = xs"
  by (induction xs) (auto simp: List.map_filter_simps b64_val_char)

lemma b64_roundtrip: "list_all (\<lambda>b. b < 256) bs \<Longrightarrow> b64_decode (b64_encode bs) = bs"
  by (simp add: b64_decode_def b64_encode_def b64_val_chars sextets_range octets_sextets)

lemma b64_no_dot: "CHR ''.'' \<notin> set (b64_encode bs)"
proof -
  have "b64_char n \<noteq> CHR ''.''" for n
  proof -
    have "n < 26 \<Longrightarrow> (of_char (b64_char n) :: nat) = 65 + n" "26 \<le> n \<Longrightarrow> n < 52 \<Longrightarrow> (of_char (b64_char n) :: nat) = 71 + n"
      "52 \<le> n \<Longrightarrow> n < 62 \<Longrightarrow> (of_char (b64_char n) :: nat) = n - 4" "62 \<le> n \<Longrightarrow> b64_char n \<noteq> CHR ''.''"
      by (auto simp: b64_char_def)
    then show ?thesis by (cases "n < 26"; cases "n < 52"; cases "n < 62") force+
  qed
  then show ?thesis by (force simp: b64_encode_def)
qed

lemma utf8_bytes: "list_all (\<lambda>b. b < 256) (utf8 s)"
proof (induction s)
  case (Cons c s)
  have "(of_char c :: nat) div 64 < 4" by (simp add: less_mult_imp_div_less)
  with Cons show ?case by (auto simp: utf8_def Let_def)
qed (simp add: utf8_def)

lemma utf8_inject: "utf8 s = utf8 t \<longleftrightarrow> s = t"
proof
  assume "utf8 s = utf8 t"
  then show "s = t"
  proof (induction s arbitrary: t)
    case Nil
    then show ?case by (cases t) (auto simp: utf8_def Let_def split: if_splits)
  next
    case (Cons c s)
    then obtain d t' where t: "t = d # t'" by (cases t) (auto simp: utf8_def Let_def split: if_splits)
    have r: "(of_char c :: nat) < 256" "(of_char d :: nat) < 256" by simp_all
    have "(of_char c :: nat) = of_char d \<and> utf8 s = utf8 t'"
    proof (cases "(of_char c :: nat) < 128")
      case True
      then show ?thesis using Cons.prems r by (auto simp: t utf8_def Let_def split: if_splits)
    next
      case False
      then have "192 + (of_char c :: nat) div 64 = 192 + (of_char d :: nat) div 64 \<and>
          128 + (of_char c :: nat) mod 64 = 128 + (of_char d :: nat) mod 64 \<and> utf8 s = utf8 t'"
        using Cons.prems r by (auto simp: t utf8_def Let_def split: if_splits)
      then show ?thesis by (metis add_left_cancel div_mult_mod_eq)
    qed
    then show ?case using Cons.IH by (simp add: t)
  qed
qed simp

lemma base64url_decode: "b64_decode (base64url s) = utf8 s"
  by (simp add: base64url_def b64_roundtrip utf8_bytes)

lemma base64url_inject: "base64url s = base64url t \<longleftrightarrow> s = t"
  by (metis base64url_decode utf8_inject)

lemma base64url_no_dot: "CHR ''.'' \<notin> set (base64url s)"
  by (simp add: base64url_def b64_no_dot)

text \<open>The same JSON value with the members of its objects in another order, at any depth.\<close>

inductive same_json :: "jsval \<Rightarrow> jsval \<Rightarrow> bool" where
  same_refl: "same_json v v"
| same_arr: "list_all2 same_json xs ys \<Longrightarrow> same_json (JArr xs) (JArr ys)"
| same_members: "list_all2 (\<lambda>a b. fst a = fst b \<and> same_json (snd a) (snd b)) kvs kvs' \<Longrightarrow> same_json (JObj kvs) (JObj kvs')"
| same_order: "distinct (map fst kvs) \<Longrightarrow> mset kvs = mset kvs' \<Longrightarrow> same_json (JObj kvs) (JObj kvs')"
| same_trans: "same_json u v \<Longrightarrow> same_json v w \<Longrightarrow> same_json u w"

lemma sort_members:
  fixes xs ys :: "(string \<times> 'a) list"
  assumes "mset xs = mset ys" and "distinct (map fst xs)"
  shows "sort_key fst xs = sort_key fst ys"
  by (rule sort_key_inj_key_eq) (use assms in \<open>auto simp: distinct_map\<close>)

lemma same_json_serialize: "same_json v w \<Longrightarrow> serializeJcs big v = serializeJcs big w"
proof (induction rule: same_json.induct)
  case (same_arr xs ys)
  then have "map (\<lambda>x. opt_text [] (serializeJcs big x)) xs = map (\<lambda>x. opt_text [] (serializeJcs big x)) ys"
    by (induction rule: list_all2_induct) auto
  then show ?case by simp
next
  case (same_members kvs kvs')
  then have "map (\<lambda>e. (fst e, serializeJcs big (snd e))) kvs = map (\<lambda>e. (fst e, serializeJcs big (snd e))) kvs'"
    by (induction rule: list_all2_induct) auto
  then show ?case by simp
next
  case (same_order kvs kvs')
  let ?f = "\<lambda>e. (fst e, serializeJcs big (snd e))"
  have "sort_key fst (map ?f kvs) = sort_key fst (map ?f kvs')"
    by (rule sort_members) (use same_order in \<open>auto simp: comp_def\<close>)
  then show ?case by simp
qed auto

end
