(* ===== verification/SigningKeys.thy ===== *)
theory SigningKeys
  imports Canonical
begin

text \<open>
  Key material and key selection: \<open>src/src/security/key-provider.ts\<close> and the first
  part of \<open>src/src/security/signing.ts\<close>. The process a key function runs in is a
  record: the environment, the readable files, \<open>JSON.parse\<close>, the UTF-8 decoder,
  the primitives of \<open>node:crypto\<close>, \<open>Date.parse\<close>, how numbers from \<open>10^21\<close> on
  print, and the ephemeral secret and UUID, which the module draws once per
  process and memoizes. A key record from the environment is the unchecked JSON
  value; what the code does not check keeps that type.
\<close>

section \<open>The process\<close>

record signing_world =
  sw_env :: "string \<Rightarrow> string option"
  sw_file :: "string \<Rightarrow> string option"
  sw_json :: "string \<Rightarrow> jsval option"
  sw_text :: "nat list \<Rightarrow> string"
  sw_hmac :: "string \<Rightarrow> string \<Rightarrow> nat list"
  sw_rsa_sign :: "string \<Rightarrow> string \<Rightarrow> nat list option"
  sw_rsa_verify :: "string \<Rightarrow> string \<Rightarrow> nat list \<Rightarrow> bool option"
  sw_date :: "string \<Rightarrow> ms option"
  sw_big :: "rat \<Rightarrow> string"
  sw_secret :: string
  sw_uuid :: string

datatype profile = Open | Verified | Regulated

datatype sign_alg = HS256 | RS256

datatype key_status = KActive | KRetiring | KRevoked

datatype key_material = Hmac string | Rsa (rsa_private: "string option") (rsa_public: string)

record signing_key =
  sk_kid :: string
  sk_alg :: sign_alg
  sk_status :: key_status
  sk_scopes :: "jsval list"
  sk_demo_only :: jsval
  sk_material :: key_material

datatype sign_error =
    SecretNotConfigured
  | SecretRequired
  | NoActiveKey
  | NoSuchKey
  | KeyIsRevoked string
  | ScopeNotAuthorized string string
  | AlgorithmNotAllowed sign_alg profile
  | NoPrivateKey string
  | RsaFailure
  | UnknownArtifact string
  | KeyUseNotAllowed string string

fun profile_str :: "profile \<Rightarrow> string" where
  "profile_str Open = ''open''" | "profile_str Verified = ''verified''" | "profile_str Regulated = ''regulated''"

fun alg_str :: "sign_alg \<Rightarrow> string" where
  "alg_str HS256 = ''HS256''" | "alg_str RS256 = ''RS256''"

fun key_status_str :: "key_status \<Rightarrow> string" where
  "key_status_str KActive = ''active''" | "key_status_str KRetiring = ''retiring''" | "key_status_str KRevoked = ''revoked''"

text \<open>Reading a member of a value that is neither \<open>null\<close> nor \<open>undefined\<close>.\<close>

definition js_prop :: "jsval \<Rightarrow> string \<Rightarrow> jsval" where
  "js_prop v k = (case v of JObj kvs \<Rightarrow> obj_get kvs k | JArr xs \<Rightarrow> arr_get xs k | _ \<Rightarrow> JUndef)"

text \<open>\<open>!raw || raw.trim().length === 0\<close> fails, and the value is there.\<close>

definition env_present :: "string option \<Rightarrow> string option" where
  "env_present x = (case x of None \<Rightarrow> None | Some s \<Rightarrow> if str_trim s = [] then None else Some s)"

definition nonblank :: "jsval \<Rightarrow> string option" where
  "nonblank v = (case v of JStr s \<Rightarrow> env_present (Some s) | _ \<Rightarrow> None)"

section \<open>Key providers\<close>

datatype key_provider = EnvKeys | JsonKeyset | FileKeyset

fun provider_id :: "key_provider \<Rightarrow> string" where
  "provider_id EnvKeys = ''env''"
| "provider_id JsonKeyset = ''json_keyset''"
| "provider_id FileKeyset = ''file_keyset''"

definition json_array :: "signing_world \<Rightarrow> string \<Rightarrow> jsval list" where
  "json_array W raw = (case sw_json W raw of Some (JArr xs) \<Rightarrow> xs | _ \<Rightarrow> [])"

definition env_array :: "signing_world \<Rightarrow> string \<Rightarrow> jsval list" where
  "env_array W name = (case env_present (sw_env W name) of None \<Rightarrow> [] | Some raw \<Rightarrow> json_array W raw)"

fun listSigningKeys :: "signing_world \<Rightarrow> key_provider \<Rightarrow> jsval list" where
  "listSigningKeys W EnvKeys = env_array W ''MAP_SIGNING_KEYS''"
| "listSigningKeys W JsonKeyset = env_array W ''MAP_KMS_KEYSET_JSON''"
| "listSigningKeys W FileKeyset =
     (case env_present (sw_env W ''MAP_KMS_KEYSET_PATH'') of
        None \<Rightarrow> []
      | Some path \<Rightarrow> (case sw_file W path of None \<Rightarrow> [] | Some raw \<Rightarrow> json_array W raw))"

definition resolveProvider :: "signing_world \<Rightarrow> key_provider" where
  "resolveProvider W =
     (let c = str_lower (str_trim (case sw_env W ''MAP_KEY_PROVIDER'' of None \<Rightarrow> ''env'' | Some s \<Rightarrow> s)) in
      if c = ''json_keyset'' \<or> c = ''kms_json'' then JsonKeyset
      else if c = ''file_keyset'' \<or> c = ''kms_file'' then FileKeyset
      else EnvKeys)"

definition getSigningKeyConfigsFromProvider :: "signing_world \<Rightarrow> jsval list" where
  "getSigningKeyConfigsFromProvider W = listSigningKeys W (resolveProvider W)"

definition getKeyProviderInfo :: "signing_world \<Rightarrow> string \<times> bool" where
  "getKeyProviderInfo W =
     (let p = resolveProvider W in (provider_id p, length (listSigningKeys W p) > 0))"

section \<open>Signing keys\<close>

definition default_kid :: string where "default_kid = ''map-dev-key-1''"

definition default_scopes :: "string list" where
  "default_scopes = [''descriptor'', ''delegation_token'', ''receipt'', ''http_request'',
     ''audit_checkpoint'', ''audit_export'', ''conformance_export'', ''trust_bundle'']"

definition getDeploymentProfile :: "signing_world \<Rightarrow> profile" where
  "getDeploymentProfile W =
     (let p = sw_env W ''MAP_DEPLOYMENT_PROFILE'' in
      if p = Some ''verified'' then Verified else if p = Some ''regulated'' then Regulated else Open)"

definition getRevokedKidsFromEnv :: "signing_world \<Rightarrow> string list" where
  "getRevokedKidsFromEnv W =
     (case env_present (sw_env W ''MAP_SIGNING_REVOKED_KIDS'') of
        None \<Rightarrow> []
      | Some raw \<Rightarrow> filter (\<lambda>v. v \<noteq> []) (map str_trim (split_on (CHR '','') raw)))"

definition builtin_key :: "string \<Rightarrow> string \<Rightarrow> signing_key" where
  "builtin_key kid secret =
     \<lparr>sk_kid = kid, sk_alg = HS256, sk_status = KActive, sk_scopes = map JStr default_scopes,
      sk_demo_only = JBool True, sk_material = Hmac secret\<rparr>"

definition getDefaultSigningKey :: "signing_world \<Rightarrow> sign_error + signing_key" where
  "getDefaultSigningKey W =
     (let own = (if getDeploymentProfile W \<noteq> Open then Inl SecretNotConfigured
                 else if sw_env W ''MAP_REQUIRE_SIGNING_SECRET'' = Some ''true'' then Inl SecretRequired
                 else Inr (builtin_key (''map-ephemeral-'' @ take 8 (sw_uuid W)) (sw_secret W)))
      in case sw_env W ''MAP_SIGNING_SECRET'' of
           Some s \<Rightarrow> if s \<noteq> [] then Inr (builtin_key default_kid s) else own
         | None \<Rightarrow> own)"

text \<open>One key record: \<open>None\<close> where the code drops it.\<close>

definition key_material_of :: "sign_alg \<Rightarrow> jsval \<Rightarrow> key_material option" where
  "key_material_of alg key =
     (case alg of
        RS256 \<Rightarrow> (case nonblank (js_prop key ''public_key_pem'') of
                    None \<Rightarrow> None
                  | Some pem \<Rightarrow> Some (Rsa (nonblank (js_prop key ''private_key_pem'')) pem))
      | HS256 \<Rightarrow> (case js_prop key ''secret'' of JStr s \<Rightarrow> if s = [] then None else Some (Hmac s) | _ \<Rightarrow> None))"

definition key_alg_of :: "jsval \<Rightarrow> sign_alg" where
  "key_alg_of key = (if js_prop key ''alg'' = JStr ''RS256'' then RS256 else HS256)"

definition key_status_of :: "jsval \<Rightarrow> key_status" where
  "key_status_of key =
     (if js_prop key ''status'' = JStr ''revoked'' then KRevoked
      else if js_prop key ''status'' = JStr ''retiring'' then KRetiring else KActive)"

definition key_scopes_of :: "jsval \<Rightarrow> jsval list" where
  "key_scopes_of key =
     (case js_prop key ''scopes'' of JArr (x # xs) \<Rightarrow> x # xs | _ \<Rightarrow> map JStr default_scopes)"

definition normalize_key :: "jsval \<Rightarrow> signing_key option" where
  "normalize_key key =
     (if nullish key then None
      else case nonblank (js_prop key ''kid'') of
        None \<Rightarrow> None
      | Some kid \<Rightarrow>
          (case key_material_of (key_alg_of key) key of
             None \<Rightarrow> None
           | Some m \<Rightarrow> Some
               \<lparr>sk_kid = str_trim kid, sk_alg = key_alg_of key, sk_status = key_status_of key,
                sk_scopes = key_scopes_of key, sk_demo_only = js_coalesce (js_prop key ''demo_only'') (JBool False),
                sk_material = m\<rparr>))"

definition revoke_listed :: "string list \<Rightarrow> signing_key \<Rightarrow> signing_key" where
  "revoke_listed revoked key = (if sk_kid key \<in> set revoked then key\<lparr>sk_status := KRevoked\<rparr> else key)"

definition getSigningKeys :: "signing_world \<Rightarrow> sign_error + signing_key list" where
  "getSigningKeys W =
     (case List.map_filter normalize_key (getSigningKeyConfigsFromProvider W) of
        [] \<Rightarrow> (case getDefaultSigningKey W of
                 Inl e \<Rightarrow> Inl e
               | Inr key \<Rightarrow> Inr [revoke_listed (getRevokedKidsFromEnv W) key])
      | keys \<Rightarrow> Inr (map (revoke_listed (getRevokedKidsFromEnv W)) keys))"

definition key_by_kid :: "string \<Rightarrow> signing_key list \<Rightarrow> signing_key option" where
  "key_by_kid kid keys = find (\<lambda>k. sk_kid k = kid) keys"

definition getSigningKeyByKid :: "signing_world \<Rightarrow> string \<Rightarrow> sign_error + signing_key option" where
  "getSigningKeyByKid W kid = (case getSigningKeys W of Inl e \<Rightarrow> Inl e | Inr keys \<Rightarrow> Inr (key_by_kid kid keys))"

definition select_active :: "string option \<Rightarrow> signing_key list \<Rightarrow> signing_key option" where
  "select_active wanted keys =
     (let first = find (\<lambda>k. sk_status k \<noteq> KRevoked) keys in
      case env_present wanted of
        None \<Rightarrow> first
      | Some kid \<Rightarrow> (case key_by_kid (str_trim kid) keys of
                       Some k \<Rightarrow> if sk_status k \<noteq> KRevoked then Some k else first
                     | None \<Rightarrow> first))"

definition getActiveSigningKey :: "signing_world \<Rightarrow> sign_error + signing_key" where
  "getActiveSigningKey W =
     (case getSigningKeys W of
        Inl e \<Rightarrow> Inl e
      | Inr keys \<Rightarrow> (case select_active (sw_env W ''MAP_SIGNING_ACTIVE_KID'') keys of
                       None \<Rightarrow> Inl NoActiveKey
                     | Some k \<Rightarrow> Inr k))"

definition getActiveSignatureKeyId :: "signing_world \<Rightarrow> string option" where
  "getActiveSignatureKeyId W = (case getActiveSigningKey W of Inl e \<Rightarrow> None | Inr k \<Rightarrow> Some (sk_kid k))"

section \<open>Key use and algorithm policy\<close>

definition KEY_USE_CONSTRAINTS :: "(string \<times> string list) list" where
  "KEY_USE_CONSTRAINTS =
     [(''agent_descriptor'', [''descriptor'']), (''delegation_token'', [''delegation_token'']),
      (''execution_receipt'', [''receipt'']), (''http_request'', [''http_request'']),
      (''audit_checkpoint'', [''audit_checkpoint'']), (''audit_export'', [''audit_export'']),
      (''conformance_export'', [''conformance_export'']), (''trust_bundle'', [''trust_bundle''])]"

definition assertValidKeyUse :: "string \<Rightarrow> string \<Rightarrow> sign_error option" where
  "assertValidKeyUse artifact scope =
     (case map_of KEY_USE_CONSTRAINTS artifact of
        None \<Rightarrow> Some (UnknownArtifact artifact)
      | Some scopes \<Rightarrow> if scope \<in> set scopes then None else Some (KeyUseNotAllowed scope artifact))"

fun getAllowedAlgorithms :: "profile \<Rightarrow> sign_alg list" where
  "getAllowedAlgorithms Open = [HS256, RS256]"
| "getAllowedAlgorithms Verified = [RS256]"
| "getAllowedAlgorithms Regulated = [RS256]"

definition assertAlgorithmAllowed :: "sign_alg \<Rightarrow> profile \<Rightarrow> sign_error option" where
  "assertAlgorithmAllowed alg p =
     (if alg \<notin> set (getAllowedAlgorithms p) then Some (AlgorithmNotAllowed alg p) else None)"

section \<open>Facts on keys\<close>

lemma alg_str_inject [simp]: "alg_str a = alg_str b \<longleftrightarrow> a = b"
  by (cases a; cases b) auto

text \<open>Every key in use has material that fits its algorithm, a name, and some scope.\<close>

definition key_ok :: "signing_key \<Rightarrow> bool" where
  "key_ok k \<longleftrightarrow> sk_scopes k \<noteq> [] \<and>
     (case sk_material k of Hmac s \<Rightarrow> sk_alg k = HS256 \<and> s \<noteq> [] | Rsa prv pub \<Rightarrow> sk_alg k = RS256 \<and> str_trim pub \<noteq> [])"

lemma env_present_Some: "env_present x = Some s \<longleftrightarrow> x = Some s \<and> str_trim s \<noteq> []"
  by (auto simp: env_present_def split: option.splits if_splits)

lemma nonblank_Some: "nonblank v = Some s \<longleftrightarrow> v = JStr s \<and> str_trim s \<noteq> []"
  by (auto simp: nonblank_def env_present_Some split: jsval.splits)

lemma key_material_fits: "key_material_of alg v = Some m \<Longrightarrow>
    (case m of Hmac s \<Rightarrow> alg = HS256 \<and> s \<noteq> [] | Rsa prv pub \<Rightarrow> alg = RS256 \<and> str_trim pub \<noteq> [])"
  by (auto simp: key_material_of_def nonblank_Some split: sign_alg.splits option.splits jsval.splits if_splits)

lemma key_scopes_nonempty: "key_scopes_of key \<noteq> []"
  by (auto simp: key_scopes_of_def default_scopes_def split: jsval.split list.split)

lemma normalize_key_ok:
  assumes "normalize_key v = Some k"
  shows "key_ok k \<and> sk_kid k \<noteq> []"
proof -
  from assms obtain kid m where kid: "nonblank (js_prop v ''kid'') = Some kid"
    and m: "key_material_of (key_alg_of v) v = Some m" and k: "sk_material k = m" "sk_alg k = key_alg_of v"
    "sk_kid k = str_trim kid" "sk_scopes k = key_scopes_of v"
    by (auto simp: normalize_key_def split: if_splits option.splits)
  with key_material_fits [OF m] key_scopes_nonempty show ?thesis
    by (cases m) (simp_all add: key_ok_def nonblank_Some)
qed

lemma revoke_listed_simps [simp]:
  "sk_kid (revoke_listed r k) = sk_kid k" "sk_alg (revoke_listed r k) = sk_alg k"
  "sk_scopes (revoke_listed r k) = sk_scopes k" "sk_material (revoke_listed r k) = sk_material k"
  "key_ok (revoke_listed r k) = key_ok k"
  by (auto simp: revoke_listed_def key_ok_def split: key_material.splits)

lemma revoke_listed_status: "sk_kid k \<in> set r \<Longrightarrow> sk_status (revoke_listed r k) = KRevoked"
  by (simp add: revoke_listed_def)

lemma map_filter_set: "x \<in> set (List.map_filter f xs) \<Longrightarrow> \<exists>v \<in> set xs. f v = Some x"
  by (induction xs) (auto simp: List.map_filter_simps split: option.splits)

lemma default_key_ok: "getDefaultSigningKey W = Inr k \<Longrightarrow> sw_secret W \<noteq> [] \<Longrightarrow> key_ok k"
  by (auto simp: getDefaultSigningKey_def builtin_key_def key_ok_def Let_def default_scopes_def split: option.splits if_splits)

lemma getSigningKeys_cases:
  assumes "getSigningKeys W = Inr keys"
  obtains base where "keys = map (revoke_listed (getRevokedKidsFromEnv W)) base" and "base \<noteq> []"
    and "\<And>k. k \<in> set base \<Longrightarrow> (\<exists>v. normalize_key v = Some k) \<or> getDefaultSigningKey W = Inr k"
proof (cases "List.map_filter normalize_key (getSigningKeyConfigsFromProvider W)")
  case Nil
  then obtain k where "getDefaultSigningKey W = Inr k" "keys = map (revoke_listed (getRevokedKidsFromEnv W)) [k]"
    using assms by (auto simp: getSigningKeys_def split: sum.splits)
  then show ?thesis by (intro that [of "[k]"]) auto
next
  case (Cons a as)
  then have "keys = map (revoke_listed (getRevokedKidsFromEnv W)) (a # as)"
    using assms by (auto simp: getSigningKeys_def)
  moreover have "k \<in> set (a # as) \<Longrightarrow> \<exists>v. normalize_key v = Some k" for k
    using map_filter_set [of k normalize_key "getSigningKeyConfigsFromProvider W"] Cons by auto
  ultimately show ?thesis by (intro that [of "a # as"]) auto
qed

lemma getSigningKeys_ok: "getSigningKeys W = Inr keys \<Longrightarrow> sw_secret W \<noteq> [] \<Longrightarrow> k \<in> set keys \<Longrightarrow> key_ok k"
  by (erule getSigningKeys_cases) (use normalize_key_ok default_key_ok in \<open>fastforce\<close>)

lemma getSigningKeys_revoked:
  "getSigningKeys W = Inr keys \<Longrightarrow> k \<in> set keys \<Longrightarrow> sk_kid k \<in> set (getRevokedKidsFromEnv W) \<Longrightarrow> sk_status k = KRevoked"
  by (erule getSigningKeys_cases) (auto simp: revoke_listed_status)

lemma getSigningKeys_nonempty: "getSigningKeys W = Inr keys \<Longrightarrow> keys \<noteq> []"
  by (erule getSigningKeys_cases) auto

lemma key_by_kid_Some: "key_by_kid kid keys = Some k \<Longrightarrow> k \<in> set keys \<and> sk_kid k = kid"
  by (auto simp: key_by_kid_def find_Some_iff)

lemma key_by_kid_distinct: "distinct (map sk_kid keys) \<Longrightarrow> k \<in> set keys \<Longrightarrow> key_by_kid (sk_kid k) keys = Some k"
  by (induction keys) (auto simp: key_by_kid_def)

lemma select_active_Some: "select_active w keys = Some k \<Longrightarrow> k \<in> set keys \<and> sk_status k \<noteq> KRevoked"
  by (auto simp: select_active_def Let_def find_Some_iff dest: key_by_kid_Some split: option.splits if_splits)

lemma getActiveSigningKey_cases:
  assumes "getActiveSigningKey W = Inr k"
  obtains keys where "getSigningKeys W = Inr keys" and "k \<in> set keys" and "sk_status k \<noteq> KRevoked"
  using assms select_active_Some by (auto simp: getActiveSigningKey_def split: sum.splits option.splits)

end
