(* ===== verification/Signing.thy ===== *)
theory Signing
  imports SigningKeys ProtocolTypes
begin

text \<open>
  Compact signatures: the second part of \<open>src/src/security/signing.ts\<close>. A
  signature is \<open>base64url(header).base64url(payload).base64url(mac)\<close>; signing and
  verifying update the metrics of the module, which together with the nonce cache
  are the state that is passed along. A thrown error is the left of a sum; the
  state written before the throw is kept.
\<close>

section \<open>State\<close>

record key_stats =
  ks_signed :: nat
  ks_verified :: nat
  ks_failed :: nat

record signing_state =
  ss_total :: nat
  ss_failed :: nat
  ss_by_key :: "(string, key_stats) jmap"
  ss_by_alg :: "(sign_alg, nat) jmap"
  ss_last :: "ms option"
  ss_nonces :: "(string, ms) jmap"

definition empty_signing :: signing_state where
  "empty_signing = \<lparr>ss_total = 0, ss_failed = 0, ss_by_key = [], ss_by_alg = [], ss_last = None, ss_nonces = []\<rparr>"

definition key_stats_of :: "string \<Rightarrow> signing_state \<Rightarrow> key_stats" where
  "key_stats_of kid st = (case jm_get (ss_by_key st) kid of
      None \<Rightarrow> \<lparr>ks_signed = 0, ks_verified = 0, ks_failed = 0\<rparr> | Some k \<Rightarrow> k)"

definition count_signature :: "ms \<Rightarrow> signing_key \<Rightarrow> signing_state \<Rightarrow> signing_state" where
  "count_signature now k st =
     (let stats = key_stats_of (sk_kid k) st in
      st\<lparr>ss_total := ss_total st + 1, ss_last := Some now,
         ss_by_alg := jm_set (sk_alg k) ((case jm_get (ss_by_alg st) (sk_alg k) of None \<Rightarrow> 0 | Some n \<Rightarrow> n) + 1) (ss_by_alg st),
         ss_by_key := jm_set (sk_kid k) (stats\<lparr>ks_signed := ks_signed stats + 1\<rparr>) (ss_by_key st)\<rparr>)"

definition recordVerificationMetric :: "string \<Rightarrow> bool \<Rightarrow> signing_state \<Rightarrow> signing_state" where
  "recordVerificationMetric kid ok st =
     (let stats = key_stats_of kid st in
      if ok then st\<lparr>ss_by_key := jm_set kid (stats\<lparr>ks_verified := ks_verified stats + 1\<rparr>) (ss_by_key st)\<rparr>
      else st\<lparr>ss_failed := ss_failed st + 1,
              ss_by_key := jm_set kid (stats\<lparr>ks_failed := ks_failed stats + 1\<rparr>) (ss_by_key st)\<rparr>)"

section \<open>Signing\<close>

text \<open>\<open>JSON.stringify\<close> of an object whose members are strings.\<close>

definition json_strings :: "(string \<times> string) list \<Rightarrow> string" where
  "json_strings kvs = ''{'' @ join_with '','' (map (\<lambda>(k, v). json_quote k @ '':'' @ json_quote v) kvs) @ ''}''"

definition signing_header :: "signing_key \<Rightarrow> (string \<times> string) list" where
  "signing_header k = [(''alg'', alg_str (sk_alg k)), (''kid'', sk_kid k), (''typ'', ''MAPSIG'')]"

definition signing_input :: "signing_key \<Rightarrow> string \<Rightarrow> string" where
  "signing_input k payload = base64url (json_strings (signing_header k)) @ ''.'' @ base64url payload"

definition chosen_key :: "signing_world \<Rightarrow> string option \<Rightarrow> sign_error + signing_key" where
  "chosen_key W requested =
     (case env_present requested of
        None \<Rightarrow> getActiveSigningKey W
      | Some kid \<Rightarrow> (case getSigningKeyByKid W (str_trim kid) of
                       Inl e \<Rightarrow> Inl e
                     | Inr None \<Rightarrow> Inl NoSuchKey
                     | Inr (Some k) \<Rightarrow> Inr k))"

definition scope_ok :: "string option \<Rightarrow> signing_key \<Rightarrow> bool" where
  "scope_ok scope k \<longleftrightarrow> (case scope of None \<Rightarrow> True | Some s \<Rightarrow> s = [] \<or> js_includes (sk_scopes k) (JStr s))"

definition sign_refusal :: "signing_world \<Rightarrow> string option \<Rightarrow> signing_key \<Rightarrow> sign_error option" where
  "sign_refusal W scope k =
     (if sk_status k = KRevoked then Some (KeyIsRevoked (sk_kid k))
      else if \<not> scope_ok scope k then Some (ScopeNotAuthorized (sk_kid k) (case scope of None \<Rightarrow> [] | Some s \<Rightarrow> s))
      else assertAlgorithmAllowed (sk_alg k) (getDeploymentProfile W))"

definition raw_signature :: "signing_world \<Rightarrow> signing_key \<Rightarrow> string \<Rightarrow> sign_error + nat list" where
  "raw_signature W k input =
     (case sk_material k of
        Hmac secret \<Rightarrow> Inr (sw_hmac W secret input)
      | Rsa None pub \<Rightarrow> Inl (NoPrivateKey (sk_kid k))
      | Rsa (Some prv) pub \<Rightarrow> (case sw_rsa_sign W prv input of None \<Rightarrow> Inl RsaFailure | Some bs \<Rightarrow> Inr bs))"

definition createCompactSignatureFromCanonical :: "signing_world \<Rightarrow> ms \<Rightarrow> string \<Rightarrow> string option \<Rightarrow> string option
    \<Rightarrow> signing_state \<Rightarrow> (sign_error + string) \<times> signing_state" where
  "createCompactSignatureFromCanonical W now payload requested scope st =
     (case chosen_key W requested of
        Inl e \<Rightarrow> (Inl e, st)
      | Inr k \<Rightarrow>
          (case sign_refusal W scope k of
             Some e \<Rightarrow> (Inl e, st)
           | None \<Rightarrow>
               (case raw_signature W k (signing_input k payload) of
                  Inl e \<Rightarrow> (Inl e, count_signature now k st)
                | Inr bs \<Rightarrow> (Inr (signing_input k payload @ ''.'' @ b64_encode bs), count_signature now k st))))"

definition createCompactSignature :: "signing_world \<Rightarrow> ms \<Rightarrow> jsval \<Rightarrow> string option \<Rightarrow> string option
    \<Rightarrow> signing_state \<Rightarrow> (sign_error + string) \<times> signing_state" where
  "createCompactSignature W now payload requested scope st =
     createCompactSignatureFromCanonical W now (stableStringify (sw_big W) payload) requested scope st"

section \<open>Verifying\<close>

definition parse_header :: "signing_world \<Rightarrow> string \<Rightarrow> jsval option" where
  "parse_header W part = sw_json W (sw_text W (b64_decode part))"

fun alg_of :: "jsval \<Rightarrow> sign_alg option" where
  "alg_of (JStr s) = (if s = ''HS256'' then Some HS256 else if s = ''RS256'' then Some RS256 else None)"
| "alg_of _ = None"

text \<open>
  The key a signature names, when the header parses, is a \<open>MAPSIG\<close> header with a
  known algorithm, and names a known key of that algorithm that is not revoked.
\<close>

definition header_key :: "signing_world \<Rightarrow> string \<Rightarrow> sign_error + signing_key option" where
  "header_key W part =
     (case parse_header W part of
        None \<Rightarrow> Inr None
      | Some h \<Rightarrow>
          (case alg_of (js_prop h ''alg'') of
             None \<Rightarrow> Inr None
           | Some alg \<Rightarrow>
               if \<not> js_truthy h \<or> js_prop h ''typ'' \<noteq> JStr ''MAPSIG'' then Inr None
               else (case getSigningKeys W of
                       Inl e \<Rightarrow> Inl e
                     | Inr keys \<Rightarrow>
                         (case js_prop h ''kid'' of
                            JStr kid \<Rightarrow>
                              (case key_by_kid kid keys of
                                 None \<Rightarrow> Inr None
                               | Some k \<Rightarrow> Inr (if sk_status k = KRevoked \<or> sk_alg k \<noteq> alg then None else Some k))
                          | _ \<Rightarrow> Inr None))))"

definition material_verifies :: "signing_world \<Rightarrow> signing_key \<Rightarrow> string \<Rightarrow> nat list \<Rightarrow> bool" where
  "material_verifies W k input bytes =
     (case sk_material k of
        Hmac secret \<Rightarrow> bytes = b64_decode (b64_encode (sw_hmac W secret input))
      | Rsa prv pub \<Rightarrow> sw_rsa_verify W pub input bytes = Some True)"

definition verifyCompactSignatureFromCanonical :: "signing_world \<Rightarrow> string \<Rightarrow> string \<Rightarrow> string option
    \<Rightarrow> signing_state \<Rightarrow> (sign_error + bool) \<times> signing_state" where
  "verifyCompactSignatureFromCanonical W signature payload scope st =
     (case split_on (CHR ''.'') signature of
        [h, p, s] \<Rightarrow>
          (case header_key W h of
             Inl e \<Rightarrow> (Inl e, st)
           | Inr None \<Rightarrow> (Inr False, st)
           | Inr (Some k) \<Rightarrow>
               if \<not> scope_ok scope k then (Inr False, st)
               else (let ok = (p = base64url payload \<and> material_verifies W k (h @ ''.'' @ p) (b64_decode s))
                     in (Inr ok, recordVerificationMetric (sk_kid k) ok st)))
      | _ \<Rightarrow> (Inr False, st))"

definition verifyCompactSignature :: "signing_world \<Rightarrow> string \<Rightarrow> jsval \<Rightarrow> string option
    \<Rightarrow> signing_state \<Rightarrow> (sign_error + bool) \<times> signing_state" where
  "verifyCompactSignature W signature payload scope st =
     verifyCompactSignatureFromCanonical W signature (stableStringify (sw_big W) payload) scope st"

definition signature_header :: "signing_world \<Rightarrow> string \<Rightarrow> jsval option" where
  "signature_header W signature =
     (case split_on (CHR ''.'') signature of [h, p, s] \<Rightarrow> parse_header W h | _ \<Rightarrow> None)"

definition getSignatureKeyId :: "signing_world \<Rightarrow> string \<Rightarrow> string option" where
  "getSignatureKeyId W signature =
     (case signature_header W signature of
        None \<Rightarrow> None
      | Some h \<Rightarrow> if js_prop h ''typ'' \<noteq> JStr ''MAPSIG'' then None
                  else (case js_prop h ''kid'' of JStr kid \<Rightarrow> Some kid | _ \<Rightarrow> None))"

definition getSignatureAlgorithm :: "signing_world \<Rightarrow> string \<Rightarrow> sign_alg option" where
  "getSignatureAlgorithm W signature =
     (case signature_header W signature of
        None \<Rightarrow> None
      | Some h \<Rightarrow> if js_prop h ''typ'' \<noteq> JStr ''MAPSIG'' then None else alg_of (js_prop h ''alg''))"

section \<open>What a signature is\<close>

text \<open>
  What the code relies on from \<open>Buffer\<close>, \<open>JSON.parse\<close> and \<open>node:crypto\<close>: a header
  the module prints is read back as it was, a digest is a list of bytes, and a
  signature made with a private key verifies under the public key beside it.
\<close>

definition header_readable :: "signing_world \<Rightarrow> signing_key \<Rightarrow> bool" where
  "header_readable W k \<longleftrightarrow>
     sw_json W (sw_text W (utf8 (json_strings (signing_header k)))) = Some (JObj (map (\<lambda>(a, b). (a, JStr b)) (signing_header k)))"

definition is_bytes :: "nat list \<Rightarrow> bool" where
  "is_bytes bs \<longleftrightarrow> list_all (\<lambda>b. b < 256) bs"

definition crypto_ok :: "signing_world \<Rightarrow> bool" where
  "crypto_ok W \<longleftrightarrow> (\<forall>secret m. is_bytes (sw_hmac W secret m)) \<and> (\<forall>prv m bs. sw_rsa_sign W prv m = Some bs \<longrightarrow> is_bytes bs)"

definition keypair_ok :: "signing_world \<Rightarrow> signing_key \<Rightarrow> bool" where
  "keypair_ok W k \<longleftrightarrow> (\<forall>prv pub m bs. sk_material k = Rsa (Some prv) pub \<longrightarrow> sw_rsa_sign W prv m = Some bs \<longrightarrow>
     sw_rsa_verify W pub m bs = Some True)"

lemma split_three:
  assumes "d \<notin> set a" "d \<notin> set b" "d \<notin> set c"
  shows "split_on d (a @ [d] @ b @ [d] @ c) = [a, b, c]"
  using assms by (simp add: split_on_append split_on_char_free)

lemma join_head: "join_with sep ((c # x) # xs) = c # join_with sep (x # xs)"
  by (cases xs) auto

lemma join_split: "join_with [d] (split_on d s) = s"
proof (induction s)
  case (Cons c s)
  then show ?case by (cases "split_on d s") (auto simp: join_head)
qed simp

lemma split_three_conv:
  "split_on d s = [a, b, c] \<longleftrightarrow> s = a @ [d] @ b @ [d] @ c \<and> d \<notin> set a \<and> d \<notin> set b \<and> d \<notin> set c"
  (is "?l \<longleftrightarrow> ?r")
proof
  assume l: ?l
  have free: "d \<notin> set a" "d \<notin> set b" "d \<notin> set c" using split_on_parts_free [of _ d s] l by auto
  from join_split [of d s] l free show ?r by simp
qed (use split_three in auto)

lemma header_key_sound:
  assumes "header_key W part = Inr (Some k)"
  obtains keys h where "getSigningKeys W = Inr keys" and "k \<in> set keys" and "sk_status k \<noteq> KRevoked"
    and "parse_header W part = Some h" and "js_prop h ''typ'' = JStr ''MAPSIG''"
    and "js_prop h ''kid'' = JStr (sk_kid k)" and "js_prop h ''alg'' = JStr (alg_str (sk_alg k))"
proof -
  have alg: "alg_of v = Some a \<Longrightarrow> v = JStr (alg_str a)" for v a
    by (cases v) (auto split: if_splits)
  show ?thesis using assms
    by (auto simp: header_key_def split: option.splits if_splits sum.splits jsval.splits
        dest!: alg key_by_kid_Some intro: that)
qed

lemma header_key_signed:
  assumes "header_readable W k" and "getSigningKeys W = Inr keys" and "key_by_kid (sk_kid k) keys = Some k"
    and "sk_status k \<noteq> KRevoked"
  shows "header_key W (base64url (json_strings (signing_header k))) = Inr (Some k)"
proof -
  have "alg_of (JStr (alg_str (sk_alg k))) = Some (sk_alg k)" by (cases "sk_alg k") auto
  then show ?thesis
    using assms by (simp add: header_key_def parse_header_def base64url_decode header_readable_def
        signing_header_def js_prop_def obj_get_def)
qed

lemma chosen_key_known:
  assumes "chosen_key W requested = Inr k"
  obtains keys where "getSigningKeys W = Inr keys" and "k \<in> set keys"
  using assms key_by_kid_Some
  by (auto simp: chosen_key_def getSigningKeyByKid_def split: option.splits sum.splits elim: getActiveSigningKey_cases)

text \<open>What a successful signing run did, and which keys it can have used.\<close>

lemma create_cases:
  assumes "createCompactSignatureFromCanonical W now payload requested scope st = (Inr sig, st')"
  obtains k bs where "chosen_key W requested = Inr k" and "sign_refusal W scope k = None"
    and "raw_signature W k (signing_input k payload) = Inr bs"
    and "sig = signing_input k payload @ ''.'' @ b64_encode bs" and "st' = count_signature now k st"
  using assms by (auto simp: createCompactSignatureFromCanonical_def split: sum.splits option.splits)

lemma refusal_None: "sign_refusal W scope k = None \<longleftrightarrow>
    sk_status k \<noteq> KRevoked \<and> scope_ok scope k \<and> sk_alg k \<in> set (getAllowedAlgorithms (getDeploymentProfile W))"
  by (simp add: sign_refusal_def assertAlgorithmAllowed_def)

lemma split_signature: "split_on (CHR ''.'') (signing_input k payload @ ''.'' @ b64_encode bs) =
    [base64url (json_strings (signing_header k)), base64url payload, b64_encode bs]"
  using split_three [OF base64url_no_dot base64url_no_dot b64_no_dot] by (simp add: signing_input_def)

lemma raw_verifies:
  assumes "raw_signature W k input = Inr bs" and "crypto_ok W" and "keypair_ok W k"
  shows "material_verifies W k input (b64_decode (b64_encode bs))"
proof -
  have "is_bytes bs" using assms(1,2)
    by (auto simp: raw_signature_def crypto_ok_def split: key_material.splits option.splits)
  then have "b64_decode (b64_encode bs) = bs" by (simp add: is_bytes_def b64_roundtrip)
  moreover have "is_bytes (sw_hmac W s m)" for s m using assms(2) by (simp add: crypto_ok_def)
  ultimately show ?thesis using assms(1,3)
    by (auto simp: raw_signature_def material_verifies_def keypair_ok_def is_bytes_def b64_roundtrip
        split: key_material.splits option.splits)
qed

text \<open>The laws under which a signature of this process verifies in it: the key names are distinct.\<close>

definition signing_laws :: "signing_world \<Rightarrow> bool" where
  "signing_laws W \<longleftrightarrow> crypto_ok W \<and>
     (\<forall>keys. getSigningKeys W = Inr keys \<longrightarrow> distinct (map sk_kid keys) \<and> list_all (\<lambda>k. header_readable W k \<and> keypair_ok W k) keys)"

lemma signature_accepted:
  assumes laws: "signing_laws W" and keys: "getSigningKeys W = Inr keys" "k \<in> set keys"
    and k: "sk_status k \<noteq> KRevoked" "scope_ok scope k" and raw: "raw_signature W k (signing_input k payload) = Inr bs"
  shows "fst (verifyCompactSignatureFromCanonical W (signing_input k payload @ ''.'' @ b64_encode bs) payload scope st) = Inr True"
proof -
  from laws keys have d: "distinct (map sk_kid keys)" and l: "header_readable W k" "keypair_ok W k" "crypto_ok W"
    by (auto simp: signing_laws_def list_all_iff)
  have "header_key W (base64url (json_strings (signing_header k))) = Inr (Some k)"
    using header_key_signed [OF l(1) keys(1) key_by_kid_distinct [OF d keys(2)] k(1)] .
  moreover have "material_verifies W k (signing_input k payload) (b64_decode (b64_encode bs))"
    using raw_verifies [OF raw l(3,2)] .
  ultimately show ?thesis using k(2) unfolding verifyCompactSignatureFromCanonical_def split_signature
    by (simp add: Let_def signing_input_def)
qed

lemma create_verifies:
  assumes laws: "signing_laws W"
    and sign: "createCompactSignatureFromCanonical W now payload requested scope st = (Inr sig, st')"
  shows "fst (verifyCompactSignatureFromCanonical W sig payload scope st2) = Inr True"
proof -
  from sign obtain k bs where k: "chosen_key W requested = Inr k" "sign_refusal W scope k = None"
    and raw: "raw_signature W k (signing_input k payload) = Inr bs"
    and sig: "sig = signing_input k payload @ ''.'' @ b64_encode bs" by (rule create_cases)
  from k(1) obtain keys where "getSigningKeys W = Inr keys" "k \<in> set keys" by (rule chosen_key_known)
  from signature_accepted [OF laws this _ _ raw] k(2) show ?thesis by (simp add: sig refusal_None)
qed

text \<open>What an accepted signature proves.\<close>

lemma verify_sound:
  assumes "fst (verifyCompactSignatureFromCanonical W sig payload scope st) = Inr True"
  obtains h s k keys where "sig = h @ ''.'' @ base64url payload @ ''.'' @ s" and "CHR ''.'' \<notin> set h" and "CHR ''.'' \<notin> set s"
    and "header_key W h = Inr (Some k)" and "scope_ok scope k"
    and "material_verifies W k (h @ ''.'' @ base64url payload) (b64_decode s)"
proof -
  from assms obtain h p s where "split_on (CHR ''.'') sig = [h, p, s]"
    by (auto simp: verifyCompactSignatureFromCanonical_def split: list.splits)
  with assms show ?thesis
    by (auto simp: verifyCompactSignatureFromCanonical_def split_three_conv Let_def
        split: sum.splits option.splits if_splits intro!: that)
qed

lemma verify_rejects_other:
  assumes "sig = signing_input k payload @ ''.'' @ b64_encode bs" and "payload' \<noteq> payload"
  shows "fst (verifyCompactSignatureFromCanonical W sig payload' scope st) \<noteq> Inr True"
proof
  assume "fst (verifyCompactSignatureFromCanonical W sig payload' scope st) = Inr True"
  then obtain h s where "sig = h @ ''.'' @ base64url payload' @ ''.'' @ s" "CHR ''.'' \<notin> set h" "CHR ''.'' \<notin> set s"
    by (rule verify_sound)
  then have "split_on (CHR ''.'') sig = [h, base64url payload', s]"
    using split_three [of "CHR ''.''" h "base64url payload'" s] base64url_no_dot by simp
  then show False using assms(2) unfolding assms(1) split_signature by (simp add: base64url_inject)
qed

end
