(* ===== verification/ProtocolJson.thy ===== *)
theory ProtocolJson
  imports ProtocolTypes
begin

text \<open>
  The values of the protocol as the plain objects they are in the program: what
  \<open>JSON.stringify\<close> and the signing layer read. An absent optional property is
  \<open>undefined\<close>.
\<close>

section \<open>Enumerations\<close>

fun visibility_str :: "visibility_mode \<Rightarrow> string" where
  "visibility_str VFull = ''full''"
| "visibility_str VSummary = ''summary''"
| "visibility_str VStructuredOnly = ''structured_only''"
| "visibility_str VReceiptOnly = ''receipt_only''"
| "visibility_str VRedacted = ''redacted''"
| "visibility_str VDebug = ''debug''"

fun delivery_str :: "delivery_mode \<Rightarrow> string" where
  "delivery_str Sync = ''sync''" | "delivery_str Async = ''async''"

fun mode_str :: "execution_mode \<Rightarrow> string" where
  "mode_str MRead = ''read''"
| "mode_str MAnalyze = ''analyze''"
| "mode_str MPropose = ''propose''"
| "mode_str MCommit = ''commit''"
| "mode_str MMonitor = ''monitor''"
| "mode_str MBatch = ''batch''"

fun auth_str :: "auth_scheme \<Rightarrow> string" where
  "auth_str NoAuth = ''none''"
| "auth_str Bearer = ''bearer''"
| "auth_str Mtls = ''mtls''"
| "auth_str SignedRequest = ''signed_request''"
| "auth_str OAuth2 = ''oauth2''"

fun requester_str :: "requester_type \<Rightarrow> string" where
  "requester_str User = ''user''" | "requester_str Service = ''service''" | "requester_str Agent = ''agent''"

fun registry_str :: "registry_status \<Rightarrow> string" where
  "registry_str RegActive = ''active''" | "registry_str RegDeprecated = ''deprecated''" | "registry_str RegDisabled = ''disabled''"

fun compat_str :: "compatibility \<Rightarrow> string" where
  "compat_str BackwardCompatible = ''backward_compatible''"
| "compat_str ForwardCompatible = ''forward_compatible''"
| "compat_str BreakingChange = ''breaking_change''"

lemma requester_str_inject [simp]: "requester_str a = requester_str b \<longleftrightarrow> a = b"
  by (cases a; cases b) auto

section \<open>Timestamps\<close>

text \<open>\<open>new Date(t).toISOString()\<close>: the proleptic Gregorian date of an instant.\<close>

definition pad_int :: "nat \<Rightarrow> int \<Rightarrow> string" where
  "pad_int n i = (let s = nat_str (nat i) in replicate (n - length s) (CHR ''0'') @ s)"

definition civil :: "int \<Rightarrow> int \<times> int \<times> int" where
  "civil days =
     (let z = days + 719468; era = z div 146097; doe = z mod 146097;
          yoe = (doe - doe div 1460 + doe div 36524 - doe div 146096) div 365;
          doy = doe - (365 * yoe + yoe div 4 - yoe div 100);
          mp = (5 * doy + 2) div 153;
          m = (if mp < 10 then mp + 3 else mp - 9);
          y = yoe + era * 400
      in (if m \<le> 2 then y + 1 else y, m, doy - (153 * mp + 2) div 5 + 1))"

definition iso_year :: "int \<Rightarrow> string" where
  "iso_year y = (if 0 \<le> y \<and> y \<le> 9999 then pad_int 4 y
                 else (if y < 0 then CHR ''-'' # pad_int 6 (- y) else CHR ''+'' # pad_int 6 y))"

definition toISOString :: "ms \<Rightarrow> string" where
  "toISOString t =
     (let (y, m, d) = civil (t div 86400000); r = t mod 86400000
      in iso_year y @ ''-'' @ pad_int 2 m @ ''-'' @ pad_int 2 d @ ''T'' @ pad_int 2 (r div 3600000) @ '':''
         @ pad_int 2 (r div 60000 mod 60) @ '':'' @ pad_int 2 (r div 1000 mod 60) @ ''.'' @ pad_int 3 (r mod 1000) @ ''Z'')"

section \<open>Records\<close>

abbreviation jstrs :: "string list \<Rightarrow> jsval" where
  "jstrs xs \<equiv> JArr (map JStr xs)"

definition requester_json :: "requester_identity \<Rightarrow> jsval" where
  "requester_json r = JObj [(''type'', JStr (requester_str (ri_type r))), (''id'', JStr (ri_id r)),
     (''tenant_id'', jopt JStr (ri_tenant_id r))]"

definition side_json :: "negotiated_side \<Rightarrow> jsval" where
  "side_json n = JObj [(''schema_version'', jopt JStr (ns_schema_version n)),
     (''output_mode'', JStr (visibility_str (ns_output_mode n))), (''delivery_mode'', JStr (delivery_str (ns_delivery_mode n)))]"

text \<open>\<open>negotiateInvocation\<close> writes both sides with their \<open>schema_version\<close> key, and \<open>provider_actions\<close> only when set.\<close>

definition negotiation_json :: "invocation_negotiation \<Rightarrow> jsval" where
  "negotiation_json n = JObj ([(''requested'', side_json (in_requested n)), (''selected'', side_json (in_selected n))]
     @ (if in_schema_translated n then [(''provider_actions'', jstrs [''schema_translated''])] else []))"

definition extension_json :: "agent_extension \<Rightarrow> jsval" where
  "extension_json e = JObj [(''uri'', JStr (ax_uri e)), (''description'', jopt JStr (ax_description e)),
     (''required'', jopt JBool (ax_required e)), (''params'', jopt JObj (ax_params e))]"

definition translation_json :: "translation_target \<Rightarrow> jsval" where
  "translation_json t = JObj [(''from'', JStr (tt_from t)), (''to'', JStr (tt_to t)), (''mode'', JStr ''provider_translation'')]"

definition capability_json :: "capability_descriptor \<Rightarrow> jsval" where
  "capability_json c = JObj
     [(''name'', JStr (cd_name c)), (''execution_mode'', JStr (mode_str (cd_execution_mode c))),
      (''request_schema_ref'', JStr (cd_request_schema_ref c)), (''response_schema_ref'', JStr (cd_response_schema_ref c)),
      (''constraint_schema_ref'', jopt JStr (cd_constraint_schema_ref c)),
      (''approval_required_by_default'', jopt JBool (cd_approval_required_by_default c)),
      (''auth_schemes'', jopt (jstrs \<circ> map auth_str) (cd_auth_schemes c)),
      (''required_auth_scheme'', jopt (JStr \<circ> auth_str) (cd_required_auth_scheme c)),
      (''schema_version'', jopt JStr (cd_schema_version c)),
      (''supported_schema_versions'', jopt jstrs (cd_supported_schema_versions c)),
      (''preferred_schema_version'', jopt JStr (cd_preferred_schema_version c)),
      (''translation_targets'', jopt (JArr \<circ> map translation_json) (cd_translation_targets c)),
      (''compatibility'', jopt (JStr \<circ> compat_str) (cd_compatibility c)),
      (''status'', jopt (JStr \<circ> registry_str) (cd_status c))]"

text \<open>An agent descriptor without its three signature properties.\<close>

definition unsigned_descriptor_json :: "agent_descriptor \<Rightarrow> jsval" where
  "unsigned_descriptor_json d = JObj
     [(''agent_id'', JStr (ad_agent_id d)), (''organization'', JStr (ad_organization d)), (''version'', JStr (ad_version d)),
      (''domain'', JStr (ad_domain d)), (''capabilities'', jstrs (ad_capabilities d)),
      (''risk_level'', JStr (risk_str (ad_risk_level d))), (''input_schema_ref'', JStr (ad_input_schema_ref d)),
      (''output_schema_ref'', JStr (ad_output_schema_ref d)),
      (''supported_execution_modes'', jstrs (map mode_str (ad_execution_modes d))),
      (''approval_requirements'', jopt jstrs (ad_approval_requirements d)),
      (''visibility_modes'', jstrs (map visibility_str (ad_visibility_modes d))),
      (''policy_hooks'', jopt jstrs (ad_policy_hooks d)), (''display_name'', jopt JStr (ad_display_name d)),
      (''provider_url'', jopt JStr (ad_provider_url d)), (''documentation_url'', jopt JStr (ad_documentation_url d)),
      (''auth_schemes'', jopt (jstrs \<circ> map auth_str) (ad_auth_schemes d)),
      (''capability_descriptors'', jopt (JArr \<circ> map capability_json) (ad_capability_descriptors d)),
      (''transport_bindings'', jopt (JArr \<circ> map (\<lambda>e. JObj [(''kind'', JStr ''http''), (''endpoint'', JStr e)])) (ad_transport_bindings d)),
      (''tags'', jopt jstrs (ad_tags d)), (''registry_status'', jopt (JStr \<circ> registry_str) (ad_registry_status d)),
      (''description'', jopt JStr (ad_description d)), (''extensions'', jopt (JArr \<circ> map extension_json) (ad_extensions d))]"

end
