(* ===== verification/JsNumber.thy ===== *)
theory JsNumber
  imports JsValues
begin

text \<open>\<open>Number(s)\<close> of a string: white space around it is skipped, the empty string is 0, and
  what is not a numeric literal is \<open>NaN\<close>. The value is exact.\<close>

definition is_digit :: "char \<Rightarrow> bool" where
  "is_digit c \<longleftrightarrow> 48 \<le> (of_char c :: nat) \<and> (of_char c :: nat) \<le> 57"

definition char_digit :: "char \<Rightarrow> nat" where
  "char_digit c = (let n = of_char (char_lower c) in if n < 97 then n - 48 else n - 87)"

definition radix_value :: "nat \<Rightarrow> string \<Rightarrow> nat" where
  "radix_value b s = foldl (\<lambda>n c. n * b + char_digit c) 0 s"

definition radix_digits :: "nat \<Rightarrow> string \<Rightarrow> bool" where
  "radix_digits b s \<longleftrightarrow> s \<noteq> [] \<and> list_all (\<lambda>c. (is_digit c \<or> char_lower c \<in> set ''abcdef'') \<and> char_digit c < b) s"

definition parse_exponent :: "string \<Rightarrow> int option" where
  "parse_exponent s =
     (let digits = (\<lambda>q. if q \<noteq> [] \<and> list_all is_digit q then Some (int (radix_value 10 q)) else None) in
      case s of
        [] \<Rightarrow> None
      | c # q \<Rightarrow> if c = CHR ''-'' then map_option uminus (digits q)
                 else if c = CHR ''+'' then digits q else digits s)"

definition parse_decimal :: "string \<Rightarrow> rat option" where
  "parse_decimal s =
     (let ip = takeWhile is_digit s; r = dropWhile is_digit s;
          dot = (r \<noteq> [] \<and> hd r = CHR ''.'');
          fp = (if dot then takeWhile is_digit (tl r) else []);
          r2 = (if dot then dropWhile is_digit (tl r) else r);
          m = of_nat (radix_value 10 (ip @ fp)) / 10 ^ length fp
      in if ip @ fp = [] then None
         else case r2 of
           [] \<Rightarrow> Some m
         | c # q \<Rightarrow>
             if c \<noteq> CHR ''e'' \<and> c \<noteq> CHR ''E'' then None
             else (case parse_exponent q of
                     None \<Rightarrow> None
                   | Some e \<Rightarrow> Some (if e \<ge> 0 then m * 10 ^ nat e else m / 10 ^ nat (- e))))"

definition parse_unsigned :: "string \<Rightarrow> jsnum" where
  "parse_unsigned s =
     (if s = ''Infinity'' then PosInf else case parse_decimal s of Some x \<Rightarrow> Fin x | None \<Rightarrow> NaN)"

definition num_neg :: "jsnum \<Rightarrow> jsnum" where
  "num_neg n = (case n of Fin x \<Rightarrow> Fin (- x) | PosInf \<Rightarrow> NegInf | NegInf \<Rightarrow> PosInf | NaN \<Rightarrow> NaN)"

definition js_number :: "string \<Rightarrow> jsnum" where
  "js_number s =
     (let t = str_trim s; p = str_lower (take 2 t); r = drop 2 t in
      if t = [] then Fin 0
      else if p = ''0x'' then (if radix_digits 16 r then Fin (of_nat (radix_value 16 r)) else NaN)
      else if p = ''0o'' then (if radix_digits 8 r then Fin (of_nat (radix_value 8 r)) else NaN)
      else if p = ''0b'' then (if radix_digits 2 r then Fin (of_nat (radix_value 2 r)) else NaN)
      else if hd t = CHR ''-'' then num_neg (parse_unsigned (tl t))
      else if hd t = CHR ''+'' then parse_unsigned (tl t)
      else parse_unsigned t)"

lemma nat_str_is_digits: "list_all is_digit (nat_str n)"
  using nat_str_digits [of _ n] by (auto simp: list_all_iff is_digit_def)

end
