(* ===== verification/SignedArtifacts.thy ===== *)
theory SignedArtifacts
  imports Signing ProtocolJson JsNumber
begin

text \<open>
  The signed artifacts of \<open>src/src/security/signing.ts\<close>: the payload each one
  signs, the pair of functions that sign and verify it, request signatures with
  their time window and nonce cache, the trust anchors and the anomaly report.
\<close>

section \<open>Payloads\<close>

definition null_or :: "('a \<Rightarrow> jsval) \<Rightarrow> 'a option \<Rightarrow> jsval" where
  "null_or f x = (case x of None \<Rightarrow> JNull | Some y \<Rightarrow> f y)"

definition tokenSigningPayload :: "delegation_token \<Rightarrow> jsval" where
  "tokenSigningPayload t = JObj
     [(''issuer'', JStr (dt_issuer t)), (''subject_agent'', JStr (dt_subject_agent t)),
      (''allowed_actions'', jstrs (dt_allowed_actions t)), (''resource_scope'', JObj (dt_resource_scope t)),
      (''constraints'', JObj (dt_constraints t)),
      (''approval_reference'', null_or JStr (dt_approval_reference t)),
      (''requester_identity'', null_or requester_json (dt_requester_identity t))]"

definition descriptorSigningPayload :: "signing_world \<Rightarrow> agent_descriptor \<Rightarrow> string" where
  "descriptorSigningPayload W d = canonicalize (sw_big W) (unsigned_descriptor_json d)"

definition receiptSigningPayload :: "receipt \<Rightarrow> jsval" where
  "receiptSigningPayload r = JObj
     [(''receipt_id'', JStr (rc_receipt_id r)), (''intent_id'', JStr (rc_intent_id r)),
      (''capability'', JStr (rc_capability r)), (''action'', JStr (receipt_action_str (rc_action r))),
      (''timestamp'', JStr (toISOString (rc_timestamp r))), (''status'', JStr (exec_status_str (rc_status r))),
      (''task_id'', null_or JStr (rc_task_id r)), (''tenant_id'', null_or JStr (rc_tenant_id r)),
      (''request_id'', null_or JStr (rc_request_id r)), (''agent_id'', JStr (rc_agent_id r)),
      (''resource_touched'', null_or JStr (rc_resource_touched r)),
      (''policy_checks'', null_or jstrs (rc_policy_checks r)),
      (''approval_used'', null_or JStr (rc_approval_used r)), (''result_hash'', null_or JStr (rc_result_hash r)),
      (''requested_schema_version'', null_or JStr (rc_requested_schema_version r)),
      (''executed_schema_version'', null_or JStr (rc_executed_schema_version r)),
      (''negotiation'', null_or negotiation_json (rc_negotiation r))]"

record signed_request =
  sr_method :: string
  sr_path :: string
  sr_timestamp :: string
  sr_key_id :: string
  sr_body :: string

definition signedRequestPayload :: "signed_request \<Rightarrow> jsval" where
  "signedRequestPayload r = JObj
     [(''method'', JStr (str_upper (sr_method r))), (''path'', JStr (sr_path r)),
      (''timestamp'', JStr (sr_timestamp r)), (''key_id'', JStr (sr_key_id r)), (''body'', JStr (sr_body r))]"

record audit_checkpoint_payload =
  ac_checkpoint_id :: string
  ac_created_at :: string
  ac_last_chain_index :: int
  ac_last_event_hash :: string

definition auditCheckpointPayload :: "audit_checkpoint_payload \<Rightarrow> jsval" where
  "auditCheckpointPayload p = JObj
     [(''checkpoint_id'', JStr (ac_checkpoint_id p)), (''created_at'', JStr (ac_created_at p)),
      (''last_chain_index'', jint (ac_last_chain_index p)), (''last_event_hash'', JStr (ac_last_event_hash p))]"

record audit_export_payload =
  ap_export_id :: string
  ap_created_at :: string
  ap_events_count :: int
  ap_checkpoints_count :: int
  ap_latest_chain_index :: int
  ap_latest_event_hash :: string

definition auditExportPayload :: "audit_export_payload \<Rightarrow> jsval" where
  "auditExportPayload p = JObj
     [(''export_id'', JStr (ap_export_id p)), (''created_at'', JStr (ap_created_at p)),
      (''events_count'', jint (ap_events_count p)), (''checkpoints_count'', jint (ap_checkpoints_count p)),
      (''latest_chain_index'', jint (ap_latest_chain_index p)), (''latest_event_hash'', JStr (ap_latest_event_hash p))]"

record conformance_export_payload =
  ce_export_id :: string
  ce_created_at :: string
  ce_profile :: profile
  ce_total_checks :: int
  ce_passed_checks :: int
  ce_failed_checks :: int
  ce_artifact_hash :: string

definition conformanceExportPayload :: "conformance_export_payload \<Rightarrow> jsval" where
  "conformanceExportPayload p = JObj
     [(''export_id'', JStr (ce_export_id p)), (''created_at'', JStr (ce_created_at p)),
      (''profile'', JStr (profile_str (ce_profile p))), (''total_checks'', jint (ce_total_checks p)),
      (''passed_checks'', jint (ce_passed_checks p)), (''failed_checks'', jint (ce_failed_checks p)),
      (''artifact_hash'', JStr (ce_artifact_hash p))]"

record trust_bundle_payload =
  tb_bundle_id :: string
  tb_created_at :: string
  tb_trust_domain :: string
  tb_issuer :: string
  tb_profile :: profile
  tb_keys_hash :: string

definition trustBundlePayload :: "trust_bundle_payload \<Rightarrow> jsval" where
  "trustBundlePayload p = JObj
     [(''bundle_id'', JStr (tb_bundle_id p)), (''created_at'', JStr (tb_created_at p)),
      (''trust_domain'', JStr (tb_trust_domain p)), (''issuer'', JStr (tb_issuer p)),
      (''profile'', JStr (profile_str (tb_profile p))), (''keys_hash'', JStr (tb_keys_hash p))]"

section \<open>Signing and verifying an artifact\<close>

type_synonym 'a signing = "signing_state \<Rightarrow> (sign_error + 'a) \<times> signing_state"

definition sign_artifact :: "signing_world \<Rightarrow> ms \<Rightarrow> string \<Rightarrow> string \<Rightarrow> string option \<Rightarrow> jsval \<Rightarrow> string signing" where
  "sign_artifact W now artifact scope requested payload st =
     (case assertValidKeyUse artifact scope of
        Some e \<Rightarrow> (Inl e, st)
      | None \<Rightarrow> createCompactSignature W now payload requested (Some scope) st)"

definition signDelegationToken :: "signing_world \<Rightarrow> ms \<Rightarrow> delegation_token \<Rightarrow> string signing" where
  "signDelegationToken W now t =
     sign_artifact W now ''delegation_token'' ''delegation_token'' None (tokenSigningPayload t)"

definition verifyDelegationTokenSignature :: "signing_world \<Rightarrow> delegation_token \<Rightarrow> bool signing" where
  "verifyDelegationTokenSignature W t =
     verifyCompactSignature W (dt_signature t) (tokenSigningPayload t) (Some ''delegation_token'')"

definition signReceipt :: "signing_world \<Rightarrow> ms \<Rightarrow> receipt \<Rightarrow> string signing" where
  "signReceipt W now r = sign_artifact W now ''execution_receipt'' ''receipt'' None (receiptSigningPayload r)"

definition signAgentDescriptor :: "signing_world \<Rightarrow> ms \<Rightarrow> agent_descriptor \<Rightarrow> agent_descriptor signing" where
  "signAgentDescriptor W now d st =
     (case assertValidKeyUse ''agent_descriptor'' ''descriptor'' of
        Some e \<Rightarrow> (Inl e, st)
      | None \<Rightarrow>
          (case createCompactSignatureFromCanonical W now (descriptorSigningPayload W d) None (Some ''descriptor'') st of
             (Inl e, st1) \<Rightarrow> (Inl e, st1)
           | (Inr sig, st1) \<Rightarrow>
               (Inr (d\<lparr>ad_signature := Some sig,
                      ad_key_id := Some (case getSignatureKeyId W sig of Some k \<Rightarrow> k | None \<Rightarrow> default_kid),
                      ad_signature_alg := Some (alg_str (case getSignatureAlgorithm W sig of Some a \<Rightarrow> a | None \<Rightarrow> HS256))\<rparr>), st1)))"

definition verifyAgentDescriptorSignature :: "signing_world \<Rightarrow> agent_descriptor \<Rightarrow> bool signing" where
  "verifyAgentDescriptorSignature W d st =
     (case (ad_signature d, ad_key_id d, ad_signature_alg d) of
        (Some sig, Some kid, Some alg) \<Rightarrow>
          verifyCompactSignatureFromCanonical W sig (descriptorSigningPayload W d) (Some ''descriptor'') st
      | _ \<Rightarrow> (Inr False, st))"

definition signAuditCheckpoint :: "signing_world \<Rightarrow> ms \<Rightarrow> audit_checkpoint_payload \<Rightarrow> string signing" where
  "signAuditCheckpoint W now p =
     sign_artifact W now ''audit_checkpoint'' ''audit_checkpoint'' None (auditCheckpointPayload p)"

definition verifyAuditCheckpointSignature :: "signing_world \<Rightarrow> audit_checkpoint_payload \<Rightarrow> string \<Rightarrow> bool signing" where
  "verifyAuditCheckpointSignature W p sig =
     verifyCompactSignature W sig (auditCheckpointPayload p) (Some ''audit_checkpoint'')"

definition signAuditExport :: "signing_world \<Rightarrow> ms \<Rightarrow> audit_export_payload \<Rightarrow> string signing" where
  "signAuditExport W now p = sign_artifact W now ''audit_export'' ''audit_export'' None (auditExportPayload p)"

definition verifyAuditExportSignature :: "signing_world \<Rightarrow> audit_export_payload \<Rightarrow> string \<Rightarrow> bool signing" where
  "verifyAuditExportSignature W p sig = verifyCompactSignature W sig (auditExportPayload p) (Some ''audit_export'')"

definition signConformanceExport :: "signing_world \<Rightarrow> ms \<Rightarrow> conformance_export_payload \<Rightarrow> string signing" where
  "signConformanceExport W now p =
     sign_artifact W now ''conformance_export'' ''conformance_export'' None (conformanceExportPayload p)"

definition verifyConformanceExportSignature :: "signing_world \<Rightarrow> conformance_export_payload \<Rightarrow> string \<Rightarrow> bool signing" where
  "verifyConformanceExportSignature W p sig =
     verifyCompactSignature W sig (conformanceExportPayload p) (Some ''conformance_export'')"

definition signTrustBundle :: "signing_world \<Rightarrow> ms \<Rightarrow> trust_bundle_payload \<Rightarrow> string signing" where
  "signTrustBundle W now p = sign_artifact W now ''trust_bundle'' ''trust_bundle'' None (trustBundlePayload p)"

definition verifyTrustBundleSignature :: "signing_world \<Rightarrow> trust_bundle_payload \<Rightarrow> string \<Rightarrow> bool signing" where
  "verifyTrustBundleSignature W p sig = verifyCompactSignature W sig (trustBundlePayload p) (Some ''trust_bundle'')"

section \<open>Request signatures\<close>

definition nonce_max_age :: ms where "nonce_max_age = 5 * 60 * 1000"

definition default_request_max_age :: jsnum where "default_request_max_age = Fin (5 * 60 * 1000)"

definition getRequestMaxAgeMs :: "signing_world \<Rightarrow> jsnum" where
  "getRequestMaxAgeMs W =
     (case sw_env W ''MAP_REQUEST_MAX_AGE_MS'' of
        None \<Rightarrow> default_request_max_age
      | Some s \<Rightarrow> (case js_number s of Fin x \<Rightarrow> if x > 0 then Fin x else default_request_max_age
                                   | _ \<Rightarrow> default_request_max_age))"

definition verifyNonce :: "ms \<Rightarrow> string \<Rightarrow> ms option \<Rightarrow> signing_state \<Rightarrow> bool \<times> signing_state" where
  "verifyNonce now nonce maxAge st =
     (let age = (case maxAge of None \<Rightarrow> nonce_max_age | Some a \<Rightarrow> a);
          kept = filter (\<lambda>(k, t). \<not> now - t > age) (ss_nonces st)
      in if jm_has kept nonce then (False, st\<lparr>ss_nonces := kept\<rparr>)
         else (True, st\<lparr>ss_nonces := jm_set nonce now kept\<rparr>))"

record signed_request_headers =
  sh_key_id :: string
  sh_timestamp :: string
  sh_signature :: string
  sh_nonce :: string

text \<open>\<open>nonce\<close> is the UUID that \<open>generateNonce\<close> draws.\<close>

definition signHttpRequest :: "signing_world \<Rightarrow> ms \<Rightarrow> signed_request \<Rightarrow> string \<Rightarrow> signed_request_headers signing" where
  "signHttpRequest W now r nonce st =
     (case sign_artifact W now ''http_request'' ''http_request'' (Some (sr_key_id r)) (signedRequestPayload r) st of
        (Inl e, st1) \<Rightarrow> (Inl e, st1)
      | (Inr sig, st1) \<Rightarrow>
          (Inr \<lparr>sh_key_id = sr_key_id r, sh_timestamp = sr_timestamp r, sh_signature = sig, sh_nonce = nonce\<rparr>, st1))"

definition verifyHttpRequestSignature :: "signing_world \<Rightarrow> ms \<Rightarrow> signed_request \<Rightarrow> string \<Rightarrow> string option \<Rightarrow> bool signing" where
  "verifyHttpRequestSignature W now r sig nonce st =
     (case sw_date W (sr_timestamp r) of
        None \<Rightarrow> (Inr False, st)
      | Some t \<Rightarrow>
          if num_lt (getRequestMaxAgeMs W) (Fin (of_int \<bar>now - t\<bar>)) then (Inr False, st)
          else
            (let (fresh, st1) = (case nonce of
                     Some n \<Rightarrow> if n \<noteq> [] then verifyNonce now n None st else (True, st)
                   | None \<Rightarrow> (True, st))
             in if \<not> fresh then (Inr False, st1)
                else verifyCompactSignature W sig (signedRequestPayload r) (Some ''http_request'') st1))"

end
