(* ===== verification/TrustAnomaly.thy ===== *)
theory TrustAnomaly
  imports SignedArtifacts
begin

text \<open>
  Published keys, trust anchors and the anomaly report of
  \<open>src/src/security/signing.ts\<close>. Trust anchors are the unchecked JSON array of an
  environment variable: reading a member of a \<open>null\<close> element, or searching keys
  that are not an array, is a \<open>TypeError\<close>, here \<open>None\<close>.
\<close>

section \<open>Published keys\<close>

record verification_key =
  vk_kid :: string
  vk_alg :: sign_alg
  vk_status :: key_status
  vk_scopes :: "jsval list"
  vk_demo_only :: jsval
  vk_kty :: string
  vk_public_key_pem :: "string option"
  vk_jwk :: "jsval option"

text \<open>\<open>jwk\<close> is \<open>createPublicKey(pem).export({format: "jwk"})\<close>, \<open>None\<close> when it throws.\<close>

definition publish_key :: "(string \<Rightarrow> jsval option) \<Rightarrow> signing_key \<Rightarrow> verification_key" where
  "publish_key jwk k =
     (let common = (\<lambda>kty pem j. \<lparr>vk_kid = sk_kid k, vk_alg = sk_alg k, vk_status = sk_status k, vk_scopes = sk_scopes k,
                       vk_demo_only = sk_demo_only k, vk_kty = kty, vk_public_key_pem = pem, vk_jwk = j\<rparr>)
      in case sk_material k of
           Rsa prv pub \<Rightarrow> common ''RSA'' (Some pub) (jwk pub)
         | Hmac s \<Rightarrow> common ''oct'' None None)"

definition getVerificationKeys :: "signing_world \<Rightarrow> (string \<Rightarrow> jsval option) \<Rightarrow> sign_error + verification_key list" where
  "getVerificationKeys W jwk = (case getSigningKeys W of Inl e \<Rightarrow> Inl e | Inr keys \<Rightarrow> Inr (map (publish_key jwk) keys))"

section \<open>Trust\<close>

record trust_metadata =
  tm_trust_domain :: string
  tm_issuer :: string
  tm_profile :: profile

definition getTrustMetadata :: "signing_world \<Rightarrow> profile \<Rightarrow> trust_metadata" where
  "getTrustMetadata W p =
     \<lparr>tm_trust_domain = (case sw_env W ''MAP_TRUST_DOMAIN'' of None \<Rightarrow> ''map.local'' | Some s \<Rightarrow> s),
      tm_issuer = (case sw_env W ''MAP_SIGNING_ISSUER'' of None \<Rightarrow> ''map.reference'' | Some s \<Rightarrow> s), tm_profile = p\<rparr>"

definition getTrustAnchors :: "signing_world \<Rightarrow> jsval list" where
  "getTrustAnchors W = env_array W ''MAP_TRUST_ANCHORS''"

text \<open>\<open>xs.find(x => x[k] === s)\<close>.\<close>

fun find_member :: "string \<Rightarrow> string \<Rightarrow> jsval list \<Rightarrow> jsval option option" where
  "find_member k s [] = Some None"
| "find_member k s (x # xs) =
     (if nullish x then None else if js_prop x k = JStr s then Some (Some x) else find_member k s xs)"

definition some_member :: "string \<Rightarrow> string \<Rightarrow> jsval list \<Rightarrow> bool option" where
  "some_member k s xs = map_option (\<lambda>x. x \<noteq> None) (find_member k s xs)"

definition verifyTrustDomain :: "signing_world \<Rightarrow> string \<Rightarrow> bool option" where
  "verifyTrustDomain W domain =
     (let anchors = getTrustAnchors W in
      if anchors = [] then Some True else some_member ''trust_domain'' domain anchors)"

definition isKeyTrusted :: "signing_world \<Rightarrow> string \<Rightarrow> string \<Rightarrow> bool option" where
  "isKeyTrusted W kid domain =
     (let anchors = getTrustAnchors W in
      if anchors = [] then Some True
      else case find_member ''trust_domain'' domain anchors of
             None \<Rightarrow> None
           | Some None \<Rightarrow> Some False
           | Some (Some anchor) \<Rightarrow>
               (case js_prop anchor ''public_keys'' of JArr keys \<Rightarrow> some_member ''kid'' kid keys | _ \<Rightarrow> None))"

section \<open>Anomalies\<close>

datatype anomaly_type = HighFailureRate | RevokedKeyUsage | RetiringKeyUsage | UnknownKeyUsage

datatype anomaly_severity = AWarning | ACritical

record anomaly_report =
  ay_type :: anomaly_type
  ay_severity :: anomaly_severity
  ay_detail :: string
  ay_detected_at :: ms
  ay_recommendation :: string

definition failure_rate_report :: "ms \<Rightarrow> signing_state \<Rightarrow> anomaly_report list" where
  "failure_rate_report now st =
     (let total = ss_total st + ss_failed st;
          rate = (of_nat (ss_failed st) :: rat) / of_nat total
      in if total > 0 \<and> rate > 1 / 2 then
           [\<lparr>ay_type = HighFailureRate, ay_severity = ACritical,
             ay_detail = ''Signature verification failure rate is '' @ toFixed 1 (rate * 100) @ ''% (''
               @ nat_str (ss_failed st) @ '' failures out of '' @ nat_str total @ '' total verifications).'',
             ay_detected_at = now,
             ay_recommendation = ''Investigate potential key misuse or an active attack. ''
               @ ''Rotate signing keys immediately and audit recent signature activity.''\<rparr>]
         else [])"

definition quoted :: "string \<Rightarrow> string" where
  "quoted s = [CHR 0x22] @ s @ [CHR 0x22]"

definition key_usage_reports :: "ms \<Rightarrow> signing_key list \<Rightarrow> string \<times> key_stats \<Rightarrow> anomaly_report list" where
  "key_usage_reports now keys e =
     (let kid = fst e; n = ks_signed (snd e); q = quoted kid;
          with_status = (\<lambda>s. kid \<in> set (map sk_kid (filter (\<lambda>k. sk_status k = s) keys)))
      in (if with_status KRevoked \<and> n > 0 then
            [\<lparr>ay_type = RevokedKeyUsage, ay_severity = ACritical,
              ay_detail = ''Revoked key '' @ q @ '' was used to sign '' @ nat_str n @ '' payload(s).'', ay_detected_at = now,
              ay_recommendation = ''Immediately investigate why revoked key '' @ q
                @ '' is still being used. Revoke trust in this key and rotate to a new key.''\<rparr>] else [])
         @ (if with_status KRetiring \<and> n > 0 then
            [\<lparr>ay_type = RetiringKeyUsage, ay_severity = AWarning,
              ay_detail = ''Retiring key '' @ q @ '' was used to sign '' @ nat_str n
                @ '' payload(s). Key should be phased out.'', ay_detected_at = now,
              ay_recommendation = ''Accelerate migration away from retiring key '' @ q
                @ ''. Ensure all clients have the replacement key.''\<rparr>] else [])
         @ (if kid \<notin> set (map sk_kid keys) \<and> n > 0 then
            [\<lparr>ay_type = UnknownKeyUsage, ay_severity = ACritical,
              ay_detail = ''Unknown key '' @ q @ '' was used to sign '' @ nat_str n
                @ '' payload(s). This key is not in the current key set.'', ay_detected_at = now,
              ay_recommendation = ''Investigate the origin of unknown key '' @ q
                @ ''. This may indicate a compromised key or a configuration error.''\<rparr>] else []))"

definition detectAnomalies :: "signing_world \<Rightarrow> ms \<Rightarrow> signing_state \<Rightarrow> sign_error + anomaly_report list" where
  "detectAnomalies W now st =
     (case getSigningKeys W of
        Inl e \<Rightarrow> Inl e
      | Inr keys \<Rightarrow> Inr (failure_rate_report now st @ concat (map (key_usage_reports now keys) (ss_by_key st))))"

end
