(* ===== verification/SigningProofs.thy ===== *)
theory SigningProofs
  imports TrustAnomaly
begin

text \<open>
  What the signing layer guarantees: signatures verify exactly for the payload they
  were made for, an accepted one comes from a known key that is not revoked and
  has the scope, and where the guarantees end (nonces, numbers, profiles).
\<close>

section \<open>Lemmas on the state\<close>

lemma record_metric_nonces [simp]: "ss_nonces (recordVerificationMetric kid ok st) = ss_nonces st"
  by (simp add: recordVerificationMetric_def Let_def)

lemma verify_nonces: "ss_nonces (snd (verifyCompactSignatureFromCanonical W sig payload scope st)) = ss_nonces st"
proof -
  have three: "P (case xs of [a, b, c] \<Rightarrow> f a b c | _ \<Rightarrow> d)" if "\<And>a b c. P (f a b c)" and "P d" for P f d and xs :: "'x list"
    using that by (auto split: list.split)
  show ?thesis unfolding verifyCompactSignatureFromCanonical_def
    by (rule three) (auto simp: Let_def split: sum.split option.split)
qed

lemma verify_stateless:
  "fst (verifyCompactSignatureFromCanonical W sig payload scope st) = fst (verifyCompactSignatureFromCanonical W sig payload scope st2)"
proof -
  show ?thesis unfolding verifyCompactSignatureFromCanonical_def
    by (cases "split_on (CHR ''.'') sig" rule: list.exhaust)
       (auto simp: Let_def split: list.split sum.split option.split)
qed

lemma map_of_filter_kept: "map_of m k = Some v \<Longrightarrow> P (k, v) \<Longrightarrow> map_of (filter P m) k = Some v"
  by (induction m) (auto split: if_splits)

lemma map_of_filter_none: "map_of m k = None \<Longrightarrow> map_of (filter P m) k = None"
  by (induction m) (auto split: if_splits)

lemma verifyNonce_accepts: "verifyNonce now n a st = (True, st') \<Longrightarrow> jm_get (ss_nonces st') n = Some now"
  by (auto simp: verifyNonce_def Let_def jm_get_set split: if_splits)

lemma verifyNonce_keeps:
  assumes "jm_get (ss_nonces st) n = Some t0" and "now \<le> t0 + nonce_max_age"
  shows "jm_get (ss_nonces (snd (verifyNonce now m None st))) n = Some t0" and "\<not> fst (verifyNonce now n None st)"
proof -
  let ?kept = "filter (\<lambda>(k, t). \<not> now - t > nonce_max_age) (ss_nonces st)"
  have k: "jm_get ?kept n = Some t0" using assms by (intro map_of_filter_kept) auto
  then show "\<not> fst (verifyNonce now n None st)" by (simp add: verifyNonce_def Let_def jm_has_def)
  show "jm_get (ss_nonces (snd (verifyNonce now m None st))) n = Some t0"
    using k by (auto simp: verifyNonce_def Let_def jm_has_def jm_get_set)
qed

text \<open>One call of the request check, in a sequence of calls: when, request, signature, nonce.\<close>

type_synonym http_check = "ms \<times> signed_request \<times> string \<times> string option"

definition http_step :: "signing_world \<Rightarrow> signing_state \<Rightarrow> http_check \<Rightarrow> signing_state" where
  "http_step W st e = (case e of (now, r, sig, n) \<Rightarrow> snd (verifyHttpRequestSignature W now r sig n st))"

lemma http_keeps:
  assumes "jm_get (ss_nonces st) n = Some t0" and "now \<le> t0 + nonce_max_age"
  shows "jm_get (ss_nonces (snd (verifyHttpRequestSignature W now r sig m st))) n = Some t0"
proof (cases "sw_date W (sr_timestamp r)")
  case None
  then show ?thesis using assms by (simp add: verifyHttpRequestSignature_def)
next
  case (Some ts)
  note k = verifyNonce_keeps(1) [OF assms]
  obtain b st1 where v: "(case m of Some n \<Rightarrow> if n \<noteq> [] then verifyNonce now n None st else (True, st) | None \<Rightarrow> (True, st)) = (b, st1)"
    by fastforce
  then have "jm_get (ss_nonces st1) n = Some t0"
    using assms(1) k by (auto split: option.splits if_splits) (metis snd_conv)+
  then show ?thesis using Some v assms(1)
    by (simp add: verifyHttpRequestSignature_def verifyCompactSignature_def verify_nonces)
qed

lemma http_run_keeps:
  assumes "jm_get (ss_nonces st) n = Some t0" and "list_all (\<lambda>e. fst e \<le> t0 + nonce_max_age) es"
  shows "jm_get (ss_nonces (foldl (http_step W) st es)) n = Some t0"
  using assms
proof (induction es arbitrary: st)
  case (Cons e es)
  then have "jm_get (ss_nonces (http_step W st e)) n = Some t0"
    by (auto simp: http_step_def http_keeps split: prod.split)
  with Cons show ?case by simp
qed simp

lemma http_accepted:
  assumes "verifyHttpRequestSignature W now r sig nonce st = (Inr True, st')"
  obtains ts st1 where "sw_date W (sr_timestamp r) = Some ts" and "\<not> num_lt (getRequestMaxAgeMs W) (Fin (of_int \<bar>now - ts\<bar>))"
    and "(case nonce of Some n \<Rightarrow> if n \<noteq> [] then verifyNonce now n None st else (True, st) | None \<Rightarrow> (True, st)) = (True, st1)"
    and "verifyCompactSignature W sig (signedRequestPayload r) (Some ''http_request'') st1 = (Inr True, st')"
proof -
  let ?c = "case nonce of Some n \<Rightarrow> if n \<noteq> [] then verifyNonce now n None st else (True, st) | None \<Rightarrow> (True, st)"
  obtain b st1 where c: "?c = (b, st1)" by fastforce
  from assms obtain ts where ts: "sw_date W (sr_timestamp r) = Some ts"
    by (cases "sw_date W (sr_timestamp r)") (auto simp: verifyHttpRequestSignature_def)
  with assms c show ?thesis
    by (intro that [of ts st1]) (simp_all add: verifyHttpRequestSignature_def split: if_splits)
qed

lemma http_nonce_stored:
  assumes "verifyHttpRequestSignature W t0 r sig (Some n) st = (Inr True, st0)" and "n \<noteq> []"
  shows "jm_get (ss_nonces st0) n = Some t0"
proof -
  from assms obtain st1 where "verifyNonce t0 n None st = (True, st1)"
    and "verifyCompactSignature W sig (signedRequestPayload r) (Some ''http_request'') st1 = (Inr True, st0)"
    by (auto elim: http_accepted)
  with verifyNonce_accepts verify_nonces show ?thesis by (metis verifyCompactSignature_def snd_conv)
qed

section \<open>Signatures and payloads\<close>

lemma create_verify_iff:
  assumes "signing_laws W" and "createCompactSignatureFromCanonical W now payload requested scope st = (Inr sig, st')"
  shows "fst (verifyCompactSignatureFromCanonical W sig payload' scope st2) = Inr True \<longleftrightarrow> payload' = payload"
proof -
  from assms(2) obtain k bs where "sig = signing_input k payload @ ''.'' @ b64_encode bs" by (rule create_cases)
  from create_verifies [OF assms] verify_rejects_other [OF this] show ?thesis by blast
qed

lemma same_json_stable: "same_json v w \<Longrightarrow> stableStringify big v = stableStringify big w"
  by (simp add: stableStringify_def same_json_serialize)

lemma sign_artifact_create:
  assumes "sign_artifact W now artifact scope requested payload st = (Inr sig, st')"
  shows "createCompactSignatureFromCanonical W now (stableStringify (sw_big W) payload) requested (Some scope) st = (Inr sig, st')"
  using assms by (simp add: sign_artifact_def createCompactSignature_def split: option.splits)

lemma zero_text:
  "strip_zeros (nat_str (0 div 10 ^ 15) @ (if (15::nat) = 0 then [] else CHR ''.'' # pad_left 15 (nat_str (0 mod 10 ^ 15)))) = ''0''"
proof -
  have z: "nat_str 0 = ''0''" by code_simp
  have "strip_zeros (''0'' @ CHR ''.'' # pad_left 15 ''0'') = ''0''" by code_simp
  then show ?thesis by (simp only: div_0 mod_0 z) simp
qed

lemma small_number_text: "0 \<le> x \<Longrightarrow> x < 1 / (2 * 10 ^ 15) \<Longrightarrow> serializeJcsNumber big (Fin x) = ''0''"
proof -
  assume x: "0 \<le> x" "x < 1 / (2 * 10 ^ 15)"
  show ?thesis
  proof (cases "x = 0")
    case False
    have f: "\<lfloor>x\<rfloor> = 0" using x by (simp add: floor_eq_iff)
    have "\<lfloor>\<bar>x\<bar> * 10 ^ 15 + 1 / 2\<rfloor> = 0" using x by (simp add: floor_eq_iff)
    then have n: "nat \<lfloor>\<bar>x\<bar> * 10 ^ 15 + 1 / 2\<rfloor> = 0" by simp
    have "strip_zeros (toFixed 15 x) = ''0''"
      unfolding toFixed_def n Let_def using x(1) zero_text by simp
    moreover have "\<bar>x\<bar> < 10 ^ 21" using x by (simp add: less_le_trans)
    ultimately show ?thesis using False f by (simp del: power_numeral)
  qed simp
qed

section \<open>A concrete process\<close>

text \<open>One HMAC key from \<open>MAP_SIGNING_SECRET\<close>, a byte copy for the digest, and the parser at its own header.\<close>

definition sample_key :: signing_key where "sample_key = builtin_key default_kid ''s''"

definition sample_world :: "profile \<Rightarrow> signing_world" where
  "sample_world p =
     \<lparr>sw_env = map_of [(''MAP_SIGNING_SECRET'', ''s''), (''MAP_DEPLOYMENT_PROFILE'', profile_str p)], sw_file = (\<lambda>_. None),
      sw_json = (\<lambda>s. if s = json_strings (signing_header sample_key)
                      then Some (JObj (map (\<lambda>(a, b). (a, JStr b)) (signing_header sample_key))) else None),
      sw_text = map char_of, sw_hmac = (\<lambda>secret m. map of_char (secret @ m)), sw_rsa_sign = (\<lambda>_ _. None),
      sw_rsa_verify = (\<lambda>_ _ _. None), sw_date = (\<lambda>s. if s = ''now'' then Some 1000000 else None), sw_big = (\<lambda>_. ''big''),
      sw_secret = ''e'', sw_uuid = ''u''\<rparr>"

definition sample_token :: delegation_token where
  "sample_token = \<lparr>dt_issuer = ''iss'', dt_subject_agent = ''agent'', dt_allowed_actions = [''pay''], dt_resource_scope = [],
     dt_constraints = [(''expires_at'', JStr ''2030'')], dt_approval_reference = None, dt_requester_identity = None,
     dt_signature = []\<rparr>"

definition sample_http :: signed_request where
  "sample_http = \<lparr>sr_method = ''post'', sr_path = ''/dispatch'', sr_timestamp = ''now'', sr_key_id = default_kid, sr_body = ''{}''\<rparr>"

lemma sample_keys: "getSigningKeys (sample_world p) = Inr [sample_key]"
  by (cases p) code_simp+

lemma sample_header: "map char_of (utf8 (json_strings (signing_header sample_key))) = json_strings (signing_header sample_key)"
  by code_simp

lemma sample_laws: "signing_laws (sample_world p)"
proof -
  have "header_readable (sample_world p) sample_key"
    unfolding header_readable_def by (simp add: sample_world_def sample_header)
  moreover have "keypair_ok (sample_world p) sample_key" by (simp add: keypair_ok_def sample_key_def builtin_key_def)
  moreover have "crypto_ok (sample_world p)" by (auto simp: crypto_ok_def sample_world_def is_bytes_def list_all_iff)
  ultimately show ?thesis by (simp add: signing_laws_def sample_keys)
qed

definition signed_sample :: "delegation_token \<Rightarrow> string" where
  "signed_sample t = signing_input sample_key (stableStringify (\<lambda>_. ''big'') (tokenSigningPayload t)) @ ''.'' @
     b64_encode (map of_char (''s'' @ signing_input sample_key (stableStringify (\<lambda>_. ''big'') (tokenSigningPayload t))))"

lemma sample_active: "getActiveSigningKey (sample_world p) = Inr sample_key"
  by (cases p) code_simp+

lemma sample_refusal: "scope \<in> set default_scopes \<Longrightarrow> sign_refusal (sample_world Open) (Some scope) sample_key = None"
  by (auto simp: refusal_None scope_ok_def sample_key_def builtin_key_def js_includes_def same_value_zero_def
      getDeploymentProfile_def sample_world_def)

lemma sample_sign_token: "signDelegationToken (sample_world Open) now t st = (Inr (signed_sample t), count_signature now sample_key st)"
proof -
  have "sw_big (sample_world Open) = (\<lambda>_. ''big'')" "sw_hmac (sample_world Open) = (\<lambda>secret m. map of_char (secret @ m))"
    "sk_material sample_key = Hmac ''s''"
    by (simp_all add: sample_world_def sample_key_def builtin_key_def)
  moreover have "assertValidKeyUse ''delegation_token'' ''delegation_token'' = None" by code_simp
  ultimately show ?thesis
    by (simp add: signDelegationToken_def sign_artifact_def createCompactSignature_def createCompactSignatureFromCanonical_def
        chosen_key_def env_present_def sample_active sample_refusal default_scopes_def raw_signature_def signed_sample_def)
qed

section \<open>Properties\<close>

text \<open>C21: a delegation token signed by this process verifies in it, whatever the metrics and nonces are by then,
  and under the same signature exactly those tokens verify whose canonical payload is the same; reordering
  the members of any object in a token's scope or constraints keeps it valid.\<close>

theorem token_roundtrip:
  assumes "signing_laws W" and "signDelegationToken W now t st = (Inr sig, st')"
  shows "fst (verifyDelegationTokenSignature W (t\<lparr>dt_signature := sig\<rparr>) st2) = Inr True \<and>
    (\<forall>t'. fst (verifyDelegationTokenSignature W (t'\<lparr>dt_signature := sig\<rparr>) st2) = Inr True \<longleftrightarrow>
       stableStringify (sw_big W) (tokenSigningPayload t') = stableStringify (sw_big W) (tokenSigningPayload t)) \<and>
    (\<forall>c. same_json (JObj (dt_constraints t)) (JObj c) \<longrightarrow>
       fst (verifyDelegationTokenSignature W (t\<lparr>dt_constraints := c, dt_signature := sig\<rparr>) st2) = Inr True)"
proof -
  have pay: "tokenSigningPayload (t'\<lparr>dt_signature := x\<rparr>) = tokenSigningPayload t'" for t' x
    by (simp add: tokenSigningPayload_def)
  have iff: "fst (verifyDelegationTokenSignature W (t'\<lparr>dt_signature := sig\<rparr>) st2) = Inr True \<longleftrightarrow>
       stableStringify (sw_big W) (tokenSigningPayload t') = stableStringify (sw_big W) (tokenSigningPayload t)" for t'
    using create_verify_iff [OF assms(1) sign_artifact_create [OF assms(2) [unfolded signDelegationToken_def]]]
    by (simp add: verifyDelegationTokenSignature_def verifyCompactSignature_def pay)
  have "stableStringify (sw_big W) (tokenSigningPayload (t\<lparr>dt_constraints := c\<rparr>)) = stableStringify (sw_big W) (tokenSigningPayload t)"
    if "same_json (JObj (dt_constraints t)) (JObj c)" for c
    using same_json_serialize [OF that] by (simp add: tokenSigningPayload_def stableStringify_def)
  with iff [of "t\<lparr>dt_constraints := c\<rparr>" for c] iff show ?thesis by simp
qed

theorem token_roundtrip_witness:
  "fst (verifyDelegationTokenSignature (sample_world Open) (sample_token\<lparr>dt_signature := signed_sample sample_token\<rparr>) empty_signing) = Inr True"
  using token_roundtrip [OF sample_laws sample_sign_token] by blast

text \<open>C8: an accepted delegation token carries a signature under a key the process knows, that is neither revoked in
  its record nor listed in \<open>MAP_SIGNING_REVOKED_KIDS\<close>, is of the algorithm the header names, is allowed the
  delegation-token scope, and whose primitive accepts the header and this very payload.\<close>

theorem accepted_token_authentic:
  assumes "verifyDelegationTokenSignature W t st = (Inr True, st')"
  shows "\<exists>keys k h s. getSigningKeys W = Inr keys \<and> k \<in> set keys \<and> sk_status k \<noteq> KRevoked \<and>
    sk_kid k \<notin> set (getRevokedKidsFromEnv W) \<and> js_includes (sk_scopes k) (JStr ''delegation_token'') \<and>
    dt_signature t = h @ ''.'' @ base64url (stableStringify (sw_big W) (tokenSigningPayload t)) @ ''.'' @ s \<and>
    map_option (\<lambda>v. js_prop v ''alg'') (parse_header W h) = Some (JStr (alg_str (sk_alg k))) \<and>
    material_verifies W k (h @ ''.'' @ base64url (stableStringify (sw_big W) (tokenSigningPayload t))) (b64_decode s)"
proof -
  from assms have "fst (verifyCompactSignatureFromCanonical W (dt_signature t)
      (stableStringify (sw_big W) (tokenSigningPayload t)) (Some ''delegation_token'') st) = Inr True"
    by (simp add: verifyDelegationTokenSignature_def verifyCompactSignature_def)
  then obtain h s k where sig: "dt_signature t = h @ ''.'' @ base64url (stableStringify (sw_big W) (tokenSigningPayload t)) @ ''.'' @ s"
    and hk: "header_key W h = Inr (Some k)" and sc: "scope_ok (Some ''delegation_token'') k"
    and m: "material_verifies W k (h @ ''.'' @ base64url (stableStringify (sw_big W) (tokenSigningPayload t))) (b64_decode s)"
    by (rule verify_sound)
  from hk obtain keys v where keys: "getSigningKeys W = Inr keys" "k \<in> set keys" "sk_status k \<noteq> KRevoked"
    and v: "parse_header W h = Some v" "js_prop v ''alg'' = JStr (alg_str (sk_alg k))" by (rule header_key_sound)
  then have "sk_kid k \<notin> set (getRevokedKidsFromEnv W)" using getSigningKeys_revoked by blast
  with sig sc m keys v show ?thesis by (auto simp: scope_ok_def)
qed

theorem accepted_token_authentic_witness:
  "\<exists>keys k. getSigningKeys (sample_world Open) = Inr keys \<and> k \<in> set keys \<and> sk_kid k \<notin> set (getRevokedKidsFromEnv (sample_world Open))"
proof -
  let ?t = "sample_token\<lparr>dt_signature := signed_sample sample_token\<rparr>"
  have "fst (verifyDelegationTokenSignature (sample_world Open) ?t empty_signing) = Inr True"
    unfolding verifyDelegationTokenSignature_def verifyCompactSignature_def
    using create_verifies [OF sample_laws sign_artifact_create [OF sample_sign_token [unfolded signDelegationToken_def]]]
    by (simp add: tokenSigningPayload_def)
  then have "verifyDelegationTokenSignature (sample_world Open) ?t empty_signing =
      (Inr True, snd (verifyDelegationTokenSignature (sample_world Open) ?t empty_signing))" by (simp add: prod_eq_iff)
  from accepted_token_authentic [OF this] show ?thesis by blast
qed

text \<open>C39: whatever the key configuration holds, the keys in use (given a non-empty fallback secret) are at least one, each
  has scopes and material of its own algorithm's kind, and none that the environment lists as revoked
  has another status.\<close>

theorem keys_well_formed:
  assumes "getSigningKeys W = Inr keys" and "sw_secret W \<noteq> []"
  shows "keys \<noteq> [] \<and> (\<forall>k \<in> set keys. key_ok k \<and> (sk_kid k \<in> set (getRevokedKidsFromEnv W) \<longrightarrow> sk_status k = KRevoked))"
  using assms getSigningKeys_nonempty getSigningKeys_ok getSigningKeys_revoked by blast

theorem keys_well_formed_witness: "key_ok sample_key"
proof -
  have "sw_secret (sample_world Open) \<noteq> []" by (simp add: sample_world_def)
  from keys_well_formed [OF sample_keys this] show ?thesis by simp
qed

end
