(* ===== verification/SigningLimits.thy ===== *)
theory SigningLimits
  imports SigningProofs
begin

text \<open>
  Descriptors, request signatures and the places where the signing layer promises
  less than it seems to: numbers that print alike, nonces outside the signed
  payload, verification blind to the deployment profile, and the failure rate.
\<close>

section \<open>Descriptors\<close>

lemma signed_header:
  assumes "header_readable W k" and "sig = signing_input k payload @ ''.'' @ b64_encode bs"
  shows "getSignatureKeyId W sig = Some (sk_kid k)" and "getSignatureAlgorithm W sig = Some (sk_alg k)"
proof -
  have a: "alg_of (JStr (alg_str (sk_alg k))) = Some (sk_alg k)" by (cases "sk_alg k") auto
  have h: "signature_header W sig = Some (JObj (map (\<lambda>(a, b). (a, JStr b)) (signing_header k)))"
    using assms(1) unfolding assms(2) signature_header_def split_signature
    by (simp add: parse_header_def base64url_decode header_readable_def)
  show "getSignatureKeyId W sig = Some (sk_kid k)" "getSignatureAlgorithm W sig = Some (sk_alg k)"
    using a by (simp_all add: getSignatureKeyId_def getSignatureAlgorithm_def h signing_header_def js_prop_def obj_get_def)
qed

lemma signAgentDescriptor_cases:
  assumes "signAgentDescriptor W now d st = (Inr d', st')"
  obtains sig where "createCompactSignatureFromCanonical W now (descriptorSigningPayload W d) None (Some ''descriptor'') st = (Inr sig, st')"
    and "d' = d\<lparr>ad_signature := Some sig, ad_key_id := ad_key_id d', ad_signature_alg := ad_signature_alg d'\<rparr>"
    and "ad_key_id d' = Some (case getSignatureKeyId W sig of Some k \<Rightarrow> k | None \<Rightarrow> default_kid)"
    and "ad_signature_alg d' = Some (alg_str (case getSignatureAlgorithm W sig of Some a \<Rightarrow> a | None \<Rightarrow> HS256))"
  using assms by (auto simp: signAgentDescriptor_def split: option.splits prod.splits sum.splits)

lemma descriptor_payload_frame:
  "descriptorSigningPayload W (d\<lparr>ad_signature := s, ad_key_id := k, ad_signature_alg := a\<rparr>) = descriptorSigningPayload W d"
  by (simp add: descriptorSigningPayload_def unsigned_descriptor_json_def)

text \<open>a signed descriptor names the key and the algorithm that signed it, verifies in this process, and no
  descriptor that carries its signature verifies unless its canonical form, the three signature properties
  left out, is the same.\<close>

theorem descriptor_roundtrip:
  assumes "signing_laws W" and "signAgentDescriptor W now d st = (Inr d', st')"
  shows "(\<exists>k. getActiveSigningKey W = Inr k \<and> ad_key_id d' = Some (sk_kid k) \<and> ad_signature_alg d' = Some (alg_str (sk_alg k))) \<and>
    fst (verifyAgentDescriptorSignature W d' st2) = Inr True \<and>
    (\<forall>e. ad_signature e = ad_signature d' \<and> fst (verifyAgentDescriptorSignature W e st2) = Inr True \<longrightarrow>
       descriptorSigningPayload W e = descriptorSigningPayload W d)"
proof -
  from assms(2) obtain sig where c: "createCompactSignatureFromCanonical W now (descriptorSigningPayload W d) None (Some ''descriptor'') st = (Inr sig, st')"
    and d': "d' = d\<lparr>ad_signature := Some sig, ad_key_id := ad_key_id d', ad_signature_alg := ad_signature_alg d'\<rparr>"
    and kid: "ad_key_id d' = Some (case getSignatureKeyId W sig of Some k \<Rightarrow> k | None \<Rightarrow> default_kid)"
    and alg: "ad_signature_alg d' = Some (alg_str (case getSignatureAlgorithm W sig of Some a \<Rightarrow> a | None \<Rightarrow> HS256))"
    by (rule signAgentDescriptor_cases)
  from c obtain k bs where k: "chosen_key W None = Inr k" and sig: "sig = signing_input k (descriptorSigningPayload W d) @ ''.'' @ b64_encode bs"
    by (rule create_cases)
  from k obtain keys where "getSigningKeys W = Inr keys" "k \<in> set keys" by (rule chosen_key_known)
  with assms(1) have "header_readable W k" by (auto simp: signing_laws_def list_all_iff)
  from signed_header [OF this sig] kid alg k have names: "getActiveSigningKey W = Inr k" "ad_key_id d' = Some (sk_kid k)"
    "ad_signature_alg d' = Some (alg_str (sk_alg k))" by (simp_all add: chosen_key_def env_present_def)
  have s: "ad_signature d' = Some sig" by (subst d') simp
  have p: "descriptorSigningPayload W d' = descriptorSigningPayload W d" by (subst d') (rule descriptor_payload_frame)
  have "fst (verifyAgentDescriptorSignature W d' st2) = Inr True"
    using create_verifies [OF assms(1) c] s p names by (simp add: verifyAgentDescriptorSignature_def)
  moreover have "descriptorSigningPayload W e = descriptorSigningPayload W d"
    if "ad_signature e = ad_signature d'" "fst (verifyAgentDescriptorSignature W e st2) = Inr True" for e
    using that s create_verify_iff [OF assms(1) c]
    by (auto simp: verifyAgentDescriptorSignature_def split: option.splits)
  ultimately show ?thesis using names by blast
qed

section \<open>Requests\<close>

text \<open>C24: once a signed request was accepted with a nonce, no request that carries the nonce is accepted within five
  minutes, whatever other requests are checked in between.\<close>

theorem nonce_replay_refused:
  assumes "verifyHttpRequestSignature W t0 r sig (Some n) st = (Inr True, st0)" and "n \<noteq> []"
    and "list_all (\<lambda>e. fst e \<le> t0 + nonce_max_age) es" and "t \<le> t0 + nonce_max_age"
  shows "fst (verifyHttpRequestSignature W t r' sig' (Some n) (foldl (http_step W) st0 es)) = Inr False"
proof -
  have "jm_get (ss_nonces (foldl (http_step W) st0 es)) n = Some t0"
    using http_run_keeps [OF http_nonce_stored [OF assms(1,2)] assms(3)] .
  from verifyNonce_keeps(2) [OF this assms(4)] have "\<not> fst (verifyNonce t n None (foldl (http_step W) st0 es))" .
  then obtain st1 where "verifyNonce t n None (foldl (http_step W) st0 es) = (False, st1)" by (metis (full_types) prod.collapse)
  then show ?thesis using assms(2) by (simp add: verifyHttpRequestSignature_def split: option.split)
qed

text \<open>The nonce is no part of what is signed: a request that was accepted is accepted again, inside its time
  window, with any nonce the process has not seen, or with none.\<close>

theorem fresh_nonce_replays:
  assumes "verifyHttpRequestSignature W t0 r sig nonce st = (Inr True, st0)"
    and "sw_date W (sr_timestamp r) = Some ts" and "\<not> num_lt (getRequestMaxAgeMs W) (Fin (of_int \<bar>t - ts\<bar>))"
    and "jm_get (ss_nonces st1) n = None"
  shows "fst (verifyHttpRequestSignature W t r sig (Some n) st1) = Inr True \<and>
    fst (verifyHttpRequestSignature W t r sig None st1) = Inr True"
proof -
  from assms(1) obtain st2 where "verifyCompactSignature W sig (signedRequestPayload r) (Some ''http_request'') st2 = (Inr True, st0)"
    by (rule http_accepted)
  then have v: "fst (verifyCompactSignature W sig (signedRequestPayload r) (Some ''http_request'') s) = Inr True" for s
    using verify_stateless unfolding verifyCompactSignature_def by (metis fst_conv)
  have "fst (verifyNonce t n None st1)"
    using map_of_filter_none [OF assms(4)] by (auto simp: verifyNonce_def Let_def jm_has_def)
  then obtain st3 where n: "verifyNonce t n None st1 = (True, st3)" by (metis (full_types) prod.collapse)
  then show ?thesis using v assms(2,3) by (simp add: verifyHttpRequestSignature_def)
qed

section \<open>Concrete requests\<close>

definition sample_http_signature :: string where
  "sample_http_signature = signing_input sample_key (stableStringify (\<lambda>_. ''big'') (signedRequestPayload sample_http)) @ ''.'' @
     b64_encode (map of_char (''s'' @ signing_input sample_key (stableStringify (\<lambda>_. ''big'') (signedRequestPayload sample_http))))"

lemma sample_big: "sw_big (sample_world p) = (\<lambda>_. ''big'')"
  by (simp add: sample_world_def)

lemma sample_create:
  assumes "scope \<in> set default_scopes"
  shows "createCompactSignatureFromCanonical (sample_world Open) now payload None (Some scope) st =
    (Inr (signing_input sample_key payload @ ''.'' @ b64_encode (map of_char (''s'' @ signing_input sample_key payload))),
     count_signature now sample_key st)"
proof -
  have "sw_hmac (sample_world Open) = (\<lambda>secret m. map of_char (secret @ m))" "sk_material sample_key = Hmac ''s''"
    by (simp_all add: sample_world_def sample_key_def builtin_key_def)
  then show ?thesis using sample_refusal [OF assms]
    by (simp add: createCompactSignatureFromCanonical_def chosen_key_def env_present_def sample_active raw_signature_def)
qed

lemma sample_verifies:
  assumes "scope \<in> set default_scopes"
  shows "fst (verifyCompactSignatureFromCanonical (sample_world p)
    (signing_input sample_key payload @ ''.'' @ b64_encode (map of_char (''s'' @ signing_input sample_key payload))) payload (Some scope) st) = Inr True"
proof (rule signature_accepted [OF sample_laws sample_keys])
  show "sk_status sample_key \<noteq> KRevoked" by (simp add: sample_key_def builtin_key_def)
  show "scope_ok (Some scope) sample_key" using sample_refusal [OF assms] by (simp add: refusal_None)
  show "raw_signature (sample_world p) sample_key (signing_input sample_key payload) = Inr (map of_char (''s'' @ signing_input sample_key payload))"
    by (simp add: raw_signature_def sample_key_def builtin_key_def sample_world_def)
qed simp

lemma sample_http_verifies:
  "fst (verifyCompactSignature (sample_world p) sample_http_signature (signedRequestPayload sample_http) (Some ''http_request'') st) = Inr True"
  unfolding verifyCompactSignature_def sample_http_signature_def sample_big
  by (rule sample_verifies) (simp add: default_scopes_def)

lemma sample_window: "getRequestMaxAgeMs (sample_world p) = Fin 300000"
  by (simp add: getRequestMaxAgeMs_def sample_world_def default_request_max_age_def)

lemma sample_http_accepted:
  "\<exists>st'. verifyHttpRequestSignature (sample_world p) 1000000 sample_http sample_http_signature (Some ''n1'') empty_signing = (Inr True, st')"
proof -
  have d: "sw_date (sample_world p) (sr_timestamp sample_http) = Some 1000000" by (simp add: sample_world_def sample_http_def)
  have n: "fst (verifyNonce 1000000 ''n1'' None empty_signing)" by code_simp
  obtain st1 where n': "verifyNonce 1000000 ''n1'' None empty_signing = (True, st1)" using n by (metis (full_types) prod.collapse)
  have "fst (verifyHttpRequestSignature (sample_world p) 1000000 sample_http sample_http_signature (Some ''n1'') empty_signing) = Inr True"
    using sample_http_verifies by (simp add: verifyHttpRequestSignature_def d n' sample_window)
  then show ?thesis by (metis prod.collapse)
qed

lemma sample_sign_descriptor: "\<exists>d' st'. signAgentDescriptor (sample_world Open) 0 d empty_signing = (Inr d', st')"
proof -
  have "assertValidKeyUse ''agent_descriptor'' ''descriptor'' = None" by code_simp
  then show ?thesis by (simp add: signAgentDescriptor_def sample_create default_scopes_def)
qed

theorem descriptor_roundtrip_witness:
  "\<forall>d. \<exists>d'. fst (signAgentDescriptor (sample_world Open) 0 d empty_signing) = Inr d' \<and>
     fst (verifyAgentDescriptorSignature (sample_world Open) d' empty_signing) = Inr True"
proof
  fix d
  obtain d' st' where s: "signAgentDescriptor (sample_world Open) 0 d empty_signing = (Inr d', st')"
    using sample_sign_descriptor by blast
  from descriptor_roundtrip [OF sample_laws this] s
  show "\<exists>d'. fst (signAgentDescriptor (sample_world Open) 0 d empty_signing) = Inr d' \<and>
     fst (verifyAgentDescriptorSignature (sample_world Open) d' empty_signing) = Inr True" by auto
qed

theorem nonce_replay_refused_witness:
  "\<exists>st. fst (verifyHttpRequestSignature (sample_world Open) 1200000 sample_http sample_http_signature (Some ''n1'') st) = Inr False"
proof -
  obtain st' where "verifyHttpRequestSignature (sample_world Open) 1000000 sample_http sample_http_signature (Some ''n1'') empty_signing = (Inr True, st')"
    using sample_http_accepted by blast
  from nonce_replay_refused [OF this, of "[]" 1200000] show ?thesis by (auto simp: nonce_max_age_def)
qed

theorem fresh_nonce_replays_witness:
  "\<exists>st. fst (verifyHttpRequestSignature (sample_world Open) 1200000 sample_http sample_http_signature (Some ''n2'') st) = Inr True"
proof -
  obtain st' where a: "verifyHttpRequestSignature (sample_world Open) 1000000 sample_http sample_http_signature (Some ''n1'') empty_signing = (Inr True, st')"
    using sample_http_accepted by blast
  have "sw_date (sample_world Open) (sr_timestamp sample_http) = Some 1000000" by (simp add: sample_world_def sample_http_def)
  from fresh_nonce_replays [OF a this, of 1200000 empty_signing "''n2''"] show ?thesis
    by (auto simp: sample_window empty_signing_def)
qed

section \<open>Numbers, profiles and alarms\<close>

text \<open>Numbers below half of \<open>10^-15\<close> print as 0, so a token verifies under the same signature whichever of them
  (0 included) its constraint holds.\<close>

theorem small_numbers_collide:
  assumes "0 \<le> x" and "x < 1 / (2 * 10 ^ 15)"
  shows "verifyDelegationTokenSignature W (t\<lparr>dt_constraints := cs @ [(k, JNum (Fin x))] @ ds\<rparr>) st =
    verifyDelegationTokenSignature W (t\<lparr>dt_constraints := cs @ [(k, JNum (Fin 0))] @ ds\<rparr>) st"
  using small_number_text [OF assms]
  by (simp add: verifyDelegationTokenSignature_def verifyCompactSignature_def tokenSigningPayload_def stableStringify_def)

theorem small_numbers_collide_witness:
  "verifyDelegationTokenSignature (sample_world Open) (sample_token\<lparr>dt_constraints := [(''max_amount'', JNum (Fin (1 / 10 ^ 16)))]\<rparr>) empty_signing =
   verifyDelegationTokenSignature (sample_world Open) (sample_token\<lparr>dt_constraints := [(''max_amount'', JNum (Fin 0))]\<rparr>) empty_signing"
  using small_numbers_collide [where x = "1 / 10 ^ 16" and cs = "[]" and ds = "[]"] by simp

text \<open>The regulated profile refuses to sign any artifact with the process's HMAC key, and yet accepts a signature
  made with that key: verification does not look at the profile.\<close>

theorem profile_only_limits_signing:
  "fst (signDelegationToken (sample_world Regulated) now t st) = Inl (AlgorithmNotAllowed HS256 Regulated) \<and>
   fst (verifyDelegationTokenSignature (sample_world Regulated) (t\<lparr>dt_signature := signed_sample t\<rparr>) st) = Inr True"
proof
  have "getDeploymentProfile (sample_world Regulated) = Regulated" by (simp add: getDeploymentProfile_def sample_world_def)
  then have "sign_refusal (sample_world Regulated) (Some ''delegation_token'') sample_key = Some (AlgorithmNotAllowed HS256 Regulated)"
    by (simp add: sign_refusal_def sample_key_def builtin_key_def scope_ok_def default_scopes_def js_includes_def
        same_value_zero_def assertAlgorithmAllowed_def)
  moreover have "assertValidKeyUse ''delegation_token'' ''delegation_token'' = None" by code_simp
  ultimately show "fst (signDelegationToken (sample_world Regulated) now t st) = Inl (AlgorithmNotAllowed HS256 Regulated)"
    by (simp add: signDelegationToken_def sign_artifact_def createCompactSignature_def createCompactSignatureFromCanonical_def
        chosen_key_def env_present_def sample_active)
  have "tokenSigningPayload (t\<lparr>dt_signature := s\<rparr>) = tokenSigningPayload t" for s by (simp add: tokenSigningPayload_def)
  then show "fst (verifyDelegationTokenSignature (sample_world Regulated) (t\<lparr>dt_signature := signed_sample t\<rparr>) st) = Inr True"
    using sample_verifies [of "''delegation_token''" Regulated]
    by (simp add: verifyDelegationTokenSignature_def verifyCompactSignature_def signed_sample_def sample_big default_scopes_def)
qed

text \<open>The failure rate is taken over signatures made plus failures and leaves out the verifications that succeeded:
  a process that signs nothing raises the critical alarm at its first failure, whatever else it verified.\<close>

theorem verifier_false_alarm:
  assumes "getSigningKeys W = Inr keys" and "ss_total st = 0" and "0 < ss_failed st"
  shows "\<exists>r rs. detectAnomalies W now st = Inr (r # rs) \<and> ay_type r = HighFailureRate \<and> ay_severity r = ACritical"
  using assms by (simp add: detectAnomalies_def failure_rate_report_def Let_def)

theorem verifier_false_alarm_witness:
  "\<exists>r rs. detectAnomalies (sample_world Open) 0 (recordVerificationMetric ''k'' False (recordVerificationMetric ''k'' True empty_signing))
     = Inr (r # rs) \<and> ay_type r = HighFailureRate"
proof -
  have "ss_total (recordVerificationMetric ''k'' False (recordVerificationMetric ''k'' True empty_signing)) = 0"
    "0 < ss_failed (recordVerificationMetric ''k'' False (recordVerificationMetric ''k'' True empty_signing))"
    by (simp_all add: recordVerificationMetric_def empty_signing_def Let_def)
  from verifier_false_alarm [OF sample_keys this] show ?thesis by blast
qed

end
