(* ===== verification/SignedReceipts.thy ===== *)
theory SignedReceipts
  imports SigningLimits TaskControl
begin

text \<open>
  The runtime and the signing layer together: what the signatures on the receipts
  of \<open>src/src/control-plane/orchestrator.ts\<close> are worth to who checks them against
  the payload of \<open>receiptSigningPayload\<close>.
\<close>

section \<open>The canonical text of a receipt\<close>

lemma receipt_order:
  fixes a :: "string option"
  shows "sort_key fst [(''receipt_id'', a), (''intent_id'', b), (''capability'', c), (''action'', d), (''timestamp'', e), (''status'', f),
      (''task_id'', g), (''tenant_id'', h), (''request_id'', i), (''agent_id'', j), (''resource_touched'', k), (''policy_checks'', l),
      (''approval_used'', m), (''result_hash'', n), (''requested_schema_version'', p), (''executed_schema_version'', q), (''negotiation'', r)]
   = [(''action'', d), (''agent_id'', j), (''approval_used'', m), (''capability'', c), (''executed_schema_version'', q), (''intent_id'', b),
      (''negotiation'', r), (''policy_checks'', l), (''receipt_id'', a), (''request_id'', i), (''requested_schema_version'', p),
      (''resource_touched'', k), (''result_hash'', n), (''status'', f), (''task_id'', g), (''tenant_id'', h), (''timestamp'', e)]"
  by code_simp

text \<open>The canonical text up to the approval, with the text of the approval and what follows.\<close>

lemma receipt_text_approval:
  obtains tail where "stableStringify big (receiptSigningPayload r) =
    ''{'' @ jcs_member (''action'', serializeJcs big (JStr (receipt_action_str (rc_action r)))) @ '','' @
    jcs_member (''agent_id'', serializeJcs big (JStr (rc_agent_id r))) @ '','' @
    jcs_member (''approval_used'', serializeJcs big (null_or JStr (rc_approval_used r))) @ '','' @ tail"
  by (rule that)
     (simp only: stableStringify_def opt_text_def option.case receiptSigningPayload_def serializeJcs.simps(6) list.map
       fst_conv snd_conv receipt_order join_with.simps append_assoc)

lemma json_quote_head: "json_quote s = CHR 0x22 # tl (json_quote s)"
  by (simp add: json_quote_def)

lemma approval_changes_text:
  assumes "rc_approval_used r = None"
  shows "stableStringify big (receiptSigningPayload (r\<lparr>rc_signature := sg, rc_approval_used := Some ref\<rparr>)) \<noteq>
    stableStringify big (receiptSigningPayload r)"
proof -
  let ?r = "r\<lparr>rc_signature := sg, rc_approval_used := Some ref\<rparr>"
  let ?pre = "''{'' @ jcs_member (''action'', serializeJcs big (JStr (receipt_action_str (rc_action r)))) @ '','' @
    jcs_member (''agent_id'', serializeJcs big (JStr (rc_agent_id r))) @ '',''"
  obtain t where t: "stableStringify big (receiptSigningPayload r) =
      ?pre @ jcs_member (''approval_used'', serializeJcs big JNull) @ '','' @ t"
    using receipt_text_approval [of big r] assms by (auto simp: null_or_def)
  obtain t' where t': "stableStringify big (receiptSigningPayload ?r) =
      ?pre @ jcs_member (''approval_used'', serializeJcs big (JStr ref)) @ '','' @ t'"
    using receipt_text_approval [of big ?r] by (auto simp: null_or_def)
  have "jcs_member (''approval_used'', serializeJcs big JNull) @ '','' @ t \<noteq>
      jcs_member (''approval_used'', serializeJcs big (JStr ref)) @ '','' @ t'"
    by (simp add: jcs_member_def opt_text_def) (subst json_quote_head [of ref], simp)
  then show ?thesis unfolding t t' by simp
qed

lemma payload_signature_frame [simp]: "receiptSigningPayload (r\<lparr>rc_signature := sg\<rparr>) = receiptSigningPayload r"
  by (simp add: receiptSigningPayload_def)

section \<open>Receipts of approved tasks\<close>

text \<open>The signer of the runtime is the signing layer of the process.\<close>

definition signs_with :: "externals \<Rightarrow> signing_world \<Rightarrow> ms \<Rightarrow> bool" where
  "signs_with X W now \<longleftrightarrow> (\<forall>r st. fst (signReceipt W now r st) = Inr (xe_signReceipt X r))"

definition receipt_verifies :: "signing_world \<Rightarrow> receipt \<Rightarrow> bool" where
  "receipt_verifies W r \<longleftrightarrow> (\<exists>sig. rc_signature r = Some sig \<and>
     fst (verifyCompactSignature W sig (receiptSigningPayload r) (Some ''receipt'') empty_signing) = Inr True)"

lemma signed_receipt_iff:
  assumes "signing_laws W" and "signs_with X W now"
  shows "fst (verifyCompactSignature W (xe_signReceipt X r) (receiptSigningPayload r') (Some ''receipt'') st) = Inr True \<longleftrightarrow>
    stableStringify (sw_big W) (receiptSigningPayload r') = stableStringify (sw_big W) (receiptSigningPayload r)"
proof -
  obtain st' where "signReceipt W now r empty_signing = (Inr (xe_signReceipt X r), st')"
    using assms(2) by (metis signs_with_def prod.collapse)
  from create_verify_iff [OF assms(1) sign_artifact_create [OF this [unfolded signReceipt_def]]]
  show ?thesis by (simp add: verifyCompactSignature_def)
qed

lemma sign_with_verifies: "signing_laws W \<Longrightarrow> signs_with X W now \<Longrightarrow> receipt_verifies W (sign_with X r)"
  by (simp add: receipt_verifies_def sign_with_def signed_receipt_iff)

lemma normalized_receipt:
  obtains r where "iv_receipt (normalizeCoreResult X ev raw env cap neg) = sign_with X r" and "rc_approval_used r = None"
  by (cases raw) (auto simp: normalizeCoreResult_def Let_def execution_receipt_def intro: that)

lemma finish_receipt:
  assumes "finish_execution X ev env cap neg ap out s = (s1, Inr iv)"
  obtains r where "rc_approval_used r = None"
    and "iv_receipt iv = (case ap of None \<Rightarrow> sign_with X r | Some ref \<Rightarrow> (sign_with X r)\<lparr>rc_approval_used := Some ref\<rparr>)"
proof -
  from assms obtain x where "out = Inr x" by (cases out) (auto simp: finish_execution_def o_throw_def)
  moreover obtain r where "iv_receipt (normalizeCoreResult X ev (Result x) env cap neg) = sign_with X r" "rc_approval_used r = None"
    by (rule normalized_receipt)
  ultimately show ?thesis using assms
    by (intro that [of r]) (auto simp: finish_execution_def Let_def orch_ok split: option.splits)
qed

text \<open>when the runtime signs with the keys of the process, the receipt that a successful approval returns and
  stores does not verify: \<open>approve\<close> writes the approval reference into the receipt after it was signed. Taking
  the reference out again makes it verify.\<close>

theorem approved_receipt_unverifiable:
  assumes "signing_laws W" and "signs_with X W now" and "approve_task X ev req s = (s1, Inr iv)"
  shows "\<not> receipt_verifies W (iv_receipt iv) \<and> receipt_verifies W ((iv_receipt iv)\<lparr>rc_approval_used := None\<rparr>)"
proof -
  from assms(3) obtain s0 out neg where
    "finish_execution X ev (ar_envelope req) (ar_capability req) neg (Some (ar_approval_reference req)) out s0 = (s1, Inr iv)"
    by (auto simp: approve_task_def orch_ok)
  then obtain r where r: "rc_approval_used r = None"
    and iv: "iv_receipt iv = (sign_with X r)\<lparr>rc_approval_used := Some (ar_approval_reference req)\<rparr>"
    by (rule finish_receipt) simp
  have e: "iv_receipt iv = r\<lparr>rc_signature := Some (xe_signReceipt X r), rc_approval_used := Some (ar_approval_reference req)\<rparr>"
    by (simp add: iv sign_with_def)
  have n: "(iv_receipt iv)\<lparr>rc_approval_used := None\<rparr> = sign_with X r"
    using r by (cases r) (simp add: e sign_with_def)
  have "\<not> receipt_verifies W (iv_receipt iv)"
    using approval_changes_text [OF r]
    by (simp add: receipt_verifies_def e signed_receipt_iff [OF assms(1,2)])
  then show ?thesis using sign_with_verifies [OF assms(1,2)] n by simp
qed

definition sample_signer :: "receipt \<Rightarrow> string" where
  "sample_signer r = (let input = signing_input sample_key (stableStringify (\<lambda>_. ''big'') (receiptSigningPayload r))
     in input @ ''.'' @ b64_encode (map of_char (''s'' @ input)))"

lemma sample_signs: "signs_with (sample_X\<lparr>xe_signReceipt := sample_signer\<rparr>) (sample_world Open) now"
proof -
  have "assertValidKeyUse ''execution_receipt'' ''receipt'' = None" by code_simp
  then show ?thesis
    by (simp add: signs_with_def signReceipt_def sign_artifact_def createCompactSignature_def sample_create
        default_scopes_def sample_signer_def sample_big Let_def)
qed

lemma sample_approved: "\<not> isl (snd (approve_task (sample_X\<lparr>xe_signReceipt := f\<rparr>) (sample_ev 2) (sample_approval ''hello'')
    (dispatched RequireApproval False)))"
  by code_simp

theorem approved_receipt_unverifiable_witness:
  "\<exists>iv. snd (approve_task (sample_X\<lparr>xe_signReceipt := sample_signer\<rparr>) (sample_ev 2) (sample_approval ''hello'')
      (dispatched RequireApproval False)) = Inr iv \<and> \<not> receipt_verifies (sample_world Open) (iv_receipt iv)"
proof -
  let ?a = "approve_task (sample_X\<lparr>xe_signReceipt := sample_signer\<rparr>) (sample_ev 2) (sample_approval ''hello'') (dispatched RequireApproval False)"
  obtain iv where "?a = (fst ?a, Inr iv)" using sample_approved [of sample_signer] by (cases ?a; cases "snd ?a") auto
  from approved_receipt_unverifiable [OF sample_laws sample_signs this] this show ?thesis by (metis snd_conv)
qed

section \<open>Receipts read back from JSON\<close>

lemma kept_simps: "json_kept (jstrs xs) = Some (jstrs xs)"
  "json_kept (null_or JStr x) = Some (null_or JStr x)" "json_kept (null_or jstrs y) = Some (null_or jstrs y)"
  by (auto simp: null_or_def comp_def split: option.split)

definition kept_side :: "negotiated_side \<Rightarrow> jsval" where
  "kept_side n = JObj ((case ns_schema_version n of None \<Rightarrow> [] | Some v \<Rightarrow> [(''schema_version'', JStr v)])
     @ [(''output_mode'', JStr (visibility_str (ns_output_mode n))), (''delivery_mode'', JStr (delivery_str (ns_delivery_mode n)))])"

lemma kept_side: "json_kept (side_json n) = Some (kept_side n)"
  by (simp add: side_json_def kept_side_def jopt_def split: option.split)

definition kept_negotiation :: "invocation_negotiation \<Rightarrow> jsval" where
  "kept_negotiation n = JObj ([(''requested'', kept_side (in_requested n)), (''selected'', kept_side (in_selected n))]
     @ (if in_schema_translated n then [(''provider_actions'', jstrs [''schema_translated''])] else []))"

lemma kept_negotiation: "json_kept (negotiation_json n) = Some (kept_negotiation n)"
  by (simp add: negotiation_json_def kept_negotiation_def kept_side)

lemma side_order:
  fixes a :: "string option"
  shows "sort_key fst [(''schema_version'', a), (''output_mode'', b), (''delivery_mode'', c)] =
      [(''delivery_mode'', c), (''output_mode'', b), (''schema_version'', a)]"
    and "sort_key fst [(''output_mode'', b), (''delivery_mode'', c)] = [(''delivery_mode'', c), (''output_mode'', b)]"
    and "sort_key fst [(''requested'', a), (''selected'', b), (''provider_actions'', c)] =
      [(''provider_actions'', c), (''requested'', a), (''selected'', b)]"
    and "sort_key fst [(''requested'', a), (''selected'', b)] = [(''requested'', a), (''selected'', b)]"
  by code_simp+

lemma side_texts:
  assumes "ns_schema_version n = None"
  obtains p q where "serializeJcs big (side_json n) = Some (p @ '','' @ q)" and "serializeJcs big (kept_side n) = Some (p @ ''}'')"
proof -
  let ?d = "jcs_member (''delivery_mode'', serializeJcs big (JStr (delivery_str (ns_delivery_mode n))))"
  let ?o = "jcs_member (''output_mode'', serializeJcs big (JStr (visibility_str (ns_output_mode n))))"
  show ?thesis
  proof (rule that)
    show "serializeJcs big (side_json n) = Some ((''{'' @ ?d @ '','' @ ?o) @ '','' @ (jcs_member (''schema_version'', None) @ ''}''))"
      by (simp only: side_json_def assms jopt_def option.case serializeJcs.simps(6,7) list.map fst_conv snd_conv
          side_order join_with.simps append_assoc)
    show "serializeJcs big (kept_side n) = Some ((''{'' @ ?d @ '','' @ ?o) @ ''}'')"
      by (simp only: kept_side_def assms option.case append_Nil serializeJcs.simps(6) list.map fst_conv snd_conv
          side_order join_with.simps append_assoc)
  qed
qed

lemma negotiation_texts:
  assumes "ns_schema_version (in_requested n) = None"
  obtains p q q' where "serializeJcs big (negotiation_json n) = Some (p @ '','' @ q)"
    and "serializeJcs big (kept_negotiation n) = Some (p @ ''}'' @ q')"
proof -
  obtain p q where s: "serializeJcs big (side_json (in_requested n)) = Some (p @ '','' @ q)"
      "serializeJcs big (kept_side (in_requested n)) = Some (p @ ''}'')"
    by (rule side_texts [OF assms])
  let ?pa = "jcs_member (''provider_actions'', serializeJcs big (jstrs [''schema_translated'']))"
  let ?rq = "json_quote ''requested'' @ '':'' @ p"
  have two: "[a, b] @ [c] = [a, b, c]" for a b c :: "string \<times> jsval" by simp
  have rq: "jcs_member (''requested'', serializeJcs big (side_json (in_requested n))) = ?rq @ '','' @ q"
    "jcs_member (''requested'', serializeJcs big (kept_side (in_requested n))) = ?rq @ ''}''"
    by (simp_all add: jcs_member_def s opt_text_def)
  show ?thesis
  proof (cases "in_schema_translated n")
    case True
    show ?thesis
    proof (rule that)
      show "serializeJcs big (negotiation_json n) = Some ((''{'' @ ?pa @ '','' @ ?rq) @ '','' @
          (q @ '','' @ jcs_member (''selected'', serializeJcs big (side_json (in_selected n))) @ ''}''))"
        by (simp only: negotiation_json_def True if_True two serializeJcs.simps(6) list.map fst_conv snd_conv side_order
            join_with.simps rq append_assoc)
      show "serializeJcs big (kept_negotiation n) = Some ((''{'' @ ?pa @ '','' @ ?rq) @ ''}'' @
          ('','' @ jcs_member (''selected'', serializeJcs big (kept_side (in_selected n))) @ ''}''))"
        by (simp only: kept_negotiation_def True if_True two serializeJcs.simps(6) list.map fst_conv snd_conv side_order
            join_with.simps rq append_assoc)
    qed
  next
    case False
    show ?thesis
    proof (rule that)
      show "serializeJcs big (negotiation_json n) = Some ((''{'' @ ?rq) @ '','' @
          (q @ '','' @ jcs_member (''selected'', serializeJcs big (side_json (in_selected n))) @ ''}''))"
        by (simp only: negotiation_json_def False if_False append_Nil2 serializeJcs.simps(6) list.map fst_conv snd_conv side_order
            join_with.simps rq append_assoc)
      show "serializeJcs big (kept_negotiation n) = Some ((''{'' @ ?rq) @ ''}'' @
          ('','' @ jcs_member (''selected'', serializeJcs big (kept_side (in_selected n))) @ ''}''))"
        by (simp only: kept_negotiation_def False if_False append_Nil2 serializeJcs.simps(6) list.map fst_conv snd_conv side_order
            join_with.simps rq append_assoc)
    qed
  qed
qed

text \<open>The payload of a receipt up to its negotiation, as signed and as read back from JSON.\<close>

definition payload_with :: "receipt \<Rightarrow> jsval \<Rightarrow> jsval" where
  "payload_with r n = JObj
     [(''receipt_id'', JStr (rc_receipt_id r)), (''intent_id'', JStr (rc_intent_id r)),
      (''capability'', JStr (rc_capability r)), (''action'', JStr (receipt_action_str (rc_action r))),
      (''timestamp'', JStr (toISOString (rc_timestamp r))), (''status'', JStr (exec_status_str (rc_status r))),
      (''task_id'', null_or JStr (rc_task_id r)), (''tenant_id'', null_or JStr (rc_tenant_id r)),
      (''request_id'', null_or JStr (rc_request_id r)), (''agent_id'', JStr (rc_agent_id r)),
      (''resource_touched'', null_or JStr (rc_resource_touched r)),
      (''policy_checks'', null_or jstrs (rc_policy_checks r)),
      (''approval_used'', null_or JStr (rc_approval_used r)), (''result_hash'', null_or JStr (rc_result_hash r)),
      (''requested_schema_version'', null_or JStr (rc_requested_schema_version r)),
      (''executed_schema_version'', null_or JStr (rc_executed_schema_version r)),
      (''negotiation'', n)]"

lemma payload_kept:
  assumes "rc_negotiation r = Some n"
  shows "receiptSigningPayload r = payload_with r (negotiation_json n)"
    and "json_kept (receiptSigningPayload r) = Some (payload_with r (kept_negotiation n))"
proof -
  show r: "receiptSigningPayload r = payload_with r (negotiation_json n)"
    by (simp add: receiptSigningPayload_def payload_with_def null_or_def [of negotiation_json] assms)
  show "json_kept (receiptSigningPayload r) = Some (payload_with r (kept_negotiation n))"
    unfolding r payload_with_def by (simp add: kept_simps kept_negotiation)
qed

lemma payload_text:
  obtains pre tail where "\<And>n. stableStringify big (payload_with r n) = pre @ jcs_member (''negotiation'', serializeJcs big n) @ tail"
proof -
  let ?m = "\<lambda>k v. jcs_member (k, serializeJcs big v) @ '',''"
  show ?thesis
    by (rule that [of "''{'' @ ?m ''action'' (JStr (receipt_action_str (rc_action r))) @ ?m ''agent_id'' (JStr (rc_agent_id r)) @
        ?m ''approval_used'' (null_or JStr (rc_approval_used r)) @ ?m ''capability'' (JStr (rc_capability r)) @
        ?m ''executed_schema_version'' (null_or JStr (rc_executed_schema_version r)) @ ?m ''intent_id'' (JStr (rc_intent_id r))"])
      (simp only: stableStringify_def opt_text_def option.case payload_with_def serializeJcs.simps(6) list.map
       fst_conv snd_conv receipt_order join_with.simps append_assoc)
qed

text \<open>A receipt whose negotiation names no schema version (its key is there, its value undefined) is signed over a
  text that no longer belongs to it once it was stored as JSON: read back, its payload has another
  canonical form and its signature is refused.\<close>

theorem stored_receipt_unverifiable:
  assumes "signing_laws W" and "signs_with X W now" and "rc_negotiation r = Some n"
    and "ns_schema_version (in_requested n) = None"
  shows "\<exists>stored. json_kept (receiptSigningPayload r) = Some stored \<and>
    fst (verifyCompactSignature W (xe_signReceipt X r) stored (Some ''receipt'') st) \<noteq> Inr True \<and>
    receipt_verifies W (sign_with X r)"
proof -
  obtain p q q' where t: "serializeJcs (sw_big W) (negotiation_json n) = Some (p @ '','' @ q)"
      "serializeJcs (sw_big W) (kept_negotiation n) = Some (p @ ''}'' @ q')"
    by (rule negotiation_texts [OF assms(4)])
  obtain pre tail where tx: "\<And>v. stableStringify (sw_big W) (payload_with r v) = pre @ jcs_member (''negotiation'', serializeJcs (sw_big W) v) @ tail"
    by (rule payload_text) blast
  have "stableStringify (sw_big W) (payload_with r (kept_negotiation n)) \<noteq> stableStringify (sw_big W) (receiptSigningPayload r)"
    unfolding payload_kept(1) [OF assms(3)] tx t jcs_member_def opt_text_def by simp
  moreover obtain st' where "signReceipt W now r empty_signing = (Inr (xe_signReceipt X r), st')"
    using assms(2) by (metis signs_with_def prod.collapse)
  ultimately have "fst (verifyCompactSignature W (xe_signReceipt X r) (payload_with r (kept_negotiation n)) (Some ''receipt'') st) \<noteq> Inr True"
    using create_verify_iff [OF assms(1) sign_artifact_create [OF \<open>signReceipt W now r empty_signing = (Inr (xe_signReceipt X r), st')\<close> [unfolded signReceipt_def]]]
    by (simp add: verifyCompactSignature_def)
  then show ?thesis using payload_kept(2) [OF assms(3)] sign_with_verifies [OF assms(1,2)] by blast
qed

definition sample_negotiation :: invocation_negotiation where
  "sample_negotiation = (let side = \<lparr>ns_schema_version = None, ns_output_mode = VSummary, ns_delivery_mode = Sync\<rparr>
     in \<lparr>in_requested = side, in_selected = side, in_schema_translated = False\<rparr>)"

theorem stored_receipt_unverifiable_witness:
  "\<exists>stored. json_kept (receiptSigningPayload ((sample_receipt ''r'' ''t'' 0)\<lparr>rc_negotiation := Some sample_negotiation\<rparr>)) = Some stored \<and>
     fst (verifyCompactSignature (sample_world Open) (sample_signer ((sample_receipt ''r'' ''t'' 0)\<lparr>rc_negotiation := Some sample_negotiation\<rparr>))
       stored (Some ''receipt'') empty_signing) \<noteq> Inr True"
proof -
  have n: "rc_negotiation ((sample_receipt ''r'' ''t'' 0)\<lparr>rc_negotiation := Some sample_negotiation\<rparr>) = Some sample_negotiation"
    "ns_schema_version (in_requested sample_negotiation) = None" by (simp_all add: sample_negotiation_def Let_def)
  from stored_receipt_unverifiable [OF sample_laws sample_signs n] show ?thesis by auto
qed

end
