(* ===== verification/Auth.thy ===== *)
theory Auth
  imports SigningLimits Registry
begin

text \<open>
  Authentication of the server: \<open>middleware/auth.ts\<close> and the helpers of
  \<open>server/utils.ts\<close> it uses. Outside the repository, and so parameters: the SHA-256
  digest, the URL parser, the JWKS endpoint and the Web Crypto verification. A
  header is a string or absent (Node joins repeated ones). A thrown error is the
  left of a sum. The scopes an OAuth token carries are left out: nothing reads them.
\<close>

section \<open>Requests and the outside\<close>

record http_request =
  hq_method :: "string option"
  hq_url :: "string option"
  hq_headers :: "(string, string) jmap"

text \<open>An answer of the JWKS endpoint: whether it is a 2xx, its parsed body (\<open>None\<close>: not JSON), its cache header.\<close>

record jwks_answer =
  ja_ok :: bool
  ja_body :: "jsval option"
  ja_cache_control :: "string option"

record auth_world =
  aw_signing :: signing_world
  aw_sha :: "string \<Rightarrow> string"
  aw_path :: "string \<Rightarrow> string option"
  aw_fetch :: "string \<Rightarrow> jwks_answer option"
  aw_verify :: "string \<times> string \<Rightarrow> jsval \<Rightarrow> string \<Rightarrow> nat list \<Rightarrow> bool option"

datatype auth_throw = SignerThrew sign_error | BadUrl | TypeError

datatype auth_code = AuthRequired | InvalidAuth | TokenExpired

fun auth_code_str :: "auth_code \<Rightarrow> string" where
  "auth_code_str AuthRequired = ''auth_required''"
| "auth_code_str InvalidAuth = ''invalid_auth''"
| "auth_code_str TokenExpired = ''token_expired''"

type_synonym auth_error = "auth_code \<times> string"

definition header :: "http_request \<Rightarrow> string \<Rightarrow> string option" where
  "header rq k = jm_get (hq_headers rq) k"

definition wantsSignedRequestAuth :: "http_request \<Rightarrow> bool" where
  "wantsSignedRequestAuth rq \<longleftrightarrow> header rq ''x-map-auth-scheme'' = Some ''signed_request''"

definition extractTargetAgent :: "jsval \<Rightarrow> string option" where
  "extractTargetAgent v = nonblank (js_prop (js_prop v ''envelope'') ''target_agent'')"

definition extractTenantId :: "jsval \<Rightarrow> string option" where
  "extractTenantId v = map_option str_trim (nonblank (js_prop (js_prop (js_prop v ''envelope'') ''requester_identity'') ''tenant_id''))"

definition getRequiredAuthScheme :: "registry \<Rightarrow> string \<Rightarrow> string \<Rightarrow> auth_scheme" where
  "getRequiredAuthScheme reg agent cap =
     (case Option.bind (getCapabilityDescriptor reg agent cap) cd_required_auth_scheme of Some s \<Rightarrow> s | None \<Rightarrow> NoAuth)"

section \<open>Signed requests\<close>

definition five_minutes :: ms where "five_minutes = 5 * 60 * 1000"

definition getSignedRequestError :: "auth_world \<Rightarrow> ms \<Rightarrow> http_request \<Rightarrow> string \<Rightarrow> string list
    \<Rightarrow> signing_state \<Rightarrow> (auth_throw + auth_error option) \<times> signing_state" where
  "getSignedRequestError A now rq body revoked st =
     (if \<not> wantsSignedRequestAuth rq then (Inr (Some (AuthRequired, ''MAP signed_request authentication is required.'')), st)
      else case (header rq ''x-map-key-id'', header rq ''x-map-timestamp'', header rq ''x-map-request-signature'') of
        (Some kid, Some timestamp, Some sig) \<Rightarrow>
          if kid \<in> set revoked then (Inr (Some (InvalidAuth, ''MAP signed_request key has been revoked.'')), st)
          else if (case sw_date (aw_signing A) timestamp of None \<Rightarrow> False | Some t \<Rightarrow> \<bar>now - t\<bar> > five_minutes)
          then (Inr (Some (TokenExpired, ''MAP signed_request timestamp is outside acceptable window.'')), st)
          else (case aw_path A (case hq_url rq of None \<Rightarrow> ''/'' | Some u \<Rightarrow> u) of
                  None \<Rightarrow> (Inl BadUrl, st)
                | Some path \<Rightarrow>
                    (case verifyHttpRequestSignature (aw_signing A) now
                            \<lparr>sr_method = (case hq_method rq of None \<Rightarrow> ''GET'' | Some m \<Rightarrow> m), sr_path = path,
                             sr_timestamp = timestamp, sr_key_id = kid, sr_body = body\<rparr> sig None st of
                       (Inl e, st1) \<Rightarrow> (Inl (SignerThrew e), st1)
                     | (Inr ok, st1) \<Rightarrow>
                         (Inr (if ok then None else Some (InvalidAuth, ''Invalid MAP signed_request signature.'')), st1)))
      | _ \<Rightarrow> (Inr (Some (InvalidAuth, ''Missing MAP signed_request authentication headers.'')), st))"

section \<open>Bearer tokens\<close>

text \<open>\<open>Number(v)\<close> of any value.\<close>

fun js_to_number :: "jsval \<Rightarrow> jsnum" where
  "js_to_number (JNum n) = n"
| "js_to_number (JStr s) = js_number s"
| "js_to_number JNull = Fin 0"
| "js_to_number (JBool b) = Fin (if b then 1 else 0)"
| "js_to_number (JArr []) = Fin 0"
| "js_to_number (JArr [JNull]) = Fin 0"
| "js_to_number (JArr [JUndef]) = Fin 0"
| "js_to_number (JArr [JNum n]) = n"
| "js_to_number (JArr [JStr s]) = js_number s"
| "js_to_number (JArr [JArr xs]) = js_to_number (JArr xs)"
| "js_to_number _ = NaN"

definition json_part :: "auth_world \<Rightarrow> string \<Rightarrow> jsval option" where
  "json_part A part = sw_json (aw_signing A) (sw_text (aw_signing A) (b64_decode part))"

definition now_seconds :: "ms \<Rightarrow> jsnum" where
  "now_seconds now = Fin (of_int (now div 1000))"

definition static_token :: "auth_world \<Rightarrow> string option" where
  "static_token A = env_present (sw_env (aw_signing A) ''MAP_OAUTH_STATIC_TOKEN'')"

definition bearer_prefix :: "string \<Rightarrow> bool" where
  "bearer_prefix h \<longleftrightarrow> prefix ''bearer '' (str_lower h)"

definition jwt_exp_error :: "auth_world \<Rightarrow> ms \<Rightarrow> string \<Rightarrow> auth_throw + auth_error option" where
  "jwt_exp_error A now token =
     (case split_on (CHR ''.'') token of
        [h, p, s] \<Rightarrow>
          (case json_part A p of
             None \<Rightarrow> Inr (Some (InvalidAuth, ''Failed to decode JWT payload.''))
           | Some v \<Rightarrow>
               if nullish v then Inl TypeError
               else if js_prop v ''exp'' = JUndef then Inr (Some (InvalidAuth, ''JWT is missing required `exp` claim.''))
               else (case js_to_number (js_prop v ''exp'') of
                       Fin x \<Rightarrow> if num_lt (Fin x) (now_seconds now)
                                then Inr (Some (TokenExpired, ''OAuth 2.0 Bearer token has expired.'')) else Inr None
                     | _ \<Rightarrow> Inr (Some (InvalidAuth, ''JWT `exp` claim is not a valid number.''))))
      | _ \<Rightarrow> Inr (Some (InvalidAuth, ''Invalid JWT format in Bearer token.'')))"

definition getBearerTokenError :: "auth_world \<Rightarrow> ms \<Rightarrow> http_request \<Rightarrow> auth_throw + auth_error option" where
  "getBearerTokenError A now rq =
     (case header rq ''authorization'' of
        None \<Rightarrow> Inr (Some (AuthRequired, ''OAuth 2.0 Bearer token is required.''))
      | Some h \<Rightarrow>
          if \<not> bearer_prefix h then Inr (Some (AuthRequired, ''OAuth 2.0 Bearer token is required.''))
          else
            (let token = str_trim (drop 7 h) in
             if token = [] then Inr (Some (InvalidAuth, ''Bearer token is empty.''))
             else case static_token A of
               Some s \<Rightarrow> Inr (if aw_sha A token = aw_sha A s then None else Some (InvalidAuth, ''Invalid OAuth 2.0 Bearer token.''))
             | None \<Rightarrow>
                 (case sw_env (aw_signing A) ''MAP_OAUTH_JWKS_URL'' of
                    Some url \<Rightarrow> if url \<noteq> [] then jwt_exp_error A now token
                                else Inr (Some (InvalidAuth, ''OAuth 2.0 Bearer validation is not configured.''))
                  | None \<Rightarrow> Inr (Some (InvalidAuth, ''OAuth 2.0 Bearer validation is not configured.'')))))"

definition extractBearerToken :: "http_request \<Rightarrow> string option" where
  "extractBearerToken rq =
     (case header rq ''authorization'' of
        None \<Rightarrow> None
      | Some h \<Rightarrow> if \<not> bearer_prefix h then None
                  else (case str_trim (drop 7 h) of [] \<Rightarrow> None | t \<Rightarrow> Some t))"

section \<open>OAuth tokens against a key set\<close>

type_synonym jwks_cache = "(string, jsval list \<times> ms) jmap"

text \<open>The digits of the first \<open>max-age=<digits>\<close>, in any case.\<close>

fun max_age_digits :: "string \<Rightarrow> string option" where
  "max_age_digits [] = None"
| "max_age_digits (c # s) =
     (let r = drop 8 (c # s) in
      if str_lower (take 8 (c # s)) = ''max-age='' \<and> r \<noteq> [] \<and> is_digit (hd r) then Some (takeWhile is_digit r)
      else max_age_digits s)"

text \<open>\<open>None\<close> when the fetch fails, the answer is no 2xx, no JSON, or has no \<open>keys\<close> array.\<close>

definition fetch_jwks :: "auth_world \<Rightarrow> ms \<Rightarrow> string \<Rightarrow> jwks_cache \<Rightarrow> jsval list option \<times> jwks_cache" where
  "fetch_jwks A now url cache =
     (case aw_fetch A url of
        None \<Rightarrow> (None, cache)
      | Some a \<Rightarrow>
          (case (ja_ok a, ja_body a) of
             (True, Some body) \<Rightarrow>
               (case js_prop body ''keys'' of
                  JArr keys \<Rightarrow>
                    (let ttl = (case max_age_digits (case ja_cache_control a of None \<Rightarrow> [] | Some h \<Rightarrow> h) of
                                  Some d \<Rightarrow> int (radix_value 10 d) * 1000 | None \<Rightarrow> five_minutes)
                     in (Some keys, jm_set url (keys, now + ttl) cache))
                | _ \<Rightarrow> (None, cache))
           | _ \<Rightarrow> (None, cache)))"

definition getOAuth2Jwks :: "auth_world \<Rightarrow> ms \<Rightarrow> string \<Rightarrow> jwks_cache \<Rightarrow> jsval list option \<times> jwks_cache" where
  "getOAuth2Jwks A now url cache =
     (case jm_get cache url of
        Some (keys, expires) \<Rightarrow> if expires > now then (Some keys, cache) else fetch_jwks A now url cache
      | None \<Rightarrow> fetch_jwks A now url cache)"

definition jwt_algorithm :: "jsval \<Rightarrow> string \<times> string" where
  "jwt_algorithm jwk =
     (let alg = js_prop jwk ''alg'' in
      if alg = JStr ''RS384'' then (''RSASSA-PKCS1-v1_5'', ''SHA-384'')
      else if alg = JStr ''RS512'' then (''RSASSA-PKCS1-v1_5'', ''SHA-512'')
      else if alg = JStr ''ES256'' then (''ECDSA'', ''SHA-256'')
      else if alg = JStr ''ES384'' then (''ECDSA'', ''SHA-384'')
      else (''RSASSA-PKCS1-v1_5'', ''SHA-256''))"

definition verifyJwtSignature :: "auth_world \<Rightarrow> string \<Rightarrow> string \<Rightarrow> string \<Rightarrow> jsval \<Rightarrow> bool" where
  "verifyJwtSignature A h p s jwk =
     (aw_verify A (jwt_algorithm jwk) jwk (h @ ''.'' @ p) (b64_decode s) = Some True)"

text \<open>The key for a header: by its \<open>kid\<close> when it has a non-empty one, else the first; \<open>None\<close> when there is none.\<close>

definition matching_key :: "jsval \<Rightarrow> jsval list \<Rightarrow> jsval option" where
  "matching_key hd_value keys =
     (let found = (case js_prop hd_value ''kid'' of
                     JStr kid \<Rightarrow> if kid \<noteq> [] then (case find_member ''kid'' kid keys of Some r \<Rightarrow> r | None \<Rightarrow> None)
                                 else (case keys of [] \<Rightarrow> None | k # _ \<Rightarrow> Some k)
                   | _ \<Rightarrow> (case keys of [] \<Rightarrow> None | k # _ \<Rightarrow> Some k))
      in case found of None \<Rightarrow> None | Some k \<Rightarrow> if js_truthy k then Some k else None)"

definition claims_ok :: "auth_world \<Rightarrow> ms \<Rightarrow> jsval \<Rightarrow> bool" where
  "claims_ok A now v \<longleftrightarrow>
     (js_prop v ''exp'' = JUndef \<or>
        (case js_to_number (js_prop v ''exp'') of Fin x \<Rightarrow> \<not> num_lt (Fin x) (now_seconds now) | _ \<Rightarrow> False)) \<and>
     (case env_present (sw_env (aw_signing A) ''MAP_OAUTH_ISSUER'') of
        None \<Rightarrow> True | Some i \<Rightarrow> js_prop v ''iss'' = JStr (str_trim i)) \<and>
     (case env_present (sw_env (aw_signing A) ''MAP_OAUTH_AUDIENCE'') of
        None \<Rightarrow> True
      | Some a \<Rightarrow> (case js_prop v ''aud'' of
                     JArr xs \<Rightarrow> js_includes xs (JStr (str_trim a)) | JStr s \<Rightarrow> s = str_trim a | _ \<Rightarrow> False))"

record oauth_result =
  ou_valid :: bool
  ou_sub :: "string option"

definition oauth_invalid :: oauth_result where
  "oauth_invalid = \<lparr>ou_valid = False, ou_sub = None\<rparr>"

definition validateOAuth2Token :: "auth_world \<Rightarrow> ms \<Rightarrow> string \<Rightarrow> jwks_cache \<Rightarrow> (auth_throw + oauth_result) \<times> jwks_cache" where
  "validateOAuth2Token A now token cache =
     (case static_token A of
        Some s \<Rightarrow> (Inr \<lparr>ou_valid = (aw_sha A token = aw_sha A s), ou_sub = None\<rparr>, cache)
      | None \<Rightarrow>
          (case env_present (sw_env (aw_signing A) ''MAP_OAUTH_JWKS_URL'') of
             None \<Rightarrow> (Inr oauth_invalid, cache)
           | Some url \<Rightarrow>
               (case split_on (CHR ''.'') token of
                  [h, p, s] \<Rightarrow>
                    (case (json_part A h, json_part A p) of
                       (Some hv, Some v) \<Rightarrow>
                         if nullish v then (Inl TypeError, cache)
                         else if \<not> claims_ok A now v then (Inr oauth_invalid, cache)
                         else (case getOAuth2Jwks A now url cache of
                                 (None, cache1) \<Rightarrow> (Inr oauth_invalid, cache1)
                               | (Some keys, cache1) \<Rightarrow>
                                   (case (if nullish hv then None else matching_key hv keys) of
                                      None \<Rightarrow> (Inr oauth_invalid, cache1)
                                    | Some k \<Rightarrow>
                                        if \<not> verifyJwtSignature A h p s k then (Inr oauth_invalid, cache1)
                                        else (Inr \<lparr>ou_valid = True,
                                                   ou_sub = (case js_prop v ''sub'' of JStr x \<Rightarrow> Some x | _ \<Rightarrow> None)\<rparr>, cache1)))
                     | _ \<Rightarrow> (Inr oauth_invalid, cache))
                | _ \<Rightarrow> (Inr oauth_invalid, cache))))"

section \<open>Admin token and the cascade\<close>

definition admin_status :: "auth_code \<Rightarrow> nat" where
  "admin_status c = (if c = AuthRequired then 401 else 403)"

definition getAdminTokenError :: "auth_world \<Rightarrow> ms \<Rightarrow> http_request \<Rightarrow> string \<Rightarrow> string list
    \<Rightarrow> signing_state \<Rightarrow> (auth_throw + (nat \<times> auth_error) option) \<times> signing_state" where
  "getAdminTokenError A now rq body revoked st =
     (case env_present (sw_env (aw_signing A) ''MAP_ADMIN_TOKEN'') of
        None \<Rightarrow> (Inr (Some (403, InvalidAuth, ''Admin controls are not enabled.'')), st)
      | Some configured \<Rightarrow>
          (case header rq ''x-map-admin-token'' of
             None \<Rightarrow> (Inr (Some (403, InvalidAuth, ''Invalid admin token.'')), st)
           | Some provided \<Rightarrow>
               if aw_sha A provided \<noteq> aw_sha A configured then (Inr (Some (403, InvalidAuth, ''Invalid admin token.'')), st)
               else (case getSignedRequestError A now rq body revoked st of
                       (Inl e, st1) \<Rightarrow> (Inl e, st1)
                     | (Inr err, st1) \<Rightarrow> (Inr (map_option (\<lambda>(c, m). (admin_status c, c, m)) err), st1))))"

record auth_options =
  ao_enforce_signed :: bool
  ao_enforce_bearer :: bool
  ao_required_scheme :: "auth_scheme option"
  ao_raw_body :: string
  ao_revoked :: "string list"

datatype auth_result = Authenticated "string option" | Refused nat auth_code string

definition key_subject :: "string \<Rightarrow> string" where
  "key_subject kid = ''key:'' @ kid"

definition refusal :: "auth_error \<Rightarrow> auth_result" where
  "refusal e = Refused (admin_status (fst e)) (fst e) (snd e)"

definition requires_signed :: "auth_options \<Rightarrow> http_request \<Rightarrow> bool" where
  "requires_signed opts rq \<longleftrightarrow> ao_enforce_signed opts \<or> ao_required_scheme opts = Some SignedRequest \<or> wantsSignedRequestAuth rq"

type_synonym 'a authenticating = "signing_state \<times> jwks_cache \<Rightarrow> (auth_throw + 'a) \<times> signing_state \<times> jwks_cache"

text \<open>The three attempts; each says how to go on: \<open>None\<close> passes to the next.\<close>

definition try_signed :: "auth_world \<Rightarrow> ms \<Rightarrow> http_request \<Rightarrow> auth_options \<Rightarrow> auth_result option authenticating" where
  "try_signed A now rq opts s =
     (if \<not> requires_signed opts rq then (Inr None, s)
      else case getSignedRequestError A now rq (ao_raw_body opts) (ao_revoked opts) (fst s) of
        (Inl e, st1) \<Rightarrow> (Inl e, st1, snd s)
      | (Inr None, st1) \<Rightarrow> (Inr (Some (Authenticated (map_option key_subject (header rq ''x-map-key-id'')))), st1, snd s)
      | (Inr (Some e), st1) \<Rightarrow> (Inr (if wantsSignedRequestAuth rq then Some (refusal e) else None), st1, snd s))"

definition bearer_fallback :: "auth_world \<Rightarrow> ms \<Rightarrow> http_request \<Rightarrow> auth_options \<Rightarrow> auth_throw + auth_result option" where
  "bearer_fallback A now rq opts =
     (case getBearerTokenError A now rq of
        Inl e \<Rightarrow> Inl e
      | Inr None \<Rightarrow> Inr None
      | Inr (Some e) \<Rightarrow> Inr (if ao_enforce_bearer opts \<or> extractBearerToken rq \<noteq> None then Some (refusal e) else None))"

definition try_bearer :: "auth_world \<Rightarrow> ms \<Rightarrow> http_request \<Rightarrow> auth_options \<Rightarrow> auth_result option authenticating" where
  "try_bearer A now rq opts s =
     (if \<not> ao_enforce_bearer opts \<and> requires_signed opts rq then (Inr None, s)
      else case extractBearerToken rq of
        None \<Rightarrow> (bearer_fallback A now rq opts, s)
      | Some token \<Rightarrow>
          (case validateOAuth2Token A now token (snd s) of
             (Inr r, cache1) \<Rightarrow>
               if ou_valid r
               then (Inr (Some (Authenticated (Some (case ou_sub r of Some x \<Rightarrow> x | None \<Rightarrow> ''bearer:authenticated'')))), fst s, cache1)
               else (bearer_fallback A now rq opts, fst s, cache1)
           | (Inl e, cache1) \<Rightarrow> (bearer_fallback A now rq opts, fst s, cache1)))"

definition try_admin :: "auth_world \<Rightarrow> ms \<Rightarrow> http_request \<Rightarrow> auth_options \<Rightarrow> auth_result option authenticating" where
  "try_admin A now rq opts s =
     (case env_present (header rq ''x-map-admin-token'') of
        None \<Rightarrow> (Inr None, s)
      | Some t \<Rightarrow>
          (case getAdminTokenError A now rq (ao_raw_body opts) (ao_revoked opts) (fst s) of
             (Inl e, st1) \<Rightarrow> (Inl e, st1, snd s)
           | (Inr None, st1) \<Rightarrow> (Inr (Some (Authenticated (Some ''admin:authenticated''))), st1, snd s)
           | (Inr (Some e), st1) \<Rightarrow> (Inr None, st1, snd s)))"

definition or_try :: "auth_result option authenticating \<Rightarrow> auth_result authenticating \<Rightarrow> auth_result authenticating" where
  "or_try a b s = (case a s of (Inl e, s1) \<Rightarrow> (Inl e, s1) | (Inr (Some r), s1) \<Rightarrow> (Inr r, s1) | (Inr None, s1) \<Rightarrow> b s1)"

definition authMiddleware :: "auth_world \<Rightarrow> ms \<Rightarrow> http_request \<Rightarrow> auth_options \<Rightarrow> auth_result authenticating" where
  "authMiddleware A now rq opts =
     or_try (try_signed A now rq opts) (or_try (try_bearer A now rq opts) (or_try (try_admin A now rq opts)
       (\<lambda>s. (Inr (Refused 401 AuthRequired ''Authentication is required.''), s))))"

section \<open>Facts on the checks\<close>

lemma signed_error_none:
  assumes "getSignedRequestError A now rq body revoked st = (Inr None, st')"
  obtains kid timestamp sig path where "wantsSignedRequestAuth rq" and "header rq ''x-map-key-id'' = Some kid" and "kid \<notin> set revoked"
    and "header rq ''x-map-timestamp'' = Some timestamp" and "header rq ''x-map-request-signature'' = Some sig"
    and "aw_path A (case hq_url rq of None \<Rightarrow> ''/'' | Some u \<Rightarrow> u) = Some path"
    and "\<And>t. sw_date (aw_signing A) timestamp = Some t \<Longrightarrow> \<bar>now - t\<bar> \<le> five_minutes"
    and "verifyHttpRequestSignature (aw_signing A) now \<lparr>sr_method = (case hq_method rq of None \<Rightarrow> ''GET'' | Some m \<Rightarrow> m),
           sr_path = path, sr_timestamp = timestamp, sr_key_id = kid, sr_body = body\<rparr> sig None st = (Inr True, st')"
proof -
  from assms obtain kid timestamp sig path where h: "wantsSignedRequestAuth rq" "header rq ''x-map-key-id'' = Some kid"
      "header rq ''x-map-timestamp'' = Some timestamp" "header rq ''x-map-request-signature'' = Some sig"
    and p: "kid \<notin> set revoked" "aw_path A (case hq_url rq of None \<Rightarrow> ''/'' | Some u \<Rightarrow> u) = Some path"
    by (auto simp: getSignedRequestError_def split: if_splits option.splits prod.splits sum.splits)
  with assms show ?thesis
    by (intro that [of kid timestamp sig path])
       (auto simp: getSignedRequestError_def split: if_splits option.splits prod.splits sum.splits)
qed

lemma signed_needs_header: "\<not> wantsSignedRequestAuth rq \<Longrightarrow> \<exists>e. getSignedRequestError A now rq body revoked st = (Inr (Some e), st)"
  by (simp add: getSignedRequestError_def)

end
