(* ===== verification/AuthProofs.thy ===== *)
theory AuthProofs
  imports Auth
begin

text \<open>
  What an authenticated request has shown, and what it has not: which checks each
  way in rests on, and which part of a request none of them binds.
\<close>

section \<open>Soundness\<close>

lemma try_admin_never: "\<not> wantsSignedRequestAuth rq \<Longrightarrow> try_admin A now rq opts s \<noteq> (Inr (Some r), s')"
  using signed_needs_header [of rq A now "ao_raw_body opts" "ao_revoked opts" "fst s"]
  by (auto simp: try_admin_def getAdminTokenError_def split: option.splits prod.splits sum.splits if_splits)


text \<open>C22: a bearer token that passes the OAuth check is the configured static token (up to a digest collision), or a
  JWT whose expiry, issuer and audience are acceptable and whose header and payload verify under a key of
  the configured key set.\<close>

theorem oauth_sound:
  assumes "validateOAuth2Token A now token cache = (Inr r, cache')" and "ou_valid r"
  shows "(\<exists>s. static_token A = Some s \<and> aw_sha A token = aw_sha A s) \<or>
    (\<exists>url keys h p sig v k. env_present (sw_env (aw_signing A) ''MAP_OAUTH_JWKS_URL'') = Some url \<and>
       fst (getOAuth2Jwks A now url cache) = Some keys \<and> k \<in> set keys \<and> token = h @ ''.'' @ p @ ''.'' @ sig \<and>
       json_part A p = Some v \<and> claims_ok A now v \<and> verifyJwtSignature A h p sig k)"
proof (cases "static_token A")
  case (Some s)
  then show ?thesis using assms by (auto simp: validateOAuth2Token_def)
next
  case None
  then obtain url h p sig hv v where parts: "env_present (sw_env (aw_signing A) ''MAP_OAUTH_JWKS_URL'') = Some url"
      "split_on (CHR ''.'') token = [h, p, sig]" "json_part A h = Some hv" "json_part A p = Some v" "\<not> nullish v" "claims_ok A now v"
    using assms by (auto simp: validateOAuth2Token_def oauth_invalid_def split: option.splits list.splits if_splits)
  with None assms obtain keys cache1 k where k: "getOAuth2Jwks A now url cache = (Some keys, cache1)" "matching_key hv keys = Some k"
      "verifyJwtSignature A h p sig k"
    by (auto simp: validateOAuth2Token_def oauth_invalid_def split: prod.splits option.splits if_splits)
  have f: "find_member a b ks = Some (Some k) \<Longrightarrow> k \<in> set ks" for a b ks
    by (induction ks) (auto split: if_splits)
  have "k \<in> set keys"
    using k(2) f by (auto simp: matching_key_def Let_def split: jsval.splits if_splits option.splits list.splits)
  with parts k show ?thesis by (auto simp: split_three_conv)
qed

section \<open>What is not checked\<close>

text \<open>The bearer check that guards dispatch and approval in key-set mode reads the expiry only: whatever the
  signature part and the header of a token, it lets every token pass whose payload has not expired, though
  the OAuth check refuses a signature that does not verify.\<close>

theorem forged_jwt_accepted:
  assumes "static_token A = None" and "sw_env (aw_signing A) ''MAP_OAUTH_JWKS_URL'' = Some url" and "url \<noteq> []"
    and "header rq ''authorization'' = Some (''Bearer '' @ h @ ''.'' @ p @ ''.'' @ sig)"
    and "CHR ''.'' \<notin> set h" and "CHR ''.'' \<notin> set p" and "CHR ''.'' \<notin> set sig"
    and "str_trim (h @ ''.'' @ p @ ''.'' @ sig) = h @ ''.'' @ p @ ''.'' @ sig"
    and "json_part A p = Some v" and "\<not> nullish v" and "js_prop v ''exp'' = JNum (Fin x)" and "\<not> num_lt (Fin x) (now_seconds now)"
  shows "getBearerTokenError A now rq = Inr None"
proof -
  have t: "split_on (CHR ''.'') (h @ ''.'' @ p @ ''.'' @ sig) = [h, p, sig]"
    using split_three [OF assms(5,6,7)] by simp
  have b: "bearer_prefix (''Bearer '' @ h @ ''.'' @ p @ ''.'' @ sig)"
  proof -
    have "str_lower ''Bearer '' = ''bearer ''" by code_simp
    then have "str_lower (''Bearer '' @ r) = ''bearer '' @ str_lower r" for r by (simp add: str_lower_def)
    then show ?thesis unfolding bearer_prefix_def by (metis prefixI)
  qed
  have e: "jwt_exp_error A now (h @ ''.'' @ p @ ''.'' @ sig) = Inr None"
    unfolding jwt_exp_error_def t using assms(9-12) by simp
  define tok where "tok = h @ ''.'' @ p @ ''.'' @ sig"
  have ne: "tok \<noteq> []" by (simp add: tok_def)
  have "drop 7 (''Bearer '' @ tok) = tok" by simp
  then show ?thesis using assms(1-4,8) b e ne unfolding tok_def [symmetric]
    by (simp add: getBearerTokenError_def)
qed

text \<open>No request check looks at the nonce header: a signed request that was accepted is accepted again with the
  same headers, any number of times, while its timestamp is in the window.\<close>

theorem signed_request_replayable:
  assumes "getSignedRequestError A t0 rq body revoked st = (Inr None, st0)"
    and "header rq ''x-map-timestamp'' = Some timestamp" and "sw_date (aw_signing A) timestamp = Some ts"
    and "\<bar>t - ts\<bar> \<le> five_minutes" and "\<not> num_lt (getRequestMaxAgeMs (aw_signing A)) (Fin (of_int \<bar>t - ts\<bar>))"
  shows "fst (getSignedRequestError A t rq body revoked st1) = Inr None"
proof -
  from assms(1) obtain kid timestamp' sig path where h: "wantsSignedRequestAuth rq" "header rq ''x-map-key-id'' = Some kid"
      "kid \<notin> set revoked" "header rq ''x-map-timestamp'' = Some timestamp'" "header rq ''x-map-request-signature'' = Some sig"
      "aw_path A (case hq_url rq of None \<Rightarrow> ''/'' | Some u \<Rightarrow> u) = Some path"
    and v: "verifyHttpRequestSignature (aw_signing A) t0 \<lparr>sr_method = (case hq_method rq of None \<Rightarrow> ''GET'' | Some m \<Rightarrow> m),
           sr_path = path, sr_timestamp = timestamp', sr_key_id = kid, sr_body = body\<rparr> sig None st = (Inr True, st0)"
    by (rule signed_error_none) blast
  let ?r = "\<lparr>sr_method = (case hq_method rq of None \<Rightarrow> ''GET'' | Some m \<Rightarrow> m), sr_path = path, sr_timestamp = timestamp,
      sr_key_id = kid, sr_body = body\<rparr>"
  from h(4) assms(2) have ts: "timestamp' = timestamp" by simp
  from v obtain st2 where "verifyCompactSignature (aw_signing A) sig (signedRequestPayload ?r) (Some ''http_request'') st2 = (Inr True, st0)"
    unfolding ts by (rule http_accepted)
  then have vs: "fst (verifyCompactSignature (aw_signing A) sig (signedRequestPayload ?r) (Some ''http_request'') s) = Inr True" for s
    using verify_stateless unfolding verifyCompactSignature_def by (metis fst_conv)
  have "fst (verifyHttpRequestSignature (aw_signing A) t ?r sig None st1) = Inr True"
    using vs assms(3,5) by (simp add: verifyHttpRequestSignature_def)
  then obtain st3 where w: "verifyHttpRequestSignature (aw_signing A) t ?r sig None st1 = (Inr True, st3)" by (metis prod.collapse)
  have "\<not> \<bar>t - ts\<bar> > five_minutes" using assms(4) by simp
  then show ?thesis using h assms(2,3) w unfolding ts by (simp add: getSignedRequestError_def)
qed

text \<open>the key a request names need not be the key that signed it. Whoever holds a key the process knows can name
  any other key id, sign over it with the own key, and pass: also when the own key is among the keys revoked
  at run time, which are looked up by the name in the header only.\<close>

theorem key_id_not_bound:
  assumes "signing_laws (aw_signing A)" and "getSigningKeys (aw_signing A) = Inr keys" and "k \<in> set keys"
    and "sk_status k \<noteq> KRevoked" and "scope_ok (Some ''http_request'') k" and "other \<notin> set revoked"
    and "sw_date (aw_signing A) timestamp = Some now" and "aw_path A url = Some path"
    and "raw_signature (aw_signing A) k (signing_input k (stableStringify (sw_big (aw_signing A)) (signedRequestPayload
           \<lparr>sr_method = m, sr_path = path, sr_timestamp = timestamp, sr_key_id = other, sr_body = body\<rparr>))) = Inr bs"
  shows "\<exists>sig. \<forall>hs. hs = [(''x-map-auth-scheme'', ''signed_request''), (''x-map-key-id'', other), (''x-map-timestamp'', timestamp),
        (''x-map-request-signature'', sig)] \<longrightarrow>
      fst (getSignedRequestError A now \<lparr>hq_method = Some m, hq_url = Some url, hq_headers = hs\<rparr> body revoked st) = Inr None"
proof -
  let ?r = "\<lparr>sr_method = m, sr_path = path, sr_timestamp = timestamp, sr_key_id = other, sr_body = body\<rparr>"
  let ?text = "stableStringify (sw_big (aw_signing A)) (signedRequestPayload ?r)"
  let ?sig = "signing_input k ?text @ ''.'' @ b64_encode bs"
  have "fst (verifyCompactSignature (aw_signing A) ?sig (signedRequestPayload ?r) (Some ''http_request'') st) = Inr True"
    using signature_accepted [OF assms(1-5,9)] by (simp add: verifyCompactSignature_def)
  moreover have "\<not> num_lt (getRequestMaxAgeMs (aw_signing A)) (Fin 0)"
    by (auto simp: getRequestMaxAgeMs_def default_request_max_age_def split: option.split jsnum.split)
  ultimately obtain st1 where v: "verifyHttpRequestSignature (aw_signing A) now ?r ?sig None st = (Inr True, st1)"
    using assms(7) by (simp add: verifyHttpRequestSignature_def) (metis prod.collapse)
  show ?thesis
  proof (intro exI [of _ ?sig] allI impI)
    fix hs
    assume "hs = [(''x-map-auth-scheme'', ''signed_request''), (''x-map-key-id'', other), (''x-map-timestamp'', timestamp),
        (''x-map-request-signature'', ?sig)]"
    then show "fst (getSignedRequestError A now \<lparr>hq_method = Some m, hq_url = Some url, hq_headers = hs\<rparr> body revoked st) = Inr None"
      using assms(6,7,8) v by (simp add: getSignedRequestError_def wantsSignedRequestAuth_def header_def five_minutes_def)
  qed
qed

section \<open>At concrete requests\<close>

definition sample_auth :: "(string \<times> string) list \<Rightarrow> auth_world" where
  "sample_auth extra = \<lparr>aw_signing = (sample_world Open)\<lparr>sw_env := map_of (extra @ [(''MAP_SIGNING_SECRET'', ''s'')])\<rparr>, aw_sha = (\<lambda>s. s),
     aw_path = Some, aw_fetch = (\<lambda>_. None), aw_verify = (\<lambda>_ _ _ _. None)\<rparr>"

definition plain_auth :: auth_world where
  "plain_auth = (sample_auth [])\<lparr>aw_signing := sample_world Open\<rparr>"

definition signed_http :: http_request where
  "signed_http = \<lparr>hq_method = Some ''post'', hq_url = Some ''/dispatch'',
     hq_headers = [(''x-map-auth-scheme'', ''signed_request''), (''x-map-key-id'', default_kid), (''x-map-timestamp'', ''now''),
                   (''x-map-request-signature'', sample_http_signature)]\<rparr>"

lemma signed_http_ok: "\<exists>st'. getSignedRequestError plain_auth 1000000 signed_http ''{}'' [] st = (Inr None, st')"
proof -
  have d: "sw_date (sample_world Open) (sr_timestamp sample_http) = Some 1000000" by (simp add: sample_world_def sample_http_def)
  have "fst (verifyHttpRequestSignature (sample_world Open) 1000000 sample_http sample_http_signature None st) = Inr True"
    using sample_http_verifies by (simp add: verifyHttpRequestSignature_def d sample_window)
  then obtain st' where v: "verifyHttpRequestSignature (sample_world Open) 1000000 sample_http sample_http_signature None st = (Inr True, st')"
    by (metis prod.collapse)
  have "sw_date (sample_world Open) ''now'' = Some 1000000" by (simp add: sample_world_def)
  then show ?thesis using v unfolding sample_http_def
    by (simp add: getSignedRequestError_def wantsSignedRequestAuth_def header_def signed_http_def plain_auth_def sample_auth_def
        five_minutes_def)
qed

definition open_options :: auth_options where
  "open_options = \<lparr>ao_enforce_signed = True, ao_enforce_bearer = False, ao_required_scheme = None, ao_raw_body = ''{}'', ao_revoked = []\<rparr>"


definition bearer_http :: "string \<Rightarrow> http_request" where
  "bearer_http token = \<lparr>hq_method = Some ''POST'', hq_url = Some ''/dispatch'', hq_headers = [(''authorization'', ''Bearer '' @ token)]\<rparr>"

theorem oauth_sound_witness:
  "\<exists>s. static_token (sample_auth [(''MAP_OAUTH_STATIC_TOKEN'', ''tok'')]) = Some s \<and>
    aw_sha (sample_auth [(''MAP_OAUTH_STATIC_TOKEN'', ''tok'')]) ''tok'' = aw_sha (sample_auth [(''MAP_OAUTH_STATIC_TOKEN'', ''tok'')]) s"
proof -
  let ?A = "sample_auth [(''MAP_OAUTH_STATIC_TOKEN'', ''tok'')]"
  have t: "str_trim ''tok'' = ''tok''" by code_simp
  have n: "env_present (sw_env (aw_signing ?A) ''MAP_OAUTH_JWKS_URL'') = None" by (simp add: sample_auth_def env_present_def)
  have "validateOAuth2Token ?A 0 ''tok'' [] = (Inr \<lparr>ou_valid = True, ou_sub = None\<rparr>, [])"
    by (simp add: validateOAuth2Token_def static_token_def sample_auth_def env_present_def t)
  from oauth_sound [OF this] show ?thesis unfolding n by auto
qed

theorem forged_jwt_accepted_witness:
  "getBearerTokenError ((sample_auth [(''MAP_OAUTH_JWKS_URL'', ''u'')])\<lparr>aw_signing :=
      (aw_signing (sample_auth [(''MAP_OAUTH_JWKS_URL'', ''u'')]))\<lparr>sw_json := (\<lambda>_. Some (JObj [(''exp'', JNum (Fin 99))]))\<rparr>\<rparr>)
     5000 (bearer_http ''x.y.forged'') = Inr None"
  by (rule forged_jwt_accepted [of _ "''u''" _ "''x''" "''y''" "''forged''" "JObj [(''exp'', JNum (Fin 99))]" 99])
     (simp_all add: static_token_def sample_auth_def env_present_def header_def bearer_http_def json_part_def nullish_def js_prop_def
       obj_get_def now_seconds_def str_trim_def is_ws_def)

theorem signed_request_replayable_witness:
  "fst (getSignedRequestError plain_auth 1200000 signed_http ''{}'' [] empty_signing) = Inr None"
proof -
  obtain st' where a: "getSignedRequestError plain_auth 1000000 signed_http ''{}'' [] empty_signing = (Inr None, st')"
    using signed_http_ok by blast
  have t: "header signed_http ''x-map-timestamp'' = Some ''now''" by (simp add: header_def signed_http_def)
  have d: "sw_date (aw_signing plain_auth) ''now'' = Some 1000000" by (simp add: plain_auth_def sample_world_def)
  show ?thesis
    by (rule signed_request_replayable [OF a t d]) (simp_all add: five_minutes_def plain_auth_def sample_window)
qed

theorem key_id_not_bound_witness:
  "\<exists>sig. \<forall>hs. hs = [(''x-map-auth-scheme'', ''signed_request''), (''x-map-key-id'', ''operator''), (''x-map-timestamp'', ''now''),
        (''x-map-request-signature'', sig)] \<longrightarrow>
      fst (getSignedRequestError plain_auth 1000000 \<lparr>hq_method = Some ''POST'', hq_url = Some ''/dispatch'', hq_headers = hs\<rparr> ''{}''
        [default_kid] empty_signing) = Inr None"
proof (rule key_id_not_bound [where k = sample_key and keys = "[sample_key]" and path = "''/dispatch''"])
  have s: "aw_signing plain_auth = sample_world Open" by (simp add: plain_auth_def)
  show "signing_laws (aw_signing plain_auth)" "getSigningKeys (aw_signing plain_auth) = Inr [sample_key]"
    by (simp_all add: s sample_laws sample_keys)
  show "sk_status sample_key \<noteq> KRevoked" by (simp add: sample_key_def builtin_key_def)
  show "scope_ok (Some ''http_request'') sample_key"
    using sample_refusal [of "''http_request''"] by (simp add: refusal_None default_scopes_def)
  show "''operator'' \<notin> set [default_kid]" by (simp add: default_kid_def)
  show "sw_date (aw_signing plain_auth) ''now'' = Some 1000000" by (simp add: s sample_world_def)
  show "aw_path plain_auth ''/dispatch'' = Some ''/dispatch''" by (simp add: plain_auth_def sample_auth_def)
  show "raw_signature (aw_signing plain_auth) sample_key input =
      Inr (sw_hmac (aw_signing plain_auth) ''s'' input)" for input
    by (simp add: raw_signature_def sample_key_def builtin_key_def)
qed simp

end
