(* ===== verification/RateLimit.thy ===== *)
theory RateLimit
  imports AsyncQueue
begin

text \<open>
  Admission control of the server: \<open>services/rate-limiter.ts\<close> (the class),
  \<open>middleware/rate-limit.ts\<close> (the same check as a function), the part of
  \<open>state.ts\<close> that stores and reloads the windows, and \<open>middleware/backpressure.ts\<close>.
  An event list holds the times of the admitted requests, oldest first. All clock
  readings of one check are the same instant. The array of a tenant reaches the
  map only after its slot was consumed, so a save in between misses a new tenant.
\<close>

section \<open>State\<close>

record rate_config =
  rk_window :: ms
  rk_max :: "int option"
  rk_max_per_tenant :: "int option"
  rk_persistent :: bool

record rate_limiter =
  rl_global :: "ms list"
  rl_tenants :: "(string, ms list) jmap"
  rl_file :: "(ms list \<times> (string, ms list) jmap) option"

definition prune :: "rate_config \<Rightarrow> ms \<Rightarrow> ms list \<Rightarrow> ms list" where
  "prune c now events = dropWhile (\<lambda>t. now - t > rk_window c) events"

definition persistRateLimitState :: "rate_config \<Rightarrow> ms \<Rightarrow> rate_limiter \<Rightarrow> rate_limiter" where
  "persistRateLimitState c now st =
     (if \<not> rk_persistent c then st
      else let g = prune c now (rl_global st);
               ts = map (\<lambda>(t, es). (t, prune c now es)) (rl_tenants st)
           in st\<lparr>rl_global := g, rl_tenants := ts, rl_file := Some (g, filter (\<lambda>(t, es). es \<noteq> []) ts)\<rparr>)"

text \<open>\<open>Object.entries\<close> of the stored file against the clock of the reading process.\<close>

definition hydrateRateLimitState :: "rate_config \<Rightarrow> ms \<Rightarrow> (ms list \<times> (string, ms list) jmap) option \<Rightarrow> rate_limiter" where
  "hydrateRateLimitState c now file =
     (case file of
        None \<Rightarrow> \<lparr>rl_global = [], rl_tenants = [], rl_file = None\<rparr>
      | Some (g, ts) \<Rightarrow>
          (let fresh = filter (\<lambda>t. now - t \<le> rk_window c) in
           \<lparr>rl_global = fresh g, rl_tenants = filter (\<lambda>(t, es). es \<noteq> []) (map (\<lambda>(t, es). (t, fresh es)) ts), rl_file = file\<rparr>))"

section \<open>The check\<close>

datatype rate_scope = ScopeGlobal | ScopeTenant

datatype rate_verdict = Admitted | Limited rate_scope ms

text \<open>One window: the list afterwards, \<open>None\<close> when the slot is granted or the wait in milliseconds, and whether it saves.\<close>

definition consume_slot :: "rate_config \<Rightarrow> ms \<Rightarrow> int option \<Rightarrow> ms list \<Rightarrow> ms list \<times> ms option \<times> bool" where
  "consume_slot c now limit events =
     (case limit of
        None \<Rightarrow> (events, None, False)
      | Some n \<Rightarrow>
          (let es = prune c now events in
           if int (length es) \<ge> n
           then (es, Some (max 1 (rk_window c - (now - (case es of [] \<Rightarrow> now | t # _ \<Rightarrow> t)))), es \<noteq> events)
           else (es @ [now], None, True)))"

definition save_if :: "bool \<Rightarrow> rate_config \<Rightarrow> ms \<Rightarrow> rate_limiter \<Rightarrow> rate_limiter" where
  "save_if b c now st = (if b then persistRateLimitState c now st else st)"

definition consume_global :: "rate_config \<Rightarrow> ms \<Rightarrow> rate_limiter \<Rightarrow> rate_limiter \<times> ms option" where
  "consume_global c now st =
     (let (es, wait, saves) = consume_slot c now (rk_max c) (rl_global st)
      in (save_if saves c now (st\<lparr>rl_global := es\<rparr>), wait))"

definition consume_tenant :: "rate_config \<Rightarrow> ms \<Rightarrow> string \<Rightarrow> rate_limiter \<Rightarrow> rate_limiter \<times> ms option" where
  "consume_tenant c now tenant st =
     (let known = jm_has (rl_tenants st) tenant;
          old = (case jm_get (rl_tenants st) tenant of None \<Rightarrow> [] | Some es \<Rightarrow> es);
          (es, wait, saves) = consume_slot c now (rk_max_per_tenant c) old;
          st1 = (if known then st\<lparr>rl_tenants := jm_set tenant es (rl_tenants st)\<rparr> else st);
          st2 = save_if saves c now st1
      in (st2\<lparr>rl_tenants := jm_set tenant es (rl_tenants st2)\<rparr>, wait))"

definition checkMutationRateLimit :: "rate_config \<Rightarrow> ms \<Rightarrow> string option \<Rightarrow> rate_limiter \<Rightarrow> rate_limiter \<times> rate_verdict" where
  "checkMutationRateLimit c now tenant st =
     (case consume_global c now st of
        (st1, Some wait) \<Rightarrow> (st1, Limited ScopeGlobal wait)
      | (st1, None) \<Rightarrow>
          (case tenant of
             None \<Rightarrow> (st1, Admitted)
           | Some t \<Rightarrow>
               if t = [] \<or> rk_max_per_tenant c = None then (st1, Admitted)
               else (case consume_tenant c now t st1 of
                       (st2, Some wait) \<Rightarrow> (st2, Limited ScopeTenant wait)
                     | (st2, None) \<Rightarrow> (st2, Admitted))))"

text \<open>The middleware, over the same lists and with \<open>persistRateLimitState\<close> as its callback.\<close>

definition rateLimitMiddleware :: "rate_config \<Rightarrow> ms \<Rightarrow> string option \<Rightarrow> rate_limiter \<Rightarrow> rate_limiter \<times> rate_verdict" where
  "rateLimitMiddleware c now tenant st =
     (case consume_global c now st of
        (st1, Some wait) \<Rightarrow> (st1, Limited ScopeGlobal wait)
      | (st1, None) \<Rightarrow>
          (case (tenant, rk_max_per_tenant c) of
             (Some t, Some n) \<Rightarrow>
               if t \<noteq> [] \<and> n > 0
               then (case consume_tenant c now t st1 of
                       (st2, Some wait) \<Rightarrow> (st2, Limited ScopeTenant wait)
                     | (st2, None) \<Rightarrow> (st2, Admitted))
               else (st1, Admitted)
           | _ \<Rightarrow> (st1, Admitted)))"

section \<open>Backpressure\<close>

record backpressure_result =
  bp_allowed :: bool
  bp_warning :: "string option"
  bp_retry_after :: "string option"
  bp_headers :: "(string \<times> string) list"

definition queue_warning_ratio :: rat where "queue_warning_ratio = 7 / 10"

definition queue_critical_ratio :: rat where "queue_critical_ratio = 9 / 10"

definition backpressureMiddleware :: "nat \<Rightarrow> nat \<Rightarrow> backpressure_result" where
  "backpressureMiddleware depth max_depth =
     (let ratio = (if max_depth > 0 then (of_nat depth :: rat) / of_nat max_depth else 0);
          h = (''x-map-queue-depth'', nat_str depth)
      in if ratio \<ge> queue_critical_ratio then
           \<lparr>bp_allowed = False, bp_warning = None, bp_retry_after = Some ''5'', bp_headers = [(''retry-after'', ''5''), h]\<rparr>
         else if ratio \<ge> queue_warning_ratio then
           \<lparr>bp_allowed = True, bp_warning = Some ''queue_nearing_capacity'', bp_retry_after = None,
            bp_headers = [h, (''x-map-warning'', ''queue_nearing_capacity'')]\<rparr>
         else \<lparr>bp_allowed = True, bp_warning = None, bp_retry_after = None, bp_headers = [h]\<rparr>)"

section \<open>The window invariant\<close>

text \<open>
  A run of checks: each comes some time after the one before. \<open>lr_admitted\<close> is the
  log of the requests that were let through, the newest first.
\<close>

record limiter_run =
  lr_state :: rate_limiter
  lr_now :: ms
  lr_admitted :: "(ms \<times> string option) list"

definition limiter_step :: "rate_config \<Rightarrow> limiter_run \<Rightarrow> nat \<times> string option \<Rightarrow> limiter_run" where
  "limiter_step c r e =
     (let now = lr_now r + int (fst e); (st, v) = checkMutationRateLimit c now (snd e) (lr_state r)
      in \<lparr>lr_state = st, lr_now = now, lr_admitted = (if v = Admitted then (now, snd e) # lr_admitted r else lr_admitted r)\<rparr>)"

definition limiter_start :: "ms \<Rightarrow> limiter_run" where
  "limiter_start t = \<lparr>lr_state = \<lparr>rl_global = [], rl_tenants = [], rl_file = None\<rparr>, lr_now = t, lr_admitted = []\<rparr>"

text \<open>How many of \<open>xs\<close> fall in the window that starts at \<open>t\<close>, and how many are not expired at \<open>now\<close>.\<close>

definition in_window :: "ms \<Rightarrow> ms \<Rightarrow> ms list \<Rightarrow> nat" where
  "in_window w t xs = length (filter (\<lambda>x. t \<le> x \<and> x \<le> t + w) xs)"

definition recent :: "ms \<Rightarrow> ms \<Rightarrow> ms list \<Rightarrow> nat" where
  "recent w now xs = length (filter (\<lambda>x. now - x \<le> w) xs)"

text \<open>The event list \<open>es\<close> still holds what was admitted and may count, and no window was overfull.\<close>

definition window_ok :: "ms \<Rightarrow> int option \<Rightarrow> ms \<Rightarrow> ms list \<Rightarrow> ms list \<Rightarrow> bool" where
  "window_ok w limit now adm es \<longleftrightarrow> (case limit of None \<Rightarrow> True | Some n \<Rightarrow>
     (\<forall>s. now \<le> s \<longrightarrow> recent w s adm \<le> recent w s es) \<and> (\<forall>t. int (in_window w t adm) \<le> max 0 n))"

lemma recent_prune: "now \<le> s \<Longrightarrow> recent (rk_window c) s (prune c now es) = recent (rk_window c) s es"
  by (induction es) (auto simp: recent_def prune_def)

lemma in_window_recent: "t \<le> now \<Longrightarrow> now \<le> t + w \<Longrightarrow> in_window w t xs \<le> recent w now xs"
  by (induction xs) (auto simp: in_window_def recent_def)

lemma recent_length: "recent w now xs \<le> length xs"
  by (simp add: recent_def)

lemma recent_snoc: "recent w s (es @ [x]) = recent w s es + (if s - x \<le> w then 1 else 0)"
  by (simp add: recent_def)

lemma recent_cons: "recent w s (x # es) = recent w s es + (if s - x \<le> w then 1 else 0)"
  by (simp add: recent_def)

lemma window_ok_later: "window_ok w limit now adm es \<Longrightarrow> now \<le> s \<Longrightarrow> window_ok w limit s adm es"
  by (auto simp: window_ok_def split: option.splits)

lemma window_ok_prune [simp]:
  "window_ok (rk_window c) limit now adm (prune c now es) = window_ok (rk_window c) limit now adm es"
  by (auto simp: window_ok_def recent_prune split: option.splits)

lemma window_ok_nil: "window_ok w limit now [] es"
  by (simp add: window_ok_def in_window_def recent_def split: option.split)

text \<open>A granted slot may be followed by an admission, a refused one may not.\<close>

lemma consume_slot_keeps:
  assumes "window_ok (rk_window c) limit now adm es" and "consume_slot c now limit es = (es', wait, saves)"
  shows "window_ok (rk_window c) limit now adm es'" and "wait = None \<Longrightarrow> window_ok (rk_window c) limit now (now # adm) es'"
proof -
  let ?w = "rk_window c"
  show "window_ok ?w limit now adm es'"
  proof (cases limit)
    case (Some n)
    have "es' = prune c now es \<or> es' = prune c now es @ [now]"
      using assms(2) Some by (auto simp: consume_slot_def Let_def split: if_splits)
    then show ?thesis using assms(1) by (auto simp: Some window_ok_def recent_snoc recent_prune intro: le_SucI)
  qed (simp add: window_ok_def)
  assume w: "wait = None"
  show "window_ok ?w limit now (now # adm) es'"
  proof (cases limit)
    case (Some n)
    then have es': "es' = prune c now es @ [now]" and room: "int (length (prune c now es)) < n"
      using assms(2) w by (auto simp: consume_slot_def Let_def split: if_splits)
    have r: "now \<le> s \<Longrightarrow> recent ?w s adm \<le> recent ?w s (prune c now es)" for s
      using assms(1) by (simp add: Some window_ok_def recent_prune)
    have "int (in_window ?w t (now # adm)) \<le> max 0 n" for t
    proof (cases "t \<le> now \<and> now \<le> t + ?w")
      case True
      have "in_window ?w t adm \<le> recent ?w now adm" using in_window_recent True by blast
      also have "\<dots> \<le> length (prune c now es)" using r [of now] recent_length order_trans by blast
      finally show ?thesis using room by (simp add: in_window_def)
    next
      case False
      then show ?thesis using assms(1) by (auto simp: Some window_ok_def in_window_def)
    qed
    then show ?thesis using r by (simp add: Some window_ok_def es' recent_snoc recent_cons)
  qed (simp add: window_ok_def)
qed

definition tenant_events :: "rate_limiter \<Rightarrow> string \<Rightarrow> ms list" where
  "tenant_events st t = (case jm_get (rl_tenants st) t of None \<Rightarrow> [] | Some es \<Rightarrow> es)"

definition times_of :: "string \<Rightarrow> (ms \<times> string option) list \<Rightarrow> ms list" where
  "times_of t adm = map fst (filter (\<lambda>e. snd e = Some t) adm)"

definition limiter_ok :: "rate_config \<Rightarrow> ms \<Rightarrow> (ms \<times> string option) list \<Rightarrow> rate_limiter \<Rightarrow> bool" where
  "limiter_ok c now adm st \<longleftrightarrow> window_ok (rk_window c) (rk_max c) now (map fst adm) (rl_global st) \<and>
     (\<forall>t. t \<noteq> [] \<longrightarrow> window_ok (rk_window c) (rk_max_per_tenant c) now (times_of t adm) (tenant_events st t))"

lemma map_value_get: "map_of (map (\<lambda>(t, es). (t, f es)) m) k = map_option f (map_of m k)"
  by (induction m) auto

lemma persist_tenant: "tenant_events (persistRateLimitState c now st) t =
    (if rk_persistent c then prune c now (tenant_events st t) else tenant_events st t)"
  by (auto simp: persistRateLimitState_def tenant_events_def Let_def map_value_get prune_def split: option.split)

lemma persist_keeps: "limiter_ok c now adm (persistRateLimitState c now st) = limiter_ok c now adm st"
  unfolding limiter_ok_def persist_tenant by (simp add: persistRateLimitState_def Let_def)

lemma save_if_keeps [simp]: "limiter_ok c now adm (save_if b c now st) = limiter_ok c now adm st"
  by (simp add: save_if_def persist_keeps)

lemma tenant_events_set: "tenant_events (st\<lparr>rl_tenants := jm_set t es (rl_tenants st)\<rparr>) u = (if u = t then es else tenant_events st u)"
  by (simp add: tenant_events_def jm_get_set)

lemma tenant_events_global [simp]: "tenant_events (st\<lparr>rl_global := es\<rparr>) t = tenant_events st t"
  by (simp add: tenant_events_def)

text \<open>The windows hold after the global slot, with the request counted against the global window only.\<close>

lemma consume_global_keeps:
  assumes "limiter_ok c now adm st" and "consume_global c now st = (st1, wait)"
  shows "limiter_ok c now adm st1"
    and "wait = None \<Longrightarrow> window_ok (rk_window c) (rk_max c) now (now # map fst adm) (rl_global st1)"
proof -
  obtain es saves where s: "consume_slot c now (rk_max c) (rl_global st) = (es, wait, saves)"
    and st1: "st1 = save_if saves c now (st\<lparr>rl_global := es\<rparr>)"
    using assms(2) by (auto simp: consume_global_def split: prod.splits)
  from assms(1) have g: "window_ok (rk_window c) (rk_max c) now (map fst adm) (rl_global st)" by (simp add: limiter_ok_def)
  show "limiter_ok c now adm st1"
    using consume_slot_keeps(1) [OF g s] assms(1) unfolding st1 save_if_keeps by (simp add: limiter_ok_def)
  show "window_ok (rk_window c) (rk_max c) now (now # map fst adm) (rl_global st1)" if "wait = None"
    using consume_slot_keeps(2) [OF g s that] unfolding st1
    by (auto simp: save_if_def persistRateLimitState_def Let_def)
qed

lemma consume_tenant_keeps:
  assumes "limiter_ok c now adm st" and "consume_tenant c now t st = (st2, wait)" and "t \<noteq> []"
  shows "limiter_ok c now adm st2"
    and "wait = None \<Longrightarrow> window_ok (rk_window c) (rk_max_per_tenant c) now (now # times_of t adm) (tenant_events st2 t)"
    and "rl_global st2 = rl_global st \<or> rl_global st2 = prune c now (rl_global st)"
proof -
  obtain es saves where s: "consume_slot c now (rk_max_per_tenant c) (tenant_events st t) = (es, wait, saves)"
    by (cases "consume_slot c now (rk_max_per_tenant c) (tenant_events st t)")
       (use assms(2) in \<open>auto simp: consume_tenant_def tenant_events_def Let_def split: prod.splits\<close>)
  define st1 where "st1 = (if jm_has (rl_tenants st) t then st\<lparr>rl_tenants := jm_set t es (rl_tenants st)\<rparr> else st)"
  have st2: "st2 = (save_if saves c now st1)\<lparr>rl_tenants := jm_set t es (rl_tenants (save_if saves c now st1))\<rparr>"
    using assms(2) s by (auto simp: consume_tenant_def tenant_events_def Let_def st1_def)
  from assms(1,3) have g: "window_ok (rk_window c) (rk_max_per_tenant c) now (times_of t adm) (tenant_events st t)"
    by (simp add: limiter_ok_def)
  note k = consume_slot_keeps [OF g s]
  have "limiter_ok c now adm st1"
    using k(1) assms(1) by (auto simp: st1_def limiter_ok_def tenant_events_set)
  then have "limiter_ok c now adm (save_if saves c now st1)" by simp
  then show "limiter_ok c now adm st2" using k(1) unfolding st2 by (auto simp: limiter_ok_def tenant_events_set)
  show "window_ok (rk_window c) (rk_max_per_tenant c) now (now # times_of t adm) (tenant_events st2 t)" if "wait = None"
    using k(2) [OF that] by (simp add: st2 tenant_events_set)
  show "rl_global st2 = rl_global st \<or> rl_global st2 = prune c now (rl_global st)"
    by (auto simp: st2 st1_def save_if_def persistRateLimitState_def Let_def)
qed

lemma times_of_cons: "times_of t ((x, u) # adm) = (if u = Some t then x # times_of t adm else times_of t adm)"
  by (simp add: times_of_def)

lemma check_keeps:
  assumes "limiter_ok c now adm st" and "checkMutationRateLimit c now tenant st = (st', v)"
  shows "limiter_ok c now (if v = Admitted then (now, tenant) # adm else adm) st'"
proof -
  obtain st1 wait where g: "consume_global c now st = (st1, wait)" by fastforce
  note k = consume_global_keeps [OF assms(1) g]
  show ?thesis
  proof (cases wait)
    case (Some x)
    then show ?thesis using assms(2) g k(1) by (auto simp: checkMutationRateLimit_def)
  next
    case None
    note gl = k(2) [OF None]
    show ?thesis
    proof (cases "tenant = None \<or> tenant = Some [] \<or> rk_max_per_tenant c = None")
      case True
      then have v: "v = Admitted" "st' = st1" using assms(2) g None
        by (auto simp: checkMutationRateLimit_def split: option.splits)
      have "window_ok (rk_window c) (rk_max_per_tenant c) now (times_of t ((now, tenant) # adm)) (tenant_events st1 t)"
        if "t \<noteq> []" for t
      proof (cases "tenant = Some t")
        case True
        with \<open>tenant = None \<or> _\<close> that have "rk_max_per_tenant c = None" by auto
        then show ?thesis by (simp add: window_ok_def)
      next
        case False
        then show ?thesis using k(1) that by (simp add: limiter_ok_def times_of_cons)
      qed
      then show ?thesis using v gl by (simp add: limiter_ok_def)
    next
      case False
      then obtain t m where t: "tenant = Some t" "t \<noteq> []" "rk_max_per_tenant c = Some m" by auto
      obtain st2 w2 where c2: "consume_tenant c now t st1 = (st2, w2)" by fastforce
      note k2 = consume_tenant_keeps [OF k(1) c2 t(2)]
      have v: "st' = st2" "v = (case w2 of None \<Rightarrow> Admitted | Some x \<Rightarrow> Limited ScopeTenant x)"
        using assms(2) g None t c2 by (auto simp: checkMutationRateLimit_def split: option.splits)
      show ?thesis
      proof (cases w2)
        case (Some x)
        then show ?thesis using v k2(1) by simp
      next
        case N: None
        have "window_ok (rk_window c) (rk_max c) now (now # map fst adm) (rl_global st2)"
          using k2(3) gl by auto
        moreover have "window_ok (rk_window c) (rk_max_per_tenant c) now (times_of u ((now, tenant) # adm)) (tenant_events st2 u)"
          if "u \<noteq> []" for u
          using k2(1,2) N that t(1) by (auto simp: limiter_ok_def times_of_cons)
        ultimately show ?thesis using v N by (simp add: limiter_ok_def)
      qed
    qed
  qed
qed

definition run_ok :: "rate_config \<Rightarrow> limiter_run \<Rightarrow> bool" where
  "run_ok c r \<longleftrightarrow> limiter_ok c (lr_now r) (lr_admitted r) (lr_state r)"

lemma limiter_ok_later: "limiter_ok c now adm st \<Longrightarrow> now \<le> s \<Longrightarrow> limiter_ok c s adm st"
  by (auto simp: limiter_ok_def intro: window_ok_later)

interpretation limiter: invariant_system "limiter_step c" "\<lambda>_. True" "run_ok c" for c
proof
  fix r and e :: "nat \<times> string option"
  assume "run_ok c r"
  then have k: "limiter_ok c (lr_now r + int (fst e)) (lr_admitted r) (lr_state r)"
    by (auto simp: run_ok_def intro: limiter_ok_later)
  obtain st v where "checkMutationRateLimit c (lr_now r + int (fst e)) (snd e) (lr_state r) = (st, v)" by fastforce
  with check_keeps [OF k this] show "run_ok c (limiter_step c r e)" by (simp add: run_ok_def limiter_step_def Let_def)
qed

section \<open>Properties\<close>

text \<open>C23: whatever the requests and their tenants, from empty windows on: in no stretch of time as long as the window
  are more requests let through than the global limit, nor more of one tenant than the tenant limit.\<close>

theorem window_bound:
  assumes "r = foldl (limiter_step c) (limiter_start t0) es"
  shows "(\<forall>n t. rk_max c = Some n \<longrightarrow> int (in_window (rk_window c) t (map fst (lr_admitted r))) \<le> max 0 n) \<and>
    (\<forall>n t tenant. rk_max_per_tenant c = Some n \<longrightarrow> tenant \<noteq> [] \<longrightarrow>
       int (in_window (rk_window c) t (times_of tenant (lr_admitted r))) \<le> max 0 n)"
proof -
  have "run_ok c (limiter_start t0)"
    by (simp add: run_ok_def limiter_start_def limiter_ok_def window_ok_nil times_of_def)
  then have "run_ok c r" unfolding assms by (rule limiter.run_inv) (simp add: list_all_iff)
  then show ?thesis by (auto simp: run_ok_def limiter_ok_def window_ok_def)
qed

theorem window_bound_witness:
  "in_window 1000 0 (map fst (lr_admitted (foldl (limiter_step \<lparr>rk_window = 1000, rk_max = Some 2, rk_max_per_tenant = None, rk_persistent = False\<rparr>)
     (limiter_start 0) [(1, None), (1, None), (1, None)]))) \<le> 2"
  using window_bound [OF refl, of "\<lparr>rk_window = 1000, rk_max = Some 2, rk_max_per_tenant = None, rk_persistent = False\<rparr>"
      0 "[(1, None), (1, None), (1, None)]"]
  by simp

text \<open>the class and the middleware take the same decision and leave the same state, except that for a tenant limit
  of zero or less the class refuses every request of a named tenant and the middleware sets no limit.\<close>

theorem limiters_agree:
  "(\<forall>n. rk_max_per_tenant c = Some n \<longrightarrow> n > 0) \<Longrightarrow> rateLimitMiddleware c now tenant st = checkMutationRateLimit c now tenant st"
  by (auto simp: rateLimitMiddleware_def checkMutationRateLimit_def split: option.splits prod.splits)

theorem limiters_agree_witness:
  "rateLimitMiddleware \<lparr>rk_window = 1000, rk_max = Some 2, rk_max_per_tenant = Some 1, rk_persistent = True\<rparr> 5 (Some ''a'')
      (lr_state (limiter_start 0)) =
   checkMutationRateLimit \<lparr>rk_window = 1000, rk_max = Some 2, rk_max_per_tenant = Some 1, rk_persistent = True\<rparr> 5 (Some ''a'')
      (lr_state (limiter_start 0))"
  by (rule limiters_agree) simp

theorem limiters_differ_at_zero:
  assumes "rk_max c = None" and "rk_max_per_tenant c = Some n" and "n \<le> 0" and "t \<noteq> []"
  shows "snd (rateLimitMiddleware c now (Some t) st) = Admitted \<and>
    (\<exists>w. snd (checkMutationRateLimit c now (Some t) st) = Limited ScopeTenant w)"
  using assms by (auto simp: rateLimitMiddleware_def checkMutationRateLimit_def consume_global_def consume_slot_def
      consume_tenant_def Let_def save_if_def split: prod.splits)

text \<open>A request refused for its tenant has taken a slot of the global window all the same, so one tenant that
  keeps asking shuts the others out: with a global limit of 2 and a tenant limit of 1, two requests of one
  tenant leave no room for the first request of another, though only one was let through.\<close>

theorem refused_tenant_uses_global_slot:
  assumes "checkMutationRateLimit c now (Some t) st = (st', Limited ScopeTenant w)" and "rk_max c = Some n" and "0 \<le> rk_window c"
  shows "\<exists>es. rl_global st' = es @ [now]"
proof -
  obtain st1 where g: "consume_global c now st = (st1, None)" and t: "consume_tenant c now t st1 = (st', Some w)" and ne: "t \<noteq> []"
    using assms(1) by (auto simp: checkMutationRateLimit_def split: prod.splits option.splits if_splits)
  have keep: "\<exists>fs. prune c now (es @ [now]) = fs @ [now]" for es
    using assms(3) by (induction es) (auto simp: prune_def)
  let ?es = "prune c now (rl_global st) @ [now]"
  have "rl_global st1 = ?es \<or> rl_global st1 = prune c now ?es"
    using g assms(2) by (auto simp: consume_global_def consume_slot_def Let_def save_if_def persistRateLimitState_def
        split: if_splits prod.splits)
  then obtain es where "rl_global st1 = es @ [now]" using keep [of "prune c now (rl_global st)"] by auto
  moreover have "rl_global st' = rl_global st1 \<or> rl_global st' = prune c now (rl_global st1)"
    using t by (auto simp: consume_tenant_def Let_def save_if_def persistRateLimitState_def split: prod.splits if_splits)
  ultimately show ?thesis using keep by auto
qed

definition two_and_one :: rate_config where
  "two_and_one = \<lparr>rk_window = 1000, rk_max = Some 2, rk_max_per_tenant = Some 1, rk_persistent = False\<rparr>"

theorem refused_tenant_uses_global_slot_witness:
  "let st1 = fst (checkMutationRateLimit two_and_one 1 (Some ''a'') (lr_state (limiter_start 0)));
       st2 = fst (checkMutationRateLimit two_and_one 2 (Some ''a'') st1)
   in (\<exists>es. rl_global st2 = es @ [2]) \<and> snd (checkMutationRateLimit two_and_one 3 (Some ''b'') st2) = Limited ScopeGlobal 998"
proof -
  define st1 where "st1 = fst (checkMutationRateLimit two_and_one 1 (Some ''a'') (lr_state (limiter_start 0)))"
  define st2 where "st2 = fst (checkMutationRateLimit two_and_one 2 (Some ''a'') st1)"
  have "snd (checkMutationRateLimit two_and_one 2 (Some ''a'') st1) = Limited ScopeTenant 999" unfolding st1_def by code_simp
  then have "checkMutationRateLimit two_and_one 2 (Some ''a'') st1 = (st2, Limited ScopeTenant 999)"
    by (simp add: st2_def prod_eq_iff)
  from refused_tenant_uses_global_slot [OF this] have "\<exists>es. rl_global st2 = es @ [2]" by (simp add: two_and_one_def)
  moreover have "snd (checkMutationRateLimit two_and_one 3 (Some ''b'') st2) = Limited ScopeGlobal 998"
    unfolding st2_def st1_def by code_simp
  ultimately show ?thesis by (simp add: Let_def st1_def [symmetric] st2_def [symmetric])
qed

text \<open>The first request of a tenant is not in the saved state, since the map learns of its window only after the
  save: a restart at once forgets it, and lets the tenant go over its limit.\<close>

theorem first_tenant_slot_not_saved:
  assumes "rk_persistent c" and "rk_max c = None" and "rk_max_per_tenant c = Some n" and "0 < n" and "t \<noteq> []"
    and "jm_get (rl_tenants st) t = None"
  shows "\<exists>st' g ts. checkMutationRateLimit c now (Some t) st = (st', Admitted) \<and> rl_file st' = Some (g, ts) \<and>
    jm_get ts t = None \<and> tenant_events (hydrateRateLimitState c later (rl_file st')) t = []"
proof -
  have none: "jm_get m t = None \<Longrightarrow> jm_get (filter P (map (\<lambda>(t, es). (t, f es)) m)) t = None" for P f and m :: "(string, ms list) jmap"
    by (induction m) (auto split: if_splits)
  have c: "consume_slot c now (Some n) [] = ([now], None, True)"
    using assms(4) by (simp add: consume_slot_def prune_def)
  define ts where "ts = filter (\<lambda>(t, es). es \<noteq> []) (map (\<lambda>(t, es). (t, prune c now es)) (rl_tenants st))"
  have n1: "jm_get ts t = None" unfolding ts_def by (rule none [OF assms(6)])
  have n2: "jm_get (filter (\<lambda>(t, es). es \<noteq> []) (map (\<lambda>(t, es). (t, filter (\<lambda>t. later - t \<le> rk_window c) es)) ts)) t = None"
    by (rule none [OF n1])
  show ?thesis using assms n1 n2
    by (simp add: checkMutationRateLimit_def consume_global_def consume_slot_def [of c now None] consume_tenant_def c jm_has_def
        save_if_def persistRateLimitState_def Let_def hydrateRateLimitState_def tenant_events_def ts_def [symmetric])
qed

text \<open>What the backpressure check lets through finds room in the queue, as long as no job waits for a retry.\<close>

theorem backpressure_leaves_room:
  assumes "bp_allowed (backpressureMiddleware (qs_queue_depth (getStats now q)) (qs_max_queue_depth (getStats now q)))"
    and "0 < qc_maxQueueDepth (q_config q)" and "q_pendingRetry q \<le> 0" and "q_inflight q \<le> qc_maxConcurrent (q_config q)"
  shows "hasCapacity q"
proof -
  have "(of_nat (length (q_queue q)) :: rat) / of_nat (qc_maxQueueDepth (q_config q)) < 9 / 10"
    using assms(1,2) by (auto simp: backpressureMiddleware_def getStats_def queue_critical_ratio_def Let_def split: if_splits)
  then have "(of_nat (length (q_queue q)) :: rat) < 9 / 10 * of_nat (qc_maxQueueDepth (q_config q))"
    using assms(2) by (simp add: pos_divide_less_eq)
  also have "\<dots> \<le> of_nat (qc_maxQueueDepth (q_config q))" by simp
  finally have "length (q_queue q) < qc_maxQueueDepth (q_config q)" by simp
  then show ?thesis using assms(3,4) by (simp add: hasCapacity_def)
qed

theorem limiters_differ_at_zero_witness:
  "snd (rateLimitMiddleware \<lparr>rk_window = 1000, rk_max = None, rk_max_per_tenant = Some 0, rk_persistent = False\<rparr> 5 (Some ''a'')
      (lr_state (limiter_start 0))) = Admitted"
  using limiters_differ_at_zero [of "\<lparr>rk_window = 1000, rk_max = None, rk_max_per_tenant = Some 0, rk_persistent = False\<rparr>" 0 "''a''"]
  by simp

theorem first_tenant_slot_not_saved_witness:
  "\<exists>st' g ts. checkMutationRateLimit \<lparr>rk_window = 1000, rk_max = None, rk_max_per_tenant = Some 1, rk_persistent = True\<rparr> 5 (Some ''a'')
      (lr_state (limiter_start 0)) = (st', Admitted) \<and> rl_file st' = Some (g, ts) \<and> jm_get ts ''a'' = None"
  using first_tenant_slot_not_saved [of "\<lparr>rk_window = 1000, rk_max = None, rk_max_per_tenant = Some 1, rk_persistent = True\<rparr>" 1
      "''a''" "lr_state (limiter_start 0)" 5 5] by (auto simp: limiter_start_def)

theorem backpressure_leaves_room_witness:
  "hasCapacity (new_queue sample_options [])"
proof (rule backpressure_leaves_room [of 0])
  show "bp_allowed (backpressureMiddleware (qs_queue_depth (getStats 0 (new_queue sample_options [])))
      (qs_max_queue_depth (getStats 0 (new_queue sample_options []))))" by code_simp
  show "0 < qc_maxQueueDepth (q_config (new_queue sample_options []))" by code_simp
  show "q_pendingRetry (new_queue sample_options []) \<le> 0" by code_simp
  show "q_inflight (new_queue sample_options []) \<le> qc_maxConcurrent (q_config (new_queue sample_options []))" by code_simp
qed

end
