(* ===== verification/AuditLog.thy ===== *)
theory AuditLog
  imports SigningLimits
begin

text \<open>
  The audit chain: \<open>services/audit-manager.ts\<close> over the checkpoint signatures of
  the signing layer, with the load and save of \<open>state.ts\<close>. The SHA-256 digest in
  hexadecimal is a parameter. An event that reached the list stays there when
  signing the checkpoint after it throws.
\<close>

section \<open>State\<close>

record audit_input =
  ai_timestamp :: string
  ai_request_id :: string
  ai_code :: string
  ai_message :: string
  ai_method :: string
  ai_route :: string
  ai_tenant_id :: "string option"
  ai_target_agent :: "string option"
  ai_subject :: "string option"

record audit_event =
  ae_input :: audit_input
  ae_chain_index :: int
  ae_prev_event_hash :: string
  ae_event_hash :: string

record audit_checkpoint =
  ck_checkpoint_id :: string
  ck_created_at :: string
  ck_last_chain_index :: int
  ck_last_event_hash :: string
  ck_key_id :: string
  ck_signature :: string

record audit_config =
  ag_max_events :: nat
  ag_checkpoint_interval :: int
  ag_persistent :: bool

record audit_log =
  au_events :: "audit_event list"
  au_checkpoints :: "audit_checkpoint list"
  au_file :: "(audit_event list \<times> audit_checkpoint list) option"
  au_signing :: signing_state

definition empty_log :: audit_log where
  "empty_log = \<lparr>au_events = [], au_checkpoints = [], au_file = None, au_signing = empty_signing\<rparr>"

definition genesis :: string where "genesis = ''GENESIS''"

section \<open>Recording\<close>

definition audit_text :: "audit_input \<Rightarrow> int \<Rightarrow> string \<Rightarrow> string" where
  "audit_text e idx prev = join_with ''|''
     [ai_timestamp e, ai_request_id e, ai_code e, ai_message e, ai_method e, ai_route e,
      (case ai_tenant_id e of None \<Rightarrow> [] | Some t \<Rightarrow> t), (case ai_target_agent e of None \<Rightarrow> [] | Some t \<Rightarrow> t),
      int_str idx, prev]"

definition hashAuditEventBase :: "(string \<Rightarrow> string) \<Rightarrow> audit_input \<Rightarrow> int \<Rightarrow> string \<Rightarrow> string" where
  "hashAuditEventBase sha e idx prev = sha (audit_text e idx prev)"

definition checkpoint_payload :: "audit_checkpoint \<Rightarrow> audit_checkpoint_payload" where
  "checkpoint_payload c = \<lparr>ac_checkpoint_id = ck_checkpoint_id c, ac_created_at = ck_created_at c,
     ac_last_chain_index = ck_last_chain_index c, ac_last_event_hash = ck_last_event_hash c\<rparr>"

definition createAuditCheckpoint :: "signing_world \<Rightarrow> audit_config \<Rightarrow> ms \<Rightarrow> audit_event \<Rightarrow> audit_log \<Rightarrow> sign_error option \<times> audit_log" where
  "createAuditCheckpoint W c now ev st =
     (if ae_chain_index ev mod ag_checkpoint_interval c \<noteq> 0 then (None, st)
      else
        (let cp = \<lparr>ck_checkpoint_id = ''audit-checkpoint:'' @ int_str (ae_chain_index ev), ck_created_at = toISOString now,
                   ck_last_chain_index = ae_chain_index ev, ck_last_event_hash = ae_event_hash ev,
                   ck_key_id = [], ck_signature = []\<rparr>
         in case signAuditCheckpoint W now (checkpoint_payload cp) (au_signing st) of
              (Inl e, sg) \<Rightarrow> (Some e, st\<lparr>au_signing := sg\<rparr>)
            | (Inr sig, sg) \<Rightarrow>
                (None, st\<lparr>au_signing := sg,
                          au_checkpoints := keep_last (ag_max_events c) (au_checkpoints st @
                            [cp\<lparr>ck_signature := sig,
                                ck_key_id := (case getSignatureKeyId W sig of Some k \<Rightarrow> k | None \<Rightarrow> ''unknown'')\<rparr>])\<rparr>)))"

definition chained :: "(string \<Rightarrow> string) \<Rightarrow> audit_input \<Rightarrow> audit_event list \<Rightarrow> audit_event" where
  "chained sha e events =
     (let idx = (if events = [] then 1 else ae_chain_index (last events) + 1);
          prev = (if events = [] then genesis else ae_event_hash (last events))
      in \<lparr>ae_input = e, ae_chain_index = idx, ae_prev_event_hash = prev, ae_event_hash = hashAuditEventBase sha e idx prev\<rparr>)"

definition persistAuditEvents :: "audit_config \<Rightarrow> audit_log \<Rightarrow> audit_log" where
  "persistAuditEvents c st = (if ag_persistent c then st\<lparr>au_file := Some (au_events st, au_checkpoints st)\<rparr> else st)"

definition recordAuditEvent :: "signing_world \<Rightarrow> (string \<Rightarrow> string) \<Rightarrow> audit_config \<Rightarrow> ms \<Rightarrow> audit_input \<Rightarrow> audit_log
    \<Rightarrow> sign_error option \<times> audit_log" where
  "recordAuditEvent W sha c now e st =
     (let ev = chained sha e (au_events st);
          st1 = st\<lparr>au_events := keep_last (ag_max_events c) (au_events st @ [ev])\<rparr>
      in case createAuditCheckpoint W c now ev st1 of
           (Some err, st2) \<Rightarrow> (Some err, st2)
         | (None, st2) \<Rightarrow> (None, persistAuditEvents c st2))"

definition hydrateAuditEvents :: "audit_config \<Rightarrow> (audit_event list \<times> audit_checkpoint list) option \<Rightarrow> audit_log" where
  "hydrateAuditEvents c file =
     (case file of
        None \<Rightarrow> empty_log
      | Some (es, cps) \<Rightarrow> empty_log\<lparr>au_events := keep_last (ag_max_events c) es, au_checkpoints := cps, au_file := file\<rparr>)"

section \<open>Verifying\<close>

definition event_errors :: "(string \<Rightarrow> string) \<Rightarrow> audit_event list \<Rightarrow> nat \<Rightarrow> string list" where
  "event_errors sha es i =
     (let e = es ! i; n = nat_str i in
      (if ae_chain_index e \<noteq> int (i + 1) then [''event_chain_index_mismatch_at_'' @ n @ '': expected '' @ nat_str (i + 1)
         @ '', got '' @ int_str (ae_chain_index e)] else [])
      @ (if ae_prev_event_hash e \<noteq> (if i = 0 then genesis else ae_event_hash (es ! (i - 1)))
         then [''event_prev_hash_mismatch_at_'' @ n] else [])
      @ (if ae_event_hash e \<noteq> hashAuditEventBase sha (ae_input e) (ae_chain_index e) (ae_prev_event_hash e)
         then [''event_hash_mismatch_at_'' @ n] else []))"

definition all_event_errors :: "(string \<Rightarrow> string) \<Rightarrow> audit_event list \<Rightarrow> string list" where
  "all_event_errors sha es = concat (map (event_errors sha es) [0..<length es])"

definition checkpoint_errors :: "signing_world \<Rightarrow> audit_event list \<Rightarrow> nat \<Rightarrow> audit_checkpoint \<Rightarrow> bool \<Rightarrow> string list" where
  "checkpoint_errors W es i c ok =
     (let n = nat_str i in
      (if getSignatureKeyId W (ck_signature c) \<noteq> Some (ck_key_id c) then [''checkpoint_key_id_mismatch_at_'' @ n] else [])
      @ (if \<not> ok then [''checkpoint_signature_invalid_at_'' @ n] else [])
      @ (case find (\<lambda>e. ae_chain_index e = ck_last_chain_index c) es of
           None \<Rightarrow> [''checkpoint_missing_chain_index_at_'' @ n]
         | Some e \<Rightarrow> if ae_event_hash e \<noteq> ck_last_event_hash c then [''checkpoint_event_hash_mismatch_at_'' @ n] else []))"

fun check_checkpoints :: "signing_world \<Rightarrow> audit_event list \<Rightarrow> nat \<Rightarrow> audit_checkpoint list \<Rightarrow> signing_state
    \<Rightarrow> (sign_error + string list) \<times> signing_state" where
  "check_checkpoints W es i [] sg = (Inr [], sg)"
| "check_checkpoints W es i (c # cs) sg =
     (case verifyAuditCheckpointSignature W (checkpoint_payload c) (ck_signature c) sg of
        (Inl e, sg1) \<Rightarrow> (Inl e, sg1)
      | (Inr ok, sg1) \<Rightarrow>
          (case check_checkpoints W es (Suc i) cs sg1 of
             (Inl e, sg2) \<Rightarrow> (Inl e, sg2)
           | (Inr errs, sg2) \<Rightarrow> (Inr (checkpoint_errors W es i c ok @ errs), sg2)))"

record audit_report =
  at_ok :: bool
  at_errors :: "string list"
  at_events_checked :: nat
  at_checkpoints_checked :: nat
  at_latest_chain_index :: int

definition verifyAuditIntegrity :: "signing_world \<Rightarrow> (string \<Rightarrow> string) \<Rightarrow> audit_log \<Rightarrow> (sign_error + audit_report) \<times> audit_log" where
  "verifyAuditIntegrity W sha st =
     (case check_checkpoints W (au_events st) 0 (au_checkpoints st) (au_signing st) of
        (Inl e, sg) \<Rightarrow> (Inl e, st\<lparr>au_signing := sg\<rparr>)
      | (Inr cerrs, sg) \<Rightarrow>
          (let errs = all_event_errors sha (au_events st) @ cerrs in
           (Inr \<lparr>at_ok = (errs = []), at_errors = errs, at_events_checked = length (au_events st),
                 at_checkpoints_checked = length (au_checkpoints st),
                 at_latest_chain_index = (if au_events st = [] then 0 else ae_chain_index (last (au_events st)))\<rparr>,
            st\<lparr>au_signing := sg\<rparr>)))"

section \<open>Chains\<close>

text \<open>An unbroken chain from the index \<open>i\<close> and the previous hash \<open>p\<close> on.\<close>

fun chain_from :: "(string \<Rightarrow> string) \<Rightarrow> int \<Rightarrow> string \<Rightarrow> audit_event list \<Rightarrow> bool" where
  "chain_from sha i p [] = True"
| "chain_from sha i p (e # es) \<longleftrightarrow>
     ae_chain_index e = i \<and> ae_prev_event_hash e = p \<and> ae_event_hash e = hashAuditEventBase sha (ae_input e) i p \<and>
     chain_from sha (i + 1) (ae_event_hash e) es"

definition last_hash :: "string \<Rightarrow> audit_event list \<Rightarrow> string" where
  "last_hash p es = (if es = [] then p else ae_event_hash (last es))"

lemma chain_append: "chain_from sha i p (xs @ ys) \<longleftrightarrow> chain_from sha i p xs \<and> chain_from sha (i + int (length xs)) (last_hash p xs) ys"
proof (induction xs arbitrary: i p)
  case (Cons x xs)
  have "last_hash (ae_event_hash x) xs = last_hash p (x # xs)" by (simp add: last_hash_def)
  then show ?case using Cons by (auto simp: algebra_simps)
qed (simp add: last_hash_def)

lemma chain_index: "chain_from sha i p es \<Longrightarrow> k < length es \<Longrightarrow> ae_chain_index (es ! k) = i + int k"
  by (induction es arbitrary: i p k) (auto simp: nth_Cons split: nat.split)

lemma chain_last: "chain_from sha i p es \<Longrightarrow> es \<noteq> [] \<Longrightarrow> ae_chain_index (last es) = i + int (length es) - 1"
  using chain_index [of sha i p es "length es - 1"] by (cases es rule: rev_cases) (auto simp: last_conv_nth)

lemma chain_chained:
  assumes "chain_from sha 1 genesis es"
  shows "chain_from sha 1 genesis (es @ [chained sha e es])"
  using assms chain_last [OF assms] by (simp add: chain_append chained_def Let_def last_hash_def add.commute)

text \<open>The event part of the report is empty exactly for an unbroken chain from the first event.\<close>

lemma chain_nth: "chain_from sha i p es \<longleftrightarrow> (\<forall>k < length es. ae_chain_index (es ! k) = i + int k \<and>
    ae_prev_event_hash (es ! k) = (if k = 0 then p else ae_event_hash (es ! (k - 1))) \<and>
    ae_event_hash (es ! k) = hashAuditEventBase sha (ae_input (es ! k)) (ae_chain_index (es ! k)) (ae_prev_event_hash (es ! k)))"
proof (induction es arbitrary: i p)
  case (Cons e es)
  have shift: "(\<forall>k < length (e # es). P k) \<longleftrightarrow> P 0 \<and> (\<forall>k < length es. P (Suc k))" for P
    by (auto simp: less_Suc_eq_0_disj)
  have prev: "(if Suc k = 0 then p else ae_event_hash ((e # es) ! (Suc k - 1))) =
      (if k = 0 then ae_event_hash e else ae_event_hash (es ! (k - 1)))" for k
    by (cases k) auto
  show ?case unfolding shift prev by (simp add: Cons.IH algebra_simps) blast
qed simp

lemma event_errors_nil: "event_errors sha es k = [] \<longleftrightarrow> ae_chain_index (es ! k) = 1 + int k \<and>
    ae_prev_event_hash (es ! k) = (if k = 0 then genesis else ae_event_hash (es ! (k - 1))) \<and>
    ae_event_hash (es ! k) = hashAuditEventBase sha (ae_input (es ! k)) (ae_chain_index (es ! k)) (ae_prev_event_hash (es ! k))"
  by (simp add: event_errors_def Let_def)

lemma all_event_errors_nil: "all_event_errors sha es = [] \<longleftrightarrow> chain_from sha 1 genesis es"
  unfolding chain_nth by (auto simp: all_event_errors_def event_errors_nil)


section \<open>Runs\<close>

text \<open>
  Events recorded one after the other, each at its time, with whatever the signer
  did; a ghost list \<open>dropped\<close> holds what the size limit removed.
\<close>

definition audit_step :: "signing_world \<Rightarrow> (string \<Rightarrow> string) \<Rightarrow> audit_config \<Rightarrow> audit_log \<Rightarrow> ms \<times> audit_input \<Rightarrow> audit_log" where
  "audit_step W sha c st e = snd (recordAuditEvent W sha c (fst e) (snd e) st)"

definition checkpoint_ok :: "signing_world \<Rightarrow> audit_event list \<Rightarrow> audit_checkpoint \<Rightarrow> bool" where
  "checkpoint_ok W es c \<longleftrightarrow> getSignatureKeyId W (ck_signature c) = Some (ck_key_id c) \<and>
     (\<forall>sg. fst (verifyAuditCheckpointSignature W (checkpoint_payload c) (ck_signature c) sg) = Inr True) \<and>
     (\<exists>e \<in> set es. ae_chain_index e = ck_last_chain_index c \<and> ae_event_hash e = ck_last_event_hash c)"

definition log_ok :: "signing_world \<Rightarrow> (string \<Rightarrow> string) \<Rightarrow> audit_config \<Rightarrow> nat \<Rightarrow> audit_log \<Rightarrow> bool" where
  "log_ok W sha c n st \<longleftrightarrow> (\<exists>dropped. chain_from sha 1 genesis (dropped @ au_events st) \<and> length (dropped @ au_events st) = n \<and>
     length (au_events st) = min n (ag_max_events c) \<and> list_all (checkpoint_ok W (dropped @ au_events st)) (au_checkpoints st))"

lemma create_checkpoint_frame: "au_events (snd (createAuditCheckpoint W c now ev st)) = au_events st"
  by (auto simp: createAuditCheckpoint_def Let_def split: prod.split sum.split)

lemma checkpoint_signed:
  assumes laws: "signing_laws W" and s: "signAuditCheckpoint W now p sg = (Inr sig, sg')"
  shows "\<exists>k. getSignatureKeyId W sig = Some k" and "fst (verifyAuditCheckpointSignature W p sig sg2) = Inr True"
proof -
  note c = sign_artifact_create [OF s [unfolded signAuditCheckpoint_def]]
  from c obtain k bs where k: "chosen_key W None = Inr k"
    and sig: "sig = signing_input k (stableStringify (sw_big W) (auditCheckpointPayload p)) @ ''.'' @ b64_encode bs" by (rule create_cases)
  from k obtain keys where "getSigningKeys W = Inr keys" "k \<in> set keys" by (rule chosen_key_known)
  with laws have "header_readable W k" by (auto simp: signing_laws_def list_all_iff)
  from signed_header(1) [OF this sig] show "\<exists>k. getSignatureKeyId W sig = Some k" by blast
  show "fst (verifyAuditCheckpointSignature W p sig sg2) = Inr True"
    using create_verifies [OF laws c] by (simp add: verifyAuditCheckpointSignature_def verifyCompactSignature_def)
qed

lemma create_checkpoint_keeps:
  assumes "signing_laws W" and "list_all (checkpoint_ok W es) (au_checkpoints st)" and "ev \<in> set es"
  shows "list_all (checkpoint_ok W es) (au_checkpoints (snd (createAuditCheckpoint W c now ev st)))"
proof (cases "ae_chain_index ev mod ag_checkpoint_interval c \<noteq> 0")
  case True
  then show ?thesis using assms by (simp add: createAuditCheckpoint_def)
next
  case False
  define cp where "cp = \<lparr>ck_checkpoint_id = ''audit-checkpoint:'' @ int_str (ae_chain_index ev), ck_created_at = toISOString now,
      ck_last_chain_index = ae_chain_index ev, ck_last_event_hash = ae_event_hash ev, ck_key_id = [], ck_signature = []\<rparr>"
  obtain r sg where s: "signAuditCheckpoint W now (checkpoint_payload cp) (au_signing st) = (r, sg)" by fastforce
  show ?thesis
  proof (cases r)
    case (Inl e)
    then show ?thesis using False assms(2) s by (simp add: createAuditCheckpoint_def Let_def cp_def)
  next
    case (Inr sig)
    note v = checkpoint_signed [OF assms(1) s [unfolded Inr]]
    obtain k where k: "getSignatureKeyId W sig = Some k" using v(1) by blast
    have "checkpoint_payload (cp\<lparr>ck_signature := sig, ck_key_id := k\<rparr>) = checkpoint_payload cp" by (simp add: checkpoint_payload_def)
    then have "checkpoint_ok W es (cp\<lparr>ck_signature := sig, ck_key_id := k\<rparr>)"
      using v(2) k assms(3) by (auto simp: checkpoint_ok_def cp_def)
    moreover have "au_checkpoints (snd (createAuditCheckpoint W c now ev st)) =
        keep_last (ag_max_events c) (au_checkpoints st @ [cp\<lparr>ck_signature := sig, ck_key_id := k\<rparr>])"
      using False s k Inr by (simp add: createAuditCheckpoint_def Let_def cp_def)
    ultimately show ?thesis using assms(2) set_keep_last by (fastforce simp: list_all_iff)
  qed
qed

lemma keep_last_split: "\<exists>ds. xs = ds @ keep_last n xs"
  using keep_last_suffix [of n xs] by (auto simp: suffix_def)

lemma record_keeps:
  assumes "signing_laws W" and "log_ok W sha c n st" and "0 < ag_max_events c"
  shows "log_ok W sha c (Suc n) (audit_step W sha c st e)"
proof -
  from assms(2) obtain dropped where d: "chain_from sha 1 genesis (dropped @ au_events st)" "length (dropped @ au_events st) = n"
      "length (au_events st) = min n (ag_max_events c)" "list_all (checkpoint_ok W (dropped @ au_events st)) (au_checkpoints st)"
    by (auto simp: log_ok_def)
  let ?all = "dropped @ au_events st"
  have "au_events st = [] \<Longrightarrow> n = 0" using d(3) assms(3) by simp
  then have ne: "au_events st = [] \<Longrightarrow> ?all = []" using d(2) by simp
  then have same: "chained sha (snd e) (au_events st) = chained sha (snd e) ?all"
    by (cases "au_events st = []") (auto simp: chained_def)
  let ?ev = "chained sha (snd e) (au_events st)"
  let ?st1 = "st\<lparr>au_events := keep_last (ag_max_events c) (au_events st @ [?ev])\<rparr>"
  let ?cp = "createAuditCheckpoint W c (fst e) ?ev ?st1"
  have step: "au_events (audit_step W sha c st e) = au_events (snd ?cp)" "au_checkpoints (audit_step W sha c st e) = au_checkpoints (snd ?cp)"
    by (auto simp: audit_step_def recordAuditEvent_def Let_def persistAuditEvents_def split: prod.split option.split)
  have ev: "au_events (snd ?cp) = keep_last (ag_max_events c) (au_events st @ [?ev])" by (simp add: create_checkpoint_frame)
  obtain more where more: "au_events st @ [?ev] = more @ keep_last (ag_max_events c) (au_events st @ [?ev])"
    using keep_last_split by blast
  have all: "?all @ [?ev] = (dropped @ more) @ keep_last (ag_max_events c) (au_events st @ [?ev])"
    using more by simp
  have chain: "chain_from sha 1 genesis (?all @ [?ev])" using chain_chained [OF d(1)] same by simp
  have "list_all (checkpoint_ok W (?all @ [?ev])) (au_checkpoints st)"
    using d(4) by (auto simp: list_all_iff checkpoint_ok_def)
  then have cps: "list_all (checkpoint_ok W (?all @ [?ev])) (au_checkpoints (snd ?cp))"
    by (intro create_checkpoint_keeps [OF assms(1)]) simp_all
  have "length (keep_last (ag_max_events c) (au_events st @ [?ev])) = min (Suc n) (ag_max_events c)"
    using d(3) by simp
  moreover have "length (?all @ [?ev]) = Suc n" using d(2) by simp
  ultimately show ?thesis
    unfolding log_ok_def step ev by (intro exI [of _ "dropped @ more"]) (use chain cps all in auto)
qed

lemma empty_log_ok: "log_ok W sha c 0 empty_log"
  by (simp add: log_ok_def empty_log_def)

lemma run_log_ok:
  assumes "signing_laws W" and "0 < ag_max_events c"
  shows "log_ok W sha c (length es) (foldl (audit_step W sha c) empty_log es)"
proof (induction es rule: rev_induct)
  case (snoc e es)
  then show ?case using record_keeps [OF assms(1) snoc assms(2)] by simp
qed (simp add: empty_log_ok)

text \<open>Checkpoints over a complete chain raise no error.\<close>

lemma find_chain:
  assumes "chain_from sha i p es" and "e \<in> set es"
  shows "find (\<lambda>x. ae_chain_index x = ae_chain_index e) es = Some e"
proof -
  from assms(2) obtain k where k: "k < length es" "es ! k = e" by (auto simp: in_set_conv_nth)
  show ?thesis using k chain_index [OF assms(1)] by (auto simp: find_Some_iff intro!: exI [of _ k])
qed

lemma checkpoints_clean:
  assumes "chain_from sha 1 genesis es" and "list_all (checkpoint_ok W es) cps"
  shows "fst (check_checkpoints W es i cps sg) = Inr []"
  using assms(2)
proof (induction cps arbitrary: i sg)
  case (Cons c cps)
  then have ok: "checkpoint_ok W es c" by simp
  then obtain e where e: "e \<in> set es" "ae_chain_index e = ck_last_chain_index c" "ae_event_hash e = ck_last_event_hash c"
    by (auto simp: checkpoint_ok_def)
  obtain sg1 where v: "verifyAuditCheckpointSignature W (checkpoint_payload c) (ck_signature c) sg = (Inr True, sg1)"
    using ok by (metis checkpoint_ok_def prod.collapse)
  have "checkpoint_errors W es i c True = []"
    using ok e find_chain [OF assms(1) e(1)] by (simp add: checkpoint_errors_def checkpoint_ok_def Let_def)
  moreover obtain sg2 where "check_checkpoints W es (Suc i) cps sg1 = (Inr [], sg2)"
    using Cons.IH [of "Suc i" sg1] Cons.prems by (metis list.pred_inject(2) prod.collapse)
  ultimately show ?case by (simp add: v)
qed simp

section \<open>Properties\<close>

text \<open>C19: an audit log that only \<open>recordAuditEvent\<close> has written always holds the newest events of one unbroken hash
  chain; the integrity check accepts it as long as the size limit has dropped nothing, and reports it as
  broken from the first event it drops.\<close>

theorem audit_chain_verdict:
  assumes "signing_laws W" and "0 < ag_max_events c" and "st = foldl (audit_step W sha c) empty_log es"
    and "verifyAuditIntegrity W sha st = (Inr report, st')"
  shows "(\<exists>dropped. chain_from sha 1 genesis (dropped @ au_events st) \<and> length (dropped @ au_events st) = length es) \<and>
    (at_ok report \<longleftrightarrow> length es \<le> ag_max_events c)"
proof -
  from run_log_ok [OF assms(1,2), of sha es] obtain dropped where
    d: "chain_from sha 1 genesis (dropped @ au_events st)" "length (dropped @ au_events st) = length es"
      "length (au_events st) = min (length es) (ag_max_events c)"
      "list_all (checkpoint_ok W (dropped @ au_events st)) (au_checkpoints st)"
    by (auto simp: log_ok_def assms(3))
  obtain cerrs sg where c: "check_checkpoints W (au_events st) 0 (au_checkpoints st) (au_signing st) = (Inr cerrs, sg)"
    and rep: "at_ok report = (all_event_errors sha (au_events st) @ cerrs = [])"
    using assms(4) by (auto simp: verifyAuditIntegrity_def Let_def split: prod.splits sum.splits)
  have "at_ok report \<longleftrightarrow> length es \<le> ag_max_events c"
  proof (cases "dropped = []")
    case True
    then have "cerrs = []" using checkpoints_clean [of sha "au_events st" W "au_checkpoints st" 0 "au_signing st"] d(1,4) c by simp
    then show ?thesis using True d rep by (simp add: all_event_errors_nil)
  next
    case False
    then have "\<not> length es \<le> ag_max_events c" using d(2,3) by (cases dropped) auto
    moreover have "au_events st \<noteq> []" using d(3) assms(2) False d(2) by (cases dropped) auto
    moreover have "\<not> chain_from sha 1 genesis (au_events st)"
      using d(1) False \<open>au_events st \<noteq> []\<close> by (cases "au_events st") (auto simp: chain_append)
    ultimately show ?thesis using rep by (simp add: all_event_errors_nil)
  qed
  with d(1,2) show ?thesis by blast
qed

definition sample_event :: "string \<Rightarrow> string \<Rightarrow> audit_input" where
  "sample_event code message = \<lparr>ai_timestamp = ''t'', ai_request_id = ''r'', ai_code = code, ai_message = message, ai_method = ''POST'',
     ai_route = ''/dispatch'', ai_tenant_id = None, ai_target_agent = None, ai_subject = None\<rparr>"

definition two_event_config :: audit_config where
  "two_event_config = \<lparr>ag_max_events = 2, ag_checkpoint_interval = 100, ag_persistent = False\<rparr>"

theorem audit_chain_verdict_witness:
  "\<exists>report. fst (verifyAuditIntegrity (sample_world Open) (\<lambda>s. s) (foldl (audit_step (sample_world Open) (\<lambda>s. s) two_event_config) empty_log
      (replicate 3 (0, sample_event ''a'' ''m'')))) = Inr report \<and> \<not> at_ok report"
proof -
  let ?st = "foldl (audit_step (sample_world Open) (\<lambda>s. s) two_event_config) empty_log (replicate 3 (0, sample_event ''a'' ''m''))"
  have "au_checkpoints ?st = []"
    by (simp add: numeral_3_eq_3 audit_step_def recordAuditEvent_def createAuditCheckpoint_def chained_def two_event_config_def
        empty_log_def persistAuditEvents_def keep_last_def Let_def)
  then obtain report st' where v: "verifyAuditIntegrity (sample_world Open) (\<lambda>s. s) ?st = (Inr report, st')"
    by (simp add: verifyAuditIntegrity_def Let_def)
  from audit_chain_verdict [OF sample_laws _ refl v] have "\<not> at_ok report" by (simp add: two_event_config_def)
  with v show ?thesis by (metis fst_conv)
qed

text \<open>Two complete chains that end in the same hash.\<close>

lemma last_part:
  assumes "CHR ''|'' \<notin> set p" and "CHR ''|'' \<notin> set q" and "a @ CHR ''|'' # p = b @ CHR ''|'' # q"
  shows "p = q"
proof -
  have "rev p @ CHR ''|'' # rev a = rev q @ CHR ''|'' # rev b"
    using arg_cong [OF assms(3), of rev] by simp
  then have "takeWhile (\<lambda>c. c \<noteq> CHR ''|'') (rev p @ CHR ''|'' # rev a) = takeWhile (\<lambda>c. c \<noteq> CHR ''|'') (rev q @ CHR ''|'' # rev b)"
    by simp
  moreover have "takeWhile (\<lambda>c. c \<noteq> CHR ''|'') (rev r @ CHR ''|'' # d) = rev r" if "CHR ''|'' \<notin> set r" for r d
    using that by (subst takeWhile_append2) auto
  ultimately show ?thesis using assms(1,2) by simp
qed

lemma audit_text_prev:
  assumes "audit_text e i p = audit_text f j q" and "CHR ''|'' \<notin> set p" and "CHR ''|'' \<notin> set q"
  shows "p = q"
proof -
  have "\<exists>a. audit_text e i p = a @ CHR ''|'' # p" for e i p
    by (rule exI [of _ "join_with ''|'' [ai_timestamp e, ai_request_id e, ai_code e, ai_message e, ai_method e, ai_route e,
        (case ai_tenant_id e of None \<Rightarrow> [] | Some t \<Rightarrow> t), (case ai_target_agent e of None \<Rightarrow> [] | Some t \<Rightarrow> t), int_str i]"])
      (simp add: audit_text_def)
  then show ?thesis using assms last_part by metis
qed

definition event_text :: "audit_event \<Rightarrow> string" where
  "event_text e = audit_text (ae_input e) (ae_chain_index e) (ae_prev_event_hash e)"

lemma chain_texts:
  assumes "chain_from sha i genesis xs" and "chain_from sha i genesis ys" and "length xs = length ys"
    and "last_hash genesis xs = last_hash genesis ys" and "\<forall>s. CHR ''|'' \<notin> set (sha s)" and "\<forall>a b. sha a = sha b \<longrightarrow> a = b \<or> collision"
  shows "collision \<or> map event_text xs = map event_text ys"
  using assms
proof (induction xs arbitrary: ys rule: rev_induct)
  case (snoc x xs)
  then obtain zs y where ys: "ys = zs @ [y]" "length zs = length xs"
    by (cases ys rule: rev_cases) auto
  have x: "chain_from sha i genesis xs" "ae_chain_index x = i + int (length xs)" "ae_prev_event_hash x = last_hash genesis xs"
      "ae_event_hash x = sha (event_text x)"
    using snoc.prems(1) by (auto simp: chain_append event_text_def hashAuditEventBase_def)
  have y: "chain_from sha i genesis zs" "ae_chain_index y = i + int (length zs)" "ae_prev_event_hash y = last_hash genesis zs"
      "ae_event_hash y = sha (event_text y)"
    using snoc.prems(2) by (auto simp: ys chain_append event_text_def hashAuditEventBase_def)
  have free: "CHR ''|'' \<notin> set (last_hash genesis es)" if "chain_from sha i genesis es" for es
  proof (cases es rule: rev_cases)
    case (snoc fs e)
    then have "last_hash genesis es = sha (event_text e)"
      using that by (auto simp: last_hash_def chain_append event_text_def hashAuditEventBase_def)
    then show ?thesis using snoc.prems assms(5) by simp
  qed (simp add: last_hash_def genesis_def)
  have "sha (event_text x) = sha (event_text y)"
    using snoc.prems(4) x(4) y(4) by (simp add: ys last_hash_def)
  then have "collision \<or> event_text x = event_text y" using snoc.prems(6) by blast
  then show ?case
  proof
    assume eq: "event_text x = event_text y"
    then have "last_hash genesis xs = last_hash genesis zs"
      using audit_text_prev free x y by (metis event_text_def)
    with snoc.IH [OF x(1) y(1) ys(2) [symmetric]] snoc.prems(5,6) eq show ?thesis by (auto simp: ys)
  qed simp
qed simp



text \<open>The hashed text joins its fields with a bar and escapes none, so two different events can have the same hash;
  and the subject of an event is no part of it.\<close>

theorem audit_text_ambiguous:
  "hashAuditEventBase sha (sample_event ''a|b'' ''c'') i p = hashAuditEventBase sha (sample_event ''a'' ''b|c'') i p \<and>
   hashAuditEventBase sha (e\<lparr>ai_subject := s\<rparr>) i p = hashAuditEventBase sha e i p"
  by (simp add: hashAuditEventBase_def audit_text_def sample_event_def)

end
