(* ===== verification/MutationRoutes.thy ===== *)
theory MutationRoutes
  imports AuthProofs RateLimit AuditLog TaskControl
begin

text \<open>
  The routes that change tasks: \<open>server/mutation-routes.ts\<close> (\<open>POST /dispatch\<close> and
  \<open>POST /approve\<close>) and the cancel route and run-time controls of \<open>server/index.ts\<close>,
  over the admission control, the authentication, the audit chain and the
  runtime. A route is a chain of gates: each may reply, throw, or let the request
  pass. A request is handled in one step. Its parsed body and the validators of
  \<open>DispatchRequest\<close> and \<open>ApprovalRequest\<close> are given; \<open>None\<close> means they throw.
  The subject of a bearer token is left out: it reaches no audit event.
\<close>

section \<open>The server\<close>

record control_mark =
  cm_disabled_at :: string
  cm_disabled_by :: string
  cm_reason :: "string option"

record server =
  sv_app :: orchestrator
  sv_limiter :: rate_limiter
  sv_audit :: audit_log
  sv_jwks :: jwks_cache
  sv_disabled_agents :: "(string, control_mark) jmap"
  sv_disabled_capabilities :: "(string, (string, control_mark) jmap) jmap"
  sv_revoked_keys :: "(string, control_mark) jmap"
  sv_latencies :: "string list"

record dispatch_request =
  dq_capability :: string
  dq_envelope :: task_envelope
  dq_schema_version :: "string option"
  dq_negotiation :: "negotiation_request option"

record server_world =
  vw_auth :: auth_world
  vw_externals :: externals
  vw_event :: orch_env
  vw_rate :: rate_config
  vw_audit :: audit_config
  vw_enforce_signed :: bool
  vw_enforce_bearer :: bool
  vw_require_tenant :: bool
  vw_dispatch :: "jsval \<Rightarrow> dispatch_request option"
  vw_approval :: "jsval \<Rightarrow> approval_request option"

record http_call =
  hc_request :: http_request
  hc_raw :: string
  hc_parsed :: jsval
  hc_request_id :: string

datatype route_throw = AuthThrew auth_throw | AuditThrew sign_error | ValidationThrew | RuntimeThrew orch_error

datatype http_reply = ErrorReply nat string string bool | ResultReply nat invoke_result "(string \<times> string) list"

type_synonym gate = "server \<Rightarrow> server \<times> (route_throw + http_reply option)"

definition pass :: gate where "pass st = (st, Inr None)"

definition throw :: "route_throw \<Rightarrow> gate" where "throw e st = (st, Inl e)"

definition gate_then :: "gate \<Rightarrow> gate \<Rightarrow> gate" where
  "gate_then a b st = (case a st of (st1, Inr None) \<Rightarrow> b st1 | r \<Rightarrow> r)"

abbreviation vnow :: "server_world \<Rightarrow> ms" where "vnow V \<equiv> oe_now (vw_event V)"

abbreviation vsigning :: "server_world \<Rightarrow> signing_world" where "vsigning V \<equiv> aw_signing (vw_auth V)"

section \<open>Controls and replies\<close>

definition getEffectiveRevokedKeyIds :: "server_world \<Rightarrow> server \<Rightarrow> string list" where
  "getEffectiveRevokedKeyIds V st =
     (case env_present (sw_env (vsigning V) ''MAP_SIGNING_REVOKED_KIDS'') of
        Some _ \<Rightarrow> getRevokedKidsFromEnv (vsigning V)
      | None \<Rightarrow> map fst (sv_revoked_keys st))"

definition isAgentDisabled :: "server \<Rightarrow> string \<Rightarrow> bool" where
  "isAgentDisabled st agent = jm_has (sv_disabled_agents st) agent"

definition isCapabilityDisabled :: "server \<Rightarrow> string \<Rightarrow> string \<Rightarrow> bool" where
  "isCapabilityDisabled st agent cap =
     (case jm_get (sv_disabled_capabilities st) agent of None \<Rightarrow> False | Some m \<Rightarrow> jm_has m cap)"

definition record_event :: "server_world \<Rightarrow> http_call \<Rightarrow> string \<Rightarrow> string \<Rightarrow> string \<Rightarrow> string option \<Rightarrow> string option
    \<Rightarrow> server \<Rightarrow> server \<times> sign_error option" where
  "record_event V c code message route tenant agent st =
     (case recordAuditEvent (vsigning V) (aw_sha (vw_auth V)) (vw_audit V) (vnow V)
          \<lparr>ai_timestamp = toISOString (vnow V), ai_request_id = hc_request_id c, ai_code = code, ai_message = message,
           ai_method = (case hq_method (hc_request c) of None \<Rightarrow> [] | Some m \<Rightarrow> m), ai_route = route, ai_tenant_id = tenant,
           ai_target_agent = agent, ai_subject = None\<rparr> (sv_audit st) of
        (err, lg) \<Rightarrow> (st\<lparr>sv_audit := lg\<rparr>, err))"

text \<open>Audit, then reply.\<close>

definition audited_reply :: "server_world \<Rightarrow> http_call \<Rightarrow> string \<Rightarrow> string option \<Rightarrow> string option \<Rightarrow> string \<Rightarrow> http_reply \<Rightarrow> gate" where
  "audited_reply V c route tenant agent message reply st =
     (case reply of ErrorReply status code m retry \<Rightarrow>
        (case record_event V c code message route tenant agent st of
           (st1, Some e) \<Rightarrow> (st1, Inl (AuditThrew e))
         | (st1, None) \<Rightarrow> (st1, Inr (Some reply)))
      | _ \<Rightarrow> (st, Inr (Some reply)))"

section \<open>The gates\<close>

definition queue_state :: "server_world \<Rightarrow> server \<Rightarrow> backpressure_result" where
  "queue_state V st =
     (let q = getStats (vnow V) (o_queue (sv_app st)) in backpressureMiddleware (qs_queue_depth q) (qs_max_queue_depth q))"

definition backpressure_gate :: "server_world \<Rightarrow> http_call \<Rightarrow> string \<Rightarrow> string \<Rightarrow> gate" where
  "backpressure_gate V c route message st =
     (if bp_allowed (queue_state V st) then pass st
      else audited_reply V c route (extractTenantId (hc_parsed c)) (extractTargetAgent (hc_parsed c)) message
             (ErrorReply 429 ''rate_limited'' ''Async queue is at critical capacity. Please retry later.'' True) st)"

definition rate_gate :: "server_world \<Rightarrow> http_call \<Rightarrow> string \<Rightarrow> gate" where
  "rate_gate V c route st =
     (case checkMutationRateLimit (vw_rate V) (vnow V) (extractTenantId (hc_parsed c)) (sv_limiter st) of
        (l, Admitted) \<Rightarrow> (st\<lparr>sv_limiter := l\<rparr>, Inr None)
      | (l, Limited scope wait) \<Rightarrow>
          audited_reply V c route (extractTenantId (hc_parsed c)) (extractTargetAgent (hc_parsed c))
            ''Rate limit exceeded for MAP mutating requests.''
            (ErrorReply 429 ''rate_limited'' ''Rate limit exceeded for MAP mutating requests.'' True) (st\<lparr>sv_limiter := l\<rparr>))"

definition envelope_tenant :: "task_envelope \<Rightarrow> string option" where
  "envelope_tenant env = map_option str_trim (env_present (ri_tenant_id (te_requester env)))"

definition tenant_gate :: "server_world \<Rightarrow> http_call \<Rightarrow> string \<Rightarrow> task_envelope \<Rightarrow> gate" where
  "tenant_gate V c route env st =
     (if vw_require_tenant V \<and> envelope_tenant env = None
      then audited_reply V c route None (Some (te_target_agent env)) ''tenant_id is required when strict tenant mode is enabled''
             (ErrorReply 400 ''policy_denied'' ''tenant_id is required when strict tenant mode is enabled'' False) st
      else pass st)"

definition agent_disabled_reply :: "string \<Rightarrow> http_reply" where
  "agent_disabled_reply agent = ErrorReply 403 ''agent_disabled'' (''Target agent is disabled in runtime controls: '' @ agent) False"

definition capability_disabled_reply :: "string \<Rightarrow> http_reply" where
  "capability_disabled_reply cap = ErrorReply 403 ''capability_disabled'' (''Capability is disabled in runtime controls: '' @ cap) False"

text \<open>Dispatch audits what it refuses for a control, approval does not.\<close>

definition control_gate :: "bool \<Rightarrow> server_world \<Rightarrow> http_call \<Rightarrow> string \<Rightarrow> task_envelope \<Rightarrow> string \<Rightarrow> gate" where
  "control_gate audits V c route env cap st =
     (let agent = te_target_agent env; reply = (\<lambda>r m. if audits then audited_reply V c route (envelope_tenant env) (Some agent) m r st
                                                         else (st, Inr (Some r)))
      in if isAgentDisabled st agent
         then reply (agent_disabled_reply agent) (''Target agent is disabled in runtime controls: '' @ agent)
         else if isCapabilityDisabled st agent cap
         then reply (capability_disabled_reply cap) (''Capability is disabled in runtime controls: '' @ cap)
         else pass st)"

definition required_scheme :: "server_world \<Rightarrow> server \<Rightarrow> string \<Rightarrow> string \<Rightarrow> auth_scheme" where
  "required_scheme V st agent cap =
     (if vw_enforce_signed V then SignedRequest else getRequiredAuthScheme (o_registry (sv_app st)) agent cap)"

definition auth_reply :: "auth_error \<Rightarrow> http_reply" where
  "auth_reply e = ErrorReply (admin_status (fst e)) (auth_code_str (fst e)) (snd e) False"

definition set_signing :: "signing_state \<Rightarrow> server \<Rightarrow> server" where
  "set_signing sg st = st\<lparr>sv_audit := (sv_audit st)\<lparr>au_signing := sg\<rparr>\<rparr>"

definition auth_gate :: "server_world \<Rightarrow> http_call \<Rightarrow> string \<Rightarrow> task_envelope \<Rightarrow> string \<Rightarrow> gate" where
  "auth_gate V c route env cap st =
     (let required = required_scheme V st (te_target_agent env) cap; rq = hc_request c;
          refuse = (\<lambda>e st. audited_reply V c route (envelope_tenant env) (Some (te_target_agent env)) (snd e) (auth_reply e) st)
      in if vw_enforce_bearer V \<and> \<not> wantsSignedRequestAuth rq \<and> required \<noteq> SignedRequest
         then (case getBearerTokenError (vw_auth V) (vnow V) rq of
                 Inl e \<Rightarrow> throw (AuthThrew e) st
               | Inr (Some e) \<Rightarrow> refuse e st
               | Inr None \<Rightarrow>
                   (case extractBearerToken rq of
                      None \<Rightarrow> pass st
                    | Some token \<Rightarrow> pass (st\<lparr>sv_jwks := snd (validateOAuth2Token (vw_auth V) (vnow V) token (sv_jwks st))\<rparr>)))
         else if required = SignedRequest \<or> wantsSignedRequestAuth rq
         then (case getSignedRequestError (vw_auth V) (vnow V) rq (hc_raw c) (getEffectiveRevokedKeyIds V st) (au_signing (sv_audit st)) of
                 (Inl e, sg) \<Rightarrow> throw (AuthThrew e) (set_signing sg st)
               | (Inr (Some e), sg) \<Rightarrow> refuse e (set_signing sg st)
               | (Inr None, sg) \<Rightarrow> pass (set_signing sg st))
         else pass st)"

section \<open>The routes\<close>

definition with_metadata :: "(string \<times> jsval) list \<Rightarrow> task_envelope \<Rightarrow> task_envelope" where
  "with_metadata kvs env = env\<lparr>te_metadata := Some (obj_merge (case te_metadata env of None \<Rightarrow> [] | Some m \<Rightarrow> m) kvs)\<rparr>"

definition run_app :: "(invoke_result \<Rightarrow> nat) \<Rightarrow> (string \<times> string) list \<Rightarrow> string \<Rightarrow> invoke_result orch \<Rightarrow> gate" where
  "run_app status headers cap m st =
     (case m (sv_app st) of
        (app, Inl e) \<Rightarrow> (st\<lparr>sv_app := app\<rparr>, Inl (RuntimeThrew e))
      | (app, Inr r) \<Rightarrow> (st\<lparr>sv_app := app, sv_latencies := sv_latencies st @ [cap]\<rparr>, Inr (Some (ResultReply (status r) r headers))))"

definition dispatch_status :: "invoke_result \<Rightarrow> nat" where
  "dispatch_status r = (if rp_status (iv_result r) \<in> {AwaitingApproval, Running} then 202 else 200)"

definition dispatch_envelope :: "http_call \<Rightarrow> task_envelope \<Rightarrow> task_envelope" where
  "dispatch_envelope c env =
     with_metadata ((''request_id'', JStr (hc_request_id c)) #
       (case env_present (header (hc_request c) ''x-map-idempotency-key'') of None \<Rightarrow> [] | Some k \<Rightarrow> [(''idempotency_key'', JStr k)])) env"

definition handle_dispatch :: "server_world \<Rightarrow> http_call \<Rightarrow> gate" where
  "handle_dispatch V c st0 =
     gate_then (backpressure_gate V c ''/dispatch'' ''Async queue capacity exceeded. Rejecting new task.'')
    (gate_then (rate_gate V c ''/dispatch'')
      (case vw_dispatch V (hc_parsed c) of
         None \<Rightarrow> throw ValidationThrew
       | Some p \<Rightarrow>
           gate_then (tenant_gate V c ''/dispatch'' (dq_envelope p))
          (gate_then (control_gate True V c ''/dispatch'' (dq_envelope p) (dq_capability p))
          (gate_then (auth_gate V c ''/dispatch'' (dq_envelope p) (dq_capability p))
            (run_app dispatch_status (bp_headers (queue_state V st0)) (dq_capability p)
              (dispatch (vw_externals V) (vw_event V) (dispatch_envelope c (dq_envelope p)) (dq_capability p)
                (dq_schema_version p) (dq_negotiation p))))))) st0"

definition handle_approve :: "server_world \<Rightarrow> http_call \<Rightarrow> gate" where
  "handle_approve V c st0 =
     gate_then (backpressure_gate V c ''/approve'' ''Async queue capacity exceeded. Rejecting approval.'')
    (gate_then (rate_gate V c ''/approve'')
      (case vw_approval V (hc_parsed c) of
         None \<Rightarrow> throw ValidationThrew
       | Some p \<Rightarrow>
           gate_then (tenant_gate V c ''/approve'' (ar_envelope p))
          (gate_then (control_gate False V c ''/approve'' (ar_envelope p) (ar_capability p))
          (gate_then (auth_gate V c ''/approve'' (ar_envelope p) (ar_capability p))
            (run_app (\<lambda>_. 200) (bp_headers (queue_state V st0)) (ar_capability p)
              (approve_task (vw_externals V) (vw_event V)
                (p\<lparr>ar_envelope := with_metadata [(''request_id'', JStr (hc_request_id c))] (ar_envelope p)\<rparr>))))))) st0"

text \<open>\<open>None\<close>: not one of these routes.\<close>

definition handleMutationRoutes :: "server_world \<Rightarrow> http_call \<Rightarrow> gate option" where
  "handleMutationRoutes V c =
     (if hq_method (hc_request c) \<noteq> Some ''POST'' then None
      else if hq_url (hc_request c) = Some ''/dispatch'' then Some (handle_dispatch V c)
      else if hq_url (hc_request c) = Some ''/approve'' then Some (handle_approve V c)
      else None)"

text \<open>The cancel route of \<open>index.ts\<close>; a throw inside it becomes its reply.\<close>

definition cancel_failure :: "string \<Rightarrow> orch_error \<Rightarrow> http_reply" where
  "cancel_failure tid e = (case e of
      TaskNotFound t \<Rightarrow> ErrorReply 404 ''task_not_found'' (''Task not found: '' @ t) False
    | NotCancellable s \<Rightarrow> ErrorReply 409 ''invalid_request''
        (''Task cannot be cancelled in its current state: '' @ task_status_str s) False
    | _ \<Rightarrow> ErrorReply 409 ''invalid_request'' (orch_error_msg tid Revoked e) False)"

text \<open>The messages of the signing layer (for a failing RSA primitive, the text is OpenSSL's).\<close>

fun sign_error_msg :: "sign_error \<Rightarrow> string" where
  "sign_error_msg SecretNotConfigured = ''MAP_SIGNING_SECRET must be configured for verified/regulated profiles.''"
| "sign_error_msg SecretRequired = ''MAP_REQUIRE_SIGNING_SECRET is set but MAP_SIGNING_SECRET is not configured. ''
     @ ''Refusing to start with ephemeral key. Set MAP_SIGNING_SECRET for stable signing.''"
| "sign_error_msg NoActiveKey = ''No active signing key available (all keys are revoked).''"
| "sign_error_msg NoSuchKey = ''No signing key found for requested kid.''"
| "sign_error_msg (KeyIsRevoked k) = ''Requested signing key is revoked: '' @ k"
| "sign_error_msg (ScopeNotAuthorized k s) = ''Signing key '' @ k @ '' is not authorized for scope '' @ s @ ''.''"
| "sign_error_msg (AlgorithmNotAllowed a p) = ''Algorithm '' @ quoted (alg_str a) @ '' is not allowed for deployment profile ''
     @ quoted (profile_str p) @ ''. Allowed algorithms: '' @ join_with '', '' (map alg_str (getAllowedAlgorithms p))"
| "sign_error_msg (NoPrivateKey k) = ''No private key configured for signing kid: '' @ k"
| "sign_error_msg RsaFailure = ''error''"
| "sign_error_msg (UnknownArtifact a) = ''Unknown artifact type: '' @ a @ ''. Cannot assert key-use constraints.''"
| "sign_error_msg (KeyUseNotAllowed s a) = ''Key scope '' @ quoted s @ '' is not allowed for artifact type '' @ quoted a
     @ ''. Allowed scopes: '' @ join_with '', '' (case map_of KEY_USE_CONSTRAINTS a of None \<Rightarrow> [] | Some ss \<Rightarrow> ss)"

definition handle_cancel :: "server_world \<Rightarrow> http_call \<Rightarrow> string \<Rightarrow> gate" where
  "handle_cancel V c url st =
     (let tid = drop 7 (take (length url - 7) url); tenant = header (hc_request c) ''x-map-tenant-id'' in
      if tid = [] \<or> CHR ''/'' \<in> set tid
      then (st, Inr (Some (ErrorReply 400 ''invalid_request'' ''Invalid task ID in cancel path.'' False)))
      else (case cancelTask (vw_externals V) (vw_event V) tid tenant (sv_app st) of
              (app, Inl e) \<Rightarrow> (st\<lparr>sv_app := app\<rparr>, Inr (Some (cancel_failure tid e)))
            | (app, Inr r) \<Rightarrow>
                (case record_event V c ''task_cancelled'' (''Task '' @ tid @ '' was cancelled.'') (''/tasks/'' @ tid @ ''/cancel'') tenant
                        (str_of (obj_get (rp_structured_output (iv_result r)) ''target_agent'')) (st\<lparr>sv_app := app\<rparr>) of
                   (st1, None) \<Rightarrow> (st1, Inr (Some (ResultReply 200 r [])))
                 | (st1, Some e) \<Rightarrow> (st1, Inr (Some (ErrorReply 409 ''invalid_request'' (sign_error_msg e) False))))))"

end
