(* ===== verification/RouteProofs.thy ===== *)
theory RouteProofs
  imports MutationRoutes
begin

text \<open>
  What the routes promise: which requests reach the runtime, which refusals are
  audited, and what their authentication leaves out.
\<close>

section \<open>What a gate lets through\<close>

lemma gate_then_cases:
  assumes "gate_then a b st = (st', r)"
  obtains (stop) "a st = (st', r)" and "r \<noteq> Inr None" | (go) s1 where "a st = (s1, Inr None)" and "b s1 = (st', r)"
  using assms by (auto simp: gate_then_def split: prod.splits sum.splits option.splits)

lemma gate_then_pass: "a st = (s1, Inr None) \<Longrightarrow> gate_then a b st = b s1"
  by (simp add: gate_then_def)

lemma record_event_app: "record_event V c code m route t a st = (st1, e) \<Longrightarrow> sv_app st1 = sv_app st"
  by (auto simp: record_event_def split: prod.splits)

lemma audited_reply_app: "audited_reply V c route t a m r st = (st1, res) \<Longrightarrow> sv_app st1 = sv_app st \<and> res \<noteq> Inr None"
  by (auto simp: audited_reply_def split: http_reply.splits prod.splits option.splits dest: record_event_app)

lemma backpressure_pass: "backpressure_gate V c route m st = (st1, res) \<Longrightarrow>
    sv_app st1 = sv_app st \<and> (res = Inr None \<longrightarrow> st1 = st \<and> bp_allowed (queue_state V st))"
  by (auto simp: backpressure_gate_def pass_def split: if_splits dest: audited_reply_app)

lemma rate_pass: "rate_gate V c route st = (st1, res) \<Longrightarrow> sv_app st1 = sv_app st \<and>
    (res = Inr None \<longrightarrow> (\<exists>l. st1 = st\<lparr>sv_limiter := l\<rparr> \<and>
       checkMutationRateLimit (vw_rate V) (vnow V) (extractTenantId (hc_parsed c)) (sv_limiter st) = (l, Admitted)))"
  by (auto simp: rate_gate_def split: prod.splits rate_verdict.splits dest: audited_reply_app)

lemma tenant_pass: "tenant_gate V c route env st = (st1, res) \<Longrightarrow> sv_app st1 = sv_app st \<and>
    (res = Inr None \<longrightarrow> st1 = st \<and> (vw_require_tenant V \<longrightarrow> envelope_tenant env \<noteq> None))"
  by (auto simp: tenant_gate_def pass_def split: if_splits dest: audited_reply_app)

lemma control_pass: "control_gate b V c route env cap st = (st1, res) \<Longrightarrow> sv_app st1 = sv_app st \<and>
    (res = Inr None \<longrightarrow> st1 = st \<and> \<not> isAgentDisabled st (te_target_agent env) \<and> \<not> isCapabilityDisabled st (te_target_agent env) cap)"
  by (cases b) (auto simp: control_gate_def pass_def Let_def split: if_splits dest: audited_reply_app)

definition credentials :: "server_world \<Rightarrow> http_call \<Rightarrow> server \<Rightarrow> task_envelope \<Rightarrow> string \<Rightarrow> bool" where
  "credentials V c st env cap \<longleftrightarrow>
     (let required = required_scheme V st (te_target_agent env) cap; wants = wantsSignedRequestAuth (hc_request c) in
      if vw_enforce_bearer V \<and> \<not> wants \<and> required \<noteq> SignedRequest
      then getBearerTokenError (vw_auth V) (vnow V) (hc_request c) = Inr None
      else required = SignedRequest \<or> wants \<longrightarrow>
        fst (getSignedRequestError (vw_auth V) (vnow V) (hc_request c) (hc_raw c) (getEffectiveRevokedKeyIds V st)
               (au_signing (sv_audit st))) = Inr None)"

lemma set_signing_app [simp]: "sv_app (set_signing sg st) = sv_app st"
  by (simp add: set_signing_def)

lemma auth_pass: "auth_gate V c route env cap st = (st1, res) \<Longrightarrow> sv_app st1 = sv_app st \<and> (res = Inr None \<longrightarrow> credentials V c st env cap)"
proof -
  assume g: "auth_gate V c route env cap st = (st1, res)"
  show ?thesis
  proof (cases "vw_enforce_bearer V \<and> \<not> wantsSignedRequestAuth (hc_request c) \<and> required_scheme V st (te_target_agent env) cap \<noteq> SignedRequest")
    case True
    then show ?thesis using g
      by (auto simp: auth_gate_def Let_def credentials_def pass_def throw_def split: sum.splits option.splits dest: audited_reply_app)
  next
    case False
    then show ?thesis using g audited_reply_app
      by (fastforce simp: auth_gate_def Let_def credentials_def pass_def throw_def split: sum.splits option.splits prod.splits if_splits)
  qed
qed

text \<open>No later gate reads the limiter.\<close>

lemma revoked_limiter [simp]: "getEffectiveRevokedKeyIds V (st\<lparr>sv_limiter := l\<rparr>) = getEffectiveRevokedKeyIds V st"
  by (simp add: getEffectiveRevokedKeyIds_def cong: option.case_cong)

lemma limiter_frame [simp]:
  "isAgentDisabled (st\<lparr>sv_limiter := l\<rparr>) a = isAgentDisabled st a"
  "isCapabilityDisabled (st\<lparr>sv_limiter := l\<rparr>) a k = isCapabilityDisabled st a k"
  "required_scheme V (st\<lparr>sv_limiter := l\<rparr>) a k = required_scheme V st a k"
  "credentials V c (st\<lparr>sv_limiter := l\<rparr>) env k = credentials V c st env k"
  by (simp_all add: isAgentDisabled_def isCapabilityDisabled_def required_scheme_def credentials_def)

definition admitted :: "server_world \<Rightarrow> http_call \<Rightarrow> server \<Rightarrow> task_envelope \<Rightarrow> string \<Rightarrow> bool" where
  "admitted V c st env cap \<longleftrightarrow> bp_allowed (queue_state V st) \<and>
     snd (checkMutationRateLimit (vw_rate V) (vnow V) (extractTenantId (hc_parsed c)) (sv_limiter st)) = Admitted \<and>
     (vw_require_tenant V \<longrightarrow> envelope_tenant env \<noteq> None) \<and> \<not> isAgentDisabled st (te_target_agent env) \<and>
     \<not> isCapabilityDisabled st (te_target_agent env) cap \<and> credentials V c st env cap"

lemma run_app_app: "run_app status hs cap m st = (st', res) \<Longrightarrow> sv_app st' = fst (m (sv_app st))"
  by (auto simp: run_app_def split: prod.splits sum.splits)

text \<open>The chain of gates in front of a runtime call, for both routes.\<close>

lemma chain_reaches:
  assumes "gate_then (backpressure_gate V c route m) (gate_then (rate_gate V c route)
      (gate_then (tenant_gate V c route env) (gate_then (control_gate b V c route env cap)
        (gate_then (auth_gate V c route env cap) run)))) st = (st', res)"
    and "sv_app st' \<noteq> sv_app st"
  shows "admitted V c st env cap \<and> (\<exists>s. sv_app s = sv_app st \<and> run s = (st', res))"
proof -
  from assms(1) show ?thesis
  proof (cases rule: gate_then_cases)
    case stop
    then show ?thesis using backpressure_pass assms(2) by blast
  next
    case (go s1)
    then have s1: "s1 = st" "bp_allowed (queue_state V st)" using backpressure_pass by blast+
    from go(2) show ?thesis
    proof (cases rule: gate_then_cases)
      case stop
      then show ?thesis using rate_pass s1 assms(2) by blast
    next
      case (go s2)
      then obtain l where l: "s2 = st\<lparr>sv_limiter := l\<rparr>"
          "checkMutationRateLimit (vw_rate V) (vnow V) (extractTenantId (hc_parsed c)) (sv_limiter st) = (l, Admitted)"
        using rate_pass s1 by blast
      from go(2) show ?thesis
      proof (cases rule: gate_then_cases)
        case stop
        then show ?thesis using tenant_pass [OF stop(1)] l assms(2) by auto
      next
        case (go s3)
        note t = tenant_pass [OF go(1)]
        from go(2) show ?thesis
        proof (cases rule: gate_then_cases)
          case stop
          then show ?thesis using control_pass [OF stop(1)] t l assms(2) by auto
        next
          case (go s4)
          note k = control_pass [OF go(1)]
          from go(2) show ?thesis
          proof (cases rule: gate_then_cases)
            case stop
            then show ?thesis using auth_pass [OF stop(1)] k t l assms(2) by auto
          next
            case (go s5)
            then show ?thesis using auth_pass [OF go(1)] k t l s1 by (auto simp: admitted_def)
          qed
        qed
      qed
    qed
  qed
qed

lemma throw_app: "throw e st = (st', res) \<Longrightarrow> sv_app st' = sv_app st"
  by (simp add: throw_def)

lemma early_throw:
  assumes "gate_then (backpressure_gate V c route m) (gate_then (rate_gate V c route) (throw e)) st = (st', res)"
  shows "sv_app st' = sv_app st"
  using assms by (auto elim!: gate_then_cases simp: throw_def dest!: backpressure_pass rate_pass)

lemma reaches_dispatch:
  assumes "handle_dispatch V c st = (st', res)" and "sv_app st' \<noteq> sv_app st"
  shows "\<exists>p. vw_dispatch V (hc_parsed c) = Some p \<and> admitted V c st (dq_envelope p) (dq_capability p) \<and>
    sv_app st' = fst (dispatch (vw_externals V) (vw_event V) (dispatch_envelope c (dq_envelope p)) (dq_capability p)
      (dq_schema_version p) (dq_negotiation p) (sv_app st))"
proof (cases "vw_dispatch V (hc_parsed c)")
  case None
  then show ?thesis using assms early_throw by (auto simp: handle_dispatch_def)
next
  case (Some p)
  from chain_reaches [OF assms(1) [unfolded handle_dispatch_def Some option.case] assms(2)] obtain s where
      "admitted V c st (dq_envelope p) (dq_capability p)" "sv_app s = sv_app st"
      "run_app dispatch_status (bp_headers (queue_state V st)) (dq_capability p)
        (dispatch (vw_externals V) (vw_event V) (dispatch_envelope c (dq_envelope p)) (dq_capability p)
          (dq_schema_version p) (dq_negotiation p)) s = (st', res)" by blast
  then show ?thesis using run_app_app Some by (metis (no_types))
qed

text \<open>With room, a slot, a valid body and a tenant, a request comes to the controls.\<close>

lemma open_chain:
  assumes "bp_allowed (queue_state V st)"
    and "checkMutationRateLimit (vw_rate V) (vnow V) (extractTenantId (hc_parsed c)) (sv_limiter st) = (l, Admitted)"
    and "vw_dispatch V (hc_parsed c) = Some p" and "envelope_tenant (dq_envelope p) \<noteq> None"
  shows "handle_dispatch V c st =
    gate_then (control_gate True V c ''/dispatch'' (dq_envelope p) (dq_capability p))
     (gate_then (auth_gate V c ''/dispatch'' (dq_envelope p) (dq_capability p))
       (run_app dispatch_status (bp_headers (queue_state V st)) (dq_capability p)
         (dispatch (vw_externals V) (vw_event V) (dispatch_envelope c (dq_envelope p)) (dq_capability p)
           (dq_schema_version p) (dq_negotiation p)))) (st\<lparr>sv_limiter := l\<rparr>)"
proof -
  have "backpressure_gate V c route m st = (st, Inr None)" "rate_gate V c route st = (st\<lparr>sv_limiter := l\<rparr>, Inr None)"
    "tenant_gate V c route (dq_envelope p) s = (s, Inr None)" for route m s
    using assms by (simp_all add: backpressure_gate_def rate_gate_def tenant_gate_def pass_def del: not_None_eq)
  then show ?thesis by (simp add: handle_dispatch_def gate_then_pass assms(3))
qed

definition approval_payload :: "http_call \<Rightarrow> approval_request \<Rightarrow> approval_request" where
  "approval_payload c p = p\<lparr>ar_envelope := with_metadata [(''request_id'', JStr (hc_request_id c))] (ar_envelope p)\<rparr>"

lemma reaches_approve:
  assumes "handle_approve V c st = (st', res)" and "sv_app st' \<noteq> sv_app st"
  shows "\<exists>p. vw_approval V (hc_parsed c) = Some p \<and> admitted V c st (ar_envelope p) (ar_capability p) \<and>
    sv_app st' = fst (approve_task (vw_externals V) (vw_event V) (approval_payload c p) (sv_app st))"
proof (cases "vw_approval V (hc_parsed c)")
  case None
  then show ?thesis using assms early_throw by (auto simp: handle_approve_def)
next
  case (Some p)
  from chain_reaches [OF assms(1) [unfolded handle_approve_def Some option.case] assms(2)] obtain s where
      "admitted V c st (ar_envelope p) (ar_capability p)" "sv_app s = sv_app st"
      "run_app (\<lambda>_. 200) (bp_headers (queue_state V st)) (ar_capability p)
        (approve_task (vw_externals V) (vw_event V) (approval_payload c p)) s = (st', res)"
    by (auto simp: approval_payload_def)
  then show ?thesis using run_app_app Some by (metis (no_types))
qed

section \<open>What is audited\<close>

abbreviation events :: "server \<Rightarrow> audit_event list" where "events st \<equiv> au_events (sv_audit st)"

definition on_chain :: "server_world \<Rightarrow> http_call \<Rightarrow> string \<Rightarrow> string \<Rightarrow> audit_event list \<Rightarrow> server \<Rightarrow> bool" where
  "on_chain V c route code before st \<longleftrightarrow> (\<exists>ev. events st = keep_last (ag_max_events (vw_audit V)) (before @ [ev]) \<and>
     ai_code (ae_input ev) = code \<and> ai_request_id (ae_input ev) = hc_request_id c \<and> ai_route (ae_input ev) = route)"

definition audit_verdict :: "server_world \<Rightarrow> http_call \<Rightarrow> string \<Rightarrow> audit_event list \<Rightarrow> server \<times> (route_throw + http_reply option) \<Rightarrow> bool" where
  "audit_verdict V c route before x \<longleftrightarrow> (snd x = Inr None \<longrightarrow> events (fst x) = before) \<and>
     (\<forall>status code m r. snd x = Inr (Some (ErrorReply status code m r)) \<longrightarrow> on_chain V c route code before (fst x))"

text \<open>A gate that refuses only after auditing, and lets pass without.\<close>

definition audits :: "server_world \<Rightarrow> http_call \<Rightarrow> string \<Rightarrow> gate \<Rightarrow> bool" where
  "audits V c route g \<longleftrightarrow> (\<forall>st. audit_verdict V c route (events st) (g st))"

lemma record_event_chain:
  assumes "record_event V c code m route t a st = (st1, e)"
  shows "on_chain V c route code (events st) st1"
proof -
  have "au_events (snd (recordAuditEvent (vsigning V) (aw_sha (vw_auth V)) (vw_audit V) (vnow V) ai (sv_audit st))) =
      keep_last (ag_max_events (vw_audit V)) (events st @ [chained (aw_sha (vw_auth V)) ai (events st)])" for ai
    using create_checkpoint_frame
    by (simp add: recordAuditEvent_def persistAuditEvents_def Let_def case_prod_unfold split: option.split)
  then show ?thesis using assms
    by (fastforce simp: record_event_def on_chain_def case_prod_unfold chained_def Let_def)
qed

lemma audited_reply_verdict:
  "audit_verdict V c route (events st) (audited_reply V c route t a m (ErrorReply status code msg r) st)"
  by (auto simp: audit_verdict_def audited_reply_def split: prod.split option.split dest: record_event_chain)

lemma refuse_verdict:
  "events st = before \<Longrightarrow> audit_verdict V c route before (audited_reply V c route t a m (ErrorReply status code msg r) st)"
  using audited_reply_verdict by blast

lemma pass_verdict: "events st = before \<Longrightarrow> audit_verdict V c route before (pass st)"
  "audit_verdict V c route before (throw e st)"
  "events st = before \<Longrightarrow> audit_verdict V c route before (st, Inr None)"
  by (simp_all add: audit_verdict_def pass_def throw_def)

lemma audits_then:
  assumes "audits V c route a" and "audits V c route b"
  shows "audits V c route (gate_then a b)"
  unfolding audits_def
proof
  fix st
  obtain s1 r where a: "a st = (s1, r)" by fastforce
  show "audit_verdict V c route (events st) (gate_then a b st)"
  proof (cases "r = Inr None")
    case True
    then have "events s1 = events st" using assms(1) a by (auto simp: audits_def audit_verdict_def dest: spec [of _ st])
    then show ?thesis using assms(2) a True by (simp add: gate_then_def audits_def) metis
  next
    case False
    then have "gate_then a b st = a st" by (auto simp: gate_then_def a split: sum.split option.split)
    then show ?thesis using assms(1) by (simp add: audits_def)
  qed
qed

lemma backpressure_audits: "audits V c route (backpressure_gate V c route m)"
  by (simp add: audits_def backpressure_gate_def pass_verdict audited_reply_verdict)

lemma rate_audits: "audits V c route (rate_gate V c route)"
  by (auto simp: audits_def rate_gate_def intro: pass_verdict refuse_verdict split: prod.split rate_verdict.split)

lemma tenant_audits: "audits V c route (tenant_gate V c route env)"
  by (simp add: audits_def tenant_gate_def pass_verdict audited_reply_verdict)

lemma control_audits: "audits V c route (control_gate True V c route env cap)"
  by (simp add: audits_def control_gate_def Let_def agent_disabled_reply_def capability_disabled_reply_def pass_verdict audited_reply_verdict)

lemma set_signing_events [simp]: "events (set_signing sg st) = events st"
  by (simp add: set_signing_def)

lemma auth_audits: "audits V c route (auth_gate V c route env cap)"
  by (auto simp: audits_def auth_gate_def Let_def auth_reply_def intro!: pass_verdict refuse_verdict
      split: sum.split option.split prod.split)

lemma throw_audits: "audits V c route (throw e)"
  by (simp add: audits_def pass_verdict)

lemma run_app_audits: "audits V c route (run_app status hs cap m)"
  by (auto simp: audits_def audit_verdict_def run_app_def split: prod.split sum.split)

lemma refusals_on_chain:
  assumes "handle_dispatch V c st = (st', Inr (Some (ErrorReply status code m r)))"
  shows "on_chain V c ''/dispatch'' code (events st) st'"
proof -
  let ?rest = "case vw_dispatch V (hc_parsed c) of None \<Rightarrow> throw ValidationThrew
       | Some p \<Rightarrow> gate_then (tenant_gate V c ''/dispatch'' (dq_envelope p))
          (gate_then (control_gate True V c ''/dispatch'' (dq_envelope p) (dq_capability p))
          (gate_then (auth_gate V c ''/dispatch'' (dq_envelope p) (dq_capability p))
            (run_app dispatch_status (bp_headers (queue_state V st)) (dq_capability p)
              (dispatch (vw_externals V) (vw_event V) (dispatch_envelope c (dq_envelope p)) (dq_capability p)
                (dq_schema_version p) (dq_negotiation p)))))"
  have "audits V c ''/dispatch'' ?rest"
    by (cases "vw_dispatch V (hc_parsed c)")
       (simp_all add: throw_audits audits_then tenant_audits control_audits auth_audits run_app_audits)
  then have "audits V c ''/dispatch'' (gate_then (backpressure_gate V c ''/dispatch'' ''Async queue capacity exceeded. Rejecting new task.'')
      (gate_then (rate_gate V c ''/dispatch'') ?rest))"
    by (intro audits_then backpressure_audits rate_audits)
  then show ?thesis using assms by (auto simp: audits_def audit_verdict_def handle_dispatch_def dest: spec [of _ st])
qed

lemma run_app_no_error: "run_app f hs cap m s \<noteq> (st', Inr (Some (ErrorReply status code msg r)))"
  by (auto simp: run_app_def split: prod.split sum.split)

lemma refusal_keeps_app:
  assumes "handle_dispatch V c st = (st', Inr (Some (ErrorReply status code m r)))"
  shows "sv_app st' = sv_app st"
proof (rule ccontr)
  assume n: "sv_app st' \<noteq> sv_app st"
  from reaches_dispatch [OF assms n] obtain p where p: "vw_dispatch V (hc_parsed c) = Some p" by blast
  from chain_reaches [OF assms [unfolded handle_dispatch_def p option.case] n] show False
    using run_app_no_error by blast
qed

lemma set_signing_revoked [simp]: "set_signing sg (st\<lparr>sv_revoked_keys := r\<rparr>) = (set_signing sg st)\<lparr>sv_revoked_keys := r\<rparr>"
  by (simp add: set_signing_def)

lemma audited_reply_revoked:
  "snd (audited_reply V c route t a m reply (st\<lparr>sv_revoked_keys := r\<rparr>)) = snd (audited_reply V c route t a m reply st)"
  by (simp add: audited_reply_def record_event_def split: http_reply.split prod.split option.split)

lemma auth_gate_revoked:
  assumes "getEffectiveRevokedKeyIds V (st\<lparr>sv_revoked_keys := r\<rparr>) = getEffectiveRevokedKeyIds V st"
  shows "snd (auth_gate V c route env cap (st\<lparr>sv_revoked_keys := r\<rparr>)) = snd (auth_gate V c route env cap st)"
proof -
  have "required_scheme V (st\<lparr>sv_revoked_keys := r\<rparr>) a k = required_scheme V st a k" for a k
    by (simp add: required_scheme_def)
  then show ?thesis
    by (simp add: auth_gate_def Let_def assms audited_reply_revoked pass_def throw_def split: sum.split option.split prod.split)
qed

lemma cancel_without_tenant:
  assumes "cancelTask X ev tid (Some owner) s = (s1, Inr iv)"
  shows "cancelTask X ev tid None s = (s1, Inr iv)"
proof -
  obtain r where "(case truthy_key (Some owner) of Some t \<Rightarrow> task_getByTenant (o_tasks s) tid t None | None \<Rightarrow> task_get (o_tasks s) tid None) = Some r"
    using assms by (auto simp: cancelTask_def bind_get o_throw_def split: option.splits)
  moreover from this have "task_get (o_tasks s) tid None = Some r"
    by (auto simp: task_getByTenant_def task_get_def truthy_key_def split: option.splits list.splits if_splits)
  ultimately show ?thesis using assms by (simp add: cancelTask_def bind_get truthy_key_def)
qed

section \<open>Where authentication ends\<close>

text \<open>The authentication scheme a capability asks for is enforced only when it is \<open>signed_request\<close>: with the bearer
  switch off, a capability that requires \<open>bearer\<close>, \<open>oauth2\<close> or \<open>mtls\<close> is reached by a request without any
  credentials.\<close>

theorem scheme_not_enforced:
  assumes "getRequiredAuthScheme (o_registry (sv_app st)) (te_target_agent env) cap \<noteq> SignedRequest"
    and "\<not> vw_enforce_signed V" and "\<not> vw_enforce_bearer V" and "\<not> wantsSignedRequestAuth (hc_request c)"
  shows "auth_gate V c route env cap st = (st, Inr None)"
  using assms by (simp add: auth_gate_def required_scheme_def pass_def)

text \<open>Key revocations made at run time count only while \<open>MAP_SIGNING_REVOKED_KIDS\<close> is unset: once it names any key,
  the gate treats a request the same whatever the operators revoked.\<close>

theorem runtime_revocation_shadowed:
  assumes "env_present (sw_env (vsigning V) ''MAP_SIGNING_REVOKED_KIDS'') = Some kids"
  shows "snd (auth_gate V c route env cap (st\<lparr>sv_revoked_keys := revoked\<rparr>)) = snd (auth_gate V c route env cap st)"
  by (rule auth_gate_revoked) (simp_all add: getEffectiveRevokedKeyIds_def assms)

section \<open>Properties\<close>

text \<open>C7: a request to \<open>/dispatch\<close> or \<open>/approve\<close> that changes the runtime has passed every gate: room in the queue, a
  slot in the rate windows, a body that validates, a tenant where tenants are required, agent and
  capability not disabled, and the credentials the configuration asks for; and what ran is the operation
  of that body, the request id (and the idempotency key of the header) written over its metadata.\<close>

theorem mutations_gated:
  assumes "handleMutationRoutes V c = Some h" and "h st = (st', res)" and "sv_app st' \<noteq> sv_app st"
  shows "(\<exists>p. vw_dispatch V (hc_parsed c) = Some p \<and> admitted V c st (dq_envelope p) (dq_capability p) \<and>
      sv_app st' = fst (dispatch (vw_externals V) (vw_event V) (dispatch_envelope c (dq_envelope p)) (dq_capability p)
        (dq_schema_version p) (dq_negotiation p) (sv_app st))) \<or>
    (\<exists>p. vw_approval V (hc_parsed c) = Some p \<and> admitted V c st (ar_envelope p) (ar_capability p) \<and>
      sv_app st' = fst (approve_task (vw_externals V) (vw_event V) (approval_payload c p) (sv_app st)))"
  using assms reaches_dispatch reaches_approve
  by (auto simp: handleMutationRoutes_def split: if_splits)

definition sample_dispatch :: dispatch_request where
  "sample_dispatch = \<lparr>dq_capability = ''pay'', dq_envelope = sample_envelope ''t'' ''hello'' False, dq_schema_version = None, dq_negotiation = None\<rparr>"

definition sample_gateway :: server_world where
  "sample_gateway = \<lparr>vw_auth = sample_auth [], vw_externals = sample_X, vw_event = sample_ev 1, vw_rate = two_and_one,
     vw_audit = two_event_config, vw_enforce_signed = False, vw_enforce_bearer = False, vw_require_tenant = True,
     vw_dispatch = (\<lambda>_. Some sample_dispatch), vw_approval = (\<lambda>_. None)\<rparr>"

definition sample_server :: "orchestrator \<Rightarrow> server" where
  "sample_server app = \<lparr>sv_app = app, sv_limiter = lr_state (limiter_start 0), sv_audit = empty_log, sv_jwks = [],
     sv_disabled_agents = [], sv_disabled_capabilities = [], sv_revoked_keys = [], sv_latencies = []\<rparr>"

definition disabled_server :: server where
  "disabled_server = (sample_server (sample_runtime Allow))\<lparr>sv_disabled_agents :=
     [(''agent'', \<lparr>cm_disabled_at = ''now'', cm_disabled_by = ''ops'', cm_reason = None\<rparr>)]\<rparr>"

definition bare_call :: "string \<Rightarrow> http_call" where
  "bare_call url = \<lparr>hc_request = \<lparr>hq_method = Some ''POST'', hq_url = Some url, hq_headers = []\<rparr>, hc_raw = ''{}'', hc_parsed = JObj [],
     hc_request_id = ''r''\<rparr>"

lemma sample_open:
  assumes "sv_limiter st = lr_state (limiter_start 0)" and "bp_allowed (queue_state sample_gateway st)"
  shows "\<exists>l. handle_dispatch sample_gateway (bare_call url) st =
    gate_then (control_gate True sample_gateway (bare_call url) ''/dispatch'' (dq_envelope sample_dispatch) ''pay'')
     (gate_then (auth_gate sample_gateway (bare_call url) ''/dispatch'' (dq_envelope sample_dispatch) ''pay'')
       (run_app dispatch_status (bp_headers (queue_state sample_gateway st)) ''pay''
         (dispatch sample_X (sample_ev 1) (dispatch_envelope (bare_call url) (dq_envelope sample_dispatch)) ''pay'' None None)))
     (st\<lparr>sv_limiter := l\<rparr>)"
proof -
  have e: "extractTenantId (hc_parsed (bare_call url)) = None" "vw_rate sample_gateway = two_and_one" "vnow sample_gateway = 1"
    "vw_dispatch sample_gateway p = Some sample_dispatch" for p
    by (simp_all add: extractTenantId_def bare_call_def js_prop_def obj_get_def inherited_member_def inherited_names_def nonblank_def
        sample_gateway_def sample_ev_def)
  have v: "vw_externals sample_gateway = sample_X" "vw_event sample_gateway = sample_ev 1" "dq_capability sample_dispatch = ''pay''"
    "dq_schema_version sample_dispatch = None" "dq_negotiation sample_dispatch = None"
    by (simp_all add: sample_gateway_def sample_dispatch_def)
  have "snd (checkMutationRateLimit two_and_one 1 None (lr_state (limiter_start 0))) = Admitted" by code_simp
  then obtain l where l: "checkMutationRateLimit two_and_one 1 None (lr_state (limiter_start 0)) = (l, Admitted)" by (metis prod.collapse)
  have t: "envelope_tenant (dq_envelope sample_dispatch) \<noteq> None" by code_simp
  have "checkMutationRateLimit (vw_rate sample_gateway) (vnow sample_gateway) (extractTenantId (hc_parsed (bare_call url))) (sv_limiter st) = (l, Admitted)"
    by (simp only: e assms(1) l)
  from open_chain [OF assms(2) this e(4) t, unfolded v] show ?thesis ..
qed

theorem mutations_gated_witness:
  "snd (checkMutationRateLimit two_and_one 1 None (lr_state (limiter_start 0))) = Admitted \<and>
   o_calls (fst (dispatch sample_X (sample_ev 1) (dispatch_envelope (bare_call ''/dispatch'') (dq_envelope sample_dispatch)) ''pay'' None None
     (sample_runtime Allow))) \<noteq> []"
proof -
  define st where "st = sample_server (sample_runtime Allow)"
  define x where "x = handle_dispatch sample_gateway (bare_call ''/dispatch'') st"
  define a where "a = fst (dispatch sample_X (sample_ev 1) (dispatch_envelope (bare_call ''/dispatch'') (dq_envelope sample_dispatch)) ''pay'' None None
     (sample_runtime Allow))"
  have h: "handleMutationRoutes sample_gateway (bare_call ''/dispatch'') = Some (handle_dispatch sample_gateway (bare_call ''/dispatch''))"
    by (simp add: handleMutationRoutes_def bare_call_def)
  have c: "o_calls a \<noteq> []" unfolding a_def by code_simp
  have s: "sv_app st = sample_runtime Allow" "sv_limiter st = lr_state (limiter_start 0)" "sv_disabled_agents st = []"
    "sv_disabled_capabilities st = []"
    by (simp_all add: st_def sample_server_def)
  have b: "bp_allowed (queue_state sample_gateway st)" unfolding st_def by code_simp
  have r: "getRequiredAuthScheme (o_registry (sample_runtime Allow)) ag cap \<noteq> SignedRequest" for ag cap
    by (simp add: getRequiredAuthScheme_def getCapabilityDescriptor_def sample_runtime_def sample_agent_def split: option.split)
  from sample_open [OF s(2) b, of "''/dispatch''"] obtain l where l: "x =
    gate_then (control_gate True sample_gateway (bare_call ''/dispatch'') ''/dispatch'' (dq_envelope sample_dispatch) ''pay'')
     (gate_then (auth_gate sample_gateway (bare_call ''/dispatch'') ''/dispatch'' (dq_envelope sample_dispatch) ''pay'')
       (run_app dispatch_status (bp_headers (queue_state sample_gateway st)) ''pay''
         (dispatch sample_X (sample_ev 1) (dispatch_envelope (bare_call ''/dispatch'') (dq_envelope sample_dispatch)) ''pay'' None None)))
     (st\<lparr>sv_limiter := l\<rparr>)" unfolding x_def by blast
  have k: "control_gate True sample_gateway c route env cap (st\<lparr>sv_limiter := l\<rparr>) = (st\<lparr>sv_limiter := l\<rparr>, Inr None)" for c route env cap
    by (simp add: control_gate_def isAgentDisabled_def isCapabilityDisabled_def s pass_def jm_has_def)
  have u: "auth_gate sample_gateway (bare_call ''/dispatch'') route env cap (st\<lparr>sv_limiter := l\<rparr>) = (st\<lparr>sv_limiter := l\<rparr>, Inr None)" for route env cap
    by (rule scheme_not_enforced) (simp_all add: s r sample_gateway_def wantsSignedRequestAuth_def bare_call_def header_def)
  have "x = run_app dispatch_status (bp_headers (queue_state sample_gateway st)) ''pay''
         (dispatch sample_X (sample_ev 1) (dispatch_envelope (bare_call ''/dispatch'') (dq_envelope sample_dispatch)) ''pay'' None None)
     (st\<lparr>sv_limiter := l\<rparr>)"
    unfolding l using k u by (simp only: gate_then_pass)
  then have "sv_app (fst x) = a" using run_app_app [of dispatch_status _ _ _ _ "fst x" "snd x"] s(1) by (simp add: a_def)
  moreover have "o_calls (sv_app st) = []" by (simp add: s sample_runtime_def)
  ultimately have n: "sv_app (fst x) \<noteq> sv_app st" using c by auto
  have "handle_dispatch sample_gateway (bare_call ''/dispatch'') st = (fst x, snd x)" by (simp add: x_def)
  from mutations_gated [OF h this n] obtain env cap where a: "admitted sample_gateway (bare_call ''/dispatch'') st env cap"
    by blast
  have t: "extractTenantId (hc_parsed (bare_call ''/dispatch'')) = None" "vw_rate sample_gateway = two_and_one" "vnow sample_gateway = 1"
    by (simp_all add: extractTenantId_def bare_call_def sample_gateway_def sample_ev_def js_prop_def obj_get_def
        inherited_member_def inherited_names_def nonblank_def)
  show ?thesis using a [unfolded admitted_def t s(2)] c unfolding a_def by blast
qed

text \<open>C37: whatever \<open>/dispatch\<close> answers with an error of its own (no capacity, no slot, no tenant, a disabled agent or
  capability, no valid credentials) stands on the audit chain under the code and the request id of the
  reply, and the runtime is as it was.\<close>

theorem refusals_audited:
  assumes "handle_dispatch V c st = (st', Inr (Some (ErrorReply status code m r)))"
  shows "on_chain V c ''/dispatch'' code (events st) st' \<and> sv_app st' = sv_app st"
  using refusals_on_chain [OF assms] refusal_keeps_app [OF assms] by blast

lemma audited_reply_ok:
  "snd (record_event V c code m route t a st) = None \<Longrightarrow>
     snd (audited_reply V c route t a m (ErrorReply status code msg r) st) = Inr (Some (ErrorReply status code msg r))"
  by (simp add: audited_reply_def case_prod_unfold)

lemma gate_then_stop: "snd (a st) = Inr (Some x) \<Longrightarrow> snd (gate_then a b st) = Inr (Some x)"
  by (cases "a st") (simp add: gate_then_def)

lemma disabled_reply:
  "snd (handle_dispatch sample_gateway (bare_call ''/dispatch'') disabled_server) = Inr (Some (agent_disabled_reply ''agent''))"
proof -
  have s: "sv_limiter disabled_server = lr_state (limiter_start 0)" "sv_audit disabled_server = empty_log"
    by (simp_all add: disabled_server_def sample_server_def)
  have b: "bp_allowed (queue_state sample_gateway disabled_server)" by code_simp
  from sample_open [OF s(1) b, of "''/dispatch''"] obtain l run where l: "handle_dispatch sample_gateway (bare_call ''/dispatch'') disabled_server =
    gate_then (control_gate True sample_gateway (bare_call ''/dispatch'') ''/dispatch'' (dq_envelope sample_dispatch) ''pay'') run
      (disabled_server\<lparr>sv_limiter := l\<rparr>)" by blast
  have d: "isAgentDisabled (disabled_server\<lparr>sv_limiter := l\<rparr>) ''agent''"
    by (simp add: isAgentDisabled_def disabled_server_def jm_has_def)
  have t: "te_target_agent (dq_envelope sample_dispatch) = ''agent''" by (simp add: sample_dispatch_def sample_envelope_def)
  have q: "snd (record_event sample_gateway c code m route ten a (disabled_server\<lparr>sv_limiter := l\<rparr>)) = None" for c code m route ten a
    by (simp add: record_event_def recordAuditEvent_def createAuditCheckpoint_def chained_def Let_def s
        empty_log_def sample_gateway_def two_event_config_def case_prod_unfold)
  show ?thesis unfolding l
    by (rule gate_then_stop) (simp only: control_gate_def Let_def t d if_True agent_disabled_reply_def audited_reply_ok [OF q])
qed

theorem refusals_audited_witness:
  "map (\<lambda>e. ai_code (ae_input e)) (events (fst (handle_dispatch sample_gateway (bare_call ''/dispatch'') disabled_server))) = [''agent_disabled'']"
proof -
  let ?x = "handle_dispatch sample_gateway (bare_call ''/dispatch'') disabled_server"
  obtain s m r where "snd ?x = Inr (Some (ErrorReply s ''agent_disabled'' m r))"
    unfolding disabled_reply agent_disabled_reply_def by blast
  then have x: "?x = (fst ?x, Inr (Some (ErrorReply s ''agent_disabled'' m r)))" by (metis prod.collapse)
  have "events disabled_server = []" by (simp add: disabled_server_def sample_server_def empty_log_def)
  then show ?thesis using refusals_audited [OF x]
    by (auto simp: on_chain_def sample_gateway_def two_event_config_def keep_last_def)
qed

text \<open>Approvals refused for a control are not: the chain does not show them.\<close>

theorem disabled_approval_unaudited:
  assumes "isAgentDisabled st (te_target_agent env)"
  shows "control_gate False V c ''/approve'' env cap st = (st, Inr (Some (agent_disabled_reply (te_target_agent env))))"
  using assms by (simp add: control_gate_def)

text \<open>the cancel route asks for no credentials: what the owning tenant can cancel, anyone can who knows the task id,
  by leaving the tenant header out, whatever authentication the server enforces.\<close>

theorem anyone_may_cancel:
  assumes "cancelTask (vw_externals V) (vw_event V) tid (Some owner) (sv_app st) = (app, Inr iv)"
    and "tid \<noteq> []" and "CHR ''/'' \<notin> set tid" and "header (hc_request c) ''x-map-tenant-id'' = None"
  shows "sv_app (fst (handle_cancel V c (''/tasks/'' @ tid @ ''/cancel'') st)) = app"
proof -
  have "cancelTask (vw_externals V) (vw_event V) tid None (sv_app st) = (app, Inr iv)"
    by (rule cancel_without_tenant [OF assms(1)])
  then show ?thesis using assms(2-4) record_event_app
    by (auto simp: handle_cancel_def Let_def split: prod.split option.split)
qed

theorem anyone_may_cancel_witness:
  "(case jm_get (ts_tasks (o_tasks (sv_app (fst (handle_cancel sample_gateway (bare_call ''/tasks/t/cancel'') ''/tasks/t/cancel''
       (sample_server (dispatched Allow True))))))) ''t'' of Some r \<Rightarrow> tr_status r = Revoked | None \<Rightarrow> False)"
proof -
  let ?a = "cancelTask (vw_externals sample_gateway) (vw_event sample_gateway) ''t'' (Some ''acme'') (sv_app (sample_server (dispatched Allow True)))"
  have "case Some ?a of None \<Rightarrow> False | Some x \<Rightarrow> \<not> isl (snd x) \<and>
      (case jm_get (ts_tasks (o_tasks (fst x))) ''t'' of Some r \<Rightarrow> tr_status r = Revoked | None \<Rightarrow> False)"
    by code_simp
  then have ok: "\<not> isl (snd ?a)" "(case jm_get (ts_tasks (o_tasks (fst ?a))) ''t'' of Some r \<Rightarrow> tr_status r = Revoked | None \<Rightarrow> False)"
    by simp_all
  from ok(1) obtain iv where a: "?a = (fst ?a, Inr iv)" by (cases ?a; cases "snd ?a") auto
  have "header (hc_request (bare_call ''/tasks/t/cancel'')) ''x-map-tenant-id'' = None" by (simp add: header_def bare_call_def)
  from anyone_may_cancel [OF a _ _ this] ok(2) show ?thesis by simp
qed

end
