(* ===== verification/Versions.thy ===== *)
theory Versions
  imports JsNumber ProtocolTypes "HOL-Library.Multiset"
begin

text \<open>
  Version negotiation (\<open>src/src/protocol/map-types.ts\<close>): the comparison of dotted
  versions, compatibility, and the choice of a version both sides can use.
\<close>

section \<open>The code\<close>

definition version_parts :: "string \<Rightarrow> jsnum list" where
  "version_parts v = map js_number (split_on (CHR ''.'') v)"

definition order_part :: "jsnum \<Rightarrow> jsnum \<Rightarrow> int \<Rightarrow> int" where
  "order_part a b rest = (if num_lt b a then 1 else if num_lt a b then -1 else rest)"

text \<open>The loop up to the longer list, with \<open>?? 0\<close> past the end of the shorter.\<close>

fun compare_parts :: "jsnum list \<Rightarrow> jsnum list \<Rightarrow> int" where
  "compare_parts [] [] = 0"
| "compare_parts (a # as) [] = order_part a (Fin 0) (compare_parts as [])"
| "compare_parts [] (b # bs) = order_part (Fin 0) b (compare_parts [] bs)"
| "compare_parts (a # as) (b # bs) = order_part a b (compare_parts as bs)"

definition compareVersions :: "string \<Rightarrow> string \<Rightarrow> int" where
  "compareVersions a b = compare_parts (version_parts a) (version_parts b)"

definition isVersionCompatible :: "string \<Rightarrow> string \<Rightarrow> compatibility \<Rightarrow> bool" where
  "isVersionCompatible client server mode =
     (let same_major = num_eq (hd (version_parts client)) (hd (version_parts server)) in
      case mode of
        BackwardCompatible \<Rightarrow> same_major \<and> compareVersions client server \<ge> 0
      | ForwardCompatible \<Rightarrow> same_major \<and> compareVersions client server \<le> 0
      | BreakingChange \<Rightarrow> client = server)"

text \<open>\<open>[...vs].sort((a, b) => compareVersions(b, a))\<close>: the stable descending sort, which the language
  fixes for a consistent comparison (versions whose parts are all numbers).\<close>

fun insert_version :: "string \<Rightarrow> string list \<Rightarrow> string list" where
  "insert_version v [] = [v]"
| "insert_version v (w # ws) = (if compareVersions w v > 0 then w # insert_version v ws else v # w # ws)"

definition sort_versions :: "string list \<Rightarrow> string list" where
  "sort_versions vs = foldr insert_version vs []"

definition selectVersion :: "string list \<Rightarrow> string list \<Rightarrow> compatibility \<Rightarrow> string option" where
  "selectVersion clients servers mode =
     (case concat (map (\<lambda>c. filter (\<lambda>s. isVersionCompatible c s mode) (sort_versions servers)) (sort_versions clients)) of
        [] \<Rightarrow> None | s # _ \<Rightarrow> Some s)"

section \<open>The order of versions\<close>

definition numeric :: "string \<Rightarrow> bool" where
  "numeric v \<longleftrightarrow> NaN \<notin> set (version_parts v)"

lemma order_part_swap: "r' = - r \<Longrightarrow> order_part b a r' = - order_part a b r"
  by (auto simp: order_part_def dest: num_lt_asym)

lemma compare_parts_swap: "compare_parts bs as = - compare_parts as bs"
  by (induction as bs rule: compare_parts.induct) (simp_all add: order_part_swap)

lemma compare_parts_range: "compare_parts as bs \<in> {-1, 0, 1}"
  by (induction as bs rule: compare_parts.induct) (auto simp: order_part_def)

lemma num_eq_cases: "a \<noteq> NaN \<Longrightarrow> b \<noteq> NaN \<Longrightarrow> \<not> num_lt a b \<Longrightarrow> \<not> num_lt b a \<Longrightarrow> a = b"
  using num_total [of a b] by (auto simp: num_eq_def)

text \<open>\<open>order_part\<close> composes as a lexicographic order does.\<close>

lemma order_part_trans:
  assumes "a \<noteq> NaN" and "b \<noteq> NaN" and "c \<noteq> NaN" and "order_part a b r \<ge> 0" and "order_part b c s \<ge> 0"
    and "r \<ge> 0 \<Longrightarrow> s \<ge> 0 \<Longrightarrow> t \<ge> 0"
  shows "order_part a c t \<ge> 0"
proof (cases "num_lt b a \<or> num_lt c b")
  case True
  then have "num_lt c a"
  proof
    assume "num_lt b a"
    then show ?thesis using assms(2,3,5) num_eq_cases num_lt_trans by (metis neg_0_le_iff_le not_one_le_zero order_part_def)
  next
    assume "num_lt c b"
    then show ?thesis using assms(1,2,4) num_eq_cases num_lt_trans by (metis neg_0_le_iff_le not_one_le_zero order_part_def)
  qed
  then show ?thesis by (simp add: order_part_def)
next
  case False
  then have "\<not> num_lt a b" "\<not> num_lt b c" using assms(4,5) by (auto simp: order_part_def split: if_splits)
  then have "a = b" "b = c" using False assms(1-3) num_eq_cases by blast+
  then show ?thesis using assms(4-6) by (simp add: order_part_def)
qed

lemma compare_parts_trans:
  "NaN \<notin> set as \<Longrightarrow> NaN \<notin> set bs \<Longrightarrow> NaN \<notin> set cs \<Longrightarrow> compare_parts as bs \<ge> 0 \<Longrightarrow> compare_parts bs cs \<ge> 0 \<Longrightarrow> compare_parts as cs \<ge> 0"
proof (induction "length as + length bs + length cs" arbitrary: as bs cs rule: less_induct)
  case less
  let ?h = "\<lambda>xs. case xs of [] \<Rightarrow> Fin 0 | x # _ \<Rightarrow> x"
  have h: "compare_parts xs ys = order_part (?h xs) (?h ys) (compare_parts (tl xs) (tl ys))" for xs ys
    by (cases xs; cases ys) (simp_all add: order_part_def)
  have n: "?h xs \<noteq> NaN" if "NaN \<notin> set xs" for xs using that by (cases xs) auto
  show ?case
  proof (cases "as = [] \<and> bs = [] \<and> cs = []")
    case False
    then have "length (tl as) + length (tl bs) + length (tl cs) < length as + length bs + length cs"
      by (cases as; cases bs; cases cs) auto
    moreover have "NaN \<notin> set (tl xs)" if "NaN \<notin> set xs" for xs :: "jsnum list" using that by (cases xs) auto
    ultimately have "compare_parts (tl as) (tl bs) \<ge> 0 \<Longrightarrow> compare_parts (tl bs) (tl cs) \<ge> 0 \<Longrightarrow> compare_parts (tl as) (tl cs) \<ge> 0"
      using less.hyps less.prems(1-3) by blast
    from order_part_trans [OF n n n _ _ this] less.prems h show ?thesis by metis
  qed simp
qed

lemma compare_trans: "numeric a \<Longrightarrow> numeric b \<Longrightarrow> numeric c \<Longrightarrow> compareVersions a b \<ge> 0 \<Longrightarrow> compareVersions b c \<ge> 0 \<Longrightarrow> compareVersions a c \<ge> 0"
  unfolding compareVersions_def numeric_def by (rule compare_parts_trans)

lemma compare_swap: "compareVersions b a = - compareVersions a b"
  unfolding compareVersions_def by (rule compare_parts_swap)

section \<open>Sorting and choosing\<close>

definition descending :: "string list \<Rightarrow> bool" where
  "descending vs \<longleftrightarrow> sorted_wrt (\<lambda>a b. compareVersions a b \<ge> 0) vs"

lemma insert_version_mset: "mset (insert_version v ws) = add_mset v (mset ws)"
  by (induction ws) auto

lemma sort_versions_mset: "mset (sort_versions vs) = mset vs"
  by (induction vs) (simp_all add: sort_versions_def insert_version_mset)

lemma sort_versions_set: "set (sort_versions vs) = set vs"
  using sort_versions_mset [of vs] by (metis set_mset_mset)

lemma insert_version_set: "set (insert_version v ws) = insert v (set ws)"
  using insert_version_mset [of v ws] by (metis set_mset_add_mset_insert set_mset_mset)

lemma insert_descending:
  "\<forall>w \<in> set (v # ws). numeric w \<Longrightarrow> descending ws \<Longrightarrow> descending (insert_version v ws)"
proof (induction ws)
  case (Cons w ws)
  show ?case
  proof (cases "compareVersions w v > 0")
    case True
    then show ?thesis using Cons by (auto simp: descending_def insert_version_set)
  next
    case False
    then have "compareVersions v w \<ge> 0" using compare_swap [of v w] by simp
    moreover from this have "compareVersions v x \<ge> 0" if "x \<in> set ws" for x
      using that Cons.prems compare_trans [of v w x] by (auto simp: descending_def)
    ultimately show ?thesis using False Cons.prems by (auto simp: descending_def)
  qed
qed (simp add: descending_def)

lemma sort_descending: "\<forall>v \<in> set vs. numeric v \<Longrightarrow> descending (sort_versions vs)"
proof (induction vs)
  case (Cons v vs)
  then have "\<forall>w \<in> set (v # sort_versions vs). numeric w" by (simp add: sort_versions_set)
  moreover have "descending (sort_versions vs)" using Cons by simp
  ultimately have "descending (insert_version v (sort_versions vs))" by (rule insert_descending)
  then show ?case by (simp add: sort_versions_def)
qed (simp add: sort_versions_def descending_def)

text \<open>The first of a descending list with a property is the greatest with it.\<close>

lemma descending_first:
  assumes "descending vs" and "filter P vs = v # rest"
  shows "v \<in> set vs \<and> P v \<and> (\<forall>w \<in> set vs. P w \<longrightarrow> compareVersions v w \<ge> 0)"
proof -
  have "sorted_wrt (\<lambda>a b. compareVersions a b \<ge> 0) (v # rest)"
    using assms by (metis descending_def sorted_wrt_filter)
  moreover have "compareVersions v v \<ge> 0" using compare_swap [of v v] by simp
  moreover have "set (v # rest) = {w \<in> set vs. P w}" using assms(2) by (metis set_filter)
  ultimately show ?thesis by fastforce
qed

lemma concat_first:
  "concat (map f xs) = y # ys \<Longrightarrow> \<exists>x zs. filter (\<lambda>x. f x \<noteq> []) xs = x # zs \<and> (\<exists>r. f x = y # r)"
  by (induction xs) (auto simp: append_eq_Cons_conv)

section \<open>Properties\<close>

text \<open>C38: for versions whose parts are numbers, negotiation fails exactly when no client version is compatible with any
  server version, and otherwise takes the greatest server version that is compatible with the greatest
  client version that is compatible with any.\<close>

theorem selectVersion_best:
  assumes "\<forall>v \<in> set clients \<union> set servers. numeric v"
  shows "case selectVersion clients servers mode of
      None \<Rightarrow> \<forall>c \<in> set clients. \<forall>s \<in> set servers. \<not> isVersionCompatible c s mode
    | Some s \<Rightarrow> s \<in> set servers \<and> (\<exists>c \<in> set clients. isVersionCompatible c s mode \<and>
        (\<forall>s' \<in> set servers. isVersionCompatible c s' mode \<longrightarrow> compareVersions s s' \<ge> 0) \<and>
        (\<forall>c' \<in> set clients. (\<exists>s' \<in> set servers. isVersionCompatible c' s' mode) \<longrightarrow> compareVersions c c' \<ge> 0))"
proof (cases "concat (map (\<lambda>c. filter (\<lambda>s. isVersionCompatible c s mode) (sort_versions servers)) (sort_versions clients))")
  case Nil
  then have "selectVersion clients servers mode = None" by (simp only: selectVersion_def list.case)
  moreover have "\<forall>c \<in> set clients. \<forall>s \<in> set servers. \<not> isVersionCompatible c s mode"
    using Nil by (auto simp: sort_versions_set filter_empty_conv)
  ultimately show ?thesis by simp
next
  case (Cons s rest)
  let ?f = "\<lambda>c. filter (\<lambda>s. isVersionCompatible c s mode) (sort_versions servers)"
  from concat_first [OF Cons] obtain c zs r where c: "filter (\<lambda>c. ?f c \<noteq> []) (sort_versions clients) = c # zs" and s: "?f c = s # r"
    by blast
  have "descending (sort_versions clients)" "descending (sort_versions servers)" using assms by (auto intro: sort_descending)
  note best = descending_first [OF this(1) c] descending_first [OF this(2) s]
  have "selectVersion clients servers mode = Some s" by (simp only: selectVersion_def Cons list.case)
  moreover have "(\<exists>s' \<in> set servers. isVersionCompatible c' s' mode) = (?f c' \<noteq> [])" for c'
    by (auto simp: filter_empty_conv sort_versions_set)
  ultimately show ?thesis using best by (auto simp: sort_versions_set simp del: filter_empty_conv intro!: bexI [of _ c])
qed

lemma sample_versions:
  "version_parts ''1.2'' = [Fin 1, Fin 2]" "version_parts ''1.10'' = [Fin 1, Fin 10]" "version_parts ''1.9.3'' = [Fin 1, Fin 9, Fin 3]"
  "version_parts ''2.0'' = [Fin 2, Fin 0]" "version_parts ''1.0'' = [Fin 1, Fin 0]" "version_parts ''x'' = [NaN]"
  by (simp_all add: version_parts_def js_number_def str_trim_def is_ws_def str_lower_def char_lower_def parse_unsigned_def parse_decimal_def
      is_digit_def radix_value_def char_digit_def Let_def)

theorem selectVersion_best_witness:
  "\<exists>c \<in> set [''1.2'', ''1.10'']. isVersionCompatible c ''1.9.3'' BackwardCompatible \<and> compareVersions c ''1.10'' \<ge> 0"
proof -
  have n: "\<forall>v \<in> set [''1.2'', ''1.10''] \<union> set [''1.9.3'', ''2.0'']. numeric v" by (simp add: numeric_def sample_versions)
  have s: "selectVersion [''1.2'', ''1.10''] [''1.9.3'', ''2.0''] BackwardCompatible = Some ''1.9.3''"
    by (simp add: selectVersion_def sort_versions_def compareVersions_def isVersionCompatible_def sample_versions order_part_def num_eq_def)
  have c: "isVersionCompatible ''1.10'' ''1.9.3'' BackwardCompatible"
    by (simp add: isVersionCompatible_def compareVersions_def sample_versions order_part_def num_eq_def)
  obtain c where "c \<in> set [''1.2'', ''1.10'']" "isVersionCompatible c ''1.9.3'' BackwardCompatible"
      "\<forall>c' \<in> set [''1.2'', ''1.10'']. (\<exists>s' \<in> set [''1.9.3'', ''2.0'']. isVersionCompatible c' s' BackwardCompatible) \<longrightarrow> compareVersions c c' \<ge> 0"
    using selectVersion_best [OF n, of BackwardCompatible] unfolding s option.case by blast
  with c show ?thesis by (meson list.set_intros)
qed

text \<open>A part that is no number makes the comparison inconsistent: it equals everything, so that \<open>2.0\<close> and \<open>1.0\<close> both equal
  \<open>x\<close> and a sort with it has no defined result.\<close>

theorem version_order_breaks:
  "compareVersions ''2.0'' ''x'' = 0 \<and> compareVersions ''x'' ''1.0'' = 0 \<and> compareVersions ''2.0'' ''1.0'' = 1"
  by (simp add: compareVersions_def sample_versions order_part_def)

end
