(* ===== verification/MicroAgent.thy ===== *)
theory MicroAgent
  imports SigningLimits Bridge
begin

text \<open>
  Delegation: \<open>control-plane/delegation.ts\<close>, which issues tokens, and
  \<open>runtime/micro-agent.ts\<close>, whose \<open>BaseMicroAgent.invoke\<close> spends them. The schema
  check of a token, the collation keys behind \<open>localeCompare\<close>, \<open>Number::toString\<close>
  of what is not an integer, and the agent's own \<open>execute\<close> are parameters. The
  static map of used tokens is a state of its own, shared by all agents.
\<close>

section \<open>Values as text\<close>

record micro_world =
  mw_signing :: signing_world
  mw_valid :: "delegation_token \<Rightarrow> bool"
  mw_collate :: "string \<Rightarrow> nat list"
  mw_number :: "rat \<Rightarrow> string"

definition finite_text :: "(rat \<Rightarrow> string) \<Rightarrow> rat \<Rightarrow> string" where
  "finite_text num x = (if of_int \<lfloor>x\<rfloor> = x \<and> \<bar>x\<bar> < 10 ^ 21 then int_str \<lfloor>x\<rfloor> else num x)"

text \<open>\<open>String(v)\<close>; \<open>None\<close> when converting an object throws, its \<open>toString\<close> being data.\<close>

fun js_string :: "(rat \<Rightarrow> string) \<Rightarrow> jsval \<Rightarrow> string option" where
  "js_string num JUndef = Some ''undefined''"
| "js_string num JNull = Some ''null''"
| "js_string num (JBool b) = Some (if b then ''true'' else ''false'')"
| "js_string num (JNum n) = Some (case n of NaN \<Rightarrow> ''NaN'' | PosInf \<Rightarrow> ''Infinity'' | NegInf \<Rightarrow> ''-Infinity'' | Fin x \<Rightarrow> finite_text num x)"
| "js_string num (JStr s) = Some s"
| "js_string num (JFun f) = Some (''function '' @ f @ ''() { [native code] }'')"
| "js_string num (JObj kvs) = (if jm_has kvs ''toString'' then None else Some ''[object Object]'')"
| "js_string num (JArr xs) =
     (let ts = map (\<lambda>v. if v = JUndef \<or> v = JNull then Some [] else js_string num v) xs
      in if None \<in> set ts then None else Some (join_with '','' (map (\<lambda>t. case t of Some s \<Rightarrow> s | None \<Rightarrow> []) ts)))"

text \<open>\<open>stableStringify\<close>: as the signing layer's, but ordered by locale and with the numbers of \<open>JSON.stringify\<close>.\<close>

fun micro_stringify :: "(string \<Rightarrow> nat list) \<Rightarrow> (rat \<Rightarrow> string) \<Rightarrow> jsval \<Rightarrow> string option" where
  "micro_stringify col num JNull = Some ''null''"
| "micro_stringify col num (JBool b) = Some (if b then ''true'' else ''false'')"
| "micro_stringify col num (JNum n) = Some (case n of Fin x \<Rightarrow> finite_text num x | _ \<Rightarrow> ''null'')"
| "micro_stringify col num (JStr s) = Some (json_quote s)"
| "micro_stringify col num (JArr xs) =
     Some (''['' @ join_with '','' (map (\<lambda>x. opt_text [] (micro_stringify col num x)) xs) @ '']'')"
| "micro_stringify col num (JObj kvs) =
     Some (''{'' @ join_with '','' (map jcs_member
       (sort_key (\<lambda>e. col (fst e)) (map (\<lambda>e. (fst e, micro_stringify col num (snd e))) kvs))) @ ''}'')"
| "micro_stringify col num JUndef = None"
| "micro_stringify col num (JFun f) = None"

definition constraints_json :: "task_constraints \<Rightarrow> jsval" where
  "constraints_json c = JObj ((if tc_common c = JUndef then [] else [(''common'', tc_common c)]) @
     (if tc_domain c = JUndef then [] else [(''domain'', tc_domain c)]) @ tc_rest c)"

definition scopeMatches :: "micro_world \<Rightarrow> (string \<times> jsval) list \<Rightarrow> task_constraints \<Rightarrow> bool" where
  "scopeMatches M scope c \<longleftrightarrow>
     micro_stringify (mw_collate M) (mw_number M) (JObj scope) = micro_stringify (mw_collate M) (mw_number M) (constraints_json c)"

section \<open>Issuing\<close>

record delegation_request =
  dr_subject_agent :: string
  dr_allowed_actions :: "string list"
  dr_resource_scope :: "(string \<times> jsval) list"
  dr_requester_identity :: requester_identity
  dr_scoped_constraints :: "(string \<times> jsval) list option"
  dr_approval_reference :: "string option"
  dr_expires_at :: string

definition unsigned_token :: "string \<Rightarrow> delegation_request \<Rightarrow> delegation_token" where
  "unsigned_token issuer r =
     (let sc = (case dr_scoped_constraints r of None \<Rightarrow> [] | Some kvs \<Rightarrow> kvs) in
      \<lparr>dt_issuer = issuer, dt_subject_agent = dr_subject_agent r, dt_allowed_actions = dr_allowed_actions r,
       dt_resource_scope = dr_resource_scope r,
       dt_constraints = [(''common'', js_coalesce (obj_get sc ''common'') (JObj [])),
         (''domain'', js_coalesce (obj_get sc ''domain'') (JObj [])), (''expires_at'', JStr (dr_expires_at r))],
       dt_approval_reference = dr_approval_reference r, dt_requester_identity = Some (dr_requester_identity r),
       dt_signature = []\<rparr>)"

definition issue :: "signing_world \<Rightarrow> ms \<Rightarrow> string \<Rightarrow> delegation_request \<Rightarrow> delegation_token signing" where
  "issue W now issuer r st =
     (case signDelegationToken W now (unsigned_token issuer r) st of
        (Inl e, st1) \<Rightarrow> (Inl e, st1)
      | (Inr sig, st1) \<Rightarrow> (Inr ((unsigned_token issuer r)\<lparr>dt_signature := sig\<rparr>), st1))"

section \<open>Spending\<close>

datatype micro_error =
    InvalidToken | SubjectMismatch | SignatureThrew sign_error | BadSignature | ExpiredToken | ReplayDetected
  | UnprintableAction | MissingCapability | ActionNotAllowed string | ScopeMismatch | RequesterMissing
  | RequesterMismatch | TenantMismatch

type_synonym token_uses = "(string, ms) jmap"

definition cleanupSeenTokenUses :: "ms \<Rightarrow> token_uses \<Rightarrow> token_uses" where
  "cleanupSeenTokenUses now = filter (\<lambda>(k, expires). \<not> expires \<le> now)"

definition replay_key :: "delegation_token \<Rightarrow> task_envelope \<Rightarrow> string" where
  "replay_key t env = dt_signature t @ '':'' @ te_task_id env"

definition token_expiry :: "signing_world \<Rightarrow> delegation_token \<Rightarrow> ms option" where
  "token_expiry W t = Option.bind (str_of (obj_get (dt_constraints t) ''expires_at'')) (sw_date W)"

definition bound_action :: "micro_world \<Rightarrow> task_envelope \<Rightarrow> string option" where
  "bound_action M env = js_string (mw_number M)
     (js_coalesce (case te_metadata env of None \<Rightarrow> JUndef | Some m \<Rightarrow> obj_get m ''capability'') (JStr []))"

text \<open>The checks after the use of the token is noted.\<close>

definition binding_error :: "micro_world \<Rightarrow> task_envelope \<Rightarrow> delegation_token \<Rightarrow> micro_error option" where
  "binding_error M env t =
     (case bound_action M env of
        None \<Rightarrow> Some UnprintableAction
      | Some action \<Rightarrow>
          if action = [] then Some MissingCapability
          else if action \<notin> set (dt_allowed_actions t) then Some (ActionNotAllowed action)
          else if \<not> scopeMatches M (dt_resource_scope t) (te_constraints env) then Some ScopeMismatch
          else case dt_requester_identity t of
            None \<Rightarrow> Some RequesterMissing
          | Some r \<Rightarrow>
              if ri_type r \<noteq> ri_type (te_requester env) \<or> ri_id r \<noteq> ri_id (te_requester env) then Some RequesterMismatch
              else if resolve_tenant (ri_tenant_id r) \<noteq> resolve_tenant (ri_tenant_id (te_requester env)) then Some TenantMismatch
              else None)"

definition assertAuthorized :: "micro_world \<Rightarrow> ms \<Rightarrow> string \<Rightarrow> task_envelope \<Rightarrow> delegation_token
    \<Rightarrow> token_uses \<times> signing_state \<Rightarrow> micro_error option \<times> token_uses \<times> signing_state" where
  "assertAuthorized M now agent env t st =
     (let (uses, sg) = st in
      if \<not> mw_valid M t then (Some InvalidToken, st)
      else if dt_subject_agent t \<noteq> agent then (Some SubjectMismatch, st)
      else case verifyDelegationTokenSignature (mw_signing M) t sg of
        (Inl e, sg1) \<Rightarrow> (Some (SignatureThrew e), uses, sg1)
      | (Inr ok, sg1) \<Rightarrow>
          if \<not> ok then (Some BadSignature, uses, sg1)
          else case token_expiry (mw_signing M) t of
            None \<Rightarrow> (Some ExpiredToken, uses, sg1)
          | Some expires \<Rightarrow>
              if expires \<le> now then (Some ExpiredToken, uses, sg1)
              else (let kept = cleanupSeenTokenUses now uses; key = replay_key t env in
                    if jm_has kept key then (Some ReplayDetected, kept, sg1)
                    else (binding_error M env t, jm_set key expires kept, sg1)))"

definition micro_invoke :: "micro_world \<Rightarrow> ms \<Rightarrow> string \<Rightarrow> (task_envelope \<Rightarrow> delegation_token \<Rightarrow> 'a) \<Rightarrow> task_envelope \<Rightarrow> delegation_token
    \<Rightarrow> token_uses \<times> signing_state \<Rightarrow> (micro_error + 'a) \<times> token_uses \<times> signing_state" where
  "micro_invoke M now agent run env t st =
     (case assertAuthorized M now agent env t st of
        (Some e, st1) \<Rightarrow> (Inl e, st1)
      | (None, st1) \<Rightarrow> (Inr (run env t), st1))"

section \<open>The memory of used tokens\<close>

text \<open>Up to its expiry, a use once noted stays noted, whatever is authorized in between.\<close>

definition noted :: "string \<Rightarrow> ms \<Rightarrow> token_uses \<Rightarrow> bool" where
  "noted key expires uses \<longleftrightarrow> jm_get uses key = Some expires"

lemma cleanup_get: "jm_get uses k = Some e \<Longrightarrow> now < e \<Longrightarrow> jm_get (cleanupSeenTokenUses now uses) k = Some e"
  unfolding cleanupSeenTokenUses_def by (rule map_of_filter_kept) auto

lemma authorize_cases:
  assumes "assertAuthorized M now agent env t st = (r, uses', sg')"
  obtains (kept) "uses' = fst st" and "r \<noteq> None"
  | (replay) "uses' = cleanupSeenTokenUses now (fst st)" and "r = Some ReplayDetected"
  | (fresh) expires sg1 where "mw_valid M t" and "dt_subject_agent t = agent"
      and "verifyDelegationTokenSignature (mw_signing M) t (snd st) = (Inr True, sg1)"
      and "token_expiry (mw_signing M) t = Some expires" and "now < expires"
      and "\<not> jm_has (cleanupSeenTokenUses now (fst st)) (replay_key t env)"
      and "uses' = jm_set (replay_key t env) expires (cleanupSeenTokenUses now (fst st))" and "r = binding_error M env t"
  using assms
  by (cases st) (auto simp: assertAuthorized_def Let_def split: if_splits prod.splits sum.splits option.splits)

lemma noted_stays:
  assumes "noted key e (fst st)" and "now < e"
  shows "noted key e (fst (snd (assertAuthorized M now agent env t st)))"
proof -
  obtain r uses' sg' where a: "assertAuthorized M now agent env t st = (r, uses', sg')" by (metis prod.collapse)
  have k: "jm_get (cleanupSeenTokenUses now (fst st)) key = Some e" using assms cleanup_get by (simp add: noted_def)
  from a show ?thesis
  proof (cases rule: authorize_cases)
    case (fresh expires sg1)
    then have "replay_key t env \<noteq> key" using k by (auto simp: jm_has_def)
    then show ?thesis using a fresh k by (simp add: noted_def jm_get_set)
  qed (use a k assms in \<open>simp_all add: noted_def\<close>)
qed

text \<open>A run of authorizations by any agents.\<close>

type_synonym authorization = "ms \<times> string \<times> task_envelope \<times> delegation_token"

definition authorize_step :: "micro_world \<Rightarrow> token_uses \<times> signing_state \<Rightarrow> authorization \<Rightarrow> token_uses \<times> signing_state" where
  "authorize_step M st a = (case a of (now, agent, env, t) \<Rightarrow> snd (assertAuthorized M now agent env t st))"

lemma noted_run:
  "noted key e (fst st) \<Longrightarrow> list_all (\<lambda>a. fst a < e) as \<Longrightarrow> noted key e (fst (foldl (authorize_step M) st as))"
proof (induction as arbitrary: st)
  case (Cons a as)
  obtain now agent env t where a: "a = (now, agent, env, t)" by (cases a)
  have "noted key e (fst (authorize_step M st a))"
    using noted_stays [OF Cons.prems(1), of now M agent env t] Cons.prems(2) by (simp add: authorize_step_def a)
  from Cons.IH [OF this] Cons.prems(2) show ?case by simp
qed simp

lemma noted_refuses:
  assumes "noted (replay_key t env) e (fst st)" and "now < e"
  shows "fst (assertAuthorized M now agent env t st) \<noteq> None"
proof
  assume n: "fst (assertAuthorized M now agent env t st) = None"
  obtain uses' sg' where a: "assertAuthorized M now agent env t st = (None, uses', sg')" using n by (metis prod.collapse)
  have "jm_has (cleanupSeenTokenUses now (fst st)) (replay_key t env)"
    using assms cleanup_get by (simp add: noted_def jm_has_def)
  from a this show False by (cases rule: authorize_cases) auto
qed

lemma authorized_binding:
  assumes "binding_error M env t = None"
  obtains action r where "bound_action M env = Some action" and "action \<noteq> []" and "action \<in> set (dt_allowed_actions t)"
    and "scopeMatches M (dt_resource_scope t) (te_constraints env)" and "dt_requester_identity t = Some r"
    and "ri_type r = ri_type (te_requester env)" and "ri_id r = ri_id (te_requester env)"
    and "resolve_tenant (ri_tenant_id r) = resolve_tenant (ri_tenant_id (te_requester env))"
  using assms by (auto simp: binding_error_def split: option.splits if_splits)

section \<open>Properties\<close>

text \<open>C9: an agent runs a task only for a token that is meant for it, carries a signature that verifies, has not
  expired, names the action and the requester of the envelope and its tenant, and whose scope reads as
  the constraints of the task; and until the token expires, whatever else is authorized in between, no
  agent runs the same task for it again.\<close>

theorem delegation_single_use:
  assumes "micro_invoke M now agent run env t st = (Inr out, st1)"
  shows "dt_subject_agent t = agent \<and> fst (verifyDelegationTokenSignature (mw_signing M) t (snd st)) = Inr True \<and>
    (\<exists>action r e. bound_action M env = Some action \<and> action \<in> set (dt_allowed_actions t) \<and>
       scopeMatches M (dt_resource_scope t) (te_constraints env) \<and> dt_requester_identity t = Some r \<and>
       ri_id r = ri_id (te_requester env) \<and> ri_type r = ri_type (te_requester env) \<and>
       resolve_tenant (ri_tenant_id r) = resolve_tenant (ri_tenant_id (te_requester env)) \<and>
       token_expiry (mw_signing M) t = Some e \<and> now < e \<and>
       (\<forall>as later agent2 env2. list_all (\<lambda>a. fst a < e) as \<and> later < e \<and> te_task_id env2 = te_task_id env \<longrightarrow>
          isl (fst (micro_invoke M later agent2 run env2 t (foldl (authorize_step M) st1 as)))))"
proof -
  obtain uses' sg' where a: "assertAuthorized M now agent env t st = (None, uses', sg')" "st1 = (uses', sg')"
    using assms by (cases st1) (auto simp: micro_invoke_def split: prod.splits option.splits)
  from a(1) show ?thesis
  proof (cases rule: authorize_cases)
    case (fresh expires sg1)
    from fresh(8) [symmetric] obtain action r where b: "bound_action M env = Some action" "action \<in> set (dt_allowed_actions t)"
      "scopeMatches M (dt_resource_scope t) (te_constraints env)" "dt_requester_identity t = Some r"
      "ri_type r = ri_type (te_requester env)" "ri_id r = ri_id (te_requester env)"
      "resolve_tenant (ri_tenant_id r) = resolve_tenant (ri_tenant_id (te_requester env))"
      by (rule authorized_binding)
    have "noted (replay_key t env) expires (fst st1)" using fresh(7) a(2) by (simp add: noted_def jm_get_set)
    then have again: "isl (fst (micro_invoke M later agent2 run env2 t (foldl (authorize_step M) st1 as)))"
      if "list_all (\<lambda>a. fst a < expires) as" "later < expires" "te_task_id env2 = te_task_id env" for as later agent2 env2
    proof -
      have "replay_key t env2 = replay_key t env" using that(3) by (simp add: replay_key_def)
      with noted_run [OF \<open>noted _ _ _\<close> that(1)] have "noted (replay_key t env2) expires (fst (foldl (authorize_step M) st1 as))" by simp
      from noted_refuses [OF this that(2), of M agent2] show ?thesis
        by (auto simp: micro_invoke_def split: prod.splits option.splits)
    qed
    with fresh b show ?thesis by auto
  qed simp_all
qed


text \<open>A token is spent before the request is checked against it: an attempt whose envelope does not fit the token
  (a forgotten or mistyped capability, say) is refused and uses the token up, so that the corrected
  request for the same task is refused as a replay.\<close>

theorem refused_attempt_spends_token:
  assumes "mw_valid M t" and "dt_subject_agent t = agent" and "verifyDelegationTokenSignature (mw_signing M) t sg = (Inr True, sg1)"
    and "verifyDelegationTokenSignature (mw_signing M) t sg1 = (Inr True, sg2)"
    and "token_expiry (mw_signing M) t = Some e" and "now \<le> later" and "later < e" and "binding_error M env t = Some err"
    and "te_task_id env2 = te_task_id env" and "\<not> jm_has (cleanupSeenTokenUses now uses) (replay_key t env)"
  shows "\<exists>st1. micro_invoke M now agent run env t (uses, sg) = (Inl err, st1) \<and>
    fst (micro_invoke M later agent run env2 t st1) = Inl ReplayDetected"
proof -
  let ?u = "jm_set (replay_key t env) e (cleanupSeenTokenUses now uses)"
  have first: "micro_invoke M now agent run env t (uses, sg) = (Inl err, ?u, sg1)"
    using assms by (simp add: micro_invoke_def assertAuthorized_def)
  have "jm_has (cleanupSeenTokenUses later ?u) (replay_key t env2)"
    using cleanup_get [of ?u "replay_key t env" e later] assms(7,9) by (simp add: jm_has_def jm_get_set replay_key_def)
  then have "fst (micro_invoke M later agent run env2 t (?u, sg1)) = Inl ReplayDetected"
    using assms by (simp add: micro_invoke_def assertAuthorized_def)
  with first show ?thesis by blast
qed

section \<open>A concrete delegation\<close>

definition sample_micro :: micro_world where
  "sample_micro = \<lparr>mw_signing = sample_world Open, mw_valid = (\<lambda>_. True), mw_collate = map of_char, mw_number = (\<lambda>_. ''1.5'')\<rparr>"

definition sample_grant :: delegation_request where
  "sample_grant = \<lparr>dr_subject_agent = ''agent'', dr_allowed_actions = [''pay''], dr_resource_scope = [],
     dr_requester_identity = \<lparr>ri_type = User, ri_id = ''alice'', ri_tenant_id = Some ''acme''\<rparr>, dr_scoped_constraints = None,
     dr_approval_reference = None, dr_expires_at = ''now''\<rparr>"

definition sample_errand :: "(string \<times> jsval) list \<Rightarrow> task_envelope" where
  "sample_errand md = \<lparr>te_task_id = ''t'', te_order_id = None, te_parent_task_id = None, te_context_id = None,
      te_requester = \<lparr>ri_type = User, ri_id = ''alice'', ri_tenant_id = Some ''acme''\<rparr>, te_target_agent = ''agent'', te_intent = ''hello'',
      te_constraints = \<lparr>tc_common = JUndef, tc_domain = JUndef, tc_rest = []\<rparr>,
      te_risk_class = Low, te_deadline = None, te_delegation_token = [], te_output_mode = VSummary,
      te_metadata = Some md, te_idempotency_token = None, te_extensions = None\<rparr>"

definition sample_issued :: delegation_token where
  "sample_issued = (unsigned_token ''iss'' sample_grant)\<lparr>dt_signature := signed_sample (unsigned_token ''iss'' sample_grant)\<rparr>"

lemma sample_issue: "issue (mw_signing sample_micro) 5 ''iss'' sample_grant empty_signing =
    (Inr sample_issued, count_signature 5 sample_key empty_signing)"
  by (simp add: issue_def sample_micro_def sample_sign_token sample_issued_def)

lemma sample_date: "sw_date (mw_signing sample_micro) ''now'' = Some 1000000"
  by (simp add: sample_micro_def sample_world_def)

lemma sample_fits: "bound_action sample_micro (sample_errand [(''capability'', JStr ''pay'')]) = Some ''pay''"
    "scopeMatches sample_micro (dr_resource_scope sample_grant) (te_constraints (sample_errand md))"
    "te_requester (sample_errand md) = dr_requester_identity sample_grant" "te_task_id (sample_errand md) = ''t''"
  by (simp_all add: bound_action_def sample_errand_def sample_grant_def obj_get_def js_coalesce_def nullish_def scopeMatches_def
      constraints_json_def)


lemma sample_invoked: "\<exists>st1. micro_invoke sample_micro 6 ''agent'' (\<lambda>_ _. True) (sample_errand [(''capability'', JStr ''pay'')]) sample_issued
    ([], empty_signing) = (Inr True, st1)"
proof -
  have v: "fst (verifyDelegationTokenSignature (sample_world Open) sample_issued sg) = Inr True" for sg
    using create_verifies [OF sample_laws sign_artifact_create [OF sample_sign_token [unfolded signDelegationToken_def]]]
    by (simp add: verifyDelegationTokenSignature_def verifyCompactSignature_def sample_issued_def tokenSigningPayload_def)
  then obtain sg1 where v1: "verifyDelegationTokenSignature (sample_world Open) sample_issued empty_signing = (Inr True, sg1)"
    by (metis prod.collapse)
  have f: "dt_subject_agent sample_issued = ''agent''" "dt_allowed_actions sample_issued = [''pay'']"
    "dt_resource_scope sample_issued = dr_resource_scope sample_grant" "dt_requester_identity sample_issued = Some (dr_requester_identity sample_grant)"
    "token_expiry (sample_world Open) sample_issued = Some 1000000"
    using sample_date by (simp_all add: sample_issued_def unsigned_token_def sample_grant_def Let_def token_expiry_def obj_get_def str_of_def
        sample_micro_def)
  have "binding_error sample_micro (sample_errand [(''capability'', JStr ''pay'')]) sample_issued = None"
    using sample_fits by (simp add: binding_error_def f)
  then show ?thesis
    using v1 f by (simp add: micro_invoke_def assertAuthorized_def cleanupSeenTokenUses_def jm_has_def sample_micro_def)
qed

theorem delegation_single_use_witness:
  "\<exists>st1. micro_invoke sample_micro 6 ''agent'' (\<lambda>_ _. True) (sample_errand [(''capability'', JStr ''pay'')]) sample_issued ([], empty_signing)
      = (Inr True, st1) \<and>
    isl (fst (micro_invoke sample_micro 7 ''agent'' (\<lambda>_ _. True) (sample_errand [(''capability'', JStr ''pay'')]) sample_issued st1))"
proof -
  have e: "token_expiry (mw_signing sample_micro) sample_issued = Some 1000000"
    using sample_date by (simp add: sample_issued_def unsigned_token_def sample_grant_def Let_def token_expiry_def obj_get_def str_of_def)
  obtain st1 where a: "micro_invoke sample_micro 6 ''agent'' (\<lambda>_ _. True) (sample_errand [(''capability'', JStr ''pay'')]) sample_issued
      ([], empty_signing) = (Inr True, st1)" using sample_invoked by blast
  from delegation_single_use [OF a] e have again: "\<forall>as later agent2 env2. list_all (\<lambda>a. fst a < 1000000) as \<and> later < 1000000 \<and>
      te_task_id env2 = te_task_id (sample_errand [(''capability'', JStr ''pay'')]) \<longrightarrow>
      isl (fst (micro_invoke sample_micro later agent2 (\<lambda>_ _. True) env2 sample_issued (foldl (authorize_step sample_micro) st1 as)))"
    by auto
  have "isl (fst (micro_invoke sample_micro 7 ''agent'' (\<lambda>_ _. True) (sample_errand [(''capability'', JStr ''pay'')]) sample_issued
      (foldl (authorize_step sample_micro) st1 [])))" by (rule again [rule_format]) simp
  with a show ?thesis by (intro exI [of _ st1]) simp
qed

theorem refused_attempt_spends_token_witness:
  "\<exists>st1. micro_invoke sample_micro 6 ''agent'' (\<lambda>_ _. True) (sample_errand []) sample_issued ([], empty_signing) = (Inl MissingCapability, st1) \<and>
    fst (micro_invoke sample_micro 7 ''agent'' (\<lambda>_ _. True) (sample_errand [(''capability'', JStr ''pay'')]) sample_issued st1) = Inl ReplayDetected"
proof -
  have v: "fst (verifyDelegationTokenSignature (mw_signing sample_micro) sample_issued sg) = Inr True" for sg
    using create_verifies [OF sample_laws sign_artifact_create [OF sample_sign_token [unfolded signDelegationToken_def]]]
    by (simp add: verifyDelegationTokenSignature_def verifyCompactSignature_def sample_issued_def tokenSigningPayload_def sample_micro_def)
  obtain sg1 where v1: "verifyDelegationTokenSignature (mw_signing sample_micro) sample_issued empty_signing = (Inr True, sg1)"
    using v by (metis prod.collapse)
  obtain sg2 where v2: "verifyDelegationTokenSignature (mw_signing sample_micro) sample_issued sg1 = (Inr True, sg2)"
    using v by (metis prod.collapse)
  have f: "mw_valid sample_micro sample_issued" "dt_subject_agent sample_issued = ''agent''"
    "token_expiry (mw_signing sample_micro) sample_issued = Some 1000000"
    using sample_date by (simp_all add: sample_issued_def unsigned_token_def sample_grant_def Let_def token_expiry_def obj_get_def str_of_def
        sample_micro_def)
  have b: "binding_error sample_micro (sample_errand []) sample_issued = Some MissingCapability"
    by (simp add: binding_error_def bound_action_def sample_errand_def obj_get_def inherited_member_def inherited_names_def js_coalesce_def nullish_def)
  show ?thesis
    by (rule refused_attempt_spends_token [OF f(1,2) v1 v2 f(3) _ _ b]) (simp_all add: sample_errand_def cleanupSeenTokenUses_def jm_has_def)
qed

end
