(* ===== verification/Delivery.thy ===== *)
theory Delivery
  imports MicroAgent Orchestrator
begin

text \<open>
  Deliveries over the network: the webhook of a task
  (\<open>deliverWebhookWithRetry\<close> in \<open>control-plane/orchestrator.ts\<close>) and the approval
  request of \<open>server/approval-notifier.ts\<close>, with its signature and its redaction.
  The answers of the other side are given, one per attempt (\<open>True\<close>: an ok
  response); a wait is a number of milliseconds. \<open>redacted["__proto__"] = v\<close>, which
  sets a prototype, is not modelled.
\<close>

section \<open>Task webhooks\<close>

record delivery =
  dv_delivered :: bool
  dv_attempts :: nat
  dv_waits :: "int list"

definition max_attempts :: nat where "max_attempts = 3"

function webhook_attempt :: "(nat \<Rightarrow> bool) \<Rightarrow> nat \<Rightarrow> int list \<Rightarrow> delivery" where
  "webhook_attempt answer attempt waits =
     (if attempt > max_attempts then \<lparr>dv_delivered = False, dv_attempts = attempt - 1, dv_waits = waits\<rparr>
      else if answer attempt then \<lparr>dv_delivered = True, dv_attempts = attempt, dv_waits = waits\<rparr>
      else if attempt = max_attempts then \<lparr>dv_delivered = False, dv_attempts = attempt, dv_waits = waits\<rparr>
      else webhook_attempt answer (attempt + 1) (waits @ [250 * 2 ^ (attempt - 1)]))"
  by auto
termination by (relation "measure (\<lambda>(_, attempt, _). Suc max_attempts - attempt)") auto

declare webhook_attempt.simps [simp del]

definition deliverWebhookWithRetry :: "(nat \<Rightarrow> bool) \<Rightarrow> delivery" where
  "deliverWebhookWithRetry answer = webhook_attempt answer 1 []"

section \<open>Approval requests\<close>

record notifier =
  nf_default_url :: "string option"
  nf_base_url :: string
  nf_secret :: string
  nf_max_retries :: int
  nf_retry_delay :: int

record notifier_options =
  no_default_url :: "string option"
  no_base_url :: "string option"
  no_secret :: "string option"
  no_max_retries :: "int option"
  no_retry_delay :: "int option"

text \<open>The two environment variables are \<open>MAP_SIGNING_SECRET\<close> and \<open>MAP_WEBHOOK_SECRET\<close>.\<close>

definition new_notifier :: "notifier_options \<Rightarrow> string option \<Rightarrow> string option \<Rightarrow> notifier" where
  "new_notifier opts signing_secret webhook_secret =
     \<lparr>nf_default_url = no_default_url opts,
      nf_base_url = or_else (no_base_url opts) ''http://localhost:8787'',
      nf_secret = or_else (no_secret opts) (or_else signing_secret (or_else webhook_secret [])),
      nf_max_retries = or_else (no_max_retries opts) 3,
      nf_retry_delay = or_else (no_retry_delay opts) 1000\<rparr>"

definition sensitive_keys :: "string list" where
  "sensitive_keys = [''password'', ''secret'', ''token'', ''key'', ''credential'', ''auth'', ''authorization'', ''api_key'',
     ''private_key'', ''card_number'', ''cvv'', ''ssn'', ''account_number'']"

fun redact_value :: "jsval \<Rightarrow> jsval" where
  "redact_value (JObj kvs) =
     JObj (map (\<lambda>e. (fst e, if str_lower (fst e) \<in> set sensitive_keys then JStr ''[REDACTED]'' else redact_value (snd e))) kvs)"
| "redact_value v = v"

text \<open>\<open>Object.entries(input)\<close>; \<open>None\<close> when it throws.\<close>

fun entries_of :: "jsval \<Rightarrow> (string \<times> jsval) list option" where
  "entries_of (JObj kvs) = Some kvs"
| "entries_of (JArr xs) = Some (zip (map nat_str [0..<length xs]) xs)"
| "entries_of (JStr s) = Some (zip (map nat_str [0..<length s]) (map (\<lambda>c. JStr [c]) s))"
| "entries_of JUndef = None"
| "entries_of JNull = None"
| "entries_of _ = Some []"

definition redactSensitiveFields :: "jsval \<Rightarrow> jsval option" where
  "redactSensitiveFields v = map_option (\<lambda>kvs. redact_value (JObj kvs)) (entries_of v)"

text \<open>\<open>JSON.stringify(v, names)\<close>: an object shows the listed members, in that order, and nothing else.\<close>

fun json_listed :: "(rat \<Rightarrow> string) \<Rightarrow> string list \<Rightarrow> jsval \<Rightarrow> string option" where
  "json_listed num names JNull = Some ''null''"
| "json_listed num names (JBool b) = Some (if b then ''true'' else ''false'')"
| "json_listed num names (JNum n) = Some (case n of Fin x \<Rightarrow> finite_text num x | _ \<Rightarrow> ''null'')"
| "json_listed num names (JStr s) = Some (json_quote s)"
| "json_listed num names (JArr xs) =
     Some (''['' @ join_with '','' (map (\<lambda>x. opt_text ''null'' (json_listed num names x)) xs) @ '']'')"
| "json_listed num names (JObj kvs) =
     (let ms = map (\<lambda>e. (fst e, json_listed num names (snd e))) kvs in
      Some (''{'' @ join_with '','' (concat (map (\<lambda>k. case map_of ms k of Some (Some t) \<Rightarrow> [json_quote k @ '':'' @ t] | _ \<Rightarrow> []) names)) @ ''}''))"
| "json_listed num names JUndef = None"
| "json_listed num names (JFun f) = None"

text \<open>\<open>hmac secret text\<close> is the SHA-256 HMAC in hexadecimal.\<close>

definition notifier_sign :: "(string \<Rightarrow> string \<Rightarrow> string) \<Rightarrow> (rat \<Rightarrow> string) \<Rightarrow> notifier \<Rightarrow> (string \<times> jsval) list \<Rightarrow> string" where
  "notifier_sign hmac num N payload =
     hmac (nf_secret N) (opt_text ''undefined'' (json_listed num (sort (map fst payload)) (JObj payload)))"

definition char_diff :: "string \<Rightarrow> string \<Rightarrow> nat" where
  "char_diff a b = foldl (\<lambda>d (x, y). or d (xor (of_char x) (of_char y))) 0 (zip a b)"

definition notifier_verify :: "(string \<Rightarrow> string \<Rightarrow> string) \<Rightarrow> (rat \<Rightarrow> string) \<Rightarrow> notifier \<Rightarrow> (string \<times> jsval) list \<Rightarrow> string \<Rightarrow> bool" where
  "notifier_verify hmac num N payload signature =
     (let expected = notifier_sign hmac num N payload in
      length expected = length signature \<and> char_diff expected signature = 0)"

definition approval_payload_json :: "notifier \<Rightarrow> ms \<Rightarrow> approval_note \<Rightarrow> jsval \<Rightarrow> (string \<times> jsval) list" where
  "approval_payload_json N now n summary =
     [(''approval_id'', JStr (''approval:'' @ an_task_id n @ '':'' @ int_str now)), (''task_id'', JStr (an_task_id n)),
      (''capability'', JStr (an_capability n)), (''target_agent'', JStr (an_target_agent n)), (''reason'', JStr (an_reason n)),
      (''requester'', requester_json (an_requester n)), (''risk_class'', JStr (risk_str (an_risk_class n))),
      (''input_summary'', summary), (''requested_at'', JStr (toISOString now)), (''approve_url'', JStr (nf_base_url N @ ''/approve'')),
      (''approval_reference'', JStr (an_approval_reference n))]"

function notifier_attempt :: "notifier \<Rightarrow> (nat \<Rightarrow> bool) \<Rightarrow> nat \<Rightarrow> int \<Rightarrow> int list \<Rightarrow> delivery" where
  "notifier_attempt N answer attempt left waits =
     (if answer attempt then \<lparr>dv_delivered = True, dv_attempts = attempt, dv_waits = waits\<rparr>
      else if left > 0
      then notifier_attempt N answer (attempt + 1) (left - 1) (waits @ [nf_retry_delay N * (nf_max_retries N - left + 1)])
      else \<lparr>dv_delivered = False, dv_attempts = attempt, dv_waits = waits\<rparr>)"
  by auto
termination by (relation "measure (\<lambda>(_, _, _, left, _). nat left)") auto

declare notifier_attempt.simps [simp del]

text \<open>What a notification does: nothing, throw, or post a signed payload to an address and retry.\<close>

datatype notification = NotConfigured | NotifyThrew | Posted string "(string \<times> jsval) list" string delivery

definition notify :: "(string \<Rightarrow> string \<Rightarrow> string) \<Rightarrow> (rat \<Rightarrow> string) \<Rightarrow> notifier \<Rightarrow> ms \<Rightarrow> (nat \<Rightarrow> bool) \<Rightarrow> approval_note \<Rightarrow> notification" where
  "notify hmac num N now answer n =
     (case approval_webhook (nf_default_url N) n of
        None \<Rightarrow> NotConfigured
      | Some url \<Rightarrow>
          (case redactSensitiveFields (an_input_summary n) of
             None \<Rightarrow> NotifyThrew
           | Some summary \<Rightarrow>
               (let p = approval_payload_json N now n summary
                in Posted url p (notifier_sign hmac num N p) (notifier_attempt N answer 1 (nf_max_retries N) []))))"

section \<open>The retry loops\<close>

lemma webhook_cases:
  "deliverWebhookWithRetry answer =
     (if answer 1 then \<lparr>dv_delivered = True, dv_attempts = 1, dv_waits = []\<rparr>
      else if answer 2 then \<lparr>dv_delivered = True, dv_attempts = 2, dv_waits = [250]\<rparr>
      else \<lparr>dv_delivered = answer 3, dv_attempts = 3, dv_waits = [250, 500]\<rparr>)"
proof -
  have three: "webhook_attempt answer 3 ws = \<lparr>dv_delivered = answer 3, dv_attempts = 3, dv_waits = ws\<rparr>" for ws
    by (subst webhook_attempt.simps) (simp add: max_attempts_def)
  have two: "webhook_attempt answer 2 ws = (if answer 2 then \<lparr>dv_delivered = True, dv_attempts = 2, dv_waits = ws\<rparr>
      else webhook_attempt answer 3 (ws @ [500]))" for ws
    by (subst webhook_attempt.simps) (simp add: max_attempts_def)
  have one: "webhook_attempt answer 1 [] = (if answer 1 then \<lparr>dv_delivered = True, dv_attempts = 1, dv_waits = []\<rparr>
      else webhook_attempt answer 2 [250])"
    by (subst webhook_attempt.simps) (simp add: max_attempts_def numeral_2_eq_2)
  show ?thesis unfolding deliverWebhookWithRetry_def one two three by simp
qed

text \<open>A loop that started at an attempt and may go to another ended as it should.\<close>

definition ended :: "(nat \<Rightarrow> bool) \<Rightarrow> nat \<Rightarrow> nat \<Rightarrow> delivery \<Rightarrow> bool" where
  "ended answer first final d \<longleftrightarrow> first \<le> dv_attempts d \<and> dv_attempts d \<le> final \<and> dv_delivered d = answer (dv_attempts d) \<and>
     (\<forall>i \<in> {first..<dv_attempts d}. \<not> answer i) \<and> (\<not> dv_delivered d \<longrightarrow> dv_attempts d = final)"

lemma ended_here: "answer n \<or> m = n \<Longrightarrow> n \<le> m \<Longrightarrow> ended answer n m \<lparr>dv_delivered = answer n, dv_attempts = n, dv_waits = ws\<rparr>"
  by (auto simp: ended_def)

lemma ended_later:
  assumes n: "\<not> answer n" and e: "ended answer (n + 1) m d"
  shows "ended answer n m d"
proof -
  have "\<forall>i \<in> {n..<dv_attempts d}. \<not> answer i"
  proof
    fix i assume "i \<in> {n..<dv_attempts d}"
    then have "i = n \<or> i \<in> {n + 1..<dv_attempts d}" by auto
    moreover have "\<forall>i \<in> {n + 1..<dv_attempts d}. \<not> answer i" using e unfolding ended_def by (elim conjE)
    ultimately show "\<not> answer i" using n by blast
  qed
  moreover have "n \<le> dv_attempts d" using e unfolding ended_def by linarith
  ultimately show ?thesis using e unfolding ended_def by (elim conjE) (intro conjI)
qed

lemma ended_found:
  assumes e: "ended answer n m d"
  shows "dv_delivered d \<longleftrightarrow> (\<exists>i \<in> {n..m}. answer i)"
proof -
  show ?thesis
  proof (cases "dv_delivered d")
    case True
    then show ?thesis using e by (auto simp: ended_def)
  next
    case False
    then have "\<not> answer i" if "i \<in> {n..m}" for i
      using that e by (cases "i = m") (auto simp: ended_def)
    then show ?thesis using False by blast
  qed
qed

lemma notifier_ended: "ended answer attempt (attempt + nat left) (notifier_attempt N answer attempt left waits)"
proof (induction N answer attempt left waits rule: notifier_attempt.induct)
  case (1 N answer attempt left waits)
  show ?case
  proof (cases "answer attempt \<or> \<not> left > 0")
    case True
    then have "notifier_attempt N answer attempt left waits = \<lparr>dv_delivered = answer attempt, dv_attempts = attempt, dv_waits = waits\<rparr>"
      by (subst notifier_attempt.simps) auto
    then show ?thesis using True ended_here [of answer attempt "attempt + nat left"] by auto
  next
    case False
    then have step: "notifier_attempt N answer attempt left waits =
        notifier_attempt N answer (attempt + 1) (left - 1) (waits @ [nf_retry_delay N * (nf_max_retries N - left + 1)])"
      by (subst notifier_attempt.simps) auto
    have no: "\<not> answer attempt" and more: "0 < left" using False by simp_all
    have "attempt + 1 + nat (left - 1) = attempt + nat left" using more by auto
    then have "ended answer (attempt + 1) (attempt + nat left)
        (notifier_attempt N answer (attempt + 1) (left - 1) (waits @ [nf_retry_delay N * (nf_max_retries N - left + 1)]))"
      using "1.IH" [OF no more] by (simp only:)
    then show ?thesis unfolding step by (rule ended_later [where answer = answer and n = attempt, OF no])
  qed
qed

lemma ended_facts:
  assumes e: "ended answer n m d"
  shows "n \<le> dv_attempts d \<and> dv_attempts d \<le> m \<and>
     (dv_delivered d \<longleftrightarrow> (\<exists>i \<in> {n..m}. answer i)) \<and> (\<forall>i \<in> {n..<dv_attempts d}. \<not> answer i)"
  using ended_found [OF e] e [unfolded ended_def] by (elim conjE) (intro conjI; assumption)

section \<open>Redaction and signature\<close>

text \<open>A secret that a reader of the summary finds by going through objects only.\<close>

inductive exposed :: "jsval \<Rightarrow> bool" where
  exposed_here: "(k, v) \<in> set kvs \<Longrightarrow> str_lower k \<in> set sensitive_keys \<Longrightarrow> v \<noteq> JStr ''[REDACTED]'' \<Longrightarrow> exposed (JObj kvs)"
| exposed_below: "(k, v) \<in> set kvs \<Longrightarrow> exposed v \<Longrightarrow> exposed (JObj kvs)"

inductive_simps exposed_obj: "exposed (JObj kvs)"
inductive_cases exposed_str: "exposed (JStr s)"

lemma exposed_map:
  "exposed (JObj (map (\<lambda>e. (fst e, f e)) kvs)) \<Longrightarrow>
    \<exists>e \<in> set kvs. (str_lower (fst e) \<in> set sensitive_keys \<and> f e \<noteq> JStr ''[REDACTED]'') \<or> exposed (f e)"
  by (auto simp: exposed_obj)

lemma redact_hides: "\<not> exposed (redact_value v)"
proof (induction v rule: redact_value.induct)
  case (1 kvs)
  show ?case
  proof
    assume "exposed (redact_value (JObj kvs))"
    from exposed_map [OF this [unfolded redact_value.simps]] obtain e where "e \<in> set kvs" "exposed (redact_value (snd e))"
        "str_lower (fst e) \<notin> set sensitive_keys"
      by (auto split: if_splits elim: exposed_str)
    then show False using 1 by blast
  qed
qed (auto elim: exposed.cases)

lemma or_zero: "or (a :: nat) b = 0 \<longleftrightarrow> a = 0 \<and> b = 0"
  by (metis or_eq_0_iff)

lemma xor_zero: "xor (a :: nat) b = 0 \<longleftrightarrow> a = b"
  by (auto simp: bit_eq_iff bit_xor_iff)

lemma char_diff_zero: "length a = length b \<Longrightarrow> char_diff a b = 0 \<longleftrightarrow> a = b"
proof -
  have "foldl (\<lambda>d (x, y). or d (xor (of_char x) (of_char y))) d (zip a b) = 0 \<longleftrightarrow> d = 0 \<and> a = b" if "length a = length b" for d :: nat
    using that by (induction a b arbitrary: d rule: list_induct2) (auto simp: or_zero xor_zero)
  then show "length a = length b \<Longrightarrow> char_diff a b = 0 \<longleftrightarrow> a = b" by (simp add: char_diff_def)
qed

lemma verify_equal: "notifier_verify hmac num N p s \<longleftrightarrow> s = notifier_sign hmac num N p"
  by (auto simp: notifier_verify_def Let_def char_diff_zero)

text \<open>Only the listed names of an object count for its text.\<close>

lemma json_listed_names:
  assumes "\<And>k. k \<in> set names \<Longrightarrow> map_of a k = map_of b k"
  shows "json_listed num names (JObj a) = json_listed num names (JObj b)"
proof -
  have m: "map_of (map (\<lambda>e. (fst e, json_listed num names (snd e))) kvs) k = map_option (json_listed num names) (map_of kvs k)" for kvs k
    by (induction kvs) auto
  have "map (\<lambda>k. case map_of (map (\<lambda>e. (fst e, json_listed num names (snd e))) a) k of Some (Some t) \<Rightarrow> [json_quote k @ '':'' @ t] | _ \<Rightarrow> []) names =
      map (\<lambda>k. case map_of (map (\<lambda>e. (fst e, json_listed num names (snd e))) b) k of Some (Some t) \<Rightarrow> [json_quote k @ '':'' @ t] | _ \<Rightarrow> []) names"
    unfolding m using assms by (intro map_cong) auto
  then show ?thesis by (simp only: json_listed.simps Let_def)
qed

lemma json_listed_member:
  assumes "json_listed num names v = json_listed num names w"
  shows "json_listed num names (JObj (xs @ (k, v) # ys)) = json_listed num names (JObj (xs @ (k, w) # ys))"
  using assms by (simp add: Let_def)

section \<open>Properties\<close>

text \<open>C40: both retry loops end: a task webhook is attempted at most three times with at most 750 ms of waiting, an approval
  request at most once more than its retries; each stops at the first attempt that is answered, and
  gives up only when every attempt failed.\<close>

theorem deliveries_end:
  "(let d = deliverWebhookWithRetry answer in
      1 \<le> dv_attempts d \<and> dv_attempts d \<le> 3 \<and> sum_list (dv_waits d) \<le> 750 \<and>
      (dv_delivered d \<longleftrightarrow> (\<exists>i \<in> {1..3}. answer i)) \<and> (\<forall>i \<in> {1..<dv_attempts d}. \<not> answer i)) \<and>
   (let e = notifier_attempt N answer 1 (nf_max_retries N) [] in
      1 \<le> dv_attempts e \<and> dv_attempts e \<le> 1 + nat (nf_max_retries N) \<and>
      (dv_delivered e \<longleftrightarrow> (\<exists>i \<in> {1..1 + nat (nf_max_retries N)}. answer i)) \<and> (\<forall>i \<in> {1..<dv_attempts e}. \<not> answer i))"
proof -
  have below: "i \<in> {Suc 0..<2} \<longleftrightarrow> i = 1" "i \<in> {Suc 0..<3} \<longleftrightarrow> i = 1 \<or> i = 2" for i :: nat by auto
  have d: "ended answer 1 3 (deliverWebhookWithRetry answer)"
    unfolding webhook_cases ended_def Ball_def by (simp add: below del: atLeastLessThan_iff)
  have w: "sum_list (dv_waits (deliverWebhookWithRetry answer)) \<le> 750" by (simp add: webhook_cases)
  have e: "ended answer 1 (1 + nat (nf_max_retries N)) (notifier_attempt N answer 1 (nf_max_retries N) [])"
    by (rule notifier_ended)
  show ?thesis unfolding Let_def
    using ended_facts [OF d] ended_facts [OF e] w by (elim conjE) (intro conjI; assumption)
qed

theorem deliveries_end_witness:
  "dv_attempts (deliverWebhookWithRetry (\<lambda>i. i = 2)) \<le> 3 \<and> dv_delivered (deliverWebhookWithRetry (\<lambda>i. i = 2))"
proof -
  note all = deliveries_end [of "\<lambda>i. i = 2", unfolded Let_def]
  have "dv_attempts (deliverWebhookWithRetry (\<lambda>i. i = 2)) \<le> 3"
    by (rule all [THEN conjunct1, THEN conjunct2, THEN conjunct1])
  moreover have "dv_delivered (deliverWebhookWithRetry (\<lambda>i. i = 2)) \<longleftrightarrow> (\<exists>i \<in> {1..3 :: nat}. i = 2)"
    by (rule all [THEN conjunct1, THEN conjunct2, THEN conjunct2, THEN conjunct2, THEN conjunct1])
  ultimately show ?thesis by simp
qed

text \<open>An approval request that is posted shows no secret in its summary: no member under a sensitive name keeps its
  value, however deep in objects it stands; and the receiver's check accepts exactly the signature sent
  with it.\<close>

theorem approval_request_safe:
  assumes "notify hmac num N now answer n = Posted url p sig d"
  shows "(\<exists>v. obj_get p ''input_summary'' = v \<and> \<not> exposed v) \<and>
    (\<forall>s. notifier_verify hmac num N p s \<longleftrightarrow> s = sig)"
proof -
  from assms obtain summary where s: "redactSensitiveFields (an_input_summary n) = Some summary"
    and p: "p = approval_payload_json N now n summary" and sig: "sig = notifier_sign hmac num N p"
    by (auto simp: notify_def Let_def split: option.splits)
  from s obtain kvs where "summary = redact_value (JObj kvs)"
    by (auto simp: redactSensitiveFields_def simp del: redact_value.simps)
  then have "\<not> exposed summary" by (simp only: redact_hides not_False_eq_True)
  moreover have "obj_get p ''input_summary'' = summary" by (simp add: p approval_payload_json_def obj_get_def)
  ultimately show ?thesis by (simp add: verify_equal sig)
qed

text \<open>The signature does not cover who asks or what for: the list of names it serializes with holds at every depth, so
  the requester counts for nothing and of the summary only members that happen to be named as a member of
  the payload; the signature of one request verifies for another requester and another summary.\<close>

theorem approval_signature_partial:
  assumes "\<And>k. k \<in> fst ` set (approval_payload_json N now n (JObj a)) \<Longrightarrow> map_of a k = map_of b k"
    and "sig = notifier_sign hmac num N (approval_payload_json N now n (JObj a))"
  shows "notifier_verify hmac num N (approval_payload_json N now (n\<lparr>an_requester := other\<rparr>) (JObj b)) sig"
proof -
  let ?pa = "approval_payload_json N now n (JObj a)" and ?pb = "approval_payload_json N now (n\<lparr>an_requester := other\<rparr>) (JObj b)"
  define names where "names = sort (map fst ?pa)"
  have same: "sort (map fst ?pb) = names" by (simp add: names_def approval_payload_json_def)
  have set: "set names = fst ` set ?pa" by (simp add: names_def)
  have sum: "json_listed num names (JObj a) = json_listed num names (JObj b)"
    by (rule json_listed_names) (use assms(1) set in auto)
  have req: "json_listed num names (requester_json r) = Some ''{}''" for r
  proof -
    have "map_of [(''type'', t), (''id'', i), (''tenant_id'', u)] k = None" if "k \<in> set names" for k t i u
      using that by (auto simp: set approval_payload_json_def)
    then have "json_listed num names (requester_json r) = json_listed num names (JObj [])"
      unfolding requester_json_def by (intro json_listed_names) (simp del: map_of.simps add: map_of.simps(1))
    also have "\<dots> = Some ''{}''" by (induction names) (simp_all add: Let_def)
    finally show ?thesis .
  qed
  have "json_listed num names (JObj ?pa) = json_listed num names (JObj ?pb)"
    unfolding json_listed.simps Let_def approval_payload_json_def using sum req by simp
  then show ?thesis by (simp add: verify_equal assms(2) notifier_sign_def same names_def [symmetric])
qed

end
