(* ===== verification/Metrics.thy ===== *)
theory Metrics
  imports Prelude "HOL-Library.Multiset"
begin

text \<open>
  Request metrics: the class \<open>MetricsService\<close> of \<open>src/src/server/services/metrics.ts\<close>
  with \<open>hydrateMetricsState\<close> and \<open>persistMetricsState\<close> of \<open>src/src/server/state.ts\<close>.
  Durations and averages are exact rationals; the rounding of doubles is not
  modelled. \<open>ceil(p * n)\<close> is the same in both for the two percentiles used, 50 and 95.
  A metrics file holds a record of the documented types or nothing readable.
\<close>

section \<open>State\<close>

record request_event =
  ev_timestamp :: ms
  ev_ok :: bool

record metrics_config =
  mc_window :: ms
  mc_max_samples :: nat

record metrics =
  mt_total :: nat
  mt_succeeded :: nat
  mt_failed :: nat
  mt_events :: "request_event list"
  mt_by_code :: "(string, nat) jmap"
  mt_by_agent :: "(string, nat) jmap"
  mt_by_agent_code :: "(string, (string, nat) jmap) jmap"
  mt_latency :: "(string, rat list) jmap"

definition empty_metrics :: metrics where
  "empty_metrics = \<lparr>mt_total = 0, mt_succeeded = 0, mt_failed = 0, mt_events = [], mt_by_code = [], mt_by_agent = [],
     mt_by_agent_code = [], mt_latency = []\<rparr>"

section \<open>Recording\<close>

definition bump :: "string \<Rightarrow> (string, nat) jmap \<Rightarrow> (string, nat) jmap" where
  "bump k m = jm_set k (case jm_get m k of None \<Rightarrow> 1 | Some n \<Rightarrow> n + 1) m"

definition pruneRequestEvents :: "metrics_config \<Rightarrow> ms \<Rightarrow> metrics \<Rightarrow> metrics" where
  "pruneRequestEvents c now m = m\<lparr>mt_events := dropWhile (\<lambda>e. now - ev_timestamp e > mc_window c) (mt_events m)\<rparr>"

definition count_error :: "string option \<Rightarrow> string option \<Rightarrow> metrics \<Rightarrow> metrics" where
  "count_error code agent m =
     (case code of
        None \<Rightarrow> m
      | Some c \<Rightarrow>
          if c = [] then m
          else (let m1 = m\<lparr>mt_by_code := bump c (mt_by_code m)\<rparr>; a = (case agent of None \<Rightarrow> [] | Some a \<Rightarrow> str_trim a) in
                if a = [] then m1
                else m1\<lparr>mt_by_agent := bump a (mt_by_agent m1),
                        mt_by_agent_code :=
                          jm_set a (bump c (case jm_get (mt_by_agent_code m1) a of None \<Rightarrow> [] | Some codes \<Rightarrow> codes)) (mt_by_agent_code m1)\<rparr>))"

definition recordRequest :: "metrics_config \<Rightarrow> ms \<Rightarrow> bool \<Rightarrow> string option \<Rightarrow> string option \<Rightarrow> metrics \<Rightarrow> metrics" where
  "recordRequest c now ok code agent m =
     (let m1 = m\<lparr>mt_total := mt_total m + 1\<rparr>;
          m2 = (if ok then m1\<lparr>mt_succeeded := mt_succeeded m1 + 1\<rparr> else count_error code agent (m1\<lparr>mt_failed := mt_failed m1 + 1\<rparr>))
      in pruneRequestEvents c now (m2\<lparr>mt_events := mt_events m2 @ [\<lparr>ev_timestamp = now, ev_ok = ok\<rparr>]\<rparr>))"

definition recordCapabilityLatency :: "metrics_config \<Rightarrow> string \<Rightarrow> rat \<Rightarrow> metrics \<Rightarrow> metrics" where
  "recordCapabilityLatency c capability duration m =
     (let key = str_trim capability in
      if key = [] then m
      else m\<lparr>mt_latency :=
        jm_set key (keep_last (mc_max_samples c)
          ((case jm_get (mt_latency m) key of None \<Rightarrow> [] | Some s \<Rightarrow> s) @ [max 0 duration])) (mt_latency m)\<rparr>)"

section \<open>Queries\<close>

record request_metrics =
  rq_total :: nat
  rq_succeeded :: nat
  rq_failed :: nat
  rq_window_ms :: ms
  rq_window_total :: nat
  rq_window_succeeded :: nat
  rq_window_failed :: nat
  rq_failure_rate :: rat

definition getRequestMetrics :: "metrics_config \<Rightarrow> ms \<Rightarrow> metrics \<Rightarrow> request_metrics \<times> metrics" where
  "getRequestMetrics c now m =
     (let m1 = pruneRequestEvents c now m; total = length (mt_events m1);
          failed = foldl (\<lambda>acc e. acc + (if ev_ok e then 0 else 1)) 0 (mt_events m1)
      in (\<lparr>rq_total = mt_total m1, rq_succeeded = mt_succeeded m1, rq_failed = mt_failed m1, rq_window_ms = mc_window c,
           rq_window_total = total, rq_window_succeeded = total - failed, rq_window_failed = failed,
           rq_failure_rate = (if total > 0 then of_nat failed / of_nat total else 0)\<rparr>, m1))"

definition getFailureRate :: "metrics_config \<Rightarrow> ms \<Rightarrow> metrics \<Rightarrow> rat" where
  "getFailureRate c now m = rq_failure_rate (fst (getRequestMetrics c now m))"

record error_breakdown =
  eb_by_code :: "(string, nat) jmap"
  eb_by_agent :: "(string, nat) jmap"
  eb_by_agent_by_code :: "(string, (string, nat) jmap) jmap"

definition getErrorBreakdown :: "metrics \<Rightarrow> error_breakdown" where
  "getErrorBreakdown m = \<lparr>eb_by_code = mt_by_code m, eb_by_agent = mt_by_agent m, eb_by_agent_by_code = mt_by_agent_code m\<rparr>"

text \<open>The rank of a percentile, given in per cent, in a sorted list.\<close>

definition percentile_index :: "nat \<Rightarrow> nat \<Rightarrow> nat" where
  "percentile_index c n = min (n - 1) ((c * n + 99) div 100 - 1)"

definition percentile :: "rat list \<Rightarrow> nat \<Rightarrow> rat" where
  "percentile xs c = (if xs = [] then 0 else xs ! percentile_index c (length xs))"

record latency_metrics =
  lm_count :: nat
  lm_avg :: rat
  lm_p50 :: rat
  lm_p95 :: rat

definition latency_summary :: "rat list \<Rightarrow> latency_metrics" where
  "latency_summary samples =
     (let xs = sort samples in
      \<lparr>lm_count = length xs, lm_avg = foldl (+) 0 xs / of_nat (length xs), lm_p50 = percentile xs 50, lm_p95 = percentile xs 95\<rparr>)"

definition getCapabilityLatencyMetrics :: "metrics \<Rightarrow> (string, latency_metrics) jmap" where
  "getCapabilityLatencyMetrics m = map (\<lambda>(k, s). (k, latency_summary s)) (filter (\<lambda>(k, s). s \<noteq> []) (mt_latency m))"

section \<open>Saving and restoring\<close>

definition metrics_toJSON :: "metrics_config \<Rightarrow> ms \<Rightarrow> metrics \<Rightarrow> metrics" where
  "metrics_toJSON c now m = pruneRequestEvents c now m"

definition metrics_fromJSON :: "metrics_config \<Rightarrow> ms \<Rightarrow> metrics \<Rightarrow> metrics" where
  "metrics_fromJSON c now saved = pruneRequestEvents c now saved"

definition persistMetricsState :: "metrics_config \<Rightarrow> ms \<Rightarrow> metrics \<Rightarrow> metrics" where
  "persistMetricsState c now m = pruneRequestEvents c now m"

definition hydrateMetricsState :: "metrics option \<Rightarrow> metrics" where
  "hydrateMetricsState file = (case file of None \<Rightarrow> empty_metrics | Some saved \<Rightarrow> saved)"

definition createMetricsService :: "metrics_config \<Rightarrow> ms \<Rightarrow> metrics option \<Rightarrow> metrics" where
  "createMetricsService c now hydrated = (case hydrated of None \<Rightarrow> empty_metrics | Some saved \<Rightarrow> metrics_fromJSON c now saved)"

section \<open>Percentiles\<close>

lemma filter_le_nth: "sorted xs \<Longrightarrow> i < length xs \<Longrightarrow> i < length (filter (\<lambda>x. x \<le> xs ! i) xs)"
proof -
  assume s: "sorted xs" and i: "i < length xs"
  have "filter (\<lambda>x. x \<le> xs ! i) (take (Suc i) xs) = take (Suc i) xs"
    using i by (auto simp: filter_id_conv in_set_conv_nth intro!: sorted_nth_mono [OF s])
  then have "Suc i = length (filter (\<lambda>x. x \<le> xs ! i) (take (Suc i) xs))" using i by simp
  also have "\<dots> \<le> length (filter (\<lambda>x. x \<le> xs ! i) (take (Suc i) xs @ drop (Suc i) xs))" by (simp only: filter_append length_append le_add1)
  finally show ?thesis by simp
qed

lemma filter_less_nth: "sorted xs \<Longrightarrow> i < length xs \<Longrightarrow> length (filter (\<lambda>x. x < xs ! i) xs) \<le> i"
proof -
  assume s: "sorted xs" and i: "i < length xs"
  have "filter (\<lambda>x. x < xs ! i) (drop i xs) = []"
  proof (rule ccontr)
    assume "filter (\<lambda>x. x < xs ! i) (drop i xs) \<noteq> []"
    then obtain j where j: "j < length (drop i xs)" "drop i xs ! j < xs ! i" by (auto simp: filter_empty_conv in_set_conv_nth)
    then have "xs ! i \<le> xs ! (i + j)" using s by (intro sorted_nth_mono) auto
    then show False using j by simp
  qed
  then have "filter (\<lambda>x. x < xs ! i) xs = filter (\<lambda>x. x < xs ! i) (take i xs)"
    by (metis append_Nil2 append_take_drop_id filter_append)
  then show ?thesis by (metis (no_types) le_trans length_filter_le length_take min.cobounded2)
qed

lemma percentile_index_bounds:
  assumes "0 < n" and "0 < c" and "c \<le> 100"
  shows "percentile_index c n < n" and "c * n \<le> 100 * (percentile_index c n + 1)" and "100 * percentile_index c n < c * n"
proof -
  define k where "k = (c * n + 99) div 100"
  have "0 < c * n" using assms by simp
  then have up: "c * n \<le> 100 * k" and low: "100 * k < c * n + 100" and pos: "0 < k" unfolding k_def by linarith+
  have "c * n \<le> 100 * n" using assms by simp
  with low have "k \<le> n" by linarith
  then have i: "percentile_index c n = k - 1" by (simp add: percentile_index_def k_def)
  show "percentile_index c n < n" using i pos \<open>k \<le> n\<close> by simp
  show "c * n \<le> 100 * (percentile_index c n + 1)" "100 * percentile_index c n < c * n" using i pos up low by simp_all
qed

text \<open>The percentile is the nearest rank: at least that share of the samples lies at or below it, less than that share
  below it.\<close>

lemma percentile_rank:
  assumes "xs \<noteq> []" and "0 < c" and "c \<le> 100"
  shows "percentile (sort xs) c \<in> set xs"
    and "c * length xs \<le> 100 * length (filter (\<lambda>x. x \<le> percentile (sort xs) c) xs)"
    and "100 * length (filter (\<lambda>x. x < percentile (sort xs) c) xs) < c * length xs"
proof -
  define i where "i = percentile_index c (length xs)"
  have b: "i < length (sort xs)" "c * length xs \<le> 100 * (i + 1)" "100 * i < c * length xs"
    using percentile_index_bounds [of "length xs" c] assms by (simp_all add: i_def)
  have ne: "sort xs \<noteq> []" using assms(1) by (metis length_0_conv length_sort)
  then have p: "percentile (sort xs) c = sort xs ! i" by (simp add: percentile_def i_def)
  show "percentile (sort xs) c \<in> set xs" unfolding p using nth_mem [OF b(1)] by simp
  have len: "length (filter P (sort xs)) = length (filter P xs)" for P :: "rat \<Rightarrow> bool"
    by (metis mset_filter mset_sort size_mset)
  show "c * length xs \<le> 100 * length (filter (\<lambda>x. x \<le> percentile (sort xs) c) xs)"
  proof -
    have "i + 1 \<le> length (filter (\<lambda>x. x \<le> sort xs ! i) xs)" using filter_le_nth [OF sorted_sort b(1)] unfolding len by simp
    then have "100 * (i + 1) \<le> 100 * length (filter (\<lambda>x. x \<le> sort xs ! i) xs)" by (rule mult_le_mono2)
    with b(2) show ?thesis unfolding p by (rule le_trans)
  qed
  show "100 * length (filter (\<lambda>x. x < percentile (sort xs) c) xs) < c * length xs"
  proof -
    have "length (filter (\<lambda>x. x < sort xs ! i) xs) \<le> i" using filter_less_nth [OF sorted_sort b(1)] unfolding len .
    then have "100 * length (filter (\<lambda>x. x < sort xs ! i) xs) \<le> 100 * i" by (rule mult_le_mono2)
    from this b(3) show ?thesis unfolding p by (rule le_less_trans)
  qed
qed

section \<open>What the counters count\<close>

datatype metrics_op =
    Request ms bool "string option" "string option"
  | Latency string rat
  | Report ms

fun metrics_step :: "metrics_config \<Rightarrow> metrics \<Rightarrow> metrics_op \<Rightarrow> metrics" where
  "metrics_step c m (Request t ok code agent) = recordRequest c t ok code agent m"
| "metrics_step c m (Latency cap d) = recordCapabilityLatency c cap d m"
| "metrics_step c m (Report t) = snd (getRequestMetrics c t m)"

fun op_time :: "metrics_op \<Rightarrow> ms option" where
  "op_time (Request t _ _ _) = Some t"
| "op_time (Latency _ _) = None"
| "op_time (Report t) = Some t"

fun op_event :: "metrics_op \<Rightarrow> request_event option" where
  "op_event (Request t ok _ _) = Some \<lparr>ev_timestamp = t, ev_ok = ok\<rparr>"
| "op_event _ = None"

fun error_of :: "metrics_op \<Rightarrow> (string \<times> string) option" where
  "error_of (Request _ ok code agent) =
     (case code of
        None \<Rightarrow> None
      | Some k \<Rightarrow> if ok \<or> k = [] then None else Some (k, case agent of None \<Rightarrow> [] | Some a \<Rightarrow> str_trim a))"
| "error_of _ = None"

definition count_or_zero :: "(string, nat) jmap \<Rightarrow> string \<Rightarrow> nat" where
  "count_or_zero m k = (case jm_get m k of None \<Rightarrow> 0 | Some n \<Rightarrow> n)"

lemma count_bump [simp]: "count_or_zero (bump k m) k' = count_or_zero m k' + (if k' = k then 1 else 0)"
  by (auto simp: count_or_zero_def bump_def jm_get_set split: option.split)

definition codes_of :: "metrics \<Rightarrow> string \<Rightarrow> (string, nat) jmap" where
  "codes_of m a = (case jm_get (mt_by_agent_code m) a of None \<Rightarrow> [] | Some codes \<Rightarrow> codes)"

lemma prune_frame [simp]:
  "mt_total (pruneRequestEvents c t m) = mt_total m" "mt_succeeded (pruneRequestEvents c t m) = mt_succeeded m"
  "mt_failed (pruneRequestEvents c t m) = mt_failed m" "mt_by_code (pruneRequestEvents c t m) = mt_by_code m"
  "mt_by_agent (pruneRequestEvents c t m) = mt_by_agent m" "mt_by_agent_code (pruneRequestEvents c t m) = mt_by_agent_code m"
  "mt_latency (pruneRequestEvents c t m) = mt_latency m"
  by (simp_all add: pruneRequestEvents_def)

lemma latency_frame [simp]:
  "mt_total (recordCapabilityLatency c cap d m) = mt_total m" "mt_succeeded (recordCapabilityLatency c cap d m) = mt_succeeded m"
  "mt_failed (recordCapabilityLatency c cap d m) = mt_failed m" "mt_events (recordCapabilityLatency c cap d m) = mt_events m"
  "mt_by_code (recordCapabilityLatency c cap d m) = mt_by_code m" "mt_by_agent (recordCapabilityLatency c cap d m) = mt_by_agent m"
  "mt_by_agent_code (recordCapabilityLatency c cap d m) = mt_by_agent_code m"
  by (simp_all add: recordCapabilityLatency_def Let_def)

lemma report_state [simp]: "snd (getRequestMetrics c t m) = pruneRequestEvents c t m"
  by (simp add: getRequestMetrics_def Let_def)

lemma count_error_frame [simp]:
  "mt_total (count_error code agent m) = mt_total m" "mt_succeeded (count_error code agent m) = mt_succeeded m"
  "mt_failed (count_error code agent m) = mt_failed m" "mt_events (count_error code agent m) = mt_events m"
  by (simp_all add: count_error_def Let_def split: option.split)

lemma step_counts:
  "mt_total (metrics_step c m x) = mt_total m + (if op_event x = None then 0 else 1)"
  "mt_succeeded (metrics_step c m x) = mt_succeeded m + (case op_event x of None \<Rightarrow> 0 | Some e \<Rightarrow> if ev_ok e then 1 else 0)"
  "mt_failed (metrics_step c m x) = mt_failed m + (case op_event x of None \<Rightarrow> 0 | Some e \<Rightarrow> if ev_ok e then 0 else 1)"
  by (cases x; simp add: recordRequest_def Let_def)+

lemma step_errors:
  "count_or_zero (mt_by_code (metrics_step c m x)) k = count_or_zero (mt_by_code m) k + (case error_of x of Some (k', a) \<Rightarrow> if k' = k then 1 else 0 | None \<Rightarrow> 0)"
  "a \<noteq> [] \<Longrightarrow> count_or_zero (codes_of (metrics_step c m x) a) k =
     count_or_zero (codes_of m a) k + (case error_of x of Some e \<Rightarrow> if e = (k, a) then 1 else 0 | None \<Rightarrow> 0)"
  by (cases x; auto simp: recordRequest_def Let_def count_error_def codes_of_def jm_get_set split: option.splits)+

text \<open>The events kept are the requests of the window, as long as the clock does not go back.\<close>

definition events_upto :: "metrics_op list \<Rightarrow> request_event list" where
  "events_upto ops = List.map_filter op_event ops"

definition clock_forward :: "metrics_op list \<Rightarrow> ms \<Rightarrow> bool" where
  "clock_forward ops now \<longleftrightarrow> sorted (List.map_filter op_time ops @ [now])"

lemma dropWhile_sorted:
  assumes "sorted (map ev_timestamp es)"
  shows "dropWhile (\<lambda>e. now - ev_timestamp e > w) es = filter (\<lambda>e. now - ev_timestamp e \<le> w) es"
  using assms
proof (induction es)
  case (Cons e es)
  show ?case
  proof (cases "now - ev_timestamp e > w")
    case False
    then have "\<forall>x \<in> set es. now - ev_timestamp x \<le> w" using Cons.prems by fastforce
    then have "filter (\<lambda>e. now - ev_timestamp e \<le> w) es = es" by (simp add: filter_id_conv)
    then show ?thesis using False by simp
  qed (use Cons in auto)
qed simp

lemma clock_snoc:
  "clock_forward (ops @ [x]) now \<longleftrightarrow> (case op_time x of None \<Rightarrow> clock_forward ops now | Some t \<Rightarrow> clock_forward ops t \<and> t \<le> now)"
  by (auto simp: clock_forward_def List.map_filter_def sorted_append split: option.split)

lemma clock_later: "clock_forward ops t \<Longrightarrow> t \<le> now \<Longrightarrow> clock_forward ops now"
  by (auto simp: clock_forward_def sorted_append)

lemma events_snoc: "events_upto (ops @ [x]) = events_upto ops @ (case op_event x of None \<Rightarrow> [] | Some e \<Rightarrow> [e])"
  by (simp add: events_upto_def List.map_filter_def split: option.split)

lemma events_before: "clock_forward ops now \<Longrightarrow> e \<in> set (events_upto ops) \<Longrightarrow> ev_timestamp e \<le> now"
proof -
  assume c: "clock_forward ops now" and "e \<in> set (events_upto ops)"
  then obtain x where x: "x \<in> set ops" "op_event x = Some e" by (auto simp: events_upto_def List.map_filter_def)
  from x(2) have "op_time x = Some (ev_timestamp e)" by (cases x) auto
  then have "ev_timestamp e \<in> set (List.map_filter op_time ops)" using x(1) by (force simp: List.map_filter_def)
  then show ?thesis using c by (auto simp: clock_forward_def sorted_append)
qed

definition event_in_window :: "metrics_config \<Rightarrow> ms \<Rightarrow> request_event \<Rightarrow> bool" where
  "event_in_window c now e \<longleftrightarrow> now - ev_timestamp e \<le> mc_window c"

lemma prune_events:
  "sorted (map ev_timestamp (mt_events m)) \<Longrightarrow> mt_events (pruneRequestEvents c now m) = filter (event_in_window c now) (mt_events m)"
  by (simp add: pruneRequestEvents_def dropWhile_sorted event_in_window_def [abs_def])

lemma window_later: "t \<le> now \<Longrightarrow> filter (event_in_window c now) (filter (event_in_window c t) es) = filter (event_in_window c now) es"
  by (auto simp: event_in_window_def intro!: filter_cong)

lemma sorted_filter_map: "sorted (map f xs) \<Longrightarrow> sorted (map f (filter P xs))"
  by (induction xs) auto

definition kept_events :: "metrics_config \<Rightarrow> metrics_op list \<Rightarrow> ms \<Rightarrow> metrics \<Rightarrow> bool" where
  "kept_events c ops now m \<longleftrightarrow> sorted (map ev_timestamp (mt_events m)) \<and> set (mt_events m) \<subseteq> set (events_upto ops) \<and>
     filter (event_in_window c now) (mt_events m) = filter (event_in_window c now) (events_upto ops)"

lemma kept_later: "kept_events c ops t m \<Longrightarrow> t \<le> now \<Longrightarrow> kept_events c ops now m"
  unfolding kept_events_def using window_later [of t now c] by metis

lemma kept_prune: "kept_events c ops now m \<Longrightarrow> kept_events c ops now (pruneRequestEvents c now m)"
proof -
  assume k: "kept_events c ops now m"
  then have s: "sorted (map ev_timestamp (mt_events m))" by (simp add: kept_events_def)
  have "sorted (map ev_timestamp (mt_events (pruneRequestEvents c now m)))" by (simp only: prune_events [OF s] sorted_filter_map [OF s])
  then show ?thesis using k by (auto simp: kept_events_def prune_events [OF s])
qed

lemma kept_append:
  assumes "kept_events c ops now m" and "clock_forward ops now"
  shows "kept_events c (ops @ [Request now ok code agent]) now
    (m\<lparr>mt_events := mt_events m @ [\<lparr>ev_timestamp = now, ev_ok = ok\<rparr>]\<rparr>)"
  using assms events_before [OF assms(2)] by (auto simp: kept_events_def events_snoc sorted_append)

lemma kept_cong: "kept_events c ops now m \<Longrightarrow> mt_events m' = mt_events m \<Longrightarrow> kept_events c ops now m'"
  by (simp add: kept_events_def)

lemma request_events:
  "\<exists>m'. recordRequest c t ok code agent m = pruneRequestEvents c t (m'\<lparr>mt_events := mt_events m @ [\<lparr>ev_timestamp = t, ev_ok = ok\<rparr>]\<rparr>)"
  by (cases ok) (simp_all only: recordRequest_def Let_def if_True if_False, auto)

lemma run_events: "clock_forward ops now \<Longrightarrow> kept_events c ops now (foldl (metrics_step c) empty_metrics ops)"
proof (induction ops arbitrary: now rule: rev_induct)
  case Nil
  show ?case by (simp add: kept_events_def empty_metrics_def events_upto_def List.map_filter_def)
next
  case (snoc x ops)
  let ?m = "foldl (metrics_step c) empty_metrics ops"
  show ?case
  proof (cases x)
    case (Request t ok code agent)
    then have t: "clock_forward ops t" "t \<le> now" using snoc.prems by (simp_all add: clock_snoc)
    obtain m' where m': "recordRequest c t ok code agent ?m =
        pruneRequestEvents c t (m'\<lparr>mt_events := mt_events ?m @ [\<lparr>ev_timestamp = t, ev_ok = ok\<rparr>]\<rparr>)"
      using request_events by blast
    have "kept_events c (ops @ [x]) t (m'\<lparr>mt_events := mt_events ?m @ [\<lparr>ev_timestamp = t, ev_ok = ok\<rparr>]\<rparr>)"
      unfolding Request by (rule kept_cong [OF kept_append [OF snoc.IH [OF t(1)] t(1)]]) simp
    then show ?thesis using kept_later [OF kept_prune t(2)] by (simp add: Request m')
  next
    case (Latency cap d)
    then have "clock_forward ops now" using snoc.prems by (simp add: clock_snoc)
    from snoc.IH [OF this] show ?thesis by (simp add: Latency kept_events_def events_snoc)
  next
    case (Report t)
    then have t: "clock_forward ops t" "t \<le> now" using snoc.prems by (simp_all add: clock_snoc)
    have "kept_events c (ops @ [x]) t ?m" using snoc.IH [OF t(1)] by (simp add: Report kept_events_def events_snoc)
    then show ?thesis using kept_later [OF kept_prune t(2)] by (simp add: Report)
  qed
qed

text \<open>What \<open>/metrics\<close> reports: the totals of all requests since the start, and of those in the window while the clock goes
  forward; each error code is counted as often as a failed request carried it, overall and per agent.\<close>

theorem metrics_exact:
  assumes "clock_forward ops now"
  shows "(let m = foldl (metrics_step c) empty_metrics ops; r = fst (getRequestMetrics c now m);
              es = events_upto ops; recent = filter (event_in_window c now) es in
      rq_total r = length es \<and> rq_succeeded r = length (filter ev_ok es) \<and>
      rq_failed r = length (filter (\<lambda>e. \<not> ev_ok e) es) \<and>
      rq_window_total r = length recent \<and> rq_window_failed r = length (filter (\<lambda>e. \<not> ev_ok e) recent) \<and>
      rq_window_succeeded r = length (filter ev_ok recent) \<and>
      (\<forall>k. count_or_zero (mt_by_code m) k = length (filter (\<lambda>x. map_option fst (error_of x) = Some k) ops)) \<and>
      (\<forall>k a. a \<noteq> [] \<longrightarrow> count_or_zero (codes_of m a) k = length (filter (\<lambda>x. error_of x = Some (k, a)) ops)))"
proof -
  let ?m = "\<lambda>xs. foldl (metrics_step c) empty_metrics xs"
  have counts: "mt_total (?m xs) = length (events_upto xs) \<and> mt_succeeded (?m xs) = length (filter ev_ok (events_upto xs)) \<and>
      mt_failed (?m xs) = length (filter (\<lambda>e. \<not> ev_ok e) (events_upto xs))" for xs
    by (induction xs rule: rev_induct)
      (auto simp: step_counts events_snoc split: option.split, simp_all add: empty_metrics_def events_upto_def List.map_filter_def)
  have codes: "count_or_zero (mt_by_code (?m xs)) k = length (filter (\<lambda>x. map_option fst (error_of x) = Some k) xs)" for xs k
    by (induction xs rule: rev_induct)
      (auto simp: step_errors split: option.split, simp_all add: empty_metrics_def count_or_zero_def)
  have agents: "count_or_zero (codes_of (?m xs) a) k = length (filter (\<lambda>x. error_of x = Some (k, a)) xs)" if "a \<noteq> []" for xs k a
    by (induction xs rule: rev_induct)
      (auto simp: step_errors(2) [OF that] split: option.split, simp_all add: empty_metrics_def codes_of_def count_or_zero_def)
  have kept: "mt_events (pruneRequestEvents c now (?m ops)) = filter (event_in_window c now) (events_upto ops)"
    using run_events [OF assms, of c] by (simp add: kept_events_def prune_events)
  have failed: "foldl (\<lambda>acc e. acc + (if ev_ok e then 0 else 1)) n es = n + length (filter (\<lambda>e. \<not> ev_ok e) es)" for n :: nat and es
    by (induction es arbitrary: n) auto
  have rest: "length es - length (filter (\<lambda>e. \<not> ev_ok e) es) = length (filter ev_ok es)" for es
    using sum_length_filter_compl [of ev_ok es] by linarith
  show ?thesis using counts codes agents by (simp add: getRequestMetrics_def Let_def kept failed rest)
qed

theorem metrics_exact_witness:
  "rq_window_failed (fst (getRequestMetrics \<lparr>mc_window = 5, mc_max_samples = 10\<rparr> 9
     (foldl (metrics_step \<lparr>mc_window = 5, mc_max_samples = 10\<rparr>) empty_metrics
       [Request 1 False (Some ''e'') None, Request 7 False (Some ''e'') (Some ''a'')]))) = 1"
  using metrics_exact [of "[Request 1 False (Some ''e'') None, Request 7 False (Some ''e'') (Some ''a'')]" 9 "\<lparr>mc_window = 5, mc_max_samples = 10\<rparr>"]
  by (simp add: clock_forward_def List.map_filter_def events_upto_def event_in_window_def Let_def)

text \<open>Saving and restoring at one time changes nothing more than the window does.\<close>

lemma metrics_restart: "createMetricsService c now (Some (hydrateMetricsState (Some (persistMetricsState c now m)))) = pruneRequestEvents c now m"
  by (simp add: createMetricsService_def hydrateMetricsState_def persistMetricsState_def metrics_fromJSON_def pruneRequestEvents_def)

lemma vals_set: "set (jm_vals (jm_set k v m)) \<subseteq> insert v (set (jm_vals m))"
  by (induction m) (auto simp: jm_vals_def)

lemma latency_step: "mt_latency (metrics_step c m x) = mt_latency m \<or>
    (\<exists>k s. mt_latency (metrics_step c m x) = jm_set k (keep_last (mc_max_samples c) s) (mt_latency m))"
  by (cases x) (auto simp: recordRequest_def Let_def count_error_def recordCapabilityLatency_def split: option.splits)

lemma latency_samples_bounded:
  "list_all (\<lambda>s. length s \<le> mc_max_samples c) (jm_vals (mt_latency (foldl (metrics_step c) empty_metrics ops)))"
proof (induction ops rule: rev_induct)
  case (snoc x ops)
  then show ?case using latency_step [of c "foldl (metrics_step c) empty_metrics ops" x] vals_set
    by (fastforce simp: list_all_iff)
qed (simp add: empty_metrics_def jm_vals_def)

end
