(* ===== verification/SloMonitor.thy ===== *)
theory SloMonitor
  imports Metrics Canonical AsyncQueue
begin

text \<open>
  Service levels: \<open>src/src/server/services/slo-monitor.ts\<close>, and the manager of
  \<open>metrics-manager.ts\<close> that feeds it together with the request metrics. Budgets are
  exact rationals; the rounding of doubles is not modelled.
\<close>

section \<open>State\<close>

record slo =
  sl_name :: string
  sl_target :: rat
  sl_window :: string
  sl_critical :: rat

record slo_tracker =
  st_slo :: slo
  st_total :: nat
  st_failures :: rat
  st_samples :: "rat list"

type_synonym slo_monitor = "(string, slo_tracker) jmap"

definition fresh_tracker :: "string \<Rightarrow> rat \<Rightarrow> string \<Rightarrow> rat \<Rightarrow> slo_tracker" where
  "fresh_tracker name target window critical =
     \<lparr>st_slo = \<lparr>sl_name = name, sl_target = target, sl_window = window, sl_critical = critical\<rparr>,
      st_total = 0, st_failures = 0, st_samples = []\<rparr>"

definition new_slo_monitor :: slo_monitor where
  "new_slo_monitor =
     [(''dispatch.success_rate'', fresh_tracker ''dispatch.success_rate'' (999 / 1000) ''30d'' (99 / 100)),
      (''dispatch.latency_p95_ms'', fresh_tracker ''dispatch.latency_p95_ms'' 500 ''30d'' 1000),
      (''async_queue.dead_letter_rate'', fresh_tracker ''async_queue.dead_letter_rate'' (1 / 100) ''30d'' (5 / 100))]"

section \<open>Recording\<close>

definition is_latency :: "string \<Rightarrow> bool" where
  "is_latency name = str_includes ''latency'' name"

definition max_slo_samples :: nat where "max_slo_samples = 10000"

definition recordMetric :: "string \<Rightarrow> rat \<Rightarrow> slo_monitor \<Rightarrow> slo_monitor" where
  "recordMetric name value m =
     (case jm_get m name of
        None \<Rightarrow> m
      | Some t \<Rightarrow>
          jm_set name
            (if is_latency name then t\<lparr>st_samples := keep_last max_slo_samples (st_samples t @ [value])\<rparr>
             else t\<lparr>st_total := st_total t + 1, st_failures := (if value > 0 then st_failures t + value else st_failures t)\<rparr>) m)"

section \<open>Budgets\<close>

datatype budget_status = BudgetOk | BudgetWarning | BudgetCritical

record error_budget =
  bd_name :: string
  bd_remaining :: rat
  bd_total :: rat
  bd_percent :: rat
  bd_status :: budget_status

definition computeRateBudget :: "slo_tracker \<Rightarrow> error_budget" where
  "computeRateBudget t =
     (let total = (1 - sl_target (st_slo t)) * of_nat (max (st_total t) 1);
          remaining = total - st_failures t;
          percent = (if total > 0 then remaining / total * 100 else 100)
      in \<lparr>bd_name = sl_name (st_slo t), bd_remaining = remaining, bd_total = total, bd_percent = percent,
          bd_status = (if remaining < 0 then BudgetCritical else if percent < 50 then BudgetWarning else BudgetOk)\<rparr>)"

definition computeLatencyBudget :: "slo_tracker \<Rightarrow> error_budget" where
  "computeLatencyBudget t =
     (if st_samples t = [] then
        \<lparr>bd_name = sl_name (st_slo t), bd_remaining = 1, bd_total = 1, bd_percent = 100, bd_status = BudgetOk\<rparr>
      else (let p95 = percentile (sort (st_samples t)) 95; total = sl_target (st_slo t); remaining = total - p95;
                percent = max 0 (remaining / total * 100)
            in \<lparr>bd_name = sl_name (st_slo t), bd_remaining = remaining, bd_total = total, bd_percent = percent,
                bd_status = (if p95 > sl_critical (st_slo t) then BudgetCritical else if percent < 50 then BudgetWarning else BudgetOk)\<rparr>))"

definition getErrorBudget :: "slo_monitor \<Rightarrow> string \<Rightarrow> error_budget option" where
  "getErrorBudget m name = map_option (if is_latency name then computeLatencyBudget else computeRateBudget) (jm_get m name)"

definition getAllBudgets :: "slo_monitor \<Rightarrow> (string, error_budget) jmap" where
  "getAllBudgets m = List.map_filter (\<lambda>(name, _). map_option (Pair name) (getErrorBudget m name)) m"

section \<open>Alerts\<close>

record slo_alert =
  sa_id :: string
  sa_code :: string
  sa_critical :: bool
  sa_message :: string
  sa_recommended_action :: string
  sa_slo_name :: string
  sa_budget_remaining_percent :: rat

fun status_text :: "budget_status \<Rightarrow> string" where
  "status_text BudgetOk = ''ok''"
| "status_text BudgetWarning = ''warning''"
| "status_text BudgetCritical = ''critical''"

definition slo_alert_for :: "string \<Rightarrow> error_budget \<Rightarrow> slo_alert" where
  "slo_alert_for name b =
     (let status = status_text (bd_status b) in
      \<lparr>sa_id = ''alert:slo:'' @ map (\<lambda>c. if c = CHR ''.'' then CHR ''_'' else c) name,
       sa_code = ''slo_budget_'' @ status, sa_critical = (bd_status b = BudgetCritical),
       sa_message = ''SLO \"'' @ name @ ''\" error budget is at '' @ toFixed 1 (bd_percent b) @ ''% ('' @ status @ '').'',
       sa_recommended_action =
         (if bd_status b = BudgetCritical
          then ''Investigate immediately: '' @ name @ '' SLO is in breach. Review recent failures and latency issues.''
          else ''Monitor closely: '' @ name @ '' error budget is running low. Consider slowing feature velocity.''),
       sa_slo_name = name, sa_budget_remaining_percent = bd_percent b\<rparr>)"

definition checkAlerts :: "slo_monitor \<Rightarrow> slo_alert list" where
  "checkAlerts m =
     List.map_filter (\<lambda>(name, _). case getErrorBudget m name of
         None \<Rightarrow> None
       | Some b \<Rightarrow> if bd_status b = BudgetOk then None else Some (slo_alert_for name b)) m"

section \<open>Saving and restoring\<close>

record slo_snapshot =
  sn_total :: "nat option"
  sn_failures :: "rat option"
  sn_samples :: "rat list option"

definition slo_toJSON :: "slo_monitor \<Rightarrow> (string \<times> slo_snapshot) list" where
  "slo_toJSON m = map (\<lambda>(name, t). (name, \<lparr>sn_total = Some (st_total t), sn_failures = Some (st_failures t), sn_samples = Some (st_samples t)\<rparr>)) m"

definition restore_slo :: "slo_monitor \<Rightarrow> string \<times> slo_snapshot \<Rightarrow> slo_monitor" where
  "restore_slo m e =
     (let (name, s) = e in
      case jm_get m name of
        None \<Rightarrow> m
      | Some t \<Rightarrow> jm_set name (t\<lparr>st_total := (case sn_total s of None \<Rightarrow> 0 | Some n \<Rightarrow> n),
            st_failures := (case sn_failures s of None \<Rightarrow> 0 | Some x \<Rightarrow> x),
            st_samples := (case sn_samples s of None \<Rightarrow> [] | Some xs \<Rightarrow> xs)\<rparr>) m)"

definition slo_fromJSON :: "(string \<times> slo_snapshot) list \<Rightarrow> slo_monitor \<Rightarrow> slo_monitor" where
  "slo_fromJSON saved m = foldl restore_slo m saved"

section \<open>The manager and the periodic check\<close>

record metrics_manager =
  mm_metrics :: metrics
  mm_slo :: slo_monitor

definition new_metrics_manager :: "metrics_config \<Rightarrow> ms \<Rightarrow> metrics option \<Rightarrow> metrics_manager" where
  "new_metrics_manager c now hydrated = \<lparr>mm_metrics = createMetricsService c now hydrated, mm_slo = new_slo_monitor\<rparr>"

definition manager_recordRequest :: "metrics_config \<Rightarrow> ms \<Rightarrow> bool \<Rightarrow> string option \<Rightarrow> string option \<Rightarrow> metrics_manager \<Rightarrow> metrics_manager" where
  "manager_recordRequest c now ok code agent s =
     s\<lparr>mm_metrics := recordRequest c now ok code agent (mm_metrics s),
       mm_slo := recordMetric ''dispatch.success_rate'' (if ok then 0 else 1) (mm_slo s)\<rparr>"

definition manager_recordLatency :: "metrics_config \<Rightarrow> string \<Rightarrow> rat \<Rightarrow> metrics_manager \<Rightarrow> metrics_manager" where
  "manager_recordLatency c capability duration s =
     s\<lparr>mm_metrics := recordCapabilityLatency c capability duration (mm_metrics s),
       mm_slo := recordMetric ''dispatch.latency_p95_ms'' duration (mm_slo s)\<rparr>"

definition manager_persist :: "metrics_config \<Rightarrow> ms \<Rightarrow> metrics_manager \<Rightarrow> (metrics \<times> (string \<times> slo_snapshot) list) \<times> metrics_manager" where
  "manager_persist c now s =
     (let m = persistMetricsState c now (metrics_toJSON c now (mm_metrics s)) in ((m, slo_toJSON (mm_slo s)), s\<lparr>mm_metrics := m\<rparr>))"

text \<open>Every five seconds the server records the share of dead letters, as it sees it from the queue's statistics.\<close>

definition record_dead_letter_rate :: "ms \<Rightarrow> task_queue \<Rightarrow> slo_monitor \<Rightarrow> slo_monitor" where
  "record_dead_letter_rate now q m =
     (let stats = getStats now q in
      recordMetric ''async_queue.dead_letter_rate''
        (if qs_queue_depth stats > 0 then of_nat (qs_dead_letter_count stats) / of_nat (qs_queue_depth stats) else 0) m)"

section \<open>What a monitor knows\<close>

definition values_for :: "string \<Rightarrow> (string \<times> rat) list \<Rightarrow> rat list" where
  "values_for name rs = map snd (filter (\<lambda>r. fst r = name) rs)"

definition monitor_after :: "(string \<times> rat) list \<Rightarrow> slo_monitor" where
  "monitor_after rs = foldl (\<lambda>m (name, v). recordMetric name v m) new_slo_monitor rs"

definition tracked :: "string \<Rightarrow> rat list \<Rightarrow> slo_tracker \<Rightarrow> slo_tracker" where
  "tracked name vs t =
     (if is_latency name then t\<lparr>st_samples := keep_last max_slo_samples vs\<rparr>
      else t\<lparr>st_total := length vs, st_failures := sum_list (filter (\<lambda>v. v > 0) vs)\<rparr>)"

lemma keep_last_append: "keep_last n (keep_last n xs @ [x]) = keep_last n (xs @ [x])"
proof (cases "length xs \<le> n")
  case False
  then obtain k where k: "length xs - n = k" "length xs = n + k" by (metis le_add_diff_inverse nat_le_linear)
  show ?thesis using False by (cases n) (auto simp: keep_last_def k)
qed (simp add: keep_last_def)

lemma new_slo_tracker:
  "jm_get new_slo_monitor name = Some t \<Longrightarrow> st_total t = 0 \<and> st_failures t = 0 \<and> st_samples t = []"
  by (auto simp: new_slo_monitor_def fresh_tracker_def split: if_splits)

lemma tracked_none: "jm_get new_slo_monitor name = Some t \<Longrightarrow> tracked name [] t = t"
  using new_slo_tracker [of name t] by (cases t) (simp add: tracked_def keep_last_def)

lemma tracked_snoc:
  "(if is_latency name then (tracked name vs t)\<lparr>st_samples := keep_last max_slo_samples (st_samples (tracked name vs t) @ [v])\<rparr>
    else (tracked name vs t)\<lparr>st_total := st_total (tracked name vs t) + 1,
      st_failures := (if v > 0 then st_failures (tracked name vs t) + v else st_failures (tracked name vs t))\<rparr>) =
   tracked name (vs @ [v]) t"
  by (simp add: tracked_def keep_last_append)

text \<open>A monitor has exactly counted what was recorded under each name.\<close>

lemma monitor_tracks:
  "jm_get (monitor_after rs) name = map_option (tracked name (values_for name rs)) (jm_get new_slo_monitor name)"
proof (induction rs rule: rev_induct)
  case Nil
  show ?case using tracked_none [of name] by (cases "jm_get new_slo_monitor name") (simp_all add: monitor_after_def values_for_def)
next
  case (snoc r rs)
  obtain k v where r: "r = (k, v)" by (cases r)
  have step: "monitor_after (rs @ [r]) = recordMetric k v (monitor_after rs)" by (simp add: monitor_after_def r)
  show ?case
  proof (cases "k = name")
    case False
    then show ?thesis using snoc unfolding step by (simp add: recordMetric_def jm_get_set values_for_def r split: option.split)
  next
    case True
    then have v: "values_for name (rs @ [r]) = values_for name rs @ [v]" by (simp add: values_for_def r)
    show ?thesis
    proof (cases "jm_get new_slo_monitor name")
      case None
      then show ?thesis using snoc True unfolding step by (simp add: recordMetric_def)
    next
      case (Some t)
      then have g: "jm_get (monitor_after rs) name = Some (tracked name (values_for name rs) t)" using snoc by simp
      show ?thesis unfolding v Some option.map step True recordMetric_def g option.case
        by (simp only: jm_get_set if_True simp_thms tracked_snoc)
    qed
  qed
qed

lemma slo_names: "is_latency ''dispatch.latency_p95_ms''" "\<not> is_latency ''dispatch.success_rate''"
  "\<not> is_latency ''async_queue.dead_letter_rate''"
  by (simp_all add: is_latency_def)

section \<open>What the statuses mean\<close>

lemma rate_status:
  assumes "sl_target (st_slo t) < 1"
  shows "bd_status (computeRateBudget t) =
    (let budget = (1 - sl_target (st_slo t)) * of_nat (max (st_total t) 1) in
     if st_failures t > budget then BudgetCritical else if 2 * st_failures t > budget then BudgetWarning else BudgetOk)"
proof -
  define b where "b = (1 - sl_target (st_slo t)) * of_nat (max (st_total t) 1)"
  have "0 < (of_nat (max (st_total t) 1) :: rat)" by simp
  with assms have pos: "0 < b" unfolding b_def by (intro mult_pos_pos) simp_all
  then have half: "(b - st_failures t) / b * 100 < 50 \<longleftrightarrow> 2 * st_failures t > b" by (simp add: field_simps)
  have "bd_status (computeRateBudget t) = (if b - st_failures t < 0 then BudgetCritical
      else if (if b > 0 then (b - st_failures t) / b * 100 else 100) < 50 then BudgetWarning else BudgetOk)"
    by (simp only: computeRateBudget_def Let_def b_def error_budget.simps)
  then show ?thesis unfolding Let_def b_def [symmetric] using pos half by simp
qed

lemma latency_status:
  assumes "st_samples t \<noteq> []" and "0 < sl_target (st_slo t)"
  shows "bd_status (computeLatencyBudget t) =
    (let p95 = percentile (sort (st_samples t)) 95 in
     if p95 > sl_critical (st_slo t) then BudgetCritical else if 2 * p95 > sl_target (st_slo t) then BudgetWarning else BudgetOk)"
proof -
  define p where "p = percentile (sort (st_samples t)) 95"
  have "max 0 ((sl_target (st_slo t) - p) / sl_target (st_slo t) * 100) < 50 \<longleftrightarrow> 2 * p > sl_target (st_slo t)"
    using assms(2) by (simp add: field_simps max_less_iff_conj)
  moreover have "bd_status (computeLatencyBudget t) = (if p > sl_critical (st_slo t) then BudgetCritical
      else if max 0 ((sl_target (st_slo t) - p) / sl_target (st_slo t) * 100) < 50 then BudgetWarning else BudgetOk)"
    using assms(1) by (simp only: computeLatencyBudget_def Let_def p_def error_budget.simps if_False)
  ultimately show ?thesis unfolding Let_def p_def [symmetric] by simp
qed

text \<open>The success level is critical as soon as more than one request in a thousand failed, a warning from half of that on;
  the latency level compares the 95th percentile of the last ten thousand samples with 1000 and 250
  milliseconds.\<close>

theorem service_levels:
  assumes "fs = values_for ''dispatch.success_rate'' rs" and "ls = keep_last max_slo_samples (values_for ''dispatch.latency_p95_ms'' rs)"
    and "failed = sum_list (filter (\<lambda>v. v > 0) fs)" and "budget = of_nat (max (length fs) 1) / 1000"
  shows "map_option bd_status (getErrorBudget (monitor_after rs) ''dispatch.success_rate'') =
      Some (if failed > budget then BudgetCritical else if 2 * failed > budget then BudgetWarning else BudgetOk) \<and>
    map_option bd_status (getErrorBudget (monitor_after rs) ''dispatch.latency_p95_ms'') =
      Some (if ls = [] \<or> percentile (sort ls) 95 \<le> 250 then BudgetOk
            else if percentile (sort ls) 95 \<le> 1000 then BudgetWarning else BudgetCritical)"
proof
  have s: "jm_get (monitor_after rs) ''dispatch.success_rate'' =
      Some ((fresh_tracker ''dispatch.success_rate'' (999 / 1000) ''30d'' (99 / 100))\<lparr>st_total := length fs, st_failures := failed\<rparr>)"
    unfolding monitor_tracks using slo_names assms by (simp add: new_slo_monitor_def tracked_def)
  have b: "(1 - sl_target (st_slo (fresh_tracker ''dispatch.success_rate'' (999 / 1000) ''30d'' (99 / 100)))) *
      of_nat (max (length fs) 1) = budget"
    by (simp add: fresh_tracker_def assms(4))
  show "map_option bd_status (getErrorBudget (monitor_after rs) ''dispatch.success_rate'') =
      Some (if failed > budget then BudgetCritical else if 2 * failed > budget then BudgetWarning else BudgetOk)"
    using b by (simp add: getErrorBudget_def s slo_names rate_status Let_def fresh_tracker_def)
  have l: "jm_get (monitor_after rs) ''dispatch.latency_p95_ms'' =
      Some ((fresh_tracker ''dispatch.latency_p95_ms'' 500 ''30d'' 1000)\<lparr>st_samples := ls\<rparr>)"
    unfolding monitor_tracks using slo_names assms by (simp add: new_slo_monitor_def tracked_def)
  show "map_option bd_status (getErrorBudget (monitor_after rs) ''dispatch.latency_p95_ms'') =
      Some (if ls = [] \<or> percentile (sort ls) 95 \<le> 250 then BudgetOk
            else if percentile (sort ls) 95 \<le> 1000 then BudgetWarning else BudgetCritical)"
  proof (cases "ls = []")
    case True
    then show ?thesis by (simp add: getErrorBudget_def l slo_names computeLatencyBudget_def)
  next
    case False
    then show ?thesis by (simp add: getErrorBudget_def l slo_names latency_status Let_def fresh_tracker_def)
  qed
qed

theorem service_levels_witness:
  "map_option bd_status (getErrorBudget (monitor_after [(''dispatch.success_rate'', 1), (''dispatch.success_rate'', 0)]) ''dispatch.success_rate'')
     = Some BudgetCritical"
  using service_levels [OF refl refl refl refl, of "[(''dispatch.success_rate'', 1), (''dispatch.success_rate'', 0)]"]
  by (simp add: values_for_def)

text \<open>The dead-letter level has target 0.01 and critical 0.05, but its budget is \<open>1 - target\<close> of the checks: as long as no
  more than 49.5 per cent of the jobs are dead letters at each check, it is fine.\<close>

theorem dead_letters_unnoticed:
  assumes "\<forall>v \<in> set (values_for ''async_queue.dead_letter_rate'' rs). v \<le> 99 / 200"
  shows "map_option bd_status (getErrorBudget (monitor_after rs) ''async_queue.dead_letter_rate'') = Some BudgetOk"
proof -
  define vs where "vs = values_for ''async_queue.dead_letter_rate'' rs"
  have s: "jm_get (monitor_after rs) ''async_queue.dead_letter_rate'' =
      Some ((fresh_tracker ''async_queue.dead_letter_rate'' (1 / 100) ''30d'' (5 / 100))
        \<lparr>st_total := length vs, st_failures := sum_list (filter (\<lambda>v. v > 0) vs)\<rparr>)"
    unfolding monitor_tracks using slo_names by (simp add: new_slo_monitor_def tracked_def vs_def)
  have "sum_list (filter (\<lambda>v. v > 0) vs) \<le> 99 / 200 * of_nat (length vs)"
    using assms unfolding vs_def [symmetric] by (induction vs) (auto simp: field_simps)
  moreover have "(of_nat (length vs) :: rat) \<le> of_nat (max (length vs) 1)" "0 \<le> (of_nat (length vs) :: rat)" by simp_all
  ultimately have "2 * sum_list (filter (\<lambda>v. v > 0) vs) \<le> 99 / 100 * of_nat (max (length vs) 1)" by linarith
  moreover have "0 \<le> sum_list (filter (\<lambda>v. v > 0) vs)" by (intro sum_list_nonneg) auto
  ultimately show ?thesis by (simp add: getErrorBudget_def s slo_names rate_status Let_def fresh_tracker_def)
qed

theorem dead_letters_unnoticed_witness:
  "map_option bd_status (getErrorBudget (monitor_after (replicate 3 (''async_queue.dead_letter_rate'', 2 / 5))) ''async_queue.dead_letter_rate'')
     = Some BudgetOk"
  by (rule dead_letters_unnoticed) (simp add: values_for_def numeral_3_eq_3)

text \<open>Nor does it see any while the queue is empty.\<close>

lemma idle_queue_hides_dead_letters:
  "q_queue q = [] \<Longrightarrow> record_dead_letter_rate now q m = recordMetric ''async_queue.dead_letter_rate'' 0 m"
  by (simp add: record_dead_letter_rate_def getStats_def Let_def)

section \<open>Restoring\<close>

text \<open>Restored into a new monitor, a saved one is what it was.\<close>

lemma restore_get:
  "distinct (map fst saved) \<Longrightarrow> jm_get (slo_fromJSON saved m) name =
     (case (jm_get m name, map_of saved name) of
        (Some t, Some s) \<Rightarrow> Some (t\<lparr>st_total := (case sn_total s of None \<Rightarrow> 0 | Some n \<Rightarrow> n),
            st_failures := (case sn_failures s of None \<Rightarrow> 0 | Some x \<Rightarrow> x),
            st_samples := (case sn_samples s of None \<Rightarrow> [] | Some xs \<Rightarrow> xs)\<rparr>)
      | (t, _) \<Rightarrow> t)"
proof (induction saved rule: rev_induct)
  case Nil
  show ?case by (simp add: slo_fromJSON_def split: option.split)
next
  case (snoc e saved)
  obtain k s where e: "e = (k, s)" by (cases e)
  have "map_of saved k = None" using snoc.prems by (auto simp: e map_of_eq_None_iff)
  then show ?case using snoc
    by (cases "name = k"; cases "jm_get (slo_fromJSON saved m) name"; cases "jm_get m name"; cases "map_of saved name")
       (simp_all add: slo_fromJSON_def e restore_slo_def jm_get_set map_add_def split: option.split)
qed

lemma monitor_keys: "map fst (recordMetric name v m) = map fst m"
proof -
  have "map fst (jm_set k x m) = map fst m" if "jm_get m k \<noteq> None" for k x
    using that by (induction m) auto
  then show ?thesis by (auto simp: recordMetric_def split: option.split)
qed

lemma monitor_after_keys: "map fst (monitor_after rs) = map fst new_slo_monitor"
  by (induction rs rule: rev_induct) (auto simp: monitor_after_def monitor_keys)

lemma snapshot_get: "map_of (slo_toJSON m) name =
    map_option (\<lambda>t. \<lparr>sn_total = Some (st_total t), sn_failures = Some (st_failures t), sn_samples = Some (st_samples t)\<rparr>) (jm_get m name)"
  by (induction m) (auto simp: slo_toJSON_def)

theorem slo_restart: "jm_get (slo_fromJSON (slo_toJSON (monitor_after rs)) new_slo_monitor) name = jm_get (monitor_after rs) name"
proof -
  have "map fst (slo_toJSON (monitor_after rs)) = map fst new_slo_monitor"
    using monitor_after_keys [of rs] by (simp add: slo_toJSON_def case_prod_beta comp_def)
  then have d: "distinct (map fst (slo_toJSON (monitor_after rs)))" by (simp add: new_slo_monitor_def)
  show ?thesis unfolding restore_get [OF d] snapshot_get monitor_tracks
    by (cases "jm_get new_slo_monitor name") (simp_all add: tracked_def new_slo_tracker)
qed

end
