(* ===== verification/SigningUsage.thy ===== *)
theory SigningUsage
  imports TrustAnomaly AuditLog ReceiptStore Registry
begin

text \<open>
  Key usage: \<open>SigningAnomalyDetector\<close> of
  \<open>src/src/server/services/signing-anomaly-detector.ts\<close>: which keys signed the stored
  descriptors, receipts and checkpoints, what is odd about it, and whether the server
  meets its deployment profile. Ratios are exact rationals. A key id that is the name of
  a member of \<open>Object.prototype\<close>, which the code would add to that member, is not
  modelled.
\<close>

record detector =
  dc_retiring_ratio :: rat
  dc_unknown_ratio :: rat

record key_usage =
  ku_descriptors :: "(string, nat) jmap"
  ku_receipts :: "(string, nat) jmap"
  ku_checkpoints :: "(string, nat) jmap"

definition getEffectiveVerificationKeys :: "signing_world \<Rightarrow> (string \<Rightarrow> jsval option) \<Rightarrow> string set \<Rightarrow> sign_error + verification_key list" where
  "getEffectiveVerificationKeys W jwk revoked =
     (case getVerificationKeys W jwk of
        Inl e \<Rightarrow> Inl e
      | Inr keys \<Rightarrow> Inr (map (\<lambda>k. if vk_kid k \<in> revoked then k\<lparr>vk_status := KRevoked\<rparr> else k) keys))"

section \<open>Counting\<close>

definition count_id :: "(string, nat) jmap \<Rightarrow> string \<Rightarrow> (string, nat) jmap" where
  "count_id acc kid = jm_set kid ((case jm_get acc kid of None \<Rightarrow> 0 | Some n \<Rightarrow> n) + 1) acc"

definition known_or_unknown :: "string option \<Rightarrow> string" where
  "known_or_unknown kid = (case kid of None \<Rightarrow> ''unknown'' | Some k \<Rightarrow> if k = [] then ''unknown'' else k)"

text \<open>An empty key id counts as unknown for descriptors and checkpoints, and as itself for receipts.\<close>

definition receipt_key_id :: "signing_world \<Rightarrow> receipt \<Rightarrow> string" where
  "receipt_key_id W r =
     (case getSignatureKeyId W (case rc_signature r of None \<Rightarrow> [] | Some s \<Rightarrow> s) of None \<Rightarrow> ''unknown'' | Some k \<Rightarrow> k)"

definition collectSigningKeyUsage :: "signing_world \<Rightarrow> agent_descriptor list \<Rightarrow> receipt list \<Rightarrow> audit_checkpoint list \<Rightarrow> key_usage" where
  "collectSigningKeyUsage W descriptors receipts checkpoints =
     \<lparr>ku_descriptors = foldl (\<lambda>acc d. count_id acc (known_or_unknown (ad_key_id d))) [] descriptors,
      ku_receipts = foldl (\<lambda>acc r. count_id acc (receipt_key_id W r)) [] receipts,
      ku_checkpoints = foldl (\<lambda>acc c. count_id acc (known_or_unknown (Some (ck_key_id c)))) [] checkpoints\<rparr>"

section \<open>Anomalies\<close>

datatype anomaly_level = LevelOk | LevelWarning | LevelCritical

record usage_anomalies =
  ua_unknown_detected :: bool
  ua_retiring_detected :: bool
  ua_unknown_ratio :: rat
  ua_retiring_ratio :: rat
  ua_total :: nat
  ua_unknown_exceeded :: bool
  ua_retiring_exceeded :: bool
  ua_severity :: anomaly_level
  ua_recommended_action :: string

definition usage_entries :: "key_usage \<Rightarrow> (string \<times> nat) list" where
  "usage_entries u = ku_descriptors u @ ku_receipts u @ ku_checkpoints u"

definition entries_count :: "(string \<Rightarrow> bool) \<Rightarrow> (string \<times> nat) list \<Rightarrow> nat" where
  "entries_count P es = foldl (\<lambda>acc (kid, n). acc + (if P kid then n else 0)) 0 es"

definition usage_level :: "bool \<Rightarrow> bool \<Rightarrow> bool \<Rightarrow> anomaly_level" where
  "usage_level unknown_exceeded retiring_exceeded retiring =
     (if unknown_exceeded \<or> retiring_exceeded then LevelCritical else if retiring then LevelWarning else LevelOk)"

definition usage_advice :: "anomaly_level \<Rightarrow> string" where
  "usage_advice l =
     (case l of
        LevelCritical \<Rightarrow> ''Investigate unknown signing key usage immediately and rotate active keys if compromise is suspected.''
      | LevelWarning \<Rightarrow> ''Monitor retiring key usage and complete signing key migration to active keys.''
      | LevelOk \<Rightarrow> ''No action required.'')"

definition usage_report :: "detector \<Rightarrow> string list \<Rightarrow> (string \<times> nat) list \<Rightarrow> usage_anomalies" where
  "usage_report D retiring es =
     (let total = entries_count (\<lambda>_. True) es;
          unknown = list_ex (\<lambda>(kid, n). kid = ''unknown'' \<and> n > 0) es;
          old = list_ex (\<lambda>(kid, n). kid \<in> set retiring \<and> n > 0) es;
          unknown_ratio = (if total > 0 then of_nat (entries_count (\<lambda>k. k = ''unknown'') es) / of_nat total else 0);
          old_ratio = (if total > 0 then of_nat (entries_count (\<lambda>k. k \<in> set retiring) es) / of_nat total else 0);
          unknown_exceeded = (unknown \<and> unknown_ratio > dc_unknown_ratio D);
          old_exceeded = (old \<and> old_ratio > dc_retiring_ratio D);
          level = usage_level unknown_exceeded old_exceeded old
      in \<lparr>ua_unknown_detected = unknown, ua_retiring_detected = old, ua_unknown_ratio = unknown_ratio, ua_retiring_ratio = old_ratio,
          ua_total = total, ua_unknown_exceeded = unknown_exceeded, ua_retiring_exceeded = old_exceeded,
          ua_severity = level, ua_recommended_action = usage_advice level\<rparr>)"

definition collectSigningAnomalies :: "detector \<Rightarrow> signing_world \<Rightarrow> (string \<Rightarrow> jsval option) \<Rightarrow> key_usage \<Rightarrow> string set
    \<Rightarrow> sign_error + usage_anomalies" where
  "collectSigningAnomalies D W jwk u revoked =
     (case getEffectiveVerificationKeys W jwk revoked of
        Inl e \<Rightarrow> Inl e
      | Inr keys \<Rightarrow> Inr (usage_report D (map vk_kid (filter (\<lambda>k. vk_status k = KRetiring) keys)) (usage_entries u)))"

section \<open>Deployment profile\<close>

record profile_evaluation =
  pe_profile :: profile
  pe_compliant :: bool
  pe_violations :: "string list"

definition profile_violations :: "profile \<Rightarrow> bool option \<Rightarrow> bool option \<Rightarrow> verification_key list \<Rightarrow> string option \<Rightarrow> string list" where
  "profile_violations p enforce tenant keys active =
     (let signable = filter (\<lambda>k. vk_status k \<noteq> KRevoked) keys;
          key = (case active of None \<Rightarrow> None | Some kid \<Rightarrow> if str_trim kid = [] then None else find (\<lambda>k. vk_kid k = kid) signable)
      in (if p = Verified \<or> p = Regulated then
            (if enforce \<noteq> Some True then [''signed_requests_not_enforced''] else []) @
            (if key = None then [''active_signing_key_missing''] else []) @
            (if list_ex (\<lambda>k. js_truthy (vk_demo_only k)) signable then [''demo_signing_keys_present''] else []) @
            (if (case key of None \<Rightarrow> True | Some k \<Rightarrow> vk_alg k \<noteq> RS256) then [''active_key_not_rs256''] else []) @
            (if list_ex (\<lambda>k. vk_alg k \<noteq> RS256) signable then [''non_asymmetric_signing_keys_present''] else [])
          else []) @
         (if p = Regulated \<and> tenant \<noteq> Some True then [''tenant_required_not_enforced''] else []))"

definition evaluateDeploymentProfile :: "signing_world \<Rightarrow> (string \<Rightarrow> jsval option) \<Rightarrow> profile \<Rightarrow> bool option \<Rightarrow> bool option \<Rightarrow> string set
    \<Rightarrow> sign_error + profile_evaluation" where
  "evaluateDeploymentProfile W jwk p enforce tenant revoked =
     (case getEffectiveVerificationKeys W jwk revoked of
        Inl e \<Rightarrow> Inl e
      | Inr keys \<Rightarrow>
          (let vs = profile_violations p enforce tenant keys (getActiveSignatureKeyId W) in
           Inr \<lparr>pe_profile = p, pe_compliant = (vs = []), pe_violations = vs\<rparr>))"

section \<open>Lemmas\<close>

definition usage_of :: "(string, nat) jmap \<Rightarrow> string \<Rightarrow> nat" where
  "usage_of m k = (case jm_get m k of None \<Rightarrow> 0 | Some n \<Rightarrow> n)"

lemma usage_count_id: "usage_of (count_id acc kid) k = usage_of acc k + (if k = kid then 1 else 0)"
  by (auto simp: usage_of_def count_id_def jm_get_set)

lemma usage_fold: "usage_of (foldl (\<lambda>acc x. count_id acc (f x)) acc xs) k = usage_of acc k + length (filter (\<lambda>x. f x = k) xs)"
  by (induction xs arbitrary: acc) (auto simp: usage_count_id)

text \<open>The usage counts, for each key id, the artifacts that carry it.\<close>

lemma usage_exact:
  "usage_of (ku_descriptors (collectSigningKeyUsage W ds rs cs)) k = length (filter (\<lambda>d. known_or_unknown (ad_key_id d) = k) ds)"
  "usage_of (ku_receipts (collectSigningKeyUsage W ds rs cs)) k = length (filter (\<lambda>r. receipt_key_id W r = k) rs)"
  "usage_of (ku_checkpoints (collectSigningKeyUsage W ds rs cs)) k = length (filter (\<lambda>c. known_or_unknown (Some (ck_key_id c)) = k) cs)"
  by (simp_all only: collectSigningKeyUsage_def key_usage.simps usage_fold) (simp_all add: usage_of_def)

lemma effective_keys:
  "getEffectiveVerificationKeys W jwk revoked = Inr keys \<Longrightarrow> k \<in> set keys \<Longrightarrow> vk_status k \<noteq> KRevoked \<Longrightarrow>
   \<exists>ks s. getSigningKeys W = Inr ks \<and> s \<in> set ks \<and> sk_kid s = vk_kid k \<and> sk_alg s = vk_alg k \<and> sk_status s = vk_status k \<and> sk_kid s \<notin> revoked"
  by (auto simp: getEffectiveVerificationKeys_def getVerificationKeys_def publish_key_def Let_def split: sum.splits key_material.splits if_splits)
    blast+

text \<open>A server that meets the regulated profile enforces signed requests and tenants, its active key is an RS256 key that
  is not revoked, and it has no usable key of another algorithm.\<close>

theorem regulated_means:
  assumes "evaluateDeploymentProfile W jwk Regulated enforce tenant revoked = Inr e" and "pe_compliant e"
  shows "enforce = Some True \<and> tenant = Some True \<and>
    (\<exists>keys k. getSigningKeys W = Inr keys \<and> k \<in> set keys \<and> getActiveSignatureKeyId W = Some (sk_kid k) \<and> sk_alg k = RS256 \<and>
       sk_status k \<noteq> KRevoked \<and> sk_kid k \<notin> revoked \<and>
       (\<forall>k' \<in> set keys. sk_status k' \<noteq> KRevoked \<and> sk_kid k' \<notin> revoked \<longrightarrow> sk_alg k' = RS256))"
proof -
  from assms obtain vks where vks: "getEffectiveVerificationKeys W jwk revoked = Inr vks"
    and none: "profile_violations Regulated enforce tenant vks (getActiveSignatureKeyId W) = []"
    by (auto simp: evaluateDeploymentProfile_def Let_def split: sum.splits)
  let ?signable = "filter (\<lambda>k. vk_status k \<noteq> KRevoked) vks"
  from none obtain kid k where flags: "enforce = Some True" "tenant = Some True" and active: "getActiveSignatureKeyId W = Some kid"
    and found: "find (\<lambda>k. vk_kid k = kid) ?signable = Some k" and rs: "vk_alg k = RS256"
    and all: "\<forall>k \<in> set ?signable. vk_alg k = RS256"
    by (auto simp: profile_violations_def Let_def list_ex_iff split: option.splits if_splits)
  from found have k: "k \<in> set vks" "vk_status k \<noteq> KRevoked" "vk_kid k = kid" by (auto simp: find_Some_iff dest: nth_mem)
  from effective_keys [OF vks k(1,2)] obtain ks s where s: "getSigningKeys W = Inr ks" "s \<in> set ks" "sk_kid s = kid" "sk_alg s = RS256"
      "sk_status s \<noteq> KRevoked" "sk_kid s \<notin> revoked" using k(2,3) rs by auto
  have "sk_alg k' = RS256" if "k' \<in> set ks" "sk_status k' \<noteq> KRevoked" "sk_kid k' \<notin> revoked" for k'
  proof -
    have "publish_key jwk k' \<in> set ?signable"
      using that vks s(1) by (auto simp: getEffectiveVerificationKeys_def getVerificationKeys_def publish_key_def Let_def image_iff
        split: key_material.splits intro!: bexI [of _ k'])
    then have "vk_alg (publish_key jwk k') = RS256" using all by blast
    then show ?thesis by (auto simp: publish_key_def Let_def split: key_material.splits)
  qed
  then show ?thesis using flags active s by blast
qed

text \<open>The report knows two kinds of oddity only: the text \<open>unknown\<close> in place of a key id, and keys that are retiring. A
  signature under a key id that no key has, or under a revoked key, raises nothing.\<close>

theorem foreign_keys_unnoticed:
  assumes "getEffectiveVerificationKeys W jwk revoked = Inr keys"
    and "\<forall>(kid, n) \<in> set (usage_entries u). kid \<noteq> ''unknown'' \<and> (\<forall>k \<in> set keys. vk_kid k = kid \<longrightarrow> vk_status k \<noteq> KRetiring)"
  shows "\<exists>r. collectSigningAnomalies D W jwk u revoked = Inr r \<and> ua_severity r = LevelOk \<and>
    \<not> ua_unknown_detected r \<and> \<not> ua_retiring_detected r"
proof -
  let ?old = "map vk_kid (filter (\<lambda>k. vk_status k = KRetiring) keys)"
  have "\<not> list_ex (\<lambda>(kid, n). kid = ''unknown'' \<and> n > 0) (usage_entries u)" "\<not> list_ex (\<lambda>(kid, n). kid \<in> set ?old \<and> n > 0) (usage_entries u)"
    using assms(2) by (fastforce simp: list_ex_iff)+
  then show ?thesis using assms(1) by (simp add: collectSigningAnomalies_def usage_report_def Let_def usage_level_def)
qed

end
