(* ===== verification/Alerts.thy ===== *)
theory Alerts
  imports SloMonitor SigningUsage
begin

text \<open>
  Alerts: \<open>AlertService\<close> of \<open>src/src/server/services/alerts.ts\<close>, with
  \<open>hydrateAlertState\<close> and \<open>persistAlertState\<close> of \<open>server/state.ts\<close> and what
  \<open>server/index.ts\<close> hands to it. Times are ISO texts of the clock's value;
  \<open>Date.parse\<close> of a stored text is a parameter.
\<close>

section \<open>State\<close>

datatype alert_source = FromQueue | FromRequests | FromSigning | FromSlo

record alert_candidate =
  al_id :: string
  al_source :: alert_source
  al_code :: string
  al_critical :: bool
  al_message :: string
  al_recommended_action :: string
  al_tenant_id :: "string option"
  al_slo_name :: "string option"
  al_budget :: "rat option"

record alert_record = alert_candidate +
  al_first_seen :: string
  al_last_seen :: string
  al_acknowledged_at :: "string option"
  al_acknowledged_by :: "string option"
  al_suppressed_until :: "string option"
  al_suppressed_by :: "string option"

type_synonym alert_state = "(string, alert_record) jmap"

record alert_limits =
  lim_dead_letters :: "nat option"
  lim_dead_letter_age :: "ms option"
  lim_failure_rate :: "rat option"

text \<open>What the service is told when it computes candidates.\<close>

record alert_inputs =
  in_queue :: queue_stats
  in_failure_rate :: rat
  in_dead_letter_count :: nat
  in_anomalies :: usage_anomalies
  in_slo_alerts :: "slo_alert list"

record alert_breaches =
  br_dead_letters :: bool
  br_dead_letter_age :: bool
  br_failure_rate :: bool

section \<open>Candidates\<close>

definition evaluateThresholds :: "alert_limits \<Rightarrow> alert_inputs \<Rightarrow> alert_breaches" where
  "evaluateThresholds L i =
     \<lparr>br_dead_letters = (case lim_dead_letters L of None \<Rightarrow> False | Some n \<Rightarrow> in_dead_letter_count i > n),
      br_dead_letter_age = (case (lim_dead_letter_age L, qs_oldest_dead_letter_age_ms (in_queue i)) of
          (Some n, Some age) \<Rightarrow> age > n | _ \<Rightarrow> False),
      br_failure_rate = (case lim_failure_rate L of None \<Rightarrow> False | Some r \<Rightarrow> in_failure_rate i > r)\<rparr>"

definition nonempty_tenant :: "string option \<Rightarrow> string option" where
  "nonempty_tenant t = (if t = Some [] then None else t)"

definition scope_suffix :: "string option \<Rightarrow> string" where
  "scope_suffix t = (case nonempty_tenant t of None \<Rightarrow> '':global'' | Some x \<Rightarrow> '':'' @ x)"

definition candidate :: "string option \<Rightarrow> string \<Rightarrow> alert_source \<Rightarrow> string \<Rightarrow> bool \<Rightarrow> string \<Rightarrow> string \<Rightarrow> alert_candidate" where
  "candidate tenant ident source code critical message advice =
     \<lparr>al_id = ident @ scope_suffix tenant, al_source = source, al_code = code, al_critical = critical, al_message = message,
      al_recommended_action = advice, al_tenant_id = nonempty_tenant tenant, al_slo_name = None, al_budget = None\<rparr>"

definition slo_candidate :: "string option \<Rightarrow> slo_alert \<Rightarrow> alert_candidate" where
  "slo_candidate tenant a =
     \<lparr>al_id = sa_id a @ scope_suffix tenant, al_source = FromSlo, al_code = sa_code a, al_critical = sa_critical a,
      al_message = sa_message a, al_recommended_action = sa_recommended_action a, al_tenant_id = nonempty_tenant tenant,
      al_slo_name = Some (sa_slo_name a), al_budget = Some (sa_budget_remaining_percent a)\<rparr>"

definition computeAlertCandidates :: "alert_limits \<Rightarrow> alert_inputs \<Rightarrow> string option \<Rightarrow> alert_candidate list" where
  "computeAlertCandidates L i tenant =
     (let b = evaluateThresholds L i; an = in_anomalies i in
      (if br_dead_letters b then
         [candidate tenant ''alert:queue:dead_letter_count_exceeded'' FromQueue ''dead_letter_count_exceeded'' False
            ''Dead-letter count exceeded configured threshold.''
            ''Inspect dead letters and remediate recurring execution failures.''] else []) @
      (if br_dead_letter_age b then
         [candidate tenant ''alert:queue:oldest_dead_letter_age_exceeded'' FromQueue ''oldest_dead_letter_age_exceeded'' False
            ''Oldest dead-letter age exceeded configured threshold.''
            ''Investigate stalled failures and clear or replay dead-letter tasks.''] else []) @
      (if br_failure_rate b then
         [candidate tenant ''alert:requests:failure_rate_exceeded'' FromRequests ''request_failure_rate_exceeded'' False
            ''Request failure rate exceeded configured threshold.''
            ''Check recent errors and mitigate root causes before traffic impact grows.''] else []) @
      (if ua_unknown_detected an then
         [candidate tenant ''alert:signing:unknown_key_usage'' FromSigning ''unknown_key_usage_detected'' (ua_unknown_exceeded an)
            ''Unknown signing key usage was detected.'' (ua_recommended_action an)] else []) @
      (if ua_retiring_detected an then
         [candidate tenant ''alert:signing:retiring_key_usage'' FromSigning ''retiring_key_usage_detected'' (ua_retiring_exceeded an)
            ''Retiring signing key usage was detected.'' (ua_recommended_action an)] else []) @
      map (slo_candidate tenant) (in_slo_alerts i))"

section \<open>Life cycle\<close>

definition new_alert :: "string \<Rightarrow> alert_candidate \<Rightarrow> alert_record" where
  "new_alert now c = alert_candidate.extend c
     \<lparr>al_first_seen = now, al_last_seen = now, al_acknowledged_at = None, al_acknowledged_by = None,
      al_suppressed_until = None, al_suppressed_by = None\<rparr>"

definition or_kept :: "'a option \<Rightarrow> 'a option \<Rightarrow> 'a option" where
  "or_kept x old = (case x of None \<Rightarrow> old | Some v \<Rightarrow> Some v)"

text \<open>\<open>{...existing, ...candidate}\<close>: what the candidate does not have is kept.\<close>

definition seen_again :: "string \<Rightarrow> alert_record \<Rightarrow> alert_candidate \<Rightarrow> alert_record" where
  "seen_again now old c =
     old\<lparr>al_id := al_id c, al_source := al_source c, al_code := al_code c, al_critical := al_critical c, al_message := al_message c,
         al_recommended_action := al_recommended_action c, al_tenant_id := or_kept (al_tenant_id c) (al_tenant_id old),
         al_slo_name := or_kept (al_slo_name c) (al_slo_name old), al_budget := or_kept (al_budget c) (al_budget old),
         al_first_seen := al_first_seen old, al_last_seen := now\<rparr>"

definition note_candidate :: "string \<Rightarrow> alert_state \<Rightarrow> alert_candidate \<Rightarrow> alert_state" where
  "note_candidate now st c =
     jm_set (al_id c) (case jm_get st (al_id c) of None \<Rightarrow> new_alert now c | Some old \<Rightarrow> seen_again now old c) st"

definition same_scope :: "string option \<Rightarrow> alert_record \<Rightarrow> bool" where
  "same_scope tenant a = (case nonempty_tenant tenant of None \<Rightarrow> al_tenant_id a = None | Some t \<Rightarrow> al_tenant_id a = Some t)"

definition touch_inactive :: "string \<Rightarrow> string option \<Rightarrow> string set \<Rightarrow> alert_state \<Rightarrow> alert_state" where
  "touch_inactive now tenant active st =
     map (\<lambda>(k, a). (k, if same_scope tenant a \<and> k \<notin> active then a\<lparr>al_last_seen := now\<rparr> else a)) st"

definition is_shown :: "(string \<Rightarrow> ms option) \<Rightarrow> ms \<Rightarrow> alert_record \<Rightarrow> bool" where
  "is_shown date now a =
     (case al_suppressed_until a of
        None \<Rightarrow> True
      | Some s \<Rightarrow> if s = [] then True else case date s of None \<Rightarrow> True | Some t \<Rightarrow> t \<le> now)"

text \<open>The sort is stable and puts critical alerts first.\<close>

definition critical_first :: "alert_record list \<Rightarrow> alert_record list" where
  "critical_first as = filter al_critical as @ filter (\<lambda>a. \<not> al_critical a) as"

definition getActiveAlerts :: "(string \<Rightarrow> ms option) \<Rightarrow> ms \<Rightarrow> alert_limits \<Rightarrow> alert_inputs \<Rightarrow> string option \<Rightarrow> alert_state
    \<Rightarrow> alert_record list \<times> alert_state" where
  "getActiveAlerts date now L i tenant st =
     (let cs = computeAlertCandidates L i tenant; active = set (map al_id cs);
          st1 = touch_inactive (toISOString now) tenant active (foldl (note_candidate (toISOString now)) st cs)
      in (critical_first (filter (\<lambda>a. al_id a \<in> active \<and> is_shown date now a) (jm_vals st1)), st1))"

section \<open>Management\<close>

definition acknowledgeAlert :: "ms \<Rightarrow> string \<Rightarrow> string \<Rightarrow> alert_state \<Rightarrow> alert_record option \<times> alert_state" where
  "acknowledgeAlert now ident actor st =
     (case jm_get st ident of
        None \<Rightarrow> (None, st)
      | Some a \<Rightarrow> (let u = a\<lparr>al_acknowledged_at := Some (toISOString now), al_acknowledged_by := Some actor\<rparr> in (Some u, jm_set ident u st)))"

definition suppressAlert :: "ms \<Rightarrow> string \<Rightarrow> ms \<Rightarrow> string option \<Rightarrow> alert_state \<Rightarrow> alert_record option \<times> alert_state" where
  "suppressAlert now ident duration actor st =
     (case jm_get st ident of
        None \<Rightarrow> (None, st)
      | Some a \<Rightarrow>
          (let a1 = a\<lparr>al_suppressed_until := Some (toISOString (now + max 0 duration))\<rparr>;
               u = (case actor of None \<Rightarrow> a1 | Some w \<Rightarrow> if w = [] then a1 else a1\<lparr>al_suppressed_by := Some w\<rparr>)
           in (Some u, jm_set ident u st)))"

definition alerts_toJSON :: "alert_state \<Rightarrow> alert_record list" where
  "alerts_toJSON st = jm_vals st"

definition load_alert :: "alert_state \<Rightarrow> alert_record \<Rightarrow> alert_state" where
  "load_alert st a = (if al_id a = [] then st else jm_set (al_id a) a st)"

definition alerts_fromJSON :: "alert_record list \<Rightarrow> alert_state" where
  "alerts_fromJSON as = foldl load_alert [] as"

text \<open>A store file holds a list of alerts, or nothing readable.\<close>

definition persistAlertState :: "alert_state \<Rightarrow> alert_record list" where
  "persistAlertState st = jm_vals st"

definition hydrateAlertState :: "alert_record list option \<Rightarrow> alert_state \<Rightarrow> alert_state" where
  "hydrateAlertState file st = (case file of None \<Rightarrow> st | Some as \<Rightarrow> foldl load_alert st as)"

section \<open>What the server hands in\<close>

definition server_alert_inputs :: "detector \<Rightarrow> signing_world \<Rightarrow> (string \<Rightarrow> jsval option) \<Rightarrow> string set \<Rightarrow> metrics_config \<Rightarrow> ms
    \<Rightarrow> task_queue \<Rightarrow> metrics_manager \<Rightarrow> receipt_store \<Rightarrow> registry \<Rightarrow> audit_log \<Rightarrow> string option \<Rightarrow> sign_error + alert_inputs" where
  "server_alert_inputs D W jwk revoked c now q mm receipts reg audit tenant =
     (case collectSigningAnomalies D W jwk
             (collectSigningKeyUsage W (registry_list reg) (receipt_list receipts (nonempty_tenant tenant)) (au_checkpoints audit)) revoked of
        Inl e \<Rightarrow> Inl e
      | Inr an \<Rightarrow> Inr
          \<lparr>in_queue = getStats now q, in_failure_rate = getFailureRate c now (mm_metrics mm),
           in_dead_letter_count = (case nonempty_tenant tenant of
               None \<Rightarrow> qs_dead_letter_count (getStats now q) | Some t \<Rightarrow> length (listDeadLettersByTenant t q)),
           in_anomalies = an, in_slo_alerts = checkAlerts (mm_slo mm)\<rparr>)"

section \<open>The state under its operations\<close>

datatype alert_op =
    Check "string \<Rightarrow> ms option" ms alert_limits alert_inputs "string option"
  | Acknowledge ms string string
  | Suppress ms string ms "string option"
  | RestartAlerts

fun alert_step :: "alert_state \<Rightarrow> alert_op \<Rightarrow> alert_state" where
  "alert_step st (Check date now L i tenant) = snd (getActiveAlerts date now L i tenant st)"
| "alert_step st (Acknowledge now ident actor) = snd (acknowledgeAlert now ident actor st)"
| "alert_step st (Suppress now ident duration actor) = snd (suppressAlert now ident duration actor st)"
| "alert_step st RestartAlerts = hydrateAlertState (Some (persistAlertState st)) []"

text \<open>What is kept of an alert: when it was first seen, who acknowledged it and until when it is suppressed.\<close>

definition history :: "alert_record \<Rightarrow> string \<times> (string option \<times> string option) \<times> string option \<times> string option" where
  "history a = (al_first_seen a, (al_acknowledged_at a, al_acknowledged_by a), al_suppressed_until a, al_suppressed_by a)"

definition fresh_history :: "string \<Rightarrow> string \<times> (string option \<times> string option) \<times> string option \<times> string option" where
  "fresh_history now = (now, (None, None), None, None)"

definition alerts_ok :: "alert_state \<Rightarrow> bool" where
  "alerts_ok st \<longleftrightarrow> jm_wf st \<and> list_all (\<lambda>(k, a). al_id a = k \<and> k \<noteq> []) st"

lemma history_new [simp]: "history (new_alert now c) = fresh_history now" "al_id (new_alert now c) = al_id c" "al_last_seen (new_alert now c) = now"
  by (simp_all add: history_def fresh_history_def new_alert_def alert_candidate.defs)

lemma history_again [simp]: "history (seen_again now old c) = history old" "al_id (seen_again now old c) = al_id c"
    "al_last_seen (seen_again now old c) = now" "al_critical (seen_again now old c) = al_critical c"
  by (simp_all add: history_def seen_again_def)

lemma alerts_ok_set:
  assumes "alerts_ok st" and "al_id a = k" and "k \<noteq> []"
  shows "alerts_ok (jm_set k a st)"
proof -
  have "set (jm_set k a st) \<subseteq> insert (k, a) (set st)" by (induction st) auto
  then show ?thesis using assms by (auto simp: alerts_ok_def list_all_iff)
qed

lemma alerts_ok_get: "alerts_ok st \<Longrightarrow> jm_get st k = Some a \<Longrightarrow> al_id a = k \<and> k \<noteq> []"
  by (auto simp: alerts_ok_def list_all_iff dest!: map_of_SomeD)

lemma candidate_ids: "c \<in> set (computeAlertCandidates L i tenant) \<Longrightarrow> list_all (\<lambda>a. sa_id a \<noteq> []) (in_slo_alerts i) \<Longrightarrow> al_id c \<noteq> []"
  by (auto simp: computeAlertCandidates_def Let_def candidate_def slo_candidate_def list_all_iff split: if_splits)

lemma touch_get: "jm_get (touch_inactive now tenant active st) k =
    map_option (\<lambda>a. if same_scope tenant a \<and> k \<notin> active then a\<lparr>al_last_seen := now\<rparr> else a) (jm_get st k)"
  by (induction st) (auto simp: touch_inactive_def)

lemma touch_ok: "alerts_ok st \<Longrightarrow> alerts_ok (touch_inactive now tenant active st)"
proof -
  assume ok: "alerts_ok st"
  have "map fst (touch_inactive now tenant active st) = map fst st" by (simp add: touch_inactive_def case_prod_beta comp_def)
  then have "jm_wf (touch_inactive now tenant active st)" using ok by (simp add: alerts_ok_def jm_wf_def)
  then show ?thesis using ok by (auto simp: alerts_ok_def list_all_iff touch_inactive_def)
qed

lemma note_fold:
  assumes "\<forall>c \<in> set cs. al_id c \<noteq> []"
  shows "(alerts_ok st \<longrightarrow> alerts_ok (foldl (note_candidate now) st cs)) \<and>
    (k \<notin> set (map al_id cs) \<longrightarrow> jm_get (foldl (note_candidate now) st cs) k = jm_get st k) \<and>
    (k \<in> set (map al_id cs) \<longrightarrow> (\<exists>a. jm_get (foldl (note_candidate now) st cs) k = Some a \<and> al_last_seen a = now \<and>
       history a = (case jm_get st k of None \<Rightarrow> fresh_history now | Some old \<Rightarrow> history old) \<and>
       (\<exists>c \<in> set cs. al_id c = k \<and> al_critical a = al_critical c)))"
  using assms
proof (induction cs rule: rev_induct)
  case (snoc c cs)
  let ?st = "foldl (note_candidate now) st cs"
  have ok: "alerts_ok st \<longrightarrow> alerts_ok (note_candidate now ?st c)"
    using snoc unfolding note_candidate_def by (auto intro!: alerts_ok_set split: option.split)
  show ?case
  proof (cases "k = al_id c")
    case False
    then have "jm_get (note_candidate now ?st c) k = jm_get ?st k" by (simp add: note_candidate_def jm_get_set)
    then show ?thesis using snoc ok False by auto
  next
    case True
    have "history (case jm_get ?st k of None \<Rightarrow> new_alert now c | Some old \<Rightarrow> seen_again now old c) =
        (case jm_get st k of None \<Rightarrow> fresh_history now | Some old \<Rightarrow> history old)"
      using snoc by (cases "k \<in> set (map al_id cs)") (auto split: option.splits)
    moreover have "al_critical (case jm_get ?st k of None \<Rightarrow> new_alert now c | Some old \<Rightarrow> seen_again now old c) = al_critical c"
      by (simp add: new_alert_def alert_candidate.defs split: option.split)
    moreover have "al_last_seen (case jm_get ?st k of None \<Rightarrow> new_alert now c | Some old \<Rightarrow> seen_again now old c) = now"
      by (simp split: option.split)
    moreover have "jm_get (note_candidate now ?st c) k = Some (case jm_get ?st k of None \<Rightarrow> new_alert now c | Some old \<Rightarrow> seen_again now old c)"
      by (simp add: note_candidate_def jm_get_set True)
    ultimately show ?thesis using ok True by auto
  qed
qed simp

text \<open>After a look at the alerts, every record has its history, active ones a new one if they had none.\<close>

lemma check_state:
  assumes "list_all (\<lambda>a. sa_id a \<noteq> []) (in_slo_alerts i)" and "cs = computeAlertCandidates L i tenant"
  shows "alerts_ok st \<Longrightarrow> alerts_ok (snd (getActiveAlerts date now L i tenant st))"
    and "map_option history (jm_get (snd (getActiveAlerts date now L i tenant st)) k) =
      (case jm_get st k of None \<Rightarrow> if k \<in> set (map al_id cs) then Some (fresh_history (toISOString now)) else None | Some old \<Rightarrow> Some (history old))"
    and "k \<in> set (map al_id cs) \<Longrightarrow> \<exists>a. jm_get (snd (getActiveAlerts date now L i tenant st)) k = Some a \<and> al_last_seen a = toISOString now"
proof -
  have ids: "\<forall>c \<in> set cs. al_id c \<noteq> []" using candidate_ids [OF _ assms(1)] assms(2) by blast
  note fold = note_fold [OF ids]
  have st': "snd (getActiveAlerts date now L i tenant st) =
      touch_inactive (toISOString now) tenant (set (map al_id cs)) (foldl (note_candidate (toISOString now)) st cs)"
    by (simp add: getActiveAlerts_def Let_def assms(2))
  show "alerts_ok st \<Longrightarrow> alerts_ok (snd (getActiveAlerts date now L i tenant st))"
    unfolding st' using fold touch_ok by blast
  have h: "history (a\<lparr>al_last_seen := x\<rparr>) = history a" for a x by (simp add: history_def)
  show "map_option history (jm_get (snd (getActiveAlerts date now L i tenant st)) k) =
      (case jm_get st k of None \<Rightarrow> if k \<in> set (map al_id cs) then Some (fresh_history (toISOString now)) else None | Some old \<Rightarrow> Some (history old))"
    unfolding st' touch_get using fold [of st "toISOString now" k] by (auto simp: h split: option.splits)
  show "k \<in> set (map al_id cs) \<Longrightarrow> \<exists>a. jm_get (snd (getActiveAlerts date now L i tenant st)) k = Some a \<and> al_last_seen a = toISOString now"
    unfolding st' touch_get using fold [of st "toISOString now" k] by auto
qed

lemma load_get: "jm_get (foldl load_alert st as) k =
    (case map_of (rev (map (\<lambda>a. (al_id a, a)) as)) k of Some a \<Rightarrow> if k = [] then jm_get st k else Some a | None \<Rightarrow> jm_get st k)"
  by (induction as rule: rev_induct) (auto simp: load_alert_def jm_get_set split: option.splits)

lemma alerts_restart: "alerts_ok st \<Longrightarrow> alerts_fromJSON (alerts_toJSON st) = st"
proof -
  have "foldl load_alert pre (map snd st) = pre @ st" if "alerts_ok (pre @ st)" for pre
    using that
  proof (induction st arbitrary: pre)
    case (Cons e st)
    obtain k a where e: "e = (k, a)" by (cases e)
    have a: "al_id a = k" "k \<noteq> []" and "k \<notin> fst ` set pre"
      using Cons.prems by (auto simp: alerts_ok_def list_all_iff e jm_wf_def)
    then have "jm_get pre k = None" by (simp add: map_of_eq_None_iff)
    then have "load_alert pre a = pre @ [(k, a)]" by (simp add: load_alert_def a jm_set_new)
    then show ?case using Cons.IH [of "pre @ [(k, a)]"] Cons.prems by (simp add: e)
  qed simp
  from this [of "[]"] show "alerts_ok st \<Longrightarrow> alerts_fromJSON (alerts_toJSON st) = st"
    by (simp add: alerts_fromJSON_def alerts_toJSON_def jm_vals_def)
qed

definition op_ok :: "alert_op \<Rightarrow> bool" where
  "op_ok x = (case x of Check _ _ _ i _ \<Rightarrow> list_all (\<lambda>a. sa_id a \<noteq> []) (in_slo_alerts i) | _ \<Rightarrow> True)"

lemma alert_step_ok: "alerts_ok st \<Longrightarrow> op_ok x \<Longrightarrow> alerts_ok (alert_step st x)"
proof (cases x)
  case (Check date now L i tenant)
  then show "alerts_ok st \<Longrightarrow> op_ok x \<Longrightarrow> ?thesis" using check_state(1) by (simp add: op_ok_def)
next
  case (Acknowledge now ident actor)
  then show "alerts_ok st \<Longrightarrow> ?thesis"
    by (auto simp: acknowledgeAlert_def Let_def dest: alerts_ok_get intro!: alerts_ok_set split: option.split)
next
  case (Suppress now ident duration actor)
  then show "alerts_ok st \<Longrightarrow> ?thesis"
    by (auto simp: suppressAlert_def Let_def dest: alerts_ok_get intro!: alerts_ok_set split: option.split)
next
  case RestartAlerts
  then show "alerts_ok st \<Longrightarrow> ?thesis"
    using alerts_restart [of st] by (simp add: hydrateAlertState_def persistAlertState_def alerts_fromJSON_def alerts_toJSON_def)
qed

interpretation alerts: invariant_system alert_step op_ok alerts_ok
  by unfold_locales (rule alert_step_ok)

section \<open>Properties\<close>

lemma step_history:
  assumes "map_option history (jm_get st k) = Some h" and "op_ok x" and "alerts_ok st"
  shows "\<exists>h'. map_option history (jm_get (alert_step st x) k) = Some h' \<and> fst h' = fst h \<and> (fst (fst (snd h)) \<noteq> None \<longrightarrow> fst (fst (snd h')) \<noteq> None)"
proof (cases x)
  case (Check date now L i tenant)
  have "list_all (\<lambda>a. sa_id a \<noteq> []) (in_slo_alerts i)" using assms(2) by (simp add: op_ok_def Check)
  from check_state(2) [OF this refl, of date now L tenant st k]
  have "map_option history (jm_get (alert_step st x) k) = Some h" using assms(1) by (auto simp: Check split: option.splits)
  then show ?thesis by blast
next
  case (Acknowledge now ident actor)
  then show ?thesis using assms(1)
    by (auto simp: acknowledgeAlert_def Let_def jm_get_set history_def split: option.split)
next
  case (Suppress now ident duration actor)
  then show ?thesis using assms(1)
    by (auto simp: suppressAlert_def Let_def jm_get_set history_def split: option.split)
next
  case RestartAlerts
  have "alert_step st x = st" unfolding RestartAlerts
    using alerts_restart [OF assms(3)] by (simp add: hydrateAlertState_def persistAlertState_def alerts_fromJSON_def alerts_toJSON_def)
  then have "map_option history (jm_get (alert_step st x) k) = Some h" using assms(1) by simp
  then show ?thesis by blast
qed

text \<open>The list a client gets: one alert per condition that holds now and is not suppressed, critical ones first; each was
  last seen now, and first when it was first noted.\<close>

theorem active_alerts_exact:
  assumes "alerts_ok st" and "list_all (\<lambda>a. sa_id a \<noteq> []) (in_slo_alerts i)"
    and "getActiveAlerts date now L i tenant st = (as, st')"
  shows "distinct (map al_id as) \<and>
    set (map al_id as) = {al_id c | c. c \<in> set (computeAlertCandidates L i tenant) \<and>
      (case jm_get st (al_id c) of None \<Rightarrow> True | Some old \<Rightarrow> is_shown date now old)} \<and>
    sorted (map (\<lambda>a. \<not> al_critical a) as) \<and>
    (\<forall>a \<in> set as. al_last_seen a = toISOString now \<and>
       al_first_seen a = (case jm_get st (al_id a) of None \<Rightarrow> toISOString now | Some old \<Rightarrow> al_first_seen old))"
proof -
  let ?cs = "computeAlertCandidates L i tenant"
  have st': "st' = snd (getActiveAlerts date now L i tenant st)" using assms(3) by simp
  note cs = check_state [OF assms(2) refl]
  have ok: "alerts_ok st'" unfolding st' by (rule cs(1) [OF assms(1)])
  have as: "as = critical_first (filter (\<lambda>a. al_id a \<in> set (map al_id ?cs) \<and> is_shown date now a) (jm_vals st'))"
    using assms(3) by (auto simp: getActiveAlerts_def Let_def)
  have wf: "jm_wf st'" using ok by (simp add: alerts_ok_def)
  have vals: "a \<in> set (jm_vals st') \<longleftrightarrow> jm_get st' (al_id a) = Some a" for a
    using jm_vals_get [OF wf] alerts_ok_get [OF ok] by metis
  have ids: "map al_id (jm_vals st') = map fst st'"
    using ok by (auto simp: alerts_ok_def list_all_iff jm_vals_def)
  have dist: "distinct (map al_id (filter P (jm_vals st')))" for P
    using wf ids by (metis distinct_map_filter jm_wf_def)
  have mem: "a \<in> set as \<longleftrightarrow> jm_get st' (al_id a) = Some a \<and> al_id a \<in> set (map al_id ?cs) \<and> is_shown date now a" for a
    unfolding as critical_first_def using vals by auto
  have shown: "is_shown date now a = (case jm_get st k of None \<Rightarrow> True | Some old \<Rightarrow> is_shown date now old)"
      "al_first_seen a = (case jm_get st k of None \<Rightarrow> toISOString now | Some old \<Rightarrow> al_first_seen old)"
    if "jm_get st' k = Some a" "k \<in> set (map al_id ?cs)" for a k
    using cs(2) [of date now L tenant st k] that unfolding st' [symmetric]
    by (auto simp: history_def fresh_history_def is_shown_def split: option.splits)
  have "distinct (map al_id as)"
  proof -
    have "distinct (map al_id (filter al_critical xs @ filter (\<lambda>a. \<not> al_critical a) xs))" if "distinct (map al_id xs)" for xs
      using that by (auto simp: distinct_map inj_on_def)
    then show ?thesis unfolding as critical_first_def using dist by blast
  qed
  moreover have "set (map al_id as) = {al_id c | c. c \<in> set ?cs \<and> (case jm_get st (al_id c) of None \<Rightarrow> True | Some old \<Rightarrow> is_shown date now old)}"
  proof (intro set_eqI iffI)
    fix k assume "k \<in> set (map al_id as)"
    then obtain a where a: "al_id a = k" "a \<in> set as" by auto
    then show "k \<in> {al_id c | c. c \<in> set ?cs \<and> (case jm_get st (al_id c) of None \<Rightarrow> True | Some old \<Rightarrow> is_shown date now old)}"
      using mem [of a] shown(1) [of k a] by auto
  next
    fix k assume "k \<in> {al_id c | c. c \<in> set ?cs \<and> (case jm_get st (al_id c) of None \<Rightarrow> True | Some old \<Rightarrow> is_shown date now old)}"
    then have k: "k \<in> set (map al_id ?cs)" "case jm_get st k of None \<Rightarrow> True | Some old \<Rightarrow> is_shown date now old" by auto
    from cs(3) [OF k(1)] obtain a where a: "jm_get st' k = Some a" unfolding st' by blast
    then have "al_id a = k" using alerts_ok_get [OF ok] by blast
    then have "a \<in> set as" using mem [of a] a k shown(1) [OF a k(1)] by simp
    then show "k \<in> set (map al_id as)" using \<open>al_id a = k\<close> by auto
  qed
  moreover have "sorted (map (\<lambda>a. \<not> al_critical a) as)"
    unfolding as critical_first_def by (auto simp: sorted_append intro!: sorted_wrt_mono_rel [OF _ sorted_wrt_true] simp: sorted_map)
  moreover have "\<forall>a \<in> set as. al_last_seen a = toISOString now \<and>
       al_first_seen a = (case jm_get st (al_id a) of None \<Rightarrow> toISOString now | Some old \<Rightarrow> al_first_seen old)"
  proof
    fix a assume "a \<in> set as"
    then have a: "jm_get st' (al_id a) = Some a" "al_id a \<in> set (map al_id ?cs)" using mem by blast+
    then show "al_last_seen a = toISOString now \<and> al_first_seen a = (case jm_get st (al_id a) of None \<Rightarrow> toISOString now | Some old \<Rightarrow> al_first_seen old)"
      using cs(3) [OF a(2), where date = date and now = now and st = st] shown(2) [OF a] unfolding st' [symmetric] by auto
  qed
  ultimately show ?thesis by blast
qed

text \<open>An acknowledgement outlives the condition it was for: however long the alert was gone, when it comes back it is
  acknowledged already and dates from its first occurrence.\<close>

theorem recurrence_stays_acknowledged:
  assumes "alerts_ok st" and "jm_get st k = Some a" and "al_acknowledged_at a \<noteq> None" and "list_all op_ok xs"
  shows "\<exists>a'. jm_get (foldl alert_step st xs) k = Some a' \<and> al_acknowledged_at a' \<noteq> None \<and> al_first_seen a' = al_first_seen a"
proof -
  have "\<exists>h. map_option history (jm_get (foldl alert_step st xs) k) = Some h \<and> fst h = al_first_seen a \<and> fst (fst (snd h)) \<noteq> None"
    using assms(4)
  proof (induction xs rule: rev_induct)
    case Nil
    then show ?case using assms(2,3) by (simp add: history_def)
  next
    case (snoc x xs)
    then obtain h where h: "map_option history (jm_get (foldl alert_step st xs) k) = Some h" "fst h = al_first_seen a" "fst (fst (snd h)) \<noteq> None"
      by auto
    have "alerts_ok (foldl alert_step st xs)" using alerts.run_inv assms(1) snoc.prems by simp
    from step_history [OF h(1) _ this, of x] snoc.prems h show ?case by auto
  qed
  then show ?thesis by (auto simp: history_def)
qed

end
