(* ===== verification/Kms.thy ===== *)
theory Kms
  imports TrustAnomaly SigningLimits
begin

text \<open>
  Key management: \<open>src/src/security/kms-provider.ts\<close> and the emergency workflow of
  \<open>key-compromise.ts\<close>. \<open>getSigningKeys\<close> hands its result array to
  \<open>setKMSKeyLoader\<close>; the local provider keeps the objects of the array it was built
  from and changes them in place, so arrays live in an explicit heap here. A payload is
  the text whose bytes are signed. Random bytes, fresh key pairs and \<open>JSON.stringify\<close>
  are arguments.
\<close>

section \<open>The module's state\<close>

datatype key_ref = Loaded nat | Own signing_key

record local_kms =
  lk_array :: "nat option"
  lk_map :: "(string, key_ref) jmap"

datatype kms = LocalKms local_kms | EnvKms | AwsKms | VaultKms

record kms_module =
  km_heap :: "signing_key list list"
  km_loader :: "nat option"
  km_cached :: "kms option"

datatype kms_error =
    KmsKeyNotFound string
  | KmsKeyRevoked string
  | KmsAlgorithmMismatch sign_alg sign_alg
  | KmsNoPrivateKey string
  | KmsRsaFailure
  | KmsCannotRotate string
  | KmsCannotRevoke string
  | KmsNotSupported
  | KmsNotImplemented
  | EmergencyBadKeyset

text \<open>What a call of \<open>getSigningKeys\<close> leaves in the module.\<close>

definition note_signing_keys :: "signing_world \<Rightarrow> kms_module \<Rightarrow> kms_module" where
  "note_signing_keys W m =
     (case getSigningKeys W of
        Inl e \<Rightarrow> m
      | Inr keys \<Rightarrow> m\<lparr>km_heap := km_heap m @ [keys], km_loader := Some (length (km_heap m))\<rparr>)"

definition array_objects :: "kms_module \<Rightarrow> nat option \<Rightarrow> signing_key list" where
  "array_objects m a = (case a of None \<Rightarrow> [] | Some i \<Rightarrow> if i < length (km_heap m) then km_heap m ! i else [])"

section \<open>The local provider\<close>

definition refreshKeys :: "kms_module \<Rightarrow> local_kms \<Rightarrow> local_kms" where
  "refreshKeys m L =
     (let objs = array_objects m (lk_array L) in
      L\<lparr>lk_map := foldl (\<lambda>mp i. jm_set (sk_kid (objs ! i)) (Loaded i) mp) [] [0..<length objs]\<rparr>)"

definition new_local_kms :: "kms_module \<Rightarrow> local_kms" where
  "new_local_kms m = refreshKeys m \<lparr>lk_array = km_loader m, lk_map = []\<rparr>"

definition local_get :: "kms_module \<Rightarrow> local_kms \<Rightarrow> string \<Rightarrow> signing_key option" where
  "local_get m L kid =
     (case jm_get (lk_map L) kid of
        None \<Rightarrow> None
      | Some (Own k) \<Rightarrow> Some k
      | Some (Loaded i) \<Rightarrow> (let objs = array_objects m (lk_array L) in if i < length objs then Some (objs ! i) else None))"

text \<open>\<open>key.status = s\<close> on the object the provider holds under a key id.\<close>

definition set_status :: "key_status \<Rightarrow> string \<Rightarrow> kms_module \<Rightarrow> local_kms \<Rightarrow> kms_module \<times> local_kms" where
  "set_status s kid m L =
     (case jm_get (lk_map L) kid of
        None \<Rightarrow> (m, L)
      | Some (Own k) \<Rightarrow> (m, L\<lparr>lk_map := jm_set kid (Own (k\<lparr>sk_status := s\<rparr>)) (lk_map L)\<rparr>)
      | Some (Loaded i) \<Rightarrow>
          (case lk_array L of
             None \<Rightarrow> (m, L)
           | Some a \<Rightarrow>
               (m\<lparr>km_heap := (km_heap m)[a := (km_heap m ! a)[i := (km_heap m ! a ! i)\<lparr>sk_status := s\<rparr>]]\<rparr>, L)))"

section \<open>Signing and verifying\<close>

definition key_signs :: "signing_world \<Rightarrow> signing_key option \<Rightarrow> string \<Rightarrow> string \<Rightarrow> sign_alg \<Rightarrow> kms_error + nat list" where
  "key_signs W key kid payload alg =
     (case key of
        None \<Rightarrow> Inl (KmsKeyNotFound kid)
      | Some k \<Rightarrow>
          if sk_status k = KRevoked then Inl (KmsKeyRevoked kid)
          else if sk_alg k \<noteq> alg then Inl (KmsAlgorithmMismatch alg (sk_alg k))
          else (case sk_material k of
                  Hmac secret \<Rightarrow> Inr (sw_hmac W secret payload)
                | Rsa prv pub \<Rightarrow>
                    (case prv of
                       None \<Rightarrow> Inl (KmsNoPrivateKey kid)
                     | Some pem \<Rightarrow>
                         if pem = [] then Inl (KmsNoPrivateKey kid)
                         else (case sw_rsa_sign W pem payload of None \<Rightarrow> Inl KmsRsaFailure | Some sig \<Rightarrow> Inr sig))))"

definition key_verifies :: "signing_world \<Rightarrow> signing_key option \<Rightarrow> string \<Rightarrow> nat list \<Rightarrow> sign_alg \<Rightarrow> bool" where
  "key_verifies W key payload sig alg =
     (case key of
        None \<Rightarrow> False
      | Some k \<Rightarrow>
          if sk_status k = KRevoked \<or> sk_alg k \<noteq> alg then False
          else (case sk_material k of
                  Hmac secret \<Rightarrow> sig = sw_hmac W secret payload
                | Rsa prv pub \<Rightarrow> sw_rsa_verify W pub payload sig = Some True))"

section \<open>The environment provider\<close>

definition env_kms_keys :: "signing_world \<Rightarrow> signing_key list" where
  "env_kms_keys W = List.map_filter normalize_key (env_array W ''MAP_SIGNING_KEYS'')"

section \<open>The interface\<close>

fun kms_key :: "signing_world \<Rightarrow> kms_module \<Rightarrow> kms \<Rightarrow> string \<Rightarrow> kms_error + signing_key option" where
  "kms_key W m (LocalKms L) kid = Inr (local_get m L kid)"
| "kms_key W m EnvKms kid = Inr (key_by_kid kid (env_kms_keys W))"
| "kms_key W m AwsKms kid = Inl KmsNotImplemented"
| "kms_key W m VaultKms kid = Inl KmsNotImplemented"

definition kms_sign :: "signing_world \<Rightarrow> kms_module \<Rightarrow> kms \<Rightarrow> string \<Rightarrow> string \<Rightarrow> sign_alg \<Rightarrow> kms_error + nat list" where
  "kms_sign W m p kid payload alg =
     (case kms_key W m p kid of Inl e \<Rightarrow> Inl e | Inr key \<Rightarrow> key_signs W key kid payload alg)"

definition kms_verify :: "signing_world \<Rightarrow> kms_module \<Rightarrow> kms \<Rightarrow> string \<Rightarrow> string \<Rightarrow> nat list \<Rightarrow> sign_alg \<Rightarrow> kms_error + bool" where
  "kms_verify W m p kid payload sig alg =
     (case kms_key W m p kid of Inl e \<Rightarrow> Inl e | Inr key \<Rightarrow> Inr (key_verifies W key payload sig alg))"

definition kms_getKeyStatus :: "signing_world \<Rightarrow> kms_module \<Rightarrow> kms \<Rightarrow> string \<Rightarrow> kms_error + key_status" where
  "kms_getKeyStatus W m p kid =
     (case kms_key W m p kid of
        Inl e \<Rightarrow> Inl e
      | Inr None \<Rightarrow> Inl (KmsKeyNotFound kid)
      | Inr (Some k) \<Rightarrow> Inr (sk_status k))"

fun kms_listKeys :: "signing_world \<Rightarrow> (string \<Rightarrow> jsval option) \<Rightarrow> kms_module \<Rightarrow> kms \<Rightarrow> (kms_error + verification_key list) \<times> kms" where
  "kms_listKeys W jwk m (LocalKms L) =
     (let L1 = refreshKeys m L in
      (Inr (map (publish_key jwk) (List.map_filter (\<lambda>(kid, _). local_get m L1 kid) (lk_map L1))), LocalKms L1))"
| "kms_listKeys W jwk m EnvKms = (Inr (map (publish_key jwk) (env_kms_keys W)), EnvKms)"
| "kms_listKeys W jwk m p = (Inl KmsNotImplemented, p)"

fun kms_revokeKey :: "string \<Rightarrow> kms_module \<Rightarrow> kms \<Rightarrow> kms_error option \<times> kms_module \<times> kms" where
  "kms_revokeKey kid m (LocalKms L) =
     (case local_get m L kid of
        None \<Rightarrow> (Some (KmsCannotRevoke kid), m, LocalKms L)
      | Some k \<Rightarrow> (let (m1, L1) = set_status KRevoked kid m L in (None, m1, LocalKms L1)))"
| "kms_revokeKey kid m EnvKms = (Some KmsNotSupported, m, EnvKms)"
| "kms_revokeKey kid m p = (Some KmsNotImplemented, m, p)"

definition rotated :: "ms \<Rightarrow> string \<Rightarrow> string \<Rightarrow> signing_key \<Rightarrow> signing_key" where
  "rotated now secret kid k =
     \<lparr>sk_kid = kid @ ''-rotated-'' @ int_str now,
      sk_alg = (case sk_material k of Hmac _ \<Rightarrow> HS256 | Rsa _ _ \<Rightarrow> RS256), sk_status = KActive, sk_scopes = sk_scopes k,
      sk_demo_only = sk_demo_only k,
      sk_material = (case sk_material k of Hmac _ \<Rightarrow> Hmac secret | Rsa prv pub \<Rightarrow> Rsa prv pub)\<rparr>"

fun kms_rotateKey :: "ms \<Rightarrow> string \<Rightarrow> string \<Rightarrow> kms_module \<Rightarrow> kms \<Rightarrow> (kms_error + verification_key) \<times> kms_module \<times> kms" where
  "kms_rotateKey now secret kid m (LocalKms L) =
     (case local_get m L kid of
        None \<Rightarrow> (Inl (KmsCannotRotate kid), m, LocalKms L)
      | Some k \<Rightarrow>
          (let (m1, L1) = set_status KRetiring kid m L; new = rotated now secret kid k
           in (Inr (publish_key (\<lambda>_. None) new), m1, LocalKms (L1\<lparr>lk_map := jm_set (sk_kid new) (Own new) (lk_map L1)\<rparr>))))"
| "kms_rotateKey now secret kid m EnvKms = (Inl KmsNotSupported, m, EnvKms)"
| "kms_rotateKey now secret kid m p = (Inl KmsNotImplemented, m, p)"

definition configured_kms :: "signing_world \<Rightarrow> kms_module \<Rightarrow> kms" where
  "configured_kms W m =
     (let c = str_lower (str_trim (case sw_env W ''MAP_KMS_PROVIDER'' of None \<Rightarrow> ''local'' | Some s \<Rightarrow> s)) in
      if c = ''aws_kms'' \<or> c = ''aws'' then AwsKms
      else if c = ''hashicorp_vault'' \<or> c = ''vault'' then VaultKms
      else if c = ''env'' then EnvKms
      else LocalKms (new_local_kms m))"

definition resolveKMSProvider :: "signing_world \<Rightarrow> bool \<Rightarrow> kms_module \<Rightarrow> kms \<times> kms_module" where
  "resolveKMSProvider W force m =
     (case (km_cached m, force) of
        (Some p, False) \<Rightarrow> (p, m)
      | _ \<Rightarrow> (configured_kms W m, m\<lparr>km_cached := Some (configured_kms W m)\<rparr>))"

definition resetKMSProvider :: "kms_module \<Rightarrow> kms_module" where
  "resetKMSProvider m = m\<lparr>km_cached := None\<rparr>"

section \<open>The emergency workflow\<close>

record emergency_key =
  ek_kid :: string
  ek_secret :: "string option"
  ek_public_key_pem :: "string option"

record compromise_record =
  cr_revoked_at :: string
  cr_reason :: string
  cr_emergency_key_id :: string
  cr_revoked_key_ids :: "string list"

text \<open>What a new key pair and the text functions are: the private and the public PEM, and \<open>JSON.stringify\<close>.\<close>

record emergency_world =
  ew_private_pem :: string
  ew_public_pem :: string
  ew_stringify :: "jsval \<Rightarrow> string"

text \<open>\<open>[...v]\<close>; \<open>None\<close> where it throws.\<close>

fun spread_values :: "jsval \<Rightarrow> jsval list option" where
  "spread_values (JArr xs) = Some xs"
| "spread_values (JStr s) = Some (map (\<lambda>c. JStr [c]) s)"
| "spread_values _ = None"

definition emergency_entry :: "emergency_world \<Rightarrow> string \<Rightarrow> jsval" where
  "emergency_entry E kid = JObj
     [(''kid'', JStr kid), (''alg'', JStr ''RS256''), (''private_key_pem'', JStr (ew_private_pem E)),
      (''public_key_pem'', JStr (ew_public_pem E)), (''status'', JStr ''active''), (''demo_only'', JBool False),
      (''scopes'', JArr (map JStr default_scopes))]"

definition existing_keys :: "signing_world \<Rightarrow> jsval list option" where
  "existing_keys W =
     (case sw_env W ''MAP_SIGNING_KEYS'' of
        None \<Rightarrow> Some []
      | Some raw \<Rightarrow> if raw = [] then Some [] else (case sw_json W raw of None \<Rightarrow> None | Some v \<Rightarrow> spread_values v))"

definition generateEmergencyKey :: "emergency_world \<Rightarrow> ms \<Rightarrow> signing_world \<Rightarrow> kms_module
    \<Rightarrow> (kms_error + emergency_key) \<times> signing_world \<times> kms_module" where
  "generateEmergencyKey E now W m =
     (case env_present (sw_env W ''MAP_EMERGENCY_KEY'') of
        Some s \<Rightarrow> (Inr \<lparr>ek_kid = ''emergency-'' @ int_str now, ek_secret = Some (str_trim s), ek_public_key_pem = None\<rparr>, W, m)
      | None \<Rightarrow>
          (let kid = ''emergency-rsa-'' @ int_str now in
           case existing_keys W of
             None \<Rightarrow> (Inl EmergencyBadKeyset, W, m)
           | Some old \<Rightarrow>
               (Inr \<lparr>ek_kid = kid, ek_secret = None, ek_public_key_pem = Some (ew_public_pem E)\<rparr>,
                W\<lparr>sw_env := (sw_env W)(''MAP_SIGNING_KEYS'' \<mapsto> ew_stringify E (JArr (old @ [emergency_entry E kid])),
                                     ''MAP_SIGNING_ACTIVE_KID'' \<mapsto> kid)\<rparr>,
                resetKMSProvider m)))"

text \<open>The loop over the listed keys: what was revoked, and what failed.\<close>

definition revoke_one :: "(string list \<times> (string \<times> kms_error) list) \<times> kms_module \<times> kms \<Rightarrow> verification_key
    \<Rightarrow> (string list \<times> (string \<times> kms_error) list) \<times> kms_module \<times> kms" where
  "revoke_one st k =
     (let ((gone, errors), m, p) = st in
      if vk_status k = KRevoked then st
      else (case kms_revokeKey (vk_kid k) m p of
              (None, m1, p1) \<Rightarrow> ((gone @ [vk_kid k], errors), m1, p1)
            | (Some e, m1, p1) \<Rightarrow> ((gone, errors @ [(vk_kid k, e)]), m1, p1)))"

text \<open>The provider object is the cached one, so what the loop does to it is seen through the cache.\<close>

definition emergencyRevokeAllKeys :: "emergency_world \<Rightarrow> (string \<Rightarrow> jsval option) \<Rightarrow> ms \<Rightarrow> string \<Rightarrow> signing_world \<Rightarrow> kms_module
    \<Rightarrow> compromise_record option \<Rightarrow> (kms_error + emergency_key) \<times> signing_world \<times> kms_module \<times> compromise_record option" where
  "emergencyRevokeAllKeys E jwk now reason W m rec =
     (let (p, m0) = resolveKMSProvider W False m in
      case kms_listKeys W jwk m0 p of
        (Inl e, p1) \<Rightarrow> (Inl e, W, m0\<lparr>km_cached := Some p1\<rparr>, rec)
      | (Inr keys, p1) \<Rightarrow>
          (let ((gone, errors), m1, p2) = foldl revoke_one (([], []), m0, p1) keys; m2 = m1\<lparr>km_cached := Some p2\<rparr> in
           case generateEmergencyKey E now W m2 of
             (Inl e, W1, m3) \<Rightarrow> (Inl e, W1, m3, rec)
           | (Inr key, W1, m3) \<Rightarrow>
               (Inr key, W1, m3, Some \<lparr>cr_revoked_at = toISOString now, cr_reason = reason, cr_emergency_key_id = ek_kid key,
                                       cr_revoked_key_ids = gone\<rparr>)))"

definition verifyCompromiseStatus :: "compromise_record option \<Rightarrow> bool \<times> string option \<times> string option" where
  "verifyCompromiseStatus rec =
     (case rec of None \<Rightarrow> (False, None, None) | Some r \<Rightarrow> (True, Some (cr_revoked_at r), Some (cr_reason r)))"

section \<open>Lemmas\<close>

lemma sign_then_verify:
  assumes "key_signs W key kid payload alg = Inr sig"
    and "\<And>prv pub. sw_rsa_sign W prv payload = Some sig \<Longrightarrow> \<exists>k. key = Some k \<and> sk_material k = Rsa (Some prv) pub \<Longrightarrow>
           sw_rsa_verify W pub payload sig = Some True"
  shows "key_verifies W key payload sig alg"
  using assms by (auto simp: key_signs_def key_verifies_def split: option.splits key_material.splits if_splits)

text \<open>The refreshed map refers to loaded objects only, each under its own id.\<close>

lemma refresh_refs:
  "jm_get (lk_map (refreshKeys m L)) kid = Some r \<Longrightarrow>
   \<exists>i. r = Loaded i \<and> i < length (array_objects m (lk_array L)) \<and> sk_kid (array_objects m (lk_array L) ! i) = kid"
proof -
  let ?objs = "array_objects m (lk_array L)"
  have "n \<le> length ?objs \<Longrightarrow> jm_get (foldl (\<lambda>mp i. jm_set (sk_kid (?objs ! i)) (Loaded i) mp) [] [0..<n]) kid = Some r \<Longrightarrow>
      \<exists>i. r = Loaded i \<and> i < n \<and> sk_kid (?objs ! i) = kid" for n
    by (induction n) (auto simp: jm_get_set less_Suc_eq split: if_splits)
  from this [of "length ?objs"] show "jm_get (lk_map (refreshKeys m L)) kid = Some r \<Longrightarrow>
      \<exists>i. r = Loaded i \<and> i < length ?objs \<and> sk_kid (?objs ! i) = kid"
    by (simp add: refreshKeys_def Let_def)
qed

lemma env_revoke: "fst (kms_revokeKey kid m EnvKms) \<noteq> None \<and> snd (kms_revokeKey kid m EnvKms) = (m, EnvKms)"
  by simp

lemma env_revoke_all: "\<exists>es. foldl revoke_one ((gone, errors), m, EnvKms) keys = ((gone, errors @ es), m, EnvKms)"
proof (induction keys arbitrary: errors)
  case (Cons k keys)
  show ?case
  proof (cases "vk_status k = KRevoked")
    case False
    obtain es where "foldl revoke_one ((gone, errors @ [(vk_kid k, KmsNotSupported)]), m, EnvKms) keys =
        ((gone, (errors @ [(vk_kid k, KmsNotSupported)]) @ es), m, EnvKms)"
      using Cons.IH by blast
    moreover have "revoke_one ((gone, errors), m, EnvKms) k = ((gone, errors @ [(vk_kid k, KmsNotSupported)]), m, EnvKms)"
      using False by (simp add: revoke_one_def)
    ultimately show ?thesis by (intro exI [of _ "(vk_kid k, KmsNotSupported) # es"]) simp
  qed (use Cons.IH in \<open>simp add: revoke_one_def\<close>)
qed simp

section \<open>What the emergency workflow does\<close>

text \<open>The signing functions read the environment, not the provider. With \<open>MAP_EMERGENCY_KEY\<close> set, the workflow reports the
  process as compromised and every key as revoked, and leaves all of them in use: the same keys sign and
  verify as before, and the emergency key is not among them.\<close>

theorem emergency_key_changes_nothing:
  assumes "env_present (sw_env W ''MAP_EMERGENCY_KEY'') = Some s"
    and "emergencyRevokeAllKeys E jwk now reason W m rec = (Inr key, W', m', rec')"
  shows "W' = W \<and> fst (verifyCompromiseStatus rec') \<and> getSigningKeys W' = getSigningKeys W \<and>
    fst (verifyDelegationTokenSignature W' t st) = fst (verifyDelegationTokenSignature W t st)"
  using assms by (auto simp: emergencyRevokeAllKeys_def generateEmergencyKey_def Let_def verifyCompromiseStatus_def
      split: prod.splits sum.splits)

text \<open>Without it a new key becomes the active one, and every configured key stays as it is.\<close>

lemma trim_nonempty: "c \<in> set s \<Longrightarrow> \<not> is_ws c \<Longrightarrow> str_trim s \<noteq> []"
proof -
  assume c: "c \<in> set s" "\<not> is_ws c"
  then have "c \<in> set (dropWhile is_ws s)" by (metis dropWhile_append1 in_set_conv_decomp set_dropWhileD takeWhile_dropWhile_id Un_iff set_append set_takeWhileD)
  then show ?thesis using c by (auto simp: str_trim_def dropWhile_eq_Nil_conv)
qed

lemma emergency_entry_key:
  assumes "str_trim (ew_public_pem E) \<noteq> []"
  shows "\<exists>k. normalize_key (emergency_entry E (''emergency-rsa-'' @ s)) = Some k \<and> sk_alg k = RS256 \<and> sk_status k = KActive \<and>
    (\<exists>prv. sk_material k = Rsa prv (ew_public_pem E))"
proof -
  have "str_trim (''emergency-rsa-'' @ s) \<noteq> []" by (rule trim_nonempty [of "CHR ''e''"]) (simp_all add: is_ws_def)
  then show ?thesis using assms
    by (simp add: normalize_key_def emergency_entry_def nullish_def js_prop_def obj_get_def nonblank_def env_present_def key_alg_of_def
        key_material_of_def key_status_of_def)
qed

lemma map_filter_snoc: "List.map_filter f (xs @ [x]) = List.map_filter f xs @ (case f x of None \<Rightarrow> [] | Some y \<Rightarrow> [y])"
  by (simp add: List.map_filter_def split: option.split)

theorem emergency_keeps_old_keys:
  assumes "env_present (sw_env W ''MAP_EMERGENCY_KEY'') = None" and "resolveProvider W = EnvKeys"
    and "env_present (sw_env W ''MAP_SIGNING_KEYS'') = Some raw" and "sw_json W raw = Some (JArr xs)"
    and "getSigningKeys W = Inr keys" and "List.map_filter normalize_key xs \<noteq> []" and "str_trim (ew_public_pem E) \<noteq> []"
    and "set_text = ew_stringify E (JArr (xs @ [emergency_entry E (''emergency-rsa-'' @ int_str now)]))"
    and "sw_json W set_text = Some (JArr (xs @ [emergency_entry E (''emergency-rsa-'' @ int_str now)]))" and "str_trim set_text \<noteq> []"
    and "emergencyRevokeAllKeys E jwk now reason W m rec = (Inr key, W', m', rec')"
  shows "fst (verifyCompromiseStatus rec') \<and>
    (\<exists>new. getSigningKeys W' = Inr (keys @ [new]) \<and> sk_alg new = RS256 \<and> (\<exists>prv. sk_material new = Rsa prv (ew_public_pem E)))"
proof -
  define e where "e = emergency_entry E (''emergency-rsa-'' @ int_str now)"
  let ?env = "(sw_env W)(''MAP_SIGNING_KEYS'' \<mapsto> set_text, ''MAP_SIGNING_ACTIVE_KID'' \<mapsto> ''emergency-rsa-'' @ int_str now)"
  have raw: "sw_env W ''MAP_SIGNING_KEYS'' = Some raw" "raw \<noteq> []"
    using assms(3) by (auto simp: env_present_def split: option.splits if_splits)
  have old: "existing_keys W = Some xs" using raw assms(4) by (simp add: existing_keys_def)
  have W': "W' = W\<lparr>sw_env := ?env\<rparr>" and rec': "fst (verifyCompromiseStatus rec')"
    using assms(1,11) old by (auto simp: emergencyRevokeAllKeys_def generateEmergencyKey_def Let_def verifyCompromiseStatus_def assms(8)
        split: prod.splits sum.splits)
  have keyed: "getSigningKeyConfigsFromProvider W = xs" "getSigningKeyConfigsFromProvider W' = xs @ [e]"
  proof -
    show "getSigningKeyConfigsFromProvider W = xs" using assms(2,3,4) by (simp add: getSigningKeyConfigsFromProvider_def env_array_def json_array_def)
    have "resolveProvider W' = EnvKeys" using assms(2) by (simp add: resolveProvider_def W')
    moreover have "env_present (sw_env W' ''MAP_SIGNING_KEYS'') = Some set_text" using assms(10) by (simp add: W' env_present_def)
    ultimately show "getSigningKeyConfigsFromProvider W' = xs @ [e]"
      using assms(9) [folded e_def] by (simp add: getSigningKeyConfigsFromProvider_def env_array_def json_array_def W')
  qed
  have revoked: "getRevokedKidsFromEnv W' = getRevokedKidsFromEnv W" by (simp add: getRevokedKidsFromEnv_def W')
  obtain k prv where k: "normalize_key e = Some k" "sk_alg k = RS256" "sk_material k = Rsa prv (ew_public_pem E)"
    unfolding e_def using emergency_entry_key [OF assms(7)] by blast
  have both: "List.map_filter normalize_key (xs @ [e]) = List.map_filter normalize_key xs @ [k]"
    unfolding map_filter_snoc k(1) by simp
  obtain a as where ne: "List.map_filter normalize_key xs = a # as" using assms(6) by (cases "List.map_filter normalize_key xs") auto
  have "getSigningKeys W' = Inr (keys @ [revoke_listed (getRevokedKidsFromEnv W) k])"
    using assms(5) by (simp add: getSigningKeys_def keyed both ne revoked)
  then show ?thesis using rec' k by auto
qed

text \<open>Rotating a revoked key of the local provider makes it usable again: it is set to retiring whatever it was.\<close>

theorem rotation_unrevokes:
  assumes "local_get m L kid = Some k" and "jm_wf (lk_map L)" and "kms_rotateKey now secret kid m (LocalKms L) = (Inr new, m', p')"
    and "lk_array L = Some a \<longrightarrow> a < length (km_heap m)"
  shows "\<exists>k'. kms_key W m' p' kid = Inr (Some k') \<and> sk_status k' \<noteq> KRevoked \<and> sk_material k' = sk_material k"
proof -
  have ne: "kid \<noteq> kid @ ''-rotated-'' @ int_str now" by simp
  obtain m1 L1 where s: "set_status KRetiring kid m L = (m1, L1)" by (cases "set_status KRetiring kid m L")
  have p': "m' = m1" "p' = LocalKms (L1\<lparr>lk_map := jm_set (kid @ ''-rotated-'' @ int_str now) (Own (rotated now secret kid k)) (lk_map L1)\<rparr>)"
    using assms(1,3) s by (auto simp: Let_def rotated_def)
  have "local_get m1 (L1\<lparr>lk_map := jm_set (kid @ ''-rotated-'' @ int_str now) (Own (rotated now secret kid k)) (lk_map L1)\<rparr>) kid
      = Some (k\<lparr>sk_status := KRetiring\<rparr>)"
    using assms(1,4) s ne
    by (auto simp: local_get_def set_status_def jm_get_set array_objects_def Let_def split: option.splits key_ref.splits if_splits)
  then show ?thesis by (simp add: p')
qed

text \<open>A rotated key lives until the keys are listed: the list is loaded anew and the new key, which is not in what is
  loaded, is gone.\<close>

theorem rotated_key_lost:
  assumes "kid' \<notin> sk_kid ` set (array_objects m (lk_array L))" and "kms_listKeys W jwk m (LocalKms L) = (ks, p)"
  shows "kms_sign W m p kid' payload alg = Inl (KmsKeyNotFound kid')"
proof -
  have p: "p = LocalKms (refreshKeys m L)" using assms(2) by (simp add: Let_def)
  have "jm_get (lk_map (refreshKeys m L)) kid' = None"
    using refresh_refs [of m L kid'] assms(1) by (cases "jm_get (lk_map (refreshKeys m L)) kid'") (force simp: image_iff)+
  then show ?thesis by (simp add: p kms_sign_def local_get_def key_signs_def)
qed

text \<open>Where the provider of the signing functions is the environment, the environment's KMS provider has their keys, but
  not the revocations of \<open>MAP_SIGNING_REVOKED_KIDS\<close>, which its own error message recommends.\<close>

theorem env_kms_ignores_revocations:
  assumes "resolveProvider W = EnvKeys" and "env_kms_keys W \<noteq> []"
  shows "getSigningKeys W = Inr (map (revoke_listed (getRevokedKidsFromEnv W)) (env_kms_keys W)) \<and>
    kms_verify W m EnvKms kid payload sig alg = Inr (key_verifies W (key_by_kid kid (env_kms_keys W)) payload sig alg)"
proof -
  have "List.map_filter normalize_key (getSigningKeyConfigsFromProvider W) = env_kms_keys W"
    using assms(1) by (simp add: env_kms_keys_def getSigningKeyConfigsFromProvider_def)
  then show ?thesis using assms(2) by (cases "env_kms_keys W") (simp_all add: getSigningKeys_def kms_verify_def)
qed

text \<open>The environment's provider refuses every revocation, and the workflow reports a compromise with nothing revoked.\<close>

theorem env_emergency_revokes_nothing:
  assumes "km_cached m = Some EnvKms" and "emergencyRevokeAllKeys E jwk now reason W m rec = (Inr key, W', m', rec')"
  shows "\<exists>r. rec' = Some r \<and> cr_revoked_key_ids r = []"
proof -
  obtain es where "foldl revoke_one (([], []), m, EnvKms) (map (publish_key jwk) (env_kms_keys W)) = (([], [] @ es), m, EnvKms)"
    using env_revoke_all by blast
  then show ?thesis using assms
    by (auto simp: emergencyRevokeAllKeys_def resolveKMSProvider_def Let_def split: prod.splits sum.splits)
qed

end
