(* ===== verification/SdkStorage.thy ===== *)
theory SdkStorage
  imports ProtocolTypes
begin

text \<open>
  The stores of the TypeScript SDK, \<open>src/packages/typescript/src/storage/index.ts\<close>:
  two maps with a least-recently-used order, and the pair of them. Times are
  numbers; the clock's value is an argument. A limit is not negative.
\<close>

definition touch :: "'a \<Rightarrow> 'a list \<Rightarrow> 'a list" where
  "touch x order = filter (\<lambda>y. y \<noteq> x) order @ [x]"

definition page :: "nat \<Rightarrow> nat \<Rightarrow> 'a list \<Rightarrow> 'a list" where
  "page start limit xs = take limit (drop start xs)"

text \<open>\<open>xs.indexOf(x) + 1\<close>\<close>

definition index_after :: "'a \<Rightarrow> 'a list \<Rightarrow> nat" where
  "index_after x xs = (if x \<in> set xs then Suc (length (takeWhile (\<lambda>y. y \<noteq> x) xs)) else 0)"

text \<open>The stable sort by a time, newest first.\<close>

definition newest_first :: "('a \<Rightarrow> ms) \<Rightarrow> 'a list \<Rightarrow> 'a list" where
  "newest_first f xs = sort_key (\<lambda>x. - f x) xs"

section \<open>Tasks\<close>

record sdk_tasks =
  sd_tasks :: "(string, task_record) jmap"
  sd_max :: nat
  sd_order :: "string list"

definition new_sdk_tasks :: "nat option \<Rightarrow> sdk_tasks" where
  "new_sdk_tasks most = \<lparr>sd_tasks = [], sd_max = (case most of None \<Rightarrow> 10000 | Some n \<Rightarrow> n), sd_order = []\<rparr>"

fun evict_tasks :: "nat \<Rightarrow> (string, task_record) jmap \<Rightarrow> string list \<Rightarrow> (string, task_record) jmap \<times> string list" where
  "evict_tasks n m [] = (m, [])"
| "evict_tasks n m (x # order) =
     (if length m > n then evict_tasks n (if x = [] then m else jm_del x m) order else (m, x # order))"

definition sdk_task_save :: "ms \<Rightarrow> task_record \<Rightarrow> sdk_tasks \<Rightarrow> task_record \<times> sdk_tasks" where
  "sdk_task_save now t s =
     (let m = jm_set (tr_task_id t) (t\<lparr>tr_updated_at := now\<rparr>) (sd_tasks s);
          (m1, order) = evict_tasks (sd_max s) m (touch (tr_task_id t) (sd_order s))
      in (t, s\<lparr>sd_tasks := m1, sd_order := order\<rparr>))"

datatype sdk_error = TaskNotFound string | ReceiptNotFound string | TaskReceiptNotFound string

definition sdk_task_get :: "string \<Rightarrow> sdk_tasks \<Rightarrow> (sdk_error + task_record) \<times> sdk_tasks" where
  "sdk_task_get tid s =
     (case jm_get (sd_tasks s) tid of
        None \<Rightarrow> (Inl (TaskNotFound tid), s)
      | Some t \<Rightarrow> (Inr t, s\<lparr>sd_order := touch tid (sd_order s)\<rparr>))"

record task_filter =
  tf_tenant :: "string option"
  tf_status :: "string option"
  tf_capability :: "string option"
  tf_agent :: "string option"
  tf_limit :: "nat option"
  tf_cursor :: "string option"

text \<open>A filter that is absent or empty does not filter.\<close>

definition filter_by :: "string option \<Rightarrow> ('a \<Rightarrow> string option) \<Rightarrow> 'a list \<Rightarrow> 'a list" where
  "filter_by want f xs = (case want of None \<Rightarrow> xs | Some w \<Rightarrow> if w = [] then xs else filter (\<lambda>x. f x = Some w) xs)"

definition cursor_start :: "string option \<Rightarrow> string list \<Rightarrow> nat" where
  "cursor_start cursor order = (case cursor of None \<Rightarrow> 0 | Some c \<Rightarrow> if c = [] then 0 else index_after c order)"

definition paged :: "('a \<Rightarrow> string) \<Rightarrow> string option \<Rightarrow> nat option \<Rightarrow> string list \<Rightarrow> 'a list \<Rightarrow> 'a list \<times> string option" where
  "paged ident cursor limit order xs =
     (let n = (case limit of None \<Rightarrow> 50 | Some n \<Rightarrow> n); ps = page (cursor_start cursor order) n xs
      in (ps, if length ps = n \<and> ps \<noteq> [] then Some (ident (last ps)) else None))"

definition sdk_task_list :: "task_filter \<Rightarrow> sdk_tasks \<Rightarrow> task_record list \<times> string option" where
  "sdk_task_list f s =
     (let ts = filter_by (tf_tenant f) (\<lambda>t. ri_tenant_id (tr_requester t)) (jm_vals (sd_tasks s));
          ts = filter_by (tf_status f) (\<lambda>t. Some (task_status_str (tr_status t))) ts;
          ts = filter_by (tf_capability f) (\<lambda>t. Some (tr_capability t)) ts;
          ts = filter_by (tf_agent f) (\<lambda>t. Some (tr_target_agent t)) ts
      in paged tr_task_id (tf_cursor f) (tf_limit f) (sd_order s) (newest_first tr_updated_at ts))"

definition sdk_task_delete :: "string \<Rightarrow> sdk_tasks \<Rightarrow> sdk_error option \<times> sdk_tasks" where
  "sdk_task_delete tid s =
     (if \<not> jm_has (sd_tasks s) tid then (Some (TaskNotFound tid), s)
      else (None, s\<lparr>sd_tasks := jm_del tid (sd_tasks s), sd_order := filter (\<lambda>x. x \<noteq> tid) (sd_order s)\<rparr>))"

definition sdk_task_count :: "string option \<Rightarrow> string option \<Rightarrow> sdk_tasks \<Rightarrow> nat" where
  "sdk_task_count tenant status s =
     length (filter_by status (\<lambda>t. Some (task_status_str (tr_status t)))
       (filter_by tenant (\<lambda>t. ri_tenant_id (tr_requester t)) (jm_vals (sd_tasks s))))"

definition sdk_task_clear :: "sdk_tasks \<Rightarrow> sdk_tasks" where
  "sdk_task_clear s = s\<lparr>sd_tasks := [], sd_order := []\<rparr>"

section \<open>Receipts\<close>

record sdk_receipts =
  sr_receipts :: "(string, receipt) jmap"
  sr_by_task :: "(string option, string) jmap"
  sr_max :: nat
  sr_order :: "string list"

definition new_sdk_receipts :: "nat option \<Rightarrow> sdk_receipts" where
  "new_sdk_receipts most = \<lparr>sr_receipts = [], sr_by_task = [], sr_max = (case most of None \<Rightarrow> 50000 | Some n \<Rightarrow> n), sr_order = []\<rparr>"

fun evict_receipts :: "nat \<Rightarrow> (string, receipt) jmap \<Rightarrow> (string option, string) jmap \<Rightarrow> string list
    \<Rightarrow> (string, receipt) jmap \<times> (string option, string) jmap \<times> string list" where
  "evict_receipts n m ix [] = (m, ix, [])"
| "evict_receipts n m ix (x # order) =
     (if length m > n
      then evict_receipts n (if x = [] then m else jm_del x m)
             (if x = [] then ix else case jm_get m x of None \<Rightarrow> ix | Some r \<Rightarrow> jm_del (rc_task_id r) ix) order
      else (m, ix, x # order))"

definition sdk_receipt_save :: "receipt \<Rightarrow> sdk_receipts \<Rightarrow> sdk_receipts" where
  "sdk_receipt_save r s =
     (let m = jm_set (rc_receipt_id r) r (sr_receipts s); ix = jm_set (rc_task_id r) (rc_receipt_id r) (sr_by_task s);
          (m1, ix1, order) = evict_receipts (sr_max s) m ix (touch (rc_receipt_id r) (sr_order s))
      in s\<lparr>sr_receipts := m1, sr_by_task := ix1, sr_order := order\<rparr>)"

definition sdk_receipt_get :: "string \<Rightarrow> sdk_receipts \<Rightarrow> (sdk_error + receipt) \<times> sdk_receipts" where
  "sdk_receipt_get rid s =
     (case jm_get (sr_receipts s) rid of
        None \<Rightarrow> (Inl (ReceiptNotFound rid), s)
      | Some r \<Rightarrow> (Inr r, s\<lparr>sr_order := touch rid (sr_order s)\<rparr>))"

definition sdk_receipt_getByTaskId :: "string \<Rightarrow> sdk_receipts \<Rightarrow> (sdk_error + receipt) \<times> sdk_receipts" where
  "sdk_receipt_getByTaskId tid s =
     (case jm_get (sr_by_task s) (Some tid) of
        None \<Rightarrow> (Inl (TaskReceiptNotFound tid), s)
      | Some rid \<Rightarrow> if rid = [] then (Inl (TaskReceiptNotFound tid), s) else sdk_receipt_get rid s)"

record receipt_filter =
  rf_tenant :: "string option"
  rf_agent :: "string option"
  rf_limit :: "nat option"
  rf_cursor :: "string option"

definition sdk_receipt_list :: "receipt_filter \<Rightarrow> sdk_receipts \<Rightarrow> receipt list \<times> string option" where
  "sdk_receipt_list f s =
     (let rs = filter_by (rf_tenant f) rc_tenant_id (jm_vals (sr_receipts s));
          rs = filter_by (rf_agent f) (\<lambda>r. Some (rc_agent_id r)) rs
      in paged rc_receipt_id (rf_cursor f) (rf_limit f) (sr_order s) (newest_first rc_timestamp rs))"

definition sdk_receipt_delete :: "string \<Rightarrow> sdk_receipts \<Rightarrow> sdk_error option \<times> sdk_receipts" where
  "sdk_receipt_delete rid s =
     (case jm_get (sr_receipts s) rid of
        None \<Rightarrow> (Some (ReceiptNotFound rid), s)
      | Some r \<Rightarrow> (None, s\<lparr>sr_receipts := jm_del rid (sr_receipts s), sr_by_task := jm_del (rc_task_id r) (sr_by_task s),
            sr_order := filter (\<lambda>x. x \<noteq> rid) (sr_order s)\<rparr>))"

definition sdk_receipt_clear :: "sdk_receipts \<Rightarrow> sdk_receipts" where
  "sdk_receipt_clear s = s\<lparr>sr_receipts := [], sr_by_task := [], sr_order := []\<rparr>"

record sdk_store =
  ss_tasks :: sdk_tasks
  ss_receipts :: sdk_receipts

definition saveTaskWithReceipt :: "ms \<Rightarrow> task_record \<Rightarrow> result_package \<Rightarrow> receipt \<Rightarrow> sdk_store \<Rightarrow> sdk_store" where
  "saveTaskWithReceipt now t res r s =
     s\<lparr>ss_tasks := snd (sdk_task_save now (t\<lparr>tr_result := Some res, tr_receipt := Some r\<rparr>) (ss_tasks s)),
       ss_receipts := sdk_receipt_save r (ss_receipts s)\<rparr>"

section \<open>The order and the map\<close>

definition lru_ok :: "nat \<Rightarrow> (string, 'v) jmap \<Rightarrow> string list \<Rightarrow> bool" where
  "lru_ok n m order \<longleftrightarrow> jm_wf m \<and> distinct order \<and> set order = fst ` set m \<and> length m \<le> n \<and> [] \<notin> set order"

lemma touch_simps: "set (touch x order) = insert x (set order)" "distinct order \<Longrightarrow> distinct (touch x order)"
  by (auto simp: touch_def)

lemma del_keys: "fst ` set (jm_del k m) = fst ` set m - {k}"
  by (metis dom_map_of_conv_image_fst AList.delete_conv' dom_fun_upd)

lemma set_keys: "fst ` set (jm_set k v m) = insert k (fst ` set m)"
  by (metis dom_map_of_conv_image_fst AList.update_conv' dom_fun_upd option.distinct(1))

lemma wf_length: "jm_wf m \<Longrightarrow> length m = card (fst ` set m)"
  by (metis distinct_card jm_wf_def length_map set_map)

lemma del_length: "jm_wf m \<Longrightarrow> k \<in> fst ` set m \<Longrightarrow> length (jm_del k m) = length m - 1"
  by (simp add: wf_length del_keys)

lemma evict_tasks_ok:
  assumes "jm_wf m" and "distinct order" and "set order = fst ` set m" and "[] \<notin> set order" and "evict_tasks n m order = (m', order')"
  shows "lru_ok n m' order' \<and> suffix order' order \<and> (\<forall>k \<in> set order'. jm_get m' k = jm_get m k) \<and>
    (length m \<le> n \<longrightarrow> order' = order) \<and> length order' = min n (length order)"
  using assms
proof (induction order arbitrary: m)
  case Nil
  then show ?case by (simp add: lru_ok_def)
next
  case (Cons x order)
  show ?case
  proof (cases "length m > n")
    case False
    have len: "length m = length (x # order)" using Cons.prems by (metis distinct_card wf_length)
    have same: "m' = m" "order' = x # order" using Cons.prems(5) False by auto
    show ?thesis using Cons.prems(1-4) False len unfolding same lru_ok_def by simp
  next
    case True
    have len: "length m = Suc (length order)" using Cons.prems by (metis distinct_card wf_length length_Cons)
    have "set order = fst ` set (jm_del x m)" using Cons.prems by (auto simp: del_keys)
    moreover have "x \<noteq> []" using Cons.prems(4) by auto
    then have "evict_tasks n (jm_del x m) order = (m', order')" using Cons.prems(5) True by simp
    ultimately have "lru_ok n m' order' \<and> suffix order' order \<and> (\<forall>k \<in> set order'. jm_get m' k = jm_get (jm_del x m) k) \<and>
        length order' = min n (length order)"
      using Cons.IH [of "jm_del x m"] Cons.prems by auto
    moreover have "x \<notin> set order'" if "suffix order' order" using that Cons.prems(2) set_mono_suffix by fastforce
    ultimately show ?thesis using True len by (auto simp: jm_get_del suffix_Cons)
  qed
qed

datatype sdk_task_op = SaveTask ms task_record | GetTask string | DeleteTask string | ClearTasks

fun sdk_task_step :: "sdk_tasks \<Rightarrow> sdk_task_op \<Rightarrow> sdk_tasks" where
  "sdk_task_step s (SaveTask now t) = snd (sdk_task_save now t s)"
| "sdk_task_step s (GetTask tid) = snd (sdk_task_get tid s)"
| "sdk_task_step s (DeleteTask tid) = snd (sdk_task_delete tid s)"
| "sdk_task_step s ClearTasks = sdk_task_clear s"

definition named :: "sdk_task_op \<Rightarrow> bool" where
  "named x = (case x of SaveTask now t \<Rightarrow> tr_task_id t \<noteq> [] | _ \<Rightarrow> True)"

definition sdk_tasks_ok :: "sdk_tasks \<Rightarrow> bool" where
  "sdk_tasks_ok s \<longleftrightarrow> lru_ok (sd_max s) (sd_tasks s) (sd_order s)"

lemma save_evicts:
  assumes "sdk_tasks_ok s" and "tr_task_id t \<noteq> []" and "sdk_task_save now t s = (r, s')"
  shows "sdk_tasks_ok s' \<and> sd_max s' = sd_max s \<and> suffix (sd_order s') (touch (tr_task_id t) (sd_order s)) \<and>
    length (sd_order s') = min (sd_max s) (length (touch (tr_task_id t) (sd_order s))) \<and>
    (\<forall>k \<in> set (sd_order s'). jm_get (sd_tasks s') k = jm_get (jm_set (tr_task_id t) (t\<lparr>tr_updated_at := now\<rparr>) (sd_tasks s)) k)"
proof -
  let ?m = "jm_set (tr_task_id t) (t\<lparr>tr_updated_at := now\<rparr>) (sd_tasks s)" and ?o = "touch (tr_task_id t) (sd_order s)"
  obtain m1 o1 where e: "evict_tasks (sd_max s) ?m ?o = (m1, o1)" by (cases "evict_tasks (sd_max s) ?m ?o")
  have s': "s' = s\<lparr>sd_tasks := m1, sd_order := o1\<rparr>" using assms(3) e by (simp add: sdk_task_save_def Let_def)
  have "jm_wf ?m" "distinct ?o" "set ?o = fst ` set ?m" "[] \<notin> set ?o"
    using assms(1,2) by (auto simp: sdk_tasks_ok_def lru_ok_def touch_simps set_keys)
  from evict_tasks_ok [OF this e] show ?thesis by (simp add: s' sdk_tasks_ok_def)
qed

lemma task_step_ok: "sdk_tasks_ok s \<Longrightarrow> named x \<Longrightarrow> sdk_tasks_ok (sdk_task_step s x)"
proof (cases x)
  case (SaveTask now t)
  then show "sdk_tasks_ok s \<Longrightarrow> named x \<Longrightarrow> ?thesis"
    using save_evicts [of s t now] by (cases "sdk_task_save now t s") (auto simp: named_def)
next
  case (GetTask tid)
  then show "sdk_tasks_ok s \<Longrightarrow> ?thesis"
    by (auto simp: sdk_task_get_def sdk_tasks_ok_def lru_ok_def touch_simps image_iff dest!: map_of_SomeD split: option.split; force)
next
  case (DeleteTask tid)
  then show "sdk_tasks_ok s \<Longrightarrow> ?thesis"
    using length_delete_le [of tid "sd_tasks s"]
    by (auto simp: sdk_task_delete_def sdk_tasks_ok_def lru_ok_def del_keys)
qed (auto simp: sdk_task_clear_def sdk_tasks_ok_def lru_ok_def)

interpretation sdk_tasks: invariant_system sdk_task_step named sdk_tasks_ok
  by unfold_locales (rule task_step_ok)

lemma new_sdk_tasks_ok: "sdk_tasks_ok (new_sdk_tasks n)"
  by (simp add: new_sdk_tasks_def sdk_tasks_ok_def lru_ok_def)

lemma step_max: "sd_max (sdk_task_step s x) = sd_max s"
  by (cases x) (auto simp: sdk_task_save_def sdk_task_get_def sdk_task_delete_def sdk_task_clear_def Let_def split: prod.splits option.splits)

text \<open>The task store never holds more than its limit, its order lists exactly its keys, and saving into a full store
  drops the task that was not touched for the longest time and no other.\<close>

theorem sdk_store_bounded:
  assumes "list_all named xs" and "s = foldl sdk_task_step (new_sdk_tasks (Some n)) xs" and "tr_task_id t \<noteq> []"
  shows "length (sd_tasks s) \<le> n \<and> set (sd_order s) = fst ` set (sd_tasks s) \<and>
    (length (sd_tasks s) = n \<and> sd_order s = oldest # rest \<and> \<not> jm_has (sd_tasks s) (tr_task_id t) \<longrightarrow>
       fst ` set (sd_tasks (snd (sdk_task_save now t s))) = insert (tr_task_id t) (fst ` set (sd_tasks s)) - {oldest})"
proof -
  have ok: "sdk_tasks_ok s" unfolding assms(2) by (rule sdk_tasks.run_inv [OF new_sdk_tasks_ok assms(1)])
  have "sd_max (foldl sdk_task_step s0 ys) = sd_max s0" for s0 ys by (induction ys arbitrary: s0) (auto simp: step_max)
  then have n: "sd_max s = n" by (simp add: assms(2) new_sdk_tasks_def)
  have drop: "fst ` set (sd_tasks (snd (sdk_task_save now t s))) = insert (tr_task_id t) (fst ` set (sd_tasks s)) - {oldest}"
    if full: "length (sd_tasks s) = n" "sd_order s = oldest # rest" "\<not> jm_has (sd_tasks s) (tr_task_id t)"
  proof -
    obtain r s' where e: "sdk_task_save now t s = (r, s')" by (cases "sdk_task_save now t s")
    have keys: "set (sd_order s) = fst ` set (sd_tasks s)" "distinct (sd_order s)" "jm_wf (sd_tasks s)"
      using ok by (simp_all add: sdk_tasks_ok_def lru_ok_def)
    have new: "tr_task_id t \<notin> set (sd_order s)" using full(3) keys(1) by (simp add: jm_has_def map_of_eq_None_iff)
    then have touched: "touch (tr_task_id t) (sd_order s) = oldest # (rest @ [tr_task_id t])"
      by (auto simp: touch_def full(2) filter_id_conv)
    have "length (sd_order s) = n" using keys full(1) by (metis distinct_card wf_length)
    then have len: "length (sd_order s') = length (rest @ [tr_task_id t])" and suf: "suffix (sd_order s') (oldest # (rest @ [tr_task_id t]))"
      and ok': "sdk_tasks_ok s'"
      using save_evicts [OF ok assms(3) e] full(2) unfolding touched by (simp_all add: n)
    have "sd_order s' = rest @ [tr_task_id t]"
    proof -
      from suf obtain zs where zs: "oldest # (rest @ [tr_task_id t]) = zs @ sd_order s'" by (auto simp: suffix_def)
      then have "length zs = 1" using len by (metis add_right_cancel length_Cons length_append plus_1_eq_Suc)
      then obtain z where "zs = [z]" by (metis One_nat_def length_0_conv length_Suc_conv)
      then show ?thesis using zs by simp
    qed
    moreover have "set (sd_order s') = fst ` set (sd_tasks s')" using ok' by (simp add: sdk_tasks_ok_def lru_ok_def)
    moreover have "oldest \<notin> set rest" "oldest \<noteq> tr_task_id t" using keys(2) new full(2) by auto
    ultimately show ?thesis using keys(1) full(2) by (auto simp: e)
  qed
  show ?thesis using ok drop n by (auto simp: sdk_tasks_ok_def lru_ok_def)
qed

text \<open>Deleting (or evicting) an old receipt of a task makes a newer one unreachable by its task.\<close>

theorem receipt_index_lost:
  assumes "rc_task_id r1 = Some tid" and "rc_task_id r2 = Some tid" and "rc_receipt_id r1 \<noteq> rc_receipt_id r2" and "2 \<le> n"
    and "s = snd (sdk_receipt_delete (rc_receipt_id r1) (sdk_receipt_save r2 (sdk_receipt_save r1 (new_sdk_receipts (Some n)))))"
  shows "fst (sdk_receipt_getByTaskId tid s) = Inl (TaskReceiptNotFound tid) \<and> fst (sdk_receipt_get (rc_receipt_id r2) s) = Inr r2"
  using assms by (simp add: sdk_receipt_delete_def sdk_receipt_save_def new_sdk_receipts_def touch_def sdk_receipt_getByTaskId_def
      sdk_receipt_get_def Let_def)

text \<open>A cursor is a position in the order of use, the pages are cut from the list sorted by time: tasks saved one after the
  other and read page by page (of one) end after the first page.\<close>

theorem pages_skip_tasks:
  assumes "sd_order s = xs @ [tr_task_id t]" and "newest_first tr_updated_at (jm_vals (sd_tasks s)) = t # ts" and "length ts = length xs"
    and "distinct (sd_order s)" and "tr_task_id t \<noteq> []"
    and f: "f = \<lparr>tf_tenant = None, tf_status = None, tf_capability = None, tf_agent = None, tf_limit = Some 1, tf_cursor = None\<rparr>"
  shows "sdk_task_list f s = ([t], Some (tr_task_id t)) \<and> sdk_task_list (f\<lparr>tf_cursor := Some (tr_task_id t)\<rparr>) s = ([], None)"
proof -
  have "takeWhile (\<lambda>y. y \<noteq> tr_task_id t) (xs @ [tr_task_id t]) = xs" using assms(1,4) by (auto simp: takeWhile_append)
  then have "index_after (tr_task_id t) (sd_order s) = Suc (length ts)" by (simp add: index_after_def assms(1,3))
  then show ?thesis using assms(2,5)
    by (simp add: sdk_task_list_def f filter_by_def paged_def page_def cursor_start_def Let_def)
qed

end
