(* ===== verification/SdkWebhooks.thy ===== *)
theory SdkWebhooks
  imports MicroAgent
begin

text \<open>
  Webhooks of the TypeScript SDK, \<open>src/packages/typescript/src/webhooks/index.ts\<close>. The
  other side's answers are given, one per attempt (\<open>True\<close>: an ok response). The loop of
  \<open>processQueue\<close> may run forever, so it is a partial function and not returning is
  \<open>None\<close>. Nothing else is called while it runs.
\<close>

datatype webhook_type =
    TaskDispatched | TaskProposed | TaskAccepted | TaskAwaitingApproval | TaskDenied | TaskRunning | TaskCompleted | TaskFailed
  | TaskRevoked | AgentRegistered | AgentDeregistered

record webhook_event =
  we_id :: string
  we_type :: webhook_type
  we_timestamp :: string
  we_data :: jsval
  we_retry_count :: "nat option"

record webhook_endpoint =
  wp_id :: string
  wp_url :: string
  wp_events :: "webhook_type list"
  wp_secret :: string
  wp_enabled :: bool

section \<open>The queue\<close>

record webhook_queue =
  wq_queue :: "webhook_event list"
  wq_max_size :: nat
  wq_max_retries :: nat
  wq_retry_delay :: nat

definition new_webhook_queue :: "nat option \<Rightarrow> nat option \<Rightarrow> nat option \<Rightarrow> webhook_queue" where
  "new_webhook_queue capacity retries delay =
     \<lparr>wq_queue = [], wq_max_size = (case capacity of None \<Rightarrow> 10000 | Some n \<Rightarrow> n),
      wq_max_retries = (case retries of None \<Rightarrow> 3 | Some n \<Rightarrow> n), wq_retry_delay = (case delay of None \<Rightarrow> 1000 | Some n \<Rightarrow> n)\<rparr>"

definition webhook_enqueue :: "webhook_event \<Rightarrow> webhook_queue \<Rightarrow> bool \<times> webhook_queue" where
  "webhook_enqueue e q =
     (if length (wq_queue q) \<ge> wq_max_size q then (False, q)
      else (True, q\<lparr>wq_queue := wq_queue q @ [e\<lparr>we_retry_count := Some 0\<rparr>]\<rparr>))"

definition webhook_dequeue :: "webhook_queue \<Rightarrow> webhook_event option \<times> webhook_queue" where
  "webhook_dequeue q = (case wq_queue q of [] \<Rightarrow> (None, q) | e # es \<Rightarrow> (Some e, q\<lparr>wq_queue := es\<rparr>))"

definition retry_count :: "webhook_event \<Rightarrow> nat" where
  "retry_count e = (case we_retry_count e of None \<Rightarrow> 0 | Some n \<Rightarrow> n)"

definition getRetryDelay :: "webhook_queue \<Rightarrow> webhook_event \<Rightarrow> nat" where
  "getRetryDelay q e = wq_retry_delay q * 2 ^ retry_count e"

definition shouldRetry :: "webhook_queue \<Rightarrow> webhook_event \<Rightarrow> bool" where
  "shouldRetry q e \<longleftrightarrow> retry_count e < wq_max_retries q"

definition markRetried :: "webhook_event \<Rightarrow> webhook_event" where
  "markRetried e = e\<lparr>we_retry_count := Some (retry_count e + 1)\<rparr>"

section \<open>The dispatcher\<close>

record webhook_dispatcher =
  wd_endpoints :: "(string, webhook_endpoint) jmap"
  wd_subscriptions :: "(webhook_type, string list) jmap"
  wd_queue :: webhook_queue

definition add_once :: "'a \<Rightarrow> 'a list \<Rightarrow> 'a list" where
  "add_once x xs = (if x \<in> set xs then xs else xs @ [x])"

definition subscribe :: "string \<Rightarrow> (webhook_type, string list) jmap \<Rightarrow> webhook_type \<Rightarrow> (webhook_type, string list) jmap" where
  "subscribe ident subs ty = jm_set ty (add_once ident (case jm_get subs ty of None \<Rightarrow> [] | Some ids \<Rightarrow> ids)) subs"

definition registerEndpoint :: "webhook_endpoint \<Rightarrow> webhook_dispatcher \<Rightarrow> webhook_dispatcher" where
  "registerEndpoint e d =
     d\<lparr>wd_endpoints := jm_set (wp_id e) e (wd_endpoints d),
       wd_subscriptions := foldl (subscribe (wp_id e)) (wd_subscriptions d) (wp_events e)\<rparr>"

definition unsubscribe :: "string \<Rightarrow> (webhook_type, string list) jmap \<Rightarrow> webhook_type \<Rightarrow> (webhook_type, string list) jmap" where
  "unsubscribe ident subs ty =
     (case jm_get subs ty of None \<Rightarrow> subs | Some ids \<Rightarrow> jm_set ty (filter (\<lambda>x. x \<noteq> ident) ids) subs)"

definition unregisterEndpoint :: "string \<Rightarrow> webhook_dispatcher \<Rightarrow> webhook_dispatcher" where
  "unregisterEndpoint ident d =
     (case jm_get (wd_endpoints d) ident of
        None \<Rightarrow> d
      | Some e \<Rightarrow> d\<lparr>wd_subscriptions := foldl (unsubscribe ident) (wd_subscriptions d) (wp_events e),
                   wd_endpoints := jm_del ident (wd_endpoints d)\<rparr>)"

definition subscribers :: "webhook_dispatcher \<Rightarrow> webhook_type \<Rightarrow> string list" where
  "subscribers d ty = (case jm_get (wd_subscriptions d) ty of None \<Rightarrow> [] | Some ids \<Rightarrow> ids)"

definition enabled_endpoint :: "webhook_dispatcher \<Rightarrow> string \<Rightarrow> webhook_endpoint option" where
  "enabled_endpoint d ident =
     (case jm_get (wd_endpoints d) ident of None \<Rightarrow> None | Some e \<Rightarrow> if wp_enabled e then Some e else None)"

text \<open>The endpoints an event is sent to at once.\<close>

definition dispatchEvent :: "webhook_dispatcher \<Rightarrow> webhook_event \<Rightarrow> webhook_endpoint list" where
  "dispatchEvent d e = List.map_filter (enabled_endpoint d) (subscribers d (we_type e))"

text \<open>\<open>JSON.stringify(v)\<close>, and \<open>toString("base64")\<close> on bytes.\<close>

fun json_text :: "(rat \<Rightarrow> string) \<Rightarrow> jsval \<Rightarrow> string option" where
  "json_text num JNull = Some ''null''"
| "json_text num (JBool b) = Some (if b then ''true'' else ''false'')"
| "json_text num (JNum n) = Some (case n of Fin x \<Rightarrow> finite_text num x | _ \<Rightarrow> ''null'')"
| "json_text num (JStr s) = Some (json_quote s)"
| "json_text num (JArr xs) = Some (''['' @ join_with '','' (map (\<lambda>x. opt_text ''null'' (json_text num x)) xs) @ '']'')"
| "json_text num (JObj kvs) =
     Some (''{'' @ join_with '','' (concat (map (\<lambda>e. case json_text num (snd e) of Some t \<Rightarrow> [json_quote (fst e) @ '':'' @ t] | None \<Rightarrow> []) kvs)) @ ''}'')"
| "json_text num JUndef = None"
| "json_text num (JFun f) = None"

definition base64 :: "nat list \<Rightarrow> string" where
  "base64 bs =
     map (\<lambda>c. if c = CHR ''-'' then CHR ''+'' else if c = CHR ''_'' then CHR ''/'' else c) (b64_encode bs) @
     replicate ((3 - length bs mod 3) mod 3) (CHR ''='')"

text \<open>The payload is encoded, not signed: the secret plays no part.\<close>

definition signPayload :: "(rat \<Rightarrow> string) \<Rightarrow> ms \<Rightarrow> webhook_event \<Rightarrow> string \<Rightarrow> string \<times> string" where
  "signPayload num now e secret =
     (let timestamp = toISOString now in
      (base64 (utf8 (we_id e @ ''.'' @ timestamp @ ''.'' @ opt_text ''undefined'' (json_text num (we_data e)))), timestamp))"

section \<open>Draining the queue\<close>

record webhook_delivery =
  wt_event :: string
  wt_endpoint :: string
  wt_ok :: bool

text \<open>The loop over the subscribers of the event in front: the attempts made, and whether it gave the event up for now.\<close>

fun deliver_to :: "(nat \<Rightarrow> bool) \<Rightarrow> webhook_dispatcher \<Rightarrow> webhook_event \<Rightarrow> string list \<Rightarrow> webhook_delivery list
    \<Rightarrow> webhook_delivery list \<times> bool" where
  "deliver_to answer d e [] rs = (rs, True)"
| "deliver_to answer d e (i # is) rs =
     (case enabled_endpoint d i of
        None \<Rightarrow> deliver_to answer d e is rs
      | Some p \<Rightarrow>
          (let ok = answer (length rs); rs1 = rs @ [\<lparr>wt_event = we_id e, wt_endpoint = i, wt_ok = ok\<rparr>] in
           if \<not> ok \<and> shouldRetry (wd_queue d) e then (rs1, False) else deliver_to answer d e is rs1))"

definition drop_front :: "webhook_dispatcher \<Rightarrow> webhook_dispatcher" where
  "drop_front d = d\<lparr>wd_queue := snd (webhook_dequeue (wd_queue d))\<rparr>"

definition put_back :: "webhook_event \<Rightarrow> webhook_dispatcher \<Rightarrow> webhook_dispatcher" where
  "put_back e d = d\<lparr>wd_queue := snd (webhook_enqueue (markRetried e) (wd_queue d))\<rparr>"

definition process_front :: "(nat \<Rightarrow> bool) \<Rightarrow> webhook_dispatcher \<Rightarrow> webhook_event \<Rightarrow> webhook_delivery list
    \<Rightarrow> webhook_dispatcher \<times> webhook_delivery list" where
  "process_front answer d e rs =
     (case deliver_to answer d e (subscribers d (we_type e)) rs of
        (rs1, True) \<Rightarrow> (drop_front d, rs1)
      | (rs1, False) \<Rightarrow> (put_back e (drop_front d), rs1))"

partial_function (option) process_loop :: "(nat \<Rightarrow> bool) \<Rightarrow> webhook_dispatcher \<Rightarrow> webhook_delivery list
    \<Rightarrow> (webhook_delivery list \<times> webhook_dispatcher) option" where
  "process_loop answer d rs =
     (case wq_queue (wd_queue d) of
        [] \<Rightarrow> Some (rs, d)
      | e # es \<Rightarrow> process_loop answer (fst (process_front answer d e rs)) (snd (process_front answer d e rs)))"

declare process_loop.simps [code]

definition processQueue :: "(nat \<Rightarrow> bool) \<Rightarrow> webhook_dispatcher \<Rightarrow> (webhook_delivery list \<times> webhook_dispatcher) option" where
  "processQueue answer d = process_loop answer d []"

fun taskStatusToEventType :: "task_status \<Rightarrow> webhook_type" where
  "taskStatusToEventType Accepted = TaskAccepted"
| "taskStatusToEventType Proposed = TaskProposed"
| "taskStatusToEventType AwaitingApproval = TaskAwaitingApproval"
| "taskStatusToEventType TDenied = TaskDenied"
| "taskStatusToEventType Running = TaskRunning"
| "taskStatusToEventType Completed = TaskCompleted"
| "taskStatusToEventType Failed = TaskFailed"
| "taskStatusToEventType Revoked = TaskRevoked"

section \<open>Lemmas\<close>

lemma front_all_ok:
  "\<forall>i. answer i \<Longrightarrow> deliver_to answer d e is rs =
     (rs @ map (\<lambda>p. \<lparr>wt_event = we_id e, wt_endpoint = fst p, wt_ok = True\<rparr>)
        (filter (\<lambda>p. snd p \<noteq> None) (map (\<lambda>i. (i, enabled_endpoint d i)) is)), True)"
  by (induction "is" arbitrary: rs) (auto simp: Let_def split: option.split)

lemma drop_front_simps [simp]:
  "wd_endpoints (drop_front d) = wd_endpoints d" "wd_subscriptions (drop_front d) = wd_subscriptions d"
  "wq_queue (wd_queue (drop_front d)) = tl (wq_queue (wd_queue d))" "wq_max_retries (wd_queue (drop_front d)) = wq_max_retries (wd_queue d)"
  "wq_max_size (wd_queue (drop_front d)) = wq_max_size (wd_queue d)"
  by (simp_all add: drop_front_def webhook_dequeue_def split: list.split)

lemma enabled_drop [simp]: "enabled_endpoint (drop_front d) i = enabled_endpoint d i" "subscribers (drop_front d) ty = subscribers d ty"
  by (simp_all add: enabled_endpoint_def subscribers_def)

definition sent_for :: "webhook_dispatcher \<Rightarrow> webhook_event \<Rightarrow> webhook_delivery list" where
  "sent_for d e = map (\<lambda>i. \<lparr>wt_event = we_id e, wt_endpoint = i, wt_ok = True\<rparr>)
     (filter (\<lambda>i. enabled_endpoint d i \<noteq> None) (subscribers d (we_type e)))"

text \<open>While every endpoint answers, the queue is drained in order: each event goes once to each enabled subscriber.\<close>

lemma sent_for_drop [simp]: "sent_for (drop_front d) = sent_for d"
  by (rule ext) (simp add: sent_for_def)

lemma loop_drains:
  assumes "\<forall>i. answer i"
  shows "\<exists>d'. process_loop answer d rs = Some (rs @ concat (map (sent_for d) (wq_queue (wd_queue d))), d') \<and> wq_queue (wd_queue d') = []"
proof (induction "length (wq_queue (wd_queue d))" arbitrary: d rs)
  case 0
  then show ?case by (simp add: process_loop.simps)
next
  case (Suc n)
  then obtain e es where q: "wq_queue (wd_queue d) = e # es" by (cases "wq_queue (wd_queue d)") auto
  have front: "process_front answer d e rs = (drop_front d, rs @ sent_for d e)"
    by (simp add: process_front_def front_all_ok [OF assms] sent_for_def filter_map comp_def)
  have "n = length (wq_queue (wd_queue (drop_front d)))" using Suc.hyps(2) by (simp add: q)
  from Suc.hyps(1) [OF this, of "rs @ sent_for d e"] show ?case
    by (subst process_loop.simps) (simp add: q front)
qed

theorem queue_drains:
  assumes "\<forall>i. answer i"
  shows "\<exists>d'. processQueue answer d = Some (concat (map (sent_for d) (wq_queue (wd_queue d))), d') \<and> wq_queue (wd_queue d') = []"
  using loop_drains [OF assms, of d "[]"] by (simp add: processQueue_def)

section \<open>Retries\<close>

text \<open>Some enabled endpoint is subscribed to an event's type.\<close>

definition has_target :: "webhook_dispatcher \<Rightarrow> webhook_event \<Rightarrow> bool" where
  "has_target d e \<longleftrightarrow> (\<exists>i \<in> set (subscribers d (we_type e)). enabled_endpoint d i \<noteq> None)"

lemma deliver_gives_up:
  assumes "\<forall>i. \<not> answer i" and "shouldRetry (wd_queue d) e" and "\<exists>i \<in> set is. enabled_endpoint d i \<noteq> None"
  shows "\<not> snd (deliver_to answer d e is rs)"
  using assms(3) by (induction "is" arbitrary: rs) (auto simp: assms(1,2) Let_def split: option.split)

text \<open>One event in a queue with room, to be retried, that no endpoint ever takes.\<close>

definition stuck :: "webhook_dispatcher \<Rightarrow> bool" where
  "stuck d \<longleftrightarrow> (\<exists>e. wq_queue (wd_queue d) = [e] \<and> retry_count e = 0 \<and> has_target d e) \<and>
     0 < wq_max_retries (wd_queue d) \<and> 0 < wq_max_size (wd_queue d)"

lemma stuck_again:
  assumes "\<forall>i. \<not> answer i" and "stuck d" and "wq_queue (wd_queue d) = e # es"
  shows "stuck (fst (process_front answer d e rs))"
proof -
  have e: "es = []" "retry_count e = 0" "has_target d e" "0 < wq_max_retries (wd_queue d)" "0 < wq_max_size (wd_queue d)"
    using assms(2,3) by (auto simp: stuck_def)
  have "\<not> snd (deliver_to answer d e (subscribers d (we_type e)) rs)"
    using e by (intro deliver_gives_up [OF assms(1)]) (simp_all add: shouldRetry_def has_target_def)
  then obtain rs1 where f: "process_front answer d e rs = (put_back e (drop_front d), rs1)"
    by (cases "deliver_to answer d e (subscribers d (we_type e)) rs") (auto simp: process_front_def)
  have q: "wq_queue (wd_queue (put_back e (drop_front d))) = [e\<lparr>we_retry_count := Some 0\<rparr>]"
      "wq_max_retries (wd_queue (put_back e (drop_front d))) = wq_max_retries (wd_queue d)"
      "wq_max_size (wd_queue (put_back e (drop_front d))) = wq_max_size (wd_queue d)"
    using assms(3) e by (simp_all add: put_back_def webhook_enqueue_def markRetried_def)
  have "has_target (put_back e (drop_front d)) (e\<lparr>we_retry_count := Some 0\<rparr>)"
    using e(3) by (simp add: has_target_def subscribers_def enabled_endpoint_def put_back_def)
  then show ?thesis using q e by (simp add: f stuck_def retry_count_def)
qed

text \<open>The count of retries is set to zero when an event is put back, so the limit on retries is never reached: with one
  event whose endpoint never answers, \<open>processQueue\<close> does not return.\<close>

lemma stuck_loop:
  assumes "process_loop answer d rs = Some r"
  shows "(\<forall>i. \<not> answer i) \<longrightarrow> stuck d \<longrightarrow> False"
proof (rule process_loop.raw_induct [OF _ assms, of "\<lambda>a d rs r. (\<forall>i. \<not> a i) \<longrightarrow> stuck d \<longrightarrow> False"])
  fix loop :: "(nat \<Rightarrow> bool) \<Rightarrow> webhook_dispatcher \<Rightarrow> webhook_delivery list \<Rightarrow> (webhook_delivery list \<times> webhook_dispatcher) option"
    and a d rs r
  assume IH: "\<And>a d rs r. loop a d rs = Some r \<Longrightarrow> (\<forall>i. \<not> a i) \<longrightarrow> stuck d \<longrightarrow> False"
    and step: "(case wq_queue (wd_queue d) of [] \<Rightarrow> Some (rs, d)
      | e # es \<Rightarrow> loop a (fst (process_front a d e rs)) (snd (process_front a d e rs))) = Some r"
  show "(\<forall>i. \<not> a i) \<longrightarrow> stuck d \<longrightarrow> False"
  proof (intro impI)
    assume none: "\<forall>i. \<not> a i" and "stuck d"
    then obtain e where q: "wq_queue (wd_queue d) = [e]" by (auto simp: stuck_def)
    then have "loop a (fst (process_front a d e rs)) (snd (process_front a d e rs)) = Some r" using step by simp
    from IH [OF this] show False using none stuck_again [OF none \<open>stuck d\<close> q] by blast
  qed
qed

theorem retries_never_end:
  assumes "\<forall>i. \<not> answer i" and "stuck d"
  shows "processQueue answer d = None"
  using stuck_loop assms by (cases "processQueue answer d") (auto simp: processQueue_def)

text \<open>Registering an endpoint again with fewer events leaves the old subscriptions: it still gets what it no longer asked for.\<close>

lemma subscribe_fold: "jm_get (foldl (subscribe i) subs tys) ty = (if ty \<in> set tys then Some (add_once i (case jm_get subs ty of None \<Rightarrow> [] | Some ids \<Rightarrow> ids))
    else jm_get subs ty)"
proof (induction tys rule: rev_induct)
  case (snoc t tys)
  have twice: "add_once i (add_once i ids) = add_once i ids" for ids by (simp add: add_once_def)
  show ?case using snoc by (auto simp: subscribe_def jm_get_set twice)
qed simp

theorem reregistration_keeps_subscriptions:
  assumes "ty \<in> set (wp_events old)" and "wp_id new = wp_id old" and "wp_enabled new" and "we_type e = ty"
  shows "new \<in> set (dispatchEvent (registerEndpoint new (registerEndpoint old d)) e)"
proof -
  let ?d = "registerEndpoint new (registerEndpoint old d)"
  have "wp_id old \<in> set (subscribers ?d ty)"
    using assms(1,2) by (auto simp: subscribers_def registerEndpoint_def subscribe_fold add_once_def)
  moreover have "enabled_endpoint ?d (wp_id old) = Some new"
    using assms(2,3) by (simp add: enabled_endpoint_def registerEndpoint_def jm_get_set)
  ultimately show ?thesis by (force simp: dispatchEvent_def assms(4) List.map_filter_def)
qed

text \<open>Unregistering ends it: no event is delivered to an endpoint that is gone.\<close>

lemma unregistered_gets_nothing: "p \<in> set (dispatchEvent (unregisterEndpoint i d) e) \<Longrightarrow> jm_get (wd_endpoints d) i \<noteq> None \<Longrightarrow>
    \<exists>j. j \<noteq> i \<and> enabled_endpoint d j = Some p"
  by (auto simp: dispatchEvent_def List.map_filter_def enabled_endpoint_def unregisterEndpoint_def jm_get_del split: option.splits if_splits)

end
