(* ===== verification/Site.thy ===== *)
theory Site
  imports RouteProofs Alerts
begin

text \<open>
  What the HTTP server of \<open>src/src/server\<close> keeps besides the runtime (alerts, metrics,
  the files of the run-time controls and the policy), how it reads a request body
  (\<open>server/http.ts\<close>, \<open>server/utils.ts\<close>), what its routes answer, and how an answer is
  counted. The body of an answer is the value that is serialized. The URL parser,
  \<open>decodeURIComponent\<close>, \<open>localeCompare\<close>, the digest of a body, and the texts of Ajv and of the
  engine's own errors are parameters.
\<close>

section \<open>State\<close>

type_synonym controls = "(string, control_mark) jmap \<times> (string, (string, control_mark) jmap) jmap \<times> (string, control_mark) jmap"

record site =
  si_server :: server
  si_alerts :: alert_state
  si_metrics :: metrics_manager
  si_alert_file :: "alert_record list option"
  si_metrics_file :: "(metrics \<times> (string \<times> slo_snapshot) list) option"
  si_controls_file :: "controls option"
  si_policy_file :: "jsval option"

section \<open>Answers\<close>

datatype control_action =
    AgentDisable string control_mark
  | AgentEnable string string
  | CapabilityDisable string string control_mark
  | CapabilityEnable string string string
  | KeyRevoke string control_mark
  | KeyUnrevoke string string

record admin_key =
  ak_key :: verification_key
  ak_is_active :: bool
  ak_signable :: bool
  ak_runtime_revocation :: "control_mark option"

record task_counts =
  tk_total :: nat
  tk_by_status :: "(string, nat) jmap"
  tk_by_capability :: "(string, nat) jmap"
  tk_by_agent :: "(string, nat) jmap"

record site_metrics =
  sx_queue :: queue_stats
  sx_tasks :: task_counts
  sx_requests :: request_metrics
  sx_errors :: error_breakdown
  sx_errors_listed :: bool
  sx_latencies :: "(string, latency_metrics) jmap"
  sx_key_usage :: key_usage
  sx_anomalies :: usage_anomalies
  sx_alerts :: alert_breaches

record site_status =
  su_queue :: queue_config
  su_limits :: alert_limits
  su_keys :: "verification_key list"
  su_key_usage :: key_usage
  su_anomalies :: usage_anomalies

record conformance_artifact =
  ca_checks :: "(string \<times> bool) list"
  ca_profile_evaluation :: profile_evaluation
  ca_stores :: "bool list"
  ca_audit :: audit_report

datatype stream_event = StatusEvent string task_status string string ms | ResultEvent string result_package | StreamError string

datatype site_body =
    Discovery string profile "agent_descriptor list"
  | Health bool queue_stats profile_evaluation "string list"
  | Ready bool "bool list" profile_evaluation
  | Status site_status
  | KeysPage "verification_key list" "string option" trust_metadata "string list" nat "string option"
  | AgentsBody "agent_descriptor list"
  | DeadLettersPage "dead_letter list" nat "string option"
  | AlertsPage "alert_record list" nat "string option"
  | AuditPage "audit_event list" "audit_checkpoint list" nat "int option"
  | TasksPage "task_record list" nat "string option"
  | ReceiptsPage "receipt list" nat "string option"
  | AuditVerdict audit_report
  | AuditExport audit_export_payload string string "audit_event list" "audit_checkpoint list"
  | ConformanceExport conformance_export_payload string string conformance_artifact
  | TrustBundle trust_bundle_payload string string "verification_key list"
  | MetricsBody site_metrics
  | ReceiptVerdict integrity_report
  | AlertBody alert_record
  | TaskBody task_record
  | ReceiptBody receipt
  | ControlsBody controls bool
  | AdminKeysBody "admin_key list" "string option" trust_metadata
  | ControlBody control_action
  | AnomaliesBody "anomaly_report list" signing_state
  | PolicyBody policy_document "string list"
  | PolicySwapped policy_document nat nat
  | SloBody "(string, error_budget) jmap" "slo_alert list"

datatype site_reply =
    Reply http_reply
  | Body nat site_body "(string \<times> string) list"
  | NotModified
  | Stream "stream_event list"

datatype site_throw =
    RouteThrew route_throw
  | BodyTooLarge nat
  | BadJson
  | UriMalformed
  | UrlInvalid
  | SigningThrew sign_error
  | DateInvalid
  | OutsideModel

text \<open>\<open>None\<close> is a route that is not concerned (the handler returns \<open>false\<close>). \<open>OutsideModel\<close> is the one case that is
  not modelled: a new policy document whose conditions do not compile.\<close>

type_synonym route = "site \<Rightarrow> site \<times> (site_throw + site_reply option)"

definition answer :: "site_reply \<Rightarrow> route" where "answer r st = (st, Inr (Some r))"

definition raise :: "site_throw \<Rightarrow> route" where "raise e st = (st, Inl e)"

definition not_mine :: route where "not_mine st = (st, Inr None)"

definition fail_with :: "nat \<Rightarrow> string \<Rightarrow> string \<Rightarrow> bool \<Rightarrow> route" where
  "fail_with status code message retryable = answer (Reply (ErrorReply status code message retryable))"

section \<open>What a request is read with\<close>

record site_world =
  xw_server :: server_world
  xw_profile :: profile
  xw_metrics :: metrics_config
  xw_limits :: alert_limits
  xw_detector :: detector
  xw_queue_options :: queue_options
  xw_query :: "string \<Rightarrow> string \<Rightarrow> string option"
  xw_decode :: "string \<Rightarrow> string option"
  xw_locale_le :: "string \<Rightarrow> string \<Rightarrow> bool"
  xw_jwk :: "string \<Rightarrow> jsval option"
  xw_etag :: "site_body \<Rightarrow> string"
  xw_sha_keys :: "verification_key list \<Rightarrow> string"
  xw_sha_artifact :: "conformance_artifact \<Rightarrow> string"
  xw_writable :: "string \<Rightarrow> bool"
  xw_byte_length :: "string \<Rightarrow> nat"
  xw_store_paths :: "string option list"
  xw_uuid :: string
  xw_request_uuid :: string
  xw_elapsed :: rat
  xw_validation_text :: string
  xw_engine_text :: string
  xw_template :: "jsval \<Rightarrow> string"
  xw_alerts_stored :: bool
  xw_metrics_stored :: bool
  xw_controls_stored :: bool
  xw_policy_stored :: bool

abbreviation xnow :: "site_world \<Rightarrow> ms" where "xnow X \<equiv> vnow (xw_server X)"

abbreviation xsigning :: "site_world \<Rightarrow> signing_world" where "xsigning X \<equiv> vsigning (xw_server X)"

definition site_pathname :: "site_world \<Rightarrow> string \<Rightarrow> string option" where
  "site_pathname X url = aw_path (vw_auth (xw_server X)) url"

text \<open>\<open>s.slice(a, -b)\<close>.\<close>

definition js_slice :: "nat \<Rightarrow> nat \<Rightarrow> string \<Rightarrow> string" where
  "js_slice a b s = drop a (take (length s - b) s)"

section \<open>Reading a body\<close>

definition unsafe_keys :: "string list" where
  "unsafe_keys = [''__proto__'', ''constructor'', ''prototype'']"

fun sanitizeKeys :: "jsval \<Rightarrow> jsval" where
  "sanitizeKeys (JArr xs) = JArr (map sanitizeKeys xs)"
| "sanitizeKeys (JObj kvs) = JObj (map (\<lambda>(k, v). (k, sanitizeKeys v)) (filter (\<lambda>kv. fst kv \<notin> set unsafe_keys) kvs))"
| "sanitizeKeys v = v"

definition max_body_size :: nat where "max_body_size = 1048576"

text \<open>The body of the call as text; the length of its bytes counts against the limit.\<close>

definition readJsonBody :: "site_world \<Rightarrow> http_call \<Rightarrow> site_throw + jsval" where
  "readJsonBody X c =
     (let raw = hc_raw c in
      if xw_byte_length X raw > max_body_size then Inl (BodyTooLarge max_body_size)
      else if raw = [] then Inr (JObj [])
      else (case sw_json (xsigning X) raw of None \<Rightarrow> Inl BadJson | Some v \<Rightarrow> Inr (sanitizeKeys v)))"

definition with_body :: "site_world \<Rightarrow> http_call \<Rightarrow> (jsval \<Rightarrow> route) \<Rightarrow> route" where
  "with_body X c f = (case readJsonBody X c of Inl e \<Rightarrow> raise e | Inr v \<Rightarrow> f v)"

definition text_member :: "jsval \<Rightarrow> string \<Rightarrow> string option" where
  "text_member v k = map_option str_trim (nonblank (js_prop v k))"

definition named_actor :: "string \<Rightarrow> jsval \<Rightarrow> string" where
  "named_actor d v = (case text_member v ''actor'' of None \<Rightarrow> d | Some s \<Rightarrow> s)"

section \<open>Query parameters and pages\<close>

definition parsePositiveIntOrDefault :: "string option \<Rightarrow> int \<Rightarrow> int" where
  "parsePositiveIntOrDefault v fallback =
     (case v of
        None \<Rightarrow> fallback
      | Some s \<Rightarrow> if s = [] then fallback else (case js_number s of Fin x \<Rightarrow> \<lfloor>x\<rfloor> | _ \<Rightarrow> fallback))"

definition page_limit :: "int \<Rightarrow> string option \<Rightarrow> nat" where
  "page_limit most v = nat (max 1 (min most (parsePositiveIntOrDefault v 100)))"

definition query_text :: "site_world \<Rightarrow> string \<Rightarrow> string \<Rightarrow> string option" where
  "query_text X url k = (case xw_query X url k of None \<Rightarrow> None | Some s \<Rightarrow> if s = [] then None else Some s)"

text \<open>\<open>xs.findIndex(x => f(x) === id) + 1\<close>, and 0 without a cursor.\<close>

definition start_index :: "('a \<Rightarrow> 'k) \<Rightarrow> 'k option \<Rightarrow> 'a list \<Rightarrow> nat" where
  "start_index f cursor xs =
     (case cursor of
        None \<Rightarrow> 0
      | Some k \<Rightarrow> if k \<in> f ` set xs then Suc (length (takeWhile (\<lambda>x. f x \<noteq> k) xs)) else 0)"

definition page_at :: "('a \<Rightarrow> 'k) \<Rightarrow> 'k option \<Rightarrow> nat \<Rightarrow> 'a list \<Rightarrow> 'a list" where
  "page_at f cursor limit xs = take limit (drop (start_index f cursor xs) xs)"

definition next_cursor :: "('a \<Rightarrow> 'k) \<Rightarrow> 'k option \<Rightarrow> nat \<Rightarrow> 'a list \<Rightarrow> 'k option" where
  "next_cursor f cursor limit xs =
     (let i = start_index f cursor xs + limit in
      if i < length xs then Some (f (xs ! (i - 1))) else None)"

text \<open>A client that follows the cursors; \<open>None\<close> when it never ends.\<close>

partial_function (option) follow :: "('a \<Rightarrow> 'k) \<Rightarrow> nat \<Rightarrow> 'a list \<Rightarrow> 'k option \<Rightarrow> 'a list list option" where
  "follow f limit xs cursor =
     (case next_cursor f cursor limit xs of
        None \<Rightarrow> Some [page_at f cursor limit xs]
      | Some c \<Rightarrow> Option.bind (follow f limit xs (Some c)) (\<lambda>ps. Some (page_at f cursor limit xs # ps)))"

lemma start_index_nth:
  assumes "distinct (map f xs)" and "i < length xs"
  shows "start_index f (Some (f (xs ! i))) xs = Suc i"
proof -
  have "takeWhile (\<lambda>x. f x \<noteq> f (xs ! i)) xs = take i xs"
  proof (rule takeWhile_eq_take_P_nth)
    show "f (xs ! j) \<noteq> f (xs ! i)" if "j < i" "j < length xs" for j
      using that assms by (metis distinct_conv_nth length_map less_irrefl_nat nth_map)
  qed simp
  then show ?thesis using assms by (simp add: start_index_def)
qed

lemma follow_from:
  assumes "distinct (map f xs)" and "0 < limit" and "start_index f cursor xs = i" and "i \<le> length xs"
  shows "\<exists>ps. follow f limit xs cursor = Some ps \<and> concat ps = drop i xs \<and> list_all (\<lambda>p. length p \<le> limit) ps"
  using assms(3,4)
proof (induction "length xs - i" arbitrary: i cursor rule: less_induct)
  case less
  show ?case
  proof (cases "i + limit < length xs")
    case False
    then have "next_cursor f cursor limit xs = None" by (simp add: next_cursor_def less.prems(1))
    then show ?thesis using False by (subst follow.simps) (simp add: page_at_def less.prems(1))
  next
    case True
    let ?c = "f (xs ! (i + limit - 1))"
    have c: "next_cursor f cursor limit xs = Some ?c" using True by (simp add: next_cursor_def less.prems(1))
    have "start_index f (Some ?c) xs = Suc (i + limit - 1)"
      by (rule start_index_nth [OF assms(1)]) (use True assms(2) in simp)
    then have "start_index f (Some ?c) xs = i + limit" using assms(2) by simp
    moreover have "length xs - (i + limit) < length xs - i" using True assms(2) by linarith
    ultimately obtain ps where ps: "follow f limit xs (Some ?c) = Some ps" "concat ps = drop (i + limit) xs"
        "list_all (\<lambda>p. length p \<le> limit) ps"
      using less.hyps [of "i + limit" "Some ?c"] True by auto
    have "take limit (drop i xs) @ drop (i + limit) xs = drop i xs"
      by (metis append_take_drop_id drop_drop add.commute)
    then show ?thesis using c ps by (subst follow.simps) (simp add: page_at_def less.prems(1))
  qed
qed

text \<open>Over a list that stays as it is, with different ids, the pages are the list, each page is within its limit,
  and the last cursor comes.\<close>

lemma pages_are_the_list:
  assumes "distinct (map f xs)" and "0 < limit"
  shows "\<exists>ps. follow f limit xs None = Some ps \<and> concat ps = xs \<and> list_all (\<lambda>p. length p \<le> limit) ps"
  using follow_from [OF assms, of None 0] by (simp add: start_index_def)

lemma page_limit_pos [simp]: "0 < page_limit most v"
  by (simp add: page_limit_def)

text \<open>With an id that occurs twice it may not: the second occurrence sends the client back.\<close>

lemma twin_loops:
  assumes "f a = f b"
  shows "follow f 1 [a, b, d] (Some (f a)) = None"
proof (cases "follow f 1 [a, b, d] (Some (f a))")
  case (Some ps)
  have "f = f \<longrightarrow> (1::nat) = 1 \<longrightarrow> [a, b, d] = [a, b, d] \<longrightarrow> Some (f a) = Some (f a) \<longrightarrow> False"
  proof (rule follow.raw_induct [OF _ Some, of "\<lambda>g limit xs c ps. g = f \<longrightarrow> limit = 1 \<longrightarrow> xs = [a, b, d] \<longrightarrow> c = Some (f a) \<longrightarrow> False"])
    fix loop g limit xs c qs
    assume IH: "\<And>g limit xs c ps. loop g limit xs c = Some ps \<Longrightarrow> g = f \<longrightarrow> limit = 1 \<longrightarrow> xs = [a, b, d] \<longrightarrow> c = Some (f a) \<longrightarrow> False"
      and step: "(case next_cursor g c limit xs of None \<Rightarrow> Some [page_at g c limit xs]
        | Some c' \<Rightarrow> Option.bind (loop g limit xs (Some c')) (\<lambda>ps. Some (page_at g c limit xs # ps))) = Some qs"
    show "g = f \<longrightarrow> limit = 1 \<longrightarrow> xs = [a, b, d] \<longrightarrow> c = Some (f a) \<longrightarrow> False"
    proof (intro impI)
      assume at: "g = f" "limit = 1" "xs = [a, b, d]" "c = Some (f a)"
      have "next_cursor g c limit xs = Some (f a)" by (simp add: at next_cursor_def start_index_def assms)
      then obtain ps where "loop g limit xs (Some (f a)) = Some ps" using step by (auto split: Option.bind_splits)
      from IH [OF this] at show False by simp
    qed
  qed
  then show ?thesis by simp
qed

section \<open>Counting answers\<close>

definition count_reply :: "site_world \<Rightarrow> bool \<Rightarrow> string option \<Rightarrow> string option \<Rightarrow> site \<Rightarrow> site" where
  "count_reply X ok code agent st =
     st\<lparr>si_metrics := manager_recordRequest (xw_metrics X) (xnow X) ok code agent (si_metrics st)\<rparr>"

text \<open>\<open>sendJson\<close> and \<open>sendError\<close> count; an answer without a body and the start of a stream are written directly.\<close>

definition count_site_reply :: "site_world \<Rightarrow> string option \<Rightarrow> site_reply \<Rightarrow> site \<Rightarrow> site" where
  "count_site_reply X agent r st =
     (case r of
        Reply (ErrorReply status code message retryable) \<Rightarrow> count_reply X False (Some code) agent st
      | Reply (ResultReply status res headers) \<Rightarrow> count_reply X True None None st
      | Body status b headers \<Rightarrow> count_reply X True None None st
      | _ \<Rightarrow> st)"

text \<open>\<open>sendEtagJson\<close>.\<close>

definition etag_answer :: "site_world \<Rightarrow> http_call \<Rightarrow> (string \<times> string) list \<Rightarrow> site_body \<Rightarrow> route" where
  "etag_answer X c headers b =
     (if header (hc_request c) ''if-none-match'' = Some (xw_etag X b) then answer NotModified
      else answer (Body 200 b (headers @ [(''etag'', xw_etag X b)])))"

section \<open>Sanitized bodies\<close>

fun clean :: "jsval \<Rightarrow> bool" where
  "clean (JArr xs) = list_all clean xs"
| "clean (JObj kvs) = list_all (\<lambda>(k, v). k \<notin> set unsafe_keys \<and> clean v) kvs"
| "clean v = True"

lemma sanitized_clean: "clean (sanitizeKeys v)"
  by (induction v rule: sanitizeKeys.induct) (auto simp: list_all_iff)

lemma clean_unchanged: "clean v \<Longrightarrow> sanitizeKeys v = v"
proof (induction v rule: sanitizeKeys.induct)
  case (2 kvs)
  have "filter (\<lambda>kv. fst kv \<notin> set unsafe_keys) kvs = kvs" using 2(2) by (auto simp: filter_id_conv list_all_iff)
  moreover have "map (\<lambda>(k, v). (k, sanitizeKeys v)) kvs = kvs"
    using 2 by (intro map_idI) (auto simp: list_all_iff)
  ultimately show ?case by simp
qed (auto simp: list_all_iff intro: map_idI)

end
