(* ===== verification/AdminRoutes.thy ===== *)
theory AdminRoutes
  imports Site
begin

text \<open>
  The run-time controls: \<open>server/admin-routes.ts\<close>, the admin check and the snapshot of
  \<open>server/index.ts\<close>, and the saving and loading of the controls in \<open>server/state.ts\<close>.
  The branches are tried in the order of the code, on the text of the URL.
\<close>

section \<open>Saving and loading the controls\<close>

definition site_controls :: "site \<Rightarrow> controls" where
  "site_controls st = (sv_disabled_agents (si_server st), sv_disabled_capabilities (si_server st), sv_revoked_keys (si_server st))"

definition snapshotRuntimeControls :: "site \<Rightarrow> controls" where
  "snapshotRuntimeControls st = site_controls st"

definition persistRuntimeControls :: "site_world \<Rightarrow> site \<Rightarrow> site" where
  "persistRuntimeControls X st = (if xw_controls_stored X then st\<lparr>si_controls_file := Some (site_controls st)\<rparr> else st)"

definition load_marks :: "(string, control_mark) jmap \<Rightarrow> (string, control_mark) jmap \<Rightarrow> (string, control_mark) jmap" where
  "load_marks saved m = foldl (\<lambda>m (k, v). if k = [] then m else jm_set k v m) m saved"

definition load_capabilities :: "(string, (string, control_mark) jmap) jmap \<Rightarrow> (string, (string, control_mark) jmap) jmap
    \<Rightarrow> (string, (string, control_mark) jmap) jmap" where
  "load_capabilities saved m =
     foldl (\<lambda>m (a, caps). if a = [] then m
        else (let nested = load_marks caps [] in if nested = [] then m else jm_set a nested m)) m saved"

definition hydrateRuntimeControls :: "controls option \<Rightarrow> server \<Rightarrow> server" where
  "hydrateRuntimeControls file st =
     (case file of
        None \<Rightarrow> st
      | Some (agents, caps, keys) \<Rightarrow>
          st\<lparr>sv_disabled_agents := load_marks agents (sv_disabled_agents st),
             sv_disabled_capabilities := load_capabilities caps (sv_disabled_capabilities st),
             sv_revoked_keys := load_marks keys (sv_revoked_keys st)\<rparr>)"

section \<open>The admin check\<close>

definition set_site_signing :: "signing_state \<Rightarrow> site \<Rightarrow> site" where
  "set_site_signing sg st = st\<lparr>si_server := set_signing sg (si_server st)\<rparr>"

definition site_admin_error :: "site_world \<Rightarrow> http_call \<Rightarrow> string \<Rightarrow> site \<Rightarrow> (auth_throw + (nat \<times> auth_error) option) \<times> site" where
  "site_admin_error X c raw st =
     (let V = xw_server X in
      case getAdminTokenError (vw_auth V) (vnow V) (hc_request c) raw (getEffectiveRevokedKeyIds V (si_server st))
             (au_signing (sv_audit (si_server st))) of
        (r, sg) \<Rightarrow> (r, set_site_signing sg st))"

definition admin_only :: "site_world \<Rightarrow> http_call \<Rightarrow> string \<Rightarrow> route \<Rightarrow> route" where
  "admin_only X c raw f st =
     (case site_admin_error X c raw st of
        (Inl e, st1) \<Rightarrow> raise (RouteThrew (AuthThrew e)) st1
      | (Inr (Some (status, code, message)), st1) \<Rightarrow> fail_with status (auth_code_str code) message False st1
      | (Inr None, st1) \<Rightarrow> f st1)"

text \<open>The body and the path name.\<close>

definition requireAdmin :: "site_world \<Rightarrow> http_call \<Rightarrow> (jsval \<Rightarrow> string \<Rightarrow> route) \<Rightarrow> route" where
  "requireAdmin X c f =
     with_body X c (\<lambda>parsed. admin_only X c (hc_raw c)
       (case site_pathname X (case hq_url (hc_request c) of None \<Rightarrow> ''/'' | Some u \<Rightarrow> u) of
          None \<Rightarrow> raise UrlInvalid
        | Some p \<Rightarrow> f parsed p))"

section \<open>The actions\<close>

definition mark_of :: "site_world \<Rightarrow> jsval \<Rightarrow> control_mark" where
  "mark_of X parsed = \<lparr>cm_disabled_at = toISOString (xnow X), cm_disabled_by = named_actor ''admin'' parsed, cm_reason = text_member parsed ''reason''\<rparr>"

definition reason_suffix :: "control_mark \<Rightarrow> string" where
  "reason_suffix m = (case cm_reason m of None \<Rightarrow> [] | Some r \<Rightarrow> '': '' @ r)"

definition on_server :: "(server \<Rightarrow> server) \<Rightarrow> site \<Rightarrow> site" where
  "on_server f st = st\<lparr>si_server := f (si_server st)\<rparr>"

definition site_event :: "site_world \<Rightarrow> http_call \<Rightarrow> string \<Rightarrow> string \<Rightarrow> string \<Rightarrow> string option \<Rightarrow> string option \<Rightarrow> site \<Rightarrow> site \<times> sign_error option" where
  "site_event X c code message path tenant agent st =
     (case record_event (xw_server X) c code message path tenant agent (si_server st) of (sv, e) \<Rightarrow> (st\<lparr>si_server := sv\<rparr>, e))"

text \<open>Change, save, audit, answer.\<close>

definition control_step :: "site_world \<Rightarrow> http_call \<Rightarrow> string \<Rightarrow> string \<Rightarrow> string \<Rightarrow> (server \<Rightarrow> server) \<Rightarrow> control_action \<Rightarrow> route" where
  "control_step X c path code message change act st =
     (case site_event X c code message path None None (persistRuntimeControls X (on_server change st)) of
        (st1, Some e) \<Rightarrow> raise (SigningThrew e) st1
      | (st1, None) \<Rightarrow> answer (Body 200 (ControlBody act) []) st1)"

definition with_decoded :: "site_world \<Rightarrow> string \<Rightarrow> (string \<Rightarrow> route) \<Rightarrow> route" where
  "with_decoded X s f = (case xw_decode X s of None \<Rightarrow> raise UriMalformed | Some t \<Rightarrow> f t)"

definition disable_agent :: "site_world \<Rightarrow> http_call \<Rightarrow> route" where
  "disable_agent X c = requireAdmin X c (\<lambda>parsed path.
     with_decoded X (js_slice 14 8 path) (\<lambda>agent.
       (let m = mark_of X parsed in
        control_step X c path ''admin_agent_disabled''
          (''Agent '' @ agent @ '' disabled by '' @ cm_disabled_by m @ reason_suffix m)
          (\<lambda>sv. sv\<lparr>sv_disabled_agents := jm_set agent m (sv_disabled_agents sv)\<rparr>) (AgentDisable agent m))))"

definition enable_agent :: "site_world \<Rightarrow> http_call \<Rightarrow> route" where
  "enable_agent X c = requireAdmin X c (\<lambda>parsed path.
     with_decoded X (js_slice 14 7 path) (\<lambda>agent.
       (let actor = named_actor ''admin'' parsed in
        control_step X c path ''admin_agent_enabled'' (''Agent '' @ agent @ '' enabled by '' @ actor)
          (\<lambda>sv. sv\<lparr>sv_disabled_agents := jm_del agent (sv_disabled_agents sv)\<rparr>) (AgentEnable agent actor))))"

text \<open>\<open>segment.split("/capabilities/")\<close>: its first two parts, the second empty when there is one only.\<close>

fun split_at :: "string \<Rightarrow> string \<Rightarrow> string \<times> string" where
  "split_at pat [] = ([], [])"
| "split_at pat (c # s) =
     (if prefix pat (c # s) then ([], drop (length pat) (c # s)) else (let (a, b) = split_at pat s in (c # a, b)))"

definition capability_segment :: "string \<Rightarrow> string \<times> string" where
  "capability_segment segment =
     (let (a, b) = split_at ''/capabilities/'' segment in (a, fst (split_at ''/capabilities/'' b)))"

definition disable_capability :: "site_world \<Rightarrow> http_call \<Rightarrow> route" where
  "disable_capability X c = requireAdmin X c (\<lambda>parsed path.
     (let (a, b) = capability_segment (js_slice 14 8 path) in
      with_decoded X a (\<lambda>agent. with_decoded X b (\<lambda>cap.
       (let m = mark_of X parsed in
        control_step X c path ''admin_capability_disabled''
          (''Capability '' @ cap @ '' for '' @ agent @ '' disabled by '' @ cm_disabled_by m @ reason_suffix m)
          (\<lambda>sv. sv\<lparr>sv_disabled_capabilities := jm_set agent
             (jm_set cap m (case jm_get (sv_disabled_capabilities sv) agent of None \<Rightarrow> [] | Some n \<Rightarrow> n)) (sv_disabled_capabilities sv)\<rparr>)
          (CapabilityDisable agent cap m))))))"

definition drop_capability :: "string \<Rightarrow> string \<Rightarrow> server \<Rightarrow> server" where
  "drop_capability agent cap sv =
     (case jm_get (sv_disabled_capabilities sv) agent of
        None \<Rightarrow> sv
      | Some n \<Rightarrow>
          (let n1 = jm_del cap n in
           sv\<lparr>sv_disabled_capabilities := (if n1 = [] then jm_del agent (sv_disabled_capabilities sv)
              else jm_set agent n1 (sv_disabled_capabilities sv))\<rparr>))"

definition enable_capability :: "site_world \<Rightarrow> http_call \<Rightarrow> route" where
  "enable_capability X c = requireAdmin X c (\<lambda>parsed path.
     (let (a, b) = capability_segment (js_slice 14 7 path); actor = named_actor ''admin'' parsed in
      with_decoded X a (\<lambda>agent. with_decoded X b (\<lambda>cap.
        control_step X c path ''admin_capability_enabled''
          (''Capability '' @ cap @ '' for '' @ agent @ '' enabled by '' @ actor) (drop_capability agent cap)
          (CapabilityEnable agent cap actor)))))"

definition revoke_key :: "site_world \<Rightarrow> http_call \<Rightarrow> route" where
  "revoke_key X c = requireAdmin X c (\<lambda>parsed path.
     with_decoded X (js_slice 12 7 path) (\<lambda>kid.
       (let m = mark_of X parsed in
        control_step X c path ''admin_key_revoked''
          (''Signing key '' @ kid @ '' revoked by '' @ cm_disabled_by m @ reason_suffix m)
          (\<lambda>sv. sv\<lparr>sv_revoked_keys := jm_set kid m (sv_revoked_keys sv)\<rparr>) (KeyRevoke kid m))))"

definition unrevoke_key :: "site_world \<Rightarrow> http_call \<Rightarrow> route" where
  "unrevoke_key X c = requireAdmin X c (\<lambda>parsed path.
     with_decoded X (js_slice 12 9 path) (\<lambda>kid.
       (let actor = named_actor ''admin'' parsed in
        control_step X c path ''admin_key_unrevoked'' (''Signing key '' @ kid @ '' unrevoked by '' @ actor)
          (\<lambda>sv. sv\<lparr>sv_revoked_keys := jm_del kid (sv_revoked_keys sv)\<rparr>) (KeyUnrevoke kid actor))))"

section \<open>The views\<close>

definition show_controls :: "site_world \<Rightarrow> http_call \<Rightarrow> string \<Rightarrow> route" where
  "show_controls X c url = admin_only X c [] (\<lambda>st.
     (case site_pathname X url of
        None \<Rightarrow> raise UrlInvalid
      | Some _ \<Rightarrow> answer (Body 200 (ControlsBody (snapshotRuntimeControls st) (xw_query X url ''include_keys'' \<noteq> Some ''false'')) [])) st)"

fun insert_by :: "('a \<Rightarrow> 'a \<Rightarrow> bool) \<Rightarrow> 'a \<Rightarrow> 'a list \<Rightarrow> 'a list" where
  "insert_by le x [] = [x]"
| "insert_by le x (y # ys) = (if le x y then x # y # ys else y # insert_by le x ys)"

text \<open>A stable sort by a comparison that is a total preorder.\<close>

definition sort_by :: "('a \<Rightarrow> 'a \<Rightarrow> bool) \<Rightarrow> 'a list \<Rightarrow> 'a list" where
  "sort_by le xs = foldr (insert_by le) xs []"

definition effective_keys :: "site_world \<Rightarrow> site \<Rightarrow> sign_error + verification_key list" where
  "effective_keys X st = getEffectiveVerificationKeys (xsigning X) (xw_jwk X) (set (getEffectiveRevokedKeyIds (xw_server X) (si_server st)))"

definition by_kid :: "site_world \<Rightarrow> verification_key list \<Rightarrow> verification_key list" where
  "by_kid X = sort_by (\<lambda>a b. xw_locale_le X (vk_kid a) (vk_kid b))"

definition admin_key_of :: "site_world \<Rightarrow> bool \<Rightarrow> string option \<Rightarrow> site \<Rightarrow> verification_key \<Rightarrow> admin_key" where
  "admin_key_of X include_runtime active st k =
     \<lparr>ak_key = k, ak_is_active = (Some (vk_kid k) = active), ak_signable = (vk_status k \<noteq> KRevoked),
      ak_runtime_revocation = (if include_runtime then jm_get (sv_revoked_keys (si_server st)) (vk_kid k) else None)\<rparr>"

definition show_keys :: "site_world \<Rightarrow> http_call \<Rightarrow> string \<Rightarrow> route" where
  "show_keys X c url = requireAdmin X c (\<lambda>parsed path st.
     if path \<noteq> ''/admin/keys'' then fail_with 404 ''not_found'' ''Resource not found.'' False st
     else (case effective_keys X st of
             Inl e \<Rightarrow> raise (SigningThrew e) st
           | Inr keys \<Rightarrow>
               (let active = getActiveSignatureKeyId (xsigning X);
                    shown = filter (\<lambda>k. xw_query X url ''include_revoked'' \<noteq> Some ''false'' \<or> vk_status k \<noteq> KRevoked) keys in
                answer (Body 200 (AdminKeysBody
                   (map (admin_key_of X (xw_query X url ''include_runtime'' \<noteq> Some ''false'') active st) (by_kid X shown))
                   active (getTrustMetadata (xsigning X) (xw_profile X))) []) st)))"

definition show_anomalies :: "site_world \<Rightarrow> http_call \<Rightarrow> route" where
  "show_anomalies X c = admin_only X c [] (\<lambda>st.
     (let sg = au_signing (sv_audit (si_server st)) in
      case detectAnomalies (xsigning X) (xnow X) sg of
        Inl e \<Rightarrow> raise (SigningThrew e) st
      | Inr ys \<Rightarrow> answer (Body 200 (AnomaliesBody ys sg) []) st))"

section \<open>The routes\<close>

definition request_between :: "http_call \<Rightarrow> string \<Rightarrow> string \<Rightarrow> string \<Rightarrow> bool" where
  "request_between c meth start finish \<longleftrightarrow> hq_method (hc_request c) = Some meth \<and>
     (case hq_url (hc_request c) of None \<Rightarrow> False | Some url \<Rightarrow> prefix start url \<and> suffix finish url)"

definition url_includes :: "http_call \<Rightarrow> string \<Rightarrow> bool" where
  "url_includes c part = (case hq_url (hc_request c) of None \<Rightarrow> False | Some url \<Rightarrow> str_includes part url)"

definition request_url :: "http_call \<Rightarrow> string" where
  "request_url c = (case hq_url (hc_request c) of None \<Rightarrow> [] | Some url \<Rightarrow> url)"

definition handleAdminRoutes :: "site_world \<Rightarrow> http_call \<Rightarrow> route" where
  "handleAdminRoutes X c =
     (if request_between c ''GET'' ''/admin/runtime-controls'' [] then show_controls X c (request_url c)
      else if request_between c ''GET'' ''/admin/keys'' [] then show_keys X c (request_url c)
      else if request_between c ''POST'' ''/admin/agents/'' ''/disable'' then disable_agent X c
      else if request_between c ''POST'' ''/admin/agents/'' ''/enable'' then enable_agent X c
      else if request_between c ''POST'' ''/admin/agents/'' ''/disable'' \<and> url_includes c ''/capabilities/'' then disable_capability X c
      else if request_between c ''POST'' ''/admin/agents/'' ''/enable'' \<and> url_includes c ''/capabilities/'' then enable_capability X c
      else if request_between c ''POST'' ''/admin/keys/'' ''/revoke'' then revoke_key X c
      else if request_between c ''POST'' ''/admin/keys/'' ''/unrevoke'' then unrevoke_key X c
      else if hq_method (hc_request c) = Some ''GET'' \<and> hq_url (hc_request c) = Some ''/admin/anomalies'' then show_anomalies X c
      else not_mine)"

section \<open>What an admin request can change\<close>

lemma record_event_frame: "record_event V c code m route t a sv = (sv1, e) \<Longrightarrow> \<exists>lg. sv1 = sv\<lparr>sv_audit := lg\<rparr>"
  by (auto simp: record_event_def split: prod.splits)

lemma site_event_frame:
  "site_event X c code m path t a st = (st1, e) \<Longrightarrow> \<exists>lg. st1 = st\<lparr>si_server := (si_server st)\<lparr>sv_audit := lg\<rparr>\<rparr>"
  by (auto simp: site_event_def split: prod.splits dest!: record_event_frame)

lemma control_step_controls:
  "control_step X c path code m change act st = (st', r) \<Longrightarrow>
   (\<And>sv lg. change (sv\<lparr>sv_audit := lg\<rparr>) = (change sv)\<lparr>sv_audit := lg\<rparr>) \<Longrightarrow>
   \<exists>lg. si_server st' = (change (si_server st))\<lparr>sv_audit := lg\<rparr> \<and>
     si_controls_file st' = (if xw_controls_stored X then Some (site_controls st') else si_controls_file st)"
  by (auto simp: control_step_def on_server_def persistRuntimeControls_def raise_def answer_def site_controls_def
      split: prod.splits option.splits if_splits dest!: site_event_frame)

lemma admin_only_cases:
  "\<exists>sg. (fst (site_admin_error X c raw st) = Inr None \<and> admin_only X c raw f st = f (set_site_signing sg st)) \<or>
        (fst (site_admin_error X c raw st) \<noteq> Inr None \<and> (\<exists>e. admin_only X c raw f st = (set_site_signing sg st, e) \<and>
           (\<forall>status b hs. e \<noteq> Inr (Some (Body status b hs)))))"
proof -
  obtain o1 sg where e: "site_admin_error X c raw st = (o1, set_site_signing sg st)"
    unfolding site_admin_error_def Let_def by (metis (no_types, lifting) case_prod_unfold)
  show ?thesis
    by (rule exI [of _ sg]) (auto simp: e admin_only_def raise_def fail_with_def answer_def split: sum.splits option.splits prod.splits)
qed

text \<open>A relation between the states before and after that holds for the signing counters, which every check may
  move, and for the actions, holds for the routes.\<close>

definition route_keeps :: "(site \<Rightarrow> site \<Rightarrow> bool) \<Rightarrow> route \<Rightarrow> bool" where
  "route_keeps R f \<longleftrightarrow> (\<forall>st. R st (fst (f st)))"

locale site_relation =
  fixes R :: "site \<Rightarrow> site \<Rightarrow> bool"
  assumes refl: "R st st"
    and signing: "R (set_site_signing sg st) st' \<Longrightarrow> R st st'"
begin

lemma signed: "R st (set_site_signing sg st)"
  by (rule signing) (rule refl)

lemma keeps_raise [simp]: "route_keeps R (raise e)"
  by (simp add: route_keeps_def raise_def refl)

lemma keeps_answer [simp]: "route_keeps R (answer a)"
  by (simp add: route_keeps_def answer_def refl)

lemma keeps_not_mine [simp]: "route_keeps R not_mine"
  by (simp add: route_keeps_def not_mine_def refl)

lemma keeps_fail [simp]: "route_keeps R (fail_with a b m e)"
  by (simp add: fail_with_def)

lemma keeps_admin:
  assumes "route_keeps R f"
  shows "route_keeps R (admin_only X c raw f)"
  unfolding route_keeps_def
proof
  fix st
  obtain sg where "admin_only X c raw f st = f (set_site_signing sg st) \<or> fst (admin_only X c raw f st) = set_site_signing sg st"
    using admin_only_cases [of X c raw st f] by (metis fst_eqD)
  then show "R st (fst (admin_only X c raw f st))"
    by (metis assms route_keeps_def signing signed)
qed

lemma keeps_require:
  assumes "\<And>v p. route_keeps R (f v p)"
  shows "route_keeps R (requireAdmin X c f)"
proof (cases "readJsonBody X c")
  case (Inl e)
  then show ?thesis by (simp add: requireAdmin_def with_body_def)
next
  case (Inr v)
  show ?thesis
    by (cases "site_pathname X (case hq_url (hc_request c) of None \<Rightarrow> ''/'' | Some u \<Rightarrow> u)")
       (simp_all add: requireAdmin_def with_body_def Inr keeps_admin assms)
qed

lemma keeps_decoded: "(\<And>t. route_keeps R (f t)) \<Longrightarrow> route_keeps R (with_decoded X s f)"
  by (auto simp: with_decoded_def split: option.split)

lemma keeps_views:
  "route_keeps R (show_controls X c url)" "route_keeps R (show_keys X c url)" "route_keeps R (show_anomalies X c)"
proof -
  have a: "route_keeps R (\<lambda>st. (case x of None \<Rightarrow> raise e | Some _ \<Rightarrow> answer (b st)) st)" for b e and x :: "string option"
    by (simp add: route_keeps_def answer_def raise_def refl split: option.split)
  show "route_keeps R (show_controls X c url)" unfolding show_controls_def by (intro keeps_admin a)
  show "route_keeps R (show_keys X c url)" unfolding show_keys_def
    by (intro keeps_require) (auto simp: route_keeps_def raise_def answer_def fail_with_def Let_def refl split: sum.split)
  show "route_keeps R (show_anomalies X c)" unfolding show_anomalies_def Let_def
    by (intro keeps_admin) (auto simp: route_keeps_def raise_def answer_def refl split: sum.split)
qed

end

text \<open>The branch for a capability is never reached: every URL it takes is taken by the branch for an agent before it.\<close>

definition reachable_action :: "site_world \<Rightarrow> http_call \<Rightarrow> route \<Rightarrow> bool" where
  "reachable_action X c f \<longleftrightarrow> f \<in> {disable_agent X c, enable_agent X c, revoke_key X c, unrevoke_key X c, show_anomalies X c, not_mine} \<or>
     (\<exists>url. f = show_controls X c url \<or> f = show_keys X c url)"

lemma admin_dispatch: "reachable_action X c (handleAdminRoutes X c)"
  by (auto simp: handleAdminRoutes_def reachable_action_def)

definition same_capabilities :: "site \<Rightarrow> site \<Rightarrow> bool" where
  "same_capabilities st st' \<longleftrightarrow> sv_disabled_capabilities (si_server st') = sv_disabled_capabilities (si_server st) \<and>
     sv_app (si_server st') = sv_app (si_server st)"

interpretation capabilities: site_relation same_capabilities
  by unfold_locales (auto simp: same_capabilities_def set_site_signing_def set_signing_def)

lemma same_capabilities_step:
  assumes "\<And>sv lg. change (sv\<lparr>sv_audit := lg\<rparr>) = (change sv)\<lparr>sv_audit := lg\<rparr>"
    and "\<And>sv. sv_disabled_capabilities (change sv) = sv_disabled_capabilities sv \<and> sv_app (change sv) = sv_app sv"
  shows "route_keeps same_capabilities (control_step X c path code m change act)"
  unfolding route_keeps_def
proof
  fix st
  obtain st' r where e: "control_step X c path code m change act st = (st', r)" by fastforce
  from control_step_controls [OF this assms(1)] show "same_capabilities st (fst (control_step X c path code m change act st))"
    using assms(2) by (auto simp: e same_capabilities_def)
qed

lemma actions_keep_capabilities:
  "route_keeps same_capabilities (disable_agent X c)" "route_keeps same_capabilities (enable_agent X c)"
  "route_keeps same_capabilities (revoke_key X c)" "route_keeps same_capabilities (unrevoke_key X c)"
  unfolding disable_agent_def enable_agent_def revoke_key_def unrevoke_key_def Let_def
  by (intro capabilities.keeps_require capabilities.keeps_decoded same_capabilities_step; simp)+

lemma capability_control_unreachable: "same_capabilities st (fst (handleAdminRoutes X c st))"
proof -
  have "route_keeps same_capabilities (handleAdminRoutes X c)"
    using admin_dispatch [of X c] actions_keep_capabilities capabilities.keeps_views
    by (auto simp: reachable_action_def)
  then show ?thesis by (simp add: route_keeps_def)
qed

lemma js_slice_mid: "js_slice (length a) (length b) (a @ s @ b) = s"
  by (simp add: js_slice_def)

text \<open>What the request for a capability does instead.\<close>

lemma disable_hits:
  assumes "disable_agent X c st = (st', Inr (Some (Body 200 b hs)))" and "hq_url (hc_request c) = Some url"
    and "js_slice 14 8 url = target" and "site_pathname X url = Some url" and "xw_decode X target = Some target"
  shows "isAgentDisabled (si_server st') target"
proof -
  obtain v where v: "readJsonBody X c = Inr v"
    using assms(1) by (cases "readJsonBody X c") (auto simp: disable_agent_def requireAdmin_def with_body_def raise_def)
  define act where "act = AgentDisable target (mark_of X v)"
  define change where "change = (\<lambda>sv :: server. sv\<lparr>sv_disabled_agents := jm_set target (mark_of X v) (sv_disabled_agents sv)\<rparr>)"
  define msg where "msg = ''Agent '' @ target @ '' disabled by '' @ cm_disabled_by (mark_of X v) @ reason_suffix (mark_of X v)"
  have "admin_only X c (hc_raw c) (control_step X c url ''admin_agent_disabled'' msg change act) st = (st', Inr (Some (Body 200 b hs)))"
    using assms by (simp add: disable_agent_def requireAdmin_def with_body_def v with_decoded_def Let_def act_def change_def msg_def)
  then obtain sg where "control_step X c url ''admin_agent_disabled'' msg change act (set_site_signing sg st) = (st', Inr (Some (Body 200 b hs)))"
    using admin_only_cases [of X c "hc_raw c" st] by (metis prod.inject)
  from control_step_controls [OF this] obtain lg where "si_server st' = (change (si_server (set_site_signing sg st)))\<lparr>sv_audit := lg\<rparr>"
    by (auto simp: change_def)
  then show ?thesis by (simp add: isAgentDisabled_def change_def jm_has_def jm_get_set)
qed

theorem capability_disable_hits_agent:
  assumes "hq_method (hc_request c) = Some ''POST''" and "hq_url (hc_request c) = Some url"
    and "url = ''/admin/agents/'' @ target @ ''/disable''" and "target = agent @ ''/capabilities/'' @ cap"
    and "handleAdminRoutes X c st = (st', Inr (Some (Body 200 b hs)))"
    and "site_pathname X url = Some url" and "xw_decode X target = Some target"
  shows "sv_disabled_capabilities (si_server st') = sv_disabled_capabilities (si_server st) \<and>
    isAgentDisabled (si_server st') target"
proof -
  have "request_between c ''POST'' ''/admin/agents/'' ''/disable''"
    using assms(1-3) by (simp add: request_between_def suffix_def)
  then have h: "handleAdminRoutes X c = disable_agent X c"
    using assms(1) by (simp add: handleAdminRoutes_def request_between_def)
  have n: "length ''/admin/agents/'' = 14" "length ''/disable'' = 8" by simp_all
  have path: "js_slice 14 8 url = target"
    using js_slice_mid [where a = "''/admin/agents/''" and b = "''/disable''" and s = target] by (simp only: assms(3) n)
  have "same_capabilities st st'" using capability_control_unreachable [of st X c] assms(5) by simp
  then show ?thesis
    using disable_hits [OF _ assms(2) path assms(6,7)] assms(5) by (simp add: same_capabilities_def h)
qed

section \<open>Who may change the controls\<close>

definition same_controls :: "site \<Rightarrow> site \<Rightarrow> bool" where
  "same_controls st st' \<longleftrightarrow> site_controls st' = site_controls st"

interpretation controls: site_relation same_controls
  by unfold_locales (auto simp: same_controls_def site_controls_def set_site_signing_def set_signing_def)

lemma require_admin_gate:
  assumes "site_controls (fst (requireAdmin X c f st)) \<noteq> site_controls st"
  shows "fst (site_admin_error X c (hc_raw c) st) = Inr None"
proof (rule ccontr)
  assume no: "fst (site_admin_error X c (hc_raw c) st) \<noteq> Inr None"
  have "site_controls (fst (admin_only X c (hc_raw c) g st)) = site_controls st" for g
    using admin_only_cases [of X c "hc_raw c" st g] no controls.signed [of st] by (auto simp: same_controls_def)
  then have "site_controls (fst (requireAdmin X c f st)) = site_controls st"
    by (simp add: requireAdmin_def with_body_def raise_def split: sum.split)
  then show False using assms by simp
qed

text \<open>What the admin check rests on: the digest of the token, and a signature over the request and its body by a key
  that is not revoked.\<close>

definition admin_proof :: "site_world \<Rightarrow> http_call \<Rightarrow> site \<Rightarrow> bool" where
  "admin_proof X c st \<longleftrightarrow>
     (\<exists>configured provided kid timestamp sig path sg.
        env_present (sw_env (xsigning X) ''MAP_ADMIN_TOKEN'') = Some configured \<and>
        header (hc_request c) ''x-map-admin-token'' = Some provided \<and>
        aw_sha (vw_auth (xw_server X)) provided = aw_sha (vw_auth (xw_server X)) configured \<and>
        kid \<notin> set (getEffectiveRevokedKeyIds (xw_server X) (si_server st)) \<and>
        verifyHttpRequestSignature (xsigning X) (xnow X)
          \<lparr>sr_method = (case hq_method (hc_request c) of None \<Rightarrow> ''GET'' | Some m \<Rightarrow> m), sr_path = path,
           sr_timestamp = timestamp, sr_key_id = kid, sr_body = hc_raw c\<rparr> sig None (au_signing (sv_audit (si_server st))) = (Inr True, sg))"

lemma admin_error_none:
  assumes "fst (site_admin_error X c (hc_raw c) st) = Inr None"
  shows "admin_proof X c st"
proof -
  let ?A = "vw_auth (xw_server X)" and ?sg = "au_signing (sv_audit (si_server st))"
  from assms obtain configured provided sg where h: "env_present (sw_env (xsigning X) ''MAP_ADMIN_TOKEN'') = Some configured"
      "header (hc_request c) ''x-map-admin-token'' = Some provided" "aw_sha ?A provided = aw_sha ?A configured"
    and s: "getSignedRequestError ?A (xnow X) (hc_request c) (hc_raw c) (getEffectiveRevokedKeyIds (xw_server X) (si_server st)) ?sg = (Inr None, sg)"
    by (auto simp: site_admin_error_def getAdminTokenError_def Let_def split: option.splits if_splits prod.splits sum.splits)
  from s show ?thesis
    by (rule signed_error_none) (unfold admin_proof_def, intro exI conjI, (rule h | assumption)+)
qed

text \<open>A run-time control changes only for such a request.\<close>

theorem admin_controls_gated:
  assumes "handleAdminRoutes X c st = (st', r)" and "site_controls st' \<noteq> site_controls st"
  shows "admin_proof X c st \<and> sv_app (si_server st') = sv_app (si_server st) \<and>
    sv_disabled_capabilities (si_server st') = sv_disabled_capabilities (si_server st)"
proof -
  have views: "handleAdminRoutes X c \<noteq> f" if "route_keeps same_controls f" for f
    using that assms by (auto simp: route_keeps_def same_controls_def) (metis fst_conv)
  obtain f where "handleAdminRoutes X c = requireAdmin X c f"
    using admin_dispatch [of X c] views [OF controls.keeps_views(1)] views [OF controls.keeps_views(2)]
      views [OF controls.keeps_views(3)] views [OF controls.keeps_not_mine]
    by (auto simp: reachable_action_def disable_agent_def enable_agent_def revoke_key_def unrevoke_key_def)
  then have "fst (site_admin_error X c (hc_raw c) st) = Inr None"
    using require_admin_gate assms by (metis fst_conv)
  moreover have "same_capabilities st st'" using capability_control_unreachable [of st X c] assms(1) by simp
  ultimately show ?thesis using admin_error_none by (simp add: same_capabilities_def)
qed

section \<open>Restarts\<close>

lemma load_marks_get: "jm_wf saved \<Longrightarrow> jm_get (load_marks saved m) k = (if k \<noteq> [] \<and> jm_has saved k then jm_get saved k else jm_get m k)"
proof (induction saved arbitrary: m)
  case (Cons e saved)
  obtain k1 v where e: "e = (k1, v)" by fastforce
  have "jm_wf saved" "\<not> jm_has saved k1" using Cons.prems by (auto simp: jm_wf_def jm_has_def e map_of_eq_None_iff)
  then show ?case using Cons.IH [of "if k1 = [] then m else jm_set k1 v m"]
    by (auto simp: load_marks_def e jm_has_def jm_get_set)
qed (simp add: load_marks_def jm_has_def)

lemma load_capabilities_get:
  "jm_wf saved \<Longrightarrow> jm_get (load_capabilities saved m) a =
     (if a \<noteq> [] \<and> jm_has saved a \<and> load_marks (the (jm_get saved a)) [] \<noteq> [] then Some (load_marks (the (jm_get saved a)) []) else jm_get m a)"
proof (induction saved arbitrary: m)
  case (Cons e saved)
  obtain a1 caps where e: "e = (a1, caps)" by fastforce
  have "jm_wf saved" "\<not> jm_has saved a1" using Cons.prems by (auto simp: jm_wf_def jm_has_def e map_of_eq_None_iff)
  then show ?case using Cons.IH [of "if a1 = [] then m else (let nested = load_marks caps [] in if nested = [] then m else jm_set a1 nested m)"]
    by (auto simp: load_capabilities_def e jm_has_def jm_get_set Let_def)
qed (simp add: load_capabilities_def jm_has_def)

definition controls_wf :: "controls \<Rightarrow> bool" where
  "controls_wf c \<longleftrightarrow> jm_wf (fst c) \<and> jm_wf (fst (snd c)) \<and> list_all (\<lambda>(_, caps). jm_wf caps) (fst (snd c)) \<and> jm_wf (snd (snd c))"

theorem controls_restart:
  assumes "controls_wf (site_controls st)" and "xw_controls_stored X"
    and "sv_disabled_agents fresh = []" and "sv_disabled_capabilities fresh = []" and "sv_revoked_keys fresh = []"
    and "loaded = hydrateRuntimeControls (si_controls_file (persistRuntimeControls X st)) fresh"
    and "agent \<noteq> []" and "cap \<noteq> []" and "kid \<noteq> []"
  shows "jm_get (sv_disabled_agents loaded) agent = jm_get (sv_disabled_agents (si_server st)) agent \<and>
    isCapabilityDisabled loaded agent cap = isCapabilityDisabled (si_server st) agent cap \<and>
    jm_get (sv_revoked_keys loaded) kid = jm_get (sv_revoked_keys (si_server st)) kid"
proof -
  let ?sv = "si_server st"
  have wf: "jm_wf (sv_disabled_agents ?sv)" "jm_wf (sv_disabled_capabilities ?sv)" "jm_wf (sv_revoked_keys ?sv)"
    using assms(1) by (simp_all add: controls_wf_def site_controls_def)
  have l: "loaded = fresh\<lparr>sv_disabled_agents := load_marks (sv_disabled_agents ?sv) [],
      sv_disabled_capabilities := load_capabilities (sv_disabled_capabilities ?sv) [], sv_revoked_keys := load_marks (sv_revoked_keys ?sv) []\<rparr>"
    using assms(2-6) by (simp add: hydrateRuntimeControls_def persistRuntimeControls_def site_controls_def)
  have caps: "isCapabilityDisabled loaded agent cap = isCapabilityDisabled ?sv agent cap"
  proof (cases "jm_get (sv_disabled_capabilities ?sv) agent")
    case None
    then show ?thesis by (simp add: isCapabilityDisabled_def l load_capabilities_get [OF wf(2)] jm_has_def)
  next
    case (Some m)
    then have m: "jm_wf m" using assms(1) by (auto simp: controls_wf_def site_controls_def list_all_iff dest!: map_of_SomeD)
    have "jm_has (load_marks m []) cap = jm_has m cap"
      using load_marks_get [OF m, of "[]" cap] assms(8) by (auto simp: jm_has_def)
    then show ?thesis using Some assms(7)
      by (auto simp: isCapabilityDisabled_def l load_capabilities_get [OF wf(2)] jm_has_def)
  qed
  show ?thesis using caps load_marks_get [OF wf(1), of "[]" agent] load_marks_get [OF wf(3), of "[]" kid] assms(7,9)
    by (auto simp: l jm_has_def)
qed

end
