(* ===== verification/PolicyRoutes.thy ===== *)
theory PolicyRoutes
  imports AdminRoutes
begin

text \<open>
  \<open>server/policy-routes.ts\<close>: the active policy is shown and replaced over HTTP. The
  document arrives as JSON. \<open>read_policy\<close> is what \<open>compilePolicy\<close> of \<open>core/policy\<close> makes
  of it, by the type guards of that file in their order; \<open>None\<close> is where it throws (and where
  a member \<open>_source\<close> makes the evaluator take the document for a compiled one). An
  action that is neither \<open>deny\<close> nor \<open>require_approval\<close> lets the executors go on, so
  it is read as \<open>Allow\<close>.
\<close>

section \<open>Validation\<close>

datatype policy_fault =
    NotAnObject
  | BadVersion jsval
  | NoRules
  | RuleNotObject nat
  | RuleWithoutId nat
  | RuleWithoutCapability string
  | RuleWithoutCondition string
  | RuleBadAction string jsval

definition js_object :: "jsval \<Rightarrow> bool" where
  "js_object v = (case v of JObj _ \<Rightarrow> True | JArr _ \<Rightarrow> True | _ \<Rightarrow> False)"

definition rule_fault :: "nat \<Rightarrow> jsval \<Rightarrow> policy_fault option" where
  "rule_fault i rule =
     (if \<not> js_object rule then Some (RuleNotObject i)
      else case nonblank (js_prop rule ''id'') of
        None \<Rightarrow> Some (RuleWithoutId i)
      | Some ident \<Rightarrow>
          if nonblank (js_prop rule ''capability'') = None then Some (RuleWithoutCapability ident)
          else if \<not> js_object (js_prop rule ''condition'') then Some (RuleWithoutCondition ident)
          else if js_prop rule ''action'' \<notin> {JStr ''allow'', JStr ''deny'', JStr ''require_approval''}
          then Some (RuleBadAction ident (js_prop rule ''action''))
          else None)"

fun rules_fault :: "nat \<Rightarrow> jsval list \<Rightarrow> policy_fault option" where
  "rules_fault i [] = None"
| "rules_fault i (r # rs) = (case rule_fault i r of Some f \<Rightarrow> Some f | None \<Rightarrow> rules_fault (Suc i) rs)"

definition validatePolicyDocument :: "jsval \<Rightarrow> policy_fault option" where
  "validatePolicyDocument doc =
     (if \<not> js_object doc then Some NotAnObject
      else if js_prop doc ''version'' \<noteq> JStr ''1.0'' then Some (BadVersion (js_prop doc ''version''))
      else (case js_prop doc ''rules'' of JArr rs \<Rightarrow> rules_fault 0 rs | _ \<Rightarrow> Some NoRules))"

definition fault_message :: "(jsval \<Rightarrow> string) \<Rightarrow> policy_fault \<Rightarrow> string" where
  "fault_message text f = (case f of
      NotAnObject \<Rightarrow> ''Policy must be a JSON object.''
    | BadVersion v \<Rightarrow> ''Invalid policy version: '' @ quoted (text v) @ ''. Must be '' @ quoted ''1.0'' @ ''.''
    | NoRules \<Rightarrow> ''Policy must have a '' @ quoted ''rules'' @ '' array.''
    | RuleNotObject i \<Rightarrow> ''Rule at index '' @ nat_str i @ '' must be an object.''
    | RuleWithoutId i \<Rightarrow> ''Rule at index '' @ nat_str i @ '' must have a non-empty '' @ quoted ''id'' @ '' string.''
    | RuleWithoutCapability r \<Rightarrow> ''Rule '' @ quoted r @ '' must have a non-empty '' @ quoted ''capability'' @ '' string.''
    | RuleWithoutCondition r \<Rightarrow> ''Rule '' @ quoted r @ '' must have a '' @ quoted ''condition'' @ '' object.''
    | RuleBadAction r v \<Rightarrow> ''Rule '' @ quoted r @ '' has invalid action '' @ quoted (text v) @ ''. Must be '' @ quoted ''allow''
        @ '', '' @ quoted ''deny'' @ '', or '' @ quoted ''require_approval'' @ ''.'')"

section \<open>Reading the document\<close>

definition has_member :: "(string \<times> jsval) list \<Rightarrow> string \<Rightarrow> bool" where
  "has_member kvs k \<longleftrightarrow> map_of kvs k \<noteq> None"

text \<open>\<open>const [leftPath, rightValue] = condition[op]\<close> and \<open>leftPath.split(".")\<close>.\<close>

definition read_comparison :: "string \<Rightarrow> jsval \<Rightarrow> policy_condition option" where
  "read_comparison op v = (case v of
      JArr (JStr path # rest) \<Rightarrow> Some (Comparison [(op, path, (case rest of [] \<Rightarrow> JUndef | x # _ \<Rightarrow> x))])
    | JStr (c # rest) \<Rightarrow> Some (Comparison [(op, [c], (case rest of [] \<Rightarrow> JUndef | d # _ \<Rightarrow> JStr [d]))])
    | _ \<Rightarrow> None)"

definition single_op :: "(string \<times> jsval) list \<Rightarrow> (string \<times> jsval) option" where
  "single_op kvs = (case kvs of [(op, v)] \<Rightarrow> if op \<in> set comparison_ops then Some (op, v) else None | _ \<Rightarrow> None)"

fun all_some :: "'a option list \<Rightarrow> 'a list option" where
  "all_some [] = Some []"
| "all_some (x # xs) = (case x of None \<Rightarrow> None | Some y \<Rightarrow> map_option (Cons y) (all_some xs))"

text \<open>The depth is more than the nesting of the value.\<close>

fun read_condition_upto :: "nat \<Rightarrow> jsval \<Rightarrow> policy_condition option" where
  "read_condition_upto 0 v = None"
| "read_condition_upto (Suc n) v =
     (case v of
        JArr _ \<Rightarrow> Some Never
      | JObj kvs \<Rightarrow>
          if obj_get kvs ''always'' = JBool True then Some Always
          else if obj_get kvs ''never'' = JBool True then Some Never
          else (case single_op kvs of
            Some (op, x) \<Rightarrow> read_comparison op x
          | None \<Rightarrow>
              if has_member kvs ''and'' then
                (case obj_get kvs ''and'' of JArr xs \<Rightarrow> map_option And (all_some (map (read_condition_upto n) xs)) | _ \<Rightarrow> None)
              else if has_member kvs ''or'' then
                (case obj_get kvs ''or'' of JArr xs \<Rightarrow> map_option Or (all_some (map (read_condition_upto n) xs)) | _ \<Rightarrow> None)
              else if has_member kvs ''not'' then map_option Not (read_condition_upto n (obj_get kvs ''not''))
              else if has_member kvs ''$field'' then
                (case obj_get kvs ''$field'' of JStr path \<Rightarrow> Some (FieldRef path) | _ \<Rightarrow> None)
              else Some Never)
      | _ \<Rightarrow> None)"

definition read_condition :: "jsval \<Rightarrow> policy_condition option" where
  "read_condition v = read_condition_upto (size v) v"

definition read_action :: "jsval \<Rightarrow> policy_action" where
  "read_action v = (if v = JStr ''deny'' then Deny else if v = JStr ''require_approval'' then RequireApproval else Allow)"

definition read_rule :: "jsval \<Rightarrow> policy_rule option" where
  "read_rule v =
     (case (js_prop v ''id'', js_prop v ''capability'', read_condition (js_prop v ''condition'')) of
        (JStr ident, JStr cap, Some cond) \<Rightarrow>
          Some \<lparr>pr_id = ident, pr_capability = cap, pr_condition = cond, pr_action = read_action (js_prop v ''action'')\<rparr>
      | _ \<Rightarrow> None)"

text \<open>\<open>policy.default_action ?? "deny"\<close>\<close>

definition read_policy :: "jsval \<Rightarrow> policy_document option" where
  "read_policy v =
     (if js_prop v ''_source'' \<noteq> JUndef then None
      else case js_prop v ''rules'' of
        JArr rs \<Rightarrow> map_option (\<lambda>rules. \<lparr>pol_rules = rules,
          pol_default_action = (if nullish (js_prop v ''default_action'') then None else Some (read_action (js_prop v ''default_action'')))\<rparr>)
          (all_some (map read_rule rs))
      | _ \<Rightarrow> None)"

section \<open>The routes\<close>

text \<open>(The arrow of the audit message is a character outside the model's strings.)
  \<open>[...new Set(policy.rules.map(r => r.capability))]\<close>\<close>

definition capabilities_covered :: "policy_document \<Rightarrow> string list" where
  "capabilities_covered p = rev (remdups (rev (map pr_capability (pol_rules p))))"

definition show_policy :: route where
  "show_policy st = (let p = o_policy (sv_app (si_server st)) in answer (Body 200 (PolicyBody p (capabilities_covered p)) []) st)"

definition swap_policy :: "site_world \<Rightarrow> http_call \<Rightarrow> jsval \<Rightarrow> route" where
  "swap_policy X c parsed st =
     (case validatePolicyDocument parsed of
        Some f \<Rightarrow> fail_with 400 ''invalid_policy'' (fault_message (xw_template X) f) False st
      | None \<Rightarrow>
          (case read_policy parsed of
             None \<Rightarrow> raise OutsideModel st
           | Some p \<Rightarrow>
               (let old = length (pol_rules (o_policy (sv_app (si_server st)))); new = length (pol_rules p);
                    st1 = on_server (\<lambda>sv. sv\<lparr>sv_app := o_setPolicy p (sv_app sv)\<rparr>) st;
                    st2 = (if xw_policy_stored X then st1\<lparr>si_policy_file := Some parsed\<rparr> else st1)
                in case site_event X c ''policy_updated''
                       (''Policy updated: '' @ nat_str old @ '' rules -> '' @ nat_str new @ '' rules'') ''/policy'' None None st2 of
                     (st3, Some e) \<Rightarrow> raise (SigningThrew e) st3
                   | (st3, None) \<Rightarrow> answer (Body 200 (PolicySwapped p new old) []) st3)))"

definition handlePolicyRoutes :: "site_world \<Rightarrow> http_call \<Rightarrow> route" where
  "handlePolicyRoutes X c =
     (if hq_method (hc_request c) = Some ''GET'' \<and> hq_url (hc_request c) = Some ''/policy'' then show_policy
      else if hq_method (hc_request c) = Some ''POST'' \<and> hq_url (hc_request c) = Some ''/policy'' then with_body X c (swap_policy X c)
      else not_mine)"

section \<open>What a document decides\<close>

text \<open>Enough depth reads every condition; more depth changes nothing.\<close>

lemma all_some_map_cong: "(\<And>x. x \<in> set xs \<Longrightarrow> f x = g x) \<Longrightarrow> all_some (map f xs) = all_some (map g xs)"
  by (simp cong: map_cong)

lemma member_size: "obj_get kvs k = v \<Longrightarrow> has_member kvs k \<Longrightarrow> size v < size (JObj kvs)"
proof -
  assume "obj_get kvs k = v" "has_member kvs k"
  then have "(k, v) \<in> set kvs" by (auto simp: obj_get_def has_member_def split: option.splits dest: map_of_SomeD)
  then have "size v < Suc (size_list (size_prod (\<lambda>_. 0) size) kvs)"
    by (induction kvs) (auto simp: less_Suc_eq_le)
  then show ?thesis by simp
qed

lemma read_depth: "size v \<le> n \<Longrightarrow> size v \<le> m \<Longrightarrow> read_condition_upto n v = read_condition_upto m v"
proof (induction n arbitrary: v m)
  case 0
  then show ?case by (cases v; cases m) auto
next
  case (Suc n)
  show ?case
  proof (cases v)
    case (JObj kvs)
    obtain k where m: "m = Suc k" using Suc.prems JObj by (cases m) auto
    have inner: "all_some (map (read_condition_upto n) xs) = all_some (map (read_condition_upto k) xs)"
      if "obj_get kvs a = JArr xs" "has_member kvs a" for a xs
    proof (rule all_some_map_cong)
      fix x assume "x \<in> set xs"
      then have "size x < size (JArr xs)" by (induction xs) auto
      then show "read_condition_upto n x = read_condition_upto k x"
        using member_size [OF that] Suc.prems JObj m by (intro Suc.IH) auto
    qed
    have "read_condition_upto n (obj_get kvs a) = read_condition_upto k (obj_get kvs a)" if "has_member kvs a" for a
      using member_size [OF refl that] Suc.prems JObj m by (intro Suc.IH) auto
    then show ?thesis
      by (simp add: JObj m inner split: option.split jsval.split)
  next
    case (JArr xs)
    then obtain k where "m = Suc k" using Suc.prems by (cases m) auto
    then show ?thesis using JArr by simp
  qed (use Suc.prems in \<open>cases m; auto\<close>)+
qed

lemma read_condition_unfold:
  "read_condition (JObj kvs) =
     (if obj_get kvs ''always'' = JBool True then Some Always
      else if obj_get kvs ''never'' = JBool True then Some Never
      else (case single_op kvs of
        Some (op, x) \<Rightarrow> read_comparison op x
      | None \<Rightarrow>
          if has_member kvs ''and'' then
            (case obj_get kvs ''and'' of JArr xs \<Rightarrow> map_option And (all_some (map read_condition xs)) | _ \<Rightarrow> None)
          else if has_member kvs ''or'' then
            (case obj_get kvs ''or'' of JArr xs \<Rightarrow> map_option Or (all_some (map read_condition xs)) | _ \<Rightarrow> None)
          else if has_member kvs ''not'' then map_option Not (read_condition (obj_get kvs ''not''))
          else if has_member kvs ''$field'' then
            (case obj_get kvs ''$field'' of JStr path \<Rightarrow> Some (FieldRef path) | _ \<Rightarrow> None)
          else Some Never))"
proof -
  obtain n where n: "size (JObj kvs) = Suc n" by simp
  have inner: "all_some (map (read_condition_upto n) xs) = all_some (map read_condition xs)"
    if "obj_get kvs a = JArr xs" "has_member kvs a" for a xs
  proof (rule all_some_map_cong)
    fix x assume "x \<in> set xs"
    then have "size x < size (JArr xs)" by (induction xs) auto
    then show "read_condition_upto n x = read_condition x"
      using member_size [OF that] n unfolding read_condition_def by (intro read_depth) auto
  qed
  have "read_condition_upto n (obj_get kvs a) = read_condition (obj_get kvs a)" if "has_member kvs a" for a
    using member_size [OF refl that] n unfolding read_condition_def by (intro read_depth) auto
  then show ?thesis unfolding read_condition_def [of "JObj kvs"] n
    by (simp add: inner split: option.split jsval.split)
qed

text \<open>The JSON text of a condition, as a client writes it, is read as that condition.\<close>

fun condition_json :: "policy_condition \<Rightarrow> jsval" where
  "condition_json Always = JObj [(''always'', JBool True)]"
| "condition_json Never = JObj [(''never'', JBool True)]"
| "condition_json (Comparison kvs) = JObj (map (\<lambda>(op, path, v). (op, JArr [JStr path, v])) kvs)"
| "condition_json (And cs) = JObj [(''and'', JArr (map condition_json cs))]"
| "condition_json (Or cs) = JObj [(''or'', JArr (map condition_json cs))]"
| "condition_json (Not c) = JObj [(''not'', condition_json c)]"
| "condition_json (FieldRef path) = JObj [(''$field'', JStr path)]"

fun well_formed :: "policy_condition \<Rightarrow> bool" where
  "well_formed (Comparison kvs) \<longleftrightarrow> (\<exists>op path v. kvs = [(op, path, v)] \<and> op \<in> set comparison_ops)"
| "well_formed (And cs) \<longleftrightarrow> list_all well_formed cs"
| "well_formed (Or cs) \<longleftrightarrow> list_all well_formed cs"
| "well_formed (Not c) \<longleftrightarrow> well_formed c"
| "well_formed _ \<longleftrightarrow> True"

lemma all_some_read: "(\<And>c. c \<in> set cs \<Longrightarrow> f (g c) = Some c) \<Longrightarrow> all_some (map f (map g cs)) = Some cs"
  by (induction cs) auto

lemma single_member: "obj_get [(k, v)] a = (if a = k then v else inherited_member a)" "has_member [(k, v)] a \<longleftrightarrow> a = k"
  by (simp_all add: obj_get_def has_member_def)

lemma not_inherited: "inherited_member ''always'' = JUndef" "inherited_member ''never'' = JUndef"
  by (simp_all add: inherited_member_def inherited_names_def)

lemma no_op: "''and'' \<notin> set comparison_ops" "''or'' \<notin> set comparison_ops" "''not'' \<notin> set comparison_ops" "''$field'' \<notin> set comparison_ops"
   "''always'' \<notin> set comparison_ops" "''never'' \<notin> set comparison_ops"
  by (simp_all add: comparison_ops_def)

lemma condition_roundtrip: "well_formed c \<Longrightarrow> read_condition (condition_json c) = Some c"
proof (induction c)
  case (Comparison kvs)
  then obtain op path v where k: "kvs = [(op, path, v)]" "op \<in> set comparison_ops" by auto
  then have "op \<noteq> ''always''" "op \<noteq> ''never''" using no_op by metis+
  then show ?case using k by (simp add: read_condition_unfold single_member not_inherited single_op_def read_comparison_def)
next
  case (And cs)
  then have "all_some (map read_condition (map condition_json cs)) = Some cs" by (intro all_some_read) (auto simp: list_all_iff)
  then show ?case by (simp add: read_condition_unfold single_member not_inherited single_op_def no_op del: map_map)
next
  case (Or cs)
  then have "all_some (map read_condition (map condition_json cs)) = Some cs" by (intro all_some_read) (auto simp: list_all_iff)
  then show ?case by (simp add: read_condition_unfold single_member not_inherited single_op_def no_op del: map_map)
qed (simp_all add: read_condition_unfold single_member not_inherited single_op_def no_op)

definition action_text :: "policy_action \<Rightarrow> string" where
  "action_text a = (case a of Allow \<Rightarrow> ''allow'' | Deny \<Rightarrow> ''deny'' | RequireApproval \<Rightarrow> ''require_approval'')"

definition rule_json :: "policy_rule \<Rightarrow> jsval" where
  "rule_json r = JObj [(''id'', JStr (pr_id r)), (''capability'', JStr (pr_capability r)), (''condition'', condition_json (pr_condition r)),
     (''action'', JStr (action_text (pr_action r)))]"

definition policy_json :: "policy_document \<Rightarrow> jsval" where
  "policy_json p = JObj ([(''version'', JStr ''1.0''), (''rules'', JArr (map rule_json (pol_rules p)))] @
     (case pol_default_action p of None \<Rightarrow> [] | Some a \<Rightarrow> [(''default_action'', JStr (action_text a))]))"

definition sendable :: "policy_document \<Rightarrow> bool" where
  "sendable p \<longleftrightarrow> list_all (\<lambda>r. str_trim (pr_id r) \<noteq> [] \<and> str_trim (pr_capability r) \<noteq> [] \<and> well_formed (pr_condition r)) (pol_rules p)"

lemma read_action_text [simp]: "read_action (JStr (action_text a)) = a"
  by (cases a) (simp_all add: read_action_def action_text_def)

lemma condition_json_object: "js_object (condition_json c)"
  by (cases c) (simp_all add: js_object_def)

lemma rule_members:
  "js_prop (rule_json r) ''id'' = JStr (pr_id r)" "js_prop (rule_json r) ''capability'' = JStr (pr_capability r)"
  "js_prop (rule_json r) ''condition'' = condition_json (pr_condition r)" "js_prop (rule_json r) ''action'' = JStr (action_text (pr_action r))"
  by (simp_all add: rule_json_def js_prop_def obj_get_def)

lemma rules_accepted: "list_all (\<lambda>r. str_trim (pr_id r) \<noteq> [] \<and> str_trim (pr_capability r) \<noteq> [] \<and> well_formed (pr_condition r)) rs \<Longrightarrow>
    rules_fault i (map rule_json rs) = None \<and> all_some (map read_rule (map rule_json rs)) = Some rs"
proof (induction rs arbitrary: i)
  case (Cons r rs)
  have "js_object (rule_json r)" by (simp add: rule_json_def js_object_def)
  moreover have "action_text (pr_action r) \<in> {''allow'', ''deny'', ''require_approval''}" by (cases "pr_action r") (simp_all add: action_text_def)
  ultimately have "rule_fault i (rule_json r) = None"
    using Cons.prems by (simp add: rule_fault_def rule_members nonblank_def env_present_def condition_json_object)
  moreover have "read_rule (rule_json r) = Some r"
    using Cons.prems by (simp add: read_rule_def rule_members condition_roundtrip)
  ultimately show ?case using Cons by simp
qed simp

text \<open>A document is read back from its JSON.\<close>

theorem policy_roundtrip:
  assumes "sendable p"
  shows "validatePolicyDocument (policy_json p) = None \<and> read_policy (policy_json p) = Some p"
proof -
  have m: "js_prop (policy_json p) ''version'' = JStr ''1.0''" "js_prop (policy_json p) ''rules'' = JArr (map rule_json (pol_rules p))"
    "js_prop (policy_json p) ''default_action'' = (case pol_default_action p of None \<Rightarrow> JUndef | Some a \<Rightarrow> JStr (action_text a))"
    "js_prop (policy_json p) ''_source'' = JUndef"
    by (simp_all add: policy_json_def js_prop_def obj_get_def inherited_member_def inherited_names_def split: option.split)
  have "js_object (policy_json p)" by (simp add: policy_json_def js_object_def)
  then show ?thesis using rules_accepted [of "pol_rules p" 0] assms
    by (simp add: validatePolicyDocument_def read_policy_def m sendable_def nullish_def split: option.split)
qed

text \<open>The default action is not looked at: one that is misspelled is no denial, and what no rule matches is allowed.\<close>

theorem misspelled_default_allows:
  assumes "doc = JObj [(''version'', JStr ''1.0''), (''rules'', JArr []), (''default_action'', JStr a)]"
    and "a \<noteq> ''deny''" and "a \<noteq> ''require_approval''"
  shows "validatePolicyDocument doc = None \<and>
    (\<exists>p. read_policy doc = Some p \<and> (\<forall>re it. pd_action (evaluate re it p) = Allow))"
proof -
  have m: "js_prop doc ''version'' = JStr ''1.0''" "js_prop doc ''rules'' = JArr []" "js_prop doc ''default_action'' = JStr a"
    "js_prop doc ''_source'' = JUndef"
    by (simp_all add: assms(1) js_prop_def obj_get_def inherited_member_def inherited_names_def)
  have "js_object doc" by (simp add: assms(1) js_object_def)
  then show ?thesis using assms(2,3)
    by (auto simp: validatePolicyDocument_def read_policy_def m nullish_def read_action_def evaluate_def evaluateCompiled_def compilePolicy_def compile_document_def)
qed

section \<open>Anyone may replace the policy\<close>

text \<open>The route asks for no credentials: a sendable document in the body is in force afterwards, for the runtime and for its
  executor, whatever the headers of the request and the configuration of the server.\<close>

theorem policy_open_to_all:
  assumes "hq_method (hc_request c) = Some ''POST''" and "hq_url (hc_request c) = Some ''/policy''"
    and "readJsonBody X c = Inr (policy_json p)" and "sendable p"
  shows "o_policy (sv_app (si_server (fst (handlePolicyRoutes X c st)))) = p \<and>
    ex_policy (o_executor (sv_app (si_server (fst (handlePolicyRoutes X c st))))) = p"
proof -
  note r = policy_roundtrip [OF assms(4)]
  have h: "handlePolicyRoutes X c = swap_policy X c (policy_json p)"
    using assms(1-3) by (simp add: handlePolicyRoutes_def with_body_def)
  show ?thesis
    by (auto simp: h swap_policy_def r Let_def on_server_def raise_def answer_def o_setPolicy_def setPolicy_def
        split: prod.split option.split dest!: site_event_frame)
qed

end
