(* ===== verification/ReadRoutes.thy ===== *)
theory ReadRoutes
  imports PolicyRoutes
begin

text \<open>
  \<open>server/read-routes.ts\<close>: discovery, health, the lists with their pages, exports, metrics,
  the two alert actions and the task stream, in the order the code tries them. No route here
  asks for credentials.
\<close>

section \<open>Which request\<close>

definition is_get :: "http_call \<Rightarrow> bool" where
  "is_get c \<longleftrightarrow> hq_method (hc_request c) = Some ''GET''"

definition read_url :: "http_call \<Rightarrow> string" where
  "read_url c = (case hq_url (hc_request c) of None \<Rightarrow> ''/'' | Some u \<Rightarrow> u)"

definition get_exact :: "http_call \<Rightarrow> string \<Rightarrow> bool" where
  "get_exact c u \<longleftrightarrow> is_get c \<and> read_url c = u"

definition get_query :: "http_call \<Rightarrow> string \<Rightarrow> bool" where
  "get_query c u \<longleftrightarrow> is_get c \<and> (read_url c = u \<or> prefix (u @ ''?'') (read_url c))"

definition get_under :: "http_call \<Rightarrow> string \<Rightarrow> bool" where
  "get_under c u \<longleftrightarrow> is_get c \<and> prefix u (read_url c)"

text \<open>\<open>new URL(url, "http://localhost")\<close>\<close>

definition with_url :: "site_world \<Rightarrow> string \<Rightarrow> (string \<Rightarrow> route) \<Rightarrow> route" where
  "with_url X url f = (case site_pathname X url of None \<Rightarrow> raise UrlInvalid | Some p \<Rightarrow> f p)"

definition with_value :: "sign_error + 'a \<Rightarrow> ('a \<Rightarrow> route) \<Rightarrow> route" where
  "with_value r f = (case r of Inl e \<Rightarrow> raise (SigningThrew e) | Inr v \<Rightarrow> f v)"

text \<open>A check or a signature may move the counters of the signing layer.\<close>

definition with_signed :: "'a signing \<Rightarrow> ('a \<Rightarrow> route) \<Rightarrow> route" where
  "with_signed m f st =
     (case m (au_signing (sv_audit (si_server st))) of
        (Inl e, sg) \<Rightarrow> raise (SigningThrew e) (set_site_signing sg st)
      | (Inr v, sg) \<Rightarrow> f v (set_site_signing sg st))"

section \<open>What the routes read\<close>

definition site_queue :: "site \<Rightarrow> task_queue" where "site_queue st = o_queue (sv_app (si_server st))"

definition site_tasks :: "site \<Rightarrow> task_store" where "site_tasks st = o_tasks (sv_app (si_server st))"

definition site_receipts :: "site \<Rightarrow> receipt_store" where "site_receipts st = o_receipts (sv_app (si_server st))"

definition site_registry :: "site \<Rightarrow> registry" where "site_registry st = o_registry (sv_app (si_server st))"

definition site_audit :: "site \<Rightarrow> audit_log" where "site_audit st = sv_audit (si_server st)"

definition site_revoked :: "site_world \<Rightarrow> site \<Rightarrow> string set" where
  "site_revoked X st = set (getEffectiveRevokedKeyIds (xw_server X) (si_server st))"

definition site_profile :: "site_world \<Rightarrow> site \<Rightarrow> sign_error + profile_evaluation" where
  "site_profile X st =
     evaluateDeploymentProfile (xsigning X) (xw_jwk X) (xw_profile X) (Some (vw_enforce_signed (xw_server X)))
       (Some (vw_require_tenant (xw_server X))) (site_revoked X st)"

definition site_key_usage :: "site_world \<Rightarrow> string option \<Rightarrow> site \<Rightarrow> key_usage" where
  "site_key_usage X tenant st =
     collectSigningKeyUsage (xsigning X) (registry_list (site_registry st)) (receipt_list (site_receipts st) tenant)
       (au_checkpoints (site_audit st))"

definition site_anomalies :: "site_world \<Rightarrow> key_usage \<Rightarrow> site \<Rightarrow> sign_error + usage_anomalies" where
  "site_anomalies X u st = collectSigningAnomalies (xw_detector X) (xsigning X) (xw_jwk X) u (site_revoked X st)"

definition path_writable :: "site_world \<Rightarrow> string option \<Rightarrow> bool" where
  "path_writable X p = (case p of None \<Rightarrow> True | Some s \<Rightarrow> s = [] \<or> xw_writable X s)"

definition stores_writable :: "site_world \<Rightarrow> bool list" where
  "stores_writable X = map (path_writable X) (xw_store_paths X)"

text \<open>Reading the request metrics drops the events outside the window.\<close>

definition prune_metrics :: "site_world \<Rightarrow> site \<Rightarrow> site" where
  "prune_metrics X st =
     st\<lparr>si_metrics := (si_metrics st)\<lparr>mm_metrics := snd (getRequestMetrics (xw_metrics X) (xnow X) (mm_metrics (si_metrics st)))\<rparr>\<rparr>"

section \<open>Discovery, health and status\<close>

definition show_discovery :: "site_world \<Rightarrow> http_call \<Rightarrow> route" where
  "show_discovery X c st =
     etag_answer X c [(''cache-control'', ''public, max-age=300, must-revalidate'')]
       (Discovery (case header (hc_request c) ''host'' of None \<Rightarrow> ''localhost'' | Some h \<Rightarrow> h) (xw_profile X)
          (registry_list (site_registry st))) st"

definition health_reasons :: "alert_limits \<Rightarrow> queue_stats \<Rightarrow> string list" where
  "health_reasons L q =
     (case lim_dead_letters L of None \<Rightarrow> [] | Some n \<Rightarrow> if qs_dead_letter_count q > n then [''dead_letter_count_exceeded''] else [])
     @ (case (lim_dead_letter_age L, qs_oldest_dead_letter_age_ms q) of
          (Some n, Some age) \<Rightarrow> if age > n then [''oldest_dead_letter_age_exceeded''] else [] | _ \<Rightarrow> [])"

definition show_health :: "site_world \<Rightarrow> route" where
  "show_health X st =
     (let q = getStats (xnow X) (site_queue st); rs = health_reasons (xw_limits X) q in
      with_value (site_profile X st) (\<lambda>pe.
        answer (Body 200 (Health (rs \<noteq> []) q pe
          (if rs = [] then [] else rs @ (if pe_compliant pe then [] else [''deployment_profile_non_compliant'']))) [])) st)"

definition show_ready :: "site_world \<Rightarrow> route" where
  "show_ready X st =
     (let ws = stores_writable X in
      with_value (site_profile X st) (\<lambda>pe.
        (let ok = (list_all id ws \<and> pe_compliant pe) in
         answer (Body (if ok then 200 else 503) (Ready ok ws pe) []))) st)"

definition show_status :: "site_world \<Rightarrow> route" where
  "show_status X st =
     (let u = site_key_usage X None st in
      with_value (site_anomalies X u st) (\<lambda>an. with_value (effective_keys X st) (\<lambda>keys.
        answer (Body 200 (Status \<lparr>su_queue = queue_settings (xw_queue_options X), su_limits = xw_limits X, su_keys = keys,
          su_key_usage = u, su_anomalies = an\<rparr>) []))) st)"

definition number_text :: "site_world \<Rightarrow> jsnum \<Rightarrow> string" where
  "number_text X n = (case n of
      Fin x \<Rightarrow> if of_int \<lfloor>x\<rfloor> = x \<and> \<bar>x\<bar> < 10 ^ 21 then int_str \<lfloor>x\<rfloor> else sw_big (xsigning X) x
    | NaN \<Rightarrow> ''NaN'' | PosInf \<Rightarrow> ''Infinity'' | NegInf \<Rightarrow> ''-Infinity'')"

definition key_max_age :: "site_world \<Rightarrow> jsnum" where
  "key_max_age X =
     (case sw_env (xsigning X) ''MAP_KEY_DISCOVERY_CACHE_MAX_AGE_SEC'' of
        None \<Rightarrow> Fin 60
      | Some s \<Rightarrow> (case js_number s of Fin x \<Rightarrow> Fin (max 0 x) | NegInf \<Rightarrow> Fin 0 | n \<Rightarrow> n))"

definition include_pem :: "site_world \<Rightarrow> string \<Rightarrow> bool" where
  "include_pem X url \<longleftrightarrow> xw_query X url ''format'' \<noteq> Some ''jwk'' \<and> xw_query X url ''include_pem'' \<noteq> Some ''false'' \<and>
     sw_env (xsigning X) ''MAP_KEY_DISCOVERY_EXPOSE_PEM'' \<noteq> Some ''false''"

definition without_pem :: "verification_key \<Rightarrow> verification_key" where
  "without_pem k = k\<lparr>vk_public_key_pem := None\<rparr>"

definition show_published_keys :: "site_world \<Rightarrow> http_call \<Rightarrow> route" where
  "show_published_keys X c st =
     (let url = read_url c in
      with_url X url (\<lambda>_. with_value (effective_keys X st) (\<lambda>keys.
        (let limit = page_limit 1000 (xw_query X url ''limit''); cursor = query_text X url ''cursor'';
             shown = by_kid X (map (if include_pem X url then id else without_pem) keys) in
         etag_answer X c [(''cache-control'', ''public, max-age='' @ number_text X (key_max_age X) @ '', must-revalidate'')]
           (KeysPage (page_at vk_kid cursor limit shown) (getActiveSignatureKeyId (xsigning X)) (getTrustMetadata (xsigning X) (xw_profile X))
              (map vk_kid (filter (\<lambda>k. vk_status k = KRevoked) shown)) limit (next_cursor vk_kid cursor limit shown))))) st)"

definition show_agents :: route where
  "show_agents st = answer (Body 200 (AgentsBody (registry_list (site_registry st))) []) st"

definition show_agents_for :: "site_world \<Rightarrow> http_call \<Rightarrow> route" where
  "show_agents_for X c st =
     with_url X (read_url c) (\<lambda>_. answer (Body 200 (AgentsBody
       (case query_text X (read_url c) ''capability'' of
          Some cap \<Rightarrow> findByCapability (site_registry st) cap
        | None \<Rightarrow> (case query_text X (read_url c) ''domain'' of
            Some d \<Rightarrow> findByDomain (site_registry st) d
          | None \<Rightarrow> registry_list (site_registry st)))) [])) st"

section \<open>Lists\<close>

definition no_cache :: "(string \<times> string) list" where "no_cache = [(''cache-control'', ''no-cache'')]"

definition tenant_of_query :: "site_world \<Rightarrow> http_call \<Rightarrow> string option" where
  "tenant_of_query X c = query_text X (read_url c) ''tenant_id''"

definition list_limit :: "site_world \<Rightarrow> http_call \<Rightarrow> nat" where
  "list_limit X c = page_limit 500 (xw_query X (read_url c) ''limit'')"

definition list_cursor :: "site_world \<Rightarrow> http_call \<Rightarrow> string option" where
  "list_cursor X c = query_text X (read_url c) ''cursor''"

definition show_page :: "site_world \<Rightarrow> http_call \<Rightarrow> ('a list \<Rightarrow> nat \<Rightarrow> string option \<Rightarrow> site_body) \<Rightarrow> ('a \<Rightarrow> string) \<Rightarrow> 'a list \<Rightarrow> route" where
  "show_page X c body f xs =
     etag_answer X c no_cache (body (page_at f (list_cursor X c) (list_limit X c) xs) (list_limit X c)
       (next_cursor f (list_cursor X c) (list_limit X c) xs))"

definition dead_letters_for :: "string option \<Rightarrow> site \<Rightarrow> dead_letter list" where
  "dead_letters_for tenant st =
     (case tenant of None \<Rightarrow> q_deadLetters (site_queue st) | Some t \<Rightarrow> listDeadLettersByTenant t (site_queue st))"

definition show_dead_letters :: "site_world \<Rightarrow> http_call \<Rightarrow> route" where
  "show_dead_letters X c st =
     with_url X (read_url c) (\<lambda>_. show_page X c DeadLettersPage dl_task_id (dead_letters_for (tenant_of_query X c) st)) st"

text \<open>Listing the alerts computes them anew.\<close>

definition refresh_alerts :: "site_world \<Rightarrow> string option \<Rightarrow> (alert_record list \<Rightarrow> route) \<Rightarrow> route" where
  "refresh_alerts X tenant f st0 =
     (let st = prune_metrics X st0 in
      case server_alert_inputs (xw_detector X) (xsigning X) (xw_jwk X) (site_revoked X st) (xw_metrics X) (xnow X) (site_queue st)
             (si_metrics st) (site_receipts st) (site_registry st) (site_audit st) tenant of
        Inl e \<Rightarrow> raise (SigningThrew e) st
      | Inr i \<Rightarrow>
          (case getActiveAlerts (sw_date (xsigning X)) (xnow X) (xw_limits X) i tenant (si_alerts st) of
             (as, alerts) \<Rightarrow> f as (st\<lparr>si_alerts := alerts\<rparr>)))"

definition save_alerts :: "site_world \<Rightarrow> site \<Rightarrow> site" where
  "save_alerts X st = (if xw_alerts_stored X then st\<lparr>si_alert_file := Some (persistAlertState (si_alerts st))\<rparr> else st)"

definition show_alerts :: "site_world \<Rightarrow> http_call \<Rightarrow> route" where
  "show_alerts X c =
     with_url X (read_url c) (\<lambda>_. refresh_alerts X (tenant_of_query X c) (\<lambda>as st.
       show_page X c AlertsPage al_id as (save_alerts X st)))"

definition audit_cursor :: "site_world \<Rightarrow> http_call \<Rightarrow> int option" where
  "audit_cursor X c =
     (let i = parsePositiveIntOrDefault (xw_query X (read_url c) ''cursor'') 0 in if i = 0 then None else Some i)"

definition audit_events_for :: "string option \<Rightarrow> site \<Rightarrow> audit_event list" where
  "audit_events_for tenant st =
     (case tenant of
        None \<Rightarrow> au_events (site_audit st)
      | Some t \<Rightarrow> filter (\<lambda>e. (case ai_tenant_id (ae_input e) of None \<Rightarrow> ''default'' | Some u \<Rightarrow> u) = t) (au_events (site_audit st)))"

definition show_audit :: "site_world \<Rightarrow> http_call \<Rightarrow> route" where
  "show_audit X c st =
     (let es = audit_events_for (tenant_of_query X c) st; cursor = audit_cursor X c; limit = list_limit X c in
      with_url X (read_url c) (\<lambda>_.
        etag_answer X c no_cache (AuditPage (page_at ae_chain_index cursor limit es) (au_checkpoints (site_audit st)) limit
          (next_cursor ae_chain_index cursor limit es))) st)"

definition history_length :: "site_world \<Rightarrow> http_call \<Rightarrow> int option" where
  "history_length X c =
     (case xw_query X (read_url c) ''history_length'' of None \<Rightarrow> None | Some s \<Rightarrow> Some (parsePositiveIntOrDefault (Some s) 0))"

text \<open>Nothing writes the member \<open>order_id\<close> of a task record, so a record has none.\<close>

definition task_order_id :: "task_record \<Rightarrow> string option" where "task_order_id r = None"

definition tasks_for :: "site_world \<Rightarrow> http_call \<Rightarrow> site \<Rightarrow> task_record list" where
  "tasks_for X c st =
     (let all_tasks = (case tenant_of_query X c of
            None \<Rightarrow> task_list_history (site_tasks st) (history_length X c)
          | Some t \<Rightarrow> task_listByTenant (site_tasks st) (history_length X c) t);
          of_order = (case query_text X (read_url c) ''order_id'' of
            None \<Rightarrow> all_tasks | Some i \<Rightarrow> filter (\<lambda>r. task_order_id r = Some i) all_tasks)
      in case query_text X (read_url c) ''context_id'' of
           None \<Rightarrow> of_order | Some i \<Rightarrow> filter (\<lambda>r. tr_context_id r = Some i) of_order)"

definition show_tasks :: "site_world \<Rightarrow> http_call \<Rightarrow> route" where
  "show_tasks X c st = show_page X c TasksPage tr_task_id (tasks_for X c st) st"

definition show_receipts :: "site_world \<Rightarrow> http_call \<Rightarrow> route" where
  "show_receipts X c st =
     show_page X c ReceiptsPage rc_receipt_id (receipt_list (site_receipts st) (tenant_of_query X c)) st"

section \<open>Verification and exports\<close>

definition show_audit_verdict :: "site_world \<Rightarrow> route" where
  "show_audit_verdict X st =
     (case verifyAuditIntegrity (xsigning X) (aw_sha (vw_auth (xw_server X))) (site_audit st) of
        (Inl e, lg) \<Rightarrow> raise (SigningThrew e) (set_site_signing (au_signing lg) st)
      | (Inr r, lg) \<Rightarrow> answer (Body (if at_ok r then 200 else 500) (AuditVerdict r) []) (set_site_signing (au_signing lg) st))"

definition key_named :: "site_world \<Rightarrow> string \<Rightarrow> string" where
  "key_named X sig = (case getSignatureKeyId (xsigning X) sig of None \<Rightarrow> ''unknown'' | Some k \<Rightarrow> k)"

definition show_audit_export :: "site_world \<Rightarrow> route" where
  "show_audit_export X st =
     (let es = au_events (site_audit st); cs = au_checkpoints (site_audit st);
          p = \<lparr>ap_export_id = ''audit-export:'' @ xw_uuid X, ap_created_at = toISOString (xnow X), ap_events_count = int (length es),
               ap_checkpoints_count = int (length cs), ap_latest_chain_index = (if es = [] then 0 else ae_chain_index (last es)),
               ap_latest_event_hash = (if es = [] then genesis else ae_event_hash (last es))\<rparr>
      in with_signed (signAuditExport (xsigning X) (xnow X) p) (\<lambda>sig. answer (Body 200 (AuditExport p (key_named X sig) sig es cs) [])) st)"

definition conformance_checks :: "site_world \<Rightarrow> profile_evaluation \<Rightarrow> audit_report \<Rightarrow> (string \<times> bool) list" where
  "conformance_checks X pe r =
     zip [''deployment_profile_compliant'', ''task_store_writable'', ''receipt_store_writable'', ''dead_letter_store_writable'',
          ''metrics_store_writable'', ''audit_integrity_ok'', ''active_signing_key_available'']
         (pe_compliant pe # stores_writable X @
          [at_ok r, (case getActiveSignatureKeyId (xsigning X) of None \<Rightarrow> False | Some k \<Rightarrow> k \<noteq> [])])"

definition show_conformance :: "site_world \<Rightarrow> route" where
  "show_conformance X st =
     with_value (site_profile X st) (\<lambda>pe st0.
       (case verifyAuditIntegrity (xsigning X) (aw_sha (vw_auth (xw_server X))) (site_audit st0) of
          (Inl e, lg) \<Rightarrow> raise (SigningThrew e) (set_site_signing (au_signing lg) st0)
        | (Inr r, lg) \<Rightarrow>
            (let cs = conformance_checks X pe r; n = int (length cs); passed = int (length (filter snd cs));
                 art = \<lparr>ca_checks = cs, ca_profile_evaluation = pe, ca_stores = stores_writable X, ca_audit = r\<rparr>;
                 p = \<lparr>ce_export_id = ''conformance-export:'' @ xw_uuid X, ce_created_at = toISOString (xnow X), ce_profile = xw_profile X,
                      ce_total_checks = n, ce_passed_checks = passed, ce_failed_checks = n - passed,
                      ce_artifact_hash = xw_sha_artifact X art\<rparr>
             in with_signed (signConformanceExport (xsigning X) (xnow X) p)
                  (\<lambda>sig. answer (Body 200 (ConformanceExport p (key_named X sig) sig art) []))
                  (set_site_signing (au_signing lg) st0)))) st"

definition show_trust_bundle :: "site_world \<Rightarrow> route" where
  "show_trust_bundle X st =
     with_value (effective_keys X st) (\<lambda>keys.
       (let t = getTrustMetadata (xsigning X) (xw_profile X);
            p = \<lparr>tb_bundle_id = ''trust-bundle:'' @ xw_uuid X, tb_created_at = toISOString (xnow X), tb_trust_domain = tm_trust_domain t,
                 tb_issuer = tm_issuer t, tb_profile = tm_profile t, tb_keys_hash = xw_sha_keys X keys\<rparr>
        in with_signed (signTrustBundle (xsigning X) (xnow X) p)
             (\<lambda>sig. answer (Body 200 (TrustBundle p (key_named X sig) sig keys) [])))) st"

section \<open>Metrics\<close>

definition count_by :: "('a \<Rightarrow> string) \<Rightarrow> 'a list \<Rightarrow> (string, nat) jmap" where
  "count_by f xs = foldl (\<lambda>acc x. count_id acc (f x)) [] xs"

definition task_counts_of :: "task_record list \<Rightarrow> task_counts" where
  "task_counts_of ts =
     \<lparr>tk_total = length ts, tk_by_status = count_by (\<lambda>r. task_status_str (tr_status r)) ts,
      tk_by_capability = count_by tr_capability ts, tk_by_agent = count_by tr_target_agent ts\<rparr>"

definition getAlerts :: "alert_limits \<Rightarrow> request_metrics \<Rightarrow> queue_stats \<Rightarrow> nat \<Rightarrow> alert_breaches" where
  "getAlerts L rm q dead_letters =
     \<lparr>br_dead_letters = (case lim_dead_letters L of None \<Rightarrow> False | Some n \<Rightarrow> dead_letters > n),
      br_dead_letter_age = (case (lim_dead_letter_age L, qs_oldest_dead_letter_age_ms q) of (Some n, Some age) \<Rightarrow> age > n | _ \<Rightarrow> False),
      br_failure_rate = (case lim_failure_rate L of None \<Rightarrow> False | Some r \<Rightarrow> rq_failure_rate rm > r)\<rparr>"

text \<open>\<open>GET /metrics\<close> and \<open>GET /metrics?...\<close>; the first repeats the errors at the top.\<close>

definition show_metrics :: "site_world \<Rightarrow> bool \<Rightarrow> string option \<Rightarrow> route" where
  "show_metrics X repeats tenant st0 =
     (let rm = fst (getRequestMetrics (xw_metrics X) (xnow X) (mm_metrics (si_metrics st0)));
          st = prune_metrics X st0; m = mm_metrics (si_metrics st);
          tasks = (case tenant of None \<Rightarrow> task_list_history (site_tasks st) None | Some t \<Rightarrow> task_listByTenant (site_tasks st) None t);
          q = getStats (xnow X) (site_queue st); n = length (dead_letters_for tenant st);
          u = site_key_usage X tenant st
      in with_value (site_anomalies X u st) (\<lambda>an.
           answer (Body 200 (MetricsBody
             \<lparr>sx_queue = q\<lparr>qs_dead_letter_count := n\<rparr>, sx_tasks = task_counts_of tasks, sx_requests = rm,
              sx_errors = getErrorBreakdown m, sx_errors_listed = repeats, sx_latencies = getCapabilityLatencyMetrics m,
              sx_key_usage = u, sx_anomalies = an, sx_alerts = getAlerts (xw_limits X) rm q n\<rparr>) [])) st)"

section \<open>Alert actions\<close>

definition with_alert :: "site_world \<Rightarrow> http_call \<Rightarrow> nat \<Rightarrow> (string \<Rightarrow> alert_record \<Rightarrow> jsval \<Rightarrow> route) \<Rightarrow> route" where
  "with_alert X c n f =
     with_url X (read_url c) (\<lambda>path. with_decoded X (js_slice 8 n path) (\<lambda>ident st.
       (case jm_get (si_alerts st) ident of
          None \<Rightarrow> fail_with 404 ''alert_not_found'' (''Alert not found: '' @ ident) False st
        | Some a \<Rightarrow> with_body X c (f ident a) st)))"

definition keep_alert :: "site_world \<Rightarrow> string \<Rightarrow> alert_record \<Rightarrow> route" where
  "keep_alert X ident a st =
     answer (Body 200 (AlertBody a) []) (save_alerts X (st\<lparr>si_alerts := jm_set ident a (si_alerts st)\<rparr>))"

definition acknowledge_route :: "site_world \<Rightarrow> http_call \<Rightarrow> route" where
  "acknowledge_route X c = with_alert X c 4 (\<lambda>ident a v.
     keep_alert X ident (a\<lparr>al_acknowledged_at := Some (toISOString (xnow X)), al_acknowledged_by := Some (named_actor ''system'' v)\<rparr>))"

text \<open>The time in the body; \<open>None\<close> where \<open>toISOString\<close> throws. A date has at most \<open>8.64e15\<close> milliseconds.\<close>

definition suppress_until :: "site_world \<Rightarrow> jsval \<Rightarrow> string option option" where
  "suppress_until X v =
     (case (case nonblank (js_prop v ''until'') of None \<Rightarrow> None | Some s \<Rightarrow> sw_date (xsigning X) s) of
        Some t \<Rightarrow> Some (Some (toISOString t))
      | None \<Rightarrow>
          (case js_prop v ''duration_seconds'' of
             JNum (Fin x) \<Rightarrow>
               (let t = xnow X + max 1 \<lfloor>x\<rfloor> * 1000 in if \<bar>t\<bar> \<le> 8640000000000000 then Some (Some (toISOString t)) else None)
           | JNum NegInf \<Rightarrow> Some (Some (toISOString (xnow X + 1000)))
           | JNum _ \<Rightarrow> None
           | _ \<Rightarrow> Some None))"

definition suppress_route :: "site_world \<Rightarrow> http_call \<Rightarrow> route" where
  "suppress_route X c = with_alert X c 9 (\<lambda>ident a v.
     (case suppress_until X v of
        None \<Rightarrow> raise DateInvalid
      | Some None \<Rightarrow> fail_with 400 ''invalid_request''
          ''Suppression requires either a valid `until` timestamp or `duration_seconds`.'' False
      | Some (Some t) \<Rightarrow> keep_alert X ident (a\<lparr>al_suppressed_until := Some t, al_suppressed_by := Some (named_actor ''system'' v)\<rparr>)))"

section \<open>One task, one receipt\<close>

text \<open>\<open>decodeURIComponent(pathname.split("/")[2])\<close>; a missing part is the word.\<close>

definition with_task_id :: "site_world \<Rightarrow> http_call \<Rightarrow> (string \<Rightarrow> route) \<Rightarrow> route" where
  "with_task_id X c f =
     with_url X (read_url c) (\<lambda>path. let ps = split_on CHR ''/'' path in
       with_decoded X (if length ps > 2 then ps ! 2 else ''undefined'') f)"

definition task_not_found :: "string \<Rightarrow> route" where
  "task_not_found tid = fail_with 404 ''task_not_found'' (''Task not found: '' @ tid) False"

definition find_task :: "string option \<Rightarrow> int option \<Rightarrow> string \<Rightarrow> task_store \<Rightarrow> task_record option" where
  "find_task tenant h tid ts = (case tenant of None \<Rightarrow> task_get ts tid None | Some t \<Rightarrow> task_getByTenant ts tid t h)"

definition show_task :: "site_world \<Rightarrow> http_call \<Rightarrow> route" where
  "show_task X c = with_task_id X c (\<lambda>tid st.
     (case find_task (tenant_of_query X c) (history_length X c) tid (site_tasks st) of
        None \<Rightarrow> task_not_found tid st
      | Some r \<Rightarrow> answer (Body 200 (TaskBody r) []) st))"

definition show_receipt :: "site_world \<Rightarrow> http_call \<Rightarrow> route" where
  "show_receipt X c = with_url X (read_url c) (\<lambda>path. with_decoded X (drop 10 path) (\<lambda>rid st.
     (case receipt_get (site_receipts st) rid (tenant_of_query X c) of
        None \<Rightarrow> fail_with 404 ''receipt_not_found'' (''Receipt not found: '' @ rid) False st
      | Some r \<Rightarrow> answer (Body 200 (ReceiptBody r) []) st)))"

section \<open>The task stream\<close>

definition status_event :: "task_record \<Rightarrow> stream_event" where
  "status_event r = StatusEvent (tr_task_id r) (tr_status r) (tr_capability r) (tr_target_agent r) (tr_updated_at r)"

definition result_events :: "task_record \<Rightarrow> stream_event list" where
  "result_events r = (if tr_status r = Completed then (case tr_result r of None \<Rightarrow> [] | Some p \<Rightarrow> [ResultEvent (tr_task_id r) p]) else [])"

definition start_stream :: "site_world \<Rightarrow> http_call \<Rightarrow> route" where
  "start_stream X c = with_task_id X c (\<lambda>tid st.
     (case find_task (tenant_of_query X c) None tid (site_tasks st) of
        None \<Rightarrow> task_not_found tid st
      | Some r \<Rightarrow> answer (Stream (status_event r # result_events r)) st))"

text \<open>What an open stream remembers, and one turn of its timer: the events it writes, and the stream, unless it ends.\<close>

record task_stream =
  sm_task_id :: string
  sm_tenant :: "string option"
  sm_status :: task_status
  sm_updated_at :: ms

definition opened_stream :: "string \<Rightarrow> string option \<Rightarrow> task_record \<Rightarrow> task_stream" where
  "opened_stream tid tenant r = \<lparr>sm_task_id = tid, sm_tenant = tenant, sm_status = tr_status r, sm_updated_at = tr_updated_at r\<rparr>"

definition stream_tick :: "task_store \<Rightarrow> task_stream \<Rightarrow> stream_event list \<times> task_stream option" where
  "stream_tick ts s =
     (case find_task (sm_tenant s) None (sm_task_id s) ts of
        None \<Rightarrow> ([StreamError ''task_not_found''], None)
      | Some r \<Rightarrow>
          if tr_status r \<noteq> sm_status s \<or> tr_updated_at r \<noteq> sm_updated_at s
          then (status_event r # result_events r,
                if result_events r \<noteq> [] then None else Some (s\<lparr>sm_status := tr_status r, sm_updated_at := tr_updated_at r\<rparr>))
          else ([], Some s))"

section \<open>The routes\<close>

text \<open>\<open>/^\/tasks\/[^/]+\/stream$/\<close> and \<open>/^\/tasks\/[^/]+$/\<close>\<close>

definition stream_url :: "string \<Rightarrow> bool" where
  "stream_url url \<longleftrightarrow> prefix ''/tasks/'' url \<and> suffix ''/stream'' url \<and> length url > 14 \<and> CHR ''/'' \<notin> set (js_slice 7 7 url)"

definition task_url :: "string \<Rightarrow> bool" where
  "task_url url \<longleftrightarrow> prefix ''/tasks/'' url \<and> length url > 7 \<and> CHR ''/'' \<notin> set (drop 7 url)"

text \<open>Under \<open>/tasks\<close> and \<open>/receipts\<close> the path decides, and other paths go on.\<close>

definition by_path :: "site_world \<Rightarrow> http_call \<Rightarrow> string \<Rightarrow> (string \<times> route) list \<Rightarrow> route \<Rightarrow> route" where
  "by_path X c start rs rest =
     (if get_under c start
      then with_url X (read_url c) (\<lambda>p. case map_of rs p of Some f \<Rightarrow> f | None \<Rightarrow> rest)
      else rest)"

definition late_read_routes :: "site_world \<Rightarrow> http_call \<Rightarrow> route" where
  "late_read_routes X c =
     (if request_between c ''POST'' ''/alerts/'' ''/ack'' then acknowledge_route X c
      else if request_between c ''POST'' ''/alerts/'' ''/suppress'' then suppress_route X c
      else if get_under c ''/metrics?'' then with_url X (read_url c) (\<lambda>_. show_metrics X False (tenant_of_query X c))
      else if get_under c ''/agents?'' then show_agents_for X c
      else if is_get c \<and> stream_url (read_url c) then start_stream X c
      else if is_get c \<and> task_url (read_url c) then show_task X c
      else if get_under c ''/receipts/'' then show_receipt X c
      else not_mine)"

definition show_receipt_verdict :: "site_world \<Rightarrow> http_call \<Rightarrow> route" where
  "show_receipt_verdict X c st = etag_answer X c no_cache (ReceiptVerdict (verifyReceiptIntegrity (site_receipts st))) st"

definition handleReadRoutes :: "site_world \<Rightarrow> http_call \<Rightarrow> route" where
  "handleReadRoutes X c =
     (if get_exact c ''/.well-known/map'' \<or> get_exact c ''/.well-known/map.json'' then show_discovery X c
      else if get_exact c ''/health'' then show_health X
      else if get_exact c ''/ready'' then show_ready X
      else if get_exact c ''/status'' then show_status X
      else if get_under c ''/.well-known/map-keys'' then show_published_keys X c
      else if get_exact c ''/agents'' then show_agents
      else if get_query c ''/dead-letters'' then show_dead_letters X c
      else if get_query c ''/alerts'' then show_alerts X c
      else if get_query c ''/audit-events'' then show_audit X c
      else if get_exact c ''/audit-events/verify'' then show_audit_verdict X
      else if get_exact c ''/audit-events/export'' then show_audit_export X
      else if get_exact c ''/conformance/export'' then show_conformance X
      else if get_exact c ''/trust-bundle/export'' then show_trust_bundle X
      else if get_exact c ''/metrics'' then show_metrics X True None
      else by_path X c ''/tasks'' [(''/tasks'', show_tasks X c)]
          (by_path X c ''/receipts'' [(''/receipts/verify'', show_receipt_verdict X c), (''/receipts'', show_receipts X c)]
             (late_read_routes X c)))"

end
