(* ===== verification/ReadProofs.thy ===== *)
theory ReadProofs
  imports ReadRoutes
begin

text \<open>
  What reading shows and leaves alone: the runtime, the controls and the log stay as they are,
  whoever asks gets the answer, the pages of a list are the list, and a stream may not end.
\<close>

section \<open>Reading changes nothing of the runtime\<close>

definition totals :: "site \<Rightarrow> nat \<times> nat \<times> nat" where
  "totals st = (let m = mm_metrics (si_metrics st) in (mt_total m, mt_succeeded m, mt_failed m))"

definition same_runtime :: "site \<Rightarrow> site \<Rightarrow> bool" where
  "same_runtime st st' \<longleftrightarrow> (\<exists>sg. si_server st' = set_signing sg (si_server st)) \<and> si_controls_file st' = si_controls_file st \<and>
     si_policy_file st' = si_policy_file st \<and> si_metrics_file st' = si_metrics_file st \<and> totals st' = totals st"

lemma set_signing_twice [simp]: "set_signing a (set_signing b sv) = set_signing a sv"
  by (simp add: set_signing_def)

lemma set_signing_same: "set_signing (au_signing (sv_audit sv)) sv = sv"
  by (simp add: set_signing_def)

interpretation reading: site_relation same_runtime
proof
  show "same_runtime st st" for st
    unfolding same_runtime_def using set_signing_same by metis
  show "same_runtime (set_site_signing sg st) st' \<Longrightarrow> same_runtime st st'" for sg st st'
    by (auto simp: same_runtime_def set_site_signing_def totals_def)
qed

lemma same_runtime_trans: "same_runtime a b \<Longrightarrow> same_runtime b c \<Longrightarrow> same_runtime a c"
  by (auto simp: same_runtime_def)

lemma same_runtime_alerts: "same_runtime st (st\<lparr>si_alerts := a\<rparr>)" "same_runtime st (save_alerts X st)" "same_runtime st (prune_metrics X st)"
  using reading.refl [of st]
  by (auto simp: same_runtime_def save_alerts_def prune_metrics_def totals_def getRequestMetrics_def pruneRequestEvents_def Let_def)

lemma answers_only:
  "same_runtime st (fst (answer b st))" "same_runtime st (fst (raise e st))" "same_runtime st (fst (fail_with a k m r st))"
  "same_runtime st (fst (not_mine st))" "same_runtime st (fst (etag_answer X c h body st))" "same_runtime st (fst (show_page X c pg f xs st))"
  by (simp_all add: answer_def raise_def fail_with_def not_mine_def etag_answer_def show_page_def reading.refl)

lemma reads_url: "(\<And>p. same_runtime st (fst (f p st))) \<Longrightarrow> same_runtime st (fst (with_url X u f st))"
  by (auto simp: with_url_def answers_only split: option.split)

lemma reads_value: "(\<And>v. same_runtime st (fst (f v st))) \<Longrightarrow> same_runtime st (fst (with_value r f st))"
  by (auto simp: with_value_def answers_only split: sum.split)

lemma after_signing: "(\<And>s. same_runtime s (fst (f s))) \<Longrightarrow> same_runtime s (fst (f (set_site_signing sg s)))"
  by (rule reading.signing)

lemma reads_signed: "(\<And>v s. same_runtime s (fst (f v s))) \<Longrightarrow> same_runtime st (fst (with_signed m f st))"
  by (cases "m (au_signing (sv_audit (si_server st)))") (simp add: with_signed_def after_signing answers_only split: sum.split)

lemma reads_decoded: "(\<And>v. same_runtime st (fst (f v st))) \<Longrightarrow> same_runtime st (fst (with_decoded X u f st))"
  by (auto simp: with_decoded_def answers_only split: option.split)

lemma reads_body: "(\<And>v. same_runtime st (fst (f v st))) \<Longrightarrow> same_runtime st (fst (with_body X c f st))"
  by (auto simp: with_body_def answers_only split: sum.split)

lemma reads_refresh:
  assumes "\<And>as st. same_runtime st (fst (f as st))"
  shows "same_runtime st (fst (refresh_alerts X tenant f st))"
proof -
  have a: "same_runtime st st'" if "same_runtime (prune_metrics X st) st'" for st'
    using same_runtime_trans [OF same_runtime_alerts(3) that] .
  have b: "same_runtime s (fst (f as (s\<lparr>si_alerts := al\<rparr>)))" for s as al
    using same_runtime_trans [OF same_runtime_alerts(1) assms] .
  show ?thesis unfolding refresh_alerts_def Let_def
    by (rule a) (simp add: answers_only b split: sum.split prod.split)
qed

lemma reads_pruned: "same_runtime (prune_metrics X st) st' \<Longrightarrow> same_runtime st st'"
  by (rule same_runtime_trans [OF same_runtime_alerts(3)])

lemmas reads = reading.refl answers_only reads_url reads_value reads_signed reads_decoded reads_body reads_refresh

lemma reads_lists:
  "same_runtime st (fst (show_discovery X c st))" "same_runtime st (fst (show_health X st))" "same_runtime st (fst (show_ready X st))"
  "same_runtime st (fst (show_status X st))" "same_runtime st (fst (show_published_keys X c st))" "same_runtime st (fst (show_agents st))"
  "same_runtime st (fst (show_agents_for X c st))" "same_runtime st (fst (show_dead_letters X c st))"
  "same_runtime st (fst (show_audit X c st))" "same_runtime st (fst (show_tasks X c st))" "same_runtime st (fst (show_receipts X c st))"
  "same_runtime st (fst (show_receipt_verdict X c st))"
  unfolding show_discovery_def show_health_def show_ready_def show_status_def show_published_keys_def show_agents_def show_agents_for_def
    show_dead_letters_def show_audit_def show_tasks_def show_receipts_def show_receipt_verdict_def Let_def
  by (intro reads)+

lemma reads_alert_list: "same_runtime st (fst (show_alerts X c st))"
proof -
  have "same_runtime s (fst (show_page X c AlertsPage al_id as (save_alerts X s)))" for as s
    using same_runtime_trans [OF same_runtime_alerts(2) answers_only(6)] .
  then show ?thesis unfolding show_alerts_def by (intro reads_url reads_refresh)
qed

lemma reads_exports:
  "same_runtime st (fst (show_audit_export X st))" "same_runtime st (fst (show_trust_bundle X st))"
  "same_runtime st (fst (show_audit_verdict X st))" "same_runtime st (fst (show_conformance X st))"
proof -
  have m: "same_runtime s (fst (case verifyAuditIntegrity A B C of
      (Inl e, lg) \<Rightarrow> raise (SigningThrew e) (set_site_signing (au_signing lg) s) | (Inr r, lg) \<Rightarrow> f r (set_site_signing (au_signing lg) s)))"
    if "\<And>r s. same_runtime s (fst (f r s))" for A B C s and f :: "audit_report \<Rightarrow> route"
    by (cases "verifyAuditIntegrity A B C") (simp add: after_signing answers_only that split: sum.split)
  show "same_runtime st (fst (show_audit_export X st))" "same_runtime st (fst (show_trust_bundle X st))"
    unfolding show_audit_export_def show_trust_bundle_def Let_def by (intro reads)+
  show "same_runtime st (fst (show_audit_verdict X st))" unfolding show_audit_verdict_def by (rule m) (rule answers_only)
  show "same_runtime st (fst (show_conformance X st))"
    unfolding show_conformance_def Let_def by (intro reads_value m reads_signed answers_only)
qed

lemma reads_metrics: "same_runtime st (fst (show_metrics X b t st))"
  unfolding show_metrics_def Let_def by (rule reads_pruned [where X = X]) (intro reads_value answers_only)

lemma reads_actions:
  "same_runtime st (fst (acknowledge_route X c st))" "same_runtime st (fst (suppress_route X c st))"
proof -
  have k: "same_runtime s (fst (keep_alert X i a s))" for i a s
    using same_runtime_trans [OF same_runtime_alerts(1) same_runtime_alerts(2)] by (simp add: keep_alert_def answer_def)
  have w: "same_runtime st (fst (with_alert X c n f st))" if f: "\<And>i a v s. same_runtime s (fst (f i a v s))" for f n
  proof -
    have "same_runtime s (fst (case jm_get (si_alerts s) i of
        None \<Rightarrow> fail_with 404 ''alert_not_found'' (''Alert not found: '' @ i) False s | Some a \<Rightarrow> with_body X c (f i a) s))" for i s
      by (cases "jm_get (si_alerts s) i") (simp_all only: option.case answers_only reads_body [OF f])
    then show ?thesis unfolding with_alert_def by (intro reads_url reads_decoded)
  qed
  show "same_runtime st (fst (acknowledge_route X c st))" unfolding acknowledge_route_def by (rule w, rule k)
  show "same_runtime st (fst (suppress_route X c st))" unfolding suppress_route_def
    by (rule w) (auto simp: k answers_only split: option.split)
qed

lemma reads_one:
  "same_runtime st (fst (show_task X c st))" "same_runtime st (fst (start_stream X c st))" "same_runtime st (fst (show_receipt X c st))"
proof -
  have o: "same_runtime s (fst (case y of None \<Rightarrow> fail_with a k m r s | Some v \<Rightarrow> answer (f v) s))" for s a k m r f and y :: "'x option"
    by (cases y) (simp_all only: option.case answers_only)
  show "same_runtime st (fst (show_task X c st))" "same_runtime st (fst (start_stream X c st))" "same_runtime st (fst (show_receipt X c st))"
    unfolding show_task_def start_stream_def show_receipt_def with_task_id_def task_not_found_def Let_def
    by (intro reads_url reads_decoded o)+
qed

lemma late_reads: "same_runtime st (fst (late_read_routes X c st))"
  unfolding late_read_routes_def
  by (simp add: reads_actions reads_metrics reads_lists reads_one answers_only reads_url)

lemma path_reads:
  assumes "same_runtime st (fst (rest st))" and "\<And>p f. (p, f) \<in> set rs \<Longrightarrow> same_runtime st (fst (f st))"
  shows "same_runtime st (fst (by_path X c start rs rest st))"
proof -
  have "same_runtime st (fst ((case map_of rs p of Some f \<Rightarrow> f | None \<Rightarrow> rest) st))" for p
    using assms map_of_SomeD [of rs p] by (cases "map_of rs p") auto
  then show ?thesis unfolding by_path_def using assms(1) by (simp add: reads_url)
qed

text \<open>C29: A read leaves the whole runtime, the run-time controls and the policy as they were, in memory and in their files: of the
  server only the signing state moves (its metrics and the nonces it saw), besides alerts and counters outside it.\<close>

theorem reads_keep_runtime:
  "\<exists>sg. si_server (fst (handleReadRoutes X c st)) = set_signing sg (si_server st) \<and>
     si_controls_file (fst (handleReadRoutes X c st)) = si_controls_file st \<and>
     si_policy_file (fst (handleReadRoutes X c st)) = si_policy_file st"
proof -
  have "same_runtime st (fst (handleReadRoutes X c st))"
    unfolding handleReadRoutes_def
    by (auto simp: reads_lists reads_alert_list reads_exports reads_metrics late_reads intro!: path_reads)
  then show ?thesis by (auto simp: same_runtime_def)
qed

section \<open>Anyone may read\<close>

lemma other_headers [simp]:
  assumes "c' = c\<lparr>hc_request := (hc_request c)\<lparr>hq_headers := hs\<rparr>\<rparr>"
  shows "read_url c' = read_url c" "is_get c' = is_get c" "get_exact c' u = get_exact c u" "get_query c' u = get_query c u"
    "get_under c' u = get_under c u" "request_between c' m a b = request_between c m a b" "readJsonBody X c' = readJsonBody X c"
  by (simp_all add: assms read_url_def is_get_def get_exact_def get_query_def get_under_def request_between_def readJsonBody_def)

text \<open>The headers count for two things only: the host shown in the discovery document and the conditional answer.\<close>

theorem reads_ask_no_credentials:
  assumes "header (hc_request c') ''host'' = header (hc_request c) ''host''"
    and "header (hc_request c') ''if-none-match'' = header (hc_request c) ''if-none-match''"
    and "c' = c\<lparr>hc_request := (hc_request c)\<lparr>hq_headers := hs\<rparr>\<rparr>"
  shows "handleReadRoutes X c' = handleReadRoutes X c"
proof -
  note [simp] = other_headers [OF assms(3)] assms(1,2)
  have e: "etag_answer X c' = etag_answer X c" by (simp add: etag_answer_def fun_eq_iff)
  have q: "tenant_of_query X c' = tenant_of_query X c" "list_limit X c' = list_limit X c" "list_cursor X c' = list_cursor X c"
    "audit_cursor X c' = audit_cursor X c" "history_length X c' = history_length X c"
    by (simp_all add: tenant_of_query_def list_limit_def list_cursor_def audit_cursor_def history_length_def)
  have p: "show_page X c' pg f xs = show_page X c pg f xs" for pg and f :: "'a \<Rightarrow> string" and xs
    by (simp add: show_page_def e q)
  have ag: "show_agents_for X c' = show_agents_for X c" by (simp add: show_agents_for_def fun_eq_iff cong: option.case_cong)
  have a: "with_alert X c' n f = with_alert X c n f" for n f
    by (simp add: with_alert_def with_body_def cong: option.case_cong)
  have i: "with_task_id X c' = with_task_id X c" by (simp add: with_task_id_def fun_eq_iff)
  have t: "tasks_for X c' = tasks_for X c" by (simp add: tasks_for_def fun_eq_iff q cong: option.case_cong)
  have late: "late_read_routes X c' = late_read_routes X c"
    by (simp add: late_read_routes_def acknowledge_route_def suppress_route_def a q ag start_stream_def show_task_def
        show_receipt_def i)
  have l: "show_discovery X c' = show_discovery X c" "show_published_keys X c' = show_published_keys X c"
    "show_dead_letters X c' = show_dead_letters X c" "show_alerts X c' = show_alerts X c" "show_audit X c' = show_audit X c"
    "show_tasks X c' = show_tasks X c" "show_receipts X c' = show_receipts X c" "show_receipt_verdict X c' = show_receipt_verdict X c"
    by (simp_all add: show_discovery_def show_published_keys_def show_dead_letters_def show_alerts_def show_audit_def show_tasks_def
        show_receipts_def show_receipt_verdict_def e q p t fun_eq_iff)
  have b: "by_path X c' start rs rest = by_path X c start rs rest" for start rs rest
    by (simp add: by_path_def)
  show ?thesis unfolding handleReadRoutes_def by (simp add: l late b)
qed

section \<open>Pages of tasks\<close>

definition page_of_tasks :: "site_throw + site_reply option \<Rightarrow> (task_record list \<times> string option) option" where
  "page_of_tasks r = (case r of Inr (Some (Body s (TasksPage ts limit nxt) hs)) \<Rightarrow> Some (ts, nxt) | _ \<Rightarrow> None)"

text \<open>A client that follows the cursors of \<open>GET /tasks\<close>; \<open>ask\<close> is the request for a cursor.\<close>

partial_function (option) walk_tasks :: "site_world \<Rightarrow> (string option \<Rightarrow> http_call) \<Rightarrow> site \<Rightarrow> string option \<Rightarrow> task_record list option" where
  "walk_tasks X ask st cursor =
     (case page_of_tasks (snd (handleReadRoutes X (ask cursor) st)) of
        None \<Rightarrow> Some []
      | Some (ts, nxt) \<Rightarrow>
          (case nxt of None \<Rightarrow> Some ts | Some k \<Rightarrow> Option.bind (walk_tasks X ask st (Some k)) (\<lambda>more. Some (ts @ more))))"

definition asks_tasks :: "site_world \<Rightarrow> (string option \<Rightarrow> http_call) \<Rightarrow> string option \<Rightarrow> string option \<Rightarrow> bool" where
  "asks_tasks X ask tenant limit \<longleftrightarrow> (\<forall>cursor. cursor \<noteq> Some [] \<longrightarrow>
     get_under (ask cursor) ''/tasks'' \<and> site_pathname X (read_url (ask cursor)) = Some ''/tasks'' \<and>
     header (hc_request (ask cursor)) ''if-none-match'' = None \<and>
     (\<forall>k. xw_query X (read_url (ask cursor)) k =
        (if k = ''cursor'' then cursor else if k = ''tenant_id'' then tenant else if k = ''limit'' then limit else None)))"

lemma task_ids:
  assumes "entries_ok (ts_tasks ts)"
  shows "distinct (map tr_task_id (task_list ts))" "r \<in> set (task_list ts) \<Longrightarrow> tr_task_id r \<noteq> []"
proof -
  have "map tr_task_id (jm_vals (ts_tasks ts)) = map fst (by_id (jm_vals (ts_tasks ts)))" by (simp add: by_id_def)
  then have m: "map tr_task_id (jm_vals (ts_tasks ts)) = map fst (ts_tasks ts)" by (simp only: by_id_vals [OF assms])
  then show "distinct (map tr_task_id (task_list ts))" using assms by (simp add: task_list_def entries_ok_def jm_wf_def)
  show "r \<in> set (task_list ts) \<Longrightarrow> tr_task_id r \<noteq> []"
    using assms jm_vals_get [of "ts_tasks ts" r] by (auto simp: task_list_def entries_ok_def)
qed

lemma get_under_exact: "get_under c ''/tasks'' \<Longrightarrow> \<not> prefix ''/tasks'' u \<Longrightarrow> \<not> get_exact c u"
  by (auto simp: get_under_def get_exact_def)

lemma get_under_other: "get_under c ''/tasks'' \<Longrightarrow> \<not> prefix ''/tasks'' u \<Longrightarrow> \<not> prefix u ''/tasks'' \<Longrightarrow> \<not> get_query c u \<and> \<not> get_under c u"
  by (auto simp: get_under_def get_query_def dest: prefix_same_cases append_prefixD)

lemma task_list_route:
  assumes "get_under c ''/tasks''" and "site_pathname X (read_url c) = Some ''/tasks''"
  shows "handleReadRoutes X c = show_tasks X c"
proof -
  have "\<not> get_exact c u" if "\<not> prefix ''/tasks'' u" for u using get_under_exact [OF assms(1) that] .
  moreover have "\<not> get_query c u \<and> \<not> get_under c u" if "\<not> prefix ''/tasks'' u" "\<not> prefix u ''/tasks''" for u
    using get_under_other [OF assms(1) that] .
  ultimately show ?thesis using assms by (simp add: handleReadRoutes_def by_path_def with_url_def)
qed

theorem task_pages_complete:
  assumes "asks_tasks X ask tenant limit" and "entries_ok (ts_tasks (site_tasks st))"
    and "tenant \<noteq> Some []"
  shows "walk_tasks X ask st None = Some (case tenant of
     None \<Rightarrow> task_list (site_tasks st)
   | Some t \<Rightarrow> filter (\<lambda>r. resolve_tenant (ri_tenant_id (tr_requester r)) = resolve_tenant (Some t)) (task_list (site_tasks st)))"
proof -
  define L where "L = (case tenant of
     None \<Rightarrow> task_list (site_tasks st)
   | Some t \<Rightarrow> filter (\<lambda>r. resolve_tenant (ri_tenant_id (tr_requester r)) = resolve_tenant (Some t)) (task_list (site_tasks st)))"
  define n where "n = page_limit 500 limit"
  have d: "distinct (map tr_task_id L)" unfolding L_def
    using task_ids(1) [OF assms(2)] by (auto simp: distinct_map_filter split: option.split)
  have ne: "tr_task_id r \<noteq> []" if "r \<in> set L" for r
    using that task_ids(2) [OF assms(2)] by (auto simp: L_def split: option.splits)
  have page: "page_of_tasks (snd (handleReadRoutes X (ask cursor) st)) = Some (page_at tr_task_id cursor n L, next_cursor tr_task_id cursor n L)"
    if c: "cursor \<noteq> Some []" for cursor
  proof -
    have q: "xw_query X (read_url (ask cursor)) k =
        (if k = ''cursor'' then cursor else if k = ''tenant_id'' then tenant else if k = ''limit'' then limit else None)" for k
      using assms(1) c unfolding asks_tasks_def by blast
    have r: "handleReadRoutes X (ask cursor) = show_tasks X (ask cursor)"
      using assms(1) c task_list_route unfolding asks_tasks_def by blast
    have h: "header (hc_request (ask cursor)) ''if-none-match'' = None"
      using assms(1) c unfolding asks_tasks_def by blast
    have "list_cursor X (ask cursor) = cursor" "list_limit X (ask cursor) = n" "tenant_of_query X (ask cursor) = tenant"
      using c assms(3) by (auto simp: list_cursor_def list_limit_def tenant_of_query_def query_text_def q n_def split: option.split)
    moreover have "tasks_for X (ask cursor) st = L"
      using c assms(3) by (auto simp: tasks_for_def tenant_of_query_def query_text_def q history_length_def L_def task_list_history_def
          task_listByTenant_def split: option.split)
    ultimately show ?thesis
      by (simp add: r show_tasks_def show_page_def etag_answer_def h answer_def page_of_tasks_def)
  qed
  have walk: "follow tr_task_id n L cursor = Some ps \<Longrightarrow> cursor \<noteq> Some [] \<Longrightarrow> walk_tasks X ask st cursor = Some (concat ps)" for ps cursor
  proof (induction ps arbitrary: cursor)
    case Nil
    then show ?case by (subst (asm) follow.simps) (auto split: option.splits Option.bind_splits)
  next
    case (Cons p ps)
    show ?case
    proof (cases "next_cursor tr_task_id cursor n L")
      case None
      then show ?thesis using Cons.prems by (subst walk_tasks.simps, subst (asm) follow.simps) (auto simp: page)
    next
      case (Some k)
      then have f: "follow tr_task_id n L (Some k) = Some ps" and p: "p = page_at tr_task_id cursor n L"
        using Cons.prems(1) by (subst (asm) follow.simps, auto split: Option.bind_splits)+
      define i where "i = start_index tr_task_id cursor L + n"
      have "i < length L" "k = tr_task_id (L ! (i - 1))" using Some by (auto simp: next_cursor_def i_def Let_def split: if_splits)
      then have "k \<noteq> []" using ne by (metis less_imp_diff_less nth_mem)
      then show ?thesis using Cons.IH [OF f] Cons.prems(2) Some by (subst walk_tasks.simps) (simp add: page p)
    qed
  qed
  obtain ps where "follow tr_task_id n L None = Some ps" "concat ps = L"
    using pages_are_the_list [OF d, of n] by (auto simp: n_def)
  then show ?thesis using walk [of None ps] by (simp add: L_def)
qed

section \<open>Streams\<close>

text \<open>The pattern of the stream route is matched against the URL with its query, so a stream cannot be asked for one
  tenant: such a request is no read route.\<close>

theorem tenant_stream_not_found:
  assumes "is_get c" and "read_url c = ''/tasks/'' @ tid @ ''/stream?'' @ query"
    and "site_pathname X (read_url c) = Some (''/tasks/'' @ tid @ ''/stream'')"
  shows "handleReadRoutes X c = not_mine"
proof -
  define u where "u = read_url c"
  have u: "u = ''/tasks/'' @ tid @ ''/stream?'' @ query" using assms(2) by (simp add: u_def)
  have t: "get_under c ''/tasks''" using assms(1,2) by (simp add: get_under_def)
  have n: "\<not> get_exact c v" if "\<not> prefix ''/tasks'' v" for v using get_under_exact [OF t that] .
  have m: "\<not> get_query c v \<and> \<not> get_under c v" if "\<not> prefix ''/tasks'' v" "\<not> prefix v ''/tasks''" for v
    using get_under_other [OF t that] .
  have "js_slice 7 7 u = take (length tid + 1 + length query) (tid @ ''/stream?'' @ query)"
    by (simp add: js_slice_def u)
  also have "\<dots> = tid @ ''/'' @ take (length query) (''stream?'' @ query)" by simp
  finally have s: "\<not> stream_url u" by (simp add: stream_url_def)
  have k: "\<not> task_url u" by (simp add: task_url_def u)
  have post: "\<not> request_between c ''POST'' a b" for a b using assms(1) by (simp add: request_between_def is_get_def)
  have "late_read_routes X c = not_mine"
    using m [of "''/metrics?''"] m [of "''/agents?''"] m [of "''/receipts/''"] s k post by (simp add: late_read_routes_def u_def)
  moreover have "by_path X c ''/receipts'' rs rest = rest" for rs rest using m [of "''/receipts''"] by (simp add: by_path_def)
  ultimately show ?thesis using n m t assms(3) by (simp add: handleReadRoutes_def by_path_def with_url_def)
qed

text \<open>The server ends a stream only on a completed task with a result or when the task is gone. Once the task failed, was
  denied or revoked, the timer runs until the client leaves, whatever happens to the store.\<close>

theorem ended_task_stream_stays_open:
  assumes "jm_get (ts_tasks ts) tid = Some r" and "tr_status r \<in> {Failed, TDenied, Revoked}" and "list_all no_delete es"
    and "s = opened_stream tid None r" and "list_all (\<lambda>n. n \<le> length es) ns"
  shows "\<exists>s'. foldl (\<lambda>s n. Option.bind s (\<lambda>s. snd (stream_tick (foldl task_step ts (take n es)) s))) (Some s) ns = Some s'"
proof -
  have status: "\<exists>r'. jm_get (ts_tasks (foldl task_step ts (take n es))) tid = Some r' \<and> tr_status r' = tr_status r" for n
  proof -
    have "terminal_status tid (foldl task_step ts (take n es)) = Some (tr_status r)"
      using assms(1-3) by (intro task_terminal.run_stable)
        (auto simp: terminal_status_def status_of_def isTerminal_def terminal_statuses_def list_all_iff dest: in_set_takeD)
    then show ?thesis by (auto simp: terminal_status_def status_of_def split: option.splits if_splits)
  qed
  have "\<exists>s'. foldl (\<lambda>s n. Option.bind s (\<lambda>s. snd (stream_tick (foldl task_step ts (take n es)) s))) (Some s) ns = Some s' \<and>
      sm_task_id s' = tid \<and> sm_tenant s' = None"
  proof (induction ns rule: rev_induct)
    case Nil
    then show ?case by (simp add: assms(4) opened_stream_def)
  next
    case (snoc n ns)
    then obtain s' where s': "foldl (\<lambda>s n. Option.bind s (\<lambda>s. snd (stream_tick (foldl task_step ts (take n es)) s))) (Some s) ns = Some s'"
      "sm_task_id s' = tid" "sm_tenant s' = None" by blast
    obtain r' where r': "jm_get (ts_tasks (foldl task_step ts (take n es))) tid = Some r'" "tr_status r' = tr_status r" using status by blast
    have "tr_status (applyHistoryLength None r') \<noteq> Completed" using r'(2) assms(2) by (auto simp: applyHistoryLength_def)
    then show ?case using s' r' by (auto simp: stream_tick_def find_task_def task_get_def result_events_def)
  qed
  then show ?thesis by blast
qed

section \<open>Anyone may silence an alert\<close>

lemma suppressed_hidden:
  assumes "alerts_ok st" and "jm_get st k = Some a" and "al_suppressed_until a = Some s" and "s \<noteq> []" and "date s = Some t" and "now < t"
    and "list_all (\<lambda>a. sa_id a \<noteq> []) (in_slo_alerts i)"
  shows "k \<notin> al_id ` set (fst (getActiveAlerts date now L i tenant st))"
proof
  assume "k \<in> al_id ` set (fst (getActiveAlerts date now L i tenant st))"
  then obtain b where b: "al_id b = k" "b \<in> set (jm_vals (snd (getActiveAlerts date now L i tenant st)))" "is_shown date now b"
    by (auto simp: getActiveAlerts_def Let_def critical_first_def)
  let ?st = "snd (getActiveAlerts date now L i tenant st)"
  have ok: "alerts_ok ?st" by (rule check_state(1) [OF assms(7) refl assms(1)])
  then have "jm_get ?st k = Some b" using b(1,2) jm_vals_get [of ?st b] alerts_ok_get [OF ok] by (metis alerts_ok_def)
  then have "history b = history a"
    using check_state(2) [OF assms(7) refl, of date now L tenant st k] assms(2) by simp
  then show False using b(3) assms(3-6) by (simp add: history_def is_shown_def)
qed

text \<open>No credentials are asked of whoever suppresses an alert: it is not listed any more until the time the request names.\<close>

theorem anyone_may_silence:
  assumes "request_between c ''POST'' ''/alerts/'' ''/suppress''" and "site_pathname X (read_url c) = Some path"
    and "xw_decode X (js_slice 8 9 path) = Some ident" and "jm_get (si_alerts st) ident = Some a"
    and "readJsonBody X c = Inr (JObj [(''duration_seconds'', JNum (Fin (of_int d)))])"
    and "1 \<le> d" and "\<bar>xnow X + d * 1000\<bar> \<le> 8640000000000000"
    and "sw_date (xsigning X) (toISOString (xnow X + d * 1000)) = Some (xnow X + d * 1000)"
    and "later < xnow X + d * 1000" and "alerts_ok (si_alerts st)" and "list_all (\<lambda>a. sa_id a \<noteq> []) (in_slo_alerts i)"
  shows "ident \<notin> al_id ` set (fst (getActiveAlerts (sw_date (xsigning X)) later L i tenant (si_alerts (fst (handleReadRoutes X c st)))))"
proof -
  define body where "body = JObj [(''duration_seconds'', JNum (Fin (of_int d)))]"
  define until where "until = toISOString (xnow X + d * 1000)"
  define u where "u = a\<lparr>al_suppressed_until := Some until, al_suppressed_by := Some (named_actor ''system'' body)\<rparr>"
  have post: "\<not> is_get c" using assms(1) by (simp add: request_between_def is_get_def)
  have url: "prefix ''/alerts/'' (read_url c)" "suffix ''/suppress'' (read_url c)"
    using assms(1) by (auto simp: request_between_def read_url_def split: option.splits)
  have "\<not> suffix ''/ack'' (read_url c)" using url(2) by (auto simp: suffix_def)
  then have ack: "\<not> request_between c ''POST'' ''/alerts/'' ''/ack''"
    by (auto simp: request_between_def read_url_def split: option.splits)
  have h: "handleReadRoutes X c = suppress_route X c"
    using post assms(1) ack
    by (simp add: handleReadRoutes_def get_exact_def get_query_def get_under_def by_path_def late_read_routes_def)
  have m: "js_prop body ''until'' = JUndef" "js_prop body ''duration_seconds'' = JNum (Fin (of_int d))"
    by (simp_all add: body_def js_prop_def obj_get_def inherited_member_def inherited_names_def)
  have "suppress_until X body = Some (Some until)"
    using assms(6,7) by (simp add: suppress_until_def m nonblank_def until_def Let_def max_def)
  then have st': "si_alerts (fst (handleReadRoutes X c st)) = jm_set ident u (si_alerts st)"
    by (simp add: h suppress_route_def with_alert_def with_url_def assms(2-5) with_decoded_def with_body_def body_def [symmetric]
        keep_alert_def answer_def save_alerts_def u_def)
  have ok: "alerts_ok (jm_set ident u (si_alerts st))"
    using alerts_ok_get [OF assms(10,4)] by (intro alerts_ok_set assms(10)) (simp_all add: u_def)
  have "until \<noteq> []" by (simp add: until_def toISOString_def case_prod_beta Let_def)
  then show ?thesis unfolding st'
    using assms(8,9,11) by (intro suppressed_hidden [OF ok, where a = u and s = until and t = "xnow X + d * 1000"])
      (simp_all add: jm_get_set u_def until_def)
qed

end
