(* ===== verification/HttpServer.thy ===== *)
theory HttpServer
  imports ReadProofs
begin

text \<open>
  The request handler of \<open>server/index.ts\<close>: the order of the routes, the classification of what
  they throw, and what is counted and saved. A request is handled in one step; \<open>None\<close> as
  an answer is a handler that throws itself.
\<close>

section \<open>What a throw says\<close>

definition task_error_message :: "string \<Rightarrow> string \<Rightarrow> store_error \<Rightarrow> string" where
  "task_error_message tid status e =
     (let violated = (\<lambda>s. ''Task lifecycle invariant violated: '' @ s @ '' for task '' @ tid @ ''.'') in
      case e of
        TerminalTransition \<Rightarrow> ''Terminal task state transition is not allowed.''
      | InvalidTransition a b \<Rightarrow> ''Invalid task state transition: '' @ task_status_str a @ '' -> '' @ task_status_str b @ ''.''
      | IdempotencyExists k \<Rightarrow> ''Idempotency key already exists: '' @ k
      | IdempotencyImmutable \<Rightarrow> ''Idempotency key is immutable for task '' @ tid @ ''.''
      | RequesterImmutable \<Rightarrow> violated ''requester_identity is immutable''
      | CapabilityImmutable \<Rightarrow> violated ''capability is immutable''
      | TargetImmutable \<Rightarrow> violated ''target_agent is immutable''
      | ResultTaskMismatch \<Rightarrow> violated ''result.task_id mismatch''
      | ResultStatusMismatch \<Rightarrow> violated ''result.status must match task status''
      | ReceiptTaskMismatch \<Rightarrow> violated ''receipt.task_id mismatch''
      | TerminalImmutable \<Rightarrow> ''Terminal task state is immutable for task '' @ tid @ '' ('' @ status @ '').''
      | TransitionNeedsPayload \<Rightarrow> violated ''transitions must include result and receipt''
      | UniqueConstraint \<Rightarrow> ''UNIQUE constraint failed: tasks.idempotency_key'')"

definition exec_error_message :: "exec_error \<Rightarrow> string" where
  "exec_error_message e = (case e of
      InvalidIntent es \<Rightarrow> ''Invalid intent: '' @ join_with '', '' es
    | NoAdapter c \<Rightarrow> ''No adapter for capability: '' @ c
    | InvalidInput es \<Rightarrow> ''Invalid input: '' @ join_with '', '' es
    | AdapterThrew m \<Rightarrow> m)"

text \<open>The capability and the envelope are those of the request; \<open>status\<close> is that of its task.\<close>

definition runtime_message :: "site_world \<Rightarrow> string \<Rightarrow> task_envelope \<Rightarrow> string \<Rightarrow> orch_error \<Rightarrow> string" where
  "runtime_message X cap env status e =
     (let tid = te_task_id env; agent = te_target_agent env in
      case e of
        InvalidEnvelope \<Rightarrow> ''Invalid MAP task envelope: '' @ xw_validation_text X
      | NoAgentFound a \<Rightarrow> ''No micro-agent found for target agent: '' @ a
      | AgentDisabled a \<Rightarrow> ''Target agent is disabled in registry: '' @ a
      | CapabilityUnsupported c \<Rightarrow> ''Capability not supported by target agent '' @ agent @ '': '' @ c
      | CapabilityDisabled c \<Rightarrow> ''Capability is disabled for target agent '' @ agent @ '': '' @ c
      | ExtensionRequired u \<Rightarrow> ''Extension '' @ quoted u @ '' is required by agent '' @ quoted agent @ '' but was not declared in the task envelope.''
      | IdempotencyConflict k \<Rightarrow> ''Idempotency key conflict: '' @ k
      | TaskIdConflict t \<Rightarrow> ''Task id conflict: '' @ t
      | UnsupportedOutputMode \<Rightarrow> ''Unsupported output mode for '' @ cap @ '': '' @ visibility_str (te_output_mode env)
      | UnsupportedSchemaVersion v \<Rightarrow> ''Unsupported schema version for '' @ cap @ '': '' @ v
      | DeniedByPolicy r \<Rightarrow> r
      | InvalidResultPackage \<Rightarrow> ''Invalid MAP result package: '' @ xw_validation_text X
      | InvalidCoreIntent es \<Rightarrow> ''Invalid intent: '' @ join_with '', '' es
      | QueueCapacityExceeded \<Rightarrow> ''Async queue capacity exceeded.''
      | TaskStoreError d \<Rightarrow> task_error_message tid status d
      | ReceiptStoreError (ReceiptConflict r) \<Rightarrow> ''Receipt conflict for immutable receipt id: '' @ r
      | ExecutionError d \<Rightarrow> exec_error_message d
      | WaitTimedOut t \<Rightarrow> ''Timed out waiting for task completion: '' @ t
      | ApprovalTaskIdMismatch \<Rightarrow> ''Approval request task_id does not match the envelope task_id.''
      | ApprovalTaskNotFound t \<Rightarrow> ''Approval task not found: '' @ t
      | NotAwaitingApproval t \<Rightarrow> ''Task is not awaiting approval: '' @ t
      | ApprovalCapabilityMismatch \<Rightarrow> ''Approval capability mismatch for task: '' @ tid
      | ApprovalTargetMismatch \<Rightarrow> ''Approval target agent mismatch for task: '' @ tid
      | InvalidApprovalReference \<Rightarrow> ''Invalid approval reference for task: '' @ tid
      | TaskNotFound t \<Rightarrow> ''Task not found: '' @ t
      | NotCancellable s \<Rightarrow> ''Task cannot be cancelled in its current state: '' @ task_status_str s
      | NotifierThrew \<Rightarrow> xw_engine_text X)"

definition signing_message :: "site_world \<Rightarrow> sign_error \<Rightarrow> string" where
  "signing_message X e = (case e of RsaFailure \<Rightarrow> xw_engine_text X | _ \<Rightarrow> sign_error_msg e)"

text \<open>The request a mutation route was given, once it passed the validator.\<close>

definition request_payload :: "site_world \<Rightarrow> http_call \<Rightarrow> (string \<times> task_envelope) option" where
  "request_payload X c =
     (case readJsonBody X c of
        Inl _ \<Rightarrow> None
      | Inr v \<Rightarrow>
          if hq_url (hc_request c) = Some ''/dispatch''
          then map_option (\<lambda>p. (dq_capability p, dq_envelope p)) (vw_dispatch (xw_server X) v)
          else map_option (\<lambda>p. (ar_capability p, ar_envelope p)) (vw_approval (xw_server X) v))"

definition stored_status :: "site \<Rightarrow> string \<Rightarrow> string" where
  "stored_status st tid = (case jm_get (ts_tasks (site_tasks st)) tid of None \<Rightarrow> [] | Some r \<Rightarrow> task_status_str (tr_status r))"

definition error_text :: "site_world \<Rightarrow> http_call \<Rightarrow> site \<Rightarrow> site_throw \<Rightarrow> string" where
  "error_text X c st e = (case e of
      RouteThrew (AuthThrew (SignerThrew d)) \<Rightarrow> signing_message X d
    | RouteThrew (AuthThrew BadUrl) \<Rightarrow> ''Invalid URL''
    | RouteThrew (AuthThrew TypeError) \<Rightarrow> xw_engine_text X
    | RouteThrew (AuditThrew d) \<Rightarrow> signing_message X d
    | RouteThrew ValidationThrew \<Rightarrow>
        (if hq_url (hc_request c) = Some ''/dispatch'' then ''Invalid MAP dispatch request: '' else ''Invalid MAP approval request: '')
        @ xw_validation_text X
    | RouteThrew (RuntimeThrew d) \<Rightarrow>
        (case request_payload X c of
           None \<Rightarrow> xw_engine_text X
         | Some (cap, env) \<Rightarrow> runtime_message X cap env (stored_status st (te_task_id env)) d)
    | BodyTooLarge n \<Rightarrow> ''Request body exceeds maximum size of '' @ nat_str n @ '' bytes.''
    | BadJson \<Rightarrow> ''Invalid JSON in request body.''
    | UriMalformed \<Rightarrow> ''URI malformed''
    | UrlInvalid \<Rightarrow> ''Invalid URL''
    | SigningThrew d \<Rightarrow> signing_message X d
    | DateInvalid \<Rightarrow> ''Invalid time value''
    | OutsideModel \<Rightarrow> xw_engine_text X)"

definition ERROR_CODE_PATTERNS :: "(string list \<times> string) list" where
  "ERROR_CODE_PATTERNS =
     [([''No micro-agent found''], ''agent_not_found''),
      ([''Target agent is disabled in registry''], ''agent_disabled''),
      ([''Capability not supported''], ''capability_not_found''),
      ([''Capability is disabled for target agent''], ''capability_disabled''),
      ([''Approval task not found''], ''task_not_found''),
      ([''Task not found''], ''task_not_found''),
      ([''Receipt not found''], ''receipt_not_found''),
      ([''not awaiting approval''], ''approval_required''),
      ([''Invalid approval reference''], ''invalid_request''),
      ([''Task id conflict'', ''Idempotency key conflict''], ''idempotency_conflict''),
      ([''Async queue capacity exceeded''], ''rate_limited''),
      ([''tenant_id is required''], ''policy_denied''),
      ([''Task denied''], ''policy_denied''),
      ([''Unsupported schema version''], ''schema_version_unsupported''),
      ([''Unsupported output mode''], ''unsupported_output_mode''),
      ([''Invalid task state transition'', ''Terminal task state'', ''Task lifecycle invariant violated''], ''invalid_request''),
      ([''No adapter for capability''], ''invalid_request''),
      ([''Negotiation delivery mode conflicts''], ''invalid_request''),
      ([''requires approval''], ''approval_required''),
      ([''replay detected''], ''invalid_auth''),
      ([''Delegation token has expired''], ''token_expired''),
      ([''Invalid MAP''], ''invalid_request''),
      ([''Approval request''], ''invalid_request'')]"

definition classifyErrorCode :: "string \<Rightarrow> string" where
  "classifyErrorCode message =
     (case find (\<lambda>(ps, _). list_ex (\<lambda>p. str_includes p message) ps) ERROR_CODE_PATTERNS of
        None \<Rightarrow> ''request_failed'' | Some (_, code) \<Rightarrow> code)"

section \<open>Saving\<close>

definition save_metrics :: "site_world \<Rightarrow> site \<Rightarrow> site" where
  "save_metrics X st =
     (if xw_metrics_stored X
      then (case manager_persist (xw_metrics X) (xnow X) (si_metrics st) of
              (file, m) \<Rightarrow> st\<lparr>si_metrics := m, si_metrics_file := Some file\<rparr>)
      else st)"

definition save_after :: "site_world \<Rightarrow> site \<Rightarrow> site" where
  "save_after X st = save_alerts X (save_metrics X st)"

section \<open>The routes in order\<close>

fun first_of :: "route list \<Rightarrow> route" where
  "first_of [] = not_mine"
| "first_of (f # fs) =
     (\<lambda>st. case f st of (st1, Inr None) \<Rightarrow> first_of fs st1 | (st1, Inr (Some a)) \<Rightarrow> (st1, Inr (Some a)) | (st1, Inl e) \<Rightarrow> (st1, Inl e))"

definition lift_gate :: "gate \<Rightarrow> route" where
  "lift_gate g st =
     (case g (si_server st) of
        (sv, Inl e) \<Rightarrow> (st\<lparr>si_server := sv\<rparr>, Inl (RouteThrew e))
      | (sv, Inr a) \<Rightarrow> (st\<lparr>si_server := sv\<rparr>, Inr (map_option Reply a)))"

definition cancel_route :: "site_world \<Rightarrow> http_call \<Rightarrow> route" where
  "cancel_route X c =
     (if request_between c ''POST'' ''/tasks/'' ''/cancel'' then lift_gate (handle_cancel (xw_server X) c (request_url c)) else not_mine)"

definition is_mutation :: "http_call \<Rightarrow> bool" where
  "is_mutation c \<longleftrightarrow> hq_method (hc_request c) = Some ''POST'' \<and> hq_url (hc_request c) \<in> {Some ''/dispatch'', Some ''/approve''}"

text \<open>Every success of a mutation route is one measurement.\<close>

definition record_latencies :: "site_world \<Rightarrow> nat \<Rightarrow> site \<Rightarrow> site" where
  "record_latencies X n st =
     st\<lparr>si_metrics := foldl (\<lambda>m cap. manager_recordLatency (xw_metrics X) cap (xw_elapsed X) m) (si_metrics st) (drop n (sv_latencies (si_server st)))\<rparr>"

definition mutation_route :: "site_world \<Rightarrow> http_call \<Rightarrow> route" where
  "mutation_route X c =
     (if is_mutation c then with_body X c (\<lambda>v st.
        (case handleMutationRoutes (xw_server X) (c\<lparr>hc_parsed := v\<rparr>) of
           None \<Rightarrow> not_mine st
         | Some g \<Rightarrow> (case lift_gate g st of (st1, r) \<Rightarrow> (record_latencies X (length (sv_latencies (si_server st))) st1, r))))
      else not_mine)"

text \<open>The agent an error is counted under: that of the body as it came, and of the validated request.\<close>

definition tracked_agent :: "site_world \<Rightarrow> http_call \<Rightarrow> site_reply \<Rightarrow> string option" where
  "tracked_agent X c r =
     (case r of
        Reply (ErrorReply status code message retryable) \<Rightarrow>
          if \<not> is_mutation c then None
          else if code = ''rate_limited'' then (case readJsonBody X c of Inl _ \<Rightarrow> None | Inr v \<Rightarrow> extractTargetAgent v)
          else (case request_payload X c of None \<Rightarrow> None | Some (_, env) \<Rightarrow> Some (te_target_agent env))
      | _ \<Rightarrow> None)"

definition show_slo :: "route" where
  "show_slo st = answer (Body 200 (SloBody (getAllBudgets (mm_slo (si_metrics st))) (checkAlerts (mm_slo (si_metrics st)))) []) st"

definition slo_route :: "http_call \<Rightarrow> route" where
  "slo_route c = (if is_get c \<and> hq_url (hc_request c) = Some ''/slo'' then show_slo else not_mine)"

definition all_routes :: "site_world \<Rightarrow> http_call \<Rightarrow> route" where
  "all_routes X c =
     first_of [slo_route c, handleReadRoutes X c, handleAdminRoutes X c, handlePolicyRoutes X c, cancel_route X c, mutation_route X c,
       fail_with 404 ''not_found'' ''Route not found.'' False]"

section \<open>A throw\<close>

definition error_status :: "string \<Rightarrow> nat" where
  "error_status code =
     (if code = ''rate_limited'' then 429 else if code = ''idempotency_conflict'' then 409
      else if code = ''capability_not_found'' then 404 else 400)"

definition caught_reply :: "string \<Rightarrow> site_reply" where
  "caught_reply code =
     Reply (ErrorReply (error_status code) code ''The requested operation could not be completed.''
       (code = ''request_failed'' \<or> code = ''rate_limited''))"

text \<open>Only two codes are audited, and without tenant and agent: both variables are assigned after the route returned.\<close>

definition caught :: "site_world \<Rightarrow> http_call \<Rightarrow> site_throw \<Rightarrow> site \<Rightarrow> site \<times> site_reply option" where
  "caught X c e st =
     (let message = error_text X c st e; code = classifyErrorCode message;
          reply = (\<lambda>st. (save_after X (count_site_reply X None (caught_reply code) st), Some (caught_reply code)))
      in if code = ''policy_denied'' \<or> code = ''invalid_auth''
         then (case site_pathname X (read_url c) of
                 None \<Rightarrow> (st, None)
               | Some path \<Rightarrow>
                   (case site_event X c code message path None None st of
                      (st1, Some _) \<Rightarrow> (st1, None)
                    | (st1, None) \<Rightarrow> reply st1))
         else reply st)"

section \<open>The handler\<close>

definition with_request_id :: "site_world \<Rightarrow> http_call \<Rightarrow> http_call" where
  "with_request_id X c = c\<lparr>hc_request_id := (case env_present (header (hc_request c) ''x-map-request-id'') of None \<Rightarrow> xw_request_uuid X | Some i \<Rightarrow> i)\<rparr>"

definition missing_metadata :: "http_call \<Rightarrow> bool" where
  "missing_metadata c \<longleftrightarrow> hq_url (hc_request c) \<in> {None, Some []} \<or> hq_method (hc_request c) \<in> {None, Some []}"

definition metadata_reply :: site_reply where
  "metadata_reply = Reply (ErrorReply 400 ''invalid_request'' ''Missing request metadata.'' False)"

definition handle_request :: "site_world \<Rightarrow> http_call \<Rightarrow> site \<Rightarrow> site \<times> site_reply option" where
  "handle_request X c0 st =
     (let c = with_request_id X c0 in
      if missing_metadata c then (count_site_reply X None metadata_reply st, Some metadata_reply)
      else (case all_routes X c st of
              (st1, Inl e) \<Rightarrow> caught X c e st1
            | (st1, Inr None) \<Rightarrow> (st1, None)
            | (st1, Inr (Some r)) \<Rightarrow>
                (let st2 = count_site_reply X (tracked_agent X c r) r st1 in
                 (if is_mutation c then save_after X st2 else st2, Some r))))"

end
