(* ===== verification/HttpProofs.thy ===== *)
theory HttpProofs
  imports HttpServer
begin

text \<open>
  The handler as a whole: who can change the controls, that every answer is counted once, that the
  policy is open to all, and what becomes of a denial.
\<close>

section \<open>Frames\<close>

lemma first_of_keeps:
  assumes "site_relation R" and "\<And>a b c. R a b \<Longrightarrow> R b c \<Longrightarrow> R a c" and "list_all (route_keeps R) fs"
  shows "route_keeps R (first_of fs)"
  using assms(3)
proof (induction fs)
  case Nil
  then show ?case using site_relation.keeps_not_mine [OF assms(1)] by simp
next
  case (Cons f fs)
  show ?case unfolding route_keeps_def
  proof
    fix st
    have f: "R st (fst (f st))" and r: "R s (fst (first_of fs s))" for s using Cons by (simp_all add: route_keeps_def)
    show "R st (fst (first_of (f # fs) st))"
    proof (cases "snd (f st) = Inr None")
      case True
      then have "first_of (f # fs) st = first_of fs (fst (f st))" by (cases "f st") simp
      then show ?thesis using assms(2) [OF f r] by simp
    next
      case False
      then have "fst (first_of (f # fs) st) = fst (f st)" by (cases "f st") (auto split: sum.split option.split)
      then show ?thesis using f by simp
    qed
  qed
qed

definition sv_controls :: "server \<Rightarrow> controls" where
  "sv_controls sv = (sv_disabled_agents sv, sv_disabled_capabilities sv, sv_revoked_keys sv)"

definition gate_keeps :: "gate \<Rightarrow> bool" where
  "gate_keeps g \<longleftrightarrow> (\<forall>sv. sv_controls (fst (g sv)) = sv_controls sv)"

lemma sv_controls_frames [simp]:
  "sv_controls (sv\<lparr>sv_app := a\<rparr>) = sv_controls sv" "sv_controls (sv\<lparr>sv_limiter := l\<rparr>) = sv_controls sv"
  "sv_controls (sv\<lparr>sv_audit := g\<rparr>) = sv_controls sv" "sv_controls (sv\<lparr>sv_jwks := j\<rparr>) = sv_controls sv"
  "sv_controls (sv\<lparr>sv_latencies := ls\<rparr>) = sv_controls sv" "sv_controls (set_signing sg sv) = sv_controls sv"
  by (simp_all add: sv_controls_def set_signing_def)

lemma record_event_controls: "record_event V c code m route t a sv = (sv1, e) \<Longrightarrow> sv_controls sv1 = sv_controls sv"
  by (auto dest: record_event_frame)

lemma audited_controls [simp]: "sv_controls (fst (audited_reply V c route t a m r sv)) = sv_controls sv"
  by (auto simp: audited_reply_def split: http_reply.split prod.split option.split dest: record_event_controls)

lemma gate_then_keeps: "gate_keeps a \<Longrightarrow> gate_keeps b \<Longrightarrow> gate_keeps (gate_then a b)"
  unfolding gate_keeps_def
proof
  fix sv
  assume a: "\<forall>sv. sv_controls (fst (a sv)) = sv_controls sv" and b: "\<forall>sv. sv_controls (fst (b sv)) = sv_controls sv"
  show "sv_controls (fst (gate_then a b sv)) = sv_controls sv"
    using a [rule_format, of sv] b by (cases "a sv") (auto simp: gate_then_def split: sum.split option.split)
qed

lemma gates_keep:
  "gate_keeps (backpressure_gate V c route m)" "gate_keeps (rate_gate V c route)" "gate_keeps (tenant_gate V c route env)"
  "gate_keeps (control_gate b V c route env cap)" "gate_keeps (throw e)" "gate_keeps (run_app f hs cap m')"
  by (auto simp: gate_keeps_def backpressure_gate_def rate_gate_def tenant_gate_def control_gate_def throw_def run_app_def pass_def Let_def
      split: prod.split rate_verdict.split sum.split)

lemma auth_keeps: "gate_keeps (auth_gate V c route env cap)"
  by (auto simp: gate_keeps_def auth_gate_def throw_def pass_def Let_def split: prod.split sum.split option.split)

lemma gate_keepsD: "gate_keeps g \<Longrightarrow> sv_controls (fst (g sv)) = sv_controls sv"
  by (simp add: gate_keeps_def)

lemma gate_case: "(\<And>p. gate_keeps (h p)) \<Longrightarrow> gate_keeps (case x of None \<Rightarrow> throw e | Some p \<Rightarrow> h p)"
  using gates_keep(5) by (simp split: option.split)

lemma mutation_keeps: "handleMutationRoutes V c = Some g \<Longrightarrow> gate_keeps g"
proof -
  have d: "sv_controls (fst (handle_dispatch V c sv)) = sv_controls sv" for sv
    unfolding handle_dispatch_def by (rule gate_keepsD) (intro gate_then_keeps gate_case gates_keep auth_keeps)
  have a: "sv_controls (fst (handle_approve V c sv)) = sv_controls sv" for sv
    unfolding handle_approve_def by (rule gate_keepsD) (intro gate_then_keeps gate_case gates_keep auth_keeps)
  show "handleMutationRoutes V c = Some g \<Longrightarrow> gate_keeps g"
    using d a by (auto simp: handleMutationRoutes_def gate_keeps_def split: if_splits)
qed

lemma cancel_keeps: "gate_keeps (handle_cancel V c url)"
  by (auto simp: gate_keeps_def handle_cancel_def Let_def split: prod.split sum.split option.split dest: record_event_controls)

lemma lift_gate_controls: "gate_keeps g \<Longrightarrow> sv_controls (si_server (fst (lift_gate g st))) = sv_controls (si_server st)"
proof -
  assume g: "gate_keeps g"
  obtain sv r where e: "g (si_server st) = (sv, r)" by (cases "g (si_server st)")
  then have "sv_controls sv = sv_controls (si_server st)" using g unfolding gate_keeps_def by (metis fst_conv)
  then show ?thesis by (simp add: lift_gate_def e split: sum.split)
qed

lemma site_controls_server: "site_controls st = sv_controls (si_server st)"
  by (simp add: site_controls_def sv_controls_def)

lemma lift_gate_rest: "si_metrics (fst (lift_gate g st)) = si_metrics st"
  by (auto simp: lift_gate_def split: prod.split sum.split)

section \<open>Totals\<close>

definition same_totals :: "site \<Rightarrow> site \<Rightarrow> bool" where
  "same_totals st st' \<longleftrightarrow> totals st' = totals st"

interpretation counting: site_relation same_totals
  by unfold_locales (auto simp: same_totals_def totals_def set_site_signing_def)

lemma latency_totals:
  "mt_total (mm_metrics (foldl (\<lambda>m cap. manager_recordLatency C cap d m) mm caps)) = mt_total (mm_metrics mm) \<and>
   mt_succeeded (mm_metrics (foldl (\<lambda>m cap. manager_recordLatency C cap d m) mm caps)) = mt_succeeded (mm_metrics mm) \<and>
   mt_failed (mm_metrics (foldl (\<lambda>m cap. manager_recordLatency C cap d m) mm caps)) = mt_failed (mm_metrics mm)"
  by (induction caps arbitrary: mm) (simp_all add: manager_recordLatency_def recordCapabilityLatency_def Let_def)

lemma record_latencies_totals: "totals (record_latencies X n st) = totals st"
  using latency_totals by (simp add: totals_def record_latencies_def Let_def)

lemma totals_server [simp]: "totals (st\<lparr>si_server := sv\<rparr>) = totals st" "totals (st\<lparr>si_controls_file := f\<rparr>) = totals st"
   "totals (st\<lparr>si_policy_file := p\<rparr>) = totals st" "totals (st\<lparr>si_alert_file := a\<rparr>) = totals st"
  by (simp_all add: totals_def)

lemma control_step_totals: "route_keeps same_totals (control_step X c path code m change act)"
  by (auto simp: route_keeps_def same_totals_def control_step_def on_server_def persistRuntimeControls_def raise_def answer_def
      split: prod.split option.split dest!: site_event_frame)

lemma admin_totals: "route_keeps same_totals (handleAdminRoutes X c)"
proof -
  have "route_keeps same_totals (disable_agent X c)" "route_keeps same_totals (enable_agent X c)"
    "route_keeps same_totals (revoke_key X c)" "route_keeps same_totals (unrevoke_key X c)"
    unfolding disable_agent_def enable_agent_def revoke_key_def unrevoke_key_def Let_def
    by (intro counting.keeps_require counting.keeps_decoded control_step_totals)+
  then show ?thesis using admin_dispatch [of X c] counting.keeps_views by (auto simp: reachable_action_def)
qed

lemma policy_totals: "route_keeps same_totals (handlePolicyRoutes X c)"
proof -
  have s: "totals (fst (swap_policy X c v st)) = totals st" for v st
    by (auto simp: swap_policy_def Let_def on_server_def raise_def answer_def fail_with_def split: prod.split option.split dest!: site_event_frame)
  show ?thesis
    by (auto simp: route_keeps_def same_totals_def handlePolicyRoutes_def show_policy_def answer_def not_mine_def with_body_def raise_def Let_def s
        split: sum.split)
qed

lemma runtime_routes_totals: "route_keeps same_totals (cancel_route X c)" "route_keeps same_totals (mutation_route X c)"
proof -
  have l: "totals (fst (lift_gate g st)) = totals st" for g st by (simp add: totals_def lift_gate_rest)
  show "route_keeps same_totals (cancel_route X c)"
    by (simp add: route_keeps_def same_totals_def cancel_route_def l not_mine_def)
  have "totals (fst (case lift_gate g st of (st1, r) \<Rightarrow> (record_latencies X n st1, r))) = totals st" for g st n
    using l [of g st] record_latencies_totals by (cases "lift_gate g st") simp
  then show "route_keeps same_totals (mutation_route X c)"
    by (auto simp: route_keeps_def same_totals_def mutation_route_def with_body_def raise_def not_mine_def split: sum.split option.split)
qed

lemma read_frame: "same_runtime st (fst (handleReadRoutes X c st))"
  unfolding handleReadRoutes_def
  by (auto simp: reads_lists reads_alert_list reads_exports reads_metrics late_reads intro!: path_reads)

lemma all_routes_totals: "totals (fst (all_routes X c st)) = totals st"
proof -
  have "route_keeps same_totals (handleReadRoutes X c)"
    using read_frame [of _ X c] by (auto simp: route_keeps_def same_totals_def same_runtime_def)
  moreover have "route_keeps same_totals (slo_route c)"
    by (simp add: route_keeps_def same_totals_def slo_route_def show_slo_def answer_def not_mine_def)
  ultimately have "route_keeps same_totals (all_routes X c)" unfolding all_routes_def
    by (intro first_of_keeps counting.site_relation_axioms)
      (auto simp: same_totals_def admin_totals policy_totals runtime_routes_totals)
  then show ?thesis by (simp add: route_keeps_def same_totals_def)
qed

lemma count_totals: "totals (count_site_reply X agent r st) = (case totals st of (t, s, f) \<Rightarrow>
    (case r of Reply (ErrorReply a b c d) \<Rightarrow> (t + 1, s, f + 1) | Reply (ResultReply a b c) \<Rightarrow> (t + 1, s + 1, f)
       | Body a b c \<Rightarrow> (t + 1, s + 1, f) | _ \<Rightarrow> (t, s, f)))"
  by (simp add: count_site_reply_def count_reply_def totals_def manager_recordRequest_def recordRequest_def pruneRequestEvents_def Let_def
      split: site_reply.split http_reply.split option.split)

lemma save_after_totals: "totals (save_after X st) = totals st"
  by (simp add: save_after_def save_alerts_def save_metrics_def manager_persist_def persistMetricsState_def metrics_toJSON_def
      pruneRequestEvents_def totals_def Let_def split: prod.split)

lemma answers_counted:
  assumes "handle_request X c st = (st', r)" and "totals st = (t, s, f)"
  shows "totals st' = (case r of
      Some (Reply (ErrorReply a b m d)) \<Rightarrow> (t + 1, s, f + 1)
    | Some (Reply (ResultReply a b m)) \<Rightarrow> (t + 1, s + 1, f)
    | Some (Body a b m) \<Rightarrow> (t + 1, s + 1, f)
    | _ \<Rightarrow> (t, s, f))"
proof -
  define c1 where "c1 = with_request_id X c"
  obtain st1 a where r1: "all_routes X c1 st = (st1, a)" by (cases "all_routes X c1 st")
  have t1: "totals st1 = (t, s, f)" using all_routes_totals [of X c1 st] by (simp add: r1 assms(2))
  have caught: "totals st2 = (case q of None \<Rightarrow> (t, s, f) | Some _ \<Rightarrow> (t + 1, s, f + 1)) \<and> (\<forall>b. q = Some b \<longrightarrow> (\<exists>x y z w. b = Reply (ErrorReply x y z w)))"
    if "caught X c1 e st1 = (st2, q)" for e st2 q
  proof -
    have ev: "totals st3 = (t, s, f)" if "site_event X c1 code m p None None st1 = (st3, x)" for code m p st3 x
      using site_event_frame [OF that] t1 by auto
    show ?thesis using that t1
      by (auto simp: caught_def Let_def save_after_totals count_totals caught_reply_def split: if_splits option.splits prod.splits dest!: ev)
  qed
  show ?thesis
  proof (cases "missing_metadata c1")
    case True
    then show ?thesis using assms by (auto simp: handle_request_def c1_def [symmetric] count_totals metadata_reply_def)
  next
    case False
    then have h: "handle_request X c st = (case a of Inl e \<Rightarrow> caught X c1 e st1 | Inr None \<Rightarrow> (st1, None)
      | Inr (Some q) \<Rightarrow> (let st2 = count_site_reply X (tracked_agent X c1 q) q st1 in (if is_mutation c1 then save_after X st2 else st2, Some q)))"
      by (simp add: handle_request_def c1_def [symmetric] r1)
    show ?thesis
    proof (cases a)
      case (Inl e)
      then have "caught X c1 e st1 = (st', r)" using assms(1) h by simp
      from caught [OF this] show ?thesis by (cases r) auto
    next
      case (Inr o1)
      then show ?thesis using assms(1) h t1
        by (auto simp: count_totals save_after_totals Let_def split: option.splits site_reply.splits http_reply.splits)
    qed
  qed
qed


section \<open>Controls\<close>

lemma first_of_Cons: "first_of (f # fs) st = (if snd (f st) = Inr None then first_of fs (fst (f st)) else f st)"
  by (cases "f st") (auto split: sum.split option.split)

declare first_of.simps(2) [simp del]

lemma event_controls: "site_event X c code m p t a st = (st1, e) \<Longrightarrow> site_controls st1 = site_controls st"
  by (auto simp: site_controls_def dest: site_event_frame)

lemma policy_controls: "route_keeps same_controls (handlePolicyRoutes X c)"
proof -
  have s: "site_controls (fst (swap_policy X c v st)) = site_controls st" for v st
    by (auto simp: swap_policy_def Let_def on_server_def raise_def answer_def fail_with_def site_controls_def
        split: prod.split option.split dest!: site_event_frame)
  show ?thesis
    by (auto simp: route_keeps_def same_controls_def handlePolicyRoutes_def show_policy_def answer_def not_mine_def with_body_def raise_def Let_def s
        split: sum.split)
qed

lemma late_controls: "route_keeps same_controls (cancel_route X c)" "route_keeps same_controls (mutation_route X c)"
proof -
  have l: "site_controls (fst (lift_gate g st)) = site_controls st" if "gate_keeps g" for g st
    using lift_gate_controls [OF that] by (simp add: site_controls_server)
  show "route_keeps same_controls (cancel_route X c)"
    by (simp add: route_keeps_def same_controls_def cancel_route_def l cancel_keeps not_mine_def)
  have "site_controls (fst (case lift_gate g st of (st1, r) \<Rightarrow> (record_latencies X n st1, r))) = site_controls st" if "gate_keeps g" for g st n
    using l [OF that, of st] by (cases "lift_gate g st") (simp add: record_latencies_def site_controls_def)
  then show "route_keeps same_controls (mutation_route X c)"
    by (auto simp: route_keeps_def same_controls_def mutation_route_def with_body_def raise_def not_mine_def
        split: sum.split option.split dest!: mutation_keeps)
qed

lemma reading_server: "\<exists>sg. si_server (fst (first_of [slo_route c, handleReadRoutes X c] st)) = set_signing sg (si_server st)"
proof -
  have "same_runtime st (fst (slo_route c st))"
    by (simp add: slo_route_def show_slo_def answers_only)
  moreover have "route_keeps same_runtime (handleReadRoutes X c)" using read_frame by (simp add: route_keeps_def)
  ultimately have "same_runtime st (fst (first_of [slo_route c, handleReadRoutes X c] st))"
    using same_runtime_trans read_frame by (auto simp: first_of_Cons not_mine_def)
  then show ?thesis by (auto simp: same_runtime_def)
qed

lemma first_of_append: "first_of (fs @ gs) st = (if snd (first_of fs st) = Inr None then first_of gs (fst (first_of fs st)) else first_of fs st)"
  by (induction fs arbitrary: st) (simp_all add: first_of_Cons not_mine_def)

lemma after_controls:
  "site_controls (count_site_reply X a r st) = site_controls st" "site_controls (save_after X st) = site_controls st"
  by (auto simp: count_site_reply_def count_reply_def save_after_def save_alerts_def save_metrics_def site_controls_def
      split: site_reply.split http_reply.split prod.split)

lemma caught_controls: "caught X c e st = (st', r) \<Longrightarrow> site_controls st' = site_controls st"
  by (auto simp: caught_def Let_def after_controls split: if_splits option.splits prod.splits dest!: event_controls)

lemma handled_controls: "handle_request X c st = (st', r) \<Longrightarrow>
    site_controls st' \<in> {site_controls st, site_controls (fst (all_routes X (with_request_id X c) st))}"
  by (auto simp: handle_request_def Let_def after_controls split: if_splits prod.splits sum.splits option.splits dest: caught_controls)

lemma routes_controls:
  assumes "site_controls (fst (all_routes X c st)) \<noteq> site_controls st"
  shows "\<exists>sg. admin_proof X c (set_site_signing sg st)"
proof -
  define before where "before = [slo_route c, handleReadRoutes X c]"
  define after where "after = [handlePolicyRoutes X c, cancel_route X c, mutation_route X c, fail_with 404 ''not_found'' ''Route not found.'' False]"
  obtain sg where sg: "si_server (fst (first_of before st)) = set_signing sg (si_server st)" using reading_server before_def by blast
  define s where "s = fst (first_of before st)"
  have s: "site_controls s = site_controls st" by (simp add: s_def site_controls_server sg)
  have "route_keeps same_controls (first_of after)" unfolding after_def
    by (intro first_of_keeps controls.site_relation_axioms) (auto simp: same_controls_def policy_controls late_controls)
  then have post: "site_controls (fst (first_of after q)) = site_controls q" for q by (simp add: route_keeps_def same_controls_def)
  have "all_routes X c = first_of (before @ handleAdminRoutes X c # after)" by (simp add: all_routes_def before_def after_def)
  then have "site_controls (fst (handleAdminRoutes X c s)) \<noteq> site_controls s"
    using assms s post [of "fst (handleAdminRoutes X c s)"]
    by (auto simp: first_of_append first_of_Cons s_def split: if_splits)
  then have "admin_proof X c s" using admin_controls_gated [of X c s] by (metis prod.collapse)
  then have "admin_proof X c (set_site_signing sg st)"
    using sg by (simp add: admin_proof_def s_def set_site_signing_def)
  then show ?thesis by blast
qed


section \<open>The policy\<close>

lemma post_not_read:
  assumes "hq_method (hc_request c) = Some ''POST''" and "\<not> prefix ''/alerts/'' (read_url c)"
  shows "handleReadRoutes X c = not_mine"
proof -
  have g: "\<not> is_get c" using assms(1) by (simp add: is_get_def)
  have "\<not> request_between c ''POST'' ''/alerts/'' f" for f
    using assms(2) by (auto simp: request_between_def read_url_def split: option.splits)
  then show ?thesis
    by (simp add: handleReadRoutes_def get_exact_def get_query_def get_under_def by_path_def late_read_routes_def g)
qed

lemma other_not_admin:
  assumes "\<not> prefix ''/admin/'' (read_url c)"
  shows "handleAdminRoutes X c = not_mine"
proof -
  have "\<not> prefix (''/admin/'' @ p) (read_url c)" for p
    using assms append_prefixD by metis
  then have r: "\<not> request_between c m (''/admin/'' @ p) f" for m p f
    by (auto simp: request_between_def read_url_def simp del: append_Cons append_Nil split: option.splits)
  have "hq_url (hc_request c) \<noteq> Some ''/admin/anomalies''" using assms by (auto simp: read_url_def split: option.splits)
  then show ?thesis
    using r [of _ "''runtime-controls''"] r [of _ "''keys''"] r [of _ "''agents/''"] r [of _ "''keys/''"]
    by (simp add: handleAdminRoutes_def)
qed

definition site_app :: "site \<Rightarrow> orchestrator" where "site_app st = sv_app (si_server st)"

lemma event_app: "site_event X c code m p t a st = (st1, e) \<Longrightarrow> site_app st1 = site_app st"
  by (auto simp: site_app_def dest: site_event_frame)

lemma after_app: "site_app (count_site_reply X a r st) = site_app st" "site_app (save_after X st) = site_app st"
  by (auto simp: count_site_reply_def count_reply_def save_after_def save_alerts_def save_metrics_def site_app_def
      split: site_reply.split http_reply.split prod.split)

lemma caught_app: "caught X c e st = (st', r) \<Longrightarrow> site_app st' = site_app st"
  by (auto simp: caught_def Let_def after_app split: if_splits option.splits prod.splits dest!: event_app)

lemma handled_app:
  assumes "\<not> missing_metadata (with_request_id X c)"
  shows "site_app (fst (handle_request X c st)) = site_app (fst (all_routes X (with_request_id X c) st))"
proof (cases "all_routes X (with_request_id X c) st")
  case (Pair st1 a)
  then show ?thesis using assms
    by (cases "caught X (with_request_id X c) (projl a) st1")
      (auto simp: handle_request_def Let_def after_app split: sum.split option.split dest: caught_app)
qed

lemma with_id [simp]: "hc_request (with_request_id X c) = hc_request c" "read_url (with_request_id X c) = read_url c"
   "readJsonBody X (with_request_id X c) = readJsonBody X c"
  by (simp_all add: with_request_id_def read_url_def readJsonBody_def)

lemma not_slo: "hq_method (hc_request c) = Some ''POST'' \<Longrightarrow> slo_route c = not_mine"
  by (simp add: slo_route_def is_get_def)

lemma first_of_skip [simp]: "first_of (not_mine # fs) = first_of fs"
  by (rule ext) (simp add: first_of_Cons not_mine_def)

text \<open>Whoever reaches the server puts the policy in force: neither the headers nor the configuration matter.\<close>

theorem anyone_replaces_policy:
  assumes "hq_method (hc_request c) = Some ''POST''" and "hq_url (hc_request c) = Some ''/policy''"
    and "readJsonBody X c = Inr (policy_json p)" and "sendable p"
  shows "o_policy (site_app (fst (handle_request X c st))) = p \<and> ex_policy (o_executor (site_app (fst (handle_request X c st)))) = p"
proof -
  define c1 where "c1 = with_request_id X c"
  have c1: "hq_method (hc_request c1) = Some ''POST''" "hq_url (hc_request c1) = Some ''/policy''" "read_url c1 = ''/policy''"
    "readJsonBody X c1 = Inr (policy_json p)"
    using assms(1-3) by (simp_all add: c1_def read_url_def)
  have "handleReadRoutes X c1 = not_mine" by (rule post_not_read) (simp_all add: c1)
  moreover have "handleAdminRoutes X c1 = not_mine" by (rule other_not_admin) (simp add: c1)
  ultimately have a: "all_routes X c1 st = first_of (handlePolicyRoutes X c1 # [cancel_route X c1, mutation_route X c1,
       fail_with 404 ''not_found'' ''Route not found.'' False]) st"
    by (simp only: all_routes_def not_slo [OF c1(1)] first_of_skip)
  have h: "handlePolicyRoutes X c1 = swap_policy X c1 (policy_json p)"
    using c1 by (simp add: handlePolicyRoutes_def with_body_def)
  have "snd (swap_policy X c1 v st) \<noteq> Inr None" for v
    by (auto simp: swap_policy_def Let_def raise_def answer_def fail_with_def split: option.split prod.split)
  then have "fst (all_routes X c1 st) = fst (handlePolicyRoutes X c1 st)" by (simp add: a first_of_Cons h)
  then have "site_app (fst (handle_request X c st)) = site_app (fst (handlePolicyRoutes X c1 st))"
    using handled_app [of X c st] assms(1,2) by (simp add: c1_def missing_metadata_def)
  then show ?thesis using policy_open_to_all [OF c1(1,2,4) assms(4), of st] by (simp add: site_app_def)
qed

section \<open>Denials\<close>

text \<open>Each pattern has a letter before a space that a message naming a rule has not.\<close>

lemma no_pair:
  assumes "x \<noteq> CHR ''e''" and "x \<noteq> CHR '':''" and "CHR '' '' \<notin> set rule" and "x \<noteq> CHR '' ''"
  shows "\<not> str_includes (a @ x # CHR '' '' # b) (''Rule matched: '' @ rule)"
proof
  assume "str_includes (a @ x # CHR '' '' # b) (''Rule matched: '' @ rule)"
  moreover have "str_includes p s \<Longrightarrow> \<exists>u v. s = u @ p @ v" for p s
  proof (induction s)
    case Nil
    then show ?case by simp
  next
    case (Cons c s)
    then show ?case by (metis append_Cons append_Nil prefix_def str_includes.simps(2))
  qed
  ultimately obtain u v where "''Rule matched: '' @ rule = u @ (a @ x # CHR '' '' # b) @ v" by blast
  then have e: "''Rule matched: '' @ rule = (u @ a) @ x # CHR '' '' # (b @ v)" by simp
  have "x # [CHR '' ''] \<noteq> take 2 (drop n (''Rule matched: '' @ rule))" for n
  proof (cases "n < 13")
    case True
    then have "n \<in> {0, 1, 2, 3, 4, 5, 6, 7, 8, 9, 10, 11, 12}" by (simp; presburger)
    then show ?thesis using assms by auto
  next
    case False
    then have "set (drop n (''Rule matched: '' @ rule)) \<subseteq> insert (CHR '' '') (set rule)"
      by (auto dest: in_set_dropD simp: drop_Cons' split: if_splits)
    show ?thesis
    proof (cases "n = 13")
      case True
      then show ?thesis using assms(4) by simp
    next
      case nn: False
      then have "drop n (''Rule matched: '' @ rule) = drop (n - 14) rule" using False by (simp add: drop_Cons' eval_nat_numeral)
      then show ?thesis using assms(3) in_set_takeD in_set_dropD by (metis list.set_intros(1,2))
    qed
  qed
  moreover have "take 2 (drop (length (u @ a)) (''Rule matched: '' @ rule)) = [x, CHR '' '']" unfolding e by simp
  ultimately show False by metis
qed

fun odd_pair :: "string \<Rightarrow> bool" where
  "odd_pair (x # y # s) = ((y = CHR '' '' \<and> x \<noteq> CHR ''e'' \<and> x \<noteq> CHR '':'' \<and> x \<noteq> CHR '' '') \<or> odd_pair (y # s))"
| "odd_pair _ = False"

lemma odd_pair: "odd_pair p \<Longrightarrow> \<exists>a x b. p = a @ x # CHR '' '' # b \<and> x \<noteq> CHR ''e'' \<and> x \<noteq> CHR '':'' \<and> x \<noteq> CHR '' ''"
proof (induction p rule: odd_pair.induct)
  case (1 x y s)
  then show ?case by (metis append_Cons append_Nil odd_pair.simps(1))
qed simp_all

lemma patterns_odd: "list_all (\<lambda>(ps, _). list_all odd_pair ps) ERROR_CODE_PATTERNS"
  by code_simp

lemma rule_denial_code:
  assumes "CHR '' '' \<notin> set rule"
  shows "classifyErrorCode (''Rule matched: '' @ rule) = ''request_failed''"
proof -
  have "\<not> str_includes p (''Rule matched: '' @ rule)" if "(ps, code) \<in> set ERROR_CODE_PATTERNS" "p \<in> set ps" for ps code p
  proof -
    have "\<exists>a x b. p = a @ x # CHR '' '' # b \<and> x \<noteq> CHR ''e'' \<and> x \<noteq> CHR '':'' \<and> x \<noteq> CHR '' ''"
      by (rule odd_pair) (use that patterns_odd in \<open>auto simp: list_all_iff\<close>)
    then show ?thesis using no_pair assms by metis
  qed
  then have "find (\<lambda>(ps, _). list_ex (\<lambda>p. str_includes p (''Rule matched: '' @ rule)) ps) ERROR_CODE_PATTERNS = None"
    by (auto simp: find_None_iff list_ex_iff)
  then show ?thesis by (simp add: classifyErrorCode_def)
qed


text \<open>A denied dispatch is no refusal to the outside: it is answered as a failure of the server that may be tried again, and
  the audit log has no trace of it. The code looks for words that the messages of the policy engine do not have.\<close>

theorem policy_denials_unaudited:
  assumes "hq_method (hc_request c) = Some ''POST''" and "hq_url (hc_request c) = Some ''/dispatch''"
    and "readJsonBody X c = Inr v" and "vw_dispatch (xw_server X) v = Some p"
    and "handle_dispatch (xw_server X) ((with_request_id X c)\<lparr>hc_parsed := v\<rparr>) (si_server st) = (sv, Inl (RuntimeThrew (DeniedByPolicy reason)))"
    and "reason = ''Default deny - no rules matched'' \<or> (\<exists>rule. reason = ''Rule matched: '' @ rule \<and> CHR '' '' \<notin> set rule)"
  shows "snd (handle_request X c st) = Some (Reply (ErrorReply 400 ''request_failed'' ''The requested operation could not be completed.'' True)) \<and>
    sv_audit (si_server (fst (handle_request X c st))) = sv_audit sv"
proof -
  define c1 where "c1 = with_request_id X c"
  have c1: "hq_method (hc_request c1) = Some ''POST''" "hq_url (hc_request c1) = Some ''/dispatch''" "read_url c1 = ''/dispatch''"
    "readJsonBody X c1 = Inr v" "is_mutation c1"
    using assms(1-3) by (simp_all add: c1_def read_url_def is_mutation_def)
  have "handleReadRoutes X c1 = not_mine" by (rule post_not_read) (simp_all add: c1)
  moreover have "handleAdminRoutes X c1 = not_mine" by (rule other_not_admin) (simp add: c1)
  moreover have "handlePolicyRoutes X c1 = not_mine" by (simp add: handlePolicyRoutes_def c1)
  moreover have "cancel_route X c1 = not_mine" by (simp add: cancel_route_def request_between_def c1)
  ultimately have a: "all_routes X c1 = first_of [mutation_route X c1, fail_with 404 ''not_found'' ''Route not found.'' False]"
    by (simp only: all_routes_def not_slo [OF c1(1)] first_of_skip)
  define st1 where "st1 = record_latencies X (length (sv_latencies (si_server st))) (st\<lparr>si_server := sv\<rparr>)"
  have g: "handleMutationRoutes (xw_server X) (c1\<lparr>hc_parsed := v\<rparr>) = Some (handle_dispatch (xw_server X) (c1\<lparr>hc_parsed := v\<rparr>))"
    by (simp add: handleMutationRoutes_def c1)
  have "mutation_route X c1 st = (st1, Inl (RouteThrew (RuntimeThrew (DeniedByPolicy reason))))"
    using assms(5) by (simp add: mutation_route_def c1 with_body_def g lift_gate_def st1_def c1_def [symmetric])
  then have r: "all_routes X c1 st = (st1, Inl (RouteThrew (RuntimeThrew (DeniedByPolicy reason))))"
    by (simp add: a first_of_Cons)
  have "request_payload X c1 = Some (dq_capability p, dq_envelope p)" by (simp add: request_payload_def c1 assms(4))
  then have t: "error_text X c1 st1 (RouteThrew (RuntimeThrew (DeniedByPolicy reason))) = reason"
    by (simp add: error_text_def runtime_message_def Let_def)
  have "classifyErrorCode ''Default deny - no rules matched'' = ''request_failed''" by code_simp
  then have k: "classifyErrorCode reason = ''request_failed''" using assms(6) rule_denial_code by blast
  define b where "b = caught_reply ''request_failed''"
  have "caught X c1 (RouteThrew (RuntimeThrew (DeniedByPolicy reason))) st1 = (save_after X (count_site_reply X None b st1), Some b)"
    by (simp add: caught_def t k b_def Let_def)
  moreover have "\<not> missing_metadata c1" using c1 by (simp add: missing_metadata_def)
  ultimately have h: "handle_request X c st = (save_after X (count_site_reply X None b st1), Some b)"
    by (simp add: handle_request_def c1_def [symmetric] r)
  have "si_server (save_after X (count_site_reply X None b st1)) = sv"
    by (auto simp: count_site_reply_def count_reply_def save_after_def save_alerts_def save_metrics_def b_def caught_reply_def st1_def record_latencies_def
        split: prod.split)
  then show ?thesis by (simp add: h b_def caught_reply_def error_status_def)
qed

section \<open>Streams of one tenant\<close>

theorem tenant_stream_is_missing:
  assumes "is_get c" and "hq_url (hc_request c) = Some (''/tasks/'' @ tid @ ''/stream?'' @ query)"
    and "site_pathname X (''/tasks/'' @ tid @ ''/stream?'' @ query) = Some (''/tasks/'' @ tid @ ''/stream'')"
  shows "snd (handle_request X c st) = Some (Reply (ErrorReply 404 ''not_found'' ''Route not found.'' False))"
proof -
  define c1 where "c1 = with_request_id X c"
  define u where "u = ''/tasks/'' @ tid @ ''/stream?'' @ query"
  have c1: "is_get c1" "hq_url (hc_request c1) = Some u" "read_url c1 = u"
    using assms(1,2) by (simp_all add: c1_def is_get_def read_url_def u_def)
  have m: "hq_method (hc_request c1) = Some ''GET''" using c1(1) by (simp add: is_get_def)
  have p: "prefix ''/tasks/'' u" by (simp add: u_def)
  have "handleReadRoutes X c1 = not_mine"
    using assms(3) by (intro tenant_stream_not_found [where tid = tid and query = query]) (simp_all only: c1 u_def)
  moreover have "handleAdminRoutes X c1 = not_mine" by (rule other_not_admin) (simp add: c1 u_def)
  moreover have "handlePolicyRoutes X c1 = not_mine" "slo_route c1 = not_mine" using c1(2) by (simp_all add: handlePolicyRoutes_def slo_route_def u_def)
  moreover have "cancel_route X c1 = not_mine" "mutation_route X c1 = not_mine"
    by (simp_all add: cancel_route_def request_between_def mutation_route_def is_mutation_def m)
  ultimately have a: "all_routes X c1 st = (st, Inr (Some (Reply (ErrorReply 404 ''not_found'' ''Route not found.'' False))))"
    by (simp only: all_routes_def first_of_skip) (simp add: first_of_Cons fail_with_def answer_def)
  have "\<not> missing_metadata c1" using c1(2) m by (simp add: missing_metadata_def u_def)
  moreover have "\<not> is_mutation c1" by (simp add: is_mutation_def m)
  ultimately show ?thesis by (simp add: handle_request_def c1_def [symmetric] a)
qed

end
