(* ===== verification/ServerConfig.thy ===== *)
theory ServerConfig
  imports SigningUsage JsNumber
begin

text \<open>
  \<open>server/config.ts\<close>: the options \<open>server-main.ts\<close> starts the server with, from the
  environment.
\<close>

record server_options =
  so_port :: jsnum
  so_profile :: profile
  so_task_store_path :: string
  so_task_db_path :: "string option"
  so_receipt_store_path :: string
  so_receipt_db_path :: "string option"
  so_dead_letter_path :: string
  so_require_tenant :: bool
  so_max_attempts :: jsnum
  so_retry_delay_ms :: jsnum
  so_max_retry_delay_ms :: jsnum
  so_retry_jitter_ratio :: jsnum
  so_max_concurrent :: jsnum
  so_max_concurrent_per_tenant :: "jsnum option"
  so_max_queue_depth :: jsnum
  so_max_dead_letters :: jsnum
  so_health_dead_letters :: "jsnum option"
  so_health_dead_letter_age :: "jsnum option"
  so_failure_rate :: "jsnum option"
  so_metrics_path :: string
  so_rate_window_ms :: "jsnum option"
  so_rate_max :: "jsnum option"
  so_rate_max_per_tenant :: "jsnum option"
  so_audit_path :: string
  so_alert_path :: string
  so_control_path :: string
  so_audit_max_events :: "jsnum option"
  so_audit_checkpoint_interval :: "jsnum option"
  so_retiring_ratio :: "jsnum option"
  so_unknown_ratio :: "jsnum option"
  so_policy_path :: "string option"
  so_approval_webhook :: "string option"
  so_base_url :: "string option"
  so_enforce_signed :: "bool option"
  so_enforce_bearer :: "bool option"

definition parseOptionalNumber :: "string option \<Rightarrow> jsnum option" where
  "parseOptionalNumber v = map_option js_number v"

definition env_or :: "string option \<Rightarrow> string \<Rightarrow> string" where
  "env_or v d = (case v of None \<Rightarrow> d | Some s \<Rightarrow> s)"

definition env_number :: "string option \<Rightarrow> rat \<Rightarrow> jsnum" where
  "env_number v d = (case v of None \<Rightarrow> Fin d | Some s \<Rightarrow> js_number s)"

text \<open>The last two members are not set.\<close>

definition resolveServerOptionsFromEnv :: "(string \<Rightarrow> string option) \<Rightarrow> server_options" where
  "resolveServerOptionsFromEnv env =
     \<lparr>so_port = env_number (env ''PORT'') 8787,
      so_profile = (if env ''MAP_DEPLOYMENT_PROFILE'' = Some ''regulated'' then Regulated
        else if env ''MAP_DEPLOYMENT_PROFILE'' = Some ''verified'' then Verified else Open),
      so_task_store_path = env_or (env ''MAP_TASK_STORE_PATH'') ''.local/map/task-store.json'',
      so_task_db_path = env ''MAP_TASK_DB_PATH'',
      so_receipt_store_path = env_or (env ''MAP_RECEIPT_STORE_PATH'') ''.local/map/receipts.json'',
      so_receipt_db_path = env ''MAP_RECEIPT_DB_PATH'',
      so_dead_letter_path = env_or (env ''MAP_DEAD_LETTER_STORE_PATH'') ''.local/map/dead-letters.json'',
      so_require_tenant = (env ''MAP_REQUIRE_TENANT'' = Some ''true''),
      so_max_attempts = env_number (env ''MAP_ASYNC_MAX_ATTEMPTS'') 3,
      so_retry_delay_ms = env_number (env ''MAP_ASYNC_RETRY_DELAY_MS'') 50,
      so_max_retry_delay_ms = env_number (env ''MAP_ASYNC_MAX_RETRY_DELAY_MS'') 5000,
      so_retry_jitter_ratio = env_number (env ''MAP_ASYNC_RETRY_JITTER_RATIO'') (1 / 5),
      so_max_concurrent = env_number (env ''MAP_ASYNC_MAX_CONCURRENT'') 4,
      so_max_concurrent_per_tenant = parseOptionalNumber (env ''MAP_ASYNC_MAX_CONCURRENT_PER_TENANT''),
      so_max_queue_depth = env_number (env ''MAP_ASYNC_MAX_QUEUE_DEPTH'') 1000,
      so_max_dead_letters = env_number (env ''MAP_ASYNC_MAX_DEAD_LETTERS'') 500,
      so_health_dead_letters = parseOptionalNumber (env ''MAP_HEALTH_MAX_DEAD_LETTERS''),
      so_health_dead_letter_age = parseOptionalNumber (env ''MAP_HEALTH_MAX_OLDEST_DL_AGE_MS''),
      so_failure_rate = parseOptionalNumber (env ''MAP_METRICS_FAILURE_RATE_THRESHOLD''),
      so_metrics_path = env_or (env ''MAP_METRICS_STORE_PATH'') ''.local/map/metrics.json'',
      so_rate_window_ms = parseOptionalNumber (env ''MAP_RATE_LIMIT_WINDOW_MS''),
      so_rate_max = parseOptionalNumber (env ''MAP_RATE_LIMIT_MAX_REQUESTS''),
      so_rate_max_per_tenant = parseOptionalNumber (env ''MAP_RATE_LIMIT_MAX_REQUESTS_PER_TENANT''),
      so_audit_path = env_or (env ''MAP_AUDIT_STORE_PATH'') ''.local/map/audit-events.json'',
      so_alert_path = env_or (env ''MAP_ALERT_STORE_PATH'') ''.local/map/alerts.json'',
      so_control_path = env_or (env ''MAP_RUNTIME_CONTROL_STORE_PATH'') ''.local/map/runtime-controls.json'',
      so_audit_max_events = parseOptionalNumber (env ''MAP_AUDIT_MAX_EVENTS''),
      so_audit_checkpoint_interval = parseOptionalNumber (env ''MAP_AUDIT_CHECKPOINT_INTERVAL''),
      so_retiring_ratio = parseOptionalNumber (env ''MAP_SIGNING_RETIRING_KEY_CRITICAL_RATIO''),
      so_unknown_ratio = parseOptionalNumber (env ''MAP_SIGNING_UNKNOWN_KEY_CRITICAL_RATIO''),
      so_policy_path = env ''MAP_POLICY_PATH'',
      so_approval_webhook = env ''MAP_APPROVAL_WEBHOOK_URL'',
      so_base_url = env ''MAP_SERVER_BASE_URL'',
      so_enforce_signed = None, so_enforce_bearer = None\<rparr>"

text \<open>A server started by \<open>server-main.ts\<close> with the verified or the regulated profile does not comply with it, whatever
  its keys: the option that enforces signed requests cannot be set from the environment.\<close>

theorem env_profile_never_compliant:
  assumes "opts = resolveServerOptionsFromEnv env" and "env ''MAP_DEPLOYMENT_PROFILE'' \<in> {Some ''verified'', Some ''regulated''}"
    and "evaluateDeploymentProfile W jwk (so_profile opts) (so_enforce_signed opts) (Some (so_require_tenant opts)) revoked = Inr pe"
  shows "\<not> pe_compliant pe \<and> ''signed_requests_not_enforced'' \<in> set (pe_violations pe)"
proof -
  have p: "so_profile opts = Verified \<or> so_profile opts = Regulated" "so_enforce_signed opts = None"
    using assms(1,2) by (auto simp: resolveServerOptionsFromEnv_def)
  then have v: "''signed_requests_not_enforced'' \<in> set (profile_violations (so_profile opts) (so_enforce_signed opts) t keys active)" for t keys active
    by (auto simp: profile_violations_def Let_def)
  obtain keys where "pe_violations pe = profile_violations (so_profile opts) (so_enforce_signed opts) (Some (so_require_tenant opts)) keys (getActiveSignatureKeyId W)"
    and c: "pe_compliant pe = (pe_violations pe = [])"
    using assms(3) by (auto simp: evaluateDeploymentProfile_def Let_def split: sum.splits)
  then have "''signed_requests_not_enforced'' \<in> set (pe_violations pe)" using v by metis
  then show ?thesis using c by auto
qed

end
