(* ===== verification/DbReadAdapter.thy ===== *)
theory DbReadAdapter
  imports Bridge ProtocolJson
begin

text \<open>
  \<open>adapters/db-read-adapter.ts\<close>: which queries the adapter accepts, what it asks the
  database, and what it shows of the rows. The database is a parameter: a function of
  the text and the parameters it is sent. The patterns of the code are defined here, so
  no engine for regular expressions is needed.
\<close>

section \<open>Patterns\<close>

text \<open>\<open>/\bWORD\b/i\<close>; the flag tells whether the character before is one of a word.\<close>

fun word_from :: "string \<Rightarrow> bool \<Rightarrow> string \<Rightarrow> bool" where
  "word_from w inside [] = False"
| "word_from w inside (c # s) =
     ((\<not> inside \<and> prefix w (str_upper (c # s)) \<and>
        (case drop (length w) (c # s) of [] \<Rightarrow> True | d # _ \<Rightarrow> \<not> word_char d))
      \<or> word_from w (word_char c) s)"

definition has_word :: "string \<Rightarrow> string \<Rightarrow> bool" where
  "has_word w s \<longleftrightarrow> word_from w False s"

text \<open>\<open>/;.*\S/\<close>: the dot stops at the end of a line.\<close>

definition line_end :: "char \<Rightarrow> bool" where
  "line_end c \<longleftrightarrow> c = CHR 0x0A \<or> c = CHR 0x0D"

fun second_statement :: "string \<Rightarrow> bool" where
  "second_statement [] = False"
| "second_statement (c # s) =
     ((c = CHR '';'' \<and> list_ex (\<lambda>d. \<not> is_ws d) (takeWhile (\<lambda>d. \<not> line_end d) s)) \<or> second_statement s)"

definition BLOCKED_WORDS :: "string list" where
  "BLOCKED_WORDS = [''INSERT'', ''UPDATE'', ''DELETE'', ''DROP'', ''TRUNCATE'', ''ALTER'', ''CREATE'', ''GRANT'', ''REVOKE'',
     ''EXEC'', ''EXECUTE'']"

definition blocked_sql :: "string \<Rightarrow> bool" where
  "blocked_sql q \<longleftrightarrow> list_ex (\<lambda>w. has_word w q) BLOCKED_WORDS \<or> str_includes ''--'' q \<or> second_statement q"

section \<open>The adapter\<close>

datatype db_mode = ModeSummary | ModeStructured | ModeCountOnly

record db_adapter =
  db_connection :: "string option"
  db_max_rows :: int
  db_default_mode :: db_mode
  db_always_redact :: "string list"

definition default_redact :: "string list" where
  "default_redact = [''password'', ''password_hash'', ''secret'', ''token'', ''api_key'', ''ssn'', ''credit_card'', ''card_number'']"

text \<open>\<open>options.connectionString ?? process.env.MAP_DB_CONNECTION_STRING\<close> and the other defaults.\<close>

definition new_db_adapter :: "string option \<Rightarrow> string option \<Rightarrow> int option \<Rightarrow> db_mode option \<Rightarrow> string list option \<Rightarrow> db_adapter" where
  "new_db_adapter connection env_connection rows mode redact =
     \<lparr>db_connection = (case connection of Some s \<Rightarrow> Some s | None \<Rightarrow> env_connection),
      db_max_rows = (case rows of Some n \<Rightarrow> n | None \<Rightarrow> 1000),
      db_default_mode = (case mode of Some m \<Rightarrow> m | None \<Rightarrow> ModeStructured),
      db_always_redact = map str_lower (case redact of Some fs \<Rightarrow> fs | None \<Rightarrow> default_redact)\<rparr>"

text \<open>\<open>!connectionString\<close>\<close>

definition simulates :: "db_adapter \<Rightarrow> bool" where
  "simulates A \<longleftrightarrow> db_connection A = None \<or> db_connection A = Some []"

definition query_errors :: "jsval \<Rightarrow> (string \<times> string) list" where
  "query_errors v =
     (case nonblank_str v of
        None \<Rightarrow> [(''query'', ''query is required and must be a non-empty string.'')]
      | Some s \<Rightarrow>
          (let q = str_trim s in
           (if blocked_sql q then [(''query'', ''Only SELECT queries are allowed. Write operations are blocked.'')] else [])
           @ (if prefix ''SELECT'' (str_upper q) \<or> prefix ''WITH'' (str_upper q) then []
              else [(''query'', ''Query must start with SELECT or WITH.'')])))"

definition limit_errors :: "int \<Rightarrow> jsval \<Rightarrow> (string \<times> string) list" where
  "limit_errors most v =
     (case v of
        JUndef \<Rightarrow> []
      | JNum (Fin x) \<Rightarrow>
          if x \<le> 0 \<or> of_int \<lfloor>x\<rfloor> \<noteq> x then [(''limit'', ''limit must be a positive integer.'')]
          else if x > of_int most then [(''limit'', ''limit cannot exceed '' @ int_str most @ ''.'')]
          else []
      | _ \<Rightarrow> [(''limit'', ''limit must be a positive integer.'')])"

definition mode_of :: "jsval \<Rightarrow> db_mode option" where
  "mode_of v = (if v = JStr ''summary'' then Some ModeSummary else if v = JStr ''structured'' then Some ModeStructured
     else if v = JStr ''count_only'' then Some ModeCountOnly else None)"

definition db_errors :: "db_adapter \<Rightarrow> (string \<times> jsval) list \<Rightarrow> (string \<times> string) list" where
  "db_errors A inp =
     query_errors (obj_get inp ''query'')
     @ (case obj_get inp ''params'' of JUndef \<Rightarrow> [] | JArr _ \<Rightarrow> [] | _ \<Rightarrow> [(''params'', ''params must be an array.'')])
     @ limit_errors (db_max_rows A) (obj_get inp ''limit'')
     @ (if obj_get inp ''output_mode'' \<noteq> JUndef \<and> mode_of (obj_get inp ''output_mode'') = None
        then [(''output_mode'', ''output_mode must be \"summary\", \"structured\", or \"count_only\".'')] else [])"

definition db_validate :: "db_adapter \<Rightarrow> (string \<times> jsval) list \<Rightarrow> validation_result" where
  "db_validate A inp = \<lparr>vr_valid = (db_errors A inp = []), vr_errors = db_errors A inp\<rparr>"

section \<open>Execution\<close>

type_synonym db_row = "(string \<times> jsval) list"

record db_world =
  dw_now :: ms
  dw_elapsed :: int
  dw_random :: nat
  dw_query :: "string \<Rightarrow> jsval list \<Rightarrow> string + (db_row list \<times> nat option)"

text \<open>What \<open>execute\<close> reads from an input that was accepted (a limit is then a positive whole number). The fields to
  redact are not checked before: anything but strings in a list throws here.\<close>

definition row_limit :: "db_adapter \<Rightarrow> (string \<times> jsval) list \<Rightarrow> int" where
  "row_limit A inp = min (case obj_get inp ''limit'' of JNum (Fin x) \<Rightarrow> \<lfloor>x\<rfloor> | _ \<Rightarrow> 100) (db_max_rows A)"

definition query_params :: "(string \<times> jsval) list \<Rightarrow> jsval list" where
  "query_params inp = (case obj_get inp ''params'' of JArr xs \<Rightarrow> xs | _ \<Rightarrow> [])"

fun all_strings :: "jsval list \<Rightarrow> string list option" where
  "all_strings [] = Some []"
| "all_strings (JStr s # xs) = map_option (Cons s) (all_strings xs)"
| "all_strings _ = None"

definition redact_fields :: "db_adapter \<Rightarrow> (string \<times> jsval) list \<Rightarrow> string list option" where
  "redact_fields A inp =
     (if nullish (obj_get inp ''redact_fields'') then Some (db_always_redact A)
      else (case obj_get inp ''redact_fields'' of
              JArr xs \<Rightarrow> map_option (\<lambda>fs. db_always_redact A @ map str_lower fs) (all_strings xs)
            | _ \<Rightarrow> None))"

definition redactRow :: "string list \<Rightarrow> db_row \<Rightarrow> db_row" where
  "redactRow fs row = map (\<lambda>(k, v). (k, if str_lower k \<in> set fs then JStr ''[REDACTED]'' else v)) row"

text \<open>\<open>/FROM\s+["']?(\w+)["']?/i\<close>\<close>

definition table_after :: "string \<Rightarrow> string option" where
  "table_after s =
     (let t = dropWhile is_ws s; u = (case t of c # r \<Rightarrow> if c = CHR 0x22 \<or> c = CHR 0x27 then r else t | [] \<Rightarrow> []);
          w = takeWhile word_char u
      in if s = t \<or> w = [] then None else Some w)"

fun table_from :: "string \<Rightarrow> string option" where
  "table_from [] = None"
| "table_from (c # s) =
     (case (if prefix ''FROM'' (str_upper (c # s)) then table_after (drop 3 s) else None) of
        Some t \<Rightarrow> Some t | None \<Rightarrow> table_from s)"

definition extractTableName :: "string \<Rightarrow> string" where
  "extractTableName q = (case table_from q of None \<Rightarrow> ''record'' | Some t \<Rightarrow> t)"

definition simulated_row :: "db_world \<Rightarrow> string \<Rightarrow> nat \<Rightarrow> db_row" where
  "simulated_row W table i =
     [(''id'', jint (int i + 1)), (table @ ''_name'', JStr (table @ ''_record_'' @ nat_str (i + 1))),
      (''created_at'', JStr (toISOString (dw_now W - int i * 86400000))),
      (''status'', JStr ([''active'', ''pending'', ''completed''] ! (i mod 3)))]"

definition simulateQuery :: "db_world \<Rightarrow> string \<Rightarrow> int \<Rightarrow> db_row list \<times> nat" where
  "simulateQuery W q limit =
     (let count = nat (min (int (dw_random W mod 10) + 1) limit) in
      (map (simulated_row W (extractTableName q)) [0..<count], count))"

definition limited_query :: "string \<Rightarrow> int \<Rightarrow> string" where
  "limited_query q limit = (if has_word ''LIMIT'' q then q else q @ '' LIMIT '' @ int_str limit)"

definition executeQuery :: "db_world \<Rightarrow> string \<Rightarrow> jsval list \<Rightarrow> int \<Rightarrow> string + (db_row list \<times> nat)" where
  "executeQuery W q params limit =
     (case dw_query W (limited_query q limit) params of
        Inl e \<Rightarrow> Inl e
      | Inr (rows, n) \<Rightarrow> Inr (rows, case n of Some k \<Rightarrow> k | None \<Rightarrow> length rows))"

definition db_output :: "db_adapter \<Rightarrow> db_mode \<Rightarrow> db_row list \<Rightarrow> nat \<Rightarrow> int \<Rightarrow> (string \<times> jsval) list" where
  "db_output A mode rows count elapsed =
     (case mode of
        ModeCountOnly \<Rightarrow> [(''count'', jint (int count)), (''duration_ms'', jint elapsed), (''simulated'', JBool (simulates A))]
      | ModeSummary \<Rightarrow>
          [(''count'', jint (int count)),
           (''columns'', JArr (case rows of [] \<Rightarrow> [] | r # _ \<Rightarrow> map (\<lambda>(k, _). JStr k) r)),
           (''sample'', JArr (map JObj (take 3 rows))), (''duration_ms'', jint elapsed), (''simulated'', JBool (simulates A))]
      | ModeStructured \<Rightarrow>
          [(''count'', jint (int count)), (''rows'', JArr (map JObj rows)), (''duration_ms'', jint elapsed),
           (''simulated'', JBool (simulates A))])"

definition input_query :: "(string \<times> jsval) list \<Rightarrow> string" where
  "input_query inp = (case obj_get inp ''query'' of JStr s \<Rightarrow> str_trim s | _ \<Rightarrow> [])"

definition db_execute :: "db_adapter \<Rightarrow> db_world \<Rightarrow> (string \<times> jsval) list \<Rightarrow> exec_context \<Rightarrow> string + execution_result" where
  "db_execute A W inp ctx =
     (let q = input_query inp; limit = row_limit A inp;
          mode = (case mode_of (obj_get inp ''output_mode'') of Some m \<Rightarrow> m | None \<Rightarrow> db_default_mode A)
      in case redact_fields A inp of
           None \<Rightarrow> Inl ''TypeError''
         | Some fs \<Rightarrow>
             (case (if simulates A then Inr (simulateQuery W q limit) else executeQuery W q (query_params inp) limit) of
                Inl e \<Rightarrow> Inl e
              | Inr (rows, n) \<Rightarrow>
                  Inr \<lparr>er_intent_id = xc_intent_id ctx, er_capability = ''db.read'', er_status = Ok,
                       er_output = db_output A mode (map (redactRow fs) rows) n (dw_elapsed W),
                       er_summary = ''Query returned '' @ nat_str n @ '' row'' @ (if n \<noteq> 1 then ''s'' else []) @ '' in ''
                         @ int_str (dw_elapsed W) @ ''ms''\<rparr>))"

definition db_read_adapter :: "db_adapter \<Rightarrow> db_world \<Rightarrow> adapter" where
  "db_read_adapter A W = \<lparr>xa_validate = db_validate A, xa_execute = db_execute A W\<rparr>"


section \<open>Words of a query\<close>

lemma prefix_stops: "c \<notin> set w \<Longrightarrow> prefix w (x @ c # y) = prefix w x"
  by (auto simp: prefix_append prefix_Cons dest: set_mono_prefix)

lemma str_upper_append [simp]: "str_upper (x @ y) = str_upper x @ str_upper y"
  by (simp add: str_upper_def)

lemma str_upper_Cons [simp]: "str_upper (c # y) = char_upper c # str_upper y"
  by (simp add: str_upper_def)

lemma str_upper_Nil [simp]: "str_upper [] = []"
  by (simp add: str_upper_def)

lemma length_str_upper [simp]: "length (str_upper s) = length s"
  by (simp add: str_upper_def)

text \<open>A character that belongs to no word splits the search.\<close>

lemma word_from_split:
  assumes "\<not> word_char c" and "char_upper c \<notin> set w" and "w \<noteq> []"
  shows "word_from w b (x @ c # y) = (word_from w b x \<or> word_from w False y)"
proof (induction x arbitrary: b)
  case Nil
  have "\<not> prefix w (char_upper c # str_upper y)" using assms(2,3) by (cases w) auto
  then show ?case using assms(1) by simp
next
  case (Cons d x)
  have p: "prefix w (str_upper ((d # x) @ c # y)) = prefix w (str_upper (d # x))"
    using prefix_stops [OF assms(2), of "str_upper (d # x)" "str_upper y"] by simp
  have "(case drop (length w) ((d # x) @ c # y) of [] \<Rightarrow> True | e # _ \<Rightarrow> \<not> word_char e) =
      (case drop (length w) (d # x) of [] \<Rightarrow> True | e # _ \<Rightarrow> \<not> word_char e)"
    if "prefix w (str_upper (d # x))"
    using prefix_length_le [OF that] assms(1) by (cases "drop (length w) (d # x)") (auto simp: drop_Cons' not_less_eq_eq)
  then show ?case using p Cons.IH by auto
qed

lemma word_from_inside: "list_all word_char t \<Longrightarrow> \<not> word_from w True t"
  by (induction t) auto

lemma word_from_word: "list_all word_char t \<Longrightarrow> w \<noteq> [] \<Longrightarrow> word_from w False t = (str_upper t = w)"
proof (cases t)
  case (Cons c s)
  assume t: "list_all word_char t" and w: "w \<noteq> []"
  have "\<not> word_from w True s" using t Cons by (intro word_from_inside) simp
  moreover have "(prefix w (str_upper t) \<and> (case drop (length w) t of [] \<Rightarrow> True | d # _ \<Rightarrow> \<not> word_char d)) = (str_upper t = w)"
  proof
    assume a: "prefix w (str_upper t) \<and> (case drop (length w) t of [] \<Rightarrow> True | d # _ \<Rightarrow> \<not> word_char d)"
    have "drop (length w) t = []"
    proof (cases "drop (length w) t")
      case (Cons d r)
      then have "d \<in> set t" by (metis in_set_dropD list.set_intros(1))
      then show ?thesis using a t Cons by (simp add: list_all_iff)
    qed
    then have "length t \<le> length w" by simp
    then show "str_upper t = w" using a by (metis length_str_upper prefix_length_prefix prefix_order.antisym prefix_order.refl)
  qed auto
  ultimately show ?thesis using t Cons by simp
qed simp

lemma digit_word_char: "48 \<le> (of_char c :: nat) \<Longrightarrow> (of_char c :: nat) \<le> 57 \<Longrightarrow> word_char c \<and> char_upper c = c"
  by (simp add: word_char_def char_upper_def)

lemma digits_are_word:
  assumes "0 \<le> n"
  shows "list_all word_char (int_str n)" "str_upper (int_str n) = int_str n"
  using assms nat_str_digits digit_word_char by (auto simp: int_str_def list_all_iff str_upper_def intro!: map_idI)

text \<open>No blocked word begins with a digit or is \<open>LIMIT\<close>.\<close>

lemma limit_is_no_blocked_word:
  assumes "w \<in> set BLOCKED_WORDS" and "0 \<le> n"
  shows "has_word w (q @ '' LIMIT '' @ int_str n) = has_word w q"
proof -
  have w: "CHR '' '' \<notin> set w" "w \<noteq> []" "str_upper ''LIMIT'' \<noteq> w" "\<not> (48 \<le> (of_char (hd w) :: nat) \<and> (of_char (hd w) :: nat) \<le> 57)"
    using assms(1) by (auto simp: BLOCKED_WORDS_def char_upper_def)
  have sp: "\<not> word_char CHR '' ''" "char_upper CHR '' '' \<notin> set w" using w(1) by (auto simp: word_char_def char_upper_def)
  have "int_str n \<noteq> w"
    using assms(2) nat_str_digits [of "hd w" "nat n"] w(2,4) by (auto simp: int_str_def)
  then have "\<not> word_from w False (int_str n)" using digits_are_word [OF assms(2)] word_from_word w(2) by metis
  moreover have "\<not> word_from w False ''LIMIT''" using w(2,3) by (subst word_from_word) (simp_all add: word_char_def)
  moreover have "has_word w (q @ CHR '' '' # ''LIMIT'' @ CHR '' '' # int_str n) =
      (word_from w False q \<or> word_from w False ''LIMIT'' \<or> word_from w False (int_str n))"
    using word_from_split [OF sp w(2)] by (simp add: has_word_def del: append_Cons word_from.simps)
  ultimately show ?thesis by (simp add: has_word_def del: word_from.simps)
qed


section \<open>What the database is asked\<close>

lemma includes_append_space: "str_includes ''--'' (q @ CHR '' '' # t) = (str_includes ''--'' q \<or> str_includes ''--'' t)"
proof (induction q)
  case (Cons c q)
  then show ?case by (cases q) auto
qed simp

lemma no_dashes: "CHR ''-'' \<notin> set t \<Longrightarrow> \<not> str_includes ''--'' t"
  by (induction t) auto

lemma no_second_statement: "CHR '';'' \<notin> set t \<Longrightarrow> \<not> second_statement t"
  by (induction t) auto

lemma digits_only:
  assumes "0 \<le> n"
  shows "CHR ''-'' \<notin> set (int_str n)" "CHR '';'' \<notin> set (int_str n)"
  using assms nat_str_digits by (force simp: int_str_def)+

definition reads_only :: "string \<Rightarrow> bool" where
  "reads_only q \<longleftrightarrow> list_all (\<lambda>w. \<not> has_word w q) BLOCKED_WORDS \<and> \<not> str_includes ''--'' q \<and>
     (prefix ''SELECT'' (str_upper q) \<or> prefix ''WITH'' (str_upper q))"

lemma limited_reads_only:
  assumes "reads_only q" and "0 \<le> n"
  shows "reads_only (limited_query q n)"
proof -
  have "\<not> str_includes ''--'' (q @ '' LIMIT '' @ int_str n)"
    using assms includes_append_space [of q "''LIMIT '' @ int_str n"] no_dashes [of "''LIMIT '' @ int_str n"] digits_only(1)
    by (simp add: reads_only_def)
  then show ?thesis using assms limit_is_no_blocked_word
    by (auto simp: limited_query_def reads_only_def list_all_iff simp del: str_upper_Cons intro: prefix_prefix)
qed

lemma accepted_query:
  assumes "vr_valid (db_validate A inp)"
  shows "reads_only (input_query inp)" "\<not> second_statement (input_query inp)"
  using assms by (auto simp: db_validate_def db_errors_def query_errors_def nonblank_str_def input_query_def Let_def reads_only_def
      blocked_sql_def list_ex_iff list_all_iff split: jsval.splits if_splits)

lemma accepted_limit:
  assumes "vr_valid (db_validate A inp)" and "1 \<le> db_max_rows A"
  shows "1 \<le> row_limit A inp" "row_limit A inp \<le> db_max_rows A"
  using assms by (auto simp: db_validate_def db_errors_def limit_errors_def row_limit_def min_def le_floor_iff
      split: jsval.splits jsnum.splits if_splits)

lemma simulateQuery_asks [simp]: "simulateQuery (W\<lparr>dw_query := ask\<rparr>) = simulateQuery W"
  by (intro ext) (simp add: simulateQuery_def simulated_row_def [abs_def])

lemma executeQuery_asks:
  assumes "ask (limited_query q n) ps = dw_query W (limited_query q n) ps"
  shows "executeQuery (W\<lparr>dw_query := ask\<rparr>) q ps n = executeQuery W q ps n"
  by (simp add: executeQuery_def assms)


definition sample_db_adapter :: db_adapter where
  "sample_db_adapter = new_db_adapter (Some ''postgres:'') None None None None"

definition sample_db_world :: db_world where
  "sample_db_world = \<lparr>dw_now = 0, dw_elapsed = 1, dw_random = 4,
     dw_query = (\<lambda>q ps. Inr ([[(''id'', jint 7), (''Token'', JStr ''x'')]], None))\<rparr>"

definition sample_db_context :: exec_context where
  "sample_db_context = \<lparr>xc_intent_id = ''i'', xc_requester = \<lparr>rq_type = RUser, rq_id = ''alice'', rq_tenant_id = None\<rparr>\<rparr>"

lemma sample_accepted: "vr_valid (db_validate sample_db_adapter [(''query'', JStr ''SELECT a'')])"
  by (simp add: db_validate_def db_errors_def query_errors_def limit_errors_def nonblank_str_def obj_get_def inherited_member_def
      inherited_names_def str_trim_def is_ws_def blocked_sql_def BLOCKED_WORDS_def has_word_def char_upper_def word_char_def)

lemma sample_query: "input_query [(''query'', JStr ''SELECT a'')] = ''SELECT a''" "db_max_rows sample_db_adapter = 1000"
  by (simp_all add: sample_db_adapter_def new_db_adapter_def input_query_def obj_get_def str_trim_def is_ws_def)


section \<open>What is shown\<close>

definition output_rows :: "(string \<times> jsval) list \<Rightarrow> jsval list" where
  "output_rows out = (case map_of out ''rows'' of Some (JArr xs) \<Rightarrow> xs
     | _ \<Rightarrow> (case map_of out ''sample'' of Some (JArr xs) \<Rightarrow> xs | _ \<Rightarrow> []))"

lemma output_rows_shown:
  "set (output_rows (db_output A mode rows n d)) \<subseteq> JObj ` set rows"
  by (cases mode) (auto simp: output_rows_def db_output_def dest: in_set_takeD)

lemma redact_always: "redact_fields A inp = Some fs \<Longrightarrow> set (db_always_redact A) \<subseteq> set fs"
  by (auto simp: redact_fields_def split: if_splits jsval.splits)

text \<open>No row that leaves the adapter shows a value of a field that is to be redacted, whatever the query, the mode and the
  answer of the database.\<close>

theorem sensitive_fields_hidden:
  assumes "db_execute A W inp ctx = Inr r" and "JObj row \<in> set (output_rows (er_output r))" and "(k, v) \<in> set row"
    and "str_lower k \<in> set (db_always_redact A)"
  shows "v = JStr ''[REDACTED]''"
proof -
  obtain fs rows mode n where fs: "redact_fields A inp = Some fs"
    and out: "er_output r = db_output A mode (map (redactRow fs) rows) n (dw_elapsed W)"
    using assms(1) by (auto simp: db_execute_def Let_def split: option.splits sum.splits)
  have "JObj row \<in> JObj ` set (map (redactRow fs) rows)" using assms(2) output_rows_shown unfolding out by blast
  then obtain raw where "row = redactRow fs raw" by auto
  then show ?thesis using assms(3,4) redact_always [OF fs] by (auto simp: redactRow_def split: if_splits)
qed

lemma char_116: "(char_of (116 :: nat) :: char) = CHR ''t''"
  by code_simp

lemma sample_read:
  "\<exists>r. db_execute sample_db_adapter sample_db_world [(''query'', JStr ''SELECT a'')] ctx = Inr r \<and>
     JObj [(''id'', jint 7), (''Token'', JStr ''[REDACTED]'')] \<in> set (output_rows (er_output r))"
  by (simp add: db_execute_def sample_db_adapter_def sample_db_world_def new_db_adapter_def simulates_def redact_fields_def obj_get_def
      inherited_member_def inherited_names_def nullish_def default_redact_def executeQuery_def mode_of_def db_output_def redactRow_def
      str_lower_def char_116 char_lower_def output_rows_def Let_def)

theorem sensitive_fields_hidden_witness:
  "\<exists>r row v. db_execute sample_db_adapter sample_db_world [(''query'', JStr ''SELECT a'')] sample_db_context = Inr r \<and>
     JObj row \<in> set (output_rows (er_output r)) \<and> (''Token'', v) \<in> set row \<and> v = JStr ''[REDACTED]''"
proof -
  obtain r where r: "db_execute sample_db_adapter sample_db_world [(''query'', JStr ''SELECT a'')] sample_db_context = Inr r"
    and row: "JObj [(''id'', jint 7), (''Token'', JStr ''[REDACTED]'')] \<in> set (output_rows (er_output r))"
    using sample_read by blast
  have "str_lower ''Token'' \<in> set (db_always_redact sample_db_adapter)"
    by (simp add: sample_db_adapter_def new_db_adapter_def default_redact_def str_lower_def char_116 char_lower_def)
  from sensitive_fields_hidden [OF r row _ this] r row show ?thesis by (metis list.set_intros)
qed

text \<open>The name of a column is what the query calls it, so a query hides nothing that it renames.\<close>

lemma renamed_column_shown:
  assumes "str_lower k \<notin> set fs"
  shows "(k, v) \<in> set row \<Longrightarrow> (k, v) \<in> set (redactRow fs row)"
  using assms by (force simp: redactRow_def)

text \<open>A query that has the word LIMIT anywhere is sent as it is, and the rows that come back are not counted against the
  adapter's limit. One that ends in a semicolon is accepted and then gets its limit behind it.\<close>

theorem limit_word_lifts_limit:
  assumes "\<not> simulates A" and "has_word ''LIMIT'' (input_query inp)" and "redact_fields A inp = Some fs"
    and "dw_query W (input_query inp) (query_params inp) = Inr (rows, None)"
    and "mode_of (obj_get inp ''output_mode'') = Some ModeStructured"
  shows "\<exists>r. db_execute A W inp ctx = Inr r \<and> length (output_rows (er_output r)) = length rows"
  using assms by (simp add: db_execute_def executeQuery_def limited_query_def db_output_def output_rows_def Let_def)

lemma trailing_semicolon_breaks:
  "\<not> blocked_sql ''SELECT 1;'' \<and> second_statement (limited_query ''SELECT 1;'' 100)"
  by (simp add: blocked_sql_def BLOCKED_WORDS_def has_word_def char_upper_def word_char_def limited_query_def line_end_def is_ws_def)

text \<open>The dot of the pattern stops at the end of the line: behind one, a second statement is not seen.\<close>

lemma second_line_unseen: "\<not> blocked_sql (''SELECT 1;'' @ CHR 0x0A # ''CALL f()'')"
  by (simp add: blocked_sql_def BLOCKED_WORDS_def has_word_def char_upper_def word_char_def line_end_def is_ws_def)

section \<open>With the bridge\<close>

lemma blocked_words_upper: "w \<in> set BLOCKED_WORDS \<Longrightarrow> w \<noteq> [] \<and> CHR '' '' \<notin> set w \<and> CHR ''='' \<notin> set w \<and> CHR ''*'' \<notin> set w \<and>
    CHR ''$'' \<notin> set w \<and> w \<notin> {''SELECT'', ''FROM'', ''WHERE'', ''SERVICE'', ''1''}"
  by (auto simp: BLOCKED_WORDS_def)

lemma not_this_word:
  assumes "w \<in> set BLOCKED_WORDS" and "list_all word_char t" and "str_upper t \<notin> set BLOCKED_WORDS"
  shows "\<not> word_from w False t"
  using assms word_from_word [OF assms(2)] blocked_words_upper by blast

lemma words_of_query:
  assumes "w \<in> set BLOCKED_WORDS"
  shows "\<not> word_from w False ''SELECT''" "\<not> word_from w False ''FROM''" "\<not> word_from w False ''WHERE''"
    "\<not> word_from w False ''service''" "\<not> word_from w False ''1''" "\<not> word_from w False []"
  by (rule not_this_word [OF assms]; code_simp)+

lemma word_in_base:
  assumes "w \<in> set BLOCKED_WORDS"
  shows "word_from w False (''SELECT * FROM '' @ t) = word_from w False t"
proof -
  note w = blocked_words_upper [OF assms]
  have ne: "w \<noteq> []" using w by simp
  have sp: "\<not> word_char CHR '' ''" "char_upper CHR '' '' \<notin> set w" "\<not> word_char CHR ''*''" "char_upper CHR ''*'' \<notin> set w"
    using w by (auto simp: word_char_def char_upper_def)
  have "word_from w False (''SELECT'' @ CHR '' '' # [] @ CHR ''*'' # [] @ CHR '' '' # ''FROM'' @ CHR '' '' # t) = word_from w False t"
    using w by (simp only: word_from_split [OF sp(1,2) ne] word_from_split [OF sp(3,4) ne])
      (simp add: words_of_query [OF assms] del: word_from.simps)
  then show ?thesis by (simp del: word_from.simps)
qed

lemma word_in_service_query:
  assumes "w \<in> set BLOCKED_WORDS" and "list_all word_char t"
  shows "has_word w (''SELECT * FROM '' @ t @ '' WHERE service = $1'') = (str_upper t = w)"
proof -
  note w = blocked_words_upper [OF assms(1)]
  have ne: "w \<noteq> []" using w by simp
  have sp: "\<not> word_char CHR '' ''" "char_upper CHR '' '' \<notin> set w" "\<not> word_char CHR ''=''" "char_upper CHR ''='' \<notin> set w"
      "\<not> word_char CHR ''$''" "char_upper CHR ''$'' \<notin> set w"
    using w by (auto simp: word_char_def char_upper_def)
  have "word_from w False (t @ CHR '' '' # ''WHERE'' @ CHR '' '' # ''service'' @ CHR '' '' # [] @ CHR ''='' # [] @ CHR '' '' # [] @ CHR ''$'' # ''1'')
      = word_from w False t"
    using w by (simp only: word_from_split [OF sp(1,2) ne] word_from_split [OF sp(3,4) ne] word_from_split [OF sp(5,6) ne])
      (simp add: words_of_query [OF assms(1)] del: word_from.simps)
  then have "has_word w (''SELECT * FROM '' @ t @ '' WHERE service = $1'') = word_from w False t"
    unfolding has_word_def word_in_base [OF assms(1)] by (simp del: word_from.simps)
  then show ?thesis using word_from_word [OF assms(2)] w by simp
qed

lemma trim_ends: "\<not> is_ws c \<Longrightarrow> \<not> is_ws d \<Longrightarrow> str_trim (c # s @ [d]) = c # s @ [d]"
  by (simp add: str_trim_def)

lemma trimmed_query:
  shows "str_trim (''SELECT * FROM '' @ t @ '' WHERE service = $1'') = ''SELECT * FROM '' @ t @ '' WHERE service = $1''"
    and "str_trim (''SELECT * FROM '' @ t @ '' /* '' @ u @ '' */'') = ''SELECT * FROM '' @ t @ '' /* '' @ u @ '' */''"
  using trim_ends [of "CHR ''S''" "CHR ''1''" "''ELECT * FROM '' @ t @ '' WHERE service = $''"]
    trim_ends [of "CHR ''S''" "CHR ''/''" "''ELECT * FROM '' @ t @ '' /* '' @ u @ '' *''"]
  by (simp_all add: is_ws_def)

lemma select_first: "prefix ''SELECT'' (str_upper (''SELECT * FROM '' @ t))"
  by (simp add: char_upper_def)

lemma query_errors_of:
  assumes "str_trim q = q" and "q \<noteq> []"
  shows "query_errors (JStr q) = (if blocked_sql q then [(''query'', ''Only SELECT queries are allowed. Write operations are blocked.'')] else [])
     @ (if prefix ''SELECT'' (str_upper q) \<or> prefix ''WITH'' (str_upper q) then [] else [(''query'', ''Query must start with SELECT or WITH.'')])"
  using assms by (simp add: query_errors_def nonblank_str_def Let_def)

text \<open>The table name the bridge writes is one word.\<close>

definition bridged_table :: "task_envelope \<Rightarrow> string" where
  "bridged_table env = safe_dataset (case nonblank_str (obj_get (plain_or_empty (tc_domain (te_constraints env))) ''dataset'') of
     Some s \<Rightarrow> s | None \<Rightarrow> ''records'')"

lemma bridged_table_word: "list_all word_char (bridged_table env)"
  using safe_dataset_word by (simp add: bridged_table_def list_all_iff)

lemma service_query_accepted:
  assumes "list_all word_char t" and "str_upper t \<notin> set BLOCKED_WORDS"
  shows "query_errors (JStr (''SELECT * FROM '' @ t @ '' WHERE service = $1'')) = []"
proof -
  let ?q = "''SELECT * FROM '' @ t @ '' WHERE service = $1''"
  have "CHR ''-'' \<notin> set t" "CHR '';'' \<notin> set t" using assms(1) by (auto simp: list_all_iff word_char_def)
  then have "\<not> str_includes ''--'' ?q" "\<not> second_statement ?q" by (auto intro!: no_dashes no_second_statement)
  then have "\<not> blocked_sql ?q"
    using word_in_service_query [OF _ assms(1)] assms(2) by (auto simp: blocked_sql_def list_ex_iff simp del: append_Cons)
  then show ?thesis using select_first by (subst query_errors_of [OF trimmed_query(1)]) simp_all
qed

lemma bridged_db_input:
  assumes "prefix ''db.read.'' cap" and "parseIntentPayload pj (te_intent env) = (data, summary)"
  shows "mapIntentInput pj env cap = db_read_input (plain_or_empty (tc_common (te_constraints env)))
    (plain_or_empty (tc_domain (te_constraints env))) data summary (te_output_mode env)"
proof -
  have "\<not> prefix ''payment.'' cap" using assms(1) by (cases cap) auto
  then show ?thesis using assms by (simp add: mapIntentInput_def)
qed

lemma db_input_members:
  "map_of (db_read_input common domain data summary mode) ''query'' = Some (js_coalesce (obj_get data ''query'')
     (JStr (buildDbReadQuery (case nonblank_str (obj_get domain ''dataset'') of Some s \<Rightarrow> s | None \<Rightarrow> ''records'')
        (nonblank_str (obj_get domain ''service'')) summary)))"
  "map_of (db_read_input common domain data summary mode) ''params'' = Some (js_coalesce (obj_get data ''params'')
     (JArr (case nonblank_str (obj_get domain ''service'') of None \<Rightarrow> [] | Some s \<Rightarrow> [JStr s])))"
  "map_of (db_read_input common domain data summary mode) ''limit'' = Some (js_coalesce (obj_get data ''limit'')
     (if is_num (obj_get common ''limit'') then obj_get common ''limit'' else jint 25))"
  "map_of (db_read_input common domain data summary mode) ''output_mode'' =
     Some (js_coalesce (obj_get data ''output_mode'') (JStr (mapRequestedOutputMode mode)))"
  unfolding db_read_input_def Let_def by (subst merge_last; simp)+

lemma bridged_mode: "mode_of (JStr (mapRequestedOutputMode m)) \<noteq> None"
  by (cases m) (simp_all add: mode_of_def)

text \<open>A \<open>db.read\<close> envelope that names a service and leaves the query, its parameters, the limit and the mode to the bridge
  is accepted by the adapter, unless the name of its data set is one of the blocked words.\<close>

theorem bridged_read_accepted:
  assumes "prefix ''db.read.'' cap" and "parseIntentPayload pj (te_intent env) = (data, summary)"
    and "nullish (obj_get data ''query'')" and "nullish (obj_get data ''params'')" and "nullish (obj_get data ''limit'')"
    and "nullish (obj_get data ''output_mode'')" and "\<not> is_num (obj_get (plain_or_empty (tc_common (te_constraints env))) ''limit'')"
    and "nonblank_str (obj_get (plain_or_empty (tc_domain (te_constraints env))) ''service'') = Some service"
    and "str_upper (bridged_table env) \<notin> set BLOCKED_WORDS" and "25 \<le> db_max_rows A"
  shows "vr_valid (db_validate A (mapIntentInput pj env cap)) \<and>
    input_query (mapIntentInput pj env cap) = ''SELECT * FROM '' @ bridged_table env @ '' WHERE service = $1'' \<and>
    query_params (mapIntentInput pj env cap) = [JStr service] \<and> row_limit A (mapIntentInput pj env cap) = 25"
proof -
  let ?in = "mapIntentInput pj env cap" and ?q = "''SELECT * FROM '' @ bridged_table env @ '' WHERE service = $1''"
  have "service \<noteq> []" using assms(8) by (auto simp: nonblank_str_def split: jsval.splits if_splits)
  then have m: "obj_get ?in ''query'' = JStr ?q" "obj_get ?in ''params'' = JArr [JStr service]" "obj_get ?in ''limit'' = jint 25"
    "obj_get ?in ''output_mode'' = JStr (mapRequestedOutputMode (te_output_mode env))"
    using assms(3-8) by (simp_all add: bridged_db_input [OF assms(1,2)] obj_get_def [of "db_read_input _ _ _ _ _"] db_input_members
        js_coalesce_def buildDbReadQuery_def Let_def bridged_table_def del: append_Cons)
  have "db_errors A ?in = []"
    using service_query_accepted [OF bridged_table_word assms(9)] bridged_mode [of "te_output_mode env"] assms(10)
    by (simp add: db_errors_def m limit_errors_def del: append_Cons)
  then show ?thesis
    using assms(10) trimmed_query(1) by (simp add: db_validate_def input_query_def query_params_def row_limit_def m del: append_Cons)
qed

definition sample_service_envelope :: task_envelope where
  "sample_service_envelope = (sample_db_envelope ''all'')\<lparr>te_constraints := \<lparr>tc_common = JUndef,
     tc_domain = JObj [(''dataset'', JStr ''a;b''), (''service'', JStr ''x'')], tc_rest = []\<rparr>\<rparr>"

theorem bridged_read_accepted_witness:
  "vr_valid (db_validate sample_db_adapter (mapIntentInput (\<lambda>_. None) sample_service_envelope ''db.read.orders'')) \<and>
   query_params (mapIntentInput (\<lambda>_. None) sample_service_envelope ''db.read.orders'') = [JStr ''x'']"
proof -
  have i: "parseIntentPayload (\<lambda>_. None) (te_intent sample_service_envelope) = ([], Some ''all'')"
    by (simp add: parseIntentPayload_def sample_service_envelope_def sample_db_envelope_def str_trim_def is_ws_def)
  have e: "nullish (obj_get [] ''query'')" "nullish (obj_get [] ''params'')" "nullish (obj_get [] ''limit'')" "nullish (obj_get [] ''output_mode'')"
    by (simp_all add: nullish_def obj_get_def inherited_member_def inherited_names_def)
  have c: "\<not> is_num (obj_get (plain_or_empty (tc_common (te_constraints sample_service_envelope))) ''limit'')"
    "nonblank_str (obj_get (plain_or_empty (tc_domain (te_constraints sample_service_envelope))) ''service'') = Some ''x''"
    by (simp_all add: sample_service_envelope_def plain_or_empty_def obj_get_def inherited_member_def inherited_names_def nonblank_str_def
        str_trim_def is_ws_def)
  have t: "str_upper (bridged_table sample_service_envelope) \<notin> set BLOCKED_WORDS" by code_simp
  have "25 \<le> db_max_rows sample_db_adapter" by (simp add: sample_query)
  from bridged_read_accepted [OF _ i e c t this, of "''db.read.orders''"] show ?thesis by simp
qed

text \<open>Without a service the text of the request goes into a comment of the query, and one word of it is enough to be refused.\<close>

theorem request_text_refused:
  assumes "prefix ''db.read.'' cap" and "parseIntentPayload pj (te_intent env) = (data, Some words)"
    and "nullish (obj_get data ''query'')"
    and "nonblank_str (obj_get (plain_or_empty (tc_domain (te_constraints env))) ''service'') = None"
    and "w \<in> set BLOCKED_WORDS" and "has_word w (strip_comment_end words)"
  shows "\<not> vr_valid (db_validate A (mapIntentInput pj env cap))"
proof -
  let ?in = "mapIntentInput pj env cap" and ?u = "strip_comment_end words"
  let ?q = "''SELECT * FROM '' @ bridged_table env @ '' /* '' @ ?u @ '' */''"
  have "words \<noteq> []" using assms(6) by (auto simp: has_word_def)
  then have m: "obj_get ?in ''query'' = JStr ?q"
    using assms(3,4) by (simp add: bridged_db_input [OF assms(1,2)] obj_get_def [of "db_read_input _ _ _ _ _"] db_input_members
        js_coalesce_def buildDbReadQuery_def Let_def bridged_table_def del: append_Cons)
  note w = blocked_words_upper [OF assms(5)]
  have ne: "w \<noteq> []" and sp: "\<not> word_char CHR '' ''" "char_upper CHR '' '' \<notin> set w"
    using w by (auto simp: word_char_def char_upper_def)
  have "word_from w False (bridged_table env @ CHR '' '' # ''/*'' @ CHR '' '' # ?u @ CHR '' '' # ''*/'')"
    using assms(6) by (simp only: word_from_split [OF sp ne] has_word_def) simp
  then have "has_word w ?q" unfolding has_word_def word_in_base [OF assms(5)] by (simp del: word_from.simps)
  then have "blocked_sql ?q" using assms(5) by (auto simp: blocked_sql_def list_ex_iff simp del: append_Cons)
  then show ?thesis
    by (simp add: db_validate_def db_errors_def m query_errors_of [OF trimmed_query(2)] del: append_Cons)
qed

end
