(* ===== verification/PaymentAdapter.thy ===== *)
theory PaymentAdapter
  imports Bridge
begin

text \<open>
  \<open>adapters/payment-adapter.ts\<close>: charges and refunds. The payment provider is a parameter:
  a function of the request it is sent, which answers with whether the status was a
  success, its text and the object of its body, or fails. The texts of values that are
  no strings (\<open>String(v)\<close>, \<open>JSON.stringify(v)\<close>) are parameters too.
\<close>

section \<open>State\<close>

record payment_adapter =
  pa_url :: string
  pa_key :: string
  pa_simulate :: bool

definition first_given :: "'a option \<Rightarrow> 'a option \<Rightarrow> 'a \<Rightarrow> 'a" where
  "first_given a b d = (case a of Some x \<Rightarrow> x | None \<Rightarrow> (case b of Some x \<Rightarrow> x | None \<Rightarrow> d))"

definition new_payment_adapter :: "(string \<Rightarrow> string option) \<Rightarrow> string option \<Rightarrow> string option \<Rightarrow> bool option \<Rightarrow> payment_adapter" where
  "new_payment_adapter env url key simulate =
     (let k = first_given key (env ''MAP_PAYMENT_API_KEY'') [] in
      \<lparr>pa_url = first_given url (env ''MAP_PAYMENT_PROVIDER_URL'') ''https://api.stripe.com/v1'', pa_key = k,
       pa_simulate = (case simulate of Some b \<Rightarrow> b | None \<Rightarrow> k = [] \<or> env ''NODE_ENV'' = Some ''test'')\<rparr>)"

record payment_request =
  pq_url :: string
  pq_authorization :: string
  pq_idempotency_key :: jsval
  pq_form :: "(string \<times> string) list"

record payment_answer =
  py_ok :: bool
  py_status_text :: string
  py_data :: "(string \<times> jsval) list"

record payment_world =
  yw_now :: ms
  yw_random :: string
  yw_text :: "jsval \<Rightarrow> string"
  yw_json :: "jsval \<Rightarrow> string"
  yw_provider :: "payment_request \<Rightarrow> string + payment_answer"

section \<open>The provider\<close>

definition form_text :: "payment_world \<Rightarrow> jsval \<Rightarrow> string" where
  "form_text W v = (case v of JStr s \<Rightarrow> s | _ \<Rightarrow> yw_text W v)"

definition payment_request_of :: "payment_adapter \<Rightarrow> payment_world \<Rightarrow> string \<Rightarrow> (string \<times> jsval) list \<Rightarrow> payment_request" where
  "payment_request_of A W path body =
     \<lparr>pq_url = pa_url A @ path, pq_authorization = ''Bearer '' @ pa_key A, pq_idempotency_key = obj_get body ''idempotency_key'',
      pq_form = map (\<lambda>(k, v). (k, form_text W v)) (filter (\<lambda>(k, v). \<not> nullish v) body)\<rparr>"

definition simulateResponse :: "payment_world \<Rightarrow> string \<Rightarrow> (string \<times> jsval) list \<Rightarrow> (string \<times> jsval) list" where
  "simulateResponse W path body =
     (let ident = JStr (''sim_'' @ int_str (yw_now W) @ ''_'' @ yw_random W); created = jint (yw_now W div 1000) in
      if str_includes ''refund'' path
      then [(''id'', ident), (''object'', JStr ''refund''), (''amount'', obj_get body ''amount''), (''charge'', obj_get body ''charge''),
            (''currency'', JStr ''usd''), (''status'', JStr ''succeeded''), (''created'', created)]
      else [(''id'', ident), (''object'', JStr ''charge''), (''amount'', obj_get body ''amount''),
            (''currency'', js_coalesce (obj_get body ''currency'') (JStr ''usd'')), (''description'', obj_get body ''description''),
            (''status'', JStr ''succeeded''), (''paid'', JBool True), (''created'', created),
            (''metadata'', js_coalesce (obj_get body ''metadata'') (JObj []))])"

text \<open>\<open>data.error?.message ?? response.statusText\<close>\<close>

definition provider_message :: "payment_world \<Rightarrow> payment_answer \<Rightarrow> string" where
  "provider_message W a =
     (let e = obj_get (py_data a) ''error''; m = (if nullish e then JUndef else get_prop e ''message'')
      in if nullish m then py_status_text a else form_text W m)"

definition callProvider :: "payment_adapter \<Rightarrow> payment_world \<Rightarrow> string \<Rightarrow> (string \<times> jsval) list \<Rightarrow> string + (string \<times> jsval) list" where
  "callProvider A W path body =
     (if pa_simulate A then Inr (simulateResponse W path body)
      else (case yw_provider W (payment_request_of A W path body) of
              Inl e \<Rightarrow> Inl e
            | Inr a \<Rightarrow> if py_ok a then Inr (py_data a) else Inl (''Payment provider error: '' @ provider_message W a)))"

definition status_of_payment :: "(string \<times> jsval) list \<Rightarrow> execution_status" where
  "status_of_payment data = (if obj_get data ''status'' = JStr ''succeeded'' then Ok else Error)"

section \<open>Charges\<close>

definition positive_number :: "jsval \<Rightarrow> bool" where
  "positive_number v = (case v of JNum n \<Rightarrow> \<not> num_le n (Fin 0) | _ \<Rightarrow> False)"

definition execute_errors :: "(string \<times> jsval) list \<Rightarrow> (string \<times> string) list" where
  "execute_errors inp =
     (if positive_number (obj_get inp ''amount'') then []
      else [(''amount'', ''amount must be a positive number (in smallest currency unit, e.g. cents).'')])
     @ (case obj_get inp ''currency'' of
          JStr s \<Rightarrow> if length (str_trim s) = 3 then [] else [(''currency'', ''currency must be a 3-letter ISO 4217 code (e.g. USD, EUR).'')]
        | _ \<Rightarrow> [(''currency'', ''currency must be a 3-letter ISO 4217 code (e.g. USD, EUR).'')])
     @ (if nonblank_str (obj_get inp ''vendor_id'') = None then [(''vendor_id'', ''vendor_id is required.'')] else [])"

definition execute_validate :: "(string \<times> jsval) list \<Rightarrow> validation_result" where
  "execute_validate inp = \<lparr>vr_valid = (execute_errors inp = []), vr_errors = execute_errors inp\<rparr>"

text \<open>An accepted input has these two members as strings.\<close>

definition input_string :: "(string \<times> jsval) list \<Rightarrow> string \<Rightarrow> string" where
  "input_string inp k = (case obj_get inp k of JStr s \<Rightarrow> s | _ \<Rightarrow> [])"

definition charge_body :: "payment_world \<Rightarrow> (string \<times> jsval) list \<Rightarrow> string \<Rightarrow> (string \<times> jsval) list" where
  "charge_body W inp intent_id =
     [(''amount'', obj_get inp ''amount''), (''currency'', JStr (str_lower (input_string inp ''currency''))),
      (''description'', js_coalesce (obj_get inp ''description'') (JStr (''Payment to '' @ input_string inp ''vendor_id''))),
      (''metadata'', JStr (yw_json W (JObj [(''vendor_id'', JStr (input_string inp ''vendor_id'')), (''intent_id'', JStr intent_id)]))),
      (''idempotency_key'', JStr intent_id)]"

definition payment_execute :: "payment_adapter \<Rightarrow> payment_world \<Rightarrow> (string \<times> jsval) list \<Rightarrow> exec_context \<Rightarrow> string + execution_result" where
  "payment_execute A W inp ctx =
     (case callProvider A W ''/charges'' (charge_body W inp (xc_intent_id ctx)) of
        Inl e \<Rightarrow> Inl e
      | Inr data \<Rightarrow>
          (let vendor = input_string inp ''vendor_id'' in
           Inr \<lparr>er_intent_id = xc_intent_id ctx, er_capability = ''payment.execute'', er_status = status_of_payment data,
                er_output = [(''charge_id'', obj_get data ''id''), (''amount'', obj_get data ''amount''),
                  (''currency'', obj_get data ''currency''), (''status'', obj_get data ''status''), (''vendor_id'', JStr vendor),
                  (''simulated'', JBool (pa_simulate A))],
                er_summary = ''Payment of '' @ form_text W (obj_get inp ''amount'') @ '' ''
                  @ str_upper (str_lower (input_string inp ''currency'')) @ '' to '' @ vendor @ '': '' @ form_text W (obj_get data ''status'')\<rparr>))"

definition payment_execute_adapter :: "payment_adapter \<Rightarrow> payment_world \<Rightarrow> adapter" where
  "payment_execute_adapter A W = \<lparr>xa_validate = execute_validate, xa_execute = payment_execute A W\<rparr>"

section \<open>Refunds\<close>

definition refund_errors :: "(string \<times> jsval) list \<Rightarrow> (string \<times> string) list" where
  "refund_errors inp =
     (if nonblank_str (obj_get inp ''charge_id'') = None then [(''charge_id'', ''charge_id is required.'')] else [])
     @ (if obj_get inp ''amount'' \<noteq> JUndef \<and> \<not> positive_number (obj_get inp ''amount'')
        then [(''amount'', ''amount must be a positive number if provided.'')] else [])"

definition refund_validate :: "(string \<times> jsval) list \<Rightarrow> validation_result" where
  "refund_validate inp = \<lparr>vr_valid = (refund_errors inp = []), vr_errors = refund_errors inp\<rparr>"

definition refund_body :: "(string \<times> jsval) list \<Rightarrow> string \<Rightarrow> (string \<times> jsval) list" where
  "refund_body inp intent_id =
     [(''charge'', JStr (input_string inp ''charge_id''))]
     @ (if obj_get inp ''amount'' \<noteq> JUndef then [(''amount'', obj_get inp ''amount'')] else [])
     @ [(''reason'', js_coalesce (obj_get inp ''reason'') (JStr ''requested_by_customer'')), (''idempotency_key'', JStr (''refund_'' @ intent_id))]"

definition payment_refund :: "payment_adapter \<Rightarrow> payment_world \<Rightarrow> (string \<times> jsval) list \<Rightarrow> exec_context \<Rightarrow> string + execution_result" where
  "payment_refund A W inp ctx =
     (case callProvider A W ''/refunds'' (refund_body inp (xc_intent_id ctx)) of
        Inl e \<Rightarrow> Inl e
      | Inr data \<Rightarrow>
          (let charge = input_string inp ''charge_id'' in
           Inr \<lparr>er_intent_id = xc_intent_id ctx, er_capability = ''payment.refund'', er_status = status_of_payment data,
                er_output = [(''refund_id'', obj_get data ''id''), (''charge_id'', JStr charge), (''amount'', obj_get data ''amount''),
                  (''status'', obj_get data ''status''), (''simulated'', JBool (pa_simulate A))],
                er_summary = ''Refund for charge '' @ charge @ '': '' @ form_text W (obj_get data ''status'')\<rparr>))"

definition payment_refund_adapter :: "payment_adapter \<Rightarrow> payment_world \<Rightarrow> adapter" where
  "payment_refund_adapter A W = \<lparr>xa_validate = refund_validate, xa_execute = payment_refund A W\<rparr>"

section \<open>What the provider is asked\<close>

lemma accepted_charge:
  assumes "vr_valid (execute_validate inp)"
  shows "\<exists>n. obj_get inp ''amount'' = JNum n \<and> (n = NaN \<or> n = PosInf \<or> (\<exists>x > 0. n = Fin x))"
    and "\<exists>s. obj_get inp ''currency'' = JStr s \<and> length (str_trim s) = 3"
    and "\<exists>s. obj_get inp ''vendor_id'' = JStr s \<and> str_trim s \<noteq> []"
proof -
  show "\<exists>n. obj_get inp ''amount'' = JNum n \<and> (n = NaN \<or> n = PosInf \<or> (\<exists>x > 0. n = Fin x))"
  proof (cases "obj_get inp ''amount''")
    case (JNum n)
    then show ?thesis using assms
      by (cases n) (auto simp: execute_validate_def execute_errors_def positive_number_def num_le_def num_eq_def split: if_splits)
  qed (use assms in \<open>auto simp: execute_validate_def execute_errors_def positive_number_def split: if_splits\<close>)
  show "\<exists>s. obj_get inp ''currency'' = JStr s \<and> length (str_trim s) = 3"
    and "\<exists>s. obj_get inp ''vendor_id'' = JStr s \<and> str_trim s \<noteq> []"
    using assms by (auto simp: execute_validate_def execute_errors_def nonblank_str_def split: jsval.splits if_splits)
qed

text \<open>An accepted charge asks the provider for one thing only: a request under the id of the intent as its idempotency key,
  in the header and in the form, for the amount of the input to its vendor; the outcome depends on nothing else. So an intent that
  is tried again, by a retry of the queue, a repeated approval or another process with the same configuration, repeats the
  request under the same key.\<close>

theorem charge_request_fixed:
  fixes ctx :: exec_context
  assumes "vr_valid (execute_validate inp)"
  shows "\<exists>q. pq_idempotency_key q = JStr (xc_intent_id ctx) \<and> map_of (pq_form q) ''idempotency_key'' = Some (xc_intent_id ctx) \<and>
    map_of (pq_form q) ''amount'' = Some (yw_text W (obj_get inp ''amount'')) \<and>
    (\<forall>(W' :: payment_world) (ctx' :: exec_context). yw_text W' = yw_text W \<longrightarrow> yw_json W' = yw_json W \<longrightarrow> xc_intent_id ctx' = xc_intent_id ctx \<longrightarrow>
       \<not> pa_simulate A \<longrightarrow> yw_provider W' q = yw_provider W q \<longrightarrow>
       payment_execute A W' inp ctx' = payment_execute A W inp ctx)"
proof (intro exI conjI allI impI)
  let ?q = "payment_request_of A W ''/charges'' (charge_body W inp (xc_intent_id ctx))"
  obtain n where n: "obj_get inp ''amount'' = JNum n" using accepted_charge(1) [OF assms] by blast
  show "pq_idempotency_key ?q = JStr (xc_intent_id ctx)"
    by (simp add: payment_request_of_def charge_body_def obj_get_def)
  show "map_of (pq_form ?q) ''idempotency_key'' = Some (xc_intent_id ctx)"
    "map_of (pq_form ?q) ''amount'' = Some (yw_text W (obj_get inp ''amount''))"
    by (simp_all add: payment_request_of_def charge_body_def n nullish_def form_text_def)
  fix W' :: payment_world and ctx' :: exec_context assume a: "yw_text W' = yw_text W" "yw_json W' = yw_json W" "xc_intent_id ctx' = xc_intent_id ctx"
    "\<not> pa_simulate A" "yw_provider W' ?q = yw_provider W ?q"
  have f: "form_text W' = form_text W" by (rule ext) (simp add: form_text_def a(1) split: jsval.split)
  have "charge_body W' inp (xc_intent_id ctx) = charge_body W inp (xc_intent_id ctx)" by (simp add: charge_body_def a(2))
  moreover have "payment_request_of A W' p b = payment_request_of A W p b" for p b by (simp add: payment_request_of_def f)
  ultimately show "payment_execute A W' inp ctx' = payment_execute A W inp ctx"
    using a(3-5) by (simp add: payment_execute_def callProvider_def provider_message_def f Let_def split: sum.split)
qed

section \<open>Examples\<close>

definition sample_payment_world :: payment_world where
  "sample_payment_world = \<lparr>yw_now = 0, yw_random = ''r'', yw_text = (\<lambda>_. ''500''), yw_json = (\<lambda>_. ''{}''), yw_provider = (\<lambda>_. Inl ''down'')\<rparr>"

definition sample_charge :: "(string \<times> jsval) list" where
  "sample_charge = [(''amount'', jint 500), (''currency'', JStr ''USD''), (''vendor_id'', JStr ''v'')]"

lemma sample_charge_accepted: "vr_valid (execute_validate sample_charge)"
  by (simp add: execute_validate_def execute_errors_def sample_charge_def positive_number_def num_le_def num_eq_def obj_get_def
      str_trim_def is_ws_def nonblank_str_def)

theorem charge_request_fixed_witness:
  "\<exists>q :: payment_request. pq_idempotency_key q = JStr ''i'' \<and> map_of (pq_form q) ''amount'' = Some ''500''"
proof -
  define ctx :: exec_context where "ctx = \<lparr>xc_intent_id = ''i'', xc_requester = \<lparr>rq_type = RUser, rq_id = ''alice'', rq_tenant_id = None\<rparr>\<rparr>"
  have w: "xc_intent_id ctx = ''i''" "yw_text sample_payment_world = (\<lambda>_. ''500'')" by (simp_all add: ctx_def sample_payment_world_def)
  show ?thesis
    using charge_request_fixed [OF sample_charge_accepted, of ctx sample_payment_world "new_payment_adapter (\<lambda>_. None) None None None"]
    unfolding w by blast
qed

end
