(* ===== verification/ReferenceApp.thy ===== *)
theory ReferenceApp
  imports DbReadAdapter PaymentAdapter PolicyRoutes MapAgent
begin

text \<open>
  \<open>app.ts\<close>: how the runtime is assembled, and the reference application with its policy
  and its adapters.
\<close>

section \<open>Assembly\<close>

record system_options =
  sys_tasks :: task_backend
  sys_receipts :: receipt_backend
  sys_queue :: queue_options
  sys_dead_letters :: "dead_letter list"
  sys_policy :: policy_document
  sys_policy_file :: "jsval option"
  sys_adapters :: "(string, adapter) jmap"
  sys_agents :: "agent_descriptor list"

datatype system_error = AgentRefused registry_error | PolicyOutsideModel

text \<open>The policy file: its value, or \<open>None\<close> when there is none or it is no JSON. Its rules are not looked at.\<close>

definition system_policy :: "policy_document \<Rightarrow> jsval option \<Rightarrow> policy_document option" where
  "system_policy inline file =
     (case file of
        None \<Rightarrow> Some inline
      | Some v \<Rightarrow>
          if js_prop v ''version'' = JStr ''1.0'' \<and> (\<exists>rs. js_prop v ''rules'' = JArr rs) then read_policy v else Some inline)"

fun register_all :: "registry_externals \<Rightarrow> agent_descriptor list \<Rightarrow> registry \<Rightarrow> registry_error + registry" where
  "register_all X [] reg = Inr reg"
| "register_all X (d # ds) reg =
     (case registry_register X reg d of (_, Inl e) \<Rightarrow> Inl e | (reg1, Inr _) \<Rightarrow> register_all X ds reg1)"

definition createSystem :: "registry_externals \<Rightarrow> system_options \<Rightarrow> system_error + orchestrator" where
  "createSystem X opts =
     (case system_policy (sys_policy opts) (sys_policy_file opts) of
        None \<Rightarrow> Inl PolicyOutsideModel
      | Some p \<Rightarrow>
          (case register_all X (sys_agents opts) [] of
             Inl e \<Rightarrow> Inl (AgentRefused e)
           | Inr reg \<Rightarrow>
               Inr \<lparr>o_registry = reg, o_policy = p, o_executor = \<lparr>ex_policy = p, ex_adapters = sys_adapters opts, ex_sign = None\<rparr>,
                    o_tasks = task_hydrate (sys_tasks opts), o_receipts = receipt_hydrate (sys_receipts opts),
                    o_queue = new_queue (sys_queue opts) (sys_dead_letters opts), o_jobs = [], o_calls = [], o_webhooks = [],
                    o_approvals = []\<rparr>))"

section \<open>The reference application\<close>

definition reference_policy :: policy_document where
  "reference_policy = \<lparr>pol_rules =
     [\<lparr>pr_id = ''high-value-payment'', pr_capability = ''payment.*'', pr_condition = Comparison [(''gt'', ''input.amount'', jint 1000)],
        pr_action = RequireApproval\<rparr>,
      \<lparr>pr_id = ''production-db-read-approval'', pr_capability = ''db.read.*'',
        pr_condition = Comparison [(''eq'', ''constraints.environment'', JStr ''production'')], pr_action = RequireApproval\<rparr>,
      \<lparr>pr_id = ''critical-risk-approval'', pr_capability = ''*'', pr_condition = Comparison [(''eq'', ''risk_class'', JStr ''critical'')],
        pr_action = RequireApproval\<rparr>],
     pol_default_action = Some Allow\<rparr>"

definition createDefaultAdapters :: "(string \<Rightarrow> string option) \<Rightarrow> db_world \<Rightarrow> payment_world \<Rightarrow> (string, adapter) jmap" where
  "createDefaultAdapters env D P =
     (let db = db_read_adapter (new_db_adapter None (env ''MAP_DB_CONNECTION_STRING'') None (Some ModeSummary) None) D;
          pay = new_payment_adapter env None None (Some True)
      in [(''db.read.query'', db), (''db.read.lookup'', db), (''db.read.aggregate'', db),
          (''payment.execute'', payment_execute_adapter pay P), (''payment.refund'', payment_refund_adapter pay P)])"

text \<open>\<open>options.policy ?? ...\<close> and \<open>options.adapters ?? ...\<close>; the members of the rest are used as they are.\<close>

definition createReferenceApp :: "registry_externals \<Rightarrow> (string \<Rightarrow> string option) \<Rightarrow> db_world \<Rightarrow> payment_world \<Rightarrow>
    policy_document option \<Rightarrow> (string, adapter) jmap option \<Rightarrow> system_options \<Rightarrow> system_error + orchestrator" where
  "createReferenceApp X env D P policy adapters opts =
     createSystem X (opts\<lparr>sys_policy := (case policy of Some p \<Rightarrow> p | None \<Rightarrow> reference_policy),
       sys_adapters := (case adapters of Some a \<Rightarrow> a | None \<Rightarrow> createDefaultAdapters env D P)\<rparr>)"

section \<open>What it lets through\<close>

lemma executeNormalizedIntent_call:
  assumes "c \<in> set (fst (executeNormalizedIntent ads ev it))"
  shows "ac_input c = it_input it \<and> ac_capability c = it_capability it \<and> xc_intent_id (ac_context c) = effective_intent_id ev it \<and>
    (\<exists>ad. jm_get ads (it_capability it) = Some ad \<and> vr_valid (xa_validate ad (it_input it)))"
  using assms by (cases "jm_get ads (it_capability it)") (auto simp: executeNormalizedIntent_def Let_def split: if_splits)

lemma executeIntent_call:
  assumes "executeIntent re vi ex ev it = (calls, r)" and "c \<in> set calls"
  shows "pd_action (evaluate re (normalize it) (ex_policy ex)) = Allow" "ac_input c = it_input it"
    "ac_capability c = it_capability (normalize it)" "xc_intent_id (ac_context c) = effective_intent_id ev (normalize it)"
    "\<exists>ad. jm_get (ex_adapters ex) (it_capability (normalize it)) = Some ad \<and> vr_valid (xa_validate ad (it_input it))"
proof -
  have n: "it_input (normalize it) = it_input it" by (simp add: normalize_def)
  have "fst (executeIntent re vi ex ev it) \<noteq> []" using assms by (cases calls) auto
  from executeIntent_calls_allowed [OF this]
  have ok: "vr_valid (vi it)" "pd_action (evaluate re (normalize it) (ex_policy ex)) = Allow" by auto
  have "fst (executeIntent re vi ex ev it) = fst (executeNormalizedIntent (ex_adapters ex) ev (normalize it))"
    using ok by (simp add: executeIntent_def Let_def split: prod.split sum.split)
  then have "c \<in> set (fst (executeNormalizedIntent (ex_adapters ex) ev (normalize it)))" using assms by simp
  from executeNormalizedIntent_call [OF this] ok(2) n
  show "pd_action (evaluate re (normalize it) (ex_policy ex)) = Allow" "ac_input c = it_input it"
    "ac_capability c = it_capability (normalize it)" "xc_intent_id (ac_context c) = effective_intent_id ev (normalize it)"
    "\<exists>ad. jm_get (ex_adapters ex) (it_capability (normalize it)) = Some ad \<and> vr_valid (xa_validate ad (it_input it))"
    by simp_all
qed

lemma star_pattern:
  assumes "CHR ''*'' \<notin> set pre" and "plain_glob pre" and "pre \<noteq> []" and "prefix pre cap" and "list_all (\<lambda>c. \<not> line_terminator c) cap"
  shows "cap_matches re (pre @ [CHR ''*'']) cap"
  using assms by (auto simp: cap_matches_def regex_test_def plain_glob_def glob_prefix_star list_all_iff simp del: glob.simps)

lemma reference_patterns:
  "cap \<in> {''payment.execute'', ''payment.refund''} \<Longrightarrow> cap_matches re ''payment.*'' cap"
  "cap \<in> {''db.read.query'', ''db.read.lookup'', ''db.read.aggregate''} \<Longrightarrow> cap_matches re ''db.read.*'' cap"
  "cap_matches re ''*'' cap"
proof -
  have p: "plain_glob ''payment.''" "plain_glob ''db.read.''" by code_simp+
  have "cap_matches re (''payment.'' @ [CHR ''*'']) cap" if "cap \<in> {''payment.execute'', ''payment.refund''}"
    by (rule star_pattern) (use that p in \<open>auto simp: line_terminator_def\<close>)
  then show "cap \<in> {''payment.execute'', ''payment.refund''} \<Longrightarrow> cap_matches re ''payment.*'' cap" by simp
  have "cap_matches re (''db.read.'' @ [CHR ''*'']) cap" if "cap \<in> {''db.read.query'', ''db.read.lookup'', ''db.read.aggregate''}"
    by (rule star_pattern) (use that p in \<open>auto simp: line_terminator_def\<close>)
  then show "cap \<in> {''db.read.query'', ''db.read.lookup'', ''db.read.aggregate''} \<Longrightarrow> cap_matches re ''db.read.*'' cap" by simp
qed (simp add: cap_matches_def)

text \<open>The reference policy, read: what an intent must not be if it is to run without an approval.\<close>

lemma reference_allows:
  assumes "pd_action (evaluate re it reference_policy) = Allow"
  shows "it_capability it \<in> {''payment.execute'', ''payment.refund''} \<longrightarrow> \<not> num_cmp (\<lambda>x y. num_lt y x) (obj_get (it_input it) ''amount'') (jint 1000)"
    and "it_capability it \<in> {''db.read.query'', ''db.read.lookup'', ''db.read.aggregate''} \<longrightarrow>
      \<not> (\<exists>k. it_constraints it = Some k \<and> ic_environment k = JStr ''production'')"
    and "it_risk_class it \<noteq> Some ''critical''"
proof -
  have none: "\<not> rule_applies re it rule" if "rule \<in> set (pol_rules reference_policy)" for rule
  proof
    assume "rule_applies re it rule"
    then have "find (rule_applies re it) (pol_rules reference_policy) \<noteq> None" using that by (auto simp: find_None_iff)
    then obtain q where found: "find (rule_applies re it) (pol_rules reference_policy) = Some q" by blast
    then have "pr_action q = Allow" using assms by (simp add: evaluate_find)
    moreover have "q \<in> set (pol_rules reference_policy)" using found by (auto simp: find_Some_iff)
    ultimately show False by (auto simp: reference_policy_def)
  qed
  show "it_capability it \<in> {''payment.execute'', ''payment.refund''} \<longrightarrow>
      \<not> num_cmp (\<lambda>x y. num_lt y x) (obj_get (it_input it) ''amount'') (jint 1000)"
    using none [of "pol_rules reference_policy ! 0"] reference_patterns(1) [of "it_capability it" re]
    by (auto simp: reference_policy_def rule_applies_def path_input_amount evaluateOp_def simp del: split_on.simps getFieldValueFromParts.simps)
  show "it_capability it \<in> {''db.read.query'', ''db.read.lookup'', ''db.read.aggregate''} \<longrightarrow>
      \<not> (\<exists>k. it_constraints it = Some k \<and> ic_environment k = JStr ''production'')"
    using none [of "pol_rules reference_policy ! 1"] reference_patterns(2) [of "it_capability it" re]
    by (auto simp: reference_policy_def rule_applies_def path_environment evaluateOp_def simp del: split_on.simps getFieldValueFromParts.simps)
  show "it_risk_class it \<noteq> Some ''critical''"
    using none [of "pol_rules reference_policy ! 2"] reference_patterns(3) [of re "it_capability it"]
    by (auto simp: reference_policy_def rule_applies_def path_risk jopt_def evaluateOp_def simp del: split_on.simps getFieldValueFromParts.simps)
qed

lemma default_adapter_names:
  assumes "jm_get (createDefaultAdapters env D P) cap = Some ad"
  shows "(cap \<in> {''db.read.query'', ''db.read.lookup'', ''db.read.aggregate''} \<and> (\<exists>A. xa_validate ad = db_validate A)) \<or>
    (cap = ''payment.execute'' \<and> xa_validate ad = execute_validate) \<or> (cap = ''payment.refund'' \<and> xa_validate ad = refund_validate)"
  using assms by (auto simp: createDefaultAdapters_def Let_def db_read_adapter_def payment_execute_adapter_def
      payment_refund_adapter_def split: if_splits)

lemma reference_parts:
  assumes "createReferenceApp X env D P None None opts = Inr app" and "sys_policy_file opts = None"
  shows "ex_policy (o_executor app) = reference_policy" "ex_adapters (o_executor app) = createDefaultAdapters env D P"
    "o_policy app = reference_policy"
  using assms by (auto simp: createReferenceApp_def createSystem_def system_policy_def split: sum.splits)


section \<open>Refunds\<close>

lemma no_db_pattern: "\<not> cap_matches re ''db.read.*'' ''payment.refund''" "\<not> cap_matches re ''db.read.*'' ''payment.execute''"
proof -
  have p: "plain_glob ''db.read.*''" by code_simp
  have g: "\<not> glob ''db.read.*'' ''payment.refund''" "\<not> glob ''db.read.*'' ''payment.execute''" by code_simp+
  show "\<not> cap_matches re ''db.read.*'' ''payment.refund''" "\<not> cap_matches re ''db.read.*'' ''payment.execute''"
    using p g by (simp_all add: cap_matches_def regex_test_def del: glob.simps)
qed

lemma reference_lets_pay:
  assumes "it_capability it \<in> {''payment.execute'', ''payment.refund''}" and "it_risk_class it \<noteq> Some ''critical''"
    and "\<not> num_cmp (\<lambda>x y. num_lt y x) (obj_get (it_input it) ''amount'') (jint 1000)"
  shows "pd_action (evaluate re it reference_policy) = Allow"
proof -
  have "\<forall>rule \<in> set (pol_rules reference_policy). \<not> rule_applies re it rule"
    using assms no_db_pattern
    by (auto simp: reference_policy_def rule_applies_def path_input_amount path_environment path_risk jopt_def evaluateOp_def
        simp del: split_on.simps getFieldValueFromParts.simps split: option.splits)
  from evaluate_no_match [OF this] show ?thesis by (simp add: reference_policy_def)
qed

text \<open>A refund that names no amount is one of the whole charge, and the rule on amounts does not see it: it runs at once.\<close>

theorem full_refund_unattended:
  assumes "createReferenceApp X env D P None None opts = Inr app" and "sys_policy_file opts = None" and "vr_valid (vi it)"
    and "it_capability (normalize it) = ''payment.refund''" and "it_risk_class (normalize it) \<noteq> Some ''critical''"
    and "obj_get (it_input it) ''amount'' = JUndef" and "obj_get (it_input it) ''charge_id'' = JStr charge" and "str_trim charge \<noteq> []"
  shows "\<exists>c r. executeIntent re vi (o_executor app) ev it = ([c], Inr (Result r)) \<and> ac_capability c = ''payment.refund'' \<and> er_status r = Ok"
proof -
  note parts = reference_parts [OF assms(1,2)]
  have n: "it_input (normalize it) = it_input it" by (simp add: normalize_def)
  have a: "pd_action (evaluate re (normalize it) reference_policy) = Allow"
    by (rule reference_lets_pay) (use assms(4-6) n in \<open>simp_all add: num_cmp_def\<close>)
  have v: "refund_errors (it_input it) = []" using assms(6-8) by (simp add: refund_errors_def nonblank_str_def)
  obtain out where out: "\<And>ctx. payment_refund (new_payment_adapter env None None (Some True)) P (it_input it) ctx = Inr (out ctx)"
    "\<And>ctx. er_status (out ctx) = Ok"
    by (simp add: payment_refund_def callProvider_def new_payment_adapter_def simulateResponse_def status_of_payment_def Let_def obj_get_def)
  show ?thesis
    using assms(3,4) a v out
    by (simp add: executeIntent_def executeNormalizedIntent_def parts createDefaultAdapters_def payment_refund_adapter_def
        refund_validate_def n Let_def)
qed

section \<open>One key per task\<close>

lemma bridged_intent_id:
  assumes "te_task_id env \<noteq> []"
  shows "effective_intent_id ev (normalize (mapEnvelopeToIntent pj env cap)) = te_task_id env"
  using assms by (simp add: effective_intent_id_def normalize_def mapEnvelopeToIntent_def)

text \<open>Whatever is executed for a task, at once, by the queue, again after a failure or after an approval, reaches its adapter
  under the id of the task, so the key a payment is charged under is that of the task.\<close>

theorem charged_under_task_id:
  assumes "te_task_id env \<noteq> []" and "it = mapEnvelopeToIntent pj env cap"
    and "c \<in> set (fst (executeIntent re vi ex ev it)) \<union> set (fst (executeApproved vi ex' ev' it))"
  shows "xc_intent_id (ac_context c) = te_task_id env \<and>
    pq_idempotency_key (payment_request_of A W ''/charges'' (charge_body W (ac_input c) (xc_intent_id (ac_context c)))) = JStr (te_task_id env)"
proof -
  have "xc_intent_id (ac_context c) = te_task_id env"
    using assms(3)
  proof
    assume "c \<in> set (fst (executeIntent re vi ex ev it))"
    then show ?thesis using executeIntent_call(4) [of re vi ex ev it _ _ c] bridged_intent_id [OF assms(1)] assms(2) by (metis prod.collapse)
  next
    assume "c \<in> set (fst (executeApproved vi ex' ev' it))"
    then have "c \<in> set (fst (executeNormalizedIntent (ex_adapters ex') ev' (normalize it)))"
      by (auto simp: executeApproved_def Let_def split: if_splits)
    from executeNormalizedIntent_call [OF this] show ?thesis using bridged_intent_id [OF assms(1)] assms(2) by simp
  qed
  then show ?thesis by (simp add: payment_request_of_def charge_body_def obj_get_def)
qed

section \<open>Examples\<close>

definition sample_externals :: registry_externals where
  "sample_externals = \<lparr>xr_trust_anchors = [], xr_verifyTrustDomain = (\<lambda>_. True), xr_signAgentDescriptor = (\<lambda>d. d),
     xr_validateAgentDescriptor = (\<lambda>_. True), xr_verifyDescriptorSignature = (\<lambda>_. True)\<rparr>"

definition sample_options :: system_options where
  "sample_options = \<lparr>sys_tasks = InMemory, sys_receipts = RcMemory, sys_queue = \<lparr>qo_maxAttempts = None, qo_retryDelayMs = None,
     qo_maxRetryDelayMs = None, qo_retryJitterRatio = None, qo_maxConcurrent = None, qo_maxConcurrentPerTenant = None,
     qo_maxQueueDepth = None, qo_maxDeadLetters = None\<rparr>, sys_dead_letters = [], sys_policy = reference_policy, sys_policy_file = None,
     sys_adapters = [], sys_agents = []\<rparr>"

definition sample_payment :: intent where
  "sample_payment = \<lparr>it_capability = ''payment.execute'', it_input = sample_charge,
     it_requester = \<lparr>rq_type = RUser, rq_id = ''alice'', rq_tenant_id = None\<rparr>, it_constraints = None, it_metadata = None,
     it_risk_class = Some ''low''\<rparr>"

lemma sample_payment_accepted: "vr_valid (execute_validate (it_input sample_payment))"
  using sample_charge_accepted by (simp add: sample_payment_def)

lemma sample_payment_call:
  assumes "createReferenceApp X env D P None None opts = Inr app" and "sys_policy_file opts = None"
  shows "\<exists>c r. executeIntent re (\<lambda>_. \<lparr>vr_valid = True, vr_errors = []\<rparr>) (o_executor app) ev sample_payment = ([c], r)"
proof -
  have n: "it_input (normalize sample_payment) = it_input sample_payment" "it_capability (normalize sample_payment) = ''payment.execute''"
    "it_risk_class (normalize sample_payment) = Some ''low''"
    by (simp_all add: normalize_def sample_payment_def str_lower_def char_lower_def str_trim_def is_ws_def)
  have "pd_action (evaluate re (normalize sample_payment) reference_policy) = Allow"
    by (rule reference_lets_pay) (simp_all add: n, simp add: sample_payment_def sample_charge_def num_cmp_def obj_get_def)
  then show ?thesis
    by (simp add: executeIntent_def executeNormalizedIntent_def reference_parts [OF assms] createDefaultAdapters_def
        payment_execute_adapter_def sample_payment_accepted n Let_def split: sum.split)
qed


definition sample_payment_envelope :: task_envelope where
  "sample_payment_envelope = (sample_db_envelope ''pay'')\<lparr>te_constraints :=
     \<lparr>tc_common = JObj [(''max_amount'', jint 500), (''resource_id'', JStr ''v'')], tc_domain = JUndef, tc_rest = []\<rparr>\<rparr>"

definition sample_accepting :: executor where
  "sample_accepting = \<lparr>ex_policy = reference_policy, ex_adapters =
     [(''payment.execute'', \<lparr>xa_validate = (\<lambda>_. \<lparr>vr_valid = True, vr_errors = []\<rparr>), xa_execute = (\<lambda>_ _. Inl ''down'')\<rparr>)], ex_sign = None\<rparr>"

theorem charged_under_task_id_witness:
  "\<exists>c. c \<in> set (fst (executeApproved (\<lambda>_. \<lparr>vr_valid = True, vr_errors = []\<rparr>) sample_accepting \<lparr>ee_now = 0, ee_uuid = ''u''\<rparr>
       (mapEnvelopeToIntent (\<lambda>_. None) sample_payment_envelope ''payment.execute''))) \<and> xc_intent_id (ac_context c) = ''t''"
proof -
  let ?it = "mapEnvelopeToIntent (\<lambda>_. None) sample_payment_envelope ''payment.execute''"
  let ?out = "executeApproved (\<lambda>_. \<lparr>vr_valid = True, vr_errors = []\<rparr>) sample_accepting \<lparr>ee_now = 0, ee_uuid = ''u''\<rparr> ?it"
  have t: "te_task_id sample_payment_envelope = ''t''" by (simp add: sample_payment_envelope_def sample_db_envelope_def)
  have "it_capability (normalize ?it) = ''payment.execute''"
    by (simp add: normalize_def mapEnvelopeToIntent_def str_lower_def char_lower_def str_trim_def is_ws_def)
  then have "fst ?out \<noteq> []" by (simp add: executeApproved_def executeNormalizedIntent_def sample_accepting_def Let_def)
  then obtain c where c: "c \<in> set (fst ?out)" by (cases "fst ?out") auto
  have "te_task_id sample_payment_envelope \<noteq> []" using t by simp
  from charged_under_task_id [OF this refl UnI2 [OF c], THEN conjunct1] c t
  show ?thesis by auto
qed

end
