(* ===== verification/HttpAdapter.thy ===== *)
theory HttpAdapter
  imports Bridge JsNumber
begin

text \<open>
  \<open>adapters/http-adapter.ts\<close>: which requests the adapter accepts and what it makes of the
  answer. The URL parser, \<open>fetch\<close>, the decoder of the body's bytes, \<open>JSON.parse\<close> and the
  text of a number are parameters; bytes are characters.
\<close>

section \<open>Accepting\<close>

definition ALLOWED_METHODS :: "string list" where
  "ALLOWED_METHODS = [''GET'', ''POST'', ''PUT'', ''PATCH'', ''DELETE'', ''HEAD'']"

definition max_timeout_ms :: int where "max_timeout_ms = 60000"

definition default_blocked :: "string list" where
  "default_blocked =
     [''http://localhost'', ''http://127.'', ''http://10.'', ''http://0.'', ''http://172.16.'', ''http://172.17.'', ''http://172.18.'',
      ''http://172.19.'', ''http://172.20.'', ''http://172.21.'', ''http://172.22.'', ''http://172.23.'', ''http://172.24.'',
      ''http://172.25.'', ''http://172.26.'', ''http://172.27.'', ''http://172.28.'', ''http://172.29.'', ''http://172.30.'',
      ''http://172.31.'', ''http://192.168.'', ''http://169.254.'', ''http://[::'', ''https://localhost'', ''https://127.'',
      ''https://[::'', ''https://0.'']"

record http_adapter =
  ha_require_https :: bool
  ha_blocked_prefixes :: "string list"
  ha_max_body_bytes :: nat

definition new_http_adapter :: "bool option \<Rightarrow> string list option \<Rightarrow> nat option \<Rightarrow> http_adapter" where
  "new_http_adapter https blocked most =
     \<lparr>ha_require_https = (case https of Some b \<Rightarrow> b | None \<Rightarrow> True),
      ha_blocked_prefixes = (case blocked of Some bs \<Rightarrow> bs | None \<Rightarrow> default_blocked),
      ha_max_body_bytes = (case most of Some n \<Rightarrow> n | None \<Rightarrow> 1048576)\<rparr>"

definition blocked_hosts :: "string list" where
  "blocked_hosts = [''localhost'', ''0.0.0.0'', ''[::1]'', ''[::]'', ''127.0.0.1'']"

text \<open>The host name is what the URL parser makes of the text; \<open>None\<close> when it throws.\<close>

definition url_errors :: "(string \<Rightarrow> string option) \<Rightarrow> http_adapter \<Rightarrow> jsval \<Rightarrow> (string \<times> string) list" where
  "url_errors host A v =
     (case nonblank_str v of
        None \<Rightarrow> [(''url'', ''url is required and must be a non-empty string.'')]
      | Some s \<Rightarrow>
          (let url = str_trim s in
           (if ha_require_https A \<and> \<not> prefix ''https://'' url then [(''url'', ''Only https:// URLs are allowed.'')] else [])
           @ (case host url of
                None \<Rightarrow> [(''url'', ''url is not a valid URL.'')]
              | Some h \<Rightarrow>
                  if str_lower h \<in> set blocked_hosts then [(''url'', ''URL targets a blocked host.'')]
                  else if find (\<lambda>p. prefix (str_lower p) (str_lower url)) (ha_blocked_prefixes A) \<notin> {None, Some []}
                  then [(''url'', ''URL is blocked (matches blocked prefix).'')]
                  else [])))"

definition method_errors :: "jsval \<Rightarrow> (string \<times> string) list" where
  "method_errors v =
     (case v of
        JUndef \<Rightarrow> []
      | JStr s \<Rightarrow> if str_upper s \<in> set ALLOWED_METHODS then []
                  else [(''method'', ''method must be one of: '' @ join_with '', '' ALLOWED_METHODS @ ''.'')]
      | _ \<Rightarrow> [(''method'', ''method must be a string.'')])"

text \<open>\<open>null\<close> passes for an object, and listing its entries throws.\<close>

definition header_errors :: "jsval \<Rightarrow> (string \<times> string) list option" where
  "header_errors v =
     (case v of
        JUndef \<Rightarrow> Some []
      | JNull \<Rightarrow> None
      | JObj kvs \<Rightarrow> Some (map (\<lambda>(k, _). (''headers.'' @ k, ''Header values must be strings.'')) (filter (\<lambda>(_, x). \<not> is_str x) kvs))
      | _ \<Rightarrow> Some [(''headers'', ''headers must be a plain object.'')])"

definition timeout_errors :: "jsval \<Rightarrow> (string \<times> string) list" where
  "timeout_errors v =
     (case v of
        JUndef \<Rightarrow> []
      | JNum n \<Rightarrow> if num_le n (Fin 0) then [(''timeout_ms'', ''timeout_ms must be a positive number.'')]
                  else if num_lt (Fin (of_int max_timeout_ms)) n then [(''timeout_ms'', ''timeout_ms cannot exceed 60000ms.'')] else []
      | _ \<Rightarrow> [(''timeout_ms'', ''timeout_ms must be a positive number.'')])"

definition http_errors :: "(string \<Rightarrow> string option) \<Rightarrow> http_adapter \<Rightarrow> (string \<times> jsval) list \<Rightarrow> (string \<times> string) list option" where
  "http_errors host A inp =
     map_option (\<lambda>hs. url_errors host A (obj_get inp ''url'') @ method_errors (obj_get inp ''method'') @ hs
       @ (if obj_get inp ''body'' = JUndef \<or> is_str (obj_get inp ''body'') then [] else [(''body'', ''body must be a string.'')])
       @ timeout_errors (obj_get inp ''timeout_ms'')) (header_errors (obj_get inp ''headers''))"

text \<open>\<open>None\<close> when the check itself throws.\<close>

definition http_validate :: "(string \<Rightarrow> string option) \<Rightarrow> http_adapter \<Rightarrow> (string \<times> jsval) list \<Rightarrow> validation_result option" where
  "http_validate host A inp = map_option (\<lambda>es. \<lparr>vr_valid = (es = []), vr_errors = es\<rparr>) (http_errors host A inp)"

section \<open>Executing\<close>

record http_fetch =
  hf_url :: string
  hf_method :: string
  hf_headers :: "(string \<times> string) list"
  hf_body :: "string option"
  hf_timeout :: jsnum

record http_answer =
  hn_status :: int
  hn_status_text :: string
  hn_ok :: bool
  hn_url :: string
  hn_headers :: "(string \<times> string) list"
  hn_chunks :: "string list"

text \<open>A failure is a time-out or a message.\<close>

datatype fetch_failure = Aborted | FetchFailed string

record fetch_world =
  fw_fetch :: "http_fetch \<Rightarrow> fetch_failure + http_answer"
  fw_decode :: "string list \<Rightarrow> string"
  fw_json :: "string \<Rightarrow> jsval option"
  fw_number :: "jsnum \<Rightarrow> string"
  fw_elapsed :: int

definition num_min :: "jsnum \<Rightarrow> jsnum \<Rightarrow> jsnum" where
  "num_min a b = (if a = NaN \<or> b = NaN then NaN else if num_lt a b then a else b)"

definition text_entries :: "jsval \<Rightarrow> (string \<times> string) list" where
  "text_entries v = (case v of JObj kvs \<Rightarrow> map (\<lambda>(k, x). (k, case x of JStr s \<Rightarrow> s | _ \<Rightarrow> [])) kvs | _ \<Rightarrow> [])"

text \<open>The request of an accepted input; its own headers come last and overwrite the two of the adapter.\<close>

definition fetch_of :: "(string \<times> jsval) list \<Rightarrow> string \<Rightarrow> http_fetch" where
  "fetch_of inp intent_id =
     (let method = (case obj_get inp ''method'' of JStr s \<Rightarrow> str_upper s | _ \<Rightarrow> ''GET'') in
      \<lparr>hf_url = (case obj_get inp ''url'' of JStr s \<Rightarrow> str_trim s | _ \<Rightarrow> []), hf_method = method,
       hf_headers = foldl (\<lambda>m (k, v). jm_set k v m) [(''user-agent'', ''MAP/1.0 (http-adapter)''), (''x-map-intent-id'', intent_id)]
         (text_entries (obj_get inp ''headers'')),
       hf_body = (case obj_get inp ''body'' of JStr s \<Rightarrow> if method \<noteq> ''GET'' \<and> method \<noteq> ''HEAD'' then Some s else None | _ \<Rightarrow> None),
       hf_timeout = num_min (case obj_get inp ''timeout_ms'' of JNum n \<Rightarrow> n | _ \<Rightarrow> Fin 10000) (Fin (of_int max_timeout_ms))\<rparr>)"

text \<open>The loop over the chunks: those kept, the bytes read, and whether it stopped at the limit.\<close>

fun read_chunks :: "nat \<Rightarrow> nat \<Rightarrow> string list \<Rightarrow> string list \<times> nat \<times> bool" where
  "read_chunks most n [] = ([], n, False)"
| "read_chunks most n (c # cs) =
     (if n + length c > most then ([], n + length c, True)
      else (case read_chunks most (n + length c) cs of (ks, m, over) \<Rightarrow> (c # ks, m, over)))"

definition parsed_body :: "fetch_world \<Rightarrow> string list \<Rightarrow> jsval" where
  "parsed_body W ks = (case fw_json W (fw_decode W ks) of Some v \<Rightarrow> v | None \<Rightarrow> JStr (fw_decode W ks))"

definition http_output :: "fetch_world \<Rightarrow> nat \<Rightarrow> http_answer \<Rightarrow> (string \<times> jsval) list" where
  "http_output W most a =
     (case read_chunks most 0 (hn_chunks a) of (ks, n, over) \<Rightarrow>
        [(''status'', jint (hn_status a)), (''status_text'', JStr (hn_status_text a)), (''ok'', JBool (hn_ok a)), (''url'', JStr (hn_url a)),
         (''duration_ms'', jint (fw_elapsed W)), (''headers'', JObj (map (\<lambda>(k, v). (k, JStr v)) (hn_headers a))),
         (''body'', parsed_body W ks)]
        @ (if over then [(''truncated'', JBool True), (''bytes_read'', jint (int n))] else []))"

definition failure_message :: "fetch_world \<Rightarrow> jsnum \<Rightarrow> fetch_failure \<Rightarrow> string" where
  "failure_message W t e = (case e of Aborted \<Rightarrow> ''Request timed out after '' @ fw_number W t @ ''ms'' | FetchFailed m \<Rightarrow> m)"

text \<open>Nothing throws out of it: a failed request is a result. (The arrow of the summary is a character outside the model's strings.)\<close>

definition http_execute :: "http_adapter \<Rightarrow> fetch_world \<Rightarrow> (string \<times> jsval) list \<Rightarrow> string \<Rightarrow> execution_result" where
  "http_execute A W inp intent_id =
     (let q = fetch_of inp intent_id in
      case fw_fetch W q of
        Inr a \<Rightarrow>
          \<lparr>er_intent_id = intent_id, er_capability = ''http.request'', er_status = (if hn_ok a then Ok else Error),
           er_output = http_output W (ha_max_body_bytes A) a,
           er_summary = hf_method q @ '' '' @ hf_url q @ '' -> '' @ int_str (hn_status a) @ '' '' @ hn_status_text a @ '' ('' @ int_str (fw_elapsed W) @ ''ms)''\<rparr>
      | Inl e \<Rightarrow>
          \<lparr>er_intent_id = intent_id, er_capability = ''http.request'', er_status = Error,
           er_output = [(''error'', JStr (failure_message W (hf_timeout q) e)), (''timed_out'', JBool (e = Aborted)),
             (''duration_ms'', jint (fw_elapsed W)), (''url'', JStr (hf_url q)), (''method'', JStr (hf_method q))],
           er_summary = hf_method q @ '' '' @ hf_url q @ '' -> ERROR: '' @ failure_message W (hf_timeout q) e\<rparr>)"

section \<open>Limits of the body\<close>

lemma read_chunks_exact:
  "read_chunks most n cs = (ks, m, over) \<Longrightarrow>
   (if over then \<exists>c rest. cs = ks @ c # rest \<and> m = n + length (concat ks) + length c \<and> most < m
    else ks = cs \<and> m = n + length (concat cs)) \<and> (n \<le> most \<longrightarrow> n + length (concat ks) \<le> most)"
proof (induction cs arbitrary: n ks m over)
  case (Cons c cs)
  show ?case
  proof (cases "n + length c > most")
    case False
    obtain ks1 m1 over1 where r: "read_chunks most (n + length c) cs = (ks1, m1, over1)" by (cases "read_chunks most (n + length c) cs") auto
    then have "ks = c # ks1" "m = m1" "over = over1" using Cons.prems False by auto
    with Cons.IH [OF r] False show ?thesis by (cases over1) (fastforce simp: algebra_simps)+
  qed (use Cons.prems in auto)
qed auto

text \<open>Of the body of an answer the adapter shows the chunks from the start, up to its limit in bytes and complete if they fit;
  otherwise the result says that it was cut, and how many bytes had come by then.\<close>

theorem http_body_within_limit:
  assumes "fw_fetch W (fetch_of inp intent_id) = Inr a"
  shows "\<exists>ks rest. hn_chunks a = ks @ rest \<and> length (concat ks) \<le> ha_max_body_bytes A \<and>
    obj_get (er_output (http_execute A W inp intent_id)) ''body'' = parsed_body W ks \<and>
    (obj_get (er_output (http_execute A W inp intent_id)) ''truncated'' = (if rest = [] then JUndef else JBool True)) \<and>
    (rest \<noteq> [] \<longrightarrow> length (concat ks) + length (hd rest) > ha_max_body_bytes A \<and>
       obj_get (er_output (http_execute A W inp intent_id)) ''bytes_read'' = jint (int (length (concat ks) + length (hd rest))))"
proof -
  obtain ks m over where r: "read_chunks (ha_max_body_bytes A) 0 (hn_chunks a) = (ks, m, over)"
    by (cases "read_chunks (ha_max_body_bytes A) 0 (hn_chunks a)") auto
  have out: "er_output (http_execute A W inp intent_id) = http_output W (ha_max_body_bytes A) a"
    by (simp add: http_execute_def assms Let_def)
  have get: "obj_get (http_output W (ha_max_body_bytes A) a) ''body'' = parsed_body W ks"
    "obj_get (http_output W (ha_max_body_bytes A) a) ''truncated'' = (if over then JBool True else JUndef)"
    "over \<Longrightarrow> obj_get (http_output W (ha_max_body_bytes A) a) ''bytes_read'' = jint (int m)"
    by (auto simp: http_output_def r obj_get_def inherited_member_def inherited_names_def)
  define shown where "shown ks rest \<longleftrightarrow> hn_chunks a = ks @ rest \<and> length (concat ks) \<le> ha_max_body_bytes A \<and>
    obj_get (er_output (http_execute A W inp intent_id)) ''body'' = parsed_body W ks \<and>
    (obj_get (er_output (http_execute A W inp intent_id)) ''truncated'' = (if rest = [] then JUndef else JBool True)) \<and>
    (rest \<noteq> [] \<longrightarrow> length (concat ks) + length (hd rest) > ha_max_body_bytes A \<and>
       obj_get (er_output (http_execute A W inp intent_id)) ''bytes_read'' = jint (int (length (concat ks) + length (hd rest))))" for ks rest
  show ?thesis
  proof (cases over)
    case True
    then obtain c rest where "hn_chunks a = ks @ c # rest" "m = length (concat ks) + length c" "ha_max_body_bytes A < m"
        "length (concat ks) \<le> ha_max_body_bytes A"
      using read_chunks_exact [OF r] by auto
    then have "shown ks (c # rest)" using get True by (simp add: shown_def out)
    then show ?thesis unfolding shown_def by blast
  next
    case False
    then have "shown ks []" using read_chunks_exact [OF r] get by (auto simp: shown_def out)
    then show ?thesis unfolding shown_def by blast
  qed
qed

definition sample_fetch_world :: fetch_world where
  "sample_fetch_world = \<lparr>fw_fetch = (\<lambda>_. Inr \<lparr>hn_status = 200, hn_status_text = ''OK'', hn_ok = True, hn_url = ''u'',
     hn_headers = [], hn_chunks = [''ab'', ''cd'']\<rparr>), fw_decode = concat, fw_json = (\<lambda>_. None), fw_number = (\<lambda>_. []), fw_elapsed = 1\<rparr>"

theorem http_body_within_limit_witness:
  "\<exists>ks. length (concat ks) \<le> 3 \<and> parsed_body sample_fetch_world ks = JStr ''ab''"
proof -
  define A where "A = new_http_adapter None None (Some 3)"
  have "fw_fetch sample_fetch_world (fetch_of [] ''i'') = Inr \<lparr>hn_status = 200, hn_status_text = ''OK'', hn_ok = True, hn_url = ''u'',
      hn_headers = [], hn_chunks = [''ab'', ''cd'']\<rparr>" by (simp add: sample_fetch_world_def)
  from http_body_within_limit [OF this, of A] obtain ks where "length (concat ks) \<le> 3"
      "obj_get (er_output (http_execute A sample_fetch_world [] ''i'')) ''body'' = parsed_body sample_fetch_world ks"
    by (auto simp: A_def new_http_adapter_def)
  moreover have "obj_get (er_output (http_execute A sample_fetch_world [] ''i'')) ''body'' = JStr ''ab''"
    by (simp add: http_execute_def sample_fetch_world_def A_def new_http_adapter_def http_output_def parsed_body_def obj_get_def Let_def)
  ultimately show ?thesis by metis
qed

section \<open>Where a request may go\<close>

text \<open>What an accepted input asks for: an allowed method at a URL that is \<open>https\<close> and whose host is none of the listed names.\<close>

lemma accepted_parts:
  assumes "http_validate host A inp = Some v" and "vr_valid v"
  shows "url_errors host A (obj_get inp ''url'') = []" "method_errors (obj_get inp ''method'') = []"
  using assms by (auto simp: http_validate_def http_errors_def)

lemma accepted_url:
  assumes "url_errors host A v = []"
  shows "\<exists>s h. v = JStr s \<and> (ha_require_https A \<longrightarrow> prefix ''https://'' (str_trim s)) \<and> host (str_trim s) = Some h \<and> str_lower h \<notin> set blocked_hosts"
  using assms by (auto simp: url_errors_def nonblank_str_def Let_def split: jsval.splits if_splits option.splits)

lemma accepted_method:
  assumes "method_errors v = []"
  shows "(case v of JStr s \<Rightarrow> str_upper s | _ \<Rightarrow> ''GET'') \<in> set ALLOWED_METHODS"
  using assms by (cases v) (auto simp: method_errors_def ALLOWED_METHODS_def split: if_splits)

lemma accepted_request:
  assumes "http_validate host A inp = Some v" and "vr_valid v"
  shows "hf_method (fetch_of inp i) \<in> set ALLOWED_METHODS" "ha_require_https A \<Longrightarrow> prefix ''https://'' (hf_url (fetch_of inp i))"
    "\<exists>h. host (hf_url (fetch_of inp i)) = Some h \<and> str_lower h \<notin> set blocked_hosts"
proof -
  show "hf_method (fetch_of inp i) \<in> set ALLOWED_METHODS"
    using accepted_method [OF accepted_parts(2) [OF assms]] by (simp add: fetch_of_def Let_def)
  obtain s h where s: "obj_get inp ''url'' = JStr s" "ha_require_https A \<longrightarrow> prefix ''https://'' (str_trim s)" "host (str_trim s) = Some h"
      "str_lower h \<notin> set blocked_hosts"
    using accepted_url [OF accepted_parts(1) [OF assms]] by blast
  have "hf_url (fetch_of inp i) = str_trim s" by (simp add: fetch_of_def s(1) Let_def)
  then show "ha_require_https A \<Longrightarrow> prefix ''https://'' (hf_url (fetch_of inp i))"
    "\<exists>h. host (hf_url (fetch_of inp i)) = Some h \<and> str_lower h \<notin> set blocked_hosts" using s by simp_all
qed

text \<open>The private ranges are listed for \<open>http\<close> only, which is refused anyway: over \<open>https\<close> they are open.\<close>

lemma private_range_open:
  assumes "host ''https://10.0.0.1/'' = Some ''10.0.0.1''"
  shows "http_validate host (new_http_adapter None None None) [(''url'', JStr ''https://10.0.0.1/'')] = Some \<lparr>vr_valid = True, vr_errors = []\<rparr>"
  using assms
  by (simp add: http_validate_def http_errors_def header_errors_def url_errors_def method_errors_def timeout_errors_def nonblank_str_def
      new_http_adapter_def default_blocked_def blocked_hosts_def obj_get_def inherited_member_def inherited_names_def str_trim_def is_ws_def
      str_lower_def char_lower_def)

text \<open>An input can name itself another intent.\<close>

lemma intent_header_overwritten:
  assumes "obj_get inp ''headers'' = JObj [(''x-map-intent-id'', JStr other)]"
  shows "map_of (hf_headers (fetch_of inp i)) ''x-map-intent-id'' = Some other"
  using assms by (simp add: fetch_of_def text_entries_def Let_def)

end
