(* ===== verification/SdkPolicy.thy ===== *)
theory SdkPolicy
  imports MicroAgent JsNumber
begin

text \<open>
  \<open>packages/typescript/src/policy/index.ts\<close>: the policy engine of the SDK, with rules ordered by
  priority. A throw is \<open>None\<close>. \<open>String(v)\<close> of a value that is no string and \<open>new Date(v)\<close> are
  parameters; priorities are finite numbers.
\<close>

section \<open>Rules\<close>

datatype sdk_effect = EffAllow | EffDeny | EffDenyWithReason | EffChallenge

text \<open>The members \<open>operator\<close>, \<open>field\<close>, \<open>value\<close> and \<open>conditions\<close> of a condition.\<close>

datatype sdk_condition = SdkCondition string "string option" jsval "sdk_condition list option"

record sdk_rule =
  sr_id :: string
  sr_name :: string
  sr_target_capability :: "string option"
  sr_target_agent :: "string option"
  sr_target_risk :: "risk_level list option"
  sr_condition :: "sdk_condition option"
  sr_effect :: sdk_effect
  sr_reason :: "string option"
  sr_priority :: rat

record sdk_engine =
  se_rules :: "sdk_rule list"
  se_default :: sdk_effect

record sdk_context =
  sc_delegation_token_valid :: "bool option"
  sc_resource_in_scope :: "bool option"
  sc_time_window_valid :: "bool option"

record sdk_result =
  sp_effect :: sdk_effect
  sp_reason :: "string option"
  sp_approvals :: "string list option"
  sp_constraints_applied :: "(string \<times> string) list option"
  sp_logs :: "string list"

definition new_sdk_engine :: sdk_engine where "new_sdk_engine = \<lparr>se_rules = [], se_default = EffAllow\<rparr>"

text \<open>\<open>sort((a, b) => b.priority - a.priority)\<close> is stable.\<close>

definition addRule :: "sdk_rule \<Rightarrow> sdk_engine \<Rightarrow> sdk_engine" where
  "addRule r e = e\<lparr>se_rules := sort_key (\<lambda>r. - sr_priority r) (se_rules e @ [r])\<rparr>"

definition removeRule :: "string \<Rightarrow> sdk_engine \<Rightarrow> sdk_engine" where
  "removeRule i e = e\<lparr>se_rules := filter (\<lambda>r. sr_id r \<noteq> i) (se_rules e)\<rparr>"

definition clearRules :: "sdk_engine \<Rightarrow> sdk_engine" where "clearRules e = e\<lparr>se_rules := []\<rparr>"

definition setDefaultEffect :: "sdk_effect \<Rightarrow> sdk_engine \<Rightarrow> sdk_engine" where "setDefaultEffect f e = e\<lparr>se_default := f\<rparr>"

section \<open>Conditions\<close>

text \<open>\<open>Number(v)\<close>\<close>

definition to_number :: "(jsval \<Rightarrow> string) \<Rightarrow> jsval \<Rightarrow> jsnum" where
  "to_number str v = (case v of JUndef \<Rightarrow> NaN | JNull \<Rightarrow> Fin 0 | JBool b \<Rightarrow> Fin (if b then 1 else 0) | JNum n \<Rightarrow> n
     | JStr s \<Rightarrow> js_number s | _ \<Rightarrow> js_number (str v))"

text \<open>Walking a path: the operator \<open>in\<close> and the member agree, and what is no object has no members.\<close>

definition getNestedValue :: "jsval \<Rightarrow> string \<Rightarrow> jsval" where
  "getNestedValue obj path = getFieldValueFromParts (split_on CHR ''.'' path) obj"

definition sdk_requester_str :: "requester_type \<Rightarrow> string" where
  "sdk_requester_str t = (case t of User \<Rightarrow> ''user'' | Service \<Rightarrow> ''service'' | Agent \<Rightarrow> ''agent'')"

definition sdk_getFieldValue :: "string \<Rightarrow> task_envelope \<Rightarrow> sdk_context \<Rightarrow> jsval" where
  "sdk_getFieldValue field env ctx =
     (if field = ''risk_class'' then JStr (risk_str (te_risk_class env))
      else if field = ''target_agent'' then JStr (te_target_agent env)
      else if field = ''requester.type'' then JStr (sdk_requester_str (ri_type (te_requester env)))
      else if field = ''requester.id'' then JStr (ri_id (te_requester env))
      else if field = ''requester.tenant_id'' then jopt JStr (ri_tenant_id (te_requester env))
      else if field = ''delegation_token_valid'' then JBool (sc_delegation_token_valid ctx = Some True)
      else if field = ''resource_in_scope'' then JBool (sc_resource_in_scope ctx = Some True)
      else if field = ''time_window_valid'' then JBool (sc_time_window_valid ctx \<noteq> Some False)
      else if prefix ''constraints.'' field then getNestedValue (constraints_json (te_constraints env)) (drop 12 field)
      else JUndef)"

fun every :: "bool option list \<Rightarrow> bool option" where
  "every [] = Some True"
| "every (None # bs) = None"
| "every (Some b # bs) = (if b then every bs else Some False)"

fun some_true :: "bool option list \<Rightarrow> bool option" where
  "some_true [] = Some False"
| "some_true (None # bs) = None"
| "some_true (Some b # bs) = (if b then Some True else some_true bs)"

definition contains_value :: "jsval \<Rightarrow> jsval \<Rightarrow> bool" where
  "contains_value field v = (case field of
      JStr s \<Rightarrow> (case v of JStr t \<Rightarrow> str_includes t s | _ \<Rightarrow> False)
    | JArr xs \<Rightarrow> js_includes xs v
    | _ \<Rightarrow> False)"

text \<open>The operators that read a field; a missing field throws.\<close>

definition compare_field :: "(jsval \<Rightarrow> string) \<Rightarrow> string \<Rightarrow> jsval \<Rightarrow> jsval \<Rightarrow> bool" where
  "compare_field str op x v =
     (if op = ''eq'' then strict_eq x v
      else if op = ''neq'' then \<not> strict_eq x v
      else if op = ''gt'' then num_lt (to_number str v) (to_number str x)
      else if op = ''lt'' then num_lt (to_number str x) (to_number str v)
      else if op = ''gte'' then num_le (to_number str v) (to_number str x)
      else if op = ''lte'' then num_le (to_number str x) (to_number str v)
      else contains_value x v)"

fun sdk_evaluateCondition :: "(jsval \<Rightarrow> string) \<Rightarrow> task_envelope \<Rightarrow> sdk_context \<Rightarrow> sdk_condition \<Rightarrow> bool option" where
  "sdk_evaluateCondition str env ctx (SdkCondition op field v cs) =
     (if op = ''and'' then (case cs of None \<Rightarrow> None | Some xs \<Rightarrow> every (map (sdk_evaluateCondition str env ctx) xs))
      else if op = ''or'' then (case cs of None \<Rightarrow> None | Some xs \<Rightarrow> some_true (map (sdk_evaluateCondition str env ctx) xs))
      else if op = ''not'' then
        (case cs of None \<Rightarrow> None | Some xs \<Rightarrow>
           (case map (sdk_evaluateCondition str env ctx) xs of [] \<Rightarrow> None | b # _ \<Rightarrow> map_option (\<lambda>b. \<not> b) b))
      else if op = ''in'' then
        (case v of JArr xs \<Rightarrow> map_option (\<lambda>f. js_includes xs (sdk_getFieldValue f env ctx)) field | _ \<Rightarrow> Some False)
      else if op \<in> {''eq'', ''neq'', ''gt'', ''lt'', ''gte'', ''lte'', ''contains''}
      then map_option (\<lambda>f. compare_field str op (sdk_getFieldValue f env ctx) v) field
      else Some False)"

section \<open>Evaluation\<close>

definition envelope_capability :: "task_envelope \<Rightarrow> jsval" where
  "envelope_capability env = js_prop (tc_common (te_constraints env)) ''capability''"

definition ruleApplies :: "sdk_rule \<Rightarrow> task_envelope \<Rightarrow> bool" where
  "ruleApplies r env \<longleftrightarrow>
     (case sr_target_risk r of None \<Rightarrow> True | Some ks \<Rightarrow> ks = [] \<or> te_risk_class env \<in> set ks) \<and>
     (case sr_target_capability r of None \<Rightarrow> True | Some c \<Rightarrow> c = [] \<or> envelope_capability env = JStr c) \<and>
     (case sr_target_agent r of None \<Rightarrow> True | Some a \<Rightarrow> a = [] \<or> a = te_target_agent env)"

definition mergeConstraints :: "sdk_rule \<Rightarrow> (string \<times> string) list" where
  "mergeConstraints r = (if sr_reason r = None \<or> sr_reason r = Some [] then []
     else [(''policy_rule_id'', sr_id r), (''policy_rule_name'', sr_name r)])"

definition effect_str :: "sdk_effect \<Rightarrow> string" where
  "effect_str f = (case f of EffAllow \<Rightarrow> ''allow'' | EffDeny \<Rightarrow> ''deny'' | EffDenyWithReason \<Rightarrow> ''deny_with_reason'' | EffChallenge \<Rightarrow> ''challenge'')"

definition given_reason :: "sdk_rule \<Rightarrow> string \<Rightarrow> string option" where
  "given_reason r d = (case sr_reason r of Some (c # s) \<Rightarrow> Some (c # s) | _ \<Rightarrow> Some (d @ sr_name r))"

definition rule_result :: "sdk_rule \<Rightarrow> string list \<Rightarrow> sdk_result" where
  "rule_result r logs = (case sr_effect r of
      EffAllow \<Rightarrow> \<lparr>sp_effect = EffAllow, sp_reason = None, sp_approvals = None, sp_constraints_applied = Some (mergeConstraints r), sp_logs = logs\<rparr>
    | EffChallenge \<Rightarrow> \<lparr>sp_effect = EffChallenge, sp_reason = given_reason r ''Challenge required by rule: '',
        sp_approvals = Some [''human_review''], sp_constraints_applied = None, sp_logs = logs\<rparr>
    | f \<Rightarrow> \<lparr>sp_effect = f, sp_reason = given_reason r ''Denied by rule: '', sp_approvals = None, sp_constraints_applied = None, sp_logs = logs\<rparr>)"

definition default_result :: "sdk_engine \<Rightarrow> string list \<Rightarrow> sdk_result" where
  "default_result e logs = \<lparr>sp_effect = se_default e, sp_reason = None, sp_approvals = None, sp_constraints_applied = None, sp_logs = logs\<rparr>"

text \<open>The loop over the applicable rules; each effect returns, so the first rule whose condition is met decides.\<close>

fun try_rules :: "(jsval \<Rightarrow> string) \<Rightarrow> sdk_engine \<Rightarrow> task_envelope \<Rightarrow> sdk_context \<Rightarrow> sdk_rule list \<Rightarrow> string list \<Rightarrow> sdk_result option" where
  "try_rules str e env ctx [] logs = Some (default_result e logs)"
| "try_rules str e env ctx (r # rs) logs =
     (let logs1 = logs @ [''Evaluating rule: '' @ sr_name r @ '' ('' @ sr_id r @ '')''] in
      case (case sr_condition r of None \<Rightarrow> Some True | Some k \<Rightarrow> sdk_evaluateCondition str env ctx k) of
        None \<Rightarrow> None
      | Some False \<Rightarrow> try_rules str e env ctx rs (logs1 @ [''Rule '' @ sr_name r @ '' condition not met''])
      | Some True \<Rightarrow> Some (rule_result r (logs1 @ [''Rule '' @ sr_name r @ '' matched with effect: '' @ effect_str (sr_effect r)])))"

definition sdk_evaluate :: "(jsval \<Rightarrow> string) \<Rightarrow> sdk_engine \<Rightarrow> task_envelope \<Rightarrow> sdk_context \<Rightarrow> sdk_result option" where
  "sdk_evaluate str e env ctx =
     (let cap = envelope_capability env;
          logs = [''Evaluating policy for task '' @ te_task_id env,
            ''Risk class: '' @ risk_str (te_risk_class env) @ '', Capability: ''
              @ (if js_truthy cap then (case cap of JStr s \<Rightarrow> s | _ \<Rightarrow> str cap) else ''unknown'')];
          rs = filter (\<lambda>r. ruleApplies r env) (se_rules e)
      in if rs = [] then Some (default_result e (logs @ [''No applicable rules found, applying default effect'']))
         else try_rules str e env ctx rs logs)"

section \<open>Ready-made rules and checks\<close>

definition risk_rule :: "string \<Rightarrow> string \<Rightarrow> risk_level list \<Rightarrow> sdk_effect \<Rightarrow> string option \<Rightarrow> rat \<Rightarrow> sdk_rule" where
  "risk_rule i name ks f reason p = \<lparr>sr_id = i, sr_name = name, sr_target_capability = None, sr_target_agent = None, sr_target_risk = Some ks,
     sr_condition = None, sr_effect = f, sr_reason = reason, sr_priority = p\<rparr>"

definition createRiskBasedPolicy :: "sdk_rule list" where
  "createRiskBasedPolicy =
     [risk_rule ''high-risk-approval'' ''High Risk Requires Approval'' [High, Critical] EffChallenge
        (Some ''High risk operations require human approval'') 100,
      risk_rule ''low-risk-allow'' ''Low Risk Allowed'' [Low] EffAllow None 50,
      risk_rule ''medium-risk-moderate'' ''Medium Risk Conditional'' [Medium] EffAllow None 75]"

definition amount_error :: "(jsval \<Rightarrow> string) \<Rightarrow> jsval \<Rightarrow> string list" where
  "amount_error str v = (if v \<noteq> JUndef \<and> (to_number str v = NaN \<or> num_lt (to_number str v) (Fin 0))
     then [''max_amount must be a non-negative number''] else [])"

definition listed_error :: "string list \<Rightarrow> string \<Rightarrow> jsval \<Rightarrow> string list" where
  "listed_error valid message v = (if js_truthy v \<and> v \<notin> JStr ` set valid then [message] else [])"

definition window_error :: "(jsval \<Rightarrow> ms option) \<Rightarrow> jsval \<Rightarrow> string list" where
  "window_error date w =
     (if js_truthy w \<and> js_truthy (js_prop w ''start'') \<and> js_truthy (js_prop w ''end'')
      then (case (date (js_prop w ''start''), date (js_prop w ''end'')) of
              (Some a, Some b) \<Rightarrow> if a \<ge> b then [''time_window.start must be before time_window.end''] else []
            | _ \<Rightarrow> [''time_window must contain valid ISO 8601 timestamps''])
      else [])"

definition evaluateTaskConstraints :: "(jsval \<Rightarrow> string) \<Rightarrow> (jsval \<Rightarrow> ms option) \<Rightarrow> (string \<times> jsval) list \<Rightarrow> string list" where
  "evaluateTaskConstraints str date cs =
     (let common = obj_get cs ''common'' in
      if js_truthy common
      then amount_error str (js_prop common ''max_amount'')
        @ listed_error [''development'', ''staging'', ''production''] ''environment must be development, staging, or production''
            (js_prop common ''environment'')
        @ listed_error [''none'', ''basic'', ''strict''] ''redaction_level must be none, basic, or strict'' (js_prop common ''redaction_level'')
        @ window_error date (js_prop common ''time_window'')
      else [])"

section \<open>The order of the rules\<close>

datatype sdk_op = AddRule sdk_rule | RemoveRule string | ClearRules | SetDefault sdk_effect

fun engine_step :: "sdk_engine \<Rightarrow> sdk_op \<Rightarrow> sdk_engine" where
  "engine_step e (AddRule r) = addRule r e"
| "engine_step e (RemoveRule i) = removeRule i e"
| "engine_step e ClearRules = clearRules e"
| "engine_step e (SetDefault f) = setDefaultEffect f e"

text \<open>The specification keeps the rules in the order they were added.\<close>

fun rules_step :: "sdk_rule list \<Rightarrow> sdk_op \<Rightarrow> sdk_rule list" where
  "rules_step xs (AddRule r) = xs @ [r]"
| "rules_step xs (RemoveRule i) = filter (\<lambda>r. sr_id r \<noteq> i) xs"
| "rules_step xs ClearRules = []"
| "rules_step xs (SetDefault f) = xs"

abbreviation by_priority :: "sdk_rule list \<Rightarrow> sdk_rule list" where
  "by_priority \<equiv> sort_key (\<lambda>r. - sr_priority r)"

lemma sort_key_again: "sort_key f (sort_key f xs @ [x]) = sort_key f (xs @ [x])"
proof (rule properties_for_sort_key)
  show "mset (sort_key f (xs @ [x])) = mset (sort_key f xs @ [x])" by simp
  show "filter (\<lambda>y. f k = f y) (sort_key f (xs @ [x])) = filter (\<lambda>y. f k = f y) (sort_key f xs @ [x])" for k
    using sort_key_stable [of f "f k" "xs @ [x]"] sort_key_stable [of f "f k" xs] by (simp add: eq_commute del: sort_key_simps)
qed simp

lemma engine_refines_step: "se_rules e = by_priority xs \<Longrightarrow> se_rules (engine_step e a) = by_priority (rules_step xs a)"
  by (cases a) (simp_all add: addRule_def removeRule_def clearRules_def setDefaultEffect_def sort_key_again filter_sort)

lemma engine_refines: "se_rules e = by_priority xs \<Longrightarrow> se_rules (foldl engine_step e as) = by_priority (foldl rules_step xs as)"
  by (induction as arbitrary: e xs) (simp_all add: engine_refines_step del: engine_step.simps rules_step.simps)

section \<open>Which rule decides\<close>

definition met :: "(jsval \<Rightarrow> string) \<Rightarrow> task_envelope \<Rightarrow> sdk_context \<Rightarrow> sdk_rule \<Rightarrow> bool option" where
  "met str env ctx r = (if ruleApplies r env
     then (case sr_condition r of None \<Rightarrow> Some True | Some k \<Rightarrow> sdk_evaluateCondition str env ctx k) else Some False)"

lemma find_filter: "find P xs = (case filter P xs of [] \<Rightarrow> None | x # _ \<Rightarrow> Some x)"
  by (induction xs) auto

lemma try_rules_find:
  "list_all (\<lambda>r. ruleApplies r env \<and> met str env ctx r \<noteq> None) rs \<Longrightarrow>
   \<exists>logs'. try_rules str e env ctx rs logs =
     Some (case find (\<lambda>r. met str env ctx r = Some True) rs of None \<Rightarrow> default_result e logs' | Some r \<Rightarrow> rule_result r logs')"
proof (induction rs arbitrary: logs)
  case (Cons r rs)
  then obtain b where b: "(case sr_condition r of None \<Rightarrow> Some True | Some k \<Rightarrow> sdk_evaluateCondition str env ctx k) = Some b"
      "met str env ctx r = Some b"
    by (auto simp: met_def)
  show ?case
  proof (cases b)
    case True
    then show ?thesis using b by (auto simp: Let_def)
  next
    case False
    then show ?thesis using b Cons.IH Cons.prems by (simp add: Let_def)
  qed
qed auto

lemma met_applies: "met str env ctx r = Some True \<Longrightarrow> ruleApplies r env"
  by (auto simp: met_def split: if_splits)

lemma evaluate_decides:
  assumes "list_all (\<lambda>r. met str env ctx r \<noteq> None) (se_rules e)"
  shows "\<exists>logs. sdk_evaluate str e env ctx =
    Some (case filter (\<lambda>r. met str env ctx r = Some True) (se_rules e) of [] \<Rightarrow> default_result e logs | r # _ \<Rightarrow> rule_result r logs)"
proof -
  let ?rs = "filter (\<lambda>r. ruleApplies r env) (se_rules e)" and ?M = "\<lambda>r. met str env ctx r = Some True"
  have M: "filter ?M ?rs = filter ?M (se_rules e)" using met_applies by (auto intro!: filter_cong)
  have "list_all (\<lambda>r. ruleApplies r env \<and> met str env ctx r \<noteq> None) ?rs" using assms by (auto simp: list_all_iff)
  from try_rules_find [OF this, of e] show ?thesis
    unfolding find_filter M
  proof -
    assume t: "\<And>logs. \<exists>logs'. try_rules str e env ctx ?rs logs =
      Some (case case filter ?M (se_rules e) of [] \<Rightarrow> None | x # _ \<Rightarrow> Some x of None \<Rightarrow> default_result e logs' | Some r \<Rightarrow> rule_result r logs')"
    show ?thesis
    proof (cases "?rs = []")
      case True
      then have "filter ?M (se_rules e) = []" using M by simp
      then show ?thesis using True by (auto simp: sdk_evaluate_def Let_def)
    next
      case False
      have "(case case filter ?M (se_rules e) of [] \<Rightarrow> None | x # _ \<Rightarrow> Some x of None \<Rightarrow> default_result e l | Some r \<Rightarrow> rule_result r l)
          = (case filter ?M (se_rules e) of [] \<Rightarrow> default_result e l | r # _ \<Rightarrow> rule_result r l)" for l
        by (cases "filter ?M (se_rules e)") simp_all
      then show ?thesis using t False by (simp add: sdk_evaluate_def Let_def)
    qed
  qed
qed

lemma sorted_head:
  assumes "sort_key f xs = r # rest"
  shows "r \<in> set xs" "\<forall>x \<in> set xs. f r \<le> f x" "hd (filter (\<lambda>x. f x = f r) xs) = r"
proof -
  have s: "set (r # rest) = set xs" by (metis assms set_sort)
  then show "r \<in> set xs" by auto
  have "sorted (map f (r # rest))" by (metis assms sorted_sort_key)
  then show "\<forall>x \<in> set xs. f r \<le> f x" using s by auto
  show "hd (filter (\<lambda>x. f x = f r) xs) = r" unfolding sort_key_stable [of f "f r" xs, symmetric] assms by simp
qed

text \<open>C28: Whatever rules were added and removed before: the rule that decides is, among those that apply and whose condition is met, one
  of the highest priority, and of those the one added first; when there is none the default effect holds.\<close>

theorem sdk_highest_priority_decides:
  assumes "e = foldl engine_step new_sdk_engine ops" and "added = foldl rules_step [] ops"
    and "list_all (\<lambda>r. met str env ctx r \<noteq> None) added"
  shows "\<exists>result. sdk_evaluate str e env ctx = Some result \<and>
    (if list_ex (\<lambda>r. met str env ctx r = Some True) added
     then (\<exists>r. r = hd (filter (\<lambda>x. met str env ctx x = Some True \<and> sr_priority x = sr_priority r) added) \<and> r \<in> set added \<and>
            (\<forall>x \<in> set added. met str env ctx x = Some True \<longrightarrow> sr_priority x \<le> sr_priority r) \<and> sp_effect result = sr_effect r)
     else sp_effect result = se_default e)"
proof -
  let ?M = "\<lambda>r. met str env ctx r = Some True"
  have rules: "se_rules e = by_priority added"
    unfolding assms(1,2) by (rule engine_refines) (simp add: new_sdk_engine_def)
  have "list_all (\<lambda>r. met str env ctx r \<noteq> None) (se_rules e)" using assms(3) by (simp add: rules list_all_iff)
  from evaluate_decides [OF this] obtain logs where ev: "sdk_evaluate str e env ctx =
      Some (case by_priority (filter ?M added) of [] \<Rightarrow> default_result e logs | r # _ \<Rightarrow> rule_result r logs)"
    unfolding rules filter_sort by blast
  show ?thesis
  proof (cases "by_priority (filter ?M added)")
    case Nil
    then have "filter ?M added = []" by (metis set_empty set_sort)
    then have "\<not> list_ex ?M added" by (auto simp: list_ex_iff filter_empty_conv)
    then show ?thesis using ev Nil by (simp add: default_result_def)
  next
    case (Cons r rest)
    note h = sorted_head [OF Cons]
    have w: "r = hd (filter (\<lambda>x. ?M x \<and> sr_priority x = sr_priority r) added)"
      using h(3) by (simp add: conj_commute)
    have "r \<in> set added" "?M r" using h(1) by auto
    moreover have "\<forall>x \<in> set added. ?M x \<longrightarrow> sr_priority x \<le> sr_priority r" using h(2) by auto
    moreover have "sp_effect (rule_result r logs) = sr_effect r" by (simp add: rule_result_def split: sdk_effect.split)
    ultimately have A: "\<exists>q. q = hd (filter (\<lambda>x. ?M x \<and> sr_priority x = sr_priority q) added) \<and> q \<in> set added \<and>
        (\<forall>x \<in> set added. ?M x \<longrightarrow> sr_priority x \<le> sr_priority q) \<and> sp_effect (rule_result r logs) = sr_effect q"
      using w by blast
    have B: "list_ex ?M added" using \<open>r \<in> set added\<close> \<open>?M r\<close> by (auto simp: list_ex_iff)
    show ?thesis unfolding ev Cons list.case if_P [OF B] using A by (intro exI [of _ "rule_result r logs"] conjI refl)
  qed
qed

definition sample_deny :: sdk_rule where
  "sample_deny = risk_rule ''d'' ''Deny low'' [Low] EffDeny None 1"

theorem sdk_highest_priority_decides_witness:
  "\<exists>result. sdk_evaluate (\<lambda>_. []) (foldl engine_step new_sdk_engine [AddRule sample_deny]) (sample_db_envelope ''x'')
     \<lparr>sc_delegation_token_valid = None, sc_resource_in_scope = None, sc_time_window_valid = None\<rparr> = Some result \<and> sp_effect result = EffDeny"
proof -
  have m: "met str (sample_db_envelope ''x'') ctx sample_deny = Some True" for str ctx
    by (simp add: met_def ruleApplies_def sample_deny_def risk_rule_def sample_db_envelope_def)
  have added: "[sample_deny] = foldl rules_step [] [AddRule sample_deny]" by simp
  have f: "sr_effect sample_deny = EffDeny" by (simp add: sample_deny_def risk_rule_def)
  show ?thesis
    using sdk_highest_priority_decides [OF refl added, of "\<lambda>_. []" "sample_db_envelope ''x''"
        "\<lparr>sc_delegation_token_valid = None, sc_resource_in_scope = None, sc_time_window_valid = None\<rparr>"] m f by auto
qed

section \<open>The ready-made rules\<close>

definition risk_engine :: sdk_engine where
  "risk_engine = foldl engine_step new_sdk_engine (map AddRule createRiskBasedPolicy)"

lemma risk_engine_rules: "risk_engine = \<lparr>se_rules = [createRiskBasedPolicy ! 0, createRiskBasedPolicy ! 2, createRiskBasedPolicy ! 1], se_default = EffAllow\<rparr>"
  by (simp add: risk_engine_def createRiskBasedPolicy_def addRule_def new_sdk_engine_def risk_rule_def)

text \<open>With the ready-made rules a task is challenged exactly if its risk is high or critical, and let through otherwise.\<close>

lemma risk_based_meaning:
  "map_option sp_effect (sdk_evaluate str risk_engine env ctx) = Some (if te_risk_class env \<in> {High, Critical} then EffChallenge else EffAllow)"
  by (cases "te_risk_class env")
    (simp_all add: risk_engine_rules createRiskBasedPolicy_def risk_rule_def sdk_evaluate_def ruleApplies_def rule_result_def Let_def)

section \<open>What no rule sees\<close>

text \<open>A rule for a capability looks for it in the common constraints, where nothing else of the protocol puts it: without it the rule
  is passed over, and the engine allows by default.\<close>

lemma capability_rule_missed:
  assumes "sr_target_capability r = Some (c # cs)" and "envelope_capability env = JUndef"
  shows "sdk_evaluate str (addRule r new_sdk_engine) env ctx \<noteq> None \<and>
    map_option sp_effect (sdk_evaluate str (addRule r new_sdk_engine) env ctx) = Some EffAllow"
  using assms by (simp add: sdk_evaluate_def addRule_def new_sdk_engine_def ruleApplies_def default_result_def Let_def)

end
