(* ===== verification/MicroReceipts.thy ===== *)
theory MicroReceipts
  imports MicroAgent SignedReceipts
begin

text \<open>
  The other half of \<open>runtime/micro-agent.ts\<close>: the results and signed receipts an agent
  builds for a task it was let run. A receipt is the object that is signed and sent, so a
  member that is undefined is there until it is written as JSON (\<open>json_kept\<close>).
\<close>

section \<open>What the envelope says\<close>

definition metadata_member :: "task_envelope \<Rightarrow> string \<Rightarrow> jsval" where
  "metadata_member env k = (case te_metadata env of None \<Rightarrow> JUndef | Some m \<Rightarrow> obj_get m k)"

definition requested_version :: "task_envelope \<Rightarrow> jsval" where
  "requested_version env = jopt JStr (metadata_str env ''requested_schema_version'')"

definition executed_version :: "task_envelope \<Rightarrow> jsval" where
  "executed_version env = jopt JStr (case metadata_str env ''executed_schema_version'' of
     Some v \<Rightarrow> Some v | None \<Rightarrow> metadata_str env ''schema_version'')"

text \<open>A list is an object too and is passed over.\<close>

definition metadata_negotiation :: "task_envelope \<Rightarrow> jsval" where
  "metadata_negotiation env = (case metadata_member env ''negotiation'' of JObj kvs \<Rightarrow> JObj kvs | _ \<Rightarrow> JUndef)"

definition delivery_text :: "jsval \<Rightarrow> string \<Rightarrow> string" where
  "delivery_text side d = (if js_prop side ''delivery_mode'' = JStr ''async'' then ''async'' else d)"

definition micro_resolveNegotiation :: "task_envelope \<Rightarrow> jsval" where
  "micro_resolveNegotiation env =
     (let n = metadata_negotiation env;
          asked = delivery_text (js_prop n ''requested'') ''sync'';
          mode = JStr (visibility_str (te_output_mode env))
      in JObj ([(''requested'', JObj [(''schema_version'', requested_version env), (''output_mode'', mode), (''delivery_mode'', JStr asked)]),
                (''selected'', JObj [(''schema_version'', executed_version env),
                   (''output_mode'', js_coalesce (js_prop (js_prop n ''selected'') ''output_mode'') mode),
                   (''delivery_mode'', JStr (delivery_text (js_prop n ''selected'') asked))])]
           @ (if js_truthy (js_prop n ''provider_actions'') then [(''provider_actions'', js_prop n ''provider_actions'')] else [])))"

section \<open>Results and receipts\<close>

definition micro_buildResult :: "task_envelope \<Rightarrow> task_status \<Rightarrow> (string \<times> jsval) list \<Rightarrow> string option \<Rightarrow> (string \<times> jsval) list" where
  "micro_buildResult env status out summary =
     [(''task_id'', JStr (te_task_id env)), (''status'', JStr (task_status_str status)), (''summary'', jopt JStr summary),
      (''structured_output'', JObj out), (''negotiated_schema_version'', executed_version env),
      (''requested_schema_version'', requested_version env), (''executed_schema_version'', executed_version env),
      (''negotiation'', micro_resolveNegotiation env), (''followup_required'', JBool False),
      (''redactions_applied'', jstrs [''credentials'', ''internal_reasoning''])]"

definition micro_tenant :: "task_envelope \<Rightarrow> jsval" where
  "micro_tenant env = (case ri_tenant_id (te_requester env) of Some t \<Rightarrow> if str_trim t \<noteq> [] then JStr t else JUndef | None \<Rightarrow> JUndef)"

definition micro_unsigned :: "ms \<Rightarrow> string \<Rightarrow> task_envelope \<Rightarrow> string \<Rightarrow> string \<Rightarrow> string list \<Rightarrow> string option \<Rightarrow> (string \<times> jsval) list" where
  "micro_unsigned now agent env taken touched checks approval =
     (let act = receipt_action_of taken in
      [(''receipt_id'', JStr (''receipt:'' @ te_task_id env)), (''intent_id'', JStr (te_task_id env)),
       (''capability'', JStr (case metadata_str env ''capability'' of Some c \<Rightarrow> c | None \<Rightarrow> te_intent env)),
       (''action'', JStr (receipt_action_str act)), (''status'', JStr (if act = Executed then ''ok'' else ''error'')),
       (''task_id'', JStr (te_task_id env)), (''tenant_id'', micro_tenant env),
       (''request_id'', jopt JStr (metadata_str env ''request_id'')), (''agent_id'', JStr agent), (''resource_touched'', JStr touched),
       (''policy_checks'', jstrs checks), (''approval_used'', jopt JStr approval), (''timestamp'', JStr (toISOString now)),
       (''result_hash'', JStr (''sha256:'' @ te_task_id env)), (''requested_schema_version'', requested_version env),
       (''executed_schema_version'', executed_version env), (''negotiation'', micro_resolveNegotiation env)])"

text \<open>\<open>receiptSigningPayload\<close> on the object: the first six members as they are, the others or \<open>null\<close>.\<close>

definition object_payload :: "(string \<times> jsval) list \<Rightarrow> jsval" where
  "object_payload r = JObj
     (map (\<lambda>k. (k, obj_get r k)) [''receipt_id'', ''intent_id'', ''capability'', ''action'', ''timestamp'', ''status'']
      @ map (\<lambda>k. (k, js_coalesce (obj_get r k) JNull))
          [''task_id'', ''tenant_id'', ''request_id'', ''agent_id'', ''resource_touched'', ''policy_checks'', ''approval_used'', ''result_hash'',
           ''requested_schema_version'', ''executed_schema_version'', ''negotiation''])"

definition micro_buildReceipt :: "signing_world \<Rightarrow> ms \<Rightarrow> string \<Rightarrow> task_envelope \<Rightarrow> string \<Rightarrow> string \<Rightarrow> string list \<Rightarrow> string option
    \<Rightarrow> (string \<times> jsval) list signing" where
  "micro_buildReceipt W now agent env taken touched checks approval st =
     (let r = micro_unsigned now agent env taken touched checks approval in
      case sign_artifact W now ''execution_receipt'' ''receipt'' None (object_payload r) st of
        (Inl e, st1) \<Rightarrow> (Inl e, st1)
      | (Inr sig, st1) \<Rightarrow> (Inr (r @ [(''signature'', JStr sig)]), st1))"

section \<open>What the receipt of an agent is worth\<close>

text \<open>The check of a receipt that arrives as an object.\<close>

definition object_verifies :: "signing_world \<Rightarrow> (string \<times> jsval) list \<Rightarrow> bool" where
  "object_verifies W r \<longleftrightarrow> (\<exists>sig. obj_get r ''signature'' = JStr sig \<and>
     fst (verifyCompactSignature W sig (object_payload r) (Some ''receipt'') empty_signing) = Inr True)"

lemma payload_of_signed: "object_payload (micro_unsigned now agent env a t cs ap @ [(''signature'', JStr sig)]) =
    object_payload (micro_unsigned now agent env a t cs ap)"
  by (simp add: object_payload_def micro_unsigned_def Let_def obj_get_def)

lemma signature_of_signed: "obj_get (micro_unsigned now agent env a t cs ap @ [(''signature'', JStr sig)]) ''signature'' = JStr sig"
  by (simp add: micro_unsigned_def Let_def obj_get_def)

lemma built_receipt:
  assumes "micro_buildReceipt W now agent env a t cs ap st = (Inr r, st1)"
  obtains sig where "r = micro_unsigned now agent env a t cs ap @ [(''signature'', JStr sig)]"
    and "createCompactSignatureFromCanonical W now (stableStringify (sw_big W) (object_payload r)) None (Some ''receipt'') st = (Inr sig, st1)"
proof -
  obtain sig where s: "r = micro_unsigned now agent env a t cs ap @ [(''signature'', JStr sig)]"
      "sign_artifact W now ''execution_receipt'' ''receipt'' None (object_payload (micro_unsigned now agent env a t cs ap)) st = (Inr sig, st1)"
    using assms by (auto simp: micro_buildReceipt_def Let_def split: prod.splits sum.splits)
  show ?thesis by (rule that [OF s(1)]) (use sign_artifact_create [OF s(2)] in \<open>simp only: s(1) payload_of_signed\<close>)
qed

text \<open>Writing an object as JSON and reading it back drops what is undefined, and no check sees that.\<close>

lemma kept_map_of:
  "distinct (map fst kvs) \<Longrightarrow>
   map_of (concat (map (\<lambda>e. case json_kept (snd e) of None \<Rightarrow> [] | Some v \<Rightarrow> [(fst e, v)]) kvs)) k = Option.bind (map_of kvs k) json_kept"
proof (induction kvs)
  case (Cons e kvs)
  have "map_of kvs (fst e) = None" using Cons.prems by (simp add: map_of_eq_None_iff)
  then show ?case using Cons by (cases "json_kept (snd e)") (auto split: option.split)
qed simp

lemma kept_get:
  assumes "json_kept (JObj kvs) = Some (JObj ks)" and "distinct (map fst kvs)"
    and "list_all (\<lambda>e. snd e = JUndef \<or> json_kept (snd e) = Some (snd e)) kvs" and "k \<notin> set inherited_names"
  shows "obj_get ks k = obj_get kvs k"
proof (cases "map_of kvs k")
  case None
  then show ?thesis using kept_map_of [OF assms(2), of k] assms(1) by (auto simp: obj_get_def)
next
  case (Some v)
  then have "v = JUndef \<or> json_kept v = Some v" using assms(3) map_of_SomeD by (fastforce simp: list_all_iff)
  then show ?thesis using kept_map_of [OF assms(2), of k] assms(1,4) Some by (auto simp: obj_get_def inherited_member_def)
qed

lemma kept_payload:
  assumes "json_kept (JObj kvs) = Some (JObj ks)" and "distinct (map fst kvs)"
    and "list_all (\<lambda>e. snd e = JUndef \<or> json_kept (snd e) = Some (snd e)) kvs"
  shows "object_payload ks = object_payload kvs" "obj_get ks ''signature'' = obj_get kvs ''signature''"
proof -
  have g: "obj_get ks k = obj_get kvs k" if "k \<notin> set inherited_names" for k using kept_get [OF assms that] .
  show "object_payload ks = object_payload kvs" unfolding object_payload_def by (simp add: g inherited_names_def)
  show "obj_get ks ''signature'' = obj_get kvs ''signature''" by (simp add: g inherited_names_def)
qed

lemma kept_text: "jopt JStr x = JUndef \<or> json_kept (jopt JStr x) = Some (jopt JStr x)"
  by (cases x) (simp_all add: jopt_def)

lemma signed_members:
  assumes "json_kept (micro_resolveNegotiation env) = Some (micro_resolveNegotiation env)"
  shows "distinct (map fst (micro_unsigned now agent env a t cs ap @ [(''signature'', JStr sig)]))"
    and "list_all (\<lambda>e. snd e = JUndef \<or> json_kept (snd e) = Some (snd e)) (micro_unsigned now agent env a t cs ap @ [(''signature'', JStr sig)])"
proof -
  have m: "micro_tenant env = JUndef \<or> json_kept (micro_tenant env) = Some (micro_tenant env)"
    by (simp add: micro_tenant_def split: option.split)
  have v: "requested_version env = JUndef \<or> json_kept (requested_version env) = Some (requested_version env)"
    "executed_version env = JUndef \<or> json_kept (executed_version env) = Some (executed_version env)"
    unfolding requested_version_def executed_version_def by (rule kept_text)+
  show "list_all (\<lambda>e. snd e = JUndef \<or> json_kept (snd e) = Some (snd e)) (micro_unsigned now agent env a t cs ap @ [(''signature'', JStr sig)])"
    using m v kept_text assms by (simp add: micro_unsigned_def Let_def kept_simps)
qed (simp add: micro_unsigned_def Let_def)

text \<open>The receipt an agent builds for a task verifies, names the task, the agent and its capability, and says ok exactly if it
  says executed; and when nothing in its negotiation is undefined it still verifies after it was written as JSON and read back.\<close>

theorem agent_receipt_verifies:
  assumes "signing_laws W" and "micro_buildReceipt W now agent env a t cs ap st = (Inr r, st1)"
  shows "object_verifies W r \<and> obj_get r ''task_id'' = JStr (te_task_id env) \<and> obj_get r ''agent_id'' = JStr agent \<and>
    obj_get r ''capability'' = JStr (case metadata_str env ''capability'' of Some c \<Rightarrow> c | None \<Rightarrow> te_intent env) \<and>
    (obj_get r ''status'' = JStr ''ok'' \<longleftrightarrow> obj_get r ''action'' = JStr ''executed'') \<and>
    (json_kept (micro_resolveNegotiation env) = Some (micro_resolveNegotiation env) \<longrightarrow>
       (\<exists>stored. json_kept (JObj r) = Some (JObj stored) \<and> object_verifies W stored))"
proof -
  obtain sig where r: "r = micro_unsigned now agent env a t cs ap @ [(''signature'', JStr sig)]"
    and c: "createCompactSignatureFromCanonical W now (stableStringify (sw_big W) (object_payload r)) None (Some ''receipt'') st = (Inr sig, st1)"
    using built_receipt [OF assms(2)] by blast
  have sig: "obj_get r ''signature'' = JStr sig" unfolding r by (rule signature_of_signed)
  have ok: "object_verifies W r"
    using create_verifies [OF assms(1) c] sig by (simp add: object_verifies_def verifyCompactSignature_def)
  have act: "obj_get r ''status'' = JStr ''ok'' \<longleftrightarrow> obj_get r ''action'' = JStr ''executed''"
    by (cases "receipt_action_of a") (simp_all add: r micro_unsigned_def Let_def obj_get_def)
  have ids: "obj_get r ''task_id'' = JStr (te_task_id env)" "obj_get r ''agent_id'' = JStr agent"
    "obj_get r ''capability'' = JStr (case metadata_str env ''capability'' of Some c \<Rightarrow> c | None \<Rightarrow> te_intent env)"
    by (simp_all add: r micro_unsigned_def Let_def obj_get_def)
  have stored: "\<exists>stored. json_kept (JObj r) = Some (JObj stored) \<and> object_verifies W stored"
    if "json_kept (micro_resolveNegotiation env) = Some (micro_resolveNegotiation env)"
  proof -
    obtain ks where k: "json_kept (JObj r) = Some (JObj ks)" by simp
    note same = kept_payload [OF k [unfolded r] signed_members [OF that], folded r]
    from ok have "object_verifies W ks" unfolding object_verifies_def same .
    with k show ?thesis by blast
  qed
  show ?thesis using ok act ids stored by blast
qed

text \<open>It is the schema versions that are undefined when the envelope names none.\<close>

lemma negotiation_kept:
  assumes "metadata_str env ''requested_schema_version'' = Some v" and "metadata_str env ''executed_schema_version'' = Some w"
    and "metadata_member env ''negotiation'' = JUndef"
  shows "json_kept (micro_resolveNegotiation env) = Some (micro_resolveNegotiation env)"
proof -
  have "metadata_negotiation env = JUndef" by (simp add: metadata_negotiation_def assms(3))
  then show ?thesis
    by (simp add: micro_resolveNegotiation_def requested_version_def executed_version_def assms(1,2) jopt_def js_prop_def js_coalesce_def
        nullish_def Let_def)
qed

definition sample_report :: task_envelope where
  "sample_report = sample_errand [(''requested_schema_version'', JStr ''1''), (''executed_schema_version'', JStr ''1'')]"

theorem agent_receipt_verifies_witness:
  "\<exists>r st1 stored. micro_buildReceipt (sample_world Open) 5 ''agent'' sample_report ''pay'' ''bank'' [] None empty_signing = (Inr r, st1) \<and>
     json_kept (JObj r) = Some (JObj stored) \<and> object_verifies (sample_world Open) stored"
proof -
  have a: "assertValidKeyUse ''execution_receipt'' ''receipt'' = None" by code_simp
  obtain r st1 where r: "micro_buildReceipt (sample_world Open) 5 ''agent'' sample_report ''pay'' ''bank'' [] None empty_signing = (Inr r, st1)"
    by (simp add: micro_buildReceipt_def sign_artifact_def a createCompactSignature_def sample_create default_scopes_def Let_def)
  have "json_kept (micro_resolveNegotiation sample_report) = Some (micro_resolveNegotiation sample_report)"
    by (rule negotiation_kept [of _ "''1''" "''1''"])
      (simp_all add: sample_report_def sample_errand_def metadata_str_def metadata_member_def obj_get_def str_of_def inherited_member_def
        inherited_names_def)
  then obtain stored where "json_kept (JObj r) = Some (JObj stored)" "object_verifies (sample_world Open) stored"
    using agent_receipt_verifies [OF sample_laws r] by blast
  then show ?thesis using r by blast
qed

end
