(* ===== verification/MapClient.thy ===== *)
theory MapClient
  imports HttpServer RouteProofs
begin

text \<open>
  \<open>sdk/client.ts\<close>: the client beside the server. An operation is the one request it makes; its answer is
  the transport's. \<open>fetch\<close>, \<open>JSON.stringify\<close>, \<open>JSON.parse\<close>, \<open>encodeURIComponent\<close> and
  \<open>URLSearchParams.toString\<close> are parameters.
\<close>

section \<open>Transport\<close>

record map_request =
  mr_method :: string
  mr_path :: string
  mr_body :: jsval
  mr_headers :: "(string, string) jmap"

record web_call =
  wc_url :: string
  wc_method :: string
  wc_headers :: "(string, string) jmap"
  wc_body :: "string option"

record web_answer =
  wa_status :: int
  wa_text :: string
  wa_headers :: "(string, string) jmap"

record map_response =
  ma_status :: int
  ma_body :: jsval
  ma_headers :: "(string, string) jmap"

record client_env =
  ce_fetch :: "web_call \<Rightarrow> string + web_answer"
  ce_json :: "jsval \<Rightarrow> string"
  ce_parse :: "string \<Rightarrow> jsval option"
  ce_encode :: "string \<Rightarrow> string"
  ce_search :: "(string \<times> string) list \<Rightarrow> string"

text \<open>\<open>baseUrl.replace(/\/+$/, "")\<close>\<close>

definition joinUrl :: "string \<Rightarrow> string \<Rightarrow> string" where
  "joinUrl base path = rev (dropWhile (\<lambda>c. c = CHR ''/'') (rev base)) @ (if prefix ''/'' path then path else ''/'' @ path)"

definition merge_headers :: "(string, string) jmap \<Rightarrow> (string, string) jmap \<Rightarrow> (string, string) jmap" where
  "merge_headers a b = foldl (\<lambda>m (k, v). jm_set k v m) a b"

definition web_call_of :: "client_env \<Rightarrow> string \<Rightarrow> map_request \<Rightarrow> web_call" where
  "web_call_of E base q = \<lparr>wc_url = joinUrl base (mr_path q), wc_method = mr_method q,
     wc_headers = merge_headers [(''content-type'', ''application/json; charset=utf-8'')] (mr_headers q),
     wc_body = (if mr_body q = JUndef then None else Some (ce_json E (mr_body q)))\<rparr>"

text \<open>The status is handed on, not looked at; a text that is no JSON throws.\<close>

definition fetch_request :: "client_env \<Rightarrow> string \<Rightarrow> map_request \<Rightarrow> string + map_response" where
  "fetch_request E base q =
     (case ce_fetch E (web_call_of E base q) of
        Inl e \<Rightarrow> Inl e
      | Inr a \<Rightarrow>
          (case (if str_trim (wa_text a) \<noteq> [] then ce_parse E (wa_text a) else Some (JObj [])) of
             None \<Rightarrow> Inl ''SyntaxError''
           | Some v \<Rightarrow> Inr \<lparr>ma_status = wa_status a, ma_body = v, ma_headers = wa_headers a\<rparr>))"

section \<open>Requests\<close>

definition toQuery :: "client_env \<Rightarrow> (string \<times> string option) list \<Rightarrow> string" where
  "toQuery E ps =
     (let kvs = List.map_filter (\<lambda>(k, v). case v of Some s \<Rightarrow> if s = [] then None else Some (k, s) | None \<Rightarrow> None) ps; q = ce_search E kvs
      in if q = [] then [] else ''?'' @ q)"

definition map_request_of :: "(string, string) jmap \<Rightarrow> string \<Rightarrow> string \<Rightarrow> jsval \<Rightarrow> (string, string) jmap \<Rightarrow> map_request" where
  "map_request_of defaults method path body headers =
     \<lparr>mr_method = method, mr_path = path, mr_body = body, mr_headers = merge_headers defaults headers\<rparr>"

definition get_request :: "(string, string) jmap \<Rightarrow> string \<Rightarrow> map_request" where
  "get_request defaults path = map_request_of defaults ''GET'' path JUndef []"

definition mc_getHealth :: "(string, string) jmap \<Rightarrow> map_request" where "mc_getHealth D = get_request D ''/health''"
definition mc_getStatus :: "(string, string) jmap \<Rightarrow> map_request" where "mc_getStatus D = get_request D ''/status''"
definition mc_getConformanceExport :: "(string, string) jmap \<Rightarrow> map_request" where "mc_getConformanceExport D = get_request D ''/conformance/export''"
definition mc_getTrustBundleExport :: "(string, string) jmap \<Rightarrow> map_request" where "mc_getTrustBundleExport D = get_request D ''/trust-bundle/export''"

definition bool_text :: "bool \<Rightarrow> string" where "bool_text b = (if b then ''true'' else ''false'')"

definition mc_listAdminKeys :: "client_env \<Rightarrow> (string, string) jmap \<Rightarrow> bool option \<Rightarrow> bool option \<Rightarrow> map_request" where
  "mc_listAdminKeys E D runtime revoked = get_request D (''/admin/keys'' @
     toQuery E [(''include_runtime'', map_option bool_text runtime), (''include_revoked'', map_option bool_text revoked)])"

definition mc_listAgents :: "client_env \<Rightarrow> (string, string) jmap \<Rightarrow> string option \<Rightarrow> string option \<Rightarrow> map_request" where
  "mc_listAgents E D domain cap = get_request D (''/agents'' @ toQuery E [(''domain'', domain), (''capability'', cap)])"

definition mc_list :: "client_env \<Rightarrow> (string, string) jmap \<Rightarrow> string \<Rightarrow> string option \<Rightarrow> map_request" where
  "mc_list E D path tenant = get_request D (path @ toQuery E [(''tenant_id'', tenant)])"

definition mc_page :: "client_env \<Rightarrow> (string, string) jmap \<Rightarrow> string \<Rightarrow> string option \<Rightarrow> int option \<Rightarrow> string option \<Rightarrow> map_request" where
  "mc_page E D path tenant limit cursor =
     get_request D (path @ toQuery E [(''tenant_id'', tenant), (''limit'', map_option int_str limit), (''cursor'', cursor)])"

definition mc_listTasks :: "client_env \<Rightarrow> (string, string) jmap \<Rightarrow> string option \<Rightarrow> map_request" where "mc_listTasks E D = mc_list E D ''/tasks''"
definition mc_listReceipts :: "client_env \<Rightarrow> (string, string) jmap \<Rightarrow> string option \<Rightarrow> map_request" where "mc_listReceipts E D = mc_list E D ''/receipts''"
definition mc_listAlerts :: "client_env \<Rightarrow> (string, string) jmap \<Rightarrow> string option \<Rightarrow> map_request" where "mc_listAlerts E D = mc_list E D ''/alerts''"
definition mc_listDeadLetters :: "client_env \<Rightarrow> (string, string) jmap \<Rightarrow> string option \<Rightarrow> map_request" where "mc_listDeadLetters E D = mc_list E D ''/dead-letters''"

definition mc_listTasksPage :: "client_env \<Rightarrow> (string, string) jmap \<Rightarrow> string option \<Rightarrow> int option \<Rightarrow> string option \<Rightarrow> map_request" where
  "mc_listTasksPage E D = mc_page E D ''/tasks''"
definition mc_listReceiptsPage :: "client_env \<Rightarrow> (string, string) jmap \<Rightarrow> string option \<Rightarrow> int option \<Rightarrow> string option \<Rightarrow> map_request" where
  "mc_listReceiptsPage E D = mc_page E D ''/receipts''"
definition mc_listAlertsPage :: "client_env \<Rightarrow> (string, string) jmap \<Rightarrow> string option \<Rightarrow> int option \<Rightarrow> string option \<Rightarrow> map_request" where
  "mc_listAlertsPage E D = mc_page E D ''/alerts''"
definition mc_listDeadLettersPage :: "client_env \<Rightarrow> (string, string) jmap \<Rightarrow> string option \<Rightarrow> int option \<Rightarrow> string option \<Rightarrow> map_request" where
  "mc_listDeadLettersPage E D = mc_page E D ''/dead-letters''"
definition mc_listAuditEventsPage :: "client_env \<Rightarrow> (string, string) jmap \<Rightarrow> string option \<Rightarrow> int option \<Rightarrow> int option \<Rightarrow> map_request" where
  "mc_listAuditEventsPage E D tenant limit cursor = mc_page E D ''/audit-events'' tenant limit (map_option int_str cursor)"

definition mc_getTask :: "client_env \<Rightarrow> (string, string) jmap \<Rightarrow> string \<Rightarrow> string option \<Rightarrow> map_request" where
  "mc_getTask E D task tenant = mc_list E D (''/tasks/'' @ ce_encode E task) tenant"

definition mc_getReceipt :: "client_env \<Rightarrow> (string, string) jmap \<Rightarrow> string \<Rightarrow> string option \<Rightarrow> map_request" where
  "mc_getReceipt E D receipt_id tenant = mc_list E D (''/receipts/'' @ ce_encode E receipt_id) tenant"

definition mc_cancelTask :: "client_env \<Rightarrow> (string, string) jmap \<Rightarrow> string \<Rightarrow> string option \<Rightarrow> map_request" where
  "mc_cancelTask E D task tenant = map_request_of D ''POST'' (''/tasks/'' @ ce_encode E task @ ''/cancel'' @ toQuery E [(''tenant_id'', tenant)]) JUndef []"

text \<open>\<open>{...input, envelope: {...input.envelope, metadata: {...metadata, webhook_url}}}\<close>\<close>

definition members :: "jsval \<Rightarrow> (string \<times> jsval) list" where
  "members v = (case v of JObj kvs \<Rightarrow> kvs | _ \<Rightarrow> [])"

definition with_member :: "string \<Rightarrow> jsval \<Rightarrow> jsval \<Rightarrow> jsval" where
  "with_member k x v = JObj (obj_merge (members v) [(k, x)])"

definition with_webhook :: "string \<Rightarrow> jsval \<Rightarrow> jsval" where
  "with_webhook url input =
     (let env = js_prop input ''envelope'' in
      with_member ''envelope'' (with_member ''metadata'' (with_member ''webhook_url'' (JStr url) (js_prop env ''metadata'')) env) input)"

definition mc_dispatch :: "(string, string) jmap \<Rightarrow> jsval \<Rightarrow> string option \<Rightarrow> string option \<Rightarrow> map_request" where
  "mc_dispatch D input key webhook =
     map_request_of D ''POST'' ''/dispatch''
       (case webhook of Some u \<Rightarrow> if u = [] then input else with_webhook u input | None \<Rightarrow> input)
       (case key of Some k \<Rightarrow> if k = [] then [] else [(''x-map-idempotency-key'', k)] | None \<Rightarrow> [])"

definition mc_approve :: "(string, string) jmap \<Rightarrow> jsval \<Rightarrow> map_request" where
  "mc_approve D input = map_request_of D ''POST'' ''/approve'' input []"

section \<open>Facts\<close>

lemma joinUrl_one_slash:
  assumes "last base \<noteq> CHR ''/''" and "base \<noteq> []"
  shows "joinUrl (base @ replicate n (CHR ''/'')) path = base @ (if prefix ''/'' path then path else ''/'' @ path)"
proof -
  have d: "dropWhile (\<lambda>c. c = CHR ''/'') (replicate n (CHR ''/'') @ r) = dropWhile (\<lambda>c. c = CHR ''/'') r" for r
    by (induction n) auto
  obtain b c where "base = b @ [c]" "c \<noteq> CHR ''/''" using assms by (cases base rule: rev_cases) auto
  then show ?thesis by (simp add: joinUrl_def d)
qed

text \<open>The webhook lands where the server looks for it, and nothing else of the request changes.\<close>

lemma with_member_get: "js_prop (with_member k x v) k' = (if k' = k then x else obj_get (members v) k')"
  by (simp add: with_member_def js_prop_def obj_get_def obj_merge_get)

lemma webhook_reaches_metadata:
  "js_prop (js_prop (js_prop (with_webhook url input) ''envelope'') ''metadata'') ''webhook_url'' = JStr url"
  "k \<noteq> ''envelope'' \<Longrightarrow> js_prop (with_webhook url input) k = obj_get (members input) k"
  by (simp_all add: with_webhook_def with_member_get Let_def)

section \<open>Pages of tasks\<close>

text \<open>What the two sides rely on of \<open>URL\<close>: a path is read off a URL, and what \<open>URLSearchParams\<close> writes is read back.\<close>

definition url_laws :: "client_env \<Rightarrow> site_world \<Rightarrow> bool" where
  "url_laws E X \<longleftrightarrow> ce_search E [] = [] \<and>
     (\<forall>k. site_pathname X ''/tasks'' = Some ''/tasks'' \<and> xw_query X ''/tasks'' k = None) \<and>
     (\<forall>kvs k. kvs \<noteq> [] \<longrightarrow> distinct (map fst kvs) \<longrightarrow> ce_search E kvs \<noteq> [] \<and>
        site_pathname X (''/tasks'' @ ''?'' @ ce_search E kvs) = Some ''/tasks'' \<and>
        xw_query X (''/tasks'' @ ''?'' @ ce_search E kvs) k = map_of kvs k)"

text \<open>The request as the server receives it.\<close>

definition arrives :: "map_request \<Rightarrow> http_call" where
  "arrives q = \<lparr>hc_request = \<lparr>hq_method = Some (mr_method q), hq_url = Some (mr_path q), hq_headers = mr_headers q\<rparr>, hc_raw = [],
     hc_parsed = JUndef, hc_request_id = []\<rparr>"

lemma merge_headers_nil [simp]: "merge_headers a [] = a"
  by (simp add: merge_headers_def)

lemma page_query:
  assumes "url_laws E X" and "cursor \<noteq> Some []" and "tenant \<noteq> Some []"
  shows "xw_query X (mr_path (mc_listTasksPage E D tenant limit cursor)) k =
      (if k = ''cursor'' then cursor else if k = ''tenant_id'' then tenant else if k = ''limit'' then map_option int_str limit else None)"
    and "site_pathname X (mr_path (mc_listTasksPage E D tenant limit cursor)) = Some ''/tasks''"
    and "prefix ''/tasks'' (mr_path (mc_listTasksPage E D tenant limit cursor))"
proof -
  define kvs where "kvs = List.map_filter (\<lambda>(k, v). case v of Some s \<Rightarrow> if s = [] then None else Some (k, s) | None \<Rightarrow> None)
    [(''tenant_id'', tenant), (''limit'', map_option int_str limit), (''cursor'', cursor)]"
  have n: "int_str z \<noteq> []" for z by (simp add: int_str_def)
  have p: "mr_path (mc_listTasksPage E D tenant limit cursor) = ''/tasks'' @ (if ce_search E kvs = [] then [] else ''?'' @ ce_search E kvs)"
    by (simp add: mc_listTasksPage_def mc_page_def get_request_def map_request_of_def toQuery_def kvs_def Let_def)
  have d: "distinct (map fst kvs)"
    by (auto simp: kvs_def List.map_filter_simps split: option.split)
  have get: "map_of kvs k = (if k = ''cursor'' then cursor else if k = ''tenant_id'' then tenant else if k = ''limit'' then map_option int_str limit else None)"
    using assms(2,3) n by (cases tenant; cases limit; cases cursor) (simp_all add: kvs_def List.map_filter_simps)
  show "prefix ''/tasks'' (mr_path (mc_listTasksPage E D tenant limit cursor))" unfolding p by simp
  show "site_pathname X (mr_path (mc_listTasksPage E D tenant limit cursor)) = Some ''/tasks''"
    unfolding p using assms(1) d by (cases "kvs = []") (auto simp: url_laws_def)
  show "xw_query X (mr_path (mc_listTasksPage E D tenant limit cursor)) k =
      (if k = ''cursor'' then cursor else if k = ''tenant_id'' then tenant else if k = ''limit'' then map_option int_str limit else None)"
    unfolding p get [symmetric] using assms(1) d by (cases "kvs = []") (auto simp: url_laws_def)
qed

text \<open>The client's requests for pages, each with the cursor of the page before, show every task of the tenant once, in the order of the
  server's list, and end.\<close>

theorem client_pages_complete:
  assumes "url_laws E X" and "jm_get D ''if-none-match'' = None" and "tenant \<noteq> Some []" and "entries_ok (ts_tasks (site_tasks st))"
  shows "walk_tasks X (\<lambda>cursor. arrives (mc_listTasksPage E D tenant limit cursor)) st None = Some (case tenant of
     None \<Rightarrow> task_list (site_tasks st)
   | Some t \<Rightarrow> filter (\<lambda>r. resolve_tenant (ri_tenant_id (tr_requester r)) = resolve_tenant (Some t)) (task_list (site_tasks st)))"
proof (rule task_pages_complete [OF _ assms(4,3)])
  have h: "mr_headers (mc_listTasksPage E D tenant limit cursor) = D" "mr_method (mc_listTasksPage E D tenant limit cursor) = ''GET''" for cursor
    by (simp_all add: mc_listTasksPage_def mc_page_def get_request_def map_request_of_def)
  show "asks_tasks X (\<lambda>cursor. arrives (mc_listTasksPage E D tenant limit cursor)) tenant (map_option int_str limit)"
    using page_query [OF assms(1) _ assms(3)] assms(2)
    by (simp add: asks_tasks_def arrives_def get_under_def is_get_def read_url_def header_def h)
qed

section \<open>Example\<close>

text \<open>A form of URL queries that can be read back: a mark before each character of a word, and a stop behind it.\<close>

definition marked :: "string \<Rightarrow> string" where "marked w = concat (map (\<lambda>c. [CHR ''x'', c]) w) @ ''.''"

fun unmarked :: "string \<Rightarrow> string list" where
  "unmarked (m # c # s) = (if m = CHR ''x'' then (case unmarked s of [] \<Rightarrow> [] | w # ws \<Rightarrow> (c # w) # ws) else [] # unmarked (c # s))"
| "unmarked [m] = [[]]"
| "unmarked [] = []"

lemma unmarked_stop: "unmarked (CHR ''.'' # s) = [] # unmarked s"
  by (cases s) simp_all

lemma unmarked_marked: "unmarked (marked w @ s) = w # unmarked s"
  by (induction w) (simp_all add: marked_def unmarked_stop)

fun paired :: "string list \<Rightarrow> (string \<times> string) list" where
  "paired (k # v # r) = (k, v) # paired r"
| "paired _ = []"

definition sample_search :: "(string \<times> string) list \<Rightarrow> string" where
  "sample_search kvs = concat (map (\<lambda>(k, v). marked k @ marked v) kvs)"

lemma sample_search_read: "paired (unmarked (sample_search kvs)) = kvs"
  by (induction kvs) (auto simp: sample_search_def unmarked_marked)

definition sample_query :: "string \<Rightarrow> string \<Rightarrow> string option" where
  "sample_query url k = map_of (paired (unmarked (drop 7 url))) k"

definition sample_env :: client_env where
  "sample_env = \<lparr>ce_fetch = (\<lambda>_. Inl ''down''), ce_json = (\<lambda>_. ''{}''), ce_parse = (\<lambda>_. None), ce_encode = id, ce_search = sample_search\<rparr>"

definition sample_site_world :: site_world where
  "sample_site_world = \<lparr>xw_server = sample_gateway\<lparr>vw_auth := (sample_auth [])\<lparr>aw_path := (\<lambda>_. Some ''/tasks'')\<rparr>\<rparr>, xw_profile = Open,
     xw_metrics = \<lparr>mc_window = 60000, mc_max_samples = 100\<rparr>,
     xw_limits = \<lparr>lim_dead_letters = None, lim_dead_letter_age = None, lim_failure_rate = None\<rparr>,
     xw_detector = \<lparr>dc_retiring_ratio = 1, dc_unknown_ratio = 1\<rparr>,
     xw_queue_options = \<lparr>qo_maxAttempts = None, qo_retryDelayMs = None, qo_maxRetryDelayMs = None, qo_retryJitterRatio = None,
       qo_maxConcurrent = None, qo_maxConcurrentPerTenant = None, qo_maxQueueDepth = None, qo_maxDeadLetters = None\<rparr>,
     xw_query = sample_query, xw_decode = Some, xw_locale_le = (\<lambda>_ _. True), xw_jwk = (\<lambda>_. None), xw_etag = (\<lambda>_. []), xw_sha_keys = (\<lambda>_. []),
     xw_sha_artifact = (\<lambda>_. []), xw_writable = (\<lambda>_. True), xw_byte_length = length, xw_store_paths = [], xw_uuid = ''u'', xw_request_uuid = ''u'',
     xw_elapsed = 0, xw_validation_text = [], xw_engine_text = [], xw_template = (\<lambda>_. []), xw_alerts_stored = False, xw_metrics_stored = False,
     xw_controls_stored = False, xw_policy_stored = False\<rparr>"

definition sample_site :: site where
  "sample_site = \<lparr>si_server = sample_server (sample_runtime Allow), si_alerts = [],
     si_metrics = \<lparr>mm_metrics = empty_metrics, mm_slo = new_slo_monitor\<rparr>, si_alert_file = None, si_metrics_file = None,
     si_controls_file = None, si_policy_file = None\<rparr>"

lemma sample_url_laws: "url_laws sample_env sample_site_world"
proof -
  have p: "site_pathname sample_site_world u = Some ''/tasks''" for u by (simp add: site_pathname_def sample_site_world_def)
  have q: "xw_query sample_site_world = sample_query" "ce_search sample_env = sample_search" by (simp_all add: sample_site_world_def sample_env_def)
  have "sample_search kvs \<noteq> []" if "kvs \<noteq> []" for kvs using that by (cases kvs) (auto simp: sample_search_def marked_def)
  then show ?thesis
    unfolding url_laws_def by (auto simp: p q sample_query_def sample_search_read) (simp add: sample_search_def)
qed

theorem client_pages_complete_witness:
  "walk_tasks sample_site_world (\<lambda>cursor. arrives (mc_listTasksPage sample_env [] None (Some 2) cursor)) sample_site None =
     Some (task_list (site_tasks sample_site))"
proof -
  have "ts_tasks (site_tasks sample_site) = []" by code_simp
  then have "entries_ok (ts_tasks (site_tasks sample_site))" by (simp add: entries_ok_def jm_wf_def)
  from client_pages_complete [OF sample_url_laws _ _ this, of "[]" None "Some 2"] show ?thesis by simp
qed

end
