(* ===== verification/SdkClient.thy ===== *)
theory SdkClient
  imports HttpServer
begin

text \<open>
  \<open>packages/typescript/src/client.ts\<close> and \<open>errors.ts\<close>: how the client of the SDK makes a request,
  what it repeats, and the calls built on it. The network is a parameter: the answer to a call, per
  attempt. Middlewares are functions of what they are given; a throw is \<open>Inl\<close>. The clock and the random
  numbers are given per attempt; the encoders of URLs and the signer's function are parameters.
\<close>

section \<open>Errors\<close>

definition ERROR_CODE_STATUS_MAP :: "(string \<times> int) list" where
  "ERROR_CODE_STATUS_MAP =
     [(''agent_not_found'', 404), (''agent_disabled'', 403), (''capability_not_found'', 404), (''capability_disabled'', 403),
      (''policy_denied'', 403), (''approval_required'', 202), (''approval_denied'', 403), (''approval_expired'', 410),
      (''invalid_delegation_token'', 401), (''token_expired'', 401), (''token_invalid_signature'', 401), (''token_missing_scope'', 403),
      (''schema_validation_failed'', 400), (''schema_version_unsupported'', 400), (''schema_negotiation_failed'', 400),
      (''tenant_mismatch'', 400), (''rate_limit_exceeded'', 429), (''request_timeout'', 408), (''internal_error'', 500),
      (''invalid_request'', 400), (''idempotency_conflict'', 409), (''resource_not_found'', 404), (''unauthorized'', 401), (''forbidden'', 403)]"

definition ERROR_CODE_RETRYABLE_MAP :: "(string \<times> jsval) list" where
  "ERROR_CODE_RETRYABLE_MAP =
     map (\<lambda>(c, _). (c, JBool (c \<in> {''rate_limit_exceeded'', ''request_timeout'', ''internal_error'', ''unauthorized''}))) ERROR_CODE_STATUS_MAP"

text \<open>\<open>value in ERROR_CODE_STATUS_MAP\<close> holds for the inherited members too.\<close>

definition isErrorCode :: "jsval \<Rightarrow> bool" where
  "isErrorCode v = (case v of JStr s \<Rightarrow> map_of ERROR_CODE_STATUS_MAP s \<noteq> None \<or> s \<in> set inherited_names | _ \<Rightarrow> False)"

text \<open>A \<open>MapAPIError\<close> with its code, message, flag and status; another \<open>MapError\<close> with its name; any other error.\<close>

datatype client_error = ApiError string string bool int | MapErr string string | PlainError string

definition map_error :: "string \<Rightarrow> client_error" where "map_error = MapErr ''MapError''"

section \<open>The client\<close>

record client_request =
  mq_method :: string
  mq_path :: string
  mq_body :: jsval
  mq_headers :: "(string, string) jmap"

record middleware =
  mw_before :: "(client_request \<Rightarrow> client_error + client_request) option"
  mw_after :: "(jsval \<Rightarrow> client_error + jsval) option"
  mw_onError :: "(client_error \<Rightarrow> client_error option) option"

record sdk_client =
  cl_baseUrl :: string
  cl_defaultHeaders :: "(string, string) jmap"
  cl_retryAttempts :: int
  cl_retryDelayMs :: rat
  cl_retryMaxDelayMs :: rat
  cl_retryJitter :: rat
  cl_signer :: "(string \<times> (string \<Rightarrow> string \<Rightarrow> string \<Rightarrow> string option \<Rightarrow> string)) option"
  cl_middlewareStack :: "middleware list"

definition new_client :: "string \<Rightarrow> (string, string) jmap option \<Rightarrow> int option \<Rightarrow> rat option \<Rightarrow> rat option \<Rightarrow> rat option \<Rightarrow> sdk_client" where
  "new_client base headers attempts delay most jitter =
     \<lparr>cl_baseUrl = (if base \<noteq> [] \<and> last base = CHR ''/'' then butlast base else base),
      cl_defaultHeaders = (case headers of Some h \<Rightarrow> h | None \<Rightarrow> []), cl_retryAttempts = (case attempts of Some n \<Rightarrow> n | None \<Rightarrow> 3),
      cl_retryDelayMs = (case delay of Some n \<Rightarrow> n | None \<Rightarrow> 1000), cl_retryMaxDelayMs = (case most of Some n \<Rightarrow> n | None \<Rightarrow> 30000),
      cl_retryJitter = (case jitter of Some n \<Rightarrow> n | None \<Rightarrow> 1 / 10), cl_signer = None, cl_middlewareStack = []\<rparr>"

definition use_middleware :: "middleware \<Rightarrow> sdk_client \<Rightarrow> sdk_client" where
  "use_middleware m C = C\<lparr>cl_middlewareStack := cl_middlewareStack C @ [m]\<rparr>"

record client_call =
  cc_method :: string
  cc_url :: string
  cc_headers :: "(string, string) jmap"
  cc_body :: "string option"

text \<open>No answer, or the status and the body: the text of the parser's error, or its value.\<close>

datatype net_answer = NetDown string | NetReply int "string + jsval"

record client_world =
  cw_net :: "nat \<Rightarrow> client_call \<Rightarrow> net_answer"
  cw_now :: "nat \<Rightarrow> ms"
  cw_random :: "nat \<Rightarrow> rat"
  cw_json :: "jsval \<Rightarrow> string"
  cw_text :: "jsval \<Rightarrow> string"
  cw_encode :: "string \<Rightarrow> string"
  cw_search :: "(string \<times> string) list \<Rightarrow> string"

section \<open>One attempt\<close>

definition body_text :: "client_world \<Rightarrow> jsval \<Rightarrow> string option" where
  "body_text W b = (if js_truthy b then Some (cw_json W b) else None)"

definition set_all :: "(string, string) jmap \<Rightarrow> (string \<times> string) list \<Rightarrow> (string, string) jmap" where
  "set_all m kvs = foldl (\<lambda>m (k, v). jm_set k v m) m kvs"

definition client_call_of :: "sdk_client \<Rightarrow> client_world \<Rightarrow> string \<Rightarrow> nat \<Rightarrow> client_request \<Rightarrow> client_call" where
  "client_call_of C W url i q =
     (let headers = set_all (set_all [(''Content-Type'', ''application/json'')] (cl_defaultHeaders C)) (mq_headers q);
          now = toISOString (cw_now W i)
      in \<lparr>cc_method = mq_method q, cc_url = url,
          cc_headers = (case cl_signer C of None \<Rightarrow> headers
            | Some (kid, sign) \<Rightarrow> set_all headers [(''x-map-auth-scheme'', ''signed_request''), (''x-map-key-id'', kid), (''x-map-timestamp'', now),
                (''x-map-request-signature'', sign (mq_method q) (mq_path q) now (body_text W (mq_body q)))]),
          cc_body = body_text W (mq_body q)\<rparr>)"

definition text_or :: "client_world \<Rightarrow> jsval \<Rightarrow> string \<Rightarrow> string" where
  "text_or W v d = (if nullish v then d else case v of JStr s \<Rightarrow> s | _ \<Rightarrow> cw_text W v)"

definition api_error_of :: "client_world \<Rightarrow> int \<Rightarrow> jsval \<Rightarrow> client_error" where
  "api_error_of W status b =
     (let e = js_prop b ''error'' in
      ApiError (text_or W (js_prop e ''code'') ''request_failed'') (text_or W (js_prop e ''message'') (''HTTP '' @ int_str status))
        (if nullish (js_prop e ''retryable'') then status \<ge> 500 else js_truthy (js_prop e ''retryable'')) status)"

definition doRequest :: "sdk_client \<Rightarrow> client_world \<Rightarrow> string \<Rightarrow> nat \<Rightarrow> client_request \<Rightarrow> client_error + jsval" where
  "doRequest C W url i q =
     (case cw_net W i (client_call_of C W url i q) of
        NetDown m \<Rightarrow> Inl (map_error (''Request failed: '' @ m))
      | NetReply status b \<Rightarrow>
          if 200 \<le> status \<and> status \<le> 299
          then (case b of Inl m \<Rightarrow> Inl (map_error (''Request failed: '' @ m)) | Inr v \<Rightarrow> Inr v)
          else Inl (api_error_of W status (case b of Inl _ \<Rightarrow> JObj [] | Inr v \<Rightarrow> v)))"

section \<open>Middlewares\<close>

text \<open>In reverse order; a handler that fails leaves the error as it was.\<close>

definition runErrorMiddleware :: "middleware list \<Rightarrow> client_error \<Rightarrow> client_error" where
  "runErrorMiddleware ms e =
     foldl (\<lambda>e m. case mw_onError m of None \<Rightarrow> e | Some f \<Rightarrow> (case f e of None \<Rightarrow> e | Some e1 \<Rightarrow> e1)) e (rev ms)"

fun run_before :: "middleware list \<Rightarrow> client_request \<Rightarrow> client_error + client_request" where
  "run_before [] q = Inr q"
| "run_before (m # ms) q =
     (case mw_before m of
        None \<Rightarrow> run_before ms q
      | Some f \<Rightarrow> (case f q of Inl e \<Rightarrow> Inl e | Inr q1 \<Rightarrow> run_before ms q1))"

fun run_after :: "middleware list \<Rightarrow> jsval \<Rightarrow> client_error + jsval" where
  "run_after [] v = Inr v"
| "run_after (m # ms) v =
     (case mw_after m of
        None \<Rightarrow> run_after ms v
      | Some f \<Rightarrow> (case f v of Inl e \<Rightarrow> Inl e | Inr w \<Rightarrow> run_after ms w))"

section \<open>Attempts\<close>

text \<open>What one attempt comes to: what the middlewares make of the answer is thrown away, except that they throw.\<close>

definition attempt :: "sdk_client \<Rightarrow> client_world \<Rightarrow> string \<Rightarrow> client_request \<Rightarrow> nat \<Rightarrow> client_error + jsval" where
  "attempt C W url q i =
     (case doRequest C W url i q of
        Inl e \<Rightarrow> Inl e
      | Inr v \<Rightarrow> (case run_after (cl_middlewareStack C) v of
                    Inl e \<Rightarrow> Inl (runErrorMiddleware (cl_middlewareStack C) e) | Inr _ \<Rightarrow> Inr v))"

definition retryable_code :: "string \<Rightarrow> bool" where
  "retryable_code c = js_truthy (obj_get ERROR_CODE_RETRYABLE_MAP c)"

definition tried_again :: "client_error \<Rightarrow> bool" where
  "tried_again e = (case e of ApiError code _ _ _ \<Rightarrow> retryable_code code | MapErr name _ \<Rightarrow> name = ''MapTimeoutError'' | PlainError _ \<Rightarrow> True)"

definition calculateRetryDelay :: "sdk_client \<Rightarrow> client_world \<Rightarrow> nat \<Rightarrow> int" where
  "calculateRetryDelay C W i =
     (let d = min (cl_retryDelayMs C * 2 ^ i) (cl_retryMaxDelayMs C) in \<lfloor>d + d * cl_retryJitter C * (cw_random W i * 2 - 1)\<rfloor>)"

text \<open>The loop from attempt \<open>i\<close> on: the calls made, the delays slept, and how it ends.\<close>

function attempts_from :: "sdk_client \<Rightarrow> client_world \<Rightarrow> string \<Rightarrow> client_request \<Rightarrow> nat \<Rightarrow> client_call list \<times> int list \<times> (client_error + jsval)" where
  "attempts_from C W url q i =
     (if int i > cl_retryAttempts C
      then ([], [], Inl (runErrorMiddleware (cl_middlewareStack C) (map_error ''Request failed after retries'')))
      else (let c = client_call_of C W url i q in
        case attempt C W url q i of
          Inr v \<Rightarrow> ([c], [], Inr v)
        | Inl e \<Rightarrow>
            if int i = cl_retryAttempts C \<or> \<not> tried_again e then ([c], [], Inl (runErrorMiddleware (cl_middlewareStack C) e))
            else (case attempts_from C W url q (Suc i) of (cs, ds, r) \<Rightarrow> (c # cs, calculateRetryDelay C W i # ds, r))))"
  by pat_completeness auto
termination by (relation "measure (\<lambda>(C, W, url, q, i). nat (cl_retryAttempts C + 1 - int i))") auto

declare attempts_from.simps [simp del]

definition first_request :: "string \<Rightarrow> string \<Rightarrow> jsval \<Rightarrow> (string \<times> string option) list \<Rightarrow> client_request" where
  "first_request method path body extra = \<lparr>mq_method = method, mq_path = path, mq_body = body,
     mq_headers = set_all [] (List.map_filter (\<lambda>(k, v). map_option (Pair k) v) extra)\<rparr>"

definition request :: "sdk_client \<Rightarrow> client_world \<Rightarrow> string \<Rightarrow> string \<Rightarrow> jsval \<Rightarrow> (string \<times> string option) list
    \<Rightarrow> client_call list \<times> int list \<times> (client_error + jsval)" where
  "request C W method path body extra =
     (case run_before (cl_middlewareStack C) (first_request method path body extra) of
        Inl e \<Rightarrow> ([], [], Inl (runErrorMiddleware (cl_middlewareStack C) e))
      | Inr q \<Rightarrow> attempts_from C W (cl_baseUrl C @ path) q 0)"

section \<open>How often a request is sent\<close>

definition settles :: "sdk_client \<Rightarrow> client_world \<Rightarrow> string \<Rightarrow> client_request \<Rightarrow> nat \<Rightarrow> bool" where
  "settles C W url q i = (case attempt C W url q i of Inr _ \<Rightarrow> True | Inl e \<Rightarrow> \<not> tried_again e)"

definition told :: "sdk_client \<Rightarrow> client_error + jsval \<Rightarrow> client_error + jsval" where
  "told C r = (case r of Inr v \<Rightarrow> Inr v | Inl e \<Rightarrow> Inl (runErrorMiddleware (cl_middlewareStack C) e))"

lemma attempts_from_exact:
  "int i \<le> cl_retryAttempts C \<Longrightarrow>
   \<exists>k. i \<le> k \<and> int k \<le> cl_retryAttempts C \<and> list_all (\<lambda>j. \<not> settles C W url q j) [i..<k] \<and>
     (int k = cl_retryAttempts C \<or> settles C W url q k) \<and>
     attempts_from C W url q i = (map (\<lambda>j. client_call_of C W url j q) [i..<Suc k], map (calculateRetryDelay C W) [i..<k], told C (attempt C W url q k))"
proof (induction C W url q i rule: attempts_from.induct)
  case (1 C W url q i)
  show ?case
  proof (cases "int i = cl_retryAttempts C \<or> settles C W url q i")
    case True
    then have "attempts_from C W url q i = ([client_call_of C W url i q], [], told C (attempt C W url q i))"
      using 1(2) by (subst attempts_from.simps) (auto simp: settles_def told_def Let_def split: sum.splits)
    then show ?thesis using 1(2) True by (intro exI [of _ i]) simp
  next
    case False
    then obtain e where e: "attempt C W url q i = Inl e" "tried_again e" by (auto simp: settles_def split: sum.splits)
    have step: "attempts_from C W url q i = (case attempts_from C W url q (Suc i) of (cs, ds, r) \<Rightarrow>
        (client_call_of C W url i q # cs, calculateRetryDelay C W i # ds, r))"
      using 1(2) False e by (subst attempts_from.simps) (simp add: Let_def)
    have "int (Suc i) \<le> cl_retryAttempts C" using 1(2) False by auto
    with 1(1) [OF _ refl e(1)] 1(2) False e(2) obtain k where k: "Suc i \<le> k" "int k \<le> cl_retryAttempts C"
        "list_all (\<lambda>j. \<not> settles C W url q j) [Suc i..<k]" "int k = cl_retryAttempts C \<or> settles C W url q k"
        "attempts_from C W url q (Suc i) = (map (\<lambda>j. client_call_of C W url j q) [Suc i..<Suc k], map (calculateRetryDelay C W) [Suc i..<k],
          told C (attempt C W url q k))"
      by auto
    have "[i..<k] = i # [Suc i..<k]" "[i..<Suc k] = i # [Suc i..<Suc k]" using k(1) by (simp_all add: upt_conv_Cons)
    then show ?thesis using k False step by (intro exI [of _ k]) auto
  qed
qed

text \<open>A request is sent once, and again only while the attempt before it failed in a way that is tried again, at most as often as
  configured; between two attempts there is one delay. The caller gets the answer of the last attempt as the server gave it, or
  its error as the handlers of the middlewares leave it.\<close>

theorem client_request_exact:
  "case run_before (cl_middlewareStack C) (first_request method path body extra) of
     Inl e \<Rightarrow> request C W method path body extra = ([], [], told C (Inl e))
   | Inr q \<Rightarrow>
       if cl_retryAttempts C < 0 then request C W method path body extra = ([], [], told C (Inl (map_error ''Request failed after retries'')))
       else (\<exists>k. int k \<le> cl_retryAttempts C \<and> list_all (\<lambda>j. \<not> settles C W (cl_baseUrl C @ path) q j) [0..<k] \<and>
          (int k = cl_retryAttempts C \<or> settles C W (cl_baseUrl C @ path) q k) \<and>
          request C W method path body extra =
            (map (\<lambda>j. client_call_of C W (cl_baseUrl C @ path) j q) [0..<Suc k], map (calculateRetryDelay C W) [0..<k],
             told C (attempt C W (cl_baseUrl C @ path) q k)))"
proof (cases "run_before (cl_middlewareStack C) (first_request method path body extra)")
  case (Inr q)
  show ?thesis
  proof (cases "cl_retryAttempts C < 0")
    case True
    then show ?thesis using Inr by (simp add: request_def told_def attempts_from.simps [of _ _ _ _ 0])
  next
    case False
    then have "int 0 \<le> cl_retryAttempts C" by simp
    from attempts_from_exact [OF this] show ?thesis using Inr False by (simp add: request_def)
  qed
qed (simp add: request_def told_def)

lemma tried_once:
  assumes "run_before (cl_middlewareStack C) (first_request method path body extra) = Inr q" and "0 \<le> cl_retryAttempts C"
    and "settles C W (cl_baseUrl C @ path) q 0"
  shows "request C W method path body extra = ([client_call_of C W (cl_baseUrl C @ path) 0 q], [], told C (attempt C W (cl_baseUrl C @ path) q 0))"
  using assms by (subst request_def)
    (auto simp: attempts_from.simps [of _ _ _ _ 0] settles_def told_def Let_def split: sum.splits)

text \<open>A delay is within its jitter of the doubled one, so the configured maximum is passed by the jitter.\<close>

lemma delay_bounds:
  assumes "0 \<le> cw_random W i" and "cw_random W i < 1" and "0 \<le> cl_retryJitter C" and "0 \<le> cl_retryDelayMs C" and "0 \<le> cl_retryMaxDelayMs C"
    and "d = min (cl_retryDelayMs C * 2 ^ i) (cl_retryMaxDelayMs C)"
  shows "\<lfloor>d - d * cl_retryJitter C\<rfloor> \<le> calculateRetryDelay C W i" "of_int (calculateRetryDelay C W i) \<le> d + d * cl_retryJitter C"
proof -
  let ?x = "d * cl_retryJitter C" and ?r = "cw_random W i * 2 - 1"
  have "0 \<le> d" using assms(4,5,6) by simp
  then have x: "0 \<le> ?x" using assms(3) by simp
  have "-1 \<le> ?r" "?r \<le> 1" using assms(1,2) by auto
  then have "?x * -1 \<le> ?x * ?r" "?x * ?r \<le> ?x * 1" using mult_left_mono [OF _ x] by blast+
  then have b: "d - ?x \<le> d + ?x * ?r" "d + ?x * ?r \<le> d + ?x" by auto
  have c: "calculateRetryDelay C W i = \<lfloor>d + ?x * ?r\<rfloor>" by (simp add: calculateRetryDelay_def assms(6) Let_def)
  show "\<lfloor>d - ?x\<rfloor> \<le> calculateRetryDelay C W i" unfolding c using b(1) by (rule floor_mono)
  show "of_int (calculateRetryDelay C W i) \<le> d + ?x" unfolding c using b(2) of_int_floor_le order_trans by blast
qed

section \<open>What is not tried again, and what is\<close>

text \<open>A request that did not get through fails at once: what \<open>fetch\<close> throws, a time-out too, becomes a \<open>MapError\<close>, whose name is not the one
  that is tried again.\<close>

lemma network_failure_final:
  assumes "run_before (cl_middlewareStack C) (first_request method path body extra) = Inr q" and "0 \<le> cl_retryAttempts C"
    and "cw_net W 0 (client_call_of C W (cl_baseUrl C @ path) 0 q) = NetDown m"
  shows "length (fst (request C W method path body extra)) = 1"
proof -
  have "settles C W (cl_baseUrl C @ path) q 0"
    using assms(3) by (simp add: settles_def attempt_def doRequest_def map_error_def tried_again_def)
  from tried_once [OF assms(1,2) this] show ?thesis by simp
qed

text \<open>None of the codes under which the server answers what was thrown is in the client's table, so its mark that a
  request may be repeated has no effect.\<close>

lemma server_errors_final: "\<not> retryable_code (classifyErrorCode m)"
proof -
  have all: "\<forall>c \<in> set (''request_failed'' # map snd ERROR_CODE_PATTERNS). \<not> retryable_code c" by code_simp
  show ?thesis
  proof (cases "find (\<lambda>(ps, _). list_ex (\<lambda>p. str_includes p m) ps) ERROR_CODE_PATTERNS")
    case None
    then show ?thesis using all by (simp add: classifyErrorCode_def)
  next
    case (Some e)
    then have "e \<in> set ERROR_CODE_PATTERNS" by (metis find_Some_iff nth_mem)
    then have "snd e \<in> set (''request_failed'' # map snd ERROR_CODE_PATTERNS)" by auto
    then have "\<not> retryable_code (snd e)" using all by blast
    then show ?thesis using Some by (cases e) (simp add: classifyErrorCode_def)
  qed
qed

text \<open>A middleware that fails on the answer makes the client send the request again, although the server has carried it out.\<close>

lemma after_failure_repeats:
  assumes "run_before (cl_middlewareStack C) (first_request method path body extra) = Inr q" and "0 \<le> cl_retryAttempts C"
    and "\<And>i. \<exists>v m. doRequest C W (cl_baseUrl C @ path) i q = Inr v \<and> run_after (cl_middlewareStack C) v = Inl (PlainError m)"
    and "\<And>m. runErrorMiddleware (cl_middlewareStack C) (PlainError m) = PlainError m"
  shows "int (length (fst (request C W method path body extra))) = cl_retryAttempts C + 1"
proof -
  have n: "\<not> settles C W (cl_baseUrl C @ path) q i" for i
    using assms(3) [of i] assms(4) by (auto simp: settles_def attempt_def tried_again_def)
  obtain k where "int k = cl_retryAttempts C" "request C W method path body extra =
      (map (\<lambda>j. client_call_of C W (cl_baseUrl C @ path) j q) [0..<Suc k], map (calculateRetryDelay C W) [0..<k],
       told C (attempt C W (cl_baseUrl C @ path) q k))"
    using attempts_from_exact [of 0 C W "cl_baseUrl C @ path" q] assms(1,2) n by (auto simp: request_def)
  then show ?thesis by simp
qed

text \<open>What a middleware makes of an answer is thrown away, and the address of a request is that of the path it had before the
  middlewares, while the signature is over the path they gave it.\<close>

lemma after_results_discarded: "attempt C W url q i = Inr v \<Longrightarrow> doRequest C W url i q = Inr v"
  by (auto simp: attempt_def split: sum.splits)

lemma rewritten_path_unsigned:
  assumes "run_before (cl_middlewareStack C) (first_request method path body extra) = Inr q" and "0 \<le> cl_retryAttempts C"
    and "cl_signer C = Some (kid, sign)"
  shows "\<exists>call rest. fst (request C W method path body extra) = call # rest \<and> cc_url call = cl_baseUrl C @ path \<and>
    jm_get (cc_headers call) ''x-map-request-signature'' =
      Some (sign (mq_method q) (mq_path q) (toISOString (cw_now W 0)) (body_text W (mq_body q)))"
proof -
  have "int 0 \<le> cl_retryAttempts C" using assms(2) by simp
  from attempts_from_exact [OF this, of W "cl_baseUrl C @ path" q] obtain k where
    "fst (attempts_from C W (cl_baseUrl C @ path) q 0) = map (\<lambda>j. client_call_of C W (cl_baseUrl C @ path) j q) [0..<Suc k]"
    by (metis fst_conv)
  moreover have "map f [0..<Suc k] = f 0 # map f [1..<Suc k]" for f :: "nat \<Rightarrow> client_call" by (simp add: upt_conv_Cons del: upt_Suc)
  ultimately have "fst (request C W method path body extra) = client_call_of C W (cl_baseUrl C @ path) 0 q #
      map (\<lambda>j. client_call_of C W (cl_baseUrl C @ path) j q) [1..<Suc k]"
    using assms(1) by (simp only: request_def sum.case)
  moreover have "jm_get (cc_headers (client_call_of C W u 0 q)) ''x-map-request-signature'' =
      Some (sign (mq_method q) (mq_path q) (toISOString (cw_now W 0)) (body_text W (mq_body q)))" "cc_url (client_call_of C W u 0 q) = u" for u
    by (simp_all add: client_call_of_def assms(3) set_all_def [of _ "[_, _, _, _]"] jm_get_set Let_def)
  ultimately show ?thesis by blast
qed

text \<open>The names every object inherits count as error codes, and an answer with such a code is tried again.\<close>

lemma inherited_error_code: "isErrorCode (JStr ''toString'')" "retryable_code ''toString''"
  by code_simp+

end
