(* ===== verification/SdkCalls.thy ===== *)
theory SdkCalls
  imports SdkClient
begin

text \<open>
  The operations of the client of \<open>packages/typescript/src/client.ts\<close>: one request each, and
  those made of several (batches, polling, the workflow). The world of each request is given by its
  number; what an operation returns is the requests it made, each as the calls of its attempts,
  and its outcome.
\<close>

section \<open>Single requests\<close>

type_synonym 'a client_outcome = "client_call list list \<times> (client_error + 'a)"

definition reading_of :: "client_call list \<times> int list \<times> (client_error + jsval) \<Rightarrow> (jsval \<Rightarrow> client_error + 'a) \<Rightarrow> 'a client_outcome" where
  "reading_of r f = (case r of (cs, ds, out) \<Rightarrow> ([cs], case out of Inl e \<Rightarrow> Inl e | Inr v \<Rightarrow> f v))"

text \<open>Reading a member of \<open>null\<close> throws.\<close>

definition member_or_throw :: "jsval \<Rightarrow> string \<Rightarrow> client_error + jsval" where
  "member_or_throw v k = (if nullish v then Inl (PlainError ''TypeError'') else Inr (js_prop v k))"

definition invoke_result_of :: "string \<Rightarrow> jsval \<Rightarrow> client_error + jsval \<times> jsval" where
  "invoke_result_of operation v =
     (case member_or_throw v ''result'' of
        Inl e \<Rightarrow> Inl e
      | Inr r \<Rightarrow> if js_truthy r then Inr (r, js_prop v ''receipt'') else Inl (map_error (''No result in '' @ operation @ '' response'')))"

definition buildQuery :: "client_world \<Rightarrow> (string \<times> string option) list \<Rightarrow> string" where
  "buildQuery W ps = (let q = cw_search W (List.map_filter (\<lambda>(k, v). map_option (Pair k) v) ps) in if q = [] then [] else ''?'' @ q)"

definition client_dispatch :: "sdk_client \<Rightarrow> client_world \<Rightarrow> jsval \<Rightarrow> string option \<Rightarrow> (jsval \<times> jsval) client_outcome" where
  "client_dispatch C W req key =
     reading_of (request C W ''POST'' ''/dispatch'' req [(''x-map-idempotency-key'', key)]) (invoke_result_of ''dispatch'')"

definition client_approve :: "sdk_client \<Rightarrow> client_world \<Rightarrow> jsval \<Rightarrow> (jsval \<times> jsval) client_outcome" where
  "client_approve C W req = reading_of (request C W ''POST'' ''/approve'' req []) (invoke_result_of ''approve'')"

definition client_cancelTask :: "sdk_client \<Rightarrow> client_world \<Rightarrow> string \<Rightarrow> string option \<Rightarrow> (jsval \<times> jsval) client_outcome" where
  "client_cancelTask C W task tenant =
     reading_of (request C W ''POST'' (''/tasks/'' @ cw_encode W task @ ''/cancel'' @ buildQuery W [(''tenant_id'', tenant)]) JUndef [])
       (invoke_result_of ''cancel'')"

definition client_getTask :: "sdk_client \<Rightarrow> client_world \<Rightarrow> string \<Rightarrow> string option \<Rightarrow> jsval client_outcome" where
  "client_getTask C W task tenant =
     reading_of (request C W ''GET'' (''/tasks/'' @ cw_encode W task @ buildQuery W [(''tenant_id'', tenant)]) JUndef [])
       (\<lambda>v. member_or_throw v ''task'')"

definition client_listTasks :: "sdk_client \<Rightarrow> client_world \<Rightarrow> string option \<Rightarrow> int option \<Rightarrow> string option \<Rightarrow> jsval client_outcome" where
  "client_listTasks C W tenant limit cursor =
     reading_of (request C W ''GET'' (''/tasks'' @ buildQuery W [(''tenant_id'', tenant), (''limit'', map_option int_str limit), (''cursor'', cursor)])
       JUndef []) Inr"

definition client_listAgents :: "sdk_client \<Rightarrow> client_world \<Rightarrow> string option \<Rightarrow> string option \<Rightarrow> jsval client_outcome" where
  "client_listAgents C W domain cap =
     reading_of (request C W ''GET'' (''/agents'' @ buildQuery W [(''domain'', domain), (''capability'', cap)]) JUndef []) Inr"

definition client_getHealth :: "sdk_client \<Rightarrow> client_world \<Rightarrow> jsval client_outcome" where
  "client_getHealth C W = reading_of (request C W ''GET'' ''/health'' JUndef []) Inr"

definition client_getStatus :: "sdk_client \<Rightarrow> client_world \<Rightarrow> jsval client_outcome" where
  "client_getStatus C W = reading_of (request C W ''GET'' ''/status'' JUndef []) Inr"

section \<open>Batches\<close>

record batch_error =
  be_index :: nat
  be_code :: string
  be_message :: string
  be_status :: int

definition batch_error_of :: "nat \<Rightarrow> client_error \<Rightarrow> batch_error" where
  "batch_error_of i e = (case e of
      ApiError code m _ status \<Rightarrow> \<lparr>be_index = i, be_code = code, be_message = m, be_status = status\<rparr>
    | MapErr _ m \<Rightarrow> \<lparr>be_index = i, be_code = ''internal_error'', be_message = m, be_status = 500\<rparr>
    | PlainError m \<Rightarrow> \<lparr>be_index = i, be_code = ''internal_error'', be_message = m, be_status = 500\<rparr>)"

text \<open>In sequence: a failure is noted and the next request made.\<close>

fun batch_sequential :: "sdk_client \<Rightarrow> (nat \<Rightarrow> client_world) \<Rightarrow> nat \<Rightarrow> jsval list \<Rightarrow> (jsval \<times> jsval) list \<times> batch_error list
    \<Rightarrow> (jsval \<times> jsval) list \<times> batch_error list" where
  "batch_sequential C W i [] acc = acc"
| "batch_sequential C W i (q # qs) (results, errors) =
     (case snd (client_dispatch C (W i) q None) of
        Inr r \<Rightarrow> batch_sequential C W (Suc i) qs (results @ [r], errors)
      | Inl e \<Rightarrow> batch_sequential C W (Suc i) qs (results, errors @ [batch_error_of i e]))"

text \<open>At once: every outcome is kept with its index, and they are looked at in the order of the requests.\<close>

definition settled :: "sdk_client \<Rightarrow> (nat \<Rightarrow> client_world) \<Rightarrow> jsval list \<Rightarrow> (nat \<times> (client_error + jsval \<times> jsval)) list" where
  "settled C W qs = map (\<lambda>(i, q). (i, snd (client_dispatch C (W i) q None))) (List.enumerate 0 qs)"

definition batch_parallel :: "sdk_client \<Rightarrow> (nat \<Rightarrow> client_world) \<Rightarrow> jsval list \<Rightarrow> (jsval \<times> jsval) list \<times> batch_error list" where
  "batch_parallel C W qs =
     foldl (\<lambda>(results, errors) (i, out). case out of Inr r \<Rightarrow> (results @ [r], errors) | Inl e \<Rightarrow> (results, errors @ [batch_error_of i e]))
       ([], []) (settled C W qs)"

definition dispatchBatch :: "sdk_client \<Rightarrow> (nat \<Rightarrow> client_world) \<Rightarrow> bool \<Rightarrow> jsval list \<Rightarrow> (jsval \<times> jsval) list \<times> batch_error list" where
  "dispatchBatch C W at_once qs = (if at_once then batch_parallel C W qs else batch_sequential C W 0 qs ([], []))"

lemma batch_sequential_fold:
  "batch_sequential C W i qs acc =
   foldl (\<lambda>(results, errors) (i, out). case out of Inr r \<Rightarrow> (results @ [r], errors) | Inl e \<Rightarrow> (results, errors @ [batch_error_of i e])) acc
     (map (\<lambda>(i, q). (i, snd (client_dispatch C (W i) q None))) (List.enumerate i qs))"
  by (induction C W i qs acc rule: batch_sequential.induct) (auto split: sum.split)

lemma fold_outcomes:
  "foldl (\<lambda>(results, errors) (i, out). case out of Inr r \<Rightarrow> (results @ [r], errors) | Inl e \<Rightarrow> (results, errors @ [batch_error_of i e])) (rs, es) os =
   (rs @ List.map_filter (\<lambda>(i, out). case out of Inr r \<Rightarrow> Some r | Inl e \<Rightarrow> None) os,
    es @ List.map_filter (\<lambda>(i, out). case out of Inr r \<Rightarrow> None | Inl e \<Rightarrow> Some (batch_error_of i e)) os)"
  by (induction os arbitrary: rs es) (auto simp: List.map_filter_simps split: sum.split)

text \<open>A batch answers each of its requests once: the results are those of the requests that succeeded, in their order, and
  the errors name the others by their index; it makes no difference whether it runs in sequence or at once.\<close>

theorem batch_exact:
  "dispatchBatch C W at_once qs =
    (let outcomes = map (\<lambda>i. snd (client_dispatch C (W i) (qs ! i) None)) [0..<length qs] in
     (List.map_filter (\<lambda>out. case out of Inr r \<Rightarrow> Some r | Inl e \<Rightarrow> None) outcomes,
      List.map_filter (\<lambda>(i, out). case out of Inr r \<Rightarrow> None | Inl e \<Rightarrow> Some (batch_error_of i e)) (List.enumerate 0 outcomes)))"
proof -
  have e: "map (\<lambda>(i, q). (i, snd (client_dispatch C (W i) q None))) (List.enumerate 0 qs) =
      List.enumerate 0 (map (\<lambda>i. snd (client_dispatch C (W i) (qs ! i) None)) [0..<length qs])"
    by (rule nth_equalityI) (simp_all add: nth_enumerate_eq)
  have p: "dispatchBatch C W at_once qs = batch_parallel C W qs"
    by (simp add: dispatchBatch_def batch_parallel_def settled_def batch_sequential_fold)
  have m: "List.map_filter (\<lambda>(i, out). f out) (List.enumerate n xs) = List.map_filter f xs" for f :: "'x \<Rightarrow> 'y option" and n xs
    by (induction xs arbitrary: n) (simp_all add: List.map_filter_simps split: option.split)
  show ?thesis unfolding p by (simp add: batch_parallel_def settled_def fold_outcomes e m Let_def)
qed

section \<open>Polling\<close>

text \<open>What one look at the task comes to; \<open>None\<close> when it is neither over nor waiting for an approval.\<close>

definition terminal_names :: "string list" where
  "terminal_names = [''completed'', ''failed'', ''denied'', ''revoked'']"

definition awaiting_result :: "string \<Rightarrow> jsval" where
  "awaiting_result task = JObj [(''task_id'', JStr task), (''status'', JStr ''awaiting_approval''), (''structured_output'', JObj []),
     (''followup_required'', JBool False)]"

definition status_text :: "jsval \<Rightarrow> string" where
  "status_text v = (case js_prop v ''status'' of JStr s \<Rightarrow> s | _ \<Rightarrow> [])"

definition poll_outcome :: "string \<Rightarrow> jsval \<Rightarrow> (client_error + jsval \<times> jsval) option" where
  "poll_outcome task v =
     (if nullish v then Some (Inl (PlainError ''TypeError''))
      else if status_text v \<in> set terminal_names
      then Some (if js_truthy (js_prop v ''result'') then Inr (js_prop v ''result'', js_prop v ''receipt'')
                 else Inl (map_error (''Task '' @ task @ '' reached terminal state '' @ status_text v @ '' without a result'')))
      else if status_text v = ''awaiting_approval''
      then Some (Inr (js_coalesce (js_prop v ''result'') (awaiting_result task), js_prop v ''receipt''))
      else None)"

definition poll_step :: "sdk_client \<Rightarrow> (nat \<Rightarrow> client_world) \<Rightarrow> string \<Rightarrow> nat \<Rightarrow> (client_error + jsval \<times> jsval) option" where
  "poll_step C W task k = (case snd (client_getTask C (W k) task None) of Inl e \<Rightarrow> Some (Inl e) | Inr v \<Rightarrow> poll_outcome task v)"

text \<open>The loop: the clock is read before each look; the sleep between two looks shows in it only. It may go on for ever, so that is a value: \<open>None\<close>.\<close>

partial_function (option) poll_from :: "sdk_client \<Rightarrow> (nat \<Rightarrow> client_world) \<Rightarrow> string \<Rightarrow> (nat \<Rightarrow> ms) \<Rightarrow> ms \<Rightarrow> string \<Rightarrow> nat
    \<Rightarrow> (nat \<times> (client_error + jsval \<times> jsval)) option" where
  "poll_from C W task clock deadline late k =
     (if clock k < deadline
      then (case poll_step C W task k of
              Some out \<Rightarrow> Some (Suc k, out)
            | None \<Rightarrow> poll_from C W task clock deadline late (Suc k))
      else Some (k, Inl (map_error late)))"

definition pollUntilTerminal :: "sdk_client \<Rightarrow> (nat \<Rightarrow> client_world) \<Rightarrow> string \<Rightarrow> ms \<Rightarrow> (nat \<Rightarrow> ms) \<Rightarrow> int
    \<Rightarrow> (nat \<times> (client_error + jsval \<times> jsval)) option" where
  "pollUntilTerminal C W task start clock timeout =
     poll_from C W task clock (start + timeout) (''Polling timed out after '' @ int_str timeout @ ''ms for task '' @ task) 0"

lemma poll_from_ends:
  assumes "\<And>k. clock k + step \<le> clock (Suc k)" and "0 < step"
  shows "\<exists>m out. poll_from C W task clock deadline late k = Some (m, out) \<and> (m = k \<or> k < m \<and> clock (m - 1) < deadline) \<and>
    (out = Inl (map_error late) \<or> poll_step C W task (m - 1) = Some out) \<and> list_all (\<lambda>j. poll_step C W task j = None) [k..<m - 1]"
proof (induction "nat (deadline - clock k)" arbitrary: k rule: less_induct)
  case less
  show ?case
  proof (cases "clock k < deadline")
    case False
    then show ?thesis by (subst poll_from.simps) simp
  next
    case True
    show ?thesis
    proof (cases "poll_step C W task k")
      case (Some out)
      then show ?thesis using True by (subst poll_from.simps) (auto intro!: exI [of _ "Suc k"])
    next
      case None
      have "nat (deadline - clock (Suc k)) < nat (deadline - clock k)" using assms(1) [of k] assms(2) True by linarith
      from less [OF this] obtain m out where m: "poll_from C W task clock deadline late (Suc k) = Some (m, out)"
          "m = Suc k \<or> Suc k < m \<and> clock (m - 1) < deadline"
          "out = Inl (map_error late) \<or> poll_step C W task (m - 1) = Some out" "list_all (\<lambda>j. poll_step C W task j = None) [Suc k..<m - 1]" by blast
      have l: "list_all (\<lambda>j. poll_step C W task j = None) [k..<m - 1]"
      proof (cases "k < m - 1")
        case True
        then show ?thesis using m(4) None by (simp add: upt_conv_Cons)
      qed simp
      have "poll_from C W task clock deadline late k = Some (m, out)"
        using True None m(1) by (subst poll_from.simps) simp
      then show ?thesis using m(2,3) l True by (intro exI [of _ m] exI [of _ out]) auto
    qed
  qed
qed

lemma clock_grows:
  fixes clock :: "nat \<Rightarrow> ms"
  assumes "\<And>k. clock k + step \<le> clock (Suc k)"
  shows "clock 0 + int k * step \<le> clock k"
proof (induction k)
  case (Suc k)
  then show ?case using assms [of k] by (simp add: algebra_simps)
qed simp

text \<open>Polling ends when the clock moves on by some step between two looks, after at most as many looks as steps fit into the
  time allowed, and one more; it then gives what the last look came to, which is the first one that came to anything, or the
  time-out.\<close>

theorem polling_ends:
  assumes "\<And>k. clock k + step \<le> clock (Suc k)" and "0 < step" and "start \<le> clock 0" and "0 \<le> timeout"
  shows "\<exists>n out. pollUntilTerminal C W task start clock timeout = Some (n, out) \<and> int n * step < timeout + step \<and>
    list_all (\<lambda>j. poll_step C W task j = None) [0..<n - 1] \<and>
    (poll_step C W task (n - 1) = Some out \<or>
     out = Inl (map_error (''Polling timed out after '' @ int_str timeout @ ''ms for task '' @ task)))"
proof -
  obtain n out where n: "pollUntilTerminal C W task start clock timeout = Some (n, out)"
      "n = 0 \<or> 0 < n \<and> clock (n - 1) < start + timeout"
      "list_all (\<lambda>j. poll_step C W task j = None) [0..<n - 1]"
      "out = Inl (map_error (''Polling timed out after '' @ int_str timeout @ ''ms for task '' @ task)) \<or> poll_step C W task (n - 1) = Some out"
    using poll_from_ends [where clock = clock and step = step and k = 0 and C = C and W = W and task = task and deadline = "start + timeout"
        and late = "''Polling timed out after '' @ int_str timeout @ ''ms for task '' @ task", OF assms(1,2)]
    unfolding pollUntilTerminal_def by blast
  have "int n * step < timeout + step"
  proof (cases n)
    case (Suc m)
    then have "clock m < start + timeout" using n(2) by simp
    then have "int m * step < timeout" using clock_grows [of clock step m, OF assms(1)] assms(3) by linarith
    then show ?thesis by (simp add: Suc algebra_simps)
  qed (use assms(2,4) in simp)
  with n show ?thesis by blast
qed

definition sample_client :: sdk_client where
  "sample_client = new_client ''http://map'' None None None None None"

definition sample_client_world :: client_world where
  "sample_client_world = \<lparr>cw_net = (\<lambda>_ _. NetReply 200 (Inr (JObj [(''task'', JObj [(''status'', JStr ''running'')])]))), cw_now = (\<lambda>_. 0),
     cw_random = (\<lambda>_. 0), cw_json = (\<lambda>_. ''{}''), cw_text = (\<lambda>_. []), cw_encode = id, cw_search = (\<lambda>_. [])\<rparr>"

theorem polling_ends_witness:
  "\<exists>n out. pollUntilTerminal sample_client (\<lambda>_. sample_client_world) ''t'' 0 (\<lambda>k. int k * 1000) 2500 = Some (n, out) \<and> n \<le> 3"
proof -
  obtain n out where "pollUntilTerminal sample_client (\<lambda>_. sample_client_world) ''t'' 0 (\<lambda>k. int k * 1000) 2500 = Some (n, out)"
      "int n * 1000 < 2500 + 1000"
    using polling_ends [of "\<lambda>k. int k * 1000" 1000 0 2500 sample_client "\<lambda>_. sample_client_world" "''t''"] by auto
  then show ?thesis by (intro exI [of _ n] exI [of _ out]) simp
qed

section \<open>The workflow\<close>

record workflow_options =
  wo_autoApprove :: bool
  wo_pollUntilComplete :: bool
  wo_pollTimeoutMs :: int

definition approval_body :: "jsval \<Rightarrow> jsval \<Rightarrow> jsval" where
  "approval_body req result =
     JObj [(''task_id'', js_prop (js_prop req ''envelope'') ''task_id''),
       (''approval_reference'', js_coalesce (js_prop (js_prop result ''structured_output'') ''approval_reference'') (js_prop result ''task_id'')),
       (''capability'', js_prop req ''capability''), (''envelope'', js_prop req ''envelope'')]"

definition request_task_id :: "jsval \<Rightarrow> string" where
  "request_task_id req = (case js_prop (js_prop req ''envelope'') ''task_id'' of JStr s \<Rightarrow> s | _ \<Rightarrow> [])"

text \<open>The first request is the dispatch; the approval or the looks follow. \<open>None\<close> when the polling goes on for ever.\<close>

definition workflow :: "sdk_client \<Rightarrow> (nat \<Rightarrow> client_world) \<Rightarrow> (nat \<Rightarrow> ms) \<Rightarrow> workflow_options \<Rightarrow> jsval
    \<Rightarrow> (client_error + jsval \<times> jsval) option" where
  "workflow C W clock wo req =
     (case snd (client_dispatch C (W 0) req None) of
        Inl e \<Rightarrow> Some (Inl e)
      | Inr (result, rc) \<Rightarrow>
          if js_prop result ''status'' = JStr ''awaiting_approval'' \<and> wo_autoApprove wo
          then Some (snd (client_approve C (W 1) (approval_body req result)))
          else if js_prop result ''status'' = JStr ''running'' \<and> wo_pollUntilComplete wo
          then map_option (\<lambda>(n, out). case out of Inl e \<Rightarrow> Inl e | Inr (r, rc1) \<Rightarrow> Inr (r, js_coalesce rc1 rc))
            (pollUntilTerminal C (\<lambda>k. W (Suc k)) (request_task_id req)
               (clock 0) (\<lambda>k. clock (Suc k)) (wo_pollTimeoutMs wo))
          else Some (Inr (result, rc)))"

text \<open>With nothing to wait for, the workflow is its dispatch.\<close>

lemma workflow_plain:
  assumes "\<not> wo_autoApprove wo" and "\<not> wo_pollUntilComplete wo"
  shows "workflow C W clock wo req = Some (snd (client_dispatch C (W 0) req None))"
  using assms by (simp add: workflow_def split: sum.split prod.split)

end
