(* ===== verification/SdkStream.thy ===== *)
theory SdkStream
  imports SdkClient
begin

text \<open>
  The stream of a task's events between \<open>server/read-routes.ts\<close>, which writes it, and \<open>parseSSE\<close> of
  \<open>packages/typescript/src/client.ts\<close>, which reads it in whatever pieces the network delivers.
  \<open>JSON.parse\<close> and the text of an event's data are parameters.
\<close>

section \<open>Reading\<close>

abbreviation LF :: char where "LF \<equiv> CHR 0x0A"

text \<open>\<open>buffer.split('\n\n')\<close>: the parts that are complete, and the rest, which becomes the buffer.\<close>

fun blocks :: "string \<Rightarrow> string list \<times> string" where
  "blocks [] = ([], [])"
| "blocks [c] = ([], [c])"
| "blocks (c # d # s) =
     (if c = LF \<and> d = LF then (case blocks s of (ps, r) \<Rightarrow> ([] # ps, r))
      else (case blocks (d # s) of (ps, r) \<Rightarrow> (case ps of [] \<Rightarrow> ([], c # r) | p # ps \<Rightarrow> ((c # p) # ps, r))))"

text \<open>The lines of a part: the last event type and the last data.\<close>

definition sse_line :: "string \<times> string \<Rightarrow> string \<Rightarrow> string \<times> string" where
  "sse_line td line =
     (if prefix ''event: '' line then (str_trim (drop 7 line), snd td)
      else if prefix ''data: '' line then (fst td, str_trim (drop 6 line)) else td)"

definition sse_event :: "(string \<Rightarrow> jsval option) \<Rightarrow> string \<Rightarrow> jsval option" where
  "sse_event json part =
     (case foldl sse_line ([], []) (split_on LF part) of (kind, data) \<Rightarrow>
        if data = [] then None
        else (case json data of
                Some v \<Rightarrow> Some v
              | None \<Rightarrow>
                  if kind \<noteq> [] then (case json data of
                    Some v \<Rightarrow> Some (JObj (obj_merge [(''type'', JStr kind)] (case v of JObj kvs \<Rightarrow> kvs | _ \<Rightarrow> []))) | None \<Rightarrow> None)
                  else None))"

definition parseSSE :: "(string \<Rightarrow> jsval option) \<Rightarrow> string \<Rightarrow> string \<Rightarrow> jsval list \<times> string" where
  "parseSSE json buffer chunk = (case blocks (buffer @ chunk) of (ps, r) \<Rightarrow> (List.map_filter (sse_event json) ps, r))"

definition read_stream :: "(string \<Rightarrow> jsval option) \<Rightarrow> string \<Rightarrow> string list \<Rightarrow> jsval list \<times> string" where
  "read_stream json buffer chunks =
     foldl (\<lambda>(es, b) c. case parseSSE json b c of (new, b1) \<Rightarrow> (es @ new, b1)) ([], buffer) chunks"

section \<open>Writing\<close>

datatype sse_frame = EventFrame string string | Heartbeat

fun frame_text :: "sse_frame \<Rightarrow> string" where
  "frame_text (EventFrame kind data) = ''event: '' @ kind @ LF # ''data: '' @ data @ [LF, LF]"
| "frame_text Heartbeat = '': heartbeat'' @ [LF, LF]"

section \<open>Pieces\<close>

lemma blocks_rest: "blocks s = ([], r) \<Longrightarrow> r = s"
  by (induction s arbitrary: r rule: blocks.induct) (auto split: if_splits prod.splits list.splits)

lemma blocks_append: "blocks (s @ t) = (case blocks s of (ps, r) \<Rightarrow> (case blocks (r @ t) of (qs, r1) \<Rightarrow> (ps @ qs, r1)))"
proof (induction s rule: blocks.induct)
  case (3 c d s)
  show ?case
  proof (cases "c = LF \<and> d = LF")
    case True
    then show ?thesis using 3(1) by (simp split: prod.splits)
  next
    case False
    obtain ps r where b: "blocks (d # s) = (ps, r)" by fastforce
    obtain qs r1 where q: "blocks (r @ t) = (qs, r1)" by fastforce
    have all: "blocks (d # s @ t) = (ps @ qs, r1)" using 3(2) [OF False] b q by simp
    show ?thesis
    proof (cases ps)
      case (Cons p ps')
      then show ?thesis using False all b q by auto
    next
      case Nil
      then have "r = d # s" using b blocks_rest by simp
      then show ?thesis using False all b q Nil by (auto split: list.split)
    qed
  qed
qed (auto split: prod.split)

text \<open>The pieces in which a stream arrives make no difference.\<close>

lemma map_filter_append [simp]: "List.map_filter f (xs @ ys) = List.map_filter f xs @ List.map_filter f ys"
  by (induction xs) (auto simp: List.map_filter_simps split: option.split)

lemma parseSSE_append: "parseSSE json b (c @ d) = (case parseSSE json b c of (es, b1) \<Rightarrow> (case parseSSE json b1 d of (fs, b2) \<Rightarrow> (es @ fs, b2)))"
proof -
  obtain ps r where 1: "blocks (b @ c) = (ps, r)" by fastforce
  obtain qs r1 where 2: "blocks (r @ d) = (qs, r1)" by fastforce
  have "blocks (b @ c @ d) = (ps @ qs, r1)" using blocks_append [of "b @ c" d] 1 2 by simp
  then show ?thesis using 1 2 by (simp add: parseSSE_def)
qed

lemma read_stream_Cons: "read_stream json b (c # cs) = (case parseSSE json b c of (es, b1) \<Rightarrow> (case read_stream json b1 cs of (fs, b2) \<Rightarrow> (es @ fs, b2)))"
proof -
  let ?f = "\<lambda>(es, b) c. case parseSSE json b c of (new, b1) \<Rightarrow> (es @ new, b1)"
  have all: "foldl ?f (es @ fs, b) cs = (case foldl ?f (fs, b) cs of (gs, b1) \<Rightarrow> (es @ gs, b1))" for es fs b cs
    by (induction cs arbitrary: fs b) (simp_all split: prod.split)
  obtain es b1 where p: "parseSSE json b c = (es, b1)" by fastforce
  have "read_stream json b (c # cs) = foldl ?f (es @ [], b1) cs" by (simp add: read_stream_def p)
  then show ?thesis unfolding all by (simp add: p read_stream_def)
qed

lemma blocks_rest_whole: "blocks s = (ps, r) \<Longrightarrow> blocks r = ([], r)"
proof (induction s arbitrary: ps r rule: blocks.induct)
  case (3 c d s)
  show ?case
  proof (cases "c = LF \<and> d = LF")
    case True
    then show ?thesis using 3 by (auto split: prod.splits)
  next
    case False
    obtain qs q where b: "blocks (d # s) = (qs, q)" by fastforce
    then have w: "blocks q = ([], q)" using 3(2) [OF False] by blast
    show ?thesis
    proof (cases qs)
      case Nil
      then have "q = d # s" using b blocks_rest by simp
      then show ?thesis using 3(3) False b w Nil by auto
    next
      case (Cons p ps')
      then show ?thesis using 3(3) False b w by auto
    qed
  qed
qed auto

lemma pieces_irrelevant: "blocks b = ([], b) \<Longrightarrow> read_stream json b chunks = parseSSE json b (concat chunks)"
proof (induction chunks arbitrary: b)
  case Nil
  then show ?case by (simp add: read_stream_def parseSSE_def List.map_filter_simps)
next
  case (Cons c cs)
  obtain ps r where b: "blocks (b @ c) = (ps, r)" by fastforce
  have "blocks r = ([], r)" using b by (rule blocks_rest_whole)
  from Cons.IH [OF this] have "read_stream json r cs = parseSSE json r (concat cs)" .
  moreover have "snd (parseSSE json b c) = r" by (simp add: parseSSE_def b)
  ultimately show ?case by (auto simp: read_stream_Cons parseSSE_append split: prod.split)
qed

section \<open>What arrives\<close>

lemma blocks_prefix: "LF \<notin> set x \<Longrightarrow> blocks (x @ t) = (case blocks t of (ps, r) \<Rightarrow> (case ps of [] \<Rightarrow> ([], x @ r) | p # qs \<Rightarrow> ((x @ p) # qs, r)))"
proof (induction x)
  case Nil
  then show ?case by (simp split: prod.split list.split)
next
  case (Cons c x)
  have c: "c \<noteq> LF" "LF \<notin> set x" using Cons.prems by auto
  show ?case
  proof (cases "x @ t")
    case (Cons d s)
    then have "blocks ((c # x) @ t) = (case blocks (x @ t) of (ps, r) \<Rightarrow> (case ps of [] \<Rightarrow> ([], c # r) | p # ps \<Rightarrow> ((c # p) # ps, r)))"
      using c(1) by simp
    then show ?thesis unfolding Cons.IH [OF c(2)] by (simp split: prod.split list.split)
  qed simp
qed

lemma blocks_one_line: "LF \<notin> set x \<Longrightarrow> blocks (x @ LF # LF # s) = (case blocks s of (ps, r) \<Rightarrow> (x # ps, r))"
  by (simp add: blocks_prefix split: prod.split)

lemma blocks_two_lines:
  assumes "LF \<notin> set x" and "LF \<notin> set y" and "y \<noteq> []"
  shows "blocks (x @ LF # y @ LF # LF # s) = (case blocks s of (ps, r) \<Rightarrow> ((x @ LF # y) # ps, r))"
proof -
  obtain d y' where y: "y = d # y'" "d \<noteq> LF" using assms(2,3) by (cases y) auto
  have "blocks (LF # y @ LF # LF # s) = (case blocks (y @ LF # LF # s) of (ps, r) \<Rightarrow> (case ps of [] \<Rightarrow> ([], LF # r) | p # ps \<Rightarrow> ((LF # p) # ps, r)))"
    using y by simp
  then show ?thesis unfolding blocks_prefix [OF assms(1)] blocks_one_line [OF assms(2)] by (simp split: prod.split)
qed

text \<open>What \<open>JSON.stringify\<close> writes has no line end and no space around it.\<close>

fun frame_ok :: "sse_frame \<Rightarrow> bool" where
  "frame_ok (EventFrame kind data) = (LF \<notin> set kind \<and> LF \<notin> set data \<and> str_trim data = data \<and> data \<noteq> [])"
| "frame_ok Heartbeat = True"

fun frame_value :: "(string \<Rightarrow> jsval option) \<Rightarrow> sse_frame \<Rightarrow> jsval option" where
  "frame_value json (EventFrame kind data) = json data"
| "frame_value json Heartbeat = None"

definition frame_part :: "sse_frame \<Rightarrow> string" where
  "frame_part f = (case f of EventFrame kind data \<Rightarrow> ''event: '' @ kind @ LF # ''data: '' @ data | Heartbeat \<Rightarrow> '': heartbeat'')"

lemma blocks_frame: "frame_ok f \<Longrightarrow> blocks (frame_text f @ s) = (case blocks s of (ps, r) \<Rightarrow> (frame_part f # ps, r))"
proof (cases f)
  case (EventFrame kind data)
  assume "frame_ok f"
  then have "LF \<notin> set (''event: '' @ kind)" "LF \<notin> set (''data: '' @ data)" using EventFrame by auto
  from blocks_two_lines [OF this, of s] show ?thesis by (simp add: EventFrame frame_part_def split: prod.split)
next
  case Heartbeat
  have "LF \<notin> set '': heartbeat''" by simp
  from blocks_one_line [OF this, of s] show ?thesis by (simp add: Heartbeat frame_part_def split: prod.split)
qed

lemma sse_event_frame: "frame_ok f \<Longrightarrow> sse_event json (frame_part f) = frame_value json f"
proof (cases f)
  case (EventFrame kind data)
  assume ok: "frame_ok f"
  have free: "LF \<notin> set (''event: '' @ kind)" "LF \<notin> set (''data: '' @ data)" using ok EventFrame by auto
  have "split_on LF (frame_part f) = [''event: '' @ kind, ''data: '' @ data]"
    using split_on_append [OF free(1), of "''data: '' @ data"] split_on_char_free [OF free(2)]
    by (simp add: frame_part_def EventFrame)
  then show ?thesis using ok by (simp add: sse_event_def EventFrame sse_line_def split: option.split)
next
  case Heartbeat
  have "split_on LF '': heartbeat'' = ['': heartbeat'']" by (rule split_on_char_free) simp
  then show ?thesis by (simp add: sse_event_def Heartbeat frame_part_def sse_line_def)
qed

lemma blocks_frames: "list_all frame_ok fs \<Longrightarrow> blocks (concat (map frame_text fs)) = (map frame_part fs, [])"
  by (induction fs) (simp_all add: blocks_frame)

text \<open>C32: The events the server wrote are read as they were, each once and in their order, and the heartbeats between them left out,
  in whatever pieces the stream arrives.\<close>

theorem stream_roundtrip:
  assumes "list_all frame_ok fs" and "concat chunks = concat (map frame_text fs)"
  shows "read_stream json [] chunks = (List.map_filter (frame_value json) fs, [])"
proof -
  have "List.map_filter (sse_event json) (map frame_part fs) = List.map_filter (frame_value json) fs"
    using assms(1) by (induction fs) (simp_all add: List.map_filter_simps sse_event_frame split: option.split)
  then show ?thesis
    by (simp add: pieces_irrelevant assms(2) parseSSE_def blocks_frames [OF assms(1)])
qed

theorem stream_roundtrip_witness:
  "read_stream (\<lambda>d. Some (JStr d)) [] [''event: status'', [LF], ''data: 1'', [LF], [LF]] = ([JStr ''1''], [])"
proof -
  have "list_all frame_ok [EventFrame ''status'' ''1'']" by (simp add: str_trim_def is_ws_def)
  from stream_roundtrip [OF this, of "[''event: status'', [LF], ''data: 1'', [LF], [LF]]" "\<lambda>d. Some (JStr d)"]
  show ?thesis by (simp add: List.map_filter_simps)
qed

text \<open>The name of an event is never looked at: the one branch that would use it needs the text that could not be parsed to be parsed.
  What a reader gets is the data alone, in which the server puts no member \<open>type\<close>.\<close>

lemma event_name_unused: "LF \<notin> set k \<Longrightarrow> LF \<notin> set k' \<Longrightarrow> frame_ok (EventFrame k d) \<Longrightarrow>
    sse_event json (frame_part (EventFrame k d)) = sse_event json (frame_part (EventFrame k' d))"
  by (simp add: sse_event_frame)

end
