(* ===== verification/SdkSigner.thy ===== *)
theory SdkSigner
  imports SdkClient AuthProofs MicroAgent
begin

text \<open>
  \<open>packages/typescript/src/signing-http.ts\<close>, the signer of the client, and what the server's
  \<open>getSignedRequestError\<close> makes of a request it signed. HMAC is a parameter that both sides share; a nonce is
  given.
\<close>

section \<open>The signer\<close>

text \<open>\<open>stableStringify\<close> is the one of the micro-agent with members in the order of code units.\<close>

definition sdk_stableStringify :: "(rat \<Rightarrow> string) \<Rightarrow> jsval \<Rightarrow> string" where
  "sdk_stableStringify num v = opt_text ''undefined'' (micro_stringify (map of_char) num v)"

definition sdk_header :: "string \<Rightarrow> string \<Rightarrow> (string \<times> jsval) list" where
  "sdk_header kid nonce = [(''alg'', JStr ''HS256''), (''kid'', JStr kid), (''nonce'', JStr nonce), (''typ'', JStr ''MAPSIG'')]"

definition sdk_payload :: "string \<Rightarrow> string \<Rightarrow> string \<Rightarrow> string \<Rightarrow> string option \<Rightarrow> (string \<times> jsval) list" where
  "sdk_payload kid method path timestamp body =
     [(''body'', JStr (case body of None \<Rightarrow> [] | Some b \<Rightarrow> b)), (''key_id'', JStr kid), (''method'', JStr (str_upper method)), (''path'', JStr path),
      (''timestamp'', JStr timestamp)]"

definition signRequest :: "(rat \<Rightarrow> string) \<Rightarrow> (string \<Rightarrow> string \<Rightarrow> nat list) \<Rightarrow> string \<Rightarrow> string \<Rightarrow> string
    \<Rightarrow> string \<Rightarrow> string \<Rightarrow> string \<Rightarrow> string option \<Rightarrow> string" where
  "signRequest num hmac kid secret nonce method path timestamp body =
     (let input = base64url (sdk_stableStringify num (JObj (sdk_header kid nonce))) @ ''.'' @
            base64url (sdk_stableStringify num (JObj (sdk_payload kid method path timestamp body)))
      in input @ ''.'' @ b64_encode (hmac secret input))"

definition hashBody :: "(string \<Rightarrow> string \<Rightarrow> nat list) \<Rightarrow> string \<Rightarrow> string option \<Rightarrow> string" where
  "hashBody hmac secret body = (case body of None \<Rightarrow> [] | Some b \<Rightarrow> if b = [] then [] else b64_encode (hmac secret b))"

definition configureSigning :: "(rat \<Rightarrow> string) \<Rightarrow> (string \<Rightarrow> string \<Rightarrow> nat list) \<Rightarrow> string \<Rightarrow> string \<Rightarrow> string \<Rightarrow> sdk_client \<Rightarrow> sdk_client" where
  "configureSigning num hmac nonce kid secret C = C\<lparr>cl_signer := Some (kid, signRequest num hmac kid secret nonce)\<rparr>"

text \<open>\<open>signing.ts\<close> has two signers of its own, over lines instead of a payload. SHA-256 and RSA are parameters; RSA may refuse a key.\<close>

datatype line_signer = HMACSigner string string | RSASigner string string

definition createSigner :: "string \<Rightarrow> string \<Rightarrow> string option \<Rightarrow> string option \<Rightarrow> string + line_signer" where
  "createSigner kind kid secret private_key =
     (if kind = ''hmac''
      then (case secret of None \<Rightarrow> Inl ''HMAC signing requires a secret''
              | Some s \<Rightarrow> if s = [] then Inl ''HMAC signing requires a secret'' else Inr (HMACSigner kid s))
      else if kind = ''rsa''
      then (case private_key of None \<Rightarrow> Inl ''RSA signing requires a private key''
              | Some s \<Rightarrow> if s = [] then Inl ''RSA signing requires a private key'' else Inr (RSASigner kid s))
      else Inl (''Unknown signer type: '' @ kind))"

definition signed_lines :: "string \<Rightarrow> string \<Rightarrow> string \<Rightarrow> string \<Rightarrow> string" where
  "signed_lines method path timestamp body_hash = method @ CHR 0x0A # path @ CHR 0x0A # timestamp @ CHR 0x0A # body_hash"

definition line_sign :: "(string \<Rightarrow> string \<Rightarrow> nat list) \<Rightarrow> (string \<Rightarrow> string \<Rightarrow> nat list option) \<Rightarrow> line_signer
    \<Rightarrow> string \<Rightarrow> string \<Rightarrow> string \<Rightarrow> string \<Rightarrow> string option" where
  "line_sign hmac rsa s method path timestamp body_hash =
     (case s of
        HMACSigner kid secret \<Rightarrow> Some (b64_encode (hmac secret (signed_lines method path timestamp body_hash)))
      | RSASigner kid key \<Rightarrow> map_option b64_encode (rsa key (signed_lines method path timestamp body_hash)))"

definition line_hashBody :: "(string \<Rightarrow> string \<Rightarrow> nat list) \<Rightarrow> (string \<Rightarrow> nat list) \<Rightarrow> line_signer \<Rightarrow> string option \<Rightarrow> string" where
  "line_hashBody hmac sha s body = (case body of None \<Rightarrow> [] | Some b \<Rightarrow>
     if b = [] then [] else b64_encode (case s of HMACSigner kid secret \<Rightarrow> hmac secret b | RSASigner kid key \<Rightarrow> sha b))"

section \<open>What the server makes of it\<close>

text \<open>Both sides write the payload alike.\<close>

lemma payload_agrees:
  "sdk_stableStringify num (JObj (sdk_payload kid verb path timestamp body)) =
   stableStringify big (signedRequestPayload \<lparr>sr_method = verb, sr_path = path, sr_timestamp = timestamp, sr_key_id = kid,
     sr_body = (case body of None \<Rightarrow> [] | Some b \<Rightarrow> b)\<rparr>)"
proof -
  have a: "sort_key (\<lambda>e. map of_char (fst e) :: nat list) [(''body'', a), (''key_id'', b), (''method'', c), (''path'', d), (''timestamp'', e)] =
      [(''body'', a), (''key_id'', b), (''method'', c), (''path'', d), (''timestamp'', e)]" for a b c d e :: "string option"
    by code_simp
  have b: "sort_key fst [(''method'', c), (''path'', d), (''timestamp'', e), (''key_id'', b), (''body'', a)] =
      [(''body'', a), (''key_id'', b), (''method'', c), (''path'', d), (''timestamp'', e)]" for a b c d e :: "string option"
    by code_simp
  show ?thesis
    by (simp only: sdk_stableStringify_def stableStringify_def sdk_payload_def signedRequestPayload_def micro_stringify.simps serializeJcs.simps
        list.map fst_conv snd_conv a b signed_request.simps)
qed

text \<open>The server reads the header the client wrote and finds the key in it.\<close>

definition client_header_readable :: "signing_world \<Rightarrow> (rat \<Rightarrow> string) \<Rightarrow> string \<Rightarrow> string \<Rightarrow> bool" where
  "client_header_readable S num kid nonce \<longleftrightarrow>
     sw_json S (sw_text S (utf8 (sdk_stableStringify num (JObj (sdk_header kid nonce))))) = Some (JObj (sdk_header kid nonce))"

definition shares_key :: "signing_world \<Rightarrow> string \<Rightarrow> string \<Rightarrow> bool" where
  "shares_key S kid secret \<longleftrightarrow> (\<exists>keys k. getSigningKeys S = Inr keys \<and> key_by_kid kid keys = Some k \<and> sk_material k = Hmac secret \<and>
     sk_alg k = HS256 \<and> sk_status k \<noteq> KRevoked \<and> scope_ok (Some ''http_request'') k)"

lemma client_signature_verifies:
  assumes "shares_key S kid secret" and "client_header_readable S num kid nonce"
  shows "fst (verifyCompactSignature S (signRequest num (sw_hmac S) kid secret nonce method path timestamp body)
     (signedRequestPayload \<lparr>sr_method = method, sr_path = path, sr_timestamp = timestamp, sr_key_id = kid,
        sr_body = (case body of None \<Rightarrow> [] | Some b \<Rightarrow> b)\<rparr>) (Some ''http_request'') st) = Inr True"
proof -
  obtain keys k where k: "getSigningKeys S = Inr keys" "key_by_kid kid keys = Some k" "sk_material k = Hmac secret" "sk_alg k = HS256"
      "sk_status k \<noteq> KRevoked" "scope_ok (Some ''http_request'') k"
    using assms(1) by (auto simp: shares_key_def)
  let ?h = "sdk_stableStringify num (JObj (sdk_header kid nonce))"
  let ?p = "sdk_stableStringify num (JObj (sdk_payload kid method path timestamp body))"
  have h: "header_key S (base64url ?h) = Inr (Some k)"
    using assms(2) k by (simp add: header_key_def parse_header_def base64url_decode client_header_readable_def sdk_header_def js_prop_def obj_get_def)
  have s: "split_on (CHR ''.'') ((base64url ?h @ ''.'' @ base64url ?p) @ ''.'' @ b64_encode bs) = [base64url ?h, base64url ?p, b64_encode bs]" for bs
    using split_three [OF base64url_no_dot base64url_no_dot b64_no_dot] by simp
  show ?thesis
    unfolding verifyCompactSignature_def payload_agrees [of num kid "method" path timestamp body "sw_big S", symmetric] signRequest_def Let_def verifyCompactSignatureFromCanonical_def s
    using k(3,6) by (simp add: h material_verifies_def Let_def)
qed

text \<open>The request as the server receives it: the names of headers in small letters. The client's own names must not be
  variants of those it adds.\<close>

definition received :: "client_call \<Rightarrow> string \<Rightarrow> http_request" where
  "received call path = \<lparr>hq_method = Some (cc_method call), hq_url = Some path,
     hq_headers = map (\<lambda>(k, v). (str_lower k, v)) (cc_headers call)\<rparr>"

lemma received_header:
  assumes "distinct (map fst (hq_headers (received call path)))" and "jm_get (cc_headers call) k = Some v" and "str_lower k = k"
  shows "header (received call path) k = Some v"
proof -
  have "(k, v) \<in> set (hq_headers (received call path))"
    using map_of_SomeD [OF assms(2)] assms(3) by (force simp: received_def)
  then show ?thesis using assms(1) by (simp add: header_def)
qed

lemma signed_headers:
  assumes "cl_signer C = Some (kid, sign)" and "call = client_call_of C W url i q"
  shows "jm_get (cc_headers call) ''x-map-auth-scheme'' = Some ''signed_request''" "jm_get (cc_headers call) ''x-map-key-id'' = Some kid"
    "jm_get (cc_headers call) ''x-map-timestamp'' = Some (toISOString (cw_now W i))"
    "jm_get (cc_headers call) ''x-map-request-signature'' =
       Some (sign (mq_method q) (mq_path q) (toISOString (cw_now W i)) (body_text W (mq_body q)))"
    "cc_method call = mq_method q"
  by (simp_all add: assms client_call_of_def Let_def set_all_def [of _ "[_, _, _, _]"] jm_get_set)

text \<open>C31: A request that the client signed passes the server's check when both hold the secret of an unrevoked key for requests, the clocks
  are close enough and the server sees the path that was signed.\<close>

theorem signed_client_passes:
  assumes "C = configureSigning num (sw_hmac (aw_signing A)) nonce kid secret C0" and "call = client_call_of C W url i q"
    and "shares_key (aw_signing A) kid secret" and "client_header_readable (aw_signing A) num kid nonce" and "kid \<notin> set revoked"
    and "sw_date (aw_signing A) (toISOString (cw_now W i)) = Some t" and "\<bar>now - t\<bar> \<le> five_minutes"
    and "\<not> num_lt (getRequestMaxAgeMs (aw_signing A)) (Fin (of_int \<bar>now - t\<bar>))"
    and "aw_path A path = Some (mq_path q)" and "distinct (map fst (hq_headers (received call path)))"
  shows "fst (getSignedRequestError A now (received call path) (case body_text W (mq_body q) of None \<Rightarrow> [] | Some b \<Rightarrow> b) revoked st) = Inr None"
proof -
  let ?sign = "signRequest num (sw_hmac (aw_signing A)) kid secret nonce" and ?ts = "toISOString (cw_now W i)"
  let ?body = "case body_text W (mq_body q) of None \<Rightarrow> [] | Some b \<Rightarrow> b"
  let ?r = "\<lparr>sr_method = mq_method q, sr_path = mq_path q, sr_timestamp = ?ts, sr_key_id = kid, sr_body = ?body\<rparr>"
  have signer: "cl_signer C = Some (kid, ?sign)" by (simp add: assms(1) configureSigning_def)
  note hs = signed_headers [OF signer assms(2)]
  have low: "str_lower ''x-map-auth-scheme'' = ''x-map-auth-scheme''" "str_lower ''x-map-key-id'' = ''x-map-key-id''"
    "str_lower ''x-map-timestamp'' = ''x-map-timestamp''" "str_lower ''x-map-request-signature'' = ''x-map-request-signature''"
    by code_simp+
  note get = received_header [OF assms(10) hs(1) low(1)] received_header [OF assms(10) hs(2) low(2)]
    received_header [OF assms(10) hs(3) low(3)] received_header [OF assms(10) hs(4) low(4)]
  have "fst (verifyHttpRequestSignature (aw_signing A) now ?r (?sign (mq_method q) (mq_path q) ?ts (body_text W (mq_body q))) None st) = Inr True"
    using client_signature_verifies [OF assms(3,4), of "mq_method q" "mq_path q" ?ts "body_text W (mq_body q)" st] assms(6,8)
    by (simp add: verifyHttpRequestSignature_def)
  then obtain st1 where v: "verifyHttpRequestSignature (aw_signing A) now ?r (?sign (mq_method q) (mq_path q) ?ts (body_text W (mq_body q))) None st
      = (Inr True, st1)" by (metis prod.collapse)
  have m: "hq_url (received call path) = Some path" "hq_method (received call path) = Some (mq_method q)"
    using hs(5) by (simp_all add: received_def)
  show ?thesis
    using assms(5,6,7,9) by (simp add: getSignedRequestError_def wantsSignedRequestAuth_def get m v)
qed

text \<open>What the other two signers write is no compact signature, and the server refuses it whatever the key.\<close>

lemma line_signatures_refused:
  assumes "line_sign hmac rsa s method path timestamp body_hash = Some sig"
  shows "fst (verifyCompactSignature S sig payload scope st) = Inr False"
proof -
  obtain bs where "sig = b64_encode bs" using assms by (auto simp: line_sign_def split: line_signer.splits)
  then have "split_on (CHR ''.'') sig = [sig]" using b64_no_dot split_on_char_free by metis
  then show ?thesis by (simp add: verifyCompactSignature_def verifyCompactSignatureFromCanonical_def)
qed

definition sample_verifier :: signing_world where
  "sample_verifier = (sample_world Open)\<lparr>sw_json := (\<lambda>_. Some (JObj (sdk_header default_kid ''n''))), sw_date := (\<lambda>_. Some 0)\<rparr>"

definition sample_signing_client :: sdk_client where
  "sample_signing_client = configureSigning (\<lambda>_. []) (sw_hmac sample_verifier) ''n'' default_kid ''s'' (new_client ''http://map'' None None None None None)"

definition sample_network :: client_world where
  "sample_network = \<lparr>cw_net = (\<lambda>_ _. NetDown ''down''), cw_now = (\<lambda>_. 0), cw_random = (\<lambda>_. 0), cw_json = (\<lambda>_. ''{}''), cw_text = (\<lambda>_. []),
     cw_encode = id, cw_search = (\<lambda>_. [])\<rparr>"

lemma sample_shares: "shares_key sample_verifier default_kid ''s''"
proof -
  have "getSigningKeys sample_verifier = Inr [sample_key]" by code_simp
  moreover have "key_by_kid default_kid [sample_key] = Some sample_key" "sk_material sample_key = Hmac ''s''" "sk_alg sample_key = HS256"
    "sk_status sample_key \<noteq> KRevoked" "scope_ok (Some ''http_request'') sample_key"
    by code_simp+
  ultimately show ?thesis unfolding shares_key_def by blast
qed

theorem signed_client_passes_witness:
  "fst (getSignedRequestError (plain_auth\<lparr>aw_signing := sample_verifier\<rparr>) 5
     (received (client_call_of sample_signing_client sample_network ''http://map/dispatch'' 0 (first_request ''POST'' ''/dispatch'' (JBool True) [])) ''/dispatch'')
     ''{}'' [] empty_signing) = Inr None"
proof -
  let ?A = "plain_auth\<lparr>aw_signing := sample_verifier\<rparr>" and ?q = "first_request ''POST'' ''/dispatch'' (JBool True) []"
  let ?call = "client_call_of sample_signing_client sample_network ''http://map/dispatch'' 0 ?q"
  have c: "sample_signing_client = configureSigning (\<lambda>_. []) (sw_hmac (aw_signing ?A)) ''n'' default_kid ''s'' (new_client ''http://map'' None None None None None)"
    by (simp add: sample_signing_client_def)
  have k: "shares_key (aw_signing ?A) default_kid ''s''" by (simp add: sample_shares)
  have h: "client_header_readable (aw_signing ?A) (\<lambda>_. []) default_kid ''n''" by (simp add: client_header_readable_def sample_verifier_def)
  have d: "sw_date (aw_signing ?A) (toISOString (cw_now sample_network 0)) = Some 0" by (simp add: sample_verifier_def)
  have w: "\<not> num_lt (getRequestMaxAgeMs (aw_signing ?A)) (Fin (of_int \<bar>5 - 0\<bar>))" by code_simp
  have p: "aw_path ?A ''/dispatch'' = Some (mq_path ?q)" by (simp add: plain_auth_def sample_auth_def first_request_def)
  have n: "distinct (map fst (hq_headers (received ?call ''/dispatch'')))"
    by (simp add: received_def client_call_of_def sample_signing_client_def configureSigning_def new_client_def first_request_def set_all_def
        List.map_filter_simps str_lower_def char_lower_def Let_def)
  have "body_text sample_network (mq_body ?q) = Some ''{}''" by (simp add: body_text_def first_request_def sample_network_def)
  then show ?thesis
    using signed_client_passes [OF c refl k h _ d _ w p n, of "[]" empty_signing] by (simp add: five_minutes_def)
qed

end
