(* ===== verification/Spec2Isabelle.thy ===== *)
theory Spec2Isabelle
  imports MapAgent TaskControl SignedReceipts TrustAnomaly RouteProofs Versions Delivery
    Alerts Kms SdkStorage SdkWebhooks HttpProofs ServerConfig
    ReferenceApp HttpAdapter SdkPolicy
    MicroReceipts MapClient SdkCalls SdkStream SdkSigner
begin

text \<open>
  Micro Agent Protocol: the policy-gated execution runtime of \<open>src/src\<close>.

  The program. A client asks an agent to run a capability. The request becomes an
  intent, a policy document decides whether it is allowed, denied or needs the
  approval of a human, and an adapter runs what is allowed. There are three ways in:

    \<^item> \<open>core/execute.ts\<close>: the free function \<open>execute\<close>, with an evaluator of its own;
    \<^item> \<open>map.ts\<close>: the \<open>map()\<close> agent with its rule language, over the \<open>Executor\<close> of
      \<open>core/execution\<close> and the compiled policy engine of \<open>core/policy\<close>;
    \<^item> \<open>control-plane/orchestrator.ts\<close>: the server's runtime. It maps a task envelope
      to an intent (\<open>integration/ecp-bridge.ts\<close>), finds the agent in the registry,
      decides, and runs the task at once, after an approval, or in a queue with
      retries and dead letters. Task records and signed receipts go to two stores
      with memory, file and database back ends.

  Around the runtime stand the parts that let a request in and vouch for what it did:
  \<open>security/signing.ts\<close> signs and verifies tokens, descriptors, receipts, requests and
  exports with the configured keys; \<open>server/mutation-routes.ts\<close> takes \<open>/dispatch\<close> and
  \<open>/approve\<close> through backpressure, rate limits, validation, runtime controls and
  authentication (\<open>server/middleware\<close>); every refusal goes to a hash-chained audit log
  (\<open>server/services/audit-manager.ts\<close>); a micro-agent (\<open>runtime/micro-agent.ts\<close>) runs a
  task only for a delegation token of \<open>control-plane/delegation.ts\<close>.

  The theories, in the order of their imports.

    \<^item> \<open>Prelude\<close>: strings as JavaScript treats them, \<open>Map\<close>s as association lists in
      insertion order, and the interfaces: \<open>keyed_store\<close> (a map's laws),
      \<open>invariant_system\<close> (steps that keep an invariant), \<open>stable_system\<close> (steps that
      keep an observation once it is made) and \<open>tenant_partition\<close> (tenant-filtered
      views of one store).
    \<^item> \<open>JsValues\<close>: JSON values with \<open>undefined\<close> and \<open>NaN\<close>, strict equality,
      truthiness, property access.
    \<^item> \<open>ProtocolTypes\<close>: the records of \<open>core/types.ts\<close> and \<open>protocol/map-types.ts\<close>.
    \<^item> \<open>CorePolicy\<close>: \<open>core/policy/index.ts\<close> and \<open>normalize\<close>. The compiled evaluator is
      shown to take the first applicable rule of the document.
    \<^item> \<open>CoreExecute\<close>: \<open>core/execute.ts\<close>, \<open>core/execution\<close>, \<open>core/audit\<close>. The executor is
      a gate; the two evaluators agree on a stated fragment and differ outside it.
    \<^item> \<open>MapAgent\<close>: \<open>map.ts\<close>. The rule language refines to documents, approving runs
      only what was asked, and only once.
    \<^item> \<open>TaskStore\<close>, \<open>ReceiptStore\<close>: \<open>control-plane/task-store.ts\<close> and
      \<open>receipt-store.ts\<close>. Invariants of the maps and their index, the status life
      cycle, tenant isolation, the append-only log, restarts of each back end.
    \<^item> \<open>AsyncQueue\<close>: \<open>control-plane/async-queue.ts\<close>. Bounds hold in every run; the
      exact accounting of slots holds in the runs \<open>regular_run\<close> describes, and an
      example shows how it is lost outside them.
    \<^item> \<open>Bridge\<close>, \<open>Registry\<close>: \<open>ecp-bridge.ts\<close> and \<open>registry.ts\<close>.
    \<^item> \<open>Orchestrator\<close>: \<open>orchestrator.ts\<close> over all of these. An operation maps the
      runtime's state to a new state and an error or a value. One that awaits an
      execution is two definitions, so that other operations can run in between;
      \<open>orch_step\<close> interleaves them in any order.
    \<^item> \<open>OrchestratorProofs\<close>, \<open>TaskControl\<close>: the theorems on it. The locale
      \<open>state_preorder\<close> lifts a relation between states through the operations; it is
      used for the records (what is stored stays) and for the adapter calls (each has
      a justification). \<open>TaskControl\<close> has approval, cancellation and dead letters.
    \<^item> \<open>Canonical\<close>, \<open>ProtocolJson\<close>, \<open>JsNumber\<close>: \<open>serializeJcs\<close> and base64url, the JSON
      form of the protocol records, and the text and reading of numbers. The canonical
      text does not depend on the order of members and can be read back.
    \<^item> \<open>SigningKeys\<close>, \<open>Signing\<close>, \<open>SignedArtifacts\<close>: \<open>security/key-provider.ts\<close> and
      \<open>security/signing.ts\<close>: the keys in use, compact signatures, and one pair of
      functions per artifact. \<open>SigningProofs\<close>: what is signed verifies, and what verifies
      was signed under an unrevoked key. \<open>SigningLimits\<close>: descriptors, nonces, and
      what the scheme does not cover. \<open>SignedReceipts\<close> puts it under the orchestrator.
      \<open>TrustAnomaly\<close>: trust anchors, published keys, anomaly reports.
    \<^item> \<open>RateLimit\<close>: \<open>services/rate-limiter.ts\<close>, \<open>middleware/rate-limit.ts\<close> and
      \<open>backpressure.ts\<close>: the window bound over any history, and what a restart forgets.
    \<^item> \<open>AuditLog\<close>: \<open>services/audit-manager.ts\<close>: the chain, its verdict, tampering.
    \<^item> \<open>Auth\<close>, \<open>AuthProofs\<close>: \<open>middleware/auth.ts\<close>: every way in and what it rests on.
    \<^item> \<open>MutationRoutes\<close>, \<open>RouteProofs\<close>: \<open>/dispatch\<close>, \<open>/approve\<close> and the cancel route as
      gates over one server state, each passing, or replying and auditing.
    \<^item> \<open>MicroAgent\<close>: \<open>delegation.ts\<close> and the authorization of \<open>micro-agent.ts\<close> with its
      table of used tokens.
      \<open>MicroReceipts\<close>: the results and signed receipts an agent builds, and that they verify.
    \<^item> \<open>Versions\<close>: version comparison and negotiation of \<open>protocol/map-types.ts\<close>.
    \<^item> \<open>Delivery\<close>: the webhook loop of the orchestrator and \<open>approval-notifier.ts\<close>.
    \<^item> \<open>Metrics\<close>, \<open>SloMonitor\<close>, \<open>SigningUsage\<close>, \<open>Alerts\<close>: the monitoring services of
      \<open>server/services\<close>: request counters over a rolling window, error budgets, which keys
      signed what, and the life cycle of alerts. Each is shown exact with respect to the
      history of what it was told, or the theorem says what it misses.
    \<^item> \<open>Kms\<close>: \<open>security/kms-provider.ts\<close> and \<open>key-compromise.ts\<close> over a heap of key
      objects, because providers and the signing code share them.
    \<^item> \<open>SdkStorage\<close>, \<open>SdkWebhooks\<close>: the stores and the webhook queue of
      \<open>packages/typescript\<close>.
    \<^item> \<open>Site\<close>, \<open>AdminRoutes\<close>, \<open>PolicyRoutes\<close>, \<open>ReadRoutes\<close>: what the HTTP server keeps
      besides the runtime, how it reads a body, and \<open>admin-routes.ts\<close>, \<open>policy-routes.ts\<close>
      and \<open>read-routes.ts\<close>. A route maps the state to a new one and a throw, an answer or
      nothing. The locale \<open>site_relation\<close> lifts a relation on states through them;
      \<open>ReadProofs\<close> has what a read leaves as it was, and that following the cursors of a
      list shows it once.
    \<^item> \<open>HttpServer\<close>, \<open>HttpProofs\<close>: the request handler of \<open>server/index.ts\<close>: the routes in
      their order, the classification of what is thrown, and what is counted and saved.
    \<^item> \<open>DbReadAdapter\<close>, \<open>PaymentAdapter\<close>, \<open>HttpAdapter\<close>: the adapters of \<open>src/adapters\<close>: what
      they accept, what they ask of the other side and what they show of its answer.
      \<open>ReferenceApp\<close>: \<open>app.ts\<close>, which puts policy, executor and adapters together; its theorems
      are about an intent's whole way, from the bridge through the policy to the provider.
    \<^item> \<open>SdkPolicy\<close>: the policy engine of \<open>packages/typescript\<close>, which refines the list of
      rules in the order they were added. \<open>SdkClient\<close>, \<open>SdkCalls\<close>: its client, requests with
      middlewares and retries first, then batches, polling and the workflow. \<open>SdkSigner\<close>,
      \<open>SdkStream\<close>: the two ends of a protocol together: what the client signs the server accepts,
      what the server streams the client reads.
    \<^item> \<open>MapClient\<close>: \<open>sdk/client.ts\<close>; asking it for page after page shows the server's list.
    \<^item> \<open>ServerConfig\<close>: the options of \<open>server/config.ts\<close>.
    \<^item> \<open>Samples\<close>: concrete values the witnesses use.

  Conventions. Times are integers in milliseconds, given to an operation as an
  argument, like the random ids and bytes it draws. An object compared through
  \<open>JSON.stringify\<close> is compared as a value. A throw is \<open>Inl\<close> of an error datatype; a
  rejected promise too. Counters that the code clamps at zero are natural numbers.

  Parameters, for code outside the repository: the regular-expression engine (used
  only for patterns beyond letters, digits, dots and stars), \<open>JSON.parse\<close>, the JSON
  schema validators (Ajv), HMAC, RSA and the digests, the UTF-8 decoder, \<open>Date.parse\<close>,
  the URL parser, \<open>fetch\<close>, the database and the payment provider, the key set behind a JWKS address, \<open>localeCompare\<close> and the decimal
  text of a number that is no integer. A property that needs one of them to behave says
  so as a hypothesis (\<open>signing_laws\<close>: a verifier accepts what its signer made, and only
  for the same text) and has a witness at a concrete instance. Adapters and handlers are
  functions given by the caller; a call of one is logged with its arguments, and the
  answers of a webhook's other side are given, one per attempt.

  Loops. The queue's nested calls (\<open>maybeRunJobs\<close>, \<open>startJob\<close>, \<open>finishJob\<close>) are run
  on an explicit stack, with a termination proof: each iteration either shortens the
  queue or lightens the stack. \<open>waitForStoredResult\<close> is the code's own loop of 200
  attempts. The two delivery loops recurse on the attempts left. The webhook queue of the
  SDK is \<open>partial_function (option)\<close>: it may run forever, and a theorem says when it does.
  So is the client's polling, which ends when the clock moves on, and the client that follows the cursors of a list (\<open>follow\<close>, \<open>walk_tasks\<close>), shown to end
  when ids differ. A condition of a policy document is read to the depth of its value.

  Not modelled: the assembly of the server at start-up, TLS and the writing of responses
  to the socket; \<open>server/controllers\<close>, an older copy of the routes that nothing imports; the
  schema validators; of the TypeScript SDK the iterator around a stream, observability and sockets;
  the conformance kit. A policy
  document with a condition that the compiler rejects ends in \<open>OutsideModel\<close>.
  Two functions without a caller are left out: \<open>requeue\<close> of the queue and
  \<open>mapResultToExecution\<close> of the bridge.

  Divergences found while modelling are theorems of their own. Runtime:
  \<open>execute_ignores_always\<close>, \<open>decision_hook_disagrees\<close>, \<open>db_delete_not_durable\<close>,
  \<open>redelivery_overcommits\<close>, \<open>sql_comment_escape\<close>, \<open>cancelled_job_still_runs\<close>,
  \<open>dead_letter_receipt_says_ok\<close> and the claims on late jobs and repeated approvals.
  Signing: \<open>fresh_nonce_replays\<close>, \<open>small_numbers_collide\<close>, \<open>profile_only_limits_signing\<close>,
  \<open>verifier_false_alarm\<close>, \<open>stored_receipt_unverifiable\<close>. Server:
  \<open>refused_tenant_uses_global_slot\<close>, \<open>first_tenant_slot_not_saved\<close>,
  \<open>limiters_differ_at_zero\<close>, \<open>audit_text_ambiguous\<close>, \<open>forged_jwt_accepted\<close>,
  \<open>signed_request_replayable\<close>, \<open>scheme_not_enforced\<close>, \<open>runtime_revocation_shadowed\<close>,
  \<open>disabled_approval_unaudited\<close>, \<open>refused_attempt_spends_token\<close>,
  \<open>version_order_breaks\<close>, \<open>approval_signature_partial\<close>. Monitoring and keys:
  \<open>dead_letters_unnoticed\<close>, \<open>idle_queue_hides_dead_letters\<close>, \<open>foreign_keys_unnoticed\<close>,
  \<open>recurrence_stays_acknowledged\<close>, \<open>emergency_keeps_old_keys\<close>, \<open>rotation_unrevokes\<close>,
  \<open>rotated_key_lost\<close>, \<open>env_kms_ignores_revocations\<close>, \<open>env_emergency_revokes_nothing\<close>.
  Routes: \<open>capability_disable_hits_agent\<close>, \<open>misspelled_default_allows\<close>,
  \<open>anyone_replaces_policy\<close>, \<open>policy_denials_unaudited\<close>, \<open>tenant_stream_is_missing\<close>,
  \<open>ended_task_stream_stays_open\<close>, \<open>anyone_may_silence\<close>, \<open>env_profile_never_compliant\<close>.
  Adapters: \<open>trailing_semicolon_breaks\<close>, \<open>second_line_unseen\<close>, \<open>limit_word_lifts_limit\<close>,
  \<open>request_text_refused\<close>, \<open>renamed_column_shown\<close>, \<open>full_refund_unattended\<close>,
  \<open>private_range_open\<close>, \<open>intent_header_overwritten\<close>.
  SDK: \<open>network_failure_final\<close>, \<open>server_errors_final\<close>, \<open>after_failure_repeats\<close>,
  \<open>rewritten_path_unsigned\<close>, \<open>event_name_unused\<close>, \<open>line_signatures_refused\<close>, \<open>capability_rule_missed\<close>, \<open>receipt_index_lost\<close>, \<open>pages_skip_tasks\<close>, \<open>retries_never_end\<close>,
  \<open>reregistration_keeps_subscriptions\<close>.
\<close>

end
